(* ===== verification/Prelude.thy ===== *)
theory Prelude
  imports Main "HOL-Library.Word" "HOL-Library.Char_ord" "HOL-Library.List_Lexorder"
    "HOL-Library.Product_Lexorder"
begin

text \<open>
  Shared vocabulary of the development: fixed-width integers, results, the \<open>?\<close>-loop of Rust
  (\<open>try_fold\<close>), ordered maps (\<open>BTreeMap\<close>) as key-sorted association lists, and the generic
  lemmas the component theories use. Nothing here is specific to RouteLane.

  Strings are byte strings (\<^typ>\<open>string\<close>), the UTF-8 encoding of a Rust \<open>String\<close>; their
  order is the lexicographic order of the bytes, which is Rust's \<open>Ord\<close> on \<open>String\<close>.
\<close>

named_theorems rl_defs "definitions that the component proofs unfold"
named_theorems rl_keep "facts about what an operation leaves unchanged"

type_synonym u8 = "8 word"
type_synonym u32 = "32 word"
type_synonym u64 = "64 word"

section \<open>Results and loops that stop at the first error\<close>

type_synonym ('e, 'a) result = "'e + 'a"

definition ok_or :: "'e \<Rightarrow> 'a option \<Rightarrow> ('e, 'a) result" where
  "ok_or e x = (case x of None \<Rightarrow> Inl e | Some a \<Rightarrow> Inr a)"

definition and_then :: "('e, 'a) result \<Rightarrow> ('a \<Rightarrow> ('e, 'b) result) \<Rightarrow> ('e, 'b) result" where
  "and_then r f = (case r of Inl e \<Rightarrow> Inl e | Inr a \<Rightarrow> f a)"

definition map_err :: "('e \<Rightarrow> 'f) \<Rightarrow> ('e, 'a) result \<Rightarrow> ('f, 'a) result" where
  "map_err g r = (case r of Inl e \<Rightarrow> Inl (g e) | Inr a \<Rightarrow> Inr a)"

lemma and_then_simps [simp]:
  "and_then (Inl e) f = Inl e"
  "and_then (Inr a) f = f a"
  by (simp_all add: and_then_def)

lemma and_then_Inr_iff: "and_then r f = Inr b \<longleftrightarrow> (\<exists>a. r = Inr a \<and> f a = Inr b)"
  by (cases r) simp_all

lemma map_err_simps [simp]:
  "map_err g (Inl e) = Inl (g e)"
  "map_err g (Inr a) = Inr a"
  by (simp_all add: map_err_def)

lemma map_err_Inr_iff [simp]: "map_err g r = Inr a \<longleftrightarrow> r = Inr a"
  by (cases r) simp_all

lemma ok_or_simps [simp]:
  "ok_or e None = Inl e"
  "ok_or e (Some a) = Inr a"
  by (simp_all add: ok_or_def)

text \<open>A \<open>for\<close> loop whose body may leave the function with an error.\<close>

fun try_fold :: "('s \<Rightarrow> 'a \<Rightarrow> ('e, 's) result) \<Rightarrow> 's \<Rightarrow> 'a list \<Rightarrow> ('e, 's) result" where
  "try_fold f s [] = Inr s"
| "try_fold f s (x # xs) = (case f s x of Inl e \<Rightarrow> Inl e | Inr s' \<Rightarrow> try_fold f s' xs)"

text \<open>The same without a loop state: only the first failing check matters.\<close>

definition try_each :: "('a \<Rightarrow> ('e, unit) result) \<Rightarrow> 'a list \<Rightarrow> ('e, unit) result" where
  "try_each f xs = try_fold (\<lambda>_. f) () xs"

lemma try_each_simps [simp]:
  "try_each f [] = Inr ()"
  "try_each f (x # xs) = (case f x of Inl e \<Rightarrow> Inl e | Inr _ \<Rightarrow> try_each f xs)"
  by (simp_all add: try_each_def split: sum.split)

lemma try_each_Inr_iff: "try_each f xs = Inr () \<longleftrightarrow> (\<forall>x \<in> set xs. f x = Inr ())"
  by (induction xs) (auto split: sum.splits)

lemma try_each_Inl_ex: "try_each f xs = Inl e \<Longrightarrow> \<exists>x \<in> set xs. f x = Inl e"
  by (induction xs) (auto split: sum.splits)

lemma try_fold_append:
  "try_fold f s (xs @ ys) = and_then (try_fold f s xs) (\<lambda>s'. try_fold f s' ys)"
  by (induction xs arbitrary: s) (auto split: sum.splits)

lemma try_fold_inv:
  assumes "try_fold f s xs = Inr s'"
    and "I s"
    and "\<And>s x s'. x \<in> set xs \<Longrightarrow> I s \<Longrightarrow> f s x = Inr s' \<Longrightarrow> I s'"
  shows "I s'"
  using assms
proof (induction xs arbitrary: s)
  case (Cons x xs)
  then obtain t where t: "f s x = Inr t" "try_fold f t xs = Inr s'"
    by (auto split: sum.splits)
  have "I t" using Cons.prems(2) t(1) by (rule Cons.prems(3) [rotated]) simp
  with t(2) show ?case by (rule Cons.IH) (auto intro: Cons.prems(3))
qed simp

text \<open>
  The usual duplicate check: each round tests the element against what was seen and records it.
  \<open>scan_ok\<close> is the loop's success condition as a plain predicate.
\<close>

fun scan_ok :: "('s \<Rightarrow> 'a \<Rightarrow> bool) \<Rightarrow> ('s \<Rightarrow> 'a \<Rightarrow> 's) \<Rightarrow> 's \<Rightarrow> 'a list \<Rightarrow> bool" where
  "scan_ok ok upd s [] = True"
| "scan_ok ok upd s (x # xs) = (ok s x \<and> scan_ok ok upd (upd s x) xs)"

lemma try_fold_scan:
  assumes "\<And>s x. f s x = Inr (upd s x) \<and> ok s x \<or> (\<exists>e. f s x = Inl e) \<and> \<not> ok s x"
  shows "try_fold f s xs = (if scan_ok ok upd s xs then Inr (fold (\<lambda>x s. upd s x) xs s)
           else try_fold f s xs)"
    and "(\<exists>s'. try_fold f s xs = Inr s') \<longleftrightarrow> scan_ok ok upd s xs"
proof (induction xs arbitrary: s)
  case (Cons x xs)
  { case 1
    show ?case using assms [of s x] Cons.IH(1) [of "upd s x"] by auto
  next
    case 2
    show ?case using assms [of s x] Cons.IH(2) [of "upd s x"] by auto }
qed simp_all

lemma scan_ok_distinct:
  "scan_ok (\<lambda>seen x. g x \<notin> seen) (\<lambda>seen x. insert (g x) seen) S xs \<longleftrightarrow>
     distinct (map g xs) \<and> set (map g xs) \<inter> S = {}"
  by (induction xs arbitrary: S) auto

lemma scan_ok_conj:
  "scan_ok (\<lambda>(s, t) x. p s x \<and> q t x) (\<lambda>(s, t) x. (u s x, v t x)) (s, t) xs \<longleftrightarrow>
     scan_ok p u s xs \<and> scan_ok q v t xs"
  by (induction xs arbitrary: s t) auto

lemma scan_ok_static: "scan_ok (\<lambda>s x. p x) u s xs \<longleftrightarrow> (\<forall>x \<in> set xs. p x)"
  by (induction xs arbitrary: s) auto

lemma scan_ok_mono_iff:
  assumes "\<And>s x. x \<in> set xs \<Longrightarrow> p s x \<longleftrightarrow> q x \<and> r s x"
  shows "scan_ok p u s xs \<longleftrightarrow> (\<forall>x \<in> set xs. q x) \<and> scan_ok r u s xs"
  using assms by (induction xs arbitrary: s) auto

lemma fold_insert_set: "fold (\<lambda>x s. insert (g x) s) xs S = set (map g xs) \<union> S"
  by (induction xs arbitrary: S) auto

section \<open>Ordered maps\<close>

text \<open>
  The interface the model uses of \<open>BTreeMap\<close>: entries in increasing key order, at most one per
  key, insertion overwriting. The laws are what every client relies on.
\<close>

lemma map_of_rev_distinct: "distinct (map fst xs) \<Longrightarrow> map_of (rev xs) k = map_of xs k"
proof -
  assume d: "distinct (map fst xs)"
  then have d': "distinct (map fst (rev xs))" by (simp flip: rev_map)
  have "map_of (rev xs) = map_of xs"
    by (rule map_of_inject_set [THEN iffD2, OF d' d]) simp
  then show ?thesis by simp
qed

locale ordered_map =
  fixes empty :: "'m"
    and insert_key :: "'k::linorder \<Rightarrow> 'v \<Rightarrow> 'm \<Rightarrow> 'm"
    and get_key :: "'m \<Rightarrow> 'k \<Rightarrow> 'v option"
    and entries :: "'m \<Rightarrow> ('k \<times> 'v) list"
    and wf :: "'m \<Rightarrow> bool"
  assumes wf_empty: "wf empty"
    and wf_insert: "wf m \<Longrightarrow> wf (insert_key k v m)"
    and get_empty: "get_key empty k = None"
    and get_insert: "wf m \<Longrightarrow> get_key (insert_key k v m) = (get_key m)(k \<mapsto> v)"
    and entries_get: "wf m \<Longrightarrow> map_of (entries m) = get_key m"
    and entries_sorted: "wf m \<Longrightarrow> sorted_wrt (<) (map fst (entries m))"
begin

definition collect :: "('k \<times> 'v) list \<Rightarrow> 'm" where
  "collect xs = fold (\<lambda>(k, v) m. insert_key k v m) xs empty"

lemma collect_aux:
  assumes "wf m"
  shows "wf (fold (\<lambda>(k, v) m. insert_key k v m) xs m) \<and>
    get_key (fold (\<lambda>(k, v) m. insert_key k v m) xs m) = get_key m ++ map_of (rev xs)"
  using assms
proof (induction xs arbitrary: m)
  case (Cons x xs)
  obtain k v where x: "x = (k, v)" by (cases x)
  have "wf (insert_key k v m)" using Cons.prems by (rule wf_insert)
  from Cons.IH [OF this] show ?case
    using Cons.prems by (simp add: x get_insert map_add_upd_left fun_eq_iff map_add_def
        split: option.splits)
qed simp

lemma wf_collect: "wf (collect xs)"
  using collect_aux [OF wf_empty] by (simp add: collect_def)

lemma get_collect: "get_key (collect xs) = map_of (rev xs)"
  using collect_aux [OF wf_empty, of xs] get_empty
  by (simp add: collect_def fun_eq_iff map_add_def split: option.splits)

lemma get_collect_distinct: "distinct (map fst xs) \<Longrightarrow> get_key (collect xs) = map_of xs"
  by (simp add: get_collect fun_eq_iff map_of_rev_distinct)

lemma distinct_entries: "wf m \<Longrightarrow> distinct (map fst (entries m))"
  using entries_sorted strict_sorted_iff by blast

lemma in_entries_iff: "wf m \<Longrightarrow> (k, v) \<in> set (entries m) \<longleftrightarrow> get_key m k = Some v"
  using distinct_entries entries_get by (metis map_of_eq_Some_iff)

end

text \<open>The model's ordered map is a strictly key-sorted association list.\<close>

type_synonym ('k, 'v) btree = "('k \<times> 'v) list"

fun bt_insert :: "'k::linorder \<Rightarrow> 'v \<Rightarrow> ('k, 'v) btree \<Rightarrow> ('k, 'v) btree" where
  "bt_insert k v [] = [(k, v)]"
| "bt_insert k v ((k', v') # m) =
     (if k < k' then (k, v) # (k', v') # m
      else if k = k' then (k, v) # m
      else (k', v') # bt_insert k v m)"

abbreviation bt_get :: "('k, 'v) btree \<Rightarrow> 'k \<Rightarrow> 'v option" where
  "bt_get \<equiv> map_of"

definition bt_wf :: "('k::linorder, 'v) btree \<Rightarrow> bool" where
  "bt_wf m = sorted_wrt (<) (map fst m)"

definition bt_collect :: "('k::linorder \<times> 'v) list \<Rightarrow> ('k, 'v) btree" where
  "bt_collect xs = fold (\<lambda>(k, v) m. bt_insert k v m) xs []"

lemma bt_get_insert: "bt_get (bt_insert k v m) = (bt_get m)(k \<mapsto> v)"
  by (induction k v m rule: bt_insert.induct) (auto simp: fun_eq_iff)

lemma fst_set_bt_insert: "fst ` set (bt_insert k v m) = insert k (fst ` set m)"
  by (induction k v m rule: bt_insert.induct) auto

lemma bt_wf_insert: "bt_wf m \<Longrightarrow> bt_wf (bt_insert k v m)"
  unfolding bt_wf_def
proof (induction k v m rule: bt_insert.induct)
  case (2 k v k' v' m)
  then show ?case using fst_set_bt_insert [of k v m] by auto
qed simp

interpretation bt: ordered_map "[]" bt_insert map_of "\<lambda>m. m" bt_wf
  by unfold_locales (auto simp: bt_wf_insert bt_get_insert, auto simp: bt_wf_def)

lemma bt_collect_eq: "bt_collect = bt.collect"
  by (simp add: fun_eq_iff bt_collect_def bt.collect_def)

lemmas bt_collect_wf = bt.wf_collect [folded bt_collect_eq]
lemmas bt_get_collect = bt.get_collect [folded bt_collect_eq]
lemmas bt_get_collect_distinct = bt.get_collect_distinct [folded bt_collect_eq]

section \<open>Vectors\<close>

text \<open>\<open>sort\<close> then \<open>dedup\<close>, the idiom the code uses to make a vector canonical.\<close>

definition sort_dedup :: "'a::linorder list \<Rightarrow> 'a list" where
  "sort_dedup xs = remdups_adj (sort xs)"

lemma set_sort_dedup [simp]: "set (sort_dedup xs) = set xs"
  by (simp add: sort_dedup_def)

lemma sorted_remdups_adj_strict: "sorted xs \<Longrightarrow> sorted_wrt (<) (remdups_adj xs)"
proof (induction xs rule: remdups_adj.induct)
  case (3 x y xs)
  show ?case
  proof (cases "x = y")
    case True
    with 3 show ?thesis by simp
  next
    case False
    with 3 show ?thesis by force
  qed
qed simp_all

lemma strict_sort_dedup: "sorted_wrt (<) (sort_dedup xs)"
  by (simp add: sort_dedup_def sorted_remdups_adj_strict)

lemma distinct_sort_dedup: "distinct (sort_dedup xs)"
  using strict_sort_dedup strict_sorted_iff by blast

lemma sort_dedup_idem [simp]: "sort_dedup (sort_dedup xs) = sort_dedup xs"
  using strict_sort_dedup [of xs]
  by (simp add: sort_dedup_def strict_sorted_iff sorted_sort_id remdups_adj_distinct)

text \<open>\<open>retain(|x| seen.insert(key(x)))\<close>: keep the first element of each key.\<close>

fun retain_first :: "('a \<Rightarrow> 'k) \<Rightarrow> 'k set \<Rightarrow> 'a list \<Rightarrow> 'a list" where
  "retain_first f seen [] = []"
| "retain_first f seen (x # xs) =
     (if f x \<in> seen then retain_first f seen xs
      else x # retain_first f (insert (f x) seen) xs)"

lemma retain_first_keys:
  "f ` set (retain_first f seen xs) = f ` set xs - seen"
  by (induction f seen xs rule: retain_first.induct) auto

lemma retain_first_distinct:
  "distinct (map f (retain_first f seen xs)) \<and> f ` set (retain_first f seen xs) \<inter> seen = {}"
proof (induction f seen xs rule: retain_first.induct)
  case (2 f seen x xs)
  then show ?case using retain_first_keys [of f "insert (f x) seen" xs] by auto
qed simp

lemma retain_first_subset: "set (retain_first f seen xs) \<subseteq> set xs"
  by (induction f seen xs rule: retain_first.induct) auto

lemma retain_first_sorted_wrt: "sorted_wrt R xs \<Longrightarrow> sorted_wrt R (retain_first f seen xs)"
proof (induction f seen xs rule: retain_first.induct)
  case (2 f seen x xs)
  then show ?case using retain_first_subset [of f "insert (f x) seen" xs] by auto
qed simp

lemma find_Some_iff_first:
  "find P xs = Some x \<longleftrightarrow> (\<exists>ys zs. xs = ys @ x # zs \<and> P x \<and> (\<forall>y \<in> set ys. \<not> P y))"
proof (induction xs)
  case (Cons a xs)
  show ?case
  proof (cases "P a")
    case True
    then show ?thesis by (auto simp: Cons_eq_append_conv)
  next
    case False
    then show ?thesis using Cons.IH
      by (auto simp: Cons_eq_append_conv)
         (metis list.set_intros(1) list.set_intros(2) set_ConsD)
  qed
qed simp

lemma find_Some_in: "find P xs = Some x \<Longrightarrow> x \<in> set xs \<and> P x"
  by (metis find_Some_iff nth_mem)

lemma find_distinct_key:
  "distinct (map f xs) \<Longrightarrow> x \<in> set xs \<Longrightarrow> find (\<lambda>y. f y = f x) xs = Some x"
  by (induction xs) (auto simp: image_iff)

lemma find_map_of: "find (\<lambda>y. f y = k) xs = map_of (map (\<lambda>y. (f y, y)) xs) k"
  by (induction xs) auto

lemma word_of_nat_eq_small:
  assumes m: "m < 2 ^ LENGTH('a::len)" and n: "n < 2 ^ LENGTH('a)"
  shows "((of_nat m :: 'a word) = of_nat n) \<longleftrightarrow> m = n"
proof
  assume eq: "(of_nat m :: 'a word) = of_nat n"
  have "unat (of_nat m :: 'a word) = unat (of_nat n :: 'a word)" by (simp only: eq)
  with m n show "m = n" by (simp add: unat_of_nat)
qed simp

section \<open>Machines and their invariants\<close>

text \<open>
  The contract several components share: a step function, a guard that says which events the
  environment may send, and an invariant that each allowed step keeps.
\<close>

locale machine =
  fixes step :: "'s \<Rightarrow> 'e \<Rightarrow> 's"
    and allowed :: "'e \<Rightarrow> bool"
    and inv :: "'s \<Rightarrow> bool"
  assumes inv_step: "inv s \<Longrightarrow> allowed e \<Longrightarrow> inv (step s e)"
begin

lemma inv_run: "inv s \<Longrightarrow> \<forall>e \<in> set es. allowed e \<Longrightarrow> inv (fold (\<lambda>e s. step s e) es s)"
  by (induction es arbitrary: s) (auto intro: inv_step)

lemma inv_prefixes:
  "inv s \<Longrightarrow> \<forall>e \<in> set es. allowed e \<Longrightarrow> inv (fold (\<lambda>e s. step s e) (take n es) s)"
  by (rule inv_run) (auto dest: in_set_takeD)

end

end
