(* ===== verification/Rust_Text.thy ===== *)
theory Rust_Text
  imports Prelude
begin

text \<open>
  The operations of Rust's standard library on \<open>str\<close>, \<open>PathBuf\<close>, \<open>IpAddr\<close> and \<open>Duration\<close>
  that RouteLane's code uses, on byte strings. The Unicode case tables behind
  \<open>str::to_lowercase\<close> and the \<open>ipnet\<close> crate are not in the repository; they are fields of the
  parameter record \<open>foreign\<close>, which the definitions that use them take as an argument.
\<close>

section \<open>Strings\<close>

definition byte :: "int \<Rightarrow> char" where
  "byte n = char_of n"

text \<open>
  \<open>str::trim\<close> removes every leading and trailing code point with the Unicode property
  \<open>White_Space\<close>; these are their UTF-8 encodings.
\<close>

definition white_space_codes :: "string list" where
  "white_space_codes =
     map (\<lambda>n. [byte n]) [9, 10, 11, 12, 13, 32] @
     [[byte 0xC2, byte 0x85], [byte 0xC2, byte 0xA0], [byte 0xE1, byte 0x9A, byte 0x80]] @
     map (\<lambda>n. [byte 0xE2, byte 0x80, byte n]) [0x80, 0x81, 0x82, 0x83, 0x84, 0x85, 0x86, 0x87, 0x88, 0x89, 0x8A, 0xA8, 0xA9, 0xAF] @
     [[byte 0xE2, byte 0x81, byte 0x9F], [byte 0xE3, byte 0x80, byte 0x80]]"

fun strip_prefix :: "string \<Rightarrow> string \<Rightarrow> string option" where
  "strip_prefix [] s = Some s"
| "strip_prefix (p # ps) [] = None"
| "strip_prefix (p # ps) (c # cs) = (if p = c then strip_prefix ps cs else None)"

definition starts_with :: "string \<Rightarrow> string \<Rightarrow> bool" where
  "starts_with p s = (strip_prefix p s \<noteq> None)"

fun first_strip :: "string list \<Rightarrow> string \<Rightarrow> string option" where
  "first_strip [] s = None"
| "first_strip (p # ps) s =
     (case strip_prefix p s of Some r \<Rightarrow> Some r | None \<Rightarrow> first_strip ps s)"

lemma strip_prefix_Some_iff: "strip_prefix p s = Some r \<longleftrightarrow> s = p @ r"
  by (induction p s rule: strip_prefix.induct) auto

lemma strip_prefix_append [simp]: "strip_prefix p (p @ r) = Some r"
  by (simp add: strip_prefix_Some_iff)

lemma starts_with_iff: "starts_with p s \<longleftrightarrow> (\<exists>r. s = p @ r)"
  by (auto simp: starts_with_def strip_prefix_Some_iff)

lemma first_strip_shorter:
  "\<forall>p \<in> set ps. p \<noteq> [] \<Longrightarrow> first_strip ps s = Some r \<Longrightarrow> length r < length s"
  by (induction ps) (auto simp: strip_prefix_Some_iff split: option.splits)

lemma white_space_codes_nonempty: "\<forall>p \<in> set white_space_codes. p \<noteq> []"
  by (auto simp: white_space_codes_def)

function trim_start :: "string \<Rightarrow> string" where
  "trim_start s =
     (case first_strip white_space_codes s of None \<Rightarrow> s | Some r \<Rightarrow> trim_start r)"
  by pat_completeness auto
termination
  by (relation "measure length")
     (auto intro: first_strip_shorter [OF white_space_codes_nonempty])

function trim_end_rev :: "string \<Rightarrow> string" where
  "trim_end_rev s =
     (case first_strip (map rev white_space_codes) s of None \<Rightarrow> s | Some r \<Rightarrow> trim_end_rev r)"
  by pat_completeness auto
termination
  by (relation "measure length")
     (use white_space_codes_nonempty in
       \<open>auto intro!: first_strip_shorter [where ps = "map rev white_space_codes"]\<close>)

declare trim_start.simps [simp del] trim_end_rev.simps [simp del]

definition trim_end :: "string \<Rightarrow> string" where
  "trim_end s = rev (trim_end_rev (rev s))"

definition trim :: "string \<Rightarrow> string" where
  "trim s = trim_end (trim_start s)"

definition trim_end_matches :: "char \<Rightarrow> string \<Rightarrow> string" where
  "trim_end_matches c s = rev (dropWhile (\<lambda>x. x = c) (rev s))"

definition ascii_lower :: "char \<Rightarrow> char" where
  "ascii_lower c =
     (let n = of_char c :: int in if 65 \<le> n \<and> n \<le> 90 then char_of (n + 32) else c)"

definition to_ascii_lowercase :: "string \<Rightarrow> string" where
  "to_ascii_lowercase s = map ascii_lower s"

definition is_ascii_digit :: "char \<Rightarrow> bool" where
  "is_ascii_digit c = (let n = of_char c :: int in 48 \<le> n \<and> n \<le> 57)"

definition is_ascii_uppercase :: "char \<Rightarrow> bool" where
  "is_ascii_uppercase c = (let n = of_char c :: int in 65 \<le> n \<and> n \<le> 90)"

definition is_ascii_lowercase :: "char \<Rightarrow> bool" where
  "is_ascii_lowercase c = (let n = of_char c :: int in 97 \<le> n \<and> n \<le> 122)"

definition is_ascii_alphanumeric :: "char \<Rightarrow> bool" where
  "is_ascii_alphanumeric c = (is_ascii_digit c \<or> is_ascii_uppercase c \<or> is_ascii_lowercase c)"

definition is_ascii_hexdigit :: "char \<Rightarrow> bool" where
  "is_ascii_hexdigit c =
     (is_ascii_digit c \<or> (let n = of_char c :: int in 65 \<le> n \<and> n \<le> 70 \<or> 97 \<le> n \<and> n \<le> 102))"

text \<open>\<open>split_once\<close> at a character: the parts around its first occurrence.\<close>

fun split_once :: "char \<Rightarrow> string \<Rightarrow> (string \<times> string) option" where
  "split_once c [] = None"
| "split_once c (x # xs) =
     (if x = c then Some ([], xs)
      else map_option (\<lambda>(a, b). (x # a, b)) (split_once c xs))"

fun split_on :: "char \<Rightarrow> string \<Rightarrow> string list" where
  "split_on c [] = [[]]"
| "split_on c (x # xs) =
     (if x = c then [] # split_on c xs
      else (case split_on c xs of [] \<Rightarrow> [[x]] | p # ps \<Rightarrow> (x # p) # ps))"

lemma split_once_Some_iff: "split_once c s = Some (a, b) \<longleftrightarrow> s = a @ c # b \<and> c \<notin> set a"
proof (induction c s arbitrary: a b rule: split_once.induct)
  case (2 c x xs)
  show ?case
  proof (cases "x = c")
    case True
    then show ?thesis by (cases a) auto
  next
    case False
    with 2 show ?thesis by (cases a) auto
  qed
qed simp

subsection \<open>Decimal and hexadecimal numbers\<close>

text \<open>
  \<open>str::parse\<close> for an unsigned integer: an optional plus sign, then one or more digits, with a
  check that the value fits. \<open>from_str_radix\<close> is the same in another base.
\<close>

definition digit_value :: "char \<Rightarrow> int option" where
  "digit_value c =
     (let n = of_char c :: int in
      if 48 \<le> n \<and> n \<le> 57 then Some (n - 48)
      else if 65 \<le> n \<and> n \<le> 90 then Some (n - 55)
      else if 97 \<le> n \<and> n \<le> 122 then Some (n - 87)
      else None)"

fun radix_value :: "int \<Rightarrow> int \<Rightarrow> string \<Rightarrow> int option" where
  "radix_value r acc [] = Some acc"
| "radix_value r acc (c # cs) =
     (case digit_value c of
        Some d \<Rightarrow> if d < r then radix_value r (r * acc + d) cs else None
      | None \<Rightarrow> None)"

definition parse_radix :: "int \<Rightarrow> int \<Rightarrow> string \<Rightarrow> int option" where
  "parse_radix r bound s =
     (let digits = (case s of c # cs \<Rightarrow> if c = CHR ''+'' then cs else s | [] \<Rightarrow> s) in
      if digits = [] then None
      else (case radix_value r 0 digits of
          Some n \<Rightarrow> if n < bound then Some n else None
        | None \<Rightarrow> None))"

definition parse_u32 :: "string \<Rightarrow> u32 option" where
  "parse_u32 s = map_option of_int (parse_radix 10 (2 ^ 32) s)"

definition parse_u32_hex :: "string \<Rightarrow> u32 option" where
  "parse_u32_hex s = map_option of_int (parse_radix 16 (2 ^ 32) s)"

function digits_of :: "int \<Rightarrow> int \<Rightarrow> int list" where
  "digits_of b n = (if b \<le> 1 \<or> n < b then [n] else digits_of b (n div b) @ [n mod b])"
  by pat_completeness auto
termination
proof (relation "measure (\<lambda>(b, n). nat n)", goal_cases)
  case (2 b n)
  then have "0 < n div b" "n div b < n" by (simp_all add: pos_imp_zdiv_pos_iff int_div_less_self)
  then show ?case by simp
qed simp

declare digits_of.simps [simp del]

definition digit_char :: "int \<Rightarrow> char" where
  "digit_char d = (if d < 10 then char_of (d + 48) else char_of (d + 87))"

definition decimal :: "int \<Rightarrow> string" where
  "decimal n = map digit_char (digits_of 10 n)"

definition lower_hex :: "int \<Rightarrow> string" where
  "lower_hex n = map digit_char (digits_of 16 n)"

definition pad_left :: "nat \<Rightarrow> string \<Rightarrow> string" where
  "pad_left w s = replicate (w - length s) (CHR ''0'') @ s"

text \<open>\<open>format!("{:#010x}")\<close> and \<open>format!("{:08x}")\<close> of a \<open>u32\<close>.\<close>

definition hex_0x08 :: "u32 \<Rightarrow> string" where
  "hex_0x08 m = ''0x'' @ pad_left 8 (lower_hex (uint m))"

definition hex_08 :: "u32 \<Rightarrow> string" where
  "hex_08 m = pad_left 8 (lower_hex (uint m))"

section \<open>Paths\<close>

text \<open>
  Two \<open>PathBuf\<close>s are equal (and ordered) by their components: repeated and trailing separators
  and inner \<open>.\<close> components do not count, a leading \<open>.\<close> does.
\<close>

type_synonym path = string
type_synonym path_key = "bool \<times> string list"

definition path_key :: "path \<Rightarrow> path_key" where
  "path_key p =
     (let rooted = (case p of c # _ \<Rightarrow> c = CHR ''/'' | [] \<Rightarrow> False);
          parts = split_on (CHR ''/'') p;
          kept = filter (\<lambda>x. x \<noteq> [] \<and> x \<noteq> ''.'') (tl parts);
          lead = (if hd parts = [] then [] else [hd parts])
      in (rooted, lead @ kept))"

section \<open>IP addresses\<close>

datatype ip_addr = V4Addr u32 | V6Addr "128 word"

definition is_ipv4 :: "ip_addr \<Rightarrow> bool" where
  "is_ipv4 a = (case a of V4Addr _ \<Rightarrow> True | V6Addr _ \<Rightarrow> False)"

text \<open>The derived order of the enum: every IPv4 address before every IPv6 address.\<close>

instantiation ip_addr :: linorder
begin

fun less_eq_ip_addr :: "ip_addr \<Rightarrow> ip_addr \<Rightarrow> bool" where
  "less_eq_ip_addr (V4Addr a) (V4Addr b) = (a \<le> b)"
| "less_eq_ip_addr (V4Addr a) (V6Addr b) = True"
| "less_eq_ip_addr (V6Addr a) (V4Addr b) = False"
| "less_eq_ip_addr (V6Addr a) (V6Addr b) = (a \<le> b)"

definition less_ip_addr :: "ip_addr \<Rightarrow> ip_addr \<Rightarrow> bool" where
  "less_ip_addr a b = (a \<le> b \<and> \<not> b \<le> a)"

instance
proof
  fix x y z :: ip_addr
  show "x < y \<longleftrightarrow> x \<le> y \<and> \<not> y \<le> x" by (simp add: less_ip_addr_def)
  show "x \<le> x" by (cases x) simp_all
  show "x \<le> y \<Longrightarrow> y \<le> z \<Longrightarrow> x \<le> z" by (cases x; cases y; cases z) simp_all
  show "x \<le> y \<Longrightarrow> y \<le> x \<Longrightarrow> x = y" by (cases x; cases y) simp_all
  show "x \<le> y \<or> y \<le> x" by (cases x; cases y) auto
qed

end

text \<open>\<open>Display\<close> of the two address types.\<close>

definition byte_at :: "nat \<Rightarrow> 'a::len word \<Rightarrow> int" where
  "byte_at i w = uint (drop_bit (8 * i) w) mod 256"

definition ipv4_to_string :: "u32 \<Rightarrow> string" where
  "ipv4_to_string a =
     decimal (byte_at 3 a) @ ''.'' @ decimal (byte_at 2 a) @ ''.'' @
     decimal (byte_at 1 a) @ ''.'' @ decimal (byte_at 0 a)"

definition segments :: "128 word \<Rightarrow> int list" where
  "segments a = map (\<lambda>i. uint (drop_bit (16 * i) a) mod 65536) [7, 6, 5, 4, 3, 2, 1, 0]"

text \<open>The longest run of zero segments, the first one of that length, as (start, length).\<close>

fun zero_run :: "int list \<Rightarrow> nat \<Rightarrow> nat \<times> nat \<Rightarrow> nat \<times> nat \<Rightarrow> nat \<times> nat" where
  "zero_run [] i cur best = best"
| "zero_run (s # ss) i (cs, cl) (bs, bl) =
     (if s = 0 then
        (let cs' = (if cl = 0 then i else cs); cl' = cl + 1 in
         zero_run ss (i + 1) (cs', cl') (if bl < cl' then (cs', cl') else (bs, bl)))
      else zero_run ss (i + 1) (0, 0) (bs, bl))"

fun join :: "string \<Rightarrow> string list \<Rightarrow> string" where
  "join sep [] = []"
| "join sep [x] = x"
| "join sep (x # xs) = x @ sep @ join sep xs"

definition ipv6_to_string :: "128 word \<Rightarrow> string" where
  "ipv6_to_string a =
     (let segs = segments a in
      if take 6 segs = [0, 0, 0, 0, 0, 65535] then ''::ffff:'' @ ipv4_to_string (ucast a)
      else
        (let (start, len) = zero_run segs 0 (0, 0) (0, 0) in
         if 1 < len then
           join '':'' (map lower_hex (take start segs)) @ ''::'' @
           join '':'' (map lower_hex (drop (start + len) segs))
         else join '':'' (map lower_hex segs)))"

fun ip_to_string :: "ip_addr \<Rightarrow> string" where
  "ip_to_string (V4Addr a) = ipv4_to_string a"
| "ip_to_string (V6Addr a) = ipv6_to_string a"

section \<open>Time\<close>

text \<open>A \<open>Duration\<close> is a number of nanoseconds below \<open>2 ^ 64\<close> seconds.\<close>

type_synonym duration = nat

definition duration_max :: nat where
  "duration_max = 2 ^ 64 * 1000000000 - 1"

definition from_secs :: "nat \<Rightarrow> duration" where
  "from_secs s = s * 1000000000"

definition dur_checked_sub :: "duration \<Rightarrow> duration \<Rightarrow> duration option" where
  "dur_checked_sub a b = (if b \<le> a then Some (a - b) else None)"

definition dur_checked_add :: "duration \<Rightarrow> duration \<Rightarrow> duration option" where
  "dur_checked_add a b = (if a + b \<le> duration_max then Some (a + b) else None)"

section \<open>Code outside the repository\<close>

text \<open>
  \<open>'n\<close> is the \<open>ipnet::IpNet\<close> type. Its derived order is the type class of \<open>'n\<close>; the fields are
  its methods, and the case mapping of \<open>str::to_lowercase\<close>.
\<close>

record 'n foreign =
  net_trunc :: "'n \<Rightarrow> 'n"              \<comment> \<open>\<open>IpNet::trunc\<close>\<close>
  net_of_addr :: "ip_addr \<Rightarrow> 'n"       \<comment> \<open>\<open>IpNet::from(IpAddr)\<close>\<close>
  net_addr :: "'n \<Rightarrow> ip_addr"          \<comment> \<open>\<open>IpNet::addr\<close>\<close>
  net_prefix_len :: "'n \<Rightarrow> nat"        \<comment> \<open>\<open>IpNet::prefix_len\<close>\<close>
  net_parse :: "string \<Rightarrow> 'n option"   \<comment> \<open>\<open>IpNet::from_str\<close>\<close>
  to_lowercase :: "string \<Rightarrow> string"   \<comment> \<open>\<open>str::to_lowercase\<close>\<close>

text \<open>
  What the \<open>ipnet\<close> documentation says of these methods: truncation clears host bits and keeps
  family and prefix length; a network made of an address has the full prefix and that address.
\<close>

definition ipnet_laws :: "'n foreign \<Rightarrow> bool" where
  "ipnet_laws X \<longleftrightarrow>
     (\<forall>n. net_trunc X (net_trunc X n) = net_trunc X n) \<and>
     (\<forall>n. is_ipv4 (net_addr X (net_trunc X n)) = is_ipv4 (net_addr X n)) \<and>
     (\<forall>n. net_prefix_len X (net_trunc X n) = net_prefix_len X n) \<and>
     (\<forall>a. net_addr X (net_of_addr X a) = a) \<and>
     (\<forall>a. net_trunc X (net_of_addr X a) = net_of_addr X a)"

text \<open>
  A concrete instance, used by the witnesses only: a network is (address, prefix length), and
  truncation masks the host bits. Parsing is not needed there.
\<close>

definition mask_addr :: "ip_addr \<Rightarrow> nat \<Rightarrow> ip_addr" where
  "mask_addr a p =
     (case a of
        V4Addr w \<Rightarrow> V4Addr (push_bit (32 - p) (drop_bit (32 - p) w))
      | V6Addr w \<Rightarrow> V6Addr (push_bit (128 - p) (drop_bit (128 - p) w)))"

definition demo_foreign :: "(ip_addr \<times> nat) foreign" where
  "demo_foreign = \<lparr>
     net_trunc = (\<lambda>(a, p). (mask_addr a p, p)),
     net_of_addr = (\<lambda>a. (a, if is_ipv4 a then 32 else 128)),
     net_addr = fst,
     net_prefix_len = snd,
     net_parse = (\<lambda>_. None),
     to_lowercase = to_ascii_lowercase\<rparr>"

lemma mask_word_idem:
  "push_bit k (drop_bit k (push_bit k (drop_bit k w))) = push_bit k (drop_bit k (w :: 'a::len word))"
  by (rule bit_word_eqI) (auto simp: bit_simps)

lemma ipnet_laws_demo: "ipnet_laws demo_foreign"
  by (auto simp: ipnet_laws_def demo_foreign_def mask_addr_def is_ipv4_def mask_word_idem
      split: ip_addr.splits)

end
