(* ===== verification/Domain.thy ===== *)
theory Domain
  imports Rust_Text
begin

text \<open>
  The user's configuration (\<open>src/src/domain\<close>): rules with their duplicate key and execution
  order (\<open>rule.rs\<close>), the routing policy (\<open>routing.rs\<close>), lanes and profiles with their validation
  (\<open>profile.rs\<close>). The lemmas show that validation accepts exactly the profiles the declarative
  predicate \<open>profile_ok\<close> describes, in particular exactly those with an acyclic fallback graph.
\<close>

section \<open>Rules\<close>

type_synonym lane_id = string
type_synonym rule_id = string
type_synonym profile_id = string

record application_launch =
  al_executable :: path
  al_arguments :: "string list"

record application_selector =
  as_desktop_id :: "string option"
  as_executable_path :: path
  as_include_children :: bool
  as_launch :: "application_launch option"

datatype rule_source = SourceAny | SourceApplication application_selector

datatype 'n rule_target =
    TargetAny
  | TargetDomain string
  | TargetWildcardDomain string
  | TargetIp ip_addr
  | TargetCidr 'n
  | TargetServicePack string

datatype rule_action = ActionRoute lane_id | ActionDirect | ActionBlock

record 'n rule =
  r_id :: rule_id
  r_enabled :: bool
  r_priority :: u32
  r_source :: rule_source
  r_target :: "'n rule_target"
  r_action :: rule_action

fun normalized :: "'n foreign \<Rightarrow> 'n rule_target \<Rightarrow> 'n rule_target" where
  "normalized X (TargetDomain d) =
     TargetDomain (to_ascii_lowercase (trim_end_matches (CHR ''.'') (trim d)))"
| "normalized X (TargetCidr n) = TargetCidr (net_trunc X n)"
| "normalized X t = t"

record 'n rule_key =
  k_source :: "(path_key \<times> bool) option"
  k_target :: "'n rule_target"
  k_action :: rule_action

definition duplicate_key :: "'n foreign \<Rightarrow> 'n rule \<Rightarrow> 'n rule_key" where
  "duplicate_key X r = \<lparr>
     k_source = (case r_source r of
         SourceAny \<Rightarrow> None
       | SourceApplication s \<Rightarrow> Some (path_key (as_executable_path s), as_include_children s)),
     k_target = (case normalized X (r_target r) of
         TargetIp a \<Rightarrow> TargetCidr (net_of_addr X a)
       | t \<Rightarrow> t),
     k_action = r_action r\<rparr>"

text \<open>\<open>execution_cmp\<close> compares priorities, then identifiers: the lexicographic order of this key.\<close>

definition execution_key :: "'n rule \<Rightarrow> u32 \<times> rule_id" where
  "execution_key r = (r_priority r, r_id r)"

section \<open>Lanes, policies and profiles\<close>

datatype lane_failure_policy = FailBlock | FailDirect | FailInactive

record lane =
  l_id :: lane_id
  l_name :: string
  l_interface :: string
  l_fallback_lane :: "lane_id option"
  l_failure_policy :: lane_failure_policy

datatype primary_selection = FollowSystemDefault | PrimaryLane lane_id

datatype unmatched_traffic = PreserveSystem | UsePrimary

record routing_policy =
  rp_unmatched_traffic :: unmatched_traffic
  rp_primary :: primary_selection
  rp_backups :: "lane_id list"
  rp_automatic_failover :: bool

definition default_routing_policy :: routing_policy where
  "default_routing_policy = \<lparr>
     rp_unmatched_traffic = PreserveSystem,
     rp_primary = FollowSystemDefault,
     rp_backups = [],
     rp_automatic_failover = True\<rparr>"

record 'n profile =
  p_id :: profile_id
  p_name :: string
  p_enabled :: bool
  p_lanes :: "lane list"
  p_rules :: "'n rule list"
  p_routing :: routing_policy

datatype domain_error =
    TooManyLanes nat nat
  | TooManyRules nat nat
  | DuplicateLaneId lane_id
  | EmptyLaneName lane_id
  | DuplicateLaneName string
  | DuplicateRuleId rule_id
  | DuplicateRule rule_id rule_id
  | InvalidApplicationRule rule_id
  | EmptyApplicationExecutable rule_id
  | DuplicateApplicationDesktopId string
  | UnknownLane lane_id
  | SelfReferentialFallback lane_id
  | FallbackCycle lane_id
  | PrimaryIsBackup lane_id
  | DuplicateBackupLane lane_id

subsection \<open>Routing policy validation\<close>

definition lane_exists :: "lane list \<Rightarrow> lane_id \<Rightarrow> bool" where
  "lane_exists lanes i = (\<exists>l \<in> set lanes. l_id l = i)"

definition check_backup ::
  "lane list \<Rightarrow> primary_selection \<Rightarrow> lane_id set \<Rightarrow> lane_id \<Rightarrow> (domain_error, lane_id set) result"
where
  "check_backup lanes primary seen b =
     (if \<not> lane_exists lanes b then Inl (UnknownLane b)
      else if primary = PrimaryLane b then Inl (PrimaryIsBackup b)
      else if b \<in> seen then Inl (DuplicateBackupLane b)
      else Inr (insert b seen))"

definition validate_routing :: "routing_policy \<Rightarrow> lane list \<Rightarrow> (domain_error, unit) result" where
  "validate_routing rp lanes =
     and_then
       (case rp_primary rp of
          PrimaryLane i \<Rightarrow> if lane_exists lanes i then Inr () else Inl (UnknownLane i)
        | FollowSystemDefault \<Rightarrow> Inr ())
       (\<lambda>_. and_then (try_fold (check_backup lanes (rp_primary rp)) {} (rp_backups rp))
              (\<lambda>_. Inr ()))"

subsection \<open>Profile validation, loop by loop\<close>

definition lane_name_key :: "'n foreign \<Rightarrow> string \<Rightarrow> string option" where
  "lane_name_key X name =
     (let trimmed = trim name in if trimmed \<noteq> [] then Some (to_lowercase X trimmed) else None)"

fun check_lane ::
  "'n foreign \<Rightarrow> lane_id set \<times> string set \<Rightarrow> lane \<Rightarrow>
     (domain_error, lane_id set \<times> string set) result"
where
  "check_lane X (ids, names) l =
     (if l_id l \<in> ids then Inl (DuplicateLaneId (l_id l))
      else and_then (ok_or (EmptyLaneName (l_id l)) (lane_name_key X (l_name l)))
        (\<lambda>n. if n \<in> names then Inl (DuplicateLaneName n)
             else Inr (insert (l_id l) ids, insert n names)))"

definition nonempty_desktop_id :: "application_selector \<Rightarrow> string option" where
  "nonempty_desktop_id s =
     (case as_desktop_id s of Some d \<Rightarrow> if d \<noteq> [] then Some d else None | None \<Rightarrow> None)"

definition is_route :: "rule_action \<Rightarrow> bool" where
  "is_route a = (case a of ActionRoute _ \<Rightarrow> True | _ \<Rightarrow> False)"

definition check_application ::
  "string set \<Rightarrow> 'n rule \<Rightarrow> (domain_error, string set) result"
where
  "check_application desktops r =
     (case r_source r of
        SourceAny \<Rightarrow> Inr desktops
      | SourceApplication s \<Rightarrow>
          if as_executable_path s = [] then Inl (EmptyApplicationExecutable (r_id r))
          else if r_target r \<noteq> TargetAny \<or> \<not> is_route (r_action r)
          then Inl (InvalidApplicationRule (r_id r))
          else (case nonempty_desktop_id s of
              None \<Rightarrow> Inr desktops
            | Some d \<Rightarrow>
                if d \<in> desktops then Inl (DuplicateApplicationDesktopId d)
                else Inr (insert d desktops)))"

fun check_rule ::
  "'n foreign \<Rightarrow> rule_id set \<times> string set \<times> ('n rule_key \<rightharpoonup> rule_id) \<Rightarrow> 'n rule \<Rightarrow>
     (domain_error, rule_id set \<times> string set \<times> ('n rule_key \<rightharpoonup> rule_id)) result"
where
  "check_rule X (ids, desktops, contents) r =
     (if r_id r \<in> ids then Inl (DuplicateRuleId (r_id r))
      else and_then (check_application desktops r)
        (\<lambda>desktops'.
          case contents (duplicate_key X r) of
            Some existing \<Rightarrow> Inl (DuplicateRule existing (r_id r))
          | None \<Rightarrow> Inr (insert (r_id r) ids, desktops', contents(duplicate_key X r \<mapsto> r_id r))))"

definition check_route_target :: "lane_id set \<Rightarrow> 'n rule \<Rightarrow> (domain_error, unit) result" where
  "check_route_target ids r =
     (case r_action r of
        ActionRoute i \<Rightarrow> if i \<in> ids then Inr () else Inl (UnknownLane i)
      | _ \<Rightarrow> Inr ())"

definition check_fallback :: "lane_id set \<Rightarrow> lane \<Rightarrow> (domain_error, unit) result" where
  "check_fallback ids l =
     (case l_fallback_lane l of
        None \<Rightarrow> Inr ()
      | Some f \<Rightarrow>
          if f \<notin> ids then Inl (UnknownLane f)
          else if f = l_id l then Inl (SelfReferentialFallback (l_id l))
          else Inr ())"

text \<open>The fallback walk: \<open>while let Some(next) = find(current).fallback_lane\<close>.\<close>

definition fallback_of :: "lane list \<Rightarrow> lane_id \<Rightarrow> lane_id option" where
  "fallback_of lanes i =
     (case find (\<lambda>l. l_id l = i) lanes of None \<Rightarrow> None | Some l \<Rightarrow> l_fallback_lane l)"

lemma fallback_of_in: "fallback_of lanes i = Some n \<Longrightarrow> i \<in> l_id ` set lanes"
  by (auto simp: fallback_of_def dest: find_Some_in split: option.splits)

function walk_fallback ::
  "lane list \<Rightarrow> lane_id \<Rightarrow> lane_id set \<Rightarrow> lane_id \<Rightarrow> (domain_error, unit) result"
where
  "walk_fallback lanes origin visited current =
     (case fallback_of lanes current of
        None \<Rightarrow> Inr ()
      | Some next_lane \<Rightarrow>
          if current \<in> visited \<or> next_lane \<in> insert current visited
          then Inl (FallbackCycle origin)
          else walk_fallback lanes origin (insert current visited) next_lane)"
  by pat_completeness auto
termination
proof (relation "measure (\<lambda>(lanes, _, visited, _). card (l_id ` set lanes - visited))", goal_cases)
  case (2 lanes origin visited current n)
  then have "current \<in> l_id ` set lanes - visited" by (auto dest: fallback_of_in)
  moreover have "l_id ` set lanes - insert current visited =
      (l_id ` set lanes - visited) - {current}" by auto
  ultimately have "card (l_id ` set lanes - insert current visited) <
      card (l_id ` set lanes - visited)"
    by (metis List.finite_set card_Diff1_less finite_Diff finite_imageI)
  then show ?case by simp
qed simp

declare walk_fallback.simps [simp del]

definition validate_profile :: "'n foreign \<Rightarrow> 'n profile \<Rightarrow> (domain_error, unit) result" where
  "validate_profile X p =
     (let lanes = p_lanes p; rules = p_rules p in
      if 100 < length lanes then Inl (TooManyLanes (length lanes) 100)
      else if 10000 < length rules then Inl (TooManyRules (length rules) 10000)
      else and_then (try_fold (check_lane X) ({}, {}) lanes)
        (\<lambda>(lane_ids, _).
          and_then (validate_routing (p_routing p) lanes)
            (\<lambda>_. and_then (try_fold (check_rule X) ({}, {}, Map.empty) rules)
              (\<lambda>_. and_then (try_each (check_route_target lane_ids) rules)
                (\<lambda>_. and_then (try_each (check_fallback lane_ids) lanes)
                  (\<lambda>_. try_each (\<lambda>l. walk_fallback lanes (l_id l) {} (l_id l)) lanes))))))"

subsection \<open>Editor helpers\<close>

definition find_duplicate_rule ::
  "'n foreign \<Rightarrow> 'n profile \<Rightarrow> 'n rule \<Rightarrow> rule_id option \<Rightarrow> 'n rule option"
where
  "find_duplicate_rule X p candidate excluding =
     (let key = duplicate_key X candidate in
      find (\<lambda>r. excluding \<noteq> Some (r_id r) \<and> duplicate_key X r = key) (p_rules p))"

definition canonical_lane_name ::
  "'n foreign \<Rightarrow> 'n profile \<Rightarrow> lane_id option \<Rightarrow> string \<Rightarrow> (domain_error, string) result"
where
  "canonical_lane_name X p excluded input =
     (let canonical = trim input in
      and_then
        (ok_or (EmptyLaneName (case excluded of Some i \<Rightarrow> i | None \<Rightarrow> ''new''))
          (lane_name_key X canonical))
        (\<lambda>key. if \<exists>l \<in> set (p_lanes p). excluded \<noteq> Some (l_id l) \<and>
                    lane_name_key X (l_name l) = Some key
               then Inl (DuplicateLaneName key)
               else Inr canonical))"

definition normalize_lane_name :: "lane \<Rightarrow> lane" where
  "normalize_lane_name l =
     (let trimmed = trim (l_name l) in
      l\<lparr>l_name := if trimmed = [] then l_id l else trimmed\<rparr>)"

definition normalize_lane_names :: "'n profile \<Rightarrow> 'n profile" where
  "normalize_lane_names p = p\<lparr>p_lanes := map normalize_lane_name (p_lanes p)\<rparr>"

section \<open>What validation promises\<close>

definition fallback_edges :: "lane list \<Rightarrow> (lane_id \<times> lane_id) set" where
  "fallback_edges lanes = {(a, b). fallback_of lanes a = Some b}"

definition application_rule_ok :: "'n rule \<Rightarrow> bool" where
  "application_rule_ok r =
     (case r_source r of
        SourceAny \<Rightarrow> True
      | SourceApplication s \<Rightarrow>
          as_executable_path s \<noteq> [] \<and> r_target r = TargetAny \<and> is_route (r_action r))"

definition rule_desktop_id :: "'n rule \<Rightarrow> string option" where
  "rule_desktop_id r =
     (case r_source r of SourceAny \<Rightarrow> None | SourceApplication s \<Rightarrow> nonempty_desktop_id s)"

definition routing_ok :: "routing_policy \<Rightarrow> lane list \<Rightarrow> bool" where
  "routing_ok rp lanes \<longleftrightarrow>
     (\<forall>i. rp_primary rp = PrimaryLane i \<longrightarrow> lane_exists lanes i \<and> i \<notin> set (rp_backups rp)) \<and>
     (\<forall>b \<in> set (rp_backups rp). lane_exists lanes b) \<and>
     distinct (rp_backups rp)"

definition profile_ok :: "'n foreign \<Rightarrow> 'n profile \<Rightarrow> bool" where
  "profile_ok X p \<longleftrightarrow>
     length (p_lanes p) \<le> 100 \<and> length (p_rules p) \<le> 10000 \<and>
     distinct (map l_id (p_lanes p)) \<and>
     (\<forall>l \<in> set (p_lanes p). lane_name_key X (l_name l) \<noteq> None) \<and>
     distinct (map (\<lambda>l. lane_name_key X (l_name l)) (p_lanes p)) \<and>
     routing_ok (p_routing p) (p_lanes p) \<and>
     distinct (map r_id (p_rules p)) \<and>
     (\<forall>r \<in> set (p_rules p). application_rule_ok r) \<and>
     distinct (List.map_filter rule_desktop_id (p_rules p)) \<and>
     distinct (map (duplicate_key X) (p_rules p)) \<and>
     (\<forall>r \<in> set (p_rules p). \<forall>i. r_action r = ActionRoute i \<longrightarrow> lane_exists (p_lanes p) i) \<and>
     (\<forall>l \<in> set (p_lanes p). \<forall>f. l_fallback_lane l = Some f \<longrightarrow> lane_exists (p_lanes p) f) \<and>
     acyclic (fallback_edges (p_lanes p))"

section \<open>Lemmas\<close>

subsection \<open>Lane, routing and rule loops\<close>

lemma lane_exists_iff: "lane_exists lanes i \<longleftrightarrow> i \<in> l_id ` set lanes"
  by (auto simp: lane_exists_def)

lemma check_fallback_iff:
  "check_fallback ids l = Inr () \<longleftrightarrow>
     (\<forall>f. l_fallback_lane l = Some f \<longrightarrow> f \<in> ids \<and> f \<noteq> l_id l)"
  by (auto simp: check_fallback_def split: option.splits)

lemma check_route_target_iff:
  "check_route_target ids r = Inr () \<longleftrightarrow> (\<forall>i. r_action r = ActionRoute i \<longrightarrow> i \<in> ids)"
  by (auto simp: check_route_target_def split: rule_action.splits)

lemma check_lane_loop:
  "(\<exists>s. try_fold (check_lane X) (ids, names) lanes = Inr s) \<longleftrightarrow>
     distinct (map l_id lanes) \<and> l_id ` set lanes \<inter> ids = {} \<and>
     (\<forall>l \<in> set lanes. lane_name_key X (l_name l) \<noteq> None) \<and>
     distinct (map (\<lambda>l. lane_name_key X (l_name l)) lanes) \<and>
     (\<lambda>l. lane_name_key X (l_name l)) ` set lanes \<inter> Some ` names = {}"
proof (induction lanes arbitrary: ids names)
  case (Cons l lanes)
  show ?case
  proof (cases "lane_name_key X (l_name l)")
    case None
    then show ?thesis by (simp add: ok_or_def)
  next
    case (Some n)
    show ?thesis
    proof (cases "l_id l \<in> ids \<or> n \<in> names")
      case True
      with Some show ?thesis by auto
    next
      case False
      with Some Cons.IH [of "insert (l_id l) ids" "insert n names"] show ?thesis by auto
    qed
  qed
qed simp

lemma check_lane_ids:
  "try_fold (check_lane X) (ids, names) lanes = Inr (ids', names') \<Longrightarrow>
     ids' = l_id ` set lanes \<union> ids"
proof (induction lanes arbitrary: ids names)
  case (Cons l lanes)
  from Cons.prems obtain n where
      "try_fold (check_lane X) (insert (l_id l) ids, insert n names) lanes = Inr (ids', names')"
    by (auto simp: and_then_def split: sum.splits if_splits)
  from Cons.IH [OF this] show ?case by auto
qed simp

lemma check_backup_loop:
  "(\<exists>s. try_fold (check_backup lanes prim) seen bs = Inr s) \<longleftrightarrow>
     (\<forall>b \<in> set bs. lane_exists lanes b \<and> prim \<noteq> PrimaryLane b) \<and>
     distinct bs \<and> set bs \<inter> seen = {}"
  by (induction bs arbitrary: seen) (auto simp: check_backup_def)

lemma validate_routing_iff: "validate_routing rp lanes = Inr () \<longleftrightarrow> routing_ok rp lanes"
  using check_backup_loop [of lanes "rp_primary rp" "{}" "rp_backups rp"]
  by (cases "rp_primary rp")
     (auto simp: validate_routing_def routing_ok_def and_then_Inr_iff split: if_splits)

lemma check_application_iff:
  "check_application ds r = Inr ds' \<longleftrightarrow>
     application_rule_ok r \<and>
     (case rule_desktop_id r of None \<Rightarrow> ds' = ds | Some d \<Rightarrow> d \<notin> ds \<and> ds' = insert d ds)"
  by (auto simp: check_application_def application_rule_ok_def rule_desktop_id_def
      split: rule_source.splits option.splits)

lemma check_rule_loop:
  "(\<exists>s. try_fold (check_rule X) (ids, ds, C) rules = Inr s) \<longleftrightarrow>
     distinct (map r_id rules) \<and> r_id ` set rules \<inter> ids = {} \<and>
     (\<forall>r \<in> set rules. application_rule_ok r) \<and>
     distinct (List.map_filter rule_desktop_id rules) \<and>
     set (List.map_filter rule_desktop_id rules) \<inter> ds = {} \<and>
     distinct (map (duplicate_key X) rules) \<and> duplicate_key X ` set rules \<inter> dom C = {}"
proof (induction rules arbitrary: ids ds C)
  case (Cons r rules)
  show ?case
  proof (cases "check_application ds r")
    case (Inl e)
    then have "\<not> (\<exists>ds'. check_application ds r = Inr ds')" by simp
    then have "\<not> application_rule_ok r \<or> (\<exists>d. rule_desktop_id r = Some d \<and> d \<in> ds)"
      unfolding check_application_iff by (cases "rule_desktop_id r") auto
    with Inl show ?thesis by (auto simp: List.map_filter_simps)
  next
    case (Inr ds')
    note app = this [unfolded check_application_iff]
    show ?thesis
    proof (cases "r_id r \<in> ids \<or> duplicate_key X r \<in> dom C")
      case True
      with Inr show ?thesis by auto
    next
      case False
      then have "C (duplicate_key X r) = None" by auto
      with False Inr have step: "try_fold (check_rule X) (ids, ds, C) (r # rules) =
          try_fold (check_rule X)
            (insert (r_id r) ids, ds', C(duplicate_key X r \<mapsto> r_id r)) rules"
        by simp
      note IH = Cons.IH [of "insert (r_id r) ids" ds' "C(duplicate_key X r \<mapsto> r_id r)"]
      show ?thesis
      proof (cases "rule_desktop_id r")
        case None
        with app have "ds' = ds" "application_rule_ok r" by simp_all
        with False None show ?thesis unfolding step IH by (auto simp: List.map_filter_simps)
      next
        case (Some d)
        with app have "d \<notin> ds" "ds' = insert d ds" "application_rule_ok r" by simp_all
        with False Some show ?thesis unfolding step IH by (auto simp: List.map_filter_simps)
      qed
    qed
  qed
qed (simp add: List.map_filter_simps)

subsection \<open>The fallback walk decides acyclicity\<close>

lemma fallback_edges_functional:
  "(a, b) \<in> fallback_edges lanes \<Longrightarrow> (a, c) \<in> fallback_edges lanes \<Longrightarrow> b = c"
  by (simp add: fallback_edges_def)

lemma walk_fallback_acyclic:
  assumes "acyclic (fallback_edges lanes)"
    and "\<forall>v \<in> visited. (v, current) \<in> (fallback_edges lanes)\<^sup>+"
  shows "walk_fallback lanes origin visited current = Inr ()"
  using assms
proof (induction lanes origin visited current rule: walk_fallback.induct)
  case (1 lanes origin visited current)
  show ?case
  proof (cases "fallback_of lanes current")
    case None
    then show ?thesis by (simp add: walk_fallback.simps)
  next
    case (Some n)
    then have e: "(current, n) \<in> fallback_edges lanes" by (simp add: fallback_edges_def)
    have cyc: "(x, x) \<notin> (fallback_edges lanes)\<^sup>+" for x
      using "1.prems"(1) by (simp add: acyclic_def)
    have fresh: "current \<notin> visited" using "1.prems"(2) cyc by blast
    have "n \<noteq> current" using e cyc by blast
    moreover have "n \<notin> visited" using "1.prems"(2) e cyc by (meson trancl_into_trancl)
    ultimately have ok: "\<not> (current \<in> visited \<or> n \<in> insert current visited)"
      using fresh by simp
    have "\<forall>v \<in> insert current visited. (v, n) \<in> (fallback_edges lanes)\<^sup>+"
      using "1.prems"(2) e by (auto intro: trancl_into_trancl)
    with "1.IH" [OF Some ok "1.prems"(1)] Some ok show ?thesis
      by (subst walk_fallback.simps) simp
  qed
qed

lemma walk_fallback_no_cycle:
  assumes "walk_fallback lanes origin visited current = Inr ()"
    and "(current, x) \<in> (fallback_edges lanes)\<^sup>*"
  shows "(x, x) \<notin> (fallback_edges lanes)\<^sup>+"
  using assms
proof (induction lanes origin visited current arbitrary: x rule: walk_fallback.induct)
  case (1 lanes origin visited current)
  let ?E = "fallback_edges lanes"
  show ?case
  proof (cases "fallback_of lanes current")
    case None
    then have none: "(current, y) \<notin> ?E" for y by (simp add: fallback_edges_def)
    with "1.prems"(2) have "x = current" by (auto elim: converse_rtranclE)
    with none show ?thesis by (metis tranclD)
  next
    case (Some n)
    then have e: "(current, n) \<in> ?E" by (simp add: fallback_edges_def)
    from "1.prems"(1) Some have ok: "\<not> (current \<in> visited \<or> n \<in> insert current visited)"
      and walk: "walk_fallback lanes origin (insert current visited) n = Inr ()"
      by (auto simp: walk_fallback.simps [of lanes origin visited current] split: if_splits)
    note IH = "1.IH" [OF Some ok walk]
    show ?thesis
    proof (cases "x = current")
      case True
      show ?thesis
      proof
        assume "(x, x) \<in> ?E\<^sup>+"
        with True have "(n, current) \<in> ?E\<^sup>*"
          by (metis e fallback_edges_functional tranclD)
        from IH [OF this] \<open>(x, x) \<in> ?E\<^sup>+\<close> True show False by simp
      qed
    next
      case False
      with "1.prems"(2) have "(n, x) \<in> ?E\<^sup>*"
        by (metis e fallback_edges_functional converse_rtranclE)
      then show ?thesis by (rule IH)
    qed
  qed
qed

lemma walks_iff_acyclic:
  "(\<forall>l \<in> set lanes. walk_fallback lanes (l_id l) {} (l_id l) = Inr ()) \<longleftrightarrow>
     acyclic (fallback_edges lanes)"
proof
  assume walks: "\<forall>l \<in> set lanes. walk_fallback lanes (l_id l) {} (l_id l) = Inr ()"
  show "acyclic (fallback_edges lanes)"
  proof (rule acyclicI, intro allI notI)
    fix x assume cyc: "(x, x) \<in> (fallback_edges lanes)\<^sup>+"
    then obtain y where "(x, y) \<in> fallback_edges lanes" by (meson tranclD)
    then obtain l where "l \<in> set lanes" and "l_id l = x"
      by (auto simp: fallback_edges_def dest: fallback_of_in)
    with walks have "walk_fallback lanes x {} x = Inr ()" by blast
    from walk_fallback_no_cycle [OF this rtrancl_refl] cyc show False by simp
  qed
qed (simp add: walk_fallback_acyclic)

lemma walk_fallback_total:
  "walk_fallback lanes origin visited current \<in> {Inr (), Inl (FallbackCycle origin)}"
proof (induction lanes origin visited current rule: walk_fallback.induct)
  case (1 lanes origin visited current)
  then show ?case
    by (cases "fallback_of lanes current") (auto simp: walk_fallback.simps [of lanes origin visited])
qed

subsection \<open>Trimming\<close>

lemma first_strip_None_iff: "first_strip ps s = None \<longleftrightarrow> (\<forall>p \<in> set ps. \<not> starts_with p s)"
  by (induction ps) (auto simp: starts_with_def split: option.splits)

lemma trim_start_clean: "first_strip white_space_codes (trim_start s) = None"
proof (induction s rule: trim_start.induct)
  case (1 s)
  then show ?case
    by (cases "first_strip white_space_codes s") (simp_all add: trim_start.simps [of s])
qed

lemma trim_start_id: "first_strip white_space_codes s = None \<Longrightarrow> trim_start s = s"
  by (simp add: trim_start.simps)

lemma trim_end_rev_clean: "first_strip (map rev white_space_codes) (trim_end_rev s) = None"
proof (induction s rule: trim_end_rev.induct)
  case (1 s)
  then show ?case
    by (cases "first_strip (map rev white_space_codes) s") (simp_all add: trim_end_rev.simps [of s])
qed

lemma first_strip_suffix: "first_strip ps s = Some r \<Longrightarrow> \<exists>u. s = u @ r"
  by (induction ps) (auto simp: strip_prefix_Some_iff split: option.splits)

lemma trim_end_rev_suffix: "\<exists>u. s = u @ trim_end_rev s"
proof (induction s rule: trim_end_rev.induct)
  case (1 s)
  show ?case
  proof (cases "first_strip (map rev white_space_codes) s")
    case None
    then show ?thesis by (simp add: trim_end_rev.simps [of s])
  next
    case (Some r)
    from 1 [OF this] obtain u where "r = u @ trim_end_rev r" by blast
    moreover from first_strip_suffix [OF Some] obtain v where "s = v @ r" by blast
    moreover have "trim_end_rev s = trim_end_rev r"
      using Some by (simp add: trim_end_rev.simps [of s])
    ultimately have "s = (v @ u) @ trim_end_rev s" by (metis append.assoc)
    then show ?thesis by blast
  qed
qed

lemma trim_idem [simp]: "trim (trim s) = trim s"
proof -
  let ?t = "trim_start s"
  obtain u where u: "rev ?t = u @ trim_end_rev (rev ?t)" using trim_end_rev_suffix by blast
  then have t: "?t = trim s @ rev u"
    by (metis rev_append rev_rev_ident trim_def trim_end_def)
  have "first_strip white_space_codes (trim s) = None"
    using trim_start_clean [of s]
    by (auto simp: first_strip_None_iff starts_with_iff t)
  moreover have "trim_end (trim s) = trim s"
    using trim_end_rev_clean
    by (simp add: trim_end_def trim_def trim_end_rev.simps [of "trim_end_rev (rev ?t)"])
  ultimately show ?thesis by (simp add: trim_def [of "trim s"] trim_start_id)
qed

lemma validate_profile_Inr_iff: "validate_profile X p = Inr () \<longleftrightarrow> profile_ok X p"
proof -
  let ?L = "p_lanes p" and ?R = "p_rules p"
  have lanes: "(\<exists>s. try_fold (check_lane X) ({}, {}) ?L = Inr s) \<longleftrightarrow>
      distinct (map l_id ?L) \<and> (\<forall>l \<in> set ?L. lane_name_key X (l_name l) \<noteq> None) \<and>
      distinct (map (\<lambda>l. lane_name_key X (l_name l)) ?L)"
    using check_lane_loop [of X "{}" "{}" ?L] by simp
  have rules: "(\<exists>s. try_fold (check_rule X) ({}, {}, Map.empty) ?R = Inr s) \<longleftrightarrow>
      distinct (map r_id ?R) \<and> (\<forall>r \<in> set ?R. application_rule_ok r) \<and>
      distinct (List.map_filter rule_desktop_id ?R) \<and> distinct (map (duplicate_key X) ?R)"
    using check_rule_loop [of X "{}" "{}" Map.empty ?R] by simp
  have targets: "try_each (check_route_target (l_id ` set ?L)) ?R = Inr () \<longleftrightarrow>
      (\<forall>r \<in> set ?R. \<forall>i. r_action r = ActionRoute i \<longrightarrow> lane_exists ?L i)"
    by (simp add: try_each_Inr_iff check_route_target_iff lane_exists_iff)
  have no_self: "acyclic (fallback_edges ?L) \<Longrightarrow> distinct (map l_id ?L) \<Longrightarrow> l \<in> set ?L \<Longrightarrow>
      l_fallback_lane l \<noteq> Some (l_id l)" for l
  proof
    assume ac: "acyclic (fallback_edges ?L)" and d: "distinct (map l_id ?L)" "l \<in> set ?L"
      and self: "l_fallback_lane l = Some (l_id l)"
    from self have "(l_id l, l_id l) \<in> fallback_edges ?L"
      by (simp add: fallback_edges_def fallback_of_def find_distinct_key [OF d])
    with ac show False by (auto simp: acyclic_def)
  qed
  have falls: "acyclic (fallback_edges ?L) \<Longrightarrow> distinct (map l_id ?L) \<Longrightarrow>
      try_each (check_fallback (l_id ` set ?L)) ?L = Inr () \<longleftrightarrow>
      (\<forall>l \<in> set ?L. \<forall>f. l_fallback_lane l = Some f \<longrightarrow> lane_exists ?L f)"
    using no_self by (auto simp: try_each_Inr_iff check_fallback_iff lane_exists_iff)
  have falls': "try_each (check_fallback (l_id ` set ?L)) ?L = Inr () \<Longrightarrow>
      \<forall>l \<in> set ?L. \<forall>f. l_fallback_lane l = Some f \<longrightarrow> lane_exists ?L f"
    by (auto simp: try_each_Inr_iff check_fallback_iff lane_exists_iff)
  note walks = walks_iff_acyclic [of ?L, folded try_each_Inr_iff]
  have ids: "try_fold (check_lane X) ({}, {}) ?L = Inr (ids, names) \<Longrightarrow> ids = l_id ` set ?L"
    for ids names using check_lane_ids [of X "{}" "{}" ?L] by simp
  have "validate_profile X p = Inr () \<longleftrightarrow>
      length ?L \<le> 100 \<and> length ?R \<le> 10000 \<and>
      (\<exists>s. try_fold (check_lane X) ({}, {}) ?L = Inr s) \<and> routing_ok (p_routing p) ?L \<and>
      (\<exists>s. try_fold (check_rule X) ({}, {}, Map.empty) ?R = Inr s) \<and>
      try_each (check_route_target (l_id ` set ?L)) ?R = Inr () \<and>
      try_each (check_fallback (l_id ` set ?L)) ?L = Inr () \<and>
      try_each (\<lambda>l. walk_fallback ?L (l_id l) {} (l_id l)) ?L = Inr ()"
    by (auto simp: validate_profile_def Let_def and_then_Inr_iff validate_routing_iff
        dest: ids split: prod.splits)
  then show ?thesis
    unfolding lanes rules targets walks profile_ok_def using falls falls' by blast
qed

subsection \<open>Editing\<close>

lemma find_duplicate_rule_None:
  "find_duplicate_rule X p c excl = None \<longleftrightarrow>
     (\<forall>r \<in> set (p_rules p). excl = Some (r_id r) \<or> duplicate_key X r \<noteq> duplicate_key X c)"
  by (auto simp: find_duplicate_rule_def Let_def find_None_iff)

lemma canonical_lane_name_Inr:
  "canonical_lane_name X p excl input = Inr n \<longleftrightarrow>
     n = trim input \<and> lane_name_key X n \<noteq> None \<and>
     (\<forall>l \<in> set (p_lanes p). excl = Some (l_id l) \<or>
        lane_name_key X (l_name l) \<noteq> lane_name_key X n)"
  by (cases "lane_name_key X (trim input)")
     (auto simp: canonical_lane_name_def Let_def)

text \<open>Replacing the one element with a given identifier keeps another key unique.\<close>

lemma distinct_replace_key:
  assumes "distinct (map ident xs)" and "distinct (map f xs)"
    and fresh: "\<And>x. x \<in> set xs \<Longrightarrow> ident x = i \<or> f x \<noteq> k"
    and new: "\<And>x. x \<in> set xs \<Longrightarrow> f (g x) = k"
  shows "distinct (map f (map (\<lambda>x. if ident x = i then g x else x) xs))"
proof -
  have inj: "inj_on ident (set xs)" "inj_on f (set xs)"
    using assms(1,2) by (simp_all add: distinct_map)
  have "inj_on (\<lambda>x. f (if ident x = i then g x else x)) (set xs)"
  proof (rule inj_onI)
    fix a b assume ab: "a \<in> set xs" "b \<in> set xs"
      and eq: "f (if ident a = i then g a else a) = f (if ident b = i then g b else b)"
    from eq ab have "ident a = i \<longleftrightarrow> ident b = i"
      using new fresh by (metis (full_types))
    with eq ab inj show "a = b" by (auto simp: inj_on_def split: if_splits)
  qed
  moreover have "distinct xs" using assms(1) by (simp add: distinct_map)
  ultimately show ?thesis by (simp add: distinct_map comp_def)
qed

subsection \<open>A concrete profile\<close>

definition demo_lane :: "lane_id \<Rightarrow> string \<Rightarrow> lane_id option \<Rightarrow> lane" where
  "demo_lane i dev fb = \<lparr>l_id = i, l_name = i, l_interface = dev, l_fallback_lane = fb,
     l_failure_policy = FailBlock\<rparr>"

definition demo_rule :: "rule_id \<Rightarrow> u32 \<Rightarrow> 'n rule_target \<Rightarrow> rule_action \<Rightarrow> 'n rule" where
  "demo_rule i prio t a = \<lparr>r_id = i, r_enabled = True, r_priority = prio, r_source = SourceAny,
     r_target = t, r_action = a\<rparr>"

definition demo_profile :: "(ip_addr \<times> nat) profile" where
  "demo_profile = \<lparr>p_id = ''default'', p_name = ''Default'', p_enabled = True,
     p_lanes = [demo_lane ''work'' ''wg0'' (Some ''home''), demo_lane ''home'' ''eth0'' None],
     p_rules = [demo_rule ''r2'' 20 (TargetIp (V4Addr 0x01020304)) ActionBlock,
       demo_rule ''r1'' 10 (TargetCidr (V4Addr 0x0A000000, 8)) (ActionRoute ''work'')],
     p_routing = \<lparr>rp_unmatched_traffic = PreserveSystem, rp_primary = PrimaryLane ''home'',
       rp_backups = [''work''], rp_automatic_failover = True\<rparr>\<rparr>"

lemma demo_profile_valid: "validate_profile demo_foreign demo_profile = Inr ()"
  by code_simp

section \<open>Properties\<close>

text \<open>
  C1. \<open>validate_profile\<close> accepts exactly the profiles with at most 100 lanes and 10000 rules,
  unique lane identifiers and case-folded lane names, existing and distinct backups that do not
  repeat the primary lane, unique rule identifiers and routing intents, well-formed application
  rules, existing route and fallback lanes, and an acyclic fallback graph.
\<close>

theorem validate_profile_iff: "validate_profile X p = Inr () \<longleftrightarrow> profile_ok X p"
  by (rule validate_profile_Inr_iff)

text \<open>
  A rule the editor's duplicate check lets through can replace the rule it edits: the routing
  intents of the profile stay unique, so the stored profile passes the same check on load.
\<close>

lemma find_duplicate_rule_sound:
  assumes "profile_ok X p" and "find_duplicate_rule X p c (Some (r_id c)) = None"
  shows "distinct (map (duplicate_key X)
    (map (\<lambda>r. if r_id r = r_id c then c else r) (p_rules p)))"
proof (rule distinct_replace_key)
  show "distinct (map r_id (p_rules p))" "distinct (map (duplicate_key X) (p_rules p))"
    using assms(1) by (simp_all add: profile_ok_def)
  show "r_id r = r_id c \<or> duplicate_key X r \<noteq> duplicate_key X c" if "r \<in> set (p_rules p)" for r
    using assms(2) that by (auto simp: find_duplicate_rule_None)
qed simp

lemma find_duplicate_rule_sound_witness:
  "distinct (map (duplicate_key demo_foreign)
    (map (\<lambda>r. if r_id r = ''r1''
          then demo_rule ''r1'' 5 (TargetDomain ''Example.org.'') ActionDirect else r)
      (p_rules demo_profile)))"
proof -
  have "profile_ok demo_foreign demo_profile"
    using demo_profile_valid by (simp add: validate_profile_Inr_iff)
  moreover have "find_duplicate_rule demo_foreign demo_profile
      (demo_rule ''r1'' 5 (TargetDomain ''Example.org.'') ActionDirect) (Some ''r1'') = None"
    by code_simp
  ultimately show ?thesis
    using find_duplicate_rule_sound [of demo_foreign demo_profile
        "demo_rule ''r1'' 5 (TargetDomain ''Example.org.'') ActionDirect"]
    by (simp add: demo_rule_def)
qed

text \<open>
  A lane name \<open>canonical_lane_name\<close> returns is trimmed, not empty, and giving it to the edited
  lane keeps the case-folded lane names of a valid profile unique.
\<close>

lemma canonical_lane_name_sound:
  assumes "profile_ok X p" and "canonical_lane_name X p (Some i) input = Inr n"
  shows "trim n = n \<and> n \<noteq> [] \<and>
    distinct (map (\<lambda>l. lane_name_key X (l_name l))
      (map (\<lambda>l. if l_id l = i then l\<lparr>l_name := n\<rparr> else l) (p_lanes p)))"
proof -
  note n = assms(2) [unfolded canonical_lane_name_Inr]
  have "n \<noteq> []" using n by (auto simp: lane_name_key_def Let_def split: if_splits)
  moreover have "trim n = n" using n by simp
  moreover have "distinct (map (\<lambda>l. lane_name_key X (l_name l))
      (map (\<lambda>l. if l_id l = i then l\<lparr>l_name := n\<rparr> else l) (p_lanes p)))"
  proof (rule distinct_replace_key)
    show "distinct (map l_id (p_lanes p))"
      "distinct (map (\<lambda>l. lane_name_key X (l_name l)) (p_lanes p))"
      using assms(1) by (simp_all add: profile_ok_def)
    show "l_id l = i \<or> lane_name_key X (l_name l) \<noteq> lane_name_key X n"
      if "l \<in> set (p_lanes p)" for l using n that by auto
  qed simp
  ultimately show ?thesis by simp
qed

lemma canonical_lane_name_sound_witness:
  "trim ''Office'' = ''Office'' \<and> ''Office'' \<noteq> [] \<and>
    distinct (map (\<lambda>l. lane_name_key demo_foreign (l_name l))
      (map (\<lambda>l. if l_id l = ''work'' then l\<lparr>l_name := ''Office''\<rparr> else l) (p_lanes demo_profile)))"
proof (rule canonical_lane_name_sound)
  show "profile_ok demo_foreign demo_profile"
    using demo_profile_valid by (simp add: validate_profile_Inr_iff)
  show "canonical_lane_name demo_foreign demo_profile (Some ''work'') ''  Office '' = Inr ''Office''"
    by code_simp
qed

end
