(* ===== verification/Topology.thy ===== *)
theory Topology
  imports Domain
begin

text \<open>
  The observed network (\<open>src/src/backend/topology.rs\<close>, the snapshot type and its queries): the
  interfaces with their identities, routes and source addresses, the default route of each
  family, and the restriction of a snapshot to a set of granted interface identities.
\<close>

section \<open>Address families\<close>

datatype ip_family = V4 | V6

instantiation ip_family :: linorder
begin

definition less_eq_ip_family :: "ip_family \<Rightarrow> ip_family \<Rightarrow> bool" where
  "less_eq_ip_family a b = (a = V4 \<or> b = V6)"

definition less_ip_family :: "ip_family \<Rightarrow> ip_family \<Rightarrow> bool" where
  "less_ip_family a b = (a = V4 \<and> b = V6)"

instance
  by intro_classes
    (auto simp: less_eq_ip_family_def less_ip_family_def split: ip_family.splits
      intro: ip_family.exhaust)

end

definition families :: "ip_family list" where
  "families = [V4, V6]"

lemma families_simps [simp]: "set families = UNIV" "distinct families"
  by (auto simp: families_def intro: ip_family.exhaust)

section \<open>Snapshots\<close>

type_synonym ipv6 = "128 word"

datatype 'a route_mode = Via 'a | Device

fun gateway :: "'a route_mode \<Rightarrow> 'a option" where
  "gateway (Via a) = Some a"
| "gateway Device = None"

record interface_identity =
  ii_ifindex :: u32
  ii_name :: string
  ii_kind :: string
  ii_hardware_address :: "string option"

record 'n interface_topology =
  it_identity :: "interface_identity option"
  it_link_ready :: bool
  it_route_v4 :: "u32 route_mode option"
  it_route_v6 :: "ipv6 route_mode option"
  it_source_v4 :: "u32 list"
  it_source_v6 :: "ipv6 list"
  it_connected_networks :: "'n list"

definition default_interface :: "'n interface_topology" where
  "default_interface = \<lparr>it_identity = None, it_link_ready = False, it_route_v4 = None,
     it_route_v6 = None, it_source_v4 = [], it_source_v6 = [], it_connected_networks = []\<rparr>"

definition interface_ready :: "'n interface_topology \<Rightarrow> ip_family \<Rightarrow> bool" where
  "interface_ready e f =
     (it_identity e \<noteq> None \<and> it_link_ready e \<and>
      (case f of
         V4 \<Rightarrow> it_route_v4 e \<noteq> None \<and> it_source_v4 e \<noteq> []
       | V6 \<Rightarrow> it_route_v6 e \<noteq> None \<and> it_source_v6 e \<noteq> []))"

datatype default_selection = DefaultNone | DefaultInterface string | DefaultAmbiguous string

record 'n topology =
  t_interfaces :: "(string, 'n interface_topology) btree"
  t_default_v4 :: default_selection
  t_default_v6 :: default_selection
  t_observed :: bool
  t_conflicts :: "string list"
  t_assigned_addresses :: "ip_addr list"

definition empty_topology :: "'n topology" where
  "empty_topology = \<lparr>t_interfaces = [], t_default_v4 = DefaultNone, t_default_v6 = DefaultNone,
     t_observed = False, t_conflicts = [], t_assigned_addresses = []\<rparr>"

definition t_interface :: "'n topology \<Rightarrow> string \<Rightarrow> 'n interface_topology option" where
  "t_interface t name = bt_get (t_interfaces t) name"

definition insert_routes ::
  "string \<Rightarrow> u32 route_mode option \<Rightarrow> ipv6 route_mode option \<Rightarrow> 'n topology \<Rightarrow> 'n topology"
where
  "insert_routes name r4 r6 t =
     t\<lparr>t_interfaces := bt_insert name
         (default_interface\<lparr>it_route_v4 := r4, it_route_v6 := r6\<rparr>) (t_interfaces t)\<rparr>"

definition topology_insert ::
  "string \<Rightarrow> u32 option \<Rightarrow> ipv6 option \<Rightarrow> 'n topology \<Rightarrow> 'n topology"
where
  "topology_insert name g4 g6 t = insert_routes name (map_option Via g4) (map_option Via g6) t"

definition interface_identities :: "'n topology \<Rightarrow> (string, interface_identity) btree" where
  "interface_identities t =
     List.map_filter (\<lambda>(name, e). map_option (Pair name) (it_identity e)) (t_interfaces t)"

text \<open>Only interfaces whose whole identity is one of \<open>allowed\<close> stay.\<close>

definition restricted_to :: "interface_identity list \<Rightarrow> 'n topology \<Rightarrow> 'n topology" where
  "restricted_to allowed t =
     t\<lparr>t_interfaces := filter
         (\<lambda>(_, e). case it_identity e of Some i \<Rightarrow> i \<in> set allowed | None \<Rightarrow> False)
         (t_interfaces t)\<rparr>"

definition connected_networks :: "'n::linorder topology \<Rightarrow> 'n list" where
  "connected_networks t =
     sort_dedup (concat (map (\<lambda>(_, e). it_connected_networks e)
       (filter (\<lambda>(_, e). it_link_ready e) (t_interfaces t))))"

definition default_of :: "'n topology \<Rightarrow> ip_family \<Rightarrow> default_selection" where
  "default_of t f = (case f of V4 \<Rightarrow> t_default_v4 t | V6 \<Rightarrow> t_default_v6 t)"

definition system_default :: "'n topology \<Rightarrow> ip_family \<Rightarrow> (string, string option) result" where
  "system_default t f =
     (case default_of t f of
        DefaultNone \<Rightarrow> Inr None
      | DefaultInterface name \<Rightarrow> Inr (Some name)
      | DefaultAmbiguous reason \<Rightarrow> Inl reason)"

section \<open>Lemmas\<close>

definition topology_wf :: "'n topology \<Rightarrow> bool" where
  "topology_wf t = bt_wf (t_interfaces t)"

lemma filter_map_of:
  "distinct (map fst m) \<Longrightarrow>
     map_of (filter P m) k = (case map_of m k of Some v \<Rightarrow> if P (k, v) then Some v else None | None \<Rightarrow> None)"
  by (induction m) (auto split: option.splits dest: map_of_SomeD simp: image_iff)

lemma bt_wf_distinct: "bt_wf m \<Longrightarrow> distinct (map fst m)"
  by (rule bt.distinct_entries)

lemma bt_wf_filter: "bt_wf m \<Longrightarrow> bt_wf (filter P m)"
  unfolding bt_wf_def sorted_wrt_map by (rule sorted_wrt_filter)

lemma restricted_to_wf: "topology_wf t \<Longrightarrow> topology_wf (restricted_to a t)"
  by (simp add: topology_wf_def restricted_to_def bt_wf_filter)

lemma restricted_to_interface:
  assumes "topology_wf t"
  shows "t_interface (restricted_to a t) name = Some e \<longleftrightarrow>
    t_interface t name = Some e \<and> (\<exists>i \<in> set a. it_identity e = Some i)"
  using bt_wf_distinct [OF assms [unfolded topology_wf_def]]
  by (cases "map_of (t_interfaces t) name")
     (auto simp: t_interface_def restricted_to_def filter_map_of
       simp del: map_of_eq_Some_iff split: option.splits)

lemma restricted_to_idem: "restricted_to a (restricted_to a t) = restricted_to a t"
  by (simp add: restricted_to_def)

lemma restricted_to_keep [rl_keep]:
  "t_observed (restricted_to a t) = t_observed t"
  "default_of (restricted_to a t) f = default_of t f"
  "t_assigned_addresses (restricted_to a t) = t_assigned_addresses t"
  by (simp_all add: restricted_to_def default_of_def split: ip_family.split)

lemma connected_networks_strict: "sorted_wrt (<) (connected_networks t)"
  by (simp add: connected_networks_def strict_sort_dedup)

end
