(* ===== verification/Primary.thy ===== *)
theory Primary
  imports Topology
begin

text \<open>
  The primary-exit selector (\<open>src/src/backend/primary.rs\<close>). The state is the frozen bindings, one
  \<open>family_state\<close> per address family and the policy it was computed under; \<open>update\<close> is the only
  operation that changes it. The lemmas show that an exit is only ever a lane that is ready on
  the device it was bound to and that the policy consents to, that connectivity is restored at
  once when the current exit is lost, and that a failback waits five seconds of uninterrupted
  readiness.
\<close>

section \<open>State\<close>

definition failback_delay :: duration where
  "failback_delay = from_secs 5"

datatype family_exit = ExitLane lane_id | ExitBlocked

record 'a family_pair =
  v4 :: 'a
  v6 :: 'a

record primary_decision =
  pd_preferred :: "lane_id option family_pair"
  pd_effective :: "family_exit family_pair"

text \<open>\<open>PrimaryDecision::default()\<close>: nothing preferred, both families blocked.\<close>

definition default_decision :: primary_decision where
  "default_decision = \<lparr>pd_preferred = \<lparr>v4 = None, v6 = None\<rparr>,
     pd_effective = \<lparr>v4 = ExitBlocked, v6 = ExitBlocked\<rparr>\<rparr>"

record family_state =
  fs_preferred :: "lane_id option"
  fs_effective :: family_exit
  fs_ready_since :: "duration option"

definition default_state :: family_state where
  "default_state = \<lparr>fs_preferred = None, fs_effective = ExitBlocked, fs_ready_since = None\<rparr>"

type_synonym bindings = "(lane_id, interface_identity) btree"

record selector =
  ps_bindings :: bindings
  ps_v4 :: family_state
  ps_v6 :: family_state
  ps_policy :: "routing_policy option"

section \<open>Operations\<close>

definition lane_identity :: "'n topology \<Rightarrow> lane \<Rightarrow> interface_identity option" where
  "lane_identity t l =
     (case t_interface t (l_interface l) of None \<Rightarrow> None | Some e \<Rightarrow> it_identity e)"

definition lane_bindings :: "lane list \<Rightarrow> 'n topology \<Rightarrow> bindings" where
  "lane_bindings lanes t =
     bt_collect (List.map_filter (\<lambda>l. map_option (Pair (l_id l)) (lane_identity t l)) lanes)"

definition selector_new :: "'n profile \<Rightarrow> 'n topology \<Rightarrow> selector" where
  "selector_new p t = \<lparr>ps_bindings = lane_bindings (p_lanes p) t,
     ps_v4 = default_state, ps_v6 = default_state, ps_policy = None\<rparr>"

definition resumed_state :: "lane_id option \<Rightarrow> family_exit \<Rightarrow> family_state" where
  "resumed_state pref eff = \<lparr>fs_preferred = pref, fs_effective = eff, fs_ready_since = None\<rparr>"

definition selector_resume ::
  "'n profile \<Rightarrow> 'n topology \<Rightarrow> primary_decision \<Rightarrow> selector"
where
  "selector_resume p t previous = (selector_new p t)\<lparr>
     ps_policy := Some (p_routing p),
     ps_v4 := resumed_state (v4 (pd_preferred previous)) (v4 (pd_effective previous)),
     ps_v6 := resumed_state (v6 (pd_preferred previous)) (v6 (pd_effective previous))\<rparr>"

text \<open>The preferred lane, and whether it is ambiguous.\<close>

definition preferred_lane ::
  "bindings \<Rightarrow> routing_policy \<Rightarrow> 'n topology \<Rightarrow> ip_family \<Rightarrow> lane_id option \<times> bool"
where
  "preferred_lane B rp t f =
     (case rp_primary rp of
        PrimaryLane i \<Rightarrow> (Some i, False)
      | FollowSystemDefault \<Rightarrow>
          (case system_default t f of
             Inr (Some name) \<Rightarrow>
               (case filter (\<lambda>(_, i). ii_name i = name) B of
                  [] \<Rightarrow> (None, False)
                | [(i, _)] \<Rightarrow> (Some i, False)
                | _ \<Rightarrow> (None, True))
           | Inr None \<Rightarrow> (None, False)
           | Inl _ \<Rightarrow> (None, True)))"

definition exit_ready :: "bindings \<Rightarrow> 'n topology \<Rightarrow> ip_family \<Rightarrow> lane_id \<Rightarrow> bool" where
  "exit_ready B t f i =
     (t_observed t \<and>
      (case bt_get B i of
         None \<Rightarrow> False
       | Some identity \<Rightarrow>
           (case t_interface t (ii_name identity) of
              None \<Rightarrow> False
            | Some e \<Rightarrow> it_identity e = Some identity \<and> interface_ready e f)))"

definition old_exit_usable ::
  "bindings \<Rightarrow> routing_policy \<Rightarrow> 'n topology \<Rightarrow> ip_family \<Rightarrow> lane_id option \<Rightarrow> family_exit \<Rightarrow> bool"
where
  "old_exit_usable B rp t f pref eff =
     (case eff of
        ExitLane i \<Rightarrow> exit_ready B t f i \<and> (rp_automatic_failover rp \<or> pref = Some i)
      | ExitBlocked \<Rightarrow> False)"

definition choose_exit ::
  "bindings \<Rightarrow> routing_policy \<Rightarrow> 'n topology \<Rightarrow> ip_family \<Rightarrow> lane_id option \<Rightarrow> lane_id option"
where
  "choose_exit B rp t f pref =
     (case pref of
        Some i \<Rightarrow> if exit_ready B t f i then Some i
                  else if rp_automatic_failover rp
                  then find (\<lambda>b. pref \<noteq> Some b \<and> exit_ready B t f b) (rp_backups rp)
                  else None
      | None \<Rightarrow> if rp_automatic_failover rp
                then find (\<lambda>b. pref \<noteq> Some b \<and> exit_ready B t f b) (rp_backups rp)
                else None)"

definition exit_of :: "lane_id option \<Rightarrow> family_exit" where
  "exit_of i = (case i of Some i \<Rightarrow> ExitLane i | None \<Rightarrow> ExitBlocked)"

definition returning_lane ::
  "bindings \<Rightarrow> 'n topology \<Rightarrow> ip_family \<Rightarrow> lane_id option \<Rightarrow> family_exit \<Rightarrow> lane_id option"
where
  "returning_lane B t f pref eff =
     (case pref of
        Some i \<Rightarrow> if exit_ready B t f i \<and> eff \<noteq> ExitLane i then Some i else None
      | None \<Rightarrow> None)"

definition update_family ::
  "bindings \<Rightarrow> routing_policy \<Rightarrow> ip_family \<Rightarrow> 'n topology \<Rightarrow> duration \<Rightarrow> family_state \<Rightarrow> family_state"
where
  "update_family B rp f t now st =
     (let (pref, ambiguous) = preferred_lane B rp t f;
          since = (if fs_preferred st \<noteq> pref then None else fs_ready_since st);
          st = st\<lparr>fs_preferred := pref, fs_ready_since := since\<rparr>
      in if ambiguous then st\<lparr>fs_effective := ExitBlocked, fs_ready_since := None\<rparr>
      else if \<not> old_exit_usable B rp t f pref (fs_effective st) then
        st\<lparr>fs_effective := exit_of (choose_exit B rp t f pref), fs_ready_since := None\<rparr>
      else (case returning_lane B t f pref (fs_effective st) of
          None \<Rightarrow> st\<lparr>fs_ready_since := None\<rparr>
        | Some primary \<Rightarrow>
            (let started = (case since of Some s \<Rightarrow> s | None \<Rightarrow> now) in
             case dur_checked_sub now started of
               Some elapsed \<Rightarrow>
                 if failback_delay \<le> elapsed
                 then st\<lparr>fs_effective := ExitLane primary, fs_ready_since := None\<rparr>
                 else st\<lparr>fs_ready_since := Some started\<rparr>
             | None \<Rightarrow> st\<lparr>fs_ready_since := Some now\<rparr>)))"

definition decision_of :: "selector \<Rightarrow> primary_decision" where
  "decision_of s = \<lparr>
     pd_preferred = \<lparr>v4 = fs_preferred (ps_v4 s), v6 = fs_preferred (ps_v6 s)\<rparr>,
     pd_effective = \<lparr>v4 = fs_effective (ps_v4 s), v6 = fs_effective (ps_v6 s)\<rparr>\<rparr>"

definition adopt_policy :: "routing_policy \<Rightarrow> selector \<Rightarrow> selector" where
  "adopt_policy rp s =
     (if ps_policy s \<noteq> Some rp
      then s\<lparr>ps_v4 := default_state, ps_v6 := default_state, ps_policy := Some rp\<rparr>
      else s)"

definition selector_step ::
  "routing_policy \<Rightarrow> 'n topology \<Rightarrow> duration \<Rightarrow> selector \<Rightarrow> selector"
where
  "selector_step rp t now s =
     (let s = adopt_policy rp s in
      s\<lparr>ps_v4 := update_family (ps_bindings s) rp V4 t now (ps_v4 s),
        ps_v6 := update_family (ps_bindings s) rp V6 t now (ps_v6 s)\<rparr>)"

definition selector_update ::
  "routing_policy \<Rightarrow> 'n topology \<Rightarrow> duration \<Rightarrow> selector \<Rightarrow> primary_decision \<times> selector"
where
  "selector_update rp t now s =
     (let s' = selector_step rp t now s in (decision_of s', s'))"

definition state_deadline :: "family_state \<Rightarrow> duration option" where
  "state_deadline st =
     (case fs_ready_since st of
        None \<Rightarrow> None
      | Some since \<Rightarrow> dur_checked_add since failback_delay)"

definition next_deadline :: "selector \<Rightarrow> duration option" where
  "next_deadline s =
     (case (state_deadline (ps_v4 s), state_deadline (ps_v6 s)) of
        (None, b) \<Rightarrow> b
      | (a, None) \<Rightarrow> a
      | (Some a, Some b) \<Rightarrow> Some (min a b))"

section \<open>One update of one family\<close>

text \<open>
  A relational reading of \<open>update_family\<close>: which of its six outcomes an update takes. The
  properties below are proved from these cases.
\<close>

inductive family_update ::
  "bindings \<Rightarrow> routing_policy \<Rightarrow> ip_family \<Rightarrow> 'n topology \<Rightarrow> duration \<Rightarrow>
     family_state \<Rightarrow> family_state \<Rightarrow> bool"
  for B rp f t now st
where
  ambiguous: "preferred_lane B rp t f = (pref, True) \<Longrightarrow>
    family_update B rp f t now st \<lparr>fs_preferred = pref, fs_effective = ExitBlocked,
      fs_ready_since = None\<rparr>"
| select: "preferred_lane B rp t f = (pref, False) \<Longrightarrow>
    \<not> old_exit_usable B rp t f pref (fs_effective st) \<Longrightarrow>
    family_update B rp f t now st \<lparr>fs_preferred = pref,
      fs_effective = exit_of (choose_exit B rp t f pref), fs_ready_since = None\<rparr>"
| keep: "preferred_lane B rp t f = (pref, False) \<Longrightarrow>
    old_exit_usable B rp t f pref (fs_effective st) \<Longrightarrow>
    returning_lane B t f pref (fs_effective st) = None \<Longrightarrow>
    family_update B rp f t now st \<lparr>fs_preferred = pref, fs_effective = fs_effective st,
      fs_ready_since = None\<rparr>"
| start_wait: "preferred_lane B rp t f = (pref, False) \<Longrightarrow>
    old_exit_usable B rp t f pref (fs_effective st) \<Longrightarrow>
    returning_lane B t f pref (fs_effective st) = Some primary \<Longrightarrow>
    fs_ready_since st = None \<or> fs_preferred st \<noteq> pref \<or>
      (\<exists>s. fs_ready_since st = Some s \<and> now < s) \<Longrightarrow>
    family_update B rp f t now st \<lparr>fs_preferred = pref, fs_effective = fs_effective st,
      fs_ready_since = Some now\<rparr>"
| still_waiting: "preferred_lane B rp t f = (pref, False) \<Longrightarrow>
    old_exit_usable B rp t f pref (fs_effective st) \<Longrightarrow>
    returning_lane B t f pref (fs_effective st) = Some primary \<Longrightarrow>
    fs_ready_since st = Some s \<Longrightarrow> fs_preferred st = pref \<Longrightarrow> s \<le> now \<Longrightarrow>
    now - s < failback_delay \<Longrightarrow>
    family_update B rp f t now st \<lparr>fs_preferred = pref, fs_effective = fs_effective st,
      fs_ready_since = Some s\<rparr>"
| failback: "preferred_lane B rp t f = (pref, False) \<Longrightarrow>
    old_exit_usable B rp t f pref (fs_effective st) \<Longrightarrow>
    returning_lane B t f pref (fs_effective st) = Some primary \<Longrightarrow>
    fs_ready_since st = Some s \<Longrightarrow> fs_preferred st = pref \<Longrightarrow> s \<le> now \<Longrightarrow>
    failback_delay \<le> now - s \<Longrightarrow>
    family_update B rp f t now st \<lparr>fs_preferred = pref, fs_effective = ExitLane primary,
      fs_ready_since = None\<rparr>"

lemma failback_delay_pos: "0 < failback_delay"
  by (simp add: failback_delay_def from_secs_def)

lemma family_state_eqI:
  "fs_preferred a = fs_preferred b \<Longrightarrow> fs_effective a = fs_effective b \<Longrightarrow>
     fs_ready_since a = fs_ready_since b \<Longrightarrow> (a :: family_state) = b"
  by simp

lemma update_family_cases: "family_update B rp f t now st (update_family B rp f t now st)"
proof -
  obtain pref amb where pl: "preferred_lane B rp t f = (pref, amb)" by fastforce
  let ?st' = "update_family B rp f t now st"
  show ?thesis
  proof (cases amb)
    case True
    then have "?st' = \<lparr>fs_preferred = pref, fs_effective = ExitBlocked, fs_ready_since = None\<rparr>"
      by (simp add: update_family_def pl Let_def)
    with pl True show ?thesis by (simp add: family_update.ambiguous)
  next
    case False
    note pl' = pl [unfolded False [THEN eq_False [THEN iffD2]]]
    show ?thesis
    proof (cases "old_exit_usable B rp t f pref (fs_effective st)")
      case unusable: False
      then have "?st' = \<lparr>fs_preferred = pref,
          fs_effective = exit_of (choose_exit B rp t f pref), fs_ready_since = None\<rparr>"
        by (simp add: update_family_def pl' Let_def)
      with pl' unusable show ?thesis by (simp add: family_update.select)
    next
      case usable: True
      show ?thesis
      proof (cases "returning_lane B t f pref (fs_effective st)")
        case None
        with usable have "?st' = \<lparr>fs_preferred = pref, fs_effective = fs_effective st,
            fs_ready_since = None\<rparr>"
          by (simp add: update_family_def pl' Let_def)
        with pl' usable None show ?thesis by (simp add: family_update.keep)
      next
        case ret: (Some primary)
        show ?thesis
        proof (cases "fs_ready_since st = None \<or> fs_preferred st \<noteq> pref \<or>
            (\<exists>s. fs_ready_since st = Some s \<and> now < s)")
          case True
          with usable ret have "?st' = \<lparr>fs_preferred = pref, fs_effective = fs_effective st,
              fs_ready_since = Some now\<rparr>"
            using failback_delay_pos
            by (auto simp: update_family_def pl' Let_def dur_checked_sub_def split: option.splits)
          with pl' usable ret True show ?thesis by (simp add: family_update.start_wait)
        next
          case False
          then obtain s where s: "fs_ready_since st = Some s" "fs_preferred st = pref" "s \<le> now"
            by (auto simp: not_less)
          show ?thesis
          proof (cases "failback_delay \<le> now - s")
            case True
            with usable ret s have "?st' = \<lparr>fs_preferred = pref,
                fs_effective = ExitLane primary, fs_ready_since = None\<rparr>"
              by (simp add: update_family_def pl' Let_def dur_checked_sub_def)
            with pl' usable ret s True show ?thesis by (simp add: family_update.failback)
          next
            case False
            with usable ret s have "?st' = \<lparr>fs_preferred = pref, fs_effective = fs_effective st,
                fs_ready_since = Some s\<rparr>"
              by (simp add: update_family_def pl' Let_def dur_checked_sub_def)
            with pl' usable ret s False show ?thesis by (simp add: family_update.still_waiting)
          qed
        qed
      qed
    qed
  qed
qed

inductive_cases family_updateE: "family_update B rp f t now st st'"

subsection \<open>Which exits an update may leave in place\<close>

definition exit_allowed ::
  "bindings \<Rightarrow> routing_policy \<Rightarrow> 'n topology \<Rightarrow> ip_family \<Rightarrow> family_state \<Rightarrow> bool"
where
  "exit_allowed B rp t f st =
     (case fs_effective st of
        ExitBlocked \<Rightarrow> True
      | ExitLane i \<Rightarrow> exit_ready B t f i \<and>
          (rp_automatic_failover rp \<or> fs_preferred st = Some i))"

lemma choose_exit_Some:
  "choose_exit B rp t f pref = Some i \<Longrightarrow>
     exit_ready B t f i \<and>
     (pref = Some i \<or> rp_automatic_failover rp \<and> i \<in> set (rp_backups rp))"
  by (auto simp: choose_exit_def dest: find_Some_in split: option.splits if_splits)

lemma returning_lane_Some:
  "returning_lane B t f pref eff = Some i \<longleftrightarrow>
     pref = Some i \<and> exit_ready B t f i \<and> eff \<noteq> ExitLane i"
  by (auto simp: returning_lane_def split: option.splits if_splits)

lemma update_family_allowed: "exit_allowed B rp t f (update_family B rp f t now st)"
  using update_family_cases [of B rp f t now st]
proof cases
  case (select pref)
  then show ?thesis
    by (cases "choose_exit B rp t f pref")
       (auto simp: exit_allowed_def exit_of_def dest: choose_exit_Some)
qed (auto simp: exit_allowed_def old_exit_usable_def returning_lane_Some split: family_exit.splits)

text \<open>With a chosen primary lane, the exits are that lane and the approved backups.\<close>

definition consented :: "routing_policy \<Rightarrow> family_state \<Rightarrow> bool" where
  "consented rp st =
     (\<forall>p i. rp_primary rp = PrimaryLane p \<longrightarrow> fs_effective st = ExitLane i \<longrightarrow>
        i = p \<or> i \<in> set (rp_backups rp))"

lemma preferred_lane_primary:
  "rp_primary rp = PrimaryLane p \<Longrightarrow> preferred_lane B rp t f = (Some p, False)"
  by (simp add: preferred_lane_def)

lemma update_family_consented:
  assumes "consented rp st"
  shows "consented rp (update_family B rp f t now st)"
  using update_family_cases [of B rp f t now st] assms
proof cases
  case (select pref)
  with assms show ?thesis
    by (cases "choose_exit B rp t f pref")
       (auto simp: consented_def exit_of_def preferred_lane_primary dest: choose_exit_Some)
qed (auto simp: consented_def preferred_lane_primary returning_lane_Some)

section \<open>The failback wait over a run\<close>

text \<open>
  The history an update adds to is the list of (topology, time) pairs the family has seen. While
  \<open>ready_since = Some s\<close>, the history ends in a stretch that begins with an update at time \<open>s\<close>
  and throughout which the preferred lane was the same, unambiguous and ready.
\<close>

type_synonym 'n evidence = "'n topology \<times> duration"

definition steady ::
  "bindings \<Rightarrow> routing_policy \<Rightarrow> ip_family \<Rightarrow> lane_id \<Rightarrow> 'n evidence list \<Rightarrow> bool"
where
  "steady B rp f i es =
     (\<forall>(t, now) \<in> set es. preferred_lane B rp t f = (Some i, False) \<and> exit_ready B t f i)"

definition family_step ::
  "bindings \<Rightarrow> routing_policy \<Rightarrow> ip_family \<Rightarrow> 'n evidence list \<times> family_state \<Rightarrow> 'n evidence \<Rightarrow>
     'n evidence list \<times> family_state"
where
  "family_step B rp f s e =
     (fst s @ [e], update_family B rp f (fst e) (snd e) (snd s))"

definition wait_inv ::
  "bindings \<Rightarrow> routing_policy \<Rightarrow> ip_family \<Rightarrow> 'n evidence list \<times> family_state \<Rightarrow> bool"
where
  "wait_inv B rp f s =
     (\<forall>since. fs_ready_since (snd s) = Some since \<longrightarrow>
        (\<exists>i before t0 after. fst s = before @ (t0, since) # after \<and>
           fs_preferred (snd s) = Some i \<and> steady B rp f i ((t0, since) # after)))"

lemma wait_inv_step: "wait_inv B rp f s \<Longrightarrow> wait_inv B rp f (family_step B rp f s e)"
proof -
  assume inv: "wait_inv B rp f s"
  obtain t now where e: "e = (t, now)" by (cases e)
  from update_family_cases [of B rp f t now "snd s"]
  show ?thesis
  proof cases
    case (start_wait pref primary)
    then have "steady B rp f primary [(t, now)]" and "pref = Some primary"
      by (auto simp: steady_def returning_lane_Some)
    with start_wait show ?thesis
      by (auto simp: wait_inv_def family_step_def e intro!: exI [of _ "fst s"])
  next
    case (still_waiting pref primary since)
    with inv obtain i before t0 after where h: "fst s = before @ (t0, since) # after"
      "pref = Some i" "steady B rp f i ((t0, since) # after)"
      by (auto simp: wait_inv_def)
    moreover have "steady B rp f i ((t0, since) # after @ [(t, now)])"
      using h still_waiting by (auto simp: steady_def returning_lane_Some)
    ultimately show ?thesis
      using still_waiting by (auto simp: wait_inv_def family_step_def e)
  qed (auto simp: wait_inv_def family_step_def e)
qed

interpretation failback_wait: machine "family_step B rp f" "\<lambda>_. True" "wait_inv B rp f"
  for B rp f
  by unfold_locales (rule wait_inv_step)

definition family_run ::
  "bindings \<Rightarrow> routing_policy \<Rightarrow> ip_family \<Rightarrow> 'n evidence list \<Rightarrow> family_state"
where
  "family_run B rp f es = fold (\<lambda>(t, now) st. update_family B rp f t now st) es default_state"

lemma family_run_history:
  "fold (\<lambda>e s. family_step B rp f s e) es (h, st) =
     (h @ es, fold (\<lambda>(t, now) st. update_family B rp f t now st) es st)"
  by (induction es arbitrary: h st) (auto simp: family_step_def)

lemma family_run_wait: "wait_inv B rp f (es, family_run B rp f es)"
proof -
  have "wait_inv B rp f ([], default_state)" by (simp add: wait_inv_def default_state_def)
  from failback_wait.inv_run [OF this, of es] show ?thesis
    by (simp add: family_run_history family_run_def)
qed

lemma family_run_snoc:
  "family_run B rp f (es @ [(t, now)]) = update_family B rp f t now (family_run B rp f es)"
  by (simp add: family_run_def)

section \<open>The whole selector\<close>

lemma selector_step_bindings [rl_keep]: "ps_bindings (selector_step rp t now s) = ps_bindings s"
  by (simp add: selector_step_def adopt_policy_def Let_def)

lemma selector_step_policy: "ps_policy (selector_step rp t now s) = Some rp"
  by (simp add: selector_step_def adopt_policy_def Let_def)

definition selector_inv :: "selector \<Rightarrow> bool" where
  "selector_inv s =
     (\<forall>rp. ps_policy s = Some rp \<longrightarrow> consented rp (ps_v4 s) \<and> consented rp (ps_v6 s))"

lemma selector_inv_step: "selector_inv s \<Longrightarrow> selector_inv (selector_step rp t now s)"
proof -
  assume inv: "selector_inv s"
  have "consented rp default_state" by (simp add: consented_def default_state_def)
  with inv have "consented rp (ps_v4 (adopt_policy rp s)) \<and> consented rp (ps_v6 (adopt_policy rp s))"
    by (auto simp: selector_inv_def adopt_policy_def)
  then show ?thesis
    by (cases "ps_policy s = Some rp")
       (simp_all add: selector_inv_def selector_step_def adopt_policy_def Let_def
         update_family_consented)
qed

text \<open>An update event of the selector: the policy in force, the observation and the clock.\<close>

type_synonym 'n update_event = "routing_policy \<times> 'n topology \<times> duration"

definition selector_event :: "selector \<Rightarrow> 'n update_event \<Rightarrow> selector" where
  "selector_event s e = (case e of (rp, t, now) \<Rightarrow> selector_step rp t now s)"

interpretation selector_machine: machine selector_event "\<lambda>_. True"
  "\<lambda>s. selector_inv s \<and> ps_bindings s = B" for B
  by unfold_locales
     (auto simp: selector_event_def selector_inv_step selector_step_bindings split: prod.splits)

definition family_state_of :: "selector \<Rightarrow> ip_family \<Rightarrow> family_state" where
  "family_state_of s f = (case f of V4 \<Rightarrow> ps_v4 s | V6 \<Rightarrow> ps_v6 s)"

lemma selector_step_family:
  "family_state_of (selector_step rp t now s) f =
     update_family (ps_bindings s) rp f t now (family_state_of (adopt_policy rp s) f)"
  by (cases f) (simp_all add: family_state_of_def selector_step_def adopt_policy_def Let_def)

lemma selector_new_inv: "selector_inv (selector_new p t)"
  by (simp add: selector_inv_def selector_new_def)

section \<open>Candidates, steady stretches and deadlines\<close>

definition exit_candidates :: "routing_policy \<Rightarrow> lane_id option \<Rightarrow> lane_id list" where
  "exit_candidates rp pref =
     (case pref of Some i \<Rightarrow> [i] | None \<Rightarrow> []) @
     (if rp_automatic_failover rp then rp_backups rp else [])"

lemma find_not_preferred:
  "\<not> P p \<Longrightarrow> find (\<lambda>b. p \<noteq> b \<and> P b) bs = find P bs"
  by (induction bs) auto

lemma choose_exit_candidates:
  "choose_exit B rp t f pref = find (exit_ready B t f) (exit_candidates rp pref)"
  by (auto simp: choose_exit_def exit_candidates_def find_not_preferred split: option.split)

definition returning_to :: "lane_id \<Rightarrow> duration \<Rightarrow> family_state \<Rightarrow> bool" where
  "returning_to i since st =
     (fs_effective st = ExitLane i \<or>
      fs_preferred st = Some i \<and> (\<exists>s \<le> since. fs_ready_since st = Some s))"

lemma old_exit_usable_preferred:
  "old_exit_usable B rp t f (Some i) (ExitLane i) \<longleftrightarrow> exit_ready B t f i"
  by (auto simp: old_exit_usable_def)

lemma returning_to_step:
  assumes "preferred_lane B rp t f = (Some i, False)" "exit_ready B t f i"
    and "returning_to i since st \<or> now = since" "since \<le> now"
  shows "returning_to i since (update_family B rp f t now st)"
  using update_family_cases [of B rp f t now st] assms
proof cases
  case (select pref)
  with assms show ?thesis
    by (simp add: returning_to_def choose_exit_def exit_of_def)
next
  case (start_wait pref primary)
  with assms show ?thesis by (auto simp: returning_to_def returning_lane_Some)
qed (auto simp: returning_to_def returning_lane_def split: if_splits)

lemma returning_to_run:
  assumes "steady B rp f i es" "\<forall>(t, now) \<in> set es. since \<le> now" "returning_to i since st"
  shows "returning_to i since (fold (\<lambda>(t, now) st. update_family B rp f t now st) es st)"
  using assms
proof (induction es arbitrary: st)
  case (Cons e es)
  obtain t now where e: "e = (t, now)" by (cases e)
  have "returning_to i since (update_family B rp f t now st)"
    by (rule returning_to_step) (use Cons.prems in \<open>auto simp: steady_def e\<close>)
  with Cons.IH Cons.prems show ?case by (auto simp: e steady_def)
qed simp

lemma returning_to_done:
  assumes "preferred_lane B rp t f = (Some i, False)" "exit_ready B t f i"
    and "returning_to i since st" "since + failback_delay \<le> now"
  shows "fs_effective (update_family B rp f t now st) = ExitLane i"
  using update_family_cases [of B rp f t now st] assms
proof cases
  case (select pref)
  with assms show ?thesis by (simp add: choose_exit_def exit_of_def)
next
  case (start_wait pref primary)
  with assms show ?thesis by (auto simp: returning_to_def returning_lane_Some)
next
  case (still_waiting pref primary s)
  with assms show ?thesis by (auto simp: returning_to_def returning_lane_Some)
next
  case (failback pref primary s)
  with assms show ?thesis by (auto simp: returning_lane_Some)
qed (auto simp: returning_to_def returning_lane_def split: if_splits)

lemma update_family_ready_since:
  "fs_ready_since (update_family B rp f t now st) = Some since \<Longrightarrow> now < since + failback_delay"
  using update_family_cases [of B rp f t now st] failback_delay_pos by cases auto

lemma state_deadline_future:
  "state_deadline (update_family B rp f t now st) = Some d \<Longrightarrow> now < d"
  by (auto simp: state_deadline_def dur_checked_add_def split: option.splits if_splits
      dest: update_family_ready_since)

lemma next_deadline_cases:
  "next_deadline s = Some d \<Longrightarrow>
     state_deadline (ps_v4 s) = Some d \<or> state_deadline (ps_v6 s) = Some d"
  by (auto simp: next_deadline_def min_def split: option.splits if_splits)

lemma selector_step_states:
  "\<exists>B a b. ps_v4 (selector_step rp t now s) = update_family B rp V4 t now a \<and>
     ps_v6 (selector_step rp t now s) = update_family B rp V6 t now b"
  by (auto simp: selector_step_def Let_def)

definition pair_get :: "'a family_pair \<Rightarrow> ip_family \<Rightarrow> 'a" where
  "pair_get p f = (case f of V4 \<Rightarrow> v4 p | V6 \<Rightarrow> v6 p)"

lemma decision_of_pair [simp]:
  "pair_get (pd_preferred (decision_of s)) f = fs_preferred (family_state_of s f)"
  "pair_get (pd_effective (decision_of s)) f = fs_effective (family_state_of s f)"
  by (cases f; simp add: decision_of_def pair_get_def family_state_of_def)+

lemma exit_ready_iff:
  "exit_ready B t f i \<longleftrightarrow> t_observed t \<and>
     (\<exists>identity e. bt_get B i = Some identity \<and> t_interface t (ii_name identity) = Some e \<and>
        it_identity e = Some identity \<and> interface_ready e f)"
  by (auto simp: exit_ready_def simp del: map_of_eq_Some_iff split: option.splits)

section \<open>A concrete network\<close>

definition demo_identity :: "nat \<Rightarrow> string \<Rightarrow> interface_identity" where
  "demo_identity n name = \<lparr>ii_ifindex = of_nat n, ii_name = name, ii_kind = ''Ethernet'',
     ii_hardware_address = None\<rparr>"

definition demo_entry :: "nat \<Rightarrow> string \<Rightarrow> bool \<Rightarrow> 'n interface_topology" where
  "demo_entry n name up = \<lparr>it_identity = Some (demo_identity n name), it_link_ready = up,
     it_route_v4 = Some (Via 0x0A000001), it_route_v6 = None, it_source_v4 = [0x0A000002],
     it_source_v6 = [], it_connected_networks = []\<rparr>"

text \<open>Two interfaces, \<open>e0\<close> (up or down) and \<open>e1\<close> (up).\<close>

definition demo_network :: "bool \<Rightarrow> 'n topology" where
  "demo_network up = \<lparr>
     t_interfaces = [(''e0'', demo_entry 2 ''e0'' up), (''e1'', demo_entry 3 ''e1'' True)],
     t_default_v4 = DefaultInterface ''e0'', t_default_v6 = DefaultNone, t_observed = True,
     t_conflicts = [], t_assigned_addresses = []\<rparr>"

definition demo_bindings :: bindings where
  "demo_bindings = [(''a'', demo_identity 2 ''e0''), (''b'', demo_identity 3 ''e1'')]"

definition demo_policy :: routing_policy where
  "demo_policy = \<lparr>rp_unmatched_traffic = PreserveSystem, rp_primary = PrimaryLane ''a'',
     rp_backups = [''b''], rp_automatic_failover = True\<rparr>"

definition demo_selector :: selector where
  "demo_selector = \<lparr>ps_bindings = demo_bindings, ps_v4 = default_state, ps_v6 = default_state,
     ps_policy = None\<rparr>"

section \<open>Properties\<close>

text \<open>
  Whatever state the selector was in, after an update every effective exit is a lane that is
  ready in the topology just observed, on the very interface identity the lane was bound to
  (index, name, kind and hardware address), with link, route and source address of that family;
  and without automatic failover it is the preferred lane.
\<close>

lemma selector_update_exit_ready:
  assumes "selector_update rp t now s = (d, s')"
    and "pair_get (pd_effective d) f = ExitLane i"
  shows "(\<exists>identity e. bt_get (ps_bindings s) i = Some identity \<and> t_observed t \<and>
      t_interface t (ii_name identity) = Some e \<and> it_identity e = Some identity \<and>
      interface_ready e f) \<and>
    (rp_automatic_failover rp \<or> pair_get (pd_preferred d) f = Some i)"
proof -
  let ?st = "family_state_of (selector_step rp t now s) f"
  have "exit_allowed (ps_bindings s) rp t f ?st"
    unfolding selector_step_family by (rule update_family_allowed)
  with assms have "exit_ready (ps_bindings s) t f i \<and>
      (rp_automatic_failover rp \<or> fs_preferred ?st = Some i)"
    by (auto simp: exit_allowed_def selector_update_def Let_def)
  with assms show ?thesis
    unfolding exit_ready_iff by (auto simp: selector_update_def Let_def)
qed

text \<open>
  An exit that is lost is replaced in the same update, without waiting: when the preferred
  lane is unambiguous and the current exit is not usable, the new exit is the first ready lane of
  the preferred lane followed (if automatic failover is on) by the backups in their order, and
  traffic is blocked only when none of them is ready.
\<close>

lemma lost_exit_replaced_at_once:
  assumes "preferred_lane B rp t f = (pref, False)"
    and "\<not> old_exit_usable B rp t f pref (fs_effective st)"
  shows "fs_effective (update_family B rp f t now st) =
    (case find (exit_ready B t f) (exit_candidates rp pref) of
       Some i \<Rightarrow> ExitLane i | None \<Rightarrow> ExitBlocked)"
  using assms by (simp add: update_family_def choose_exit_candidates exit_of_def Let_def)

text \<open>
  C2. Consent: from a fresh selector, over any sequence of policies, observations and clock
  readings, the bindings stay those of the authorized profile, every effective exit is a lane of
  that profile, and under a policy with a chosen primary lane it is that lane or one of the
  approved backups.
\<close>

theorem selector_consent:
  assumes "s = fold (\<lambda>e s. selector_event s e) (es @ [(rp, t, now)]) (selector_new p t0)"
    and "fs_effective (family_state_of s f) = ExitLane i"
  shows "ps_bindings s = lane_bindings (p_lanes p) t0 \<and> i \<in> l_id ` set (p_lanes p) \<and>
    (case rp_primary rp of
       PrimaryLane q \<Rightarrow> i = q \<or> i \<in> set (rp_backups rp)
     | FollowSystemDefault \<Rightarrow> True)"
proof -
  let ?B = "lane_bindings (p_lanes p) t0"
  let ?s = "fold (\<lambda>e s. selector_event s e) es (selector_new p t0)"
  have "selector_inv (selector_new p t0) \<and> ps_bindings (selector_new p t0) = ?B"
    by (simp add: selector_new_inv) (simp add: selector_new_def)
  from selector_machine.inv_run [OF this, of es]
  have inv: "selector_inv ?s \<and> ps_bindings ?s = ?B" by simp
  have s: "s = selector_step rp t now ?s" by (simp add: assms(1) selector_event_def)
  have B: "ps_bindings s = ?B" using inv by (simp add: s selector_step_bindings)
  have "exit_allowed ?B rp t f (family_state_of s f)"
    unfolding s selector_step_family by (simp add: inv update_family_allowed)
  then have "bt_get ?B i \<noteq> None"
    using assms(2) by (auto simp: exit_allowed_def exit_ready_def split: option.splits)
  then have i: "i \<in> l_id ` set (p_lanes p)"
    by (auto simp: lane_bindings_def bt_get_collect map_filter_def dest!: map_of_SomeD
        split: option.splits simp del: map_of_eq_Some_iff)
  have "consented rp (family_state_of s f)"
    using selector_inv_step [of ?s rp t now] inv selector_step_policy [of rp t now ?s]
    by (auto simp: s selector_inv_def family_state_of_def split: ip_family.split)
  with B i show ?thesis
    using assms(2) by (auto simp: consented_def split: primary_selection.split)
qed

text \<open>
  C3. No flapping: when a family that has followed any history of observations moves from a still
  usable exit to another lane, that lane has been the preferred one, unambiguous and ready, in
  every observation of a stretch that began at least five seconds earlier.
\<close>

theorem failback_needs_steady_readiness:
  assumes "st = family_run B rp f es"
    and "fs_effective st = ExitLane a"
    and "old_exit_usable B rp t f (fst (preferred_lane B rp t f)) (ExitLane a)"
    and "fs_effective (family_run B rp f (es @ [(t, now)])) = ExitLane b"
    and "a \<noteq> b"
  shows "\<exists>before t1 since after. es = before @ (t1, since) # after \<and>
    since + from_secs 5 \<le> now \<and> steady B rp f b ((t1, since) # after @ [(t, now)])"
  using update_family_cases [of B rp f t now st]
proof cases
  case (failback pref primary s)
  have b: "primary = b" using assms failback by (simp add: family_run_snoc)
  from family_run_wait [of B rp f es] failback assms(1)
  obtain i before t1 after where h: "es = before @ (t1, s) # after"
    "fs_preferred st = Some i" "steady B rp f i ((t1, s) # after)"
    by (auto simp: wait_inv_def)
  have "i = b" using h failback b by (simp add: returning_lane_Some)
  moreover have "steady B rp f i ((t1, s) # after @ [(t, now)])"
    using h failback by (auto simp: steady_def returning_lane_Some)
  ultimately show ?thesis using h failback
    by (intro exI [of _ before] exI [of _ t1] exI [of _ s] exI [of _ after])
       (simp add: failback_delay_def)
qed (use assms in \<open>auto simp: family_run_snoc\<close>)

text \<open>
  C4. The failback does happen: from any state, when the preferred lane is the same, unambiguous
  and ready in a stretch of observations whose clock never goes below its start and whose last
  observation is at least five seconds after it, the preferred lane is the exit at the end.
\<close>

theorem failback_happens:
  assumes "steady B rp f i ((t0, since) # es @ [(t, now)])"
    and "\<forall>(t, now) \<in> set es. since \<le> now"
    and "since + from_secs 5 \<le> now"
  shows "fs_effective (fold (\<lambda>(t, now) st. update_family B rp f t now st)
    ((t0, since) # es @ [(t, now)]) st) = ExitLane i"
proof -
  let ?run = "\<lambda>es st. fold (\<lambda>(t, now) st. update_family B rp f t now st) es st"
  have "returning_to i since (update_family B rp f t0 since st)"
    by (rule returning_to_step) (use assms in \<open>auto simp: steady_def\<close>)
  then have "returning_to i since (?run es (update_family B rp f t0 since st))"
    by (intro returning_to_run) (use assms in \<open>auto simp: steady_def\<close>)
  from returning_to_done [where t = t and now = now, OF _ _ this] show ?thesis
    using assms by (simp add: steady_def failback_delay_def)
qed

text \<open>
  The timer never spins: the deadline the selector asks to be woken at, after an update, lies
  strictly after the clock reading of that update.
\<close>

lemma next_deadline_in_future:
  assumes "next_deadline (selector_step rp t now s) = Some d"
  shows "now < d"
  using selector_step_states [of rp t now s] next_deadline_cases [OF assms]
  by (auto dest: state_deadline_future)

section \<open>Witnesses\<close>

lemmas demo_network_simps = demo_network_def demo_entry_def demo_identity_def demo_bindings_def
  demo_policy_def t_interface_def interface_ready_def

lemma demo_ready:
  "exit_ready demo_bindings (demo_network up) V4 ''a'' = up"
  "exit_ready demo_bindings (demo_network up) V4 ''b''"
  "preferred_lane demo_bindings demo_policy t f = (Some ''a'', False)"
  by (simp_all add: exit_ready_def preferred_lane_def demo_network_simps)

lemma demo_policy_backups:
  "rp_backups demo_policy = [''b'']" "rp_automatic_failover demo_policy"
  by (simp_all add: demo_policy_def)

lemma demo_update_v6:
  "fs_ready_since (update_family demo_bindings demo_policy V6 (demo_network True) now
     default_state) = None"
  by (simp add: update_family_def demo_ready old_exit_usable_def default_state_def)

lemma demo_update:
  "fs_effective st = ExitBlocked \<Longrightarrow>
     update_family demo_bindings demo_policy V4 (demo_network False) now st =
     \<lparr>fs_preferred = Some ''a'', fs_effective = ExitLane ''b'', fs_ready_since = None\<rparr>"
  "fs_effective st = ExitLane ''b'' \<Longrightarrow>
     update_family demo_bindings demo_policy V4 (demo_network False) now st =
     \<lparr>fs_preferred = Some ''a'', fs_effective = ExitLane ''b'', fs_ready_since = None\<rparr>"
  "update_family demo_bindings demo_policy V4 (demo_network True) now
     \<lparr>fs_preferred = Some ''a'', fs_effective = ExitLane ''b'', fs_ready_since = None\<rparr> =
     \<lparr>fs_preferred = Some ''a'', fs_effective = ExitLane ''b'', fs_ready_since = Some now\<rparr>"
  "update_family demo_bindings demo_policy V4 (demo_network True) (from_secs 7)
     \<lparr>fs_preferred = Some ''a'', fs_effective = ExitLane ''b'', fs_ready_since = Some (from_secs 2)\<rparr> =
     \<lparr>fs_preferred = Some ''a'', fs_effective = ExitLane ''a'', fs_ready_since = None\<rparr>"
  by (auto simp: update_family_def demo_ready old_exit_usable_def choose_exit_def exit_of_def
      returning_lane_def demo_policy_backups dur_checked_sub_def failback_delay_def from_secs_def
      split: family_exit.splits)

lemma demo_run:
  "family_run demo_bindings demo_policy V4
     [(demo_network False, from_secs 1), (demo_network True, from_secs 2)] =
   \<lparr>fs_preferred = Some ''a'', fs_effective = ExitLane ''b'', fs_ready_since = Some (from_secs 2)\<rparr>"
  by (simp add: family_run_def demo_update default_state_def)

lemma selector_update_exit_ready_witness:
  "\<exists>identity. bt_get demo_bindings ''b'' = Some identity \<and>
     rp_automatic_failover demo_policy"
proof -
  obtain d s' where u:
    "selector_update demo_policy (demo_network False :: nat topology) 0 demo_selector = (d, s')"
    by (cases "selector_update demo_policy (demo_network False :: nat topology) 0 demo_selector")
  moreover from u have "pair_get (pd_effective d) V4 = ExitLane ''b''"
    by (auto simp: selector_update_def Let_def family_state_of_def selector_step_def
        adopt_policy_def demo_selector_def demo_update default_state_def)
  ultimately show ?thesis
    using selector_update_exit_ready [of demo_policy "demo_network False :: nat topology" 0
        demo_selector d s' V4 "''b''"]
    by (auto simp: demo_selector_def demo_policy_def simp del: map_of_eq_Some_iff)
qed

lemma lost_exit_replaced_at_once_witness:
  "fs_effective (update_family demo_bindings demo_policy V4 (demo_network False :: nat topology) 0
     default_state) = ExitLane ''b''"
  using lost_exit_replaced_at_once [of demo_bindings demo_policy "demo_network False :: nat topology"
      V4 "Some ''a''" default_state 0]
  by (simp add: demo_ready old_exit_usable_def default_state_def exit_candidates_def
      demo_policy_backups)

definition demo_consent_profile :: "nat profile" where
  "demo_consent_profile = \<lparr>p_id = ''p'', p_name = ''P'', p_enabled = True,
     p_lanes = [\<lparr>l_id = ''a'', l_name = ''A'', l_interface = ''e0'', l_fallback_lane = None,
         l_failure_policy = FailBlock\<rparr>,
       \<lparr>l_id = ''b'', l_name = ''B'', l_interface = ''e1'', l_fallback_lane = None,
         l_failure_policy = FailBlock\<rparr>],
     p_rules = [], p_routing = demo_policy\<rparr>"

lemma demo_consent_bindings:
  "selector_new demo_consent_profile (demo_network True :: nat topology) = demo_selector"
  by (simp add: selector_new_def demo_consent_profile_def lane_bindings_def demo_selector_def
      lane_identity_def demo_network_simps bt_collect_def map_filter_def)

theorem selector_consent_witness:
  "\<exists>s. s = fold (\<lambda>e s. selector_event s e) ([] @ [(demo_policy, demo_network False :: nat topology, 0)])
         (selector_new demo_consent_profile (demo_network True :: nat topology)) \<and>
     fs_effective (family_state_of s V4) = ExitLane ''b'' \<and>
     ''b'' \<in> l_id ` set (p_lanes demo_consent_profile) \<and> ''b'' \<in> set (rp_backups demo_policy)"
proof -
  let ?s = "fold (\<lambda>e s. selector_event s e) ([] @ [(demo_policy, demo_network False :: nat topology, 0)])
    (selector_new demo_consent_profile (demo_network True :: nat topology))"
  have e: "fs_effective (family_state_of ?s V4) = ExitLane ''b''"
    by (simp add: demo_consent_bindings selector_event_def family_state_of_def selector_step_def
        adopt_policy_def demo_selector_def demo_update default_state_def)
  have "rp_primary demo_policy = PrimaryLane ''a''" by (simp add: demo_policy_def)
  with selector_consent [OF refl e] e show ?thesis by auto
qed

theorem failback_needs_steady_readiness_witness:
  "\<exists>before t1 since after.
     [(demo_network False, from_secs 1), (demo_network True, from_secs 2)] =
       before @ (t1, since) # after \<and>
     since + from_secs 5 \<le> from_secs 7 \<and>
     steady demo_bindings demo_policy V4 ''a''
       ((t1, since) # after @ [(demo_network True :: nat topology, from_secs 7)])"
  by (rule failback_needs_steady_readiness [OF demo_run [symmetric], of "''b''"])
     (subst family_run_snoc demo_run |
       simp add: demo_run demo_update old_exit_usable_def demo_ready demo_policy_backups
         del: append_Cons)+

theorem failback_happens_witness:
  "fs_effective (fold (\<lambda>(t, now) st. update_family demo_bindings demo_policy V4 t now st)
     ((demo_network True :: nat topology, 0) # [] @ [(demo_network True, from_secs 5)])
     default_state) = ExitLane ''a''"
  by (rule failback_happens) (simp_all add: steady_def demo_ready)

lemma next_deadline_in_future_witness:
  "(0::duration) < from_secs 5"
proof -
  let ?s = "\<lparr>ps_bindings = demo_bindings,
     ps_v4 = \<lparr>fs_preferred = Some ''a'', fs_effective = ExitLane ''b'', fs_ready_since = None\<rparr>,
     ps_v6 = default_state, ps_policy = Some demo_policy\<rparr>"
  have "next_deadline (selector_step demo_policy (demo_network True :: nat topology) 0 ?s) =
      Some (from_secs 5)"
    by (simp add: next_deadline_def selector_step_def adopt_policy_def demo_update demo_update_v6
        state_deadline_def dur_checked_add_def failback_delay_def from_secs_def
        duration_max_def)
  then show ?thesis by (rule next_deadline_in_future)
qed

end
