(* ===== verification/Plan.thy ===== *)
theory Plan
  imports Primary
begin

text \<open>
  Kernel plans (\<open>src/src/backend/plan.rs\<close>): the lanes with the routing table, firewall mark and
  rule priority each owns, the compiled rules, and the resolution snapshot of domain rules.
\<close>

section \<open>Resource ranges\<close>

definition TABLE_BASE :: u32 where "TABLE_BASE = 20000"
definition TABLE_MAX :: u32 where "TABLE_MAX = 20099"
definition MARK_BASE :: u32 where "MARK_BASE = 0x524c0001"
definition MARK_MAX :: u32 where "MARK_MAX = 0x524c0064"
definition RULE_PRIORITY_BASE :: u32 where "RULE_PRIORITY_BASE = 10000"
definition RULE_PRIORITY_MAX :: u32 where "RULE_PRIORITY_MAX = 10099"

lemmas range_defs [rl_defs] = TABLE_BASE_def TABLE_MAX_def MARK_BASE_def MARK_MAX_def
  RULE_PRIORITY_BASE_def RULE_PRIORITY_MAX_def

section \<open>Plans\<close>

datatype lane_availability = Available | Unavailable

record lane_plan =
  lp_identity :: "interface_identity option"
  lp_source_v4 :: "u32 list"
  lp_source_v6 :: "ipv6 list"
  lp_id :: lane_id
  lp_interface :: string
  lp_route_v4 :: "u32 route_mode option"
  lp_route_v6 :: "ipv6 route_mode option"
  lp_availability :: lane_availability
  lp_table :: u32
  lp_mark :: u32
  lp_rule_priority :: u32
  lp_failure_policy :: lane_failure_policy

datatype 'n compiled_target = TargetAll | Cgroup string | Network 'n

datatype compiled_action = Mark u32 | Direct | Block

record 'n compiled_rule =
  cr_family :: ip_family
  cr_id :: rule_id
  cr_priority :: u32
  cr_target :: "'n compiled_target"
  cr_action :: compiled_action

type_synonym 'n routing_key = "ip_family \<times> 'n compiled_target \<times> compiled_action"

definition routing_key :: "'n foreign \<Rightarrow> 'n compiled_rule \<Rightarrow> 'n routing_key" where
  "routing_key X c =
     (cr_family c,
      (case cr_target c of Network n \<Rightarrow> Network (net_trunc X n) | t \<Rightarrow> t),
      cr_action c)"

record 'n kernel_plan =
  kp_primary :: primary_decision
  kp_local_networks :: "'n list"
  kp_local_addresses :: "ip_addr list"
  kp_generation :: u64
  kp_profile_id :: profile_id
  kp_lanes :: "lane_plan list"
  kp_rules :: "'n compiled_rule list"

text \<open>
  What the content hash covers: everything but the generation. The hash itself, blake3 over the
  serialized content, is code outside the repository and a parameter.
\<close>

record 'n policy_content =
  pc_primary :: primary_decision
  pc_local_networks :: "'n list"
  pc_local_addresses :: "ip_addr list"
  pc_profile_id :: profile_id
  pc_lanes :: "lane_plan list"
  pc_rules :: "'n compiled_rule list"

definition policy_content :: "'n kernel_plan \<Rightarrow> 'n policy_content" where
  "policy_content k = \<lparr>pc_primary = kp_primary k, pc_local_networks = kp_local_networks k,
     pc_local_addresses = kp_local_addresses k, pc_profile_id = kp_profile_id k,
     pc_lanes = kp_lanes k, pc_rules = kp_rules k\<rparr>"

definition content_hash :: "('n policy_content \<Rightarrow> 'h) \<Rightarrow> 'n kernel_plan \<Rightarrow> 'h" where
  "content_hash digest k = digest (policy_content k)"

lemma content_hash_generation [simp]:
  "content_hash digest (k\<lparr>kp_generation := g\<rparr>) = content_hash digest k"
  by (simp add: content_hash_def policy_content_def)

lemma policy_content_eq:
  "policy_content a = policy_content b \<longleftrightarrow> a\<lparr>kp_generation := kp_generation b\<rparr> = b"
  by (cases a; cases b) (auto simp: policy_content_def)

section \<open>Resolution snapshots\<close>

type_synonym 'n resolutions = "(rule_id, 'n list) btree"

definition resolutions_insert :: "rule_id \<Rightarrow> 'n list \<Rightarrow> 'n resolutions \<Rightarrow> 'n resolutions" where
  "resolutions_insert i ns r = bt_insert i ns r"

definition resolutions_from_rule :: "rule_id \<Rightarrow> 'n list \<Rightarrow> 'n resolutions" where
  "resolutions_from_rule i ns = [(i, ns)]"

definition resolved_addresses :: "'n resolutions \<Rightarrow> rule_id \<Rightarrow> 'n list option" where
  "resolved_addresses r i = bt_get r i"

lemma resolved_addresses_insert:
  "resolved_addresses (resolutions_insert i ns r) j =
     (if j = i then Some ns else resolved_addresses r j)"
  by (simp add: resolved_addresses_def resolutions_insert_def bt_get_insert)

end
