(* ===== verification/Planner.thy ===== *)
theory Planner
  imports Plan "HOL-Library.Multiset"
begin

text \<open>
  The planner (\<open>src/src/backend/planner.rs\<close>): from a profile, an observed topology, a snapshot of
  resolved names and a primary-exit decision to a kernel plan. A panic (\<open>expect\<close>, indexing a map
  by an absent key) is a value, and the fallback loop, which nothing in the function itself
  bounds, is a partial function; the theorems show that neither happens.
\<close>

section \<open>Outcomes\<close>

datatype capability = CapApplication | CapWildcardDomain | CapServicePack

datatype plan_error =
    PlanDomain domain_error
  | ProfileInactive
  | InvalidPrimaryExit lane_id ip_family
  | DomainResolutionUnavailable rule_id
  | UnsupportedCapability rule_id capability

datatype stop = Panic | Rejected plan_error

type_synonym 'a outcome = "(stop, 'a) result"

section \<open>Lanes\<close>

definition usable_route ::
  "'n topology \<Rightarrow> string \<Rightarrow> ip_family \<Rightarrow> ('n interface_topology \<Rightarrow> 'r option) \<Rightarrow> 'r option"
where
  "usable_route t name f route =
     (case t_interface t name of
        None \<Rightarrow> None
      | Some e \<Rightarrow> if \<not> t_observed t \<or> interface_ready e f then route e else None)"

definition compile_lane :: "'n topology \<Rightarrow> nat \<Rightarrow> lane \<Rightarrow> lane_plan" where
  "compile_lane t slot l =
     (let e = t_interface t (l_interface l);
          r4 = usable_route t (l_interface l) V4 it_route_v4;
          r6 = usable_route t (l_interface l) V6 it_route_v6
      in \<lparr>lp_identity = (case e of None \<Rightarrow> None | Some e \<Rightarrow> it_identity e),
          lp_source_v4 = (case e of None \<Rightarrow> [] | Some e \<Rightarrow> it_source_v4 e),
          lp_source_v6 = (case e of None \<Rightarrow> [] | Some e \<Rightarrow> it_source_v6 e),
          lp_id = l_id l,
          lp_interface = l_interface l,
          lp_route_v4 = r4,
          lp_route_v6 = r6,
          lp_availability = (if r4 \<noteq> None \<or> r6 \<noteq> None then Available else Unavailable),
          lp_table = TABLE_BASE + of_nat slot,
          lp_mark = MARK_BASE + of_nat slot,
          lp_rule_priority = RULE_PRIORITY_BASE + of_nat slot,
          lp_failure_policy = l_failure_policy l\<rparr>)"

definition compile_lanes :: "'n topology \<Rightarrow> lane list \<Rightarrow> lane_plan list" where
  "compile_lanes t lanes =
     map (\<lambda>(slot, l). compile_lane t slot l) (enumerate 0 (sort_key l_id lanes))"

definition family_available :: "lane_plan \<Rightarrow> ip_family \<Rightarrow> bool" where
  "family_available l f =
     (lp_availability l = Available \<and>
      (case f of V4 \<Rightarrow> lp_route_v4 l \<noteq> None | V6 \<Rightarrow> lp_route_v6 l \<noteq> None))"

type_synonym profile_lanes = "(lane_id, lane) btree"
type_synonym lane_plans = "(lane_id, lane_plan) btree"

section \<open>Verdicts\<close>

definition primary_action :: "primary_decision \<Rightarrow> ip_family \<Rightarrow> lane_plans \<Rightarrow> compiled_action outcome"
where
  "primary_action primary f plans =
     (case pair_get (pd_effective primary) f of
        ExitBlocked \<Rightarrow> Inr Block
      | ExitLane i \<Rightarrow>
          (case bt_get plans i of None \<Rightarrow> Inl Panic | Some l \<Rightarrow> Inr (Mark (lp_mark l))))"

text \<open>\<open>while let Some(lane_id) = fallback_id\<close>; \<open>Inr None\<close> when the chain ends.\<close>

partial_function (option) fallback_loop ::
  "profile_lanes \<times> lane_plans \<Rightarrow> ip_family \<Rightarrow> lane_id option \<Rightarrow> compiled_action option outcome option"
where
  "fallback_loop maps f fallback_id =
     (case fallback_id of
        None \<Rightarrow> Some (Inr None)
      | Some i \<Rightarrow>
          (case bt_get (snd maps) i of
             None \<Rightarrow> Some (Inl Panic)
           | Some plan \<Rightarrow>
               if family_available plan f then Some (Inr (Some (Mark (lp_mark plan))))
               else (case bt_get (fst maps) i of
                   None \<Rightarrow> Some (Inl Panic)
                 | Some l \<Rightarrow> fallback_loop maps f (l_fallback_lane l))))"

declare fallback_loop.simps [code]

definition failure_action ::
  "lane_failure_policy \<Rightarrow> primary_decision \<Rightarrow> ip_family \<Rightarrow> lane_plans \<Rightarrow>
     compiled_action option outcome"
where
  "failure_action policy primary f plans =
     (case policy of
        FailBlock \<Rightarrow> Inr (Some Block)
      | FailDirect \<Rightarrow> and_then (primary_action primary f plans) (\<lambda>a. Inr (Some a))
      | FailInactive \<Rightarrow> Inr None)"

definition compile_route_action ::
  "lane_id \<Rightarrow> profile_lanes \<Rightarrow> lane_plans \<Rightarrow> primary_decision \<Rightarrow> ip_family \<Rightarrow>
     compiled_action option outcome option"
where
  "compile_route_action i lanes plans primary f =
     (case (bt_get lanes i, bt_get plans i) of
        (Some l, Some plan) \<Rightarrow>
          if family_available plan f then Some (Inr (Some (Mark (lp_mark plan))))
          else (case fallback_loop (lanes, plans) f (l_fallback_lane l) of
              None \<Rightarrow> None
            | Some (Inl e) \<Rightarrow> Some (Inl e)
            | Some (Inr (Some a)) \<Rightarrow> Some (Inr (Some a))
            | Some (Inr None) \<Rightarrow> Some (failure_action (l_failure_policy l) primary f plans))
      | _ \<Rightarrow> Some (Inl Panic))"

definition compile_action ::
  "rule_action \<Rightarrow> profile_lanes \<Rightarrow> lane_plans \<Rightarrow> primary_decision \<Rightarrow> ip_family \<Rightarrow>
     compiled_action option outcome option"
where
  "compile_action a lanes plans primary f =
     (case a of
        ActionRoute i \<Rightarrow> compile_route_action i lanes plans primary f
      | ActionDirect \<Rightarrow> Some (and_then (primary_action primary f plans) (\<lambda>a. Inr (Some a)))
      | ActionBlock \<Rightarrow> Some (Inr (Some Block)))"

section \<open>Rules\<close>

definition rule_targets ::
  "'n::linorder foreign \<Rightarrow> 'n resolutions \<Rightarrow> 'n rule \<Rightarrow> (plan_error, 'n compiled_target list) result"
where
  "rule_targets X res r =
     (case r_source r of
        SourceApplication _ \<Rightarrow> Inr [Cgroup (''routelane.apps/'' @ r_id r)]
      | SourceAny \<Rightarrow>
          (case r_target r of
             TargetAny \<Rightarrow> Inr [TargetAll]
           | TargetIp a \<Rightarrow> Inr [Network (net_of_addr X a)]
           | TargetCidr n \<Rightarrow> Inr [Network (net_trunc X n)]
           | TargetDomain _ \<Rightarrow>
               and_then (ok_or (DomainResolutionUnavailable (r_id r)) (resolved_addresses res (r_id r)))
                 (\<lambda>ns. Inr (map Network (sort_dedup (map (net_trunc X) ns))))
           | TargetWildcardDomain _ \<Rightarrow> Inl (UnsupportedCapability (r_id r) CapWildcardDomain)
           | TargetServicePack _ \<Rightarrow> Inl (UnsupportedCapability (r_id r) CapServicePack)))"

definition target_families :: "'n foreign \<Rightarrow> 'n compiled_target \<Rightarrow> ip_family list" where
  "target_families X t =
     (case t of Network n \<Rightarrow> if is_ipv4 (net_addr X n) then [V4] else [V6] | _ \<Rightarrow> [V4, V6])"

definition rule_pairs ::
  "'n foreign \<Rightarrow> 'n compiled_target list \<Rightarrow> ('n compiled_target \<times> ip_family) list"
where
  "rule_pairs X ts = concat (map (\<lambda>t. map (Pair t) (target_families X t)) ts)"

definition compiled_rule_of ::
  "'n rule \<Rightarrow> 'n compiled_target \<Rightarrow> ip_family \<Rightarrow> compiled_action \<Rightarrow> 'n compiled_rule"
where
  "compiled_rule_of r t f a = \<lparr>cr_family = f, cr_id = r_id r, cr_priority = r_priority r,
     cr_target = t, cr_action = a\<rparr>"

text \<open>
  The loops that push into \<open>compiled_rules\<close>. The outer option is the termination of the fallback
  loop, the sum a panic or a rejection.
\<close>

fun push_rules ::
  "'n rule \<Rightarrow> (ip_family \<Rightarrow> compiled_action option outcome option) \<Rightarrow>
     ('n compiled_target \<times> ip_family) list \<Rightarrow> 'n compiled_rule list \<Rightarrow> 'n compiled_rule list outcome option"
where
  "push_rules r verdict [] acc = Some (Inr acc)"
| "push_rules r verdict ((t, f) # ps) acc =
     (case verdict f of
        None \<Rightarrow> None
      | Some (Inl e) \<Rightarrow> Some (Inl e)
      | Some (Inr None) \<Rightarrow> push_rules r verdict ps acc
      | Some (Inr (Some a)) \<Rightarrow> push_rules r verdict ps (acc @ [compiled_rule_of r t f a]))"

definition compile_rule ::
  "'n::linorder foreign \<Rightarrow> 'n resolutions \<Rightarrow> profile_lanes \<Rightarrow> lane_plans \<Rightarrow> primary_decision \<Rightarrow>
     'n rule \<Rightarrow> 'n compiled_rule list \<Rightarrow> 'n compiled_rule list outcome option"
where
  "compile_rule X res lanes plans primary r acc =
     (case rule_targets X res r of
        Inl e \<Rightarrow> Some (Inl (Rejected e))
      | Inr ts \<Rightarrow>
          push_rules r (compile_action (r_action r) lanes plans primary) (rule_pairs X ts) acc)"

fun compile_rules ::
  "'n::linorder foreign \<Rightarrow> 'n resolutions \<Rightarrow> profile_lanes \<Rightarrow> lane_plans \<Rightarrow> primary_decision \<Rightarrow>
     'n rule list \<Rightarrow> 'n compiled_rule list \<Rightarrow> 'n compiled_rule list outcome option"
where
  "compile_rules X res lanes plans primary [] acc = Some (Inr acc)"
| "compile_rules X res lanes plans primary (r # rs) acc =
     (case compile_rule X res lanes plans primary r acc of
        None \<Rightarrow> None
      | Some (Inl e) \<Rightarrow> Some (Inl e)
      | Some (Inr acc') \<Rightarrow> compile_rules X res lanes plans primary rs acc')"

section \<open>Profiles\<close>

definition exit_plan_valid :: "lane_plans \<Rightarrow> lane_id \<Rightarrow> ip_family \<Rightarrow> bool" where
  "exit_plan_valid plans i f =
     (case bt_get plans i of
        None \<Rightarrow> False
      | Some l \<Rightarrow> lp_identity l \<noteq> None \<and> family_available l f \<and>
          (case f of V4 \<Rightarrow> lp_source_v4 l \<noteq> [] | V6 \<Rightarrow> lp_source_v6 l \<noteq> []))"

definition check_exit ::
  "lane_plans \<Rightarrow> ip_family \<times> family_exit \<Rightarrow> (plan_error, unit) result"
where
  "check_exit plans fe =
     (case fe of (f, e) \<Rightarrow>
        (case e of
           ExitBlocked \<Rightarrow> Inr ()
         | ExitLane i \<Rightarrow> if exit_plan_valid plans i f then Inr () else Inl (InvalidPrimaryExit i f)))"

definition check_exits :: "lane_plans \<Rightarrow> primary_decision \<Rightarrow> (plan_error, unit) result" where
  "check_exits plans primary =
     try_each (check_exit plans)
       [(V4, v4 (pd_effective primary)), (V6, v6 (pd_effective primary))]"

definition lanes_by_id :: "lane list \<Rightarrow> profile_lanes" where
  "lanes_by_id lanes = bt_collect (map (\<lambda>l. (l_id l, l)) lanes)"

definition plans_by_id :: "lane_plan list \<Rightarrow> lane_plans" where
  "plans_by_id plans = bt_collect (map (\<lambda>l. (lp_id l, l)) plans)"

definition execution_order :: "'n rule list \<Rightarrow> 'n rule list" where
  "execution_order rs = sort_key execution_key (filter r_enabled rs)"

definition compile_profile_inner ::
  "'n::linorder foreign \<Rightarrow> 'n profile \<Rightarrow> 'n topology \<Rightarrow> 'n resolutions \<Rightarrow> primary_decision \<Rightarrow> u64 \<Rightarrow>
     'n kernel_plan outcome option"
where
  "compile_profile_inner X p t res primary g =
     (if \<not> p_enabled p then Some (Inl (Rejected ProfileInactive))
      else case validate_profile X p of
        Inl e \<Rightarrow> Some (Inl (Rejected (PlanDomain e)))
      | Inr _ \<Rightarrow>
          (let lane_plans = compile_lanes t (p_lanes p);
               lanes = lanes_by_id (p_lanes p);
               plans = plans_by_id lane_plans
           in case check_exits plans primary of
             Inl e \<Rightarrow> Some (Inl (Rejected e))
           | Inr _ \<Rightarrow>
               (case compile_rules X res lanes plans primary (execution_order (p_rules p)) [] of
                  None \<Rightarrow> None
                | Some (Inl e) \<Rightarrow> Some (Inl e)
                | Some (Inr rules) \<Rightarrow> Some (Inr \<lparr>
                    kp_primary = primary,
                    kp_local_networks = connected_networks t,
                    kp_local_addresses = t_assigned_addresses t,
                    kp_generation = g,
                    kp_profile_id = p_id p,
                    kp_lanes = lane_plans,
                    kp_rules = retain_first (routing_key X) {} rules\<rparr>))))"

definition compile_profile_with_primary ::
  "'n::linorder foreign \<Rightarrow> 'n profile \<Rightarrow> 'n topology \<Rightarrow> 'n resolutions \<Rightarrow> primary_decision \<Rightarrow> u64 \<Rightarrow>
     'n kernel_plan outcome option"
where
  "compile_profile_with_primary X p t res primary g = compile_profile_inner X p t res primary g"

definition compile_profile ::
  "'n::linorder foreign \<Rightarrow> 'n profile \<Rightarrow> 'n topology \<Rightarrow> 'n resolutions \<Rightarrow> u64 \<Rightarrow>
     'n kernel_plan outcome option"
where
  "compile_profile X p t res g =
     (let (decision, _) = selector_update (p_routing p) t 0 (selector_new p t) in
      compile_profile_inner X p t res decision g)"

section \<open>What a verdict means\<close>

text \<open>
  \<open>serves avail succ i j\<close>: following the fallback chain from \<open>i\<close>, \<open>j\<close> is the first available lane.
\<close>

inductive serves :: "(lane_id \<Rightarrow> bool) \<Rightarrow> (lane_id \<Rightarrow> lane_id option) \<Rightarrow> lane_id \<Rightarrow> lane_id \<Rightarrow> bool"
  for avail succ
where
  here: "avail i \<Longrightarrow> serves avail succ i i"
| next_lane: "\<not> avail i \<Longrightarrow> succ i = Some k \<Longrightarrow> serves avail succ k j \<Longrightarrow> serves avail succ i j"

inductive_simps serves_simps: "serves avail succ i j"

definition lane_available :: "lane_plan list \<Rightarrow> ip_family \<Rightarrow> lane_id \<Rightarrow> bool" where
  "lane_available K f i = (\<exists>l \<in> set K. lp_id l = i \<and> family_available l f)"

abbreviation first_available :: "'n profile \<Rightarrow> lane_plan list \<Rightarrow> ip_family \<Rightarrow> lane_id \<Rightarrow> lane_id \<Rightarrow> bool"
where
  "first_available p K f \<equiv> serves (lane_available K f) (fallback_of (p_lanes p))"

inductive primary_verdict :: "lane_plan list \<Rightarrow> primary_decision \<Rightarrow> ip_family \<Rightarrow> compiled_action \<Rightarrow> bool"
  for K primary f
where
  "pair_get (pd_effective primary) f = ExitBlocked \<Longrightarrow> primary_verdict K primary f Block"
| "pair_get (pd_effective primary) f = ExitLane (lp_id l) \<Longrightarrow> l \<in> set K \<Longrightarrow>
     primary_verdict K primary f (Mark (lp_mark l))"

text \<open>The verdict a rule action has for a family, given the lane plans and the primary exit.\<close>

inductive verdict ::
  "'n profile \<Rightarrow> lane_plan list \<Rightarrow> primary_decision \<Rightarrow> ip_family \<Rightarrow> rule_action \<Rightarrow> compiled_action \<Rightarrow> bool"
  for p K primary f
where
  block: "verdict p K primary f ActionBlock Block"
| direct: "primary_verdict K primary f a \<Longrightarrow> verdict p K primary f ActionDirect a"
| route: "first_available p K f i (lp_id l) \<Longrightarrow> l \<in> set K \<Longrightarrow>
    verdict p K primary f (ActionRoute i) (Mark (lp_mark l))"
| fail_block: "\<nexists>j. first_available p K f (l_id l) j \<Longrightarrow> l \<in> set (p_lanes p) \<Longrightarrow>
    l_failure_policy l = FailBlock \<Longrightarrow> verdict p K primary f (ActionRoute (l_id l)) Block"
| fail_direct: "\<nexists>j. first_available p K f (l_id l) j \<Longrightarrow> l \<in> set (p_lanes p) \<Longrightarrow>
    l_failure_policy l = FailDirect \<Longrightarrow> primary_verdict K primary f a \<Longrightarrow>
    verdict p K primary f (ActionRoute (l_id l)) a"

inductive_cases verdict_routeE: "verdict p K primary f (ActionRoute i) a"
inductive_cases verdict_directE: "verdict p K primary f ActionDirect a"
inductive_cases verdict_blockE: "verdict p K primary f ActionBlock a"

lemma verdict_direct_iff: "verdict p K primary f ActionDirect a \<longleftrightarrow> primary_verdict K primary f a"
  by (blast intro: verdict.direct elim: verdict_directE)

lemma verdict_block_iff: "verdict p K primary f ActionBlock a \<longleftrightarrow> a = Block"
  by (blast intro: verdict.block elim: verdict_blockE)

section \<open>Lane plans\<close>

lemma compile_lane_sel [simp]:
  "lp_id (compile_lane t n l) = l_id l"
  "lp_table (compile_lane t n l) = TABLE_BASE + of_nat n"
  "lp_mark (compile_lane t n l) = MARK_BASE + of_nat n"
  "lp_rule_priority (compile_lane t n l) = RULE_PRIORITY_BASE + of_nat n"
  "lp_interface (compile_lane t n l) = l_interface l"
  "lp_failure_policy (compile_lane t n l) = l_failure_policy l"
  by (simp_all add: compile_lane_def Let_def)

lemma length_compile_lanes [simp]: "length (compile_lanes t lanes) = length lanes"
  by (simp add: compile_lanes_def)

lemma compile_lanes_nth:
  "n < length lanes \<Longrightarrow> compile_lanes t lanes ! n = compile_lane t n (sort_key l_id lanes ! n)"
  by (simp add: compile_lanes_def nth_enumerate_eq)

lemma compile_lanes_ids: "map lp_id (compile_lanes t lanes) = sort (map l_id lanes)"
proof (rule nth_equalityI)
  have s: "sort (map l_id lanes) = map l_id (sort_key l_id lanes)"
    by (rule properties_for_sort) simp_all
  show "map lp_id (compile_lanes t lanes) ! n = sort (map l_id lanes) ! n"
    if "n < length (map lp_id (compile_lanes t lanes))" for n
    using that by (simp add: s compile_lanes_nth)
qed simp

lemma compile_lanes_id_set: "lp_id ` set (compile_lanes t lanes) = l_id ` set lanes"
  using arg_cong [OF compile_lanes_ids, of set t lanes] by simp

lemma compile_lanes_distinct:
  "distinct (map l_id lanes) \<Longrightarrow> distinct (map lp_id (compile_lanes t lanes))"
  by (simp add: compile_lanes_ids)

lemma plans_by_id_get:
  assumes "distinct (map lp_id K)"
  shows "bt_get (plans_by_id K) i = Some l \<longleftrightarrow> l \<in> set K \<and> lp_id l = i"
  using assms by (auto simp: plans_by_id_def bt_get_collect_distinct comp_def)

lemma lanes_by_id_get:
  assumes "distinct (map l_id lanes)"
  shows "bt_get (lanes_by_id lanes) i = Some l \<longleftrightarrow> l \<in> set lanes \<and> l_id l = i"
  using assms by (auto simp: lanes_by_id_def bt_get_collect_distinct comp_def)

lemma fallback_of_lane:
  "distinct (map l_id lanes) \<Longrightarrow> l \<in> set lanes \<Longrightarrow> fallback_of lanes (l_id l) = l_fallback_lane l"
  by (simp add: fallback_of_def find_distinct_key)

lemma lane_available_plan:
  "distinct (map lp_id K) \<Longrightarrow> l \<in> set K \<Longrightarrow> lane_available K f (lp_id l) = family_available l f"
  by (auto simp: lane_available_def distinct_map inj_on_def)

section \<open>The fallback loop\<close>

lemma serves_target: "serves avail succ i j \<Longrightarrow> avail j"
  by (induction rule: serves.induct)

lemma serves_unique: "serves avail succ i j \<Longrightarrow> serves avail succ i k \<Longrightarrow> k = j"
  by (induction rule: serves.induct) (auto elim: serves.cases)

lemma serves_here: "avail i \<Longrightarrow> serves avail succ i j \<longleftrightarrow> j = i"
  by (auto intro: serves.here elim: serves.cases)

lemma serves_next:
  "\<not> avail i \<Longrightarrow> serves avail succ i j \<longleftrightarrow> (\<exists>k. succ i = Some k \<and> serves avail succ k j)"
  by (auto intro: serves.next_lane elim: serves.cases)

lemma fallback_wf:
  assumes "acyclic (fallback_edges lanes)"
  shows "wf ((fallback_edges lanes)\<inverse>)"
proof -
  have "fallback_edges lanes \<subseteq> (\<Union>l \<in> set lanes. {l_id l} \<times> set_option (l_fallback_lane l))"
    by (auto simp: fallback_edges_def fallback_of_def dest!: find_Some_in split: option.splits)
  then have "finite (fallback_edges lanes)"
    by (rule finite_subset) simp
  with assms show ?thesis by (simp add: finite_acyclic_wf_converse)
qed

definition accepted :: "'n profile \<Rightarrow> lane_plan list \<Rightarrow> bool" where
  "accepted p K \<longleftrightarrow>
     distinct (map l_id (p_lanes p)) \<and> distinct (map lp_id K) \<and>
     lp_id ` set K = l_id ` set (p_lanes p) \<and>
     (\<forall>l \<in> set (p_lanes p). \<forall>f. l_fallback_lane l = Some f \<longrightarrow> f \<in> l_id ` set (p_lanes p)) \<and>
     acyclic (fallback_edges (p_lanes p))"

lemma accepted_compile: "profile_ok X p \<Longrightarrow> accepted p (compile_lanes t (p_lanes p))"
  by (auto simp: accepted_def profile_ok_def compile_lanes_distinct compile_lanes_id_set
      lane_exists_iff)

lemma accepted_lookup:
  assumes "accepted p K" "i \<in> l_id ` set (p_lanes p)"
  obtains l plan where "l \<in> set (p_lanes p)" "l_id l = i" "plan \<in> set K" "lp_id plan = i"
    "bt_get (lanes_by_id (p_lanes p)) i = Some l" "bt_get (plans_by_id K) i = Some plan"
    "fallback_of (p_lanes p) i = l_fallback_lane l"
    "\<And>f. lane_available K f i = family_available plan f"
    "l_fallback_lane l \<noteq> None \<Longrightarrow> the (l_fallback_lane l) \<in> l_id ` set (p_lanes p)"
proof -
  from assms(2) obtain l where l: "l \<in> set (p_lanes p)" "l_id l = i" by auto
  from assms have "i \<in> lp_id ` set K" by (simp add: accepted_def)
  then obtain plan where plan: "plan \<in> set K" "lp_id plan = i" by auto
  show ?thesis
  proof (rule that [OF l plan])
    show "bt_get (lanes_by_id (p_lanes p)) i = Some l"
      using assms(1) l by (subst lanes_by_id_get) (auto simp: accepted_def)
    show "bt_get (plans_by_id K) i = Some plan"
      using assms(1) plan by (subst plans_by_id_get) (auto simp: accepted_def)
    show "fallback_of (p_lanes p) i = l_fallback_lane l"
      using assms(1) l fallback_of_lane [of "p_lanes p" l] by (auto simp: accepted_def)
    show "lane_available K f i = family_available plan f" for f
      using assms(1) plan lane_available_plan [of K plan f] by (auto simp: accepted_def)
    show "the (l_fallback_lane l) \<in> l_id ` set (p_lanes p)" if "l_fallback_lane l \<noteq> None"
      using assms(1) l that by (auto simp: accepted_def)
  qed
qed

definition served_mark ::
  "'n profile \<Rightarrow> lane_plan list \<Rightarrow> ip_family \<Rightarrow> lane_id \<Rightarrow> compiled_action option \<Rightarrow> bool"
where
  "served_mark p K f i r =
     (case r of
        Some a \<Rightarrow> \<exists>plan \<in> set K. a = Mark (lp_mark plan) \<and> first_available p K f i (lp_id plan)
      | None \<Rightarrow> \<nexists>j. first_available p K f i j)"

lemma served_mark_step:
  assumes "\<not> lane_available K f i"
  shows "served_mark p K f i r =
    (case fallback_of (p_lanes p) i of None \<Rightarrow> r = None | Some k \<Rightarrow> served_mark p K f k r)"
  by (auto simp: served_mark_def serves_next [of "lane_available K f", OF assms] split: option.splits)

lemma fallback_loop_served:
  assumes "accepted p K" "i \<in> l_id ` set (p_lanes p)"
  shows "\<exists>r. fallback_loop (lanes_by_id (p_lanes p), plans_by_id K) f (Some i) = Some (Inr r) \<and>
    served_mark p K f i r"
proof -
  have "wf ((fallback_edges (p_lanes p))\<inverse>)"
    using assms(1) by (simp add: accepted_def fallback_wf)
  then show ?thesis using assms(2)
  proof (induction i rule: wf_induct_rule)
    case (less i)
    from accepted_lookup [OF assms(1) less.prems] obtain l plan where
      l: "plan \<in> set K" "lp_id plan = i"
        "bt_get (lanes_by_id (p_lanes p)) i = Some l" "bt_get (plans_by_id K) i = Some plan"
        "fallback_of (p_lanes p) i = l_fallback_lane l"
        "lane_available K f i = family_available plan f"
        "l_fallback_lane l \<noteq> None \<Longrightarrow> the (l_fallback_lane l) \<in> l_id ` set (p_lanes p)"
      by metis
    note [simp] = fallback_loop.simps [of _ _ "Some i"] l(3,4)
    show ?case
    proof (cases "family_available plan f")
      case True
      then show ?thesis using l by (auto simp: served_mark_def intro: serves.here)
    next
      case False
      with l have na: "\<not> lane_available K f i" by simp
      show ?thesis
      proof (cases "l_fallback_lane l")
        case None
        with False show ?thesis
          by (simp add: fallback_loop.simps served_mark_step [OF na] l(5))
      next
        case (Some k)
        then have "(k, i) \<in> (fallback_edges (p_lanes p))\<inverse>" "k \<in> l_id ` set (p_lanes p)"
          using l by (auto simp: fallback_edges_def)
        from less.IH [OF this] False Some show ?thesis
          by (simp add: served_mark_step [OF na] l(5))
      qed
    qed
  qed
qed

section \<open>Actions and rules\<close>

definition exit_known :: "lane_plan list \<Rightarrow> primary_decision \<Rightarrow> bool" where
  "exit_known K primary =
     (\<forall>f i. pair_get (pd_effective primary) f = ExitLane i \<longrightarrow> i \<in> lp_id ` set K)"

lemma primary_action_verdict:
  assumes "accepted p K" "exit_known K primary"
  shows "\<exists>a. primary_action primary f (plans_by_id K) = Inr a \<and>
    (\<forall>b. primary_verdict K primary f b \<longleftrightarrow> b = a)"
proof (cases "pair_get (pd_effective primary) f")
  case (ExitLane i)
  with assms have "i \<in> l_id ` set (p_lanes p)" by (auto simp: exit_known_def accepted_def)
  from accepted_lookup [OF assms(1) this] obtain plan where
    plan: "plan \<in> set K" "lp_id plan = i" "bt_get (plans_by_id K) i = Some plan" by metis
  have uniq: "l = plan" if "l \<in> set K" "lp_id l = i" for l
    using assms(1) plan that by (auto simp: accepted_def distinct_map inj_on_def)
  have "primary_verdict K primary f b \<longleftrightarrow> b = Mark (lp_mark plan)" for b
  proof
    assume "primary_verdict K primary f b"
    then show "b = Mark (lp_mark plan)"
      using ExitLane by cases (auto dest: uniq)
  next
    assume "b = Mark (lp_mark plan)"
    then show "primary_verdict K primary f b"
      using ExitLane plan by (auto intro: primary_verdict.intros)
  qed
  then show ?thesis using ExitLane plan(3) by (simp add: primary_action_def)
qed (auto simp: primary_action_def primary_verdict.simps)

lemma compile_route_action_loop:
  assumes "accepted p K" "i \<in> l_id ` set (p_lanes p)" "l \<in> set (p_lanes p)" "l_id l = i"
  shows "compile_route_action i (lanes_by_id (p_lanes p)) (plans_by_id K) primary f =
    (case fallback_loop (lanes_by_id (p_lanes p), plans_by_id K) f (Some i) of
       Some (Inr None) \<Rightarrow> Some (failure_action (l_failure_policy l) primary f (plans_by_id K))
     | r \<Rightarrow> r)"
proof -
  let ?loop = "fallback_loop (lanes_by_id (p_lanes p), plans_by_id K) f"
  have l: "bt_get (lanes_by_id (p_lanes p)) i = Some l"
    using assms by (subst lanes_by_id_get) (auto simp: accepted_def)
  from accepted_lookup [OF assms(1,2)] obtain plan where
    plan: "bt_get (plans_by_id K) i = Some plan" by metis
  have unfold: "?loop (Some i) =
    (if family_available plan f then Some (Inr (Some (Mark (lp_mark plan))))
     else ?loop (l_fallback_lane l))"
    by (subst fallback_loop.simps) (simp only: option.case fst_conv snd_conv l plan)
  show ?thesis
    unfolding compile_route_action_def unfold option.case prod.case l plan
    by (auto split: option.split sum.split)
qed

lemma compile_action_verdict:
  assumes "accepted p K" "exit_known K primary"
    and "\<And>i. act = ActionRoute i \<Longrightarrow> i \<in> l_id ` set (p_lanes p)"
  shows "\<exists>v. compile_action act (lanes_by_id (p_lanes p)) (plans_by_id K) primary f = Some (Inr v) \<and>
    (\<forall>a. verdict p K primary f act a \<longleftrightarrow> v = Some a)"
proof (cases act)
  case (ActionRoute i)
  with assms(3) obtain l where l: "l \<in> set (p_lanes p)" "l_id l = i" by auto
  have uniq: "l' = l" if "l' \<in> set (p_lanes p)" "l_id l' = i" for l'
    using assms(1) l that by (auto simp: accepted_def distinct_map inj_on_def)
  have uniq': "q' = q" if "q \<in> set K" "q' \<in> set K" "lp_id q = lp_id q'" for q q'
    using assms(1) that by (auto simp: accepted_def distinct_map inj_on_def)
  from assms(3) [OF ActionRoute] have i: "i \<in> l_id ` set (p_lanes p)" .
  from fallback_loop_served [OF assms(1) i, of f] obtain r where
    r: "fallback_loop (lanes_by_id (p_lanes p), plans_by_id K) f (Some i) = Some (Inr r)"
      "served_mark p K f i r" by blast
  note loop = compile_route_action_loop [OF assms(1) i l, of primary f]
  show ?thesis
  proof (cases r)
    case (Some a)
    then obtain plan where "plan \<in> set K" "a = Mark (lp_mark plan)"
      "first_available p K f i (lp_id plan)"
      using r(2) by (auto simp: served_mark_def)
    with Some r(1) loop ActionRoute show ?thesis
      by (auto simp: compile_action_def dest: serves_unique uniq'
          intro: verdict.route elim!: verdict_routeE)
  next
    case None
    with r(2) have none: "\<nexists>j. first_available p K f i j" by (simp add: served_mark_def)
    have v: "verdict p K primary f (ActionRoute i) a \<longleftrightarrow>
        l_failure_policy l = FailBlock \<and> a = Block \<or>
        l_failure_policy l = FailDirect \<and> primary_verdict K primary f a" for a
    proof
      assume "verdict p K primary f (ActionRoute i) a"
      then show "l_failure_policy l = FailBlock \<and> a = Block \<or>
        l_failure_policy l = FailDirect \<and> primary_verdict K primary f a"
        using none by (auto elim!: verdict_routeE dest!: uniq)
    next
      assume "l_failure_policy l = FailBlock \<and> a = Block \<or>
        l_failure_policy l = FailDirect \<and> primary_verdict K primary f a"
      then show "verdict p K primary f (ActionRoute i) a"
        using none l by (auto intro: verdict.fail_block verdict.fail_direct)
    qed
    from primary_action_verdict [OF assms(1,2), of f] None r(1) loop ActionRoute show ?thesis
      by (cases "l_failure_policy l") (auto simp: compile_action_def failure_action_def v)
  qed
next
  case ActionDirect
  with primary_action_verdict [OF assms(1,2), of f] show ?thesis
    by (auto simp: compile_action_def verdict_direct_iff)
next
  case ActionBlock
  then show ?thesis by (auto simp: compile_action_def verdict_block_iff)
qed

definition action_result ::
  "profile_lanes \<Rightarrow> lane_plans \<Rightarrow> primary_decision \<Rightarrow> rule_action \<Rightarrow> ip_family \<Rightarrow>
     compiled_action option"
where
  "action_result lanes plans primary act f =
     (case compile_action act lanes plans primary f of Some (Inr v) \<Rightarrow> v | _ \<Rightarrow> None)"

definition emitted ::
  "'n rule \<Rightarrow> (ip_family \<Rightarrow> compiled_action option) \<Rightarrow> ('n compiled_target \<times> ip_family) list \<Rightarrow>
     'n compiled_rule list"
where
  "emitted r V ps = List.map_filter (\<lambda>(t, f). map_option (compiled_rule_of r t f) (V f)) ps"

lemma push_rules_emitted:
  "(\<And>f. decide f = Some (Inr (V f))) \<Longrightarrow>
     push_rules r decide ps acc = Some (Inr (acc @ emitted r V ps))"
proof (induction ps arbitrary: acc)
  case (Cons tf ps)
  obtain t f where tf: "tf = (t, f)" by (cases tf)
  show ?case using Cons.IH Cons.prems
    by (cases "V f") (simp_all add: tf emitted_def map_filter_def)
qed (simp add: emitted_def map_filter_def)

lemma in_emitted:
  "c \<in> set (emitted r V ps) \<longleftrightarrow>
     (\<exists>t f a. (t, f) \<in> set ps \<and> V f = Some a \<and> c = compiled_rule_of r t f a)"
  by (force simp: emitted_def map_filter_def split: option.splits)

lemma in_rule_pairs: "(t, f) \<in> set (rule_pairs X ts) \<longleftrightarrow> t \<in> set ts \<and> f \<in> set (target_families X t)"
  by (auto simp: rule_pairs_def)

definition rule_output ::
  "'n::linorder foreign \<Rightarrow> 'n resolutions \<Rightarrow> profile_lanes \<Rightarrow> lane_plans \<Rightarrow> primary_decision \<Rightarrow>
     'n rule \<Rightarrow> 'n compiled_rule list"
where
  "rule_output X res lanes plans primary r =
     (case rule_targets X res r of
        Inl _ \<Rightarrow> []
      | Inr ts \<Rightarrow> emitted r (action_result lanes plans primary (r_action r)) (rule_pairs X ts))"

definition rule_error ::
  "'n::linorder foreign \<Rightarrow> 'n resolutions \<Rightarrow> 'n rule \<Rightarrow> plan_error option"
where
  "rule_error X res r = (case rule_targets X res r of Inl e \<Rightarrow> Some e | Inr _ \<Rightarrow> None)"

definition actions_ok :: "profile_lanes \<Rightarrow> lane_plans \<Rightarrow> primary_decision \<Rightarrow> 'n rule list \<Rightarrow> bool" where
  "actions_ok lanes plans primary rs =
     (\<forall>r \<in> set rs. \<forall>f. \<exists>v. compile_action (r_action r) lanes plans primary f = Some (Inr v))"

lemma compile_rules_result:
  assumes "actions_ok lanes plans primary rs"
  shows "compile_rules X res lanes plans primary rs acc = Some
    (case List.map_filter (rule_error X res) rs of
       [] \<Rightarrow> Inr (acc @ concat (map (rule_output X res lanes plans primary) rs))
     | e # _ \<Rightarrow> Inl (Rejected e))"
  using assms
proof (induction rs arbitrary: acc)
  case (Cons r rs)
  have v: "compile_action (r_action r) lanes plans primary f =
      Some (Inr (action_result lanes plans primary (r_action r) f))" for f
  proof -
    from Cons.prems obtain v where "compile_action (r_action r) lanes plans primary f = Some (Inr v)"
      unfolding actions_ok_def by (meson list.set_intros(1))
    then show ?thesis by (simp add: action_result_def)
  qed
  show ?case
  proof (cases "rule_targets X res r")
    case (Inl e)
    then show ?thesis by (simp add: compile_rule_def rule_error_def map_filter_def)
  next
    case (Inr ts)
    have "compile_rule X res lanes plans primary r acc =
        Some (Inr (acc @ rule_output X res lanes plans primary r))"
      using push_rules_emitted [of "compile_action (r_action r) lanes plans primary", OF v]
      by (simp add: compile_rule_def Inr rule_output_def)
    with Cons Inr show ?thesis
      by (simp add: rule_error_def map_filter_def actions_ok_def split: list.split)
  qed
qed (simp add: map_filter_def)

section \<open>The planner as one expression\<close>

lemma exit_valid_known:
  assumes "check_exits (plans_by_id K) primary = Inr ()" "distinct (map lp_id K)"
  shows "exit_known K primary"
proof -
  have "i \<in> lp_id ` set K" if "pair_get (pd_effective primary) f = ExitLane i" for f i
  proof -
    have "exit_plan_valid (plans_by_id K) i f"
      using assms(1) that
      by (cases f) (auto simp: check_exits_def check_exit_def pair_get_def try_each_Inr_iff
          simp del: try_each_simps split: if_splits)
    then obtain l where "bt_get (plans_by_id K) i = Some l"
      by (auto simp: exit_plan_valid_def split: option.splits)
    then show ?thesis using plans_by_id_get [OF assms(2)] by auto
  qed
  then show ?thesis by (simp add: exit_known_def)
qed

definition all_output ::
  "'n::linorder foreign \<Rightarrow> 'n profile \<Rightarrow> 'n topology \<Rightarrow> 'n resolutions \<Rightarrow> primary_decision \<Rightarrow>
     'n compiled_rule list"
where
  "all_output X p t res primary =
     concat (map (rule_output X res (lanes_by_id (p_lanes p))
       (plans_by_id (compile_lanes t (p_lanes p))) primary) (execution_order (p_rules p)))"

lemma set_execution_order [simp]:
  "set (execution_order rs) = {r \<in> set rs. r_enabled r}"
  by (simp add: execution_order_def)

lemma route_targets_exist:
  "profile_ok X p \<Longrightarrow> r \<in> set (p_rules p) \<Longrightarrow> r_action r = ActionRoute i \<Longrightarrow>
     i \<in> l_id ` set (p_lanes p)"
  by (auto simp: profile_ok_def lane_exists_iff)

lemma actions_ok_profile:
  assumes "profile_ok X p" "exit_known (compile_lanes t (p_lanes p)) primary"
  shows "actions_ok (lanes_by_id (p_lanes p)) (plans_by_id (compile_lanes t (p_lanes p))) primary
    (execution_order (p_rules p))"
  unfolding actions_ok_def
proof (intro ballI allI)
  fix r f assume "r \<in> set (execution_order (p_rules p))"
  then have "\<And>i. r_action r = ActionRoute i \<Longrightarrow> i \<in> l_id ` set (p_lanes p)"
    using route_targets_exist [OF assms(1)] by auto
  from compile_action_verdict [OF accepted_compile [OF assms(1)] assms(2) this]
  show "\<exists>v. compile_action (r_action r) (lanes_by_id (p_lanes p))
      (plans_by_id (compile_lanes t (p_lanes p))) primary f = Some (Inr v)" by blast
qed

lemma compile_inner_result:
  "compile_profile_inner X p t res primary g = Some
    (if \<not> p_enabled p then Inl (Rejected ProfileInactive)
     else case validate_profile X p of
       Inl e \<Rightarrow> Inl (Rejected (PlanDomain e))
     | Inr _ \<Rightarrow>
         (case check_exits (plans_by_id (compile_lanes t (p_lanes p))) primary of
            Inl e \<Rightarrow> Inl (Rejected e)
          | Inr _ \<Rightarrow>
              (case List.map_filter (rule_error X res) (execution_order (p_rules p)) of
                 e # _ \<Rightarrow> Inl (Rejected e)
               | [] \<Rightarrow> Inr \<lparr>kp_primary = primary, kp_local_networks = connected_networks t,
                   kp_local_addresses = t_assigned_addresses t, kp_generation = g,
                   kp_profile_id = p_id p, kp_lanes = compile_lanes t (p_lanes p),
                   kp_rules = retain_first (routing_key X) {} (all_output X p t res primary)\<rparr>)))"
proof (cases "p_enabled p \<and> validate_profile X p = Inr () \<and>
    check_exits (plans_by_id (compile_lanes t (p_lanes p))) primary = Inr ()")
  case True
  then have ok: "profile_ok X p" by (simp add: validate_profile_Inr_iff)
  then have "distinct (map lp_id (compile_lanes t (p_lanes p)))"
    by (simp add: profile_ok_def compile_lanes_distinct)
  with True have "exit_known (compile_lanes t (p_lanes p)) primary"
    by (simp add: exit_valid_known)
  from compile_rules_result [OF actions_ok_profile [OF ok this], of X res "[]"] True
  show ?thesis
    by (simp add: compile_profile_inner_def Let_def all_output_def split: list.split)
next
  case False
  then show ?thesis
    by (cases "p_enabled p"; cases "validate_profile X p";
        cases "check_exits (plans_by_id (compile_lanes t (p_lanes p))) primary")
       (simp_all add: compile_profile_inner_def Let_def)
qed

section \<open>Reading a compiled plan\<close>

lemma compiled_plan:
  assumes "compile_profile_with_primary X p t res primary g = Some (Inr k)"
  shows "profile_ok X p" "p_enabled p"
    "check_exits (plans_by_id (compile_lanes t (p_lanes p))) primary = Inr ()"
    "List.map_filter (rule_error X res) (execution_order (p_rules p)) = []"
    "k = \<lparr>kp_primary = primary, kp_local_networks = connected_networks t,
       kp_local_addresses = t_assigned_addresses t, kp_generation = g,
       kp_profile_id = p_id p, kp_lanes = compile_lanes t (p_lanes p),
       kp_rules = retain_first (routing_key X) {} (all_output X p t res primary)\<rparr>"
  using assms unfolding compile_profile_with_primary_def compile_inner_result
  by (simp_all add: validate_profile_Inr_iff split: if_splits sum.splits list.splits)

lemma compiled_accepted:
  assumes "compile_profile_with_primary X p t res primary g = Some (Inr k)"
  shows "accepted p (kp_lanes k)" "exit_known (kp_lanes k) primary"
  using compiled_plan [OF assms] accepted_compile [of X p t]
  by (simp_all add: exit_valid_known accepted_def)

text \<open>The uncompressed rule list, element by element.\<close>

lemma in_all_output:
  assumes "compile_profile_with_primary X p t res primary g = Some (Inr k)"
  shows "c \<in> set (all_output X p t res primary) \<longleftrightarrow>
    (\<exists>r ts tgt f a. r \<in> set (p_rules p) \<and> r_enabled r \<and> rule_targets X res r = Inr ts \<and>
       tgt \<in> set ts \<and> f \<in> set (target_families X tgt) \<and>
       verdict p (kp_lanes k) primary f (r_action r) a \<and> c = compiled_rule_of r tgt f a)"
proof -
  note acc = compiled_accepted [OF assms]
  note plan = compiled_plan [OF assms]
  have K: "kp_lanes k = compile_lanes t (p_lanes p)" by (simp add: plan(5))
  have v: "action_result (lanes_by_id (p_lanes p)) (plans_by_id (kp_lanes k)) primary (r_action r) f =
      Some a \<longleftrightarrow> verdict p (kp_lanes k) primary f (r_action r) a" if "r \<in> set (p_rules p)" for r f a
    using compile_action_verdict [OF acc, where act = "r_action r" and f = f]
      route_targets_exist [OF plan(1) that]
    by (auto simp: action_result_def)
  have "c \<in> set (rule_output X res (lanes_by_id (p_lanes p)) (plans_by_id (kp_lanes k)) primary r) \<longleftrightarrow>
    (\<exists>ts tgt f a. rule_targets X res r = Inr ts \<and> tgt \<in> set ts \<and> f \<in> set (target_families X tgt) \<and>
       verdict p (kp_lanes k) primary f (r_action r) a \<and> c = compiled_rule_of r tgt f a)"
    if "r \<in> set (p_rules p)" for r
    by (cases "rule_targets X res r")
       (auto simp: rule_output_def in_emitted in_rule_pairs v [OF that])
  then show ?thesis unfolding all_output_def K by auto
qed

lemma mark_available:
  assumes "verdict p K primary f act (Mark m)"
    and "accepted p K" "check_exits (plans_by_id K) primary = Inr ()"
  shows "\<exists>l \<in> set K. lp_mark l = m \<and> family_available l f"
proof -
  have dist: "distinct (map lp_id K)" using assms(2) by (simp add: accepted_def)
  have prim: "\<exists>l \<in> set K. lp_mark l = m \<and> family_available l f"
    if pv: "primary_verdict K primary f (Mark m)"
    using pv
  proof cases
    case (2 l)
    then have "exit_plan_valid (plans_by_id K) (lp_id l) f"
      using assms(3)
      by (cases f) (auto simp: check_exits_def check_exit_def pair_get_def try_each_Inr_iff
          simp del: try_each_simps split: if_splits)
    moreover have "bt_get (plans_by_id K) (lp_id l) = Some l"
      using plans_by_id_get [OF dist] 2 by blast
    ultimately show ?thesis using 2 by (auto simp: exit_plan_valid_def)
  qed
  show ?thesis using assms(1)
  proof cases
    case (route i l)
    then show ?thesis using lane_available_plan [OF dist] by (auto dest: serves_target)
  qed (use prim in auto)
qed

lemma rule_output_key:
  "c \<in> set (rule_output X res lanes plans primary r) \<Longrightarrow>
     cr_priority c = r_priority r \<and> cr_id c = r_id r"
  by (auto simp: rule_output_def in_emitted compiled_rule_of_def split: sum.splits)

lemma sorted_concat_outputs:
  assumes "sorted (map key rs)" "\<And>r c. c \<in> set (out r) \<Longrightarrow> ckey c = key r"
  shows "sorted (map ckey (concat (map out rs)))"
  using assms(1)
proof (induction rs)
  case (Cons r rs)
  have "map ckey (out r) = replicate (length (out r)) (key r)"
    by (rule nth_equalityI) (simp_all add: assms(2))
  with Cons show ?case by (auto simp: sorted_append assms(2))
qed simp

lemma all_output_sorted:
  "sorted (map (\<lambda>c. (cr_priority c, cr_id c)) (all_output X p t res primary))"
  unfolding all_output_def
  by (rule sorted_concat_outputs [where key = execution_key])
     (auto simp: execution_order_def execution_key_def dest: rule_output_key)

lemma find_retain_first:
  "\<forall>x \<in> set xs. f x \<in> seen \<longrightarrow> \<not> Q (f x) \<Longrightarrow>
     find (\<lambda>x. Q (f x)) (retain_first f seen xs) = find (\<lambda>x. Q (f x)) xs"
  by (induction f seen xs rule: retain_first.induct) auto

lemma unat_slot:
  assumes "n < 100" "unat B + 100 < 2 ^ 32"
  shows "unat (B + of_nat n :: u32) = unat B + n"
proof -
  have "unat (of_nat n :: u32) = n" using assms(1) by (simp add: unat_of_nat)
  with assms show ?thesis by (simp add: unat_word_ariths)
qed

lemma slot_words:
  assumes "n < 100"
  shows "TABLE_BASE \<le> TABLE_BASE + of_nat n" "TABLE_BASE + of_nat n \<le> TABLE_MAX"
    "MARK_BASE \<le> MARK_BASE + of_nat n" "MARK_BASE + of_nat n \<le> MARK_MAX"
    "RULE_PRIORITY_BASE \<le> RULE_PRIORITY_BASE + of_nat n"
    "RULE_PRIORITY_BASE + of_nat n \<le> RULE_PRIORITY_MAX"
proof -
  have b: "unat TABLE_BASE = 20000" "unat TABLE_MAX = 20099" "unat MARK_BASE = 0x524c0001"
    "unat MARK_MAX = 0x524c0064" "unat RULE_PRIORITY_BASE = 10000" "unat RULE_PRIORITY_MAX = 10099"
    by (simp_all add: rl_defs)
  then have s: "unat (TABLE_BASE + of_nat n) = 20000 + n"
    "unat (MARK_BASE + of_nat n) = 0x524c0001 + n"
    "unat (RULE_PRIORITY_BASE + of_nat n) = 10000 + n"
    using assms by (simp_all add: unat_slot)
  show "TABLE_BASE \<le> TABLE_BASE + of_nat n" "TABLE_BASE + of_nat n \<le> TABLE_MAX"
    "MARK_BASE \<le> MARK_BASE + of_nat n" "MARK_BASE + of_nat n \<le> MARK_MAX"
    "RULE_PRIORITY_BASE \<le> RULE_PRIORITY_BASE + of_nat n"
    "RULE_PRIORITY_BASE + of_nat n \<le> RULE_PRIORITY_MAX"
    unfolding word_le_nat_alt s b using assms by simp_all
qed

lemma slot_inj:
  "distinct (map (\<lambda>n. B + of_nat n :: u32) [0..<m])" if "m \<le> 100"
proof -
  have "inj_on (\<lambda>n. B + of_nat n :: u32) {0..<m}"
    using that by (auto intro!: inj_onI simp: word_of_nat_eq_small)
  then show ?thesis by (simp add: distinct_map)
qed

lemma map_compile_lanes:
  "(\<And>n l. g (compile_lane t n l) = h n) \<Longrightarrow> map g (compile_lanes t lanes) = map h [0..<length lanes]"
  by (rule nth_equalityI) (simp_all add: compile_lanes_nth)

lemma compiled_lanes_distinct:
  assumes "compile_profile_with_primary X p t res primary g = Some (Inr k)"
  shows "map lp_id (kp_lanes k) = sort (map l_id (p_lanes p))"
    "sorted_wrt (<) (map lp_id (kp_lanes k))"
    "distinct (map lp_table (kp_lanes k))" "distinct (map lp_mark (kp_lanes k))"
    "distinct (map lp_rule_priority (kp_lanes k))"
proof -
  note plan = compiled_plan [OF assms]
  have K: "kp_lanes k = compile_lanes t (p_lanes p)" by (simp add: plan(5))
  have len: "length (p_lanes p) \<le> 100" and dist: "distinct (map l_id (p_lanes p))"
    using plan(1) by (simp_all add: profile_ok_def)
  show "map lp_id (kp_lanes k) = sort (map l_id (p_lanes p))"
    by (simp add: K compile_lanes_ids)
  then show "sorted_wrt (<) (map lp_id (kp_lanes k))"
    using dist by (simp add: strict_sorted_iff)
  show "distinct (map lp_table (kp_lanes k))" "distinct (map lp_mark (kp_lanes k))"
    "distinct (map lp_rule_priority (kp_lanes k))"
    unfolding K by (subst map_compile_lanes, simp, rule slot_inj [OF len])+
qed

lemma compiled_lane_ranges:
  assumes "compile_profile_with_primary X p t res primary g = Some (Inr k)"
    and "l \<in> set (kp_lanes k)"
  shows "lp_table l \<in> {TABLE_BASE..TABLE_MAX} \<and> lp_mark l \<in> {MARK_BASE..MARK_MAX} \<and>
    lp_rule_priority l \<in> {RULE_PRIORITY_BASE..RULE_PRIORITY_MAX}"
proof -
  note plan = compiled_plan [OF assms(1)]
  have len: "length (p_lanes p) \<le> 100" using plan(1) by (simp add: profile_ok_def)
  from assms(2) obtain n where "n < length (p_lanes p)"
    "l = compile_lane t n (sort_key l_id (p_lanes p) ! n)"
    by (auto simp: plan(5) in_set_conv_nth compile_lanes_nth)
  with len show ?thesis using slot_words [of n] by simp
qed

lemma compiled_mark_lane:
  assumes "compile_profile_with_primary X p t res primary g = Some (Inr k)"
    and "c \<in> set (kp_rules k)" and "cr_action c = Mark m"
  shows "\<exists>l \<in> set (kp_lanes k). lp_mark l = m \<and> family_available l (cr_family c)"
proof -
  note plan = compiled_plan [OF assms(1)]
  have "c \<in> set (all_output X p t res primary)"
    using assms(2) retain_first_subset by (fastforce simp: plan(5))
  then obtain act where v: "verdict p (kp_lanes k) primary (cr_family c) act (Mark m)"
    using assms(3) by (auto simp: in_all_output [OF assms(1)] compiled_rule_of_def)
  have "check_exits (plans_by_id (kp_lanes k)) primary = Inr ()"
    using plan(3) by (simp add: plan(5))
  from mark_available [OF v compiled_accepted(1) [OF assms(1)] this] show ?thesis .
qed

section \<open>A concrete plan\<close>

text \<open>\<open>eth0\<close> is up for IPv4; \<open>wg0\<close> has no route, so its lane falls back to \<open>home\<close>.\<close>

definition demo_plan_topology :: "(ip_addr \<times> nat) topology" where
  "demo_plan_topology = \<lparr>
     t_interfaces = [
       (''eth0'', (demo_entry 2 ''eth0'' True)\<lparr>it_connected_networks := [(V4Addr 0x0A000000, 24)]\<rparr>),
       (''wg0'', (demo_entry 3 ''wg0'' True)\<lparr>it_route_v4 := None\<rparr>)],
     t_default_v4 = DefaultInterface ''eth0'', t_default_v6 = DefaultNone, t_observed = True,
     t_conflicts = [], t_assigned_addresses = [V4Addr 0x0A000002]\<rparr>"

definition demo_primary :: primary_decision where
  "demo_primary = \<lparr>pd_preferred = \<lparr>v4 = Some ''home'', v6 = Some ''home''\<rparr>,
     pd_effective = \<lparr>v4 = ExitLane ''home'', v6 = ExitBlocked\<rparr>\<rparr>"

definition demo_plan :: "(ip_addr \<times> nat) kernel_plan" where
  "demo_plan = \<lparr>kp_primary = demo_primary,
     kp_local_networks = [(V4Addr 0x0A000000, 24)], kp_local_addresses = [V4Addr 0x0A000002],
     kp_generation = 7, kp_profile_id = ''default'',
     kp_lanes = [compile_lane demo_plan_topology 0 (demo_lane ''home'' ''eth0'' None),
       compile_lane demo_plan_topology 1 (demo_lane ''work'' ''wg0'' (Some ''home''))],
     kp_rules = [
       \<lparr>cr_family = V4, cr_id = ''r1'', cr_priority = 10,
         cr_target = Network (V4Addr 0x0A000000, 8), cr_action = Mark 0x524c0001\<rparr>,
       \<lparr>cr_family = V4, cr_id = ''r2'', cr_priority = 20,
         cr_target = Network (V4Addr 0x01020304, 32), cr_action = Block\<rparr>]\<rparr>"

lemma demo_compile:
  "compile_profile_with_primary demo_foreign demo_profile demo_plan_topology [] demo_primary 7 =
     Some (Inr demo_plan)"
  by code_simp

section \<open>Properties\<close>

text \<open>
  C6. The planner always returns and never panics: for every profile, topology, resolution
  snapshot, primary decision and generation, the fallback loops end and no \<open>expect\<close> or map index
  fails, so the result is a plan or a \<open>PlanError\<close>.
\<close>

theorem planner_total:
  "\<exists>r. compile_profile_with_primary X p t res primary g = Some r \<and> r \<noteq> Inl Panic"
  unfolding compile_profile_with_primary_def compile_inner_result
  by (simp split: sum.split list.split)

definition rule_supported :: "'n resolutions \<Rightarrow> 'n rule \<Rightarrow> bool" where
  "rule_supported res r =
     (case r_source r of
        SourceApplication _ \<Rightarrow> True
      | SourceAny \<Rightarrow>
          (case r_target r of
             TargetDomain _ \<Rightarrow> resolved_addresses res (r_id r) \<noteq> None
           | TargetWildcardDomain _ \<Rightarrow> False
           | TargetServicePack _ \<Rightarrow> False
           | _ \<Rightarrow> True))"

lemma rule_error_supported: "rule_error X res r = None \<longleftrightarrow> rule_supported res r"
  by (auto simp: rule_error_def rule_supported_def rule_targets_def and_then_def ok_or_def
      split: rule_source.split rule_target.split option.split)

lemma map_filter_empty: "List.map_filter g xs = [] \<longleftrightarrow> (\<forall>x \<in> set xs. g x = None)"
  by (induction xs) (auto simp: map_filter_def)

text \<open>
  C7. The planner accepts exactly the enabled valid profiles whose effective primary exits have an
  identity, a usable route and a source address of their family, and whose enabled rules are
  supported: no wildcard domain or service pack, and a resolution for every domain rule.
\<close>

theorem planner_accepts_iff:
  "(\<exists>k. compile_profile_with_primary X p t res primary g = Some (Inr k)) \<longleftrightarrow>
     p_enabled p \<and> profile_ok X p \<and>
     (\<forall>f i. pair_get (pd_effective primary) f = ExitLane i \<longrightarrow>
        exit_plan_valid (plans_by_id (compile_lanes t (p_lanes p))) i f) \<and>
     (\<forall>r \<in> set (p_rules p). r_enabled r \<longrightarrow> rule_supported res r)"
proof -
  have exits: "check_exits plans primary = Inr () \<longleftrightarrow>
      (\<forall>f i. pair_get (pd_effective primary) f = ExitLane i \<longrightarrow> exit_plan_valid plans i f)" for plans
    unfolding check_exits_def try_each_Inr_iff
    by (auto simp: check_exit_def pair_get_def split: family_exit.split ip_family.split)
  have rules: "List.map_filter (rule_error X res) (execution_order (p_rules p)) = [] \<longleftrightarrow>
      (\<forall>r \<in> set (p_rules p). r_enabled r \<longrightarrow> rule_supported res r)"
    by (auto simp: map_filter_empty rule_error_supported)
  have val: "(\<exists>e. validate_profile X p = Inl e) \<longleftrightarrow> \<not> profile_ok X p"
    by (cases "validate_profile X p") (auto simp flip: validate_profile_Inr_iff)
  show ?thesis
    unfolding compile_profile_with_primary_def compile_inner_result rules [symmetric] exits [symmetric]
      validate_profile_Inr_iff [symmetric]
    by (auto split: sum.split list.split)
qed

text \<open>
  C8. Lane resources: the lanes of a compiled plan are those of the profile in the order of their
  identifiers, and the lane of slot n owns routing table 20000 + n, mark 0x524c0001 + n and rule
  priority 10000 + n, pairwise distinct and within the ranges reserved for RouteLane.
\<close>

theorem planned_lane_resources:
  assumes "compile_profile_with_primary X p t res primary g = Some (Inr k)"
  shows "map lp_id (kp_lanes k) = sort (map l_id (p_lanes p)) \<and>
    sorted_wrt (<) (map lp_id (kp_lanes k)) \<and>
    distinct (map lp_table (kp_lanes k)) \<and> distinct (map lp_mark (kp_lanes k)) \<and>
    distinct (map lp_rule_priority (kp_lanes k)) \<and>
    (\<forall>l \<in> set (kp_lanes k). lp_table l \<in> {TABLE_BASE..TABLE_MAX} \<and>
       lp_mark l \<in> {MARK_BASE..MARK_MAX} \<and>
       lp_rule_priority l \<in> {RULE_PRIORITY_BASE..RULE_PRIORITY_MAX})"
  using compiled_lanes_distinct [OF assms] compiled_lane_ranges [OF assms]
  by (intro conjI ballI) blast+

text \<open>
  C5. The compiled rules mean what the profile says: up to the routing key they are exactly, for
  every enabled rule, each target of the rule and each family of the target, the verdict of the
  rule's action, where a lane rule goes to the first available lane of its fallback chain and,
  when there is none, follows the lane's failure policy; and every compiled rule carries the
  identifier and priority of a rule it stems from.
\<close>

theorem compiled_rules_meaning:
  assumes "compile_profile_with_primary X p t res primary g = Some (Inr k)"
  defines "meant \<equiv> {compiled_rule_of r tgt f a | r ts tgt f a.
    r \<in> set (p_rules p) \<and> r_enabled r \<and> rule_targets X res r = Inr ts \<and> tgt \<in> set ts \<and>
    f \<in> set (target_families X tgt) \<and> verdict p (kp_lanes k) primary f (r_action r) a}"
  shows "set (kp_rules k) \<subseteq> meant \<and> routing_key X ` set (kp_rules k) = routing_key X ` meant"
proof -
  have meant: "meant = set (all_output X p t res primary)"
    by (rule set_eqI) (simp only: meant_def mem_Collect_eq in_all_output [OF assms(1)], blast)
  have rules: "kp_rules k = retain_first (routing_key X) {} (all_output X p t res primary)"
    by (simp add: compiled_plan(5) [OF assms(1)])
  show ?thesis
    unfolding meant rules by (simp add: retain_first_subset retain_first_keys)
qed

text \<open>
  Every mark in a compiled rule belongs to exactly one lane of the plan, and that lane is
  available for the rule's family: marked traffic always has a lane route of its family.
\<close>

lemma mark_selects_available_lane:
  assumes "compile_profile_with_primary X p t res primary g = Some (Inr k)"
    and "c \<in> set (kp_rules k)" and "cr_action c = Mark m"
  shows "\<exists>!l. l \<in> set (kp_lanes k) \<and> lp_mark l = m \<and> family_available l (cr_family c)"
  using compiled_mark_lane [OF assms] compiled_lanes_distinct(4) [OF assms(1)]
  by (auto simp: distinct_map inj_on_def)

text \<open>
  Order and compression: the compiled rules are in execution order (priority, then
  identifier) without repeated routing keys, and compression never changes a first match: for
  every way of matching that sees only the routing key, the first matching rule of the plan is
  the first matching rule of the uncompressed list.
\<close>

lemma compiled_rules_first_match:
  assumes "compile_profile_with_primary X p t res primary g = Some (Inr k)"
  shows "sorted (map (\<lambda>c. (cr_priority c, cr_id c)) (kp_rules k)) \<and>
    distinct (map (routing_key X) (kp_rules k)) \<and>
    find (\<lambda>c. matches (routing_key X c)) (kp_rules k) =
      find (\<lambda>c. matches (routing_key X c))
        (concat (map (rule_output X res (lanes_by_id (p_lanes p)) (plans_by_id (kp_lanes k)) primary)
          (sort_key execution_key (filter r_enabled (p_rules p)))))"
proof -
  note plan = compiled_plan [OF assms]
  have "sorted (map (\<lambda>c. (cr_priority c, cr_id c)) (kp_rules k))"
    using all_output_sorted [of X p t res primary] retain_first_sorted_wrt
    unfolding plan(5) sorted_map by simp
  then show ?thesis
    using retain_first_distinct [of "routing_key X" "{}"] find_retain_first [of _ "routing_key X" "{}"]
    by (simp add: plan(5) all_output_def execution_order_def)
qed

text \<open>A parsed topology files every interface under the name of its identity.\<close>

definition identities_named :: "'n topology \<Rightarrow> bool" where
  "identities_named t =
     (\<forall>(name, e) \<in> set (t_interfaces t). \<forall>i. it_identity e = Some i \<longrightarrow> ii_name i = name)"

lemma lane_binding_of:
  assumes "bt_get (lane_bindings lanes t) i = Some identity"
  obtains l e where "l \<in> set lanes" "l_id l = i" "t_interface t (l_interface l) = Some e"
    "it_identity e = Some identity"
  using assms that
  by (auto simp: lane_bindings_def bt_get_collect map_filter_def lane_identity_def
      simp del: map_of_eq_Some_iff dest!: map_of_SomeD split: option.splits)

lemma exit_ready_plan_valid:
  assumes "distinct (map l_id (p_lanes p))" "identities_named t"
    and "exit_ready (lane_bindings (p_lanes p) t) t f i"
  shows "exit_plan_valid (plans_by_id (compile_lanes t (p_lanes p))) i f"
proof -
  from assms(3) obtain identity e where e: "bt_get (lane_bindings (p_lanes p) t) i = Some identity"
    "t_interface t (ii_name identity) = Some e" "it_identity e = Some identity"
    "interface_ready e f"
    unfolding exit_ready_iff by blast
  from lane_binding_of [OF e(1)] obtain l e' where l: "l \<in> set (p_lanes p)" "l_id l = i"
    "t_interface t (l_interface l) = Some e'" "it_identity e' = Some identity" .
  have "(l_interface l, e') \<in> set (t_interfaces t)"
    using l(3) unfolding t_interface_def by (rule map_of_SomeD)
  with assms(2) l(4) have name: "ii_name identity = l_interface l"
    by (auto simp: identities_named_def)
  let ?K = "compile_lanes t (p_lanes p)"
  from l have "i \<in> lp_id ` set ?K" by (auto simp: compile_lanes_id_set)
  then obtain n where n: "n < length (p_lanes p)" "l_id (sort_key l_id (p_lanes p) ! n) = i"
    by (auto simp: in_set_conv_nth compile_lanes_nth)
  have "sort_key l_id (p_lanes p) ! n \<in> set (p_lanes p)"
    using n(1) by (metis length_sort nth_mem set_sort)
  with n(2) l(1,2) assms(1) have s: "sort_key l_id (p_lanes p) ! n = l"
    by (auto simp: distinct_map inj_on_def)
  have "?K ! n \<in> set ?K" using n(1) by simp
  then have plan: "compile_lane t n l \<in> set ?K" by (simp add: compile_lanes_nth n(1) s)
  have "bt_get (plans_by_id ?K) i = Some (compile_lane t n l)"
    using plan l(2) assms(1) by (subst plans_by_id_get) (simp_all add: compile_lanes_distinct)
  with e name show ?thesis
    by (cases f) (auto simp: exit_plan_valid_def compile_lane_def Let_def usable_route_def
        family_available_def interface_ready_def)
qed

lemma rule_error_not_exit: "rule_error X res r \<noteq> Some (InvalidPrimaryExit i f)"
  by (simp add: rule_error_def rule_targets_def and_then_def ok_or_def
      split: rule_source.split rule_target.split option.split)

lemma check_exits_Inl:
  "check_exits plans primary = Inl e \<Longrightarrow>
     \<exists>h j. pair_get (pd_effective primary) h = ExitLane j \<and> \<not> exit_plan_valid plans j h"
proof (rule ccontr)
  assume err: "check_exits plans primary = Inl e"
  assume "\<not> (\<exists>h j. pair_get (pd_effective primary) h = ExitLane j \<and> \<not> exit_plan_valid plans j h)"
  then have "check_exit plans (h, pair_get (pd_effective primary) h) = Inr ()" for h
    by (auto simp: check_exit_def split: family_exit.split)
  from this [of V4] this [of V6] have "check_exits plans primary = Inr ()"
    by (simp add: check_exits_def pair_get_def)
  with err show False by simp
qed

text \<open>
  The selector and the planner agree: when every interface is filed under its own name, the
  plan compiled with a freshly computed primary decision is never rejected for its primary exit.
\<close>

lemma compile_profile_exit_valid:
  assumes "identities_named t"
  shows "compile_profile X p t res g \<noteq> Some (Inl (Rejected (InvalidPrimaryExit i f)))"
proof
  let ?s = "selector_step (p_routing p) t 0 (selector_new p t)"
  let ?plans = "plans_by_id (compile_lanes t (p_lanes p))"
  assume "compile_profile X p t res g = Some (Inl (Rejected (InvalidPrimaryExit i f)))"
  then have inner: "compile_profile_inner X p t res (decision_of ?s) g =
      Some (Inl (Rejected (InvalidPrimaryExit i f)))"
    by (simp add: compile_profile_def selector_update_def Let_def)
  have no: "List.map_filter (rule_error X res) rs \<noteq> InvalidPrimaryExit i f # es" for rs es
    using rule_error_not_exit [of X res] by (induction rs) (auto simp: map_filter_def)
  from inner no have err: "check_exits ?plans (decision_of ?s) = Inl (InvalidPrimaryExit i f)"
    and val: "validate_profile X p = Inr ()"
    unfolding compile_inner_result by (auto split: if_splits sum.splits list.splits)
  from check_exits_Inl [OF err] obtain h j
    where exit: "pair_get (pd_effective (decision_of ?s)) h = ExitLane j"
      and bad: "\<not> exit_plan_valid ?plans j h" by blast
  have "exit_allowed (ps_bindings (selector_new p t)) (p_routing p) t h (family_state_of ?s h)"
    unfolding selector_step_family by (rule update_family_allowed)
  with exit have "exit_ready (lane_bindings (p_lanes p) t) t h j"
    by (simp add: exit_allowed_def selector_new_def)
  with exit_ready_plan_valid [OF _ assms] bad val show False
    by (auto simp: validate_profile_Inr_iff profile_ok_def)
qed

section \<open>Witnesses\<close>

theorem planner_accepts_iff_witness:
  "p_enabled demo_profile \<and> profile_ok demo_foreign demo_profile \<and>
     rule_supported [] (hd (p_rules demo_profile))"
proof -
  have "r_enabled (hd (p_rules demo_profile))" "hd (p_rules demo_profile) \<in> set (p_rules demo_profile)"
    by (simp_all add: demo_profile_def demo_rule_def)
  then show ?thesis
    using planner_accepts_iff [of demo_foreign demo_profile demo_plan_topology "[]" demo_primary 7]
      demo_compile by blast
qed

theorem planned_lane_resources_witness:
  "map lp_id (kp_lanes demo_plan) = [''home'', ''work''] \<and>
     distinct (map lp_mark (kp_lanes demo_plan))"
  using planned_lane_resources [OF demo_compile] by (simp add: demo_plan_def demo_lane_def)

theorem compiled_rules_meaning_witness:
  "set (kp_rules demo_plan) \<subseteq> {compiled_rule_of r tgt f a | r ts tgt f a.
    r \<in> set (p_rules demo_profile) \<and> r_enabled r \<and> rule_targets demo_foreign [] r = Inr ts \<and>
    tgt \<in> set ts \<and> f \<in> set (target_families demo_foreign tgt) \<and>
    verdict demo_profile (kp_lanes demo_plan) demo_primary f (r_action r) a}"
  using compiled_rules_meaning [OF demo_compile] by (rule conjunct1)

lemma mark_selects_available_lane_witness:
  "\<exists>!l. l \<in> set (kp_lanes demo_plan) \<and> lp_mark l = 0x524c0001 \<and> family_available l V4"
  using mark_selects_available_lane [OF demo_compile, of "hd (kp_rules demo_plan)" "0x524c0001"]
  by (simp add: demo_plan_def)

lemma compiled_rules_first_match_witness:
  "distinct (map (routing_key demo_foreign) (kp_rules demo_plan))"
  using compiled_rules_first_match [OF demo_compile, of "\<lambda>_. True"] by blast

lemma compile_profile_exit_valid_witness:
  "compile_profile demo_foreign demo_profile demo_plan_topology [] 7 \<noteq>
     Some (Inl (Rejected (InvalidPrimaryExit ''home'' V4)))"
  by (rule compile_profile_exit_valid)
     (simp add: identities_named_def demo_plan_topology_def demo_entry_def demo_identity_def)

end
