(* ===== verification/Policy_Route.thy ===== *)
theory Policy_Route
  imports Plan
begin

text \<open>
  Typed routing steps (\<open>src/src/backend/policy_route.rs\<close>): the steps that install a plan's routes
  and policy rules, move them from one plan to the next and retire the rest, and the \<open>ip\<close>
  commands they stand for. The steps see a plan only as its lanes (\<open>RoutingPlan\<close>).
\<close>

section \<open>Commands\<close>

datatype program = ProgIp | ProgNft

record command_spec =
  cs_program :: program
  cs_family :: "ip_family option"
  cs_args :: "string list"
  cs_stdin :: "string option"

definition ip_command :: "ip_family \<Rightarrow> string list \<Rightarrow> command_spec" where
  "ip_command f args =
     \<lparr>cs_program = ProgIp, cs_family = Some f, cs_args = args, cs_stdin = None\<rparr>"

definition ip4 :: "string list \<Rightarrow> command_spec" where
  "ip4 args = ip_command V4 args"

definition ip6 :: "string list \<Rightarrow> command_spec" where
  "ip6 args = ip_command V6 args"

definition TERMINAL_ROUTE_METRIC :: u32 where
  "TERMINAL_ROUTE_METRIC = 4294967294"

section \<open>Steps\<close>

datatype owned_route = Unicast "ip_addr option" string | Terminal

text \<open>Rule steps carry priority, table and mark.\<close>

datatype routing_step =
    ReplaceRoute ip_family u32 owned_route
  | DeleteRoute ip_family u32 owned_route
  | AddRule ip_family u32 u32 u32
  | DeleteRule ip_family u32 u32 u32
  | FlushTable ip_family u32

definition word_to_string :: "u32 \<Rightarrow> string" where
  "word_to_string w = decimal (uint w)"

definition rule_command :: "string \<Rightarrow> ip_family \<Rightarrow> u32 \<Rightarrow> u32 \<Rightarrow> u32 \<Rightarrow> command_spec" where
  "rule_command verb f priority table mark =
     ip_command f [''rule'', verb, ''fwmark'', hex_0x08 mark, ''lookup'', word_to_string table,
       ''priority'', word_to_string priority]"

definition kernel_metric :: "ip_family \<Rightarrow> u32" where
  "kernel_metric f = (case f of V4 \<Rightarrow> 0 | V6 \<Rightarrow> 1024)"

definition route_command ::
  "string \<Rightarrow> ip_family \<Rightarrow> u32 \<Rightarrow> owned_route \<Rightarrow> bool \<Rightarrow> command_spec"
where
  "route_command verb f table route exact_metric =
     ip_command f ([''route'', verb] @
       (case route of
          Unicast gw interface \<Rightarrow>
            [''default''] @
            (case gw of Some g \<Rightarrow> [''via'', ip_to_string g] | None \<Rightarrow> []) @
            [''dev'', interface, ''table'', word_to_string table] @
            (if exact_metric then [''metric'', word_to_string (kernel_metric f)] else [])
        | Terminal \<Rightarrow>
            [''unreachable'', ''default'', ''table'', word_to_string table,
             ''metric'', word_to_string TERMINAL_ROUTE_METRIC]))"

fun step_command :: "routing_step \<Rightarrow> command_spec" where
  "step_command (ReplaceRoute f table route) = route_command ''replace'' f table route False"
| "step_command (DeleteRoute f table route) = route_command ''del'' f table route True"
| "step_command (AddRule f priority table mark) = rule_command ''add'' f priority table mark"
| "step_command (DeleteRule f priority table mark) = rule_command ''del'' f priority table mark"
| "step_command (FlushTable f table) =
     ip_command f [''route'', ''flush'', ''table'', word_to_string table]"

section \<open>From plans to steps\<close>

definition lane_unicast_route :: "lane_plan \<Rightarrow> ip_family \<Rightarrow> owned_route option" where
  "lane_unicast_route l f =
     (if lp_availability l \<noteq> Available then None
      else (case f of
          V4 \<Rightarrow> (case lp_route_v4 l of
              None \<Rightarrow> None
            | Some r \<Rightarrow> Some (Unicast (map_option V4Addr (gateway r)) (lp_interface l)))
        | V6 \<Rightarrow> (case lp_route_v6 l of
              None \<Rightarrow> None
            | Some r \<Rightarrow> Some (Unicast (map_option V6Addr (gateway r)) (lp_interface l)))))"

definition rule_step :: "lane_plan \<Rightarrow> ip_family \<Rightarrow> routing_step" where
  "rule_step l f = AddRule f (lp_rule_priority l) (lp_table l) (lp_mark l)"

definition lane_for_table :: "lane_plan list \<Rightarrow> u32 \<Rightarrow> lane_plan option" where
  "lane_for_table K table = find (\<lambda>l. lp_table l = table) K"

definition install_rules :: "lane_plan list \<Rightarrow> routing_step list" where
  "install_rules K = concat (map (\<lambda>l. map (rule_step l) families) K)"

definition has_gateway :: "owned_route option \<Rightarrow> bool" where
  "has_gateway r = (case r of Some (Unicast (Some _) _) \<Rightarrow> True | _ \<Rightarrow> False)"

text \<open>The route steps of one lane and family; \<open>prev\<close> is the previous lane of the same table.\<close>

definition needs_open_table :: "lane_plan option \<Rightarrow> lane_plan \<Rightarrow> ip_family \<Rightarrow> bool" where
  "needs_open_table prev l f =
     (f = V6 \<and> prev \<noteq> None \<and> Option.bind prev (\<lambda>p. lane_unicast_route p f) = None \<and>
      has_gateway (lane_unicast_route l f))"

definition family_steps :: "lane_plan option \<Rightarrow> lane_plan \<Rightarrow> ip_family \<Rightarrow> routing_step list" where
  "family_steps prev l f =
     (if needs_open_table prev l f then [DeleteRoute f (lp_table l) Terminal] else []) @
     (case lane_unicast_route l f of
        Some route \<Rightarrow> [ReplaceRoute f (lp_table l) route]
      | None \<Rightarrow> []) @
     [ReplaceRoute f (lp_table l) Terminal]"

definition previous_lane :: "lane_plan list option \<Rightarrow> u32 \<Rightarrow> lane_plan option" where
  "previous_lane prev table =
     (case prev of None \<Rightarrow> None | Some K \<Rightarrow> lane_for_table K table)"

definition transition_steps :: "lane_plan list option \<Rightarrow> lane_plan list \<Rightarrow> routing_step list" where
  "transition_steps prev K =
     concat (map (\<lambda>l. concat (map (family_steps (previous_lane prev (lp_table l)) l) families)) K) @
     filter (\<lambda>s. s \<notin> set (case prev of None \<Rightarrow> [] | Some P \<Rightarrow> install_rules P)) (install_rules K)"

definition install_steps :: "lane_plan list \<Rightarrow> routing_step list" where
  "install_steps K = transition_steps None K"

text \<open>\<open>install_rules\<close> yields rule steps only, so the \<open>unreachable!\<close> arm has no case here.\<close>

fun delete_of :: "routing_step \<Rightarrow> routing_step list" where
  "delete_of (AddRule f priority table mark) = [DeleteRule f priority table mark]"
| "delete_of _ = []"

definition retire_lane :: "lane_plan list \<Rightarrow> lane_plan \<Rightarrow> routing_step list" where
  "retire_lane K l =
     (case lane_for_table K (lp_table l) of
        None \<Rightarrow> map (\<lambda>f. FlushTable f (lp_table l)) families
      | Some n \<Rightarrow>
          concat (map (\<lambda>f.
            (case lane_unicast_route l f of
               Some route \<Rightarrow>
                 if lane_unicast_route n f = None then [DeleteRoute f (lp_table l) route] else []
             | None \<Rightarrow> [])) families))"

definition retire_steps :: "lane_plan list \<Rightarrow> lane_plan list \<Rightarrow> routing_step list" where
  "retire_steps P K =
     concat (map delete_of (filter (\<lambda>r. r \<notin> set (install_rules K)) (install_rules P))) @
     concat (map (retire_lane K) P)"

definition build_policy_commands :: "'n kernel_plan \<Rightarrow> command_spec list" where
  "build_policy_commands k = map step_command (install_steps (kp_lanes k))"

section \<open>Lemmas\<close>

lemma lane_for_table_Some:
  "lane_for_table K T = Some l \<Longrightarrow> l \<in> set K \<and> lp_table l = T"
  by (auto simp: lane_for_table_def dest: find_Some_in)

lemma lane_for_table_None: "lane_for_table K T = None \<longleftrightarrow> T \<notin> lp_table ` set K"
  by (auto simp: lane_for_table_def find_None_iff)

lemma lane_for_table_distinct:
  "distinct (map lp_table K) \<Longrightarrow> l \<in> set K \<Longrightarrow> lane_for_table K (lp_table l) = Some l"
  unfolding lane_for_table_def by (rule find_distinct_key)

lemma in_install_rules:
  "s \<in> set (install_rules K) \<longleftrightarrow>
     (\<exists>l \<in> set K. \<exists>f. s = AddRule f (lp_rule_priority l) (lp_table l) (lp_mark l))"
  by (auto simp: install_rules_def rule_step_def)

lemma install_rules_only_rules:
  "s \<in> set (install_rules K) \<Longrightarrow> delete_of s \<noteq> []"
  by (auto simp: in_install_rules)

end
