(* ===== verification/Crash_Model.thy ===== *)
theory Crash_Model
  imports Policy_Route
begin

text \<open>
  The crash-state model of the routing transaction (\<open>src/src/backend/privileged.rs\<close>): what routes
  and rules RouteLane owns, how each typed step changes them, which states an interrupted
  transition, rollback or restore can leave behind, and the test that a live state is one of them.
  The lemmas show that the model is exact: the forward steps end in the state of the next plan,
  the reachability test accepts exactly the states left by an interruption, a rollback removes
  everything from each of them, and marked traffic always meets a terminal route.
\<close>

section \<open>Ownership\<close>

record route_ownership =
  ro_family :: u8
  ro_table :: u32
  ro_gateway :: "string option"
  ro_interface :: string
  ro_terminal :: bool

record rule_ownership =
  uo_family :: u8
  uo_priority :: u32
  uo_table :: u32
  uo_mark :: u32

record routing_ownership =
  own_routes :: "route_ownership set"
  own_rules :: "rule_ownership set"

definition empty_ownership :: routing_ownership where
  "empty_ownership = \<lparr>own_routes = {}, own_rules = {}\<rparr>"

definition routing_ownership_is_subset :: "routing_ownership \<Rightarrow> routing_ownership \<Rightarrow> bool" where
  "routing_ownership_is_subset live expected =
     (own_routes live \<subseteq> own_routes expected \<and> own_rules live \<subseteq> own_rules expected)"

definition family_number :: "ip_family \<Rightarrow> u8" where
  "family_number f = (case f of V4 \<Rightarrow> 4 | V6 \<Rightarrow> 6)"

fun route_ownership_of :: "ip_family \<Rightarrow> u32 \<Rightarrow> owned_route \<Rightarrow> route_ownership" where
  "route_ownership_of f T (Unicast gw dev) = \<lparr>ro_family = family_number f, ro_table = T,
     ro_gateway = map_option ip_to_string gw, ro_interface = dev, ro_terminal = False\<rparr>"
| "route_ownership_of f T Terminal = \<lparr>ro_family = family_number f, ro_table = T,
     ro_gateway = None, ro_interface = [], ro_terminal = True\<rparr>"

definition rule_ownership_of :: "ip_family \<Rightarrow> u32 \<Rightarrow> u32 \<Rightarrow> u32 \<Rightarrow> rule_ownership" where
  "rule_ownership_of f priority T mark = \<lparr>uo_family = family_number f, uo_priority = priority,
     uo_table = T, uo_mark = mark\<rparr>"

fun apply_routing_step :: "routing_step \<Rightarrow> routing_ownership \<Rightarrow> routing_ownership" where
  "apply_routing_step (ReplaceRoute f T route) s =
     (let r = route_ownership_of f T route in
      s\<lparr>own_routes := insert r {e \<in> own_routes s.
         ro_family e \<noteq> ro_family r \<or> ro_table e \<noteq> ro_table r \<or> ro_terminal e \<noteq> ro_terminal r}\<rparr>)"
| "apply_routing_step (DeleteRoute f T route) s =
     s\<lparr>own_routes := own_routes s - {route_ownership_of f T route}\<rparr>"
| "apply_routing_step (AddRule f priority T mark) s =
     s\<lparr>own_rules := insert (rule_ownership_of f priority T mark) (own_rules s)\<rparr>"
| "apply_routing_step (DeleteRule f priority T mark) s =
     s\<lparr>own_rules := own_rules s - {rule_ownership_of f priority T mark}\<rparr>"
| "apply_routing_step (FlushTable f T) s =
     s\<lparr>own_routes := {e \<in> own_routes s. ro_family e \<noteq> family_number f \<or> ro_table e \<noteq> T}\<rparr>"

definition run_steps :: "routing_step list \<Rightarrow> routing_ownership \<Rightarrow> routing_ownership" where
  "run_steps steps s = fold apply_routing_step steps s"

definition plan_routing_ownership :: "lane_plan list \<Rightarrow> routing_ownership" where
  "plan_routing_ownership K = run_steps (install_steps K) empty_ownership"

section \<open>States an interruption can leave\<close>

datatype pending_nft_phase =
    Untouched | Guard | GuardlessTransaction | Activated | Committed | RollbackAbsent

text \<open>\<open>unreachable!()\<close> is a value of its own, apart from the errors the functions return.\<close>

datatype model_stop = Unreachable | ModelError string

type_synonym 'a model_result = "(model_stop, 'a) result"

text \<open>The state before and after each step.\<close>

fun trace :: "routing_ownership \<Rightarrow> routing_step list \<Rightarrow> routing_ownership list" where
  "trace s [] = [s]"
| "trace s (x # xs) = s # trace (apply_routing_step x s) xs"

definition active_ownership :: "lane_plan list option \<Rightarrow> routing_ownership" where
  "active_ownership active =
     (case active of None \<Rightarrow> empty_ownership | Some K \<Rightarrow> plan_routing_ownership K)"

definition active_retire_steps :: "lane_plan list option \<Rightarrow> lane_plan list \<Rightarrow> routing_step list" where
  "active_retire_steps active pending =
     (case active of None \<Rightarrow> [] | Some K \<Rightarrow> retire_steps K pending)"

definition build_forward_routing_states ::
  "lane_plan list option \<Rightarrow> lane_plan list \<Rightarrow> pending_nft_phase \<Rightarrow> routing_ownership list model_result"
where
  "build_forward_routing_states active pending phase =
     (let state = active_ownership active in
      if phase = Untouched then Inr [state]
      else (let guard_states = trace state (transition_steps active pending);
                state = run_steps (transition_steps active pending) state
            in if phase = Guard then Inr guard_states
      else (let activated_states = trace state (active_retire_steps active pending);
                state = run_steps (active_retire_steps active pending) state;
                committed_state = plan_routing_ownership pending
            in if state \<noteq> committed_state
               then Inl (ModelError ''cannot derive an exact reachable pending routing state'')
               else (case phase of
                   Activated \<Rightarrow> Inr activated_states
                 | Committed \<Rightarrow> Inr [committed_state]
                 | RollbackAbsent \<Rightarrow>
                     Inl (ModelError ''rollback-without-nft routing states use the restore-prefix model'')
                 | _ \<Rightarrow> Inl Unreachable))))"

fun push_new :: "'a list \<Rightarrow> 'a list \<Rightarrow> 'a list" where
  "push_new acc [] = acc"
| "push_new acc (x # xs) = push_new (if x \<in> set acc then acc else acc @ [x]) xs"

definition rollback_rule_order :: "lane_plan list list \<Rightarrow> routing_step list" where
  "rollback_rule_order plans =
     push_new [] (concat (map delete_of (concat (map install_steps plans))))"

definition rollback_table_order :: "lane_plan list list \<Rightarrow> routing_step list" where
  "rollback_table_order plans =
     push_new [] (concat (map (\<lambda>K. concat (map (\<lambda>l. map (\<lambda>f. FlushTable f (lp_table l)) families) K)) plans))"

fun reaches :: "routing_ownership \<Rightarrow> routing_ownership \<Rightarrow> routing_step list \<Rightarrow> bool" where
  "reaches expected state [] = False"
| "reaches expected state (x # xs) =
     (let state' = apply_routing_step x state in
      if state' \<noteq> state \<and> state' = expected then True else reaches expected state' xs)"

definition active_and_pending :: "lane_plan list option \<Rightarrow> lane_plan list \<Rightarrow> lane_plan list list" where
  "active_and_pending active pending = (case active of None \<Rightarrow> [] | Some K \<Rightarrow> [K]) @ [pending]"

definition rollback_steps :: "lane_plan list list \<Rightarrow> routing_step list" where
  "rollback_steps plans = rollback_rule_order plans @ rollback_table_order plans"

definition rollback_prefix_reaches ::
  "routing_ownership \<Rightarrow> lane_plan list option \<Rightarrow> lane_plan list \<Rightarrow> routing_ownership \<Rightarrow> bool"
where
  "rollback_prefix_reaches starting_state active pending expected =
     reaches expected starting_state (rollback_steps (active_and_pending active pending))"

definition build_absent_rollback_states :: "lane_plan list option \<Rightarrow> routing_ownership list" where
  "build_absent_rollback_states active =
     (case active of
        None \<Rightarrow> [empty_ownership]
      | Some K \<Rightarrow> trace empty_ownership (install_steps K))"

definition reached_from ::
  "lane_plan list option \<Rightarrow> lane_plan list \<Rightarrow> routing_ownership \<Rightarrow> routing_ownership list \<Rightarrow> bool"
where
  "reached_from active pending live states =
     (\<exists>s \<in> set states. s = live \<or> rollback_prefix_reaches s active pending live)"

definition routing_state_reachable_for_phase ::
  "routing_ownership \<Rightarrow> lane_plan list option \<Rightarrow> lane_plan list \<Rightarrow> pending_nft_phase \<Rightarrow> bool model_result"
where
  "routing_state_reachable_for_phase live active pending phase =
     (if phase = RollbackAbsent then Inr (live \<in> set (build_absent_rollback_states active))
      else if phase = Committed then
        and_then (build_forward_routing_states active pending Committed)
          (\<lambda>committed. if reached_from active pending live committed then Inr True
             else and_then (build_forward_routing_states active pending Activated)
               (\<lambda>activated. Inr (reached_from active pending live activated)))
      else
        (let phase = (if phase = GuardlessTransaction then Guard else phase) in
         and_then (build_forward_routing_states active pending phase)
           (\<lambda>states. Inr (reached_from active pending live states))))"

definition lose_routes :: "(u8 \<times> u32) set \<Rightarrow> lane_plan \<Rightarrow> lane_plan" where
  "lose_routes lost l = l\<lparr>
     lp_route_v4 := (if (4, lp_table l) \<in> lost then None else lp_route_v4 l),
     lp_route_v6 := (if (6, lp_table l) \<in> lost then None else lp_route_v6 l)\<rparr>"

definition routing_basis :: "'n kernel_plan \<Rightarrow> (u8 \<times> u32) set \<Rightarrow> 'n kernel_plan" where
  "routing_basis k lost = k\<lparr>kp_lanes := map (lose_routes lost) (kp_lanes k)\<rparr>"

section \<open>Cells\<close>

text \<open>
  A step changes the routes of one family and table only, so the effect of a list of steps can be
  read off cell by cell.
\<close>

locale cells =
  fixes step :: "'op \<Rightarrow> 's \<Rightarrow> 's"
    and cell :: "'s \<Rightarrow> 'k \<Rightarrow> 'c"
    and key :: "'op \<Rightarrow> 'k option"
    and act :: "'op \<Rightarrow> 'c \<Rightarrow> 'c"
  assumes cell_step: "cell (step op s) k = (if key op = Some k then act op (cell s k) else cell s k)"
begin

lemma cell_run: "cell (fold step ops s) k = fold act (filter (\<lambda>op. key op = Some k) ops) (cell s k)"
  by (induction ops arbitrary: s) (auto simp: cell_step)

lemma cell_untouched: "\<forall>op \<in> set ops. key op \<noteq> Some k \<Longrightarrow> cell (fold step ops s) k = cell s k"
  by (simp add: cell_run filter_False)

end

type_synonym route_cell = "u8 \<times> u32"

definition cell_routes :: "routing_ownership \<Rightarrow> route_cell \<Rightarrow> route_ownership set" where
  "cell_routes s k = {r \<in> own_routes s. (ro_family r, ro_table r) = k}"

fun route_cell_of :: "routing_step \<Rightarrow> route_cell option" where
  "route_cell_of (ReplaceRoute f T _) = Some (family_number f, T)"
| "route_cell_of (DeleteRoute f T _) = Some (family_number f, T)"
| "route_cell_of (FlushTable f T) = Some (family_number f, T)"
| "route_cell_of _ = None"

fun act_on_cell :: "routing_step \<Rightarrow> route_ownership set \<Rightarrow> route_ownership set" where
  "act_on_cell (ReplaceRoute f T r) C =
     insert (route_ownership_of f T r) {e \<in> C. ro_terminal e \<noteq> ro_terminal (route_ownership_of f T r)}"
| "act_on_cell (DeleteRoute f T r) C = C - {route_ownership_of f T r}"
| "act_on_cell (FlushTable f T) C = {}"
| "act_on_cell _ C = C"

lemma route_ownership_of_key [simp]:
  "ro_family (route_ownership_of f T r) = family_number f"
  "ro_table (route_ownership_of f T r) = T"
  "ro_terminal (route_ownership_of f T r) \<longleftrightarrow> r = Terminal"
  by (cases r; simp)+

lemma family_number_inj [simp]: "family_number f = family_number g \<longleftrightarrow> f = g"
  by (cases f; cases g) (simp_all add: family_number_def)

interpretation route_cells: cells apply_routing_step cell_routes route_cell_of act_on_cell
proof
  show "cell_routes (apply_routing_step op s) k =
    (if route_cell_of op = Some k then act_on_cell op (cell_routes s k) else cell_routes s k)" for op s k
    by (cases op; cases k) (auto simp: cell_routes_def Let_def)
qed

lemma own_routes_cells: "own_routes a = own_routes b \<longleftrightarrow> (\<forall>k. cell_routes a k = cell_routes b k)"
  by (auto simp: cell_routes_def set_eq_iff)

lemma cell_run_steps:
  "cell_routes (run_steps ops s) k =
     fold act_on_cell (filter (\<lambda>op. route_cell_of op = Some k) ops) (cell_routes s k)"
  unfolding run_steps_def by (rule route_cells.cell_run)

section \<open>Rules under a list of steps\<close>

definition rules_of :: "lane_plan list \<Rightarrow> rule_ownership set" where
  "rules_of K = {rule_ownership_of f (lp_rule_priority l) (lp_table l) (lp_mark l) | f l. l \<in> set K}"

definition added_rules :: "routing_step list \<Rightarrow> rule_ownership set" where
  "added_rules ops = {rule_ownership_of f p T m | f p T m. AddRule f p T m \<in> set ops}"

definition deleted_rules :: "routing_step list \<Rightarrow> rule_ownership set" where
  "deleted_rules ops = {rule_ownership_of f p T m | f p T m. DeleteRule f p T m \<in> set ops}"

lemma rule_ownership_of_inj [simp]:
  "rule_ownership_of f p T m = rule_ownership_of g q U n \<longleftrightarrow> f = g \<and> p = q \<and> T = U \<and> m = n"
  by (simp add: rule_ownership_of_def)

lemma run_steps_append [simp]: "run_steps (xs @ ys) s = run_steps ys (run_steps xs s)"
  by (simp add: run_steps_def)

lemma run_steps_simps [simp]:
  "run_steps [] s = s"
  "run_steps (x # xs) s = run_steps xs (apply_routing_step x s)"
  by (simp_all add: run_steps_def)

lemma added_rules_simps [simp]:
  "added_rules [] = {}"
  "added_rules (AddRule f p T m # xs) = insert (rule_ownership_of f p T m) (added_rules xs)"
  "(\<forall>f p T m. x \<noteq> AddRule f p T m) \<Longrightarrow> added_rules (x # xs) = added_rules xs"
  by (auto simp: added_rules_def)

lemma deleted_rules_simps [simp]:
  "deleted_rules [] = {}"
  "deleted_rules (DeleteRule f p T m # xs) = insert (rule_ownership_of f p T m) (deleted_rules xs)"
  "(\<forall>f p T m. x \<noteq> DeleteRule f p T m) \<Longrightarrow> deleted_rules (x # xs) = deleted_rules xs"
  by (auto simp: deleted_rules_def)

lemma rules_only_added:
  "deleted_rules ops = {} \<Longrightarrow> own_rules (run_steps ops s) = own_rules s \<union> added_rules ops"
proof (induction ops arbitrary: s)
  case (Cons x xs)
  then show ?case by (cases x) (auto simp: Let_def)
qed simp

lemma rules_only_deleted:
  "added_rules ops = {} \<Longrightarrow> own_rules (run_steps ops s) = own_rules s - deleted_rules ops"
proof (induction ops arbitrary: s)
  case (Cons x xs)
  then show ?case by (cases x) (auto simp: Let_def)
qed simp

lemma added_install_rules: "added_rules (install_rules K) = rules_of K"
  by (auto simp: added_rules_def rules_of_def in_install_rules)

section \<open>The steps of one cell\<close>

definition route_part :: "lane_plan list option \<Rightarrow> lane_plan list \<Rightarrow> routing_step list" where
  "route_part prev K =
     concat (map (\<lambda>l. concat (map (family_steps (previous_lane prev (lp_table l)) l) families)) K)"

definition rule_part :: "lane_plan list option \<Rightarrow> lane_plan list \<Rightarrow> routing_step list" where
  "rule_part prev K =
     filter (\<lambda>s. s \<notin> set (case prev of None \<Rightarrow> [] | Some P \<Rightarrow> install_rules P)) (install_rules K)"

lemma transition_parts: "transition_steps prev K = route_part prev K @ rule_part prev K"
  by (simp add: transition_steps_def route_part_def rule_part_def)

lemma family_steps_cell:
  "op \<in> set (family_steps prev l f) \<Longrightarrow> route_cell_of op = Some (family_number f, lp_table l)"
  by (auto simp: family_steps_def split: if_splits option.splits)

lemma filter_family_steps:
  "filter (\<lambda>op. route_cell_of op = Some (family_number g, T)) (family_steps prev l f) =
     (if g = f \<and> lp_table l = T then family_steps prev l f else [])"
  using family_steps_cell [of _ prev l f] by (auto simp: filter_empty_conv filter_id_conv)

lemma filter_concat_map: "filter P (concat (map h xs)) = concat (map (\<lambda>x. filter P (h x)) xs)"
  by (induction xs) auto

lemma concat_families_one:
  "concat (map (\<lambda>f. if g = f \<and> b then h f else []) families) = (if b then h g else [])"
  by (cases g) (simp_all add: families_def)

lemma concat_table_one:
  assumes "distinct (map lp_table K)"
  shows "concat (map (\<lambda>l. if lp_table l = T then h l else []) K) =
    (case lane_for_table K T of None \<Rightarrow> [] | Some l \<Rightarrow> h l)"
  using assms
proof (induction K)
  case (Cons l K)
  have "concat (map (\<lambda>l. if lp_table l = T then h l else []) K) = []" if "lp_table l = T"
    using Cons.prems that by (auto simp: image_iff)
  with Cons show ?case by (simp add: lane_for_table_def)
qed (simp add: lane_for_table_def)

definition cell_steps :: "lane_plan list option \<Rightarrow> lane_plan list \<Rightarrow> ip_family \<Rightarrow> u32 \<Rightarrow> routing_step list"
where
  "cell_steps prev K f T =
     (case lane_for_table K T of
        None \<Rightarrow> []
      | Some l \<Rightarrow> family_steps (previous_lane prev T) l f)"

lemma filter_route_part:
  assumes "distinct (map lp_table K)"
  shows "filter (\<lambda>op. route_cell_of op = Some (family_number f, T)) (route_part prev K) =
    cell_steps prev K f T"
  unfolding route_part_def filter_concat_map filter_family_steps concat_families_one
    concat_table_one [OF assms] cell_steps_def
  by (auto split: option.split dest: lane_for_table_Some)

lemma rule_part_cell: "op \<in> set (rule_part prev K) \<Longrightarrow> route_cell_of op = None"
  by (auto simp: rule_part_def in_install_rules)

lemma filter_transition:
  assumes "distinct (map lp_table K)"
  shows "filter (\<lambda>op. route_cell_of op = Some (family_number f, T)) (transition_steps prev K) =
    cell_steps prev K f T"
  using filter_route_part [OF assms, of f T prev] rule_part_cell
  by (simp add: transition_parts filter_empty_conv)

definition cell_retire :: "lane_plan list \<Rightarrow> lane_plan list \<Rightarrow> ip_family \<Rightarrow> u32 \<Rightarrow> routing_step list"
where
  "cell_retire P K f T =
     (case lane_for_table P T of
        None \<Rightarrow> []
      | Some l \<Rightarrow>
          (case lane_for_table K T of
             None \<Rightarrow> [FlushTable f T]
           | Some n \<Rightarrow>
               (case lane_unicast_route l f of
                  Some route \<Rightarrow>
                    if lane_unicast_route n f = None then [DeleteRoute f T route] else []
                | None \<Rightarrow> [])))"

lemma filter_retire_lane:
  "filter (\<lambda>op. route_cell_of op = Some (family_number f, T)) (retire_lane K l) =
     (if lp_table l = T then cell_retire [l] K f T else [])"
  by (cases f)
     (auto simp: retire_lane_def cell_retire_def families_def lane_for_table_def
       split: option.split)

lemma filter_retire:
  assumes "distinct (map lp_table P)"
  shows "filter (\<lambda>op. route_cell_of op = Some (family_number f, T)) (retire_steps P K) =
    cell_retire P K f T"
proof -
  have "filter (\<lambda>op. route_cell_of op = Some k) (delete_of x) = []" for k x
    by (cases x) simp_all
  then have "filter (\<lambda>op. route_cell_of op = Some (family_number f, T)) (retire_steps P K) =
      concat (map (\<lambda>l. if lp_table l = T then cell_retire [l] K f T else []) P)"
    by (simp add: retire_steps_def filter_concat_map filter_retire_lane map_replicate_const)
  also have "\<dots> = cell_retire P K f T"
    unfolding concat_table_one [OF assms]
    by (auto simp: cell_retire_def lane_for_table_def dest: find_Some_in split: option.split)
  finally show ?thesis .
qed

section \<open>What a plan owns\<close>

declare route_ownership_of.simps [simp del]

lemma route_ownership_terminal [simp]:
  "route_ownership_of f T Terminal = route_ownership_of g U r \<longleftrightarrow> f = g \<and> T = U \<and> r = Terminal"
  by (cases r) (auto simp: route_ownership_of.simps)

definition lane_cell :: "lane_plan \<Rightarrow> ip_family \<Rightarrow> route_ownership set" where
  "lane_cell l f = insert (route_ownership_of f (lp_table l) Terminal)
     (case lane_unicast_route l f of
        None \<Rightarrow> {}
      | Some r \<Rightarrow> {route_ownership_of f (lp_table l) r})"

definition plan_cell :: "lane_plan list \<Rightarrow> ip_family \<Rightarrow> u32 \<Rightarrow> route_ownership set" where
  "plan_cell K f T = (case lane_for_table K T of None \<Rightarrow> {} | Some l \<Rightarrow> lane_cell l f)"

lemma lane_unicast_not_terminal: "lane_unicast_route l f = Some r \<Longrightarrow> r \<noteq> Terminal"
  by (auto simp: lane_unicast_route_def split: if_splits ip_family.splits option.splits)

lemma lane_unicast_ne [simp]:
  "lane_unicast_route l f \<noteq> Some Terminal" "Some Terminal \<noteq> lane_unicast_route l f"
  using lane_unicast_not_terminal by metis+

lemma unknown_family_cell:
  assumes "\<forall>f. n \<noteq> family_number f"
  shows "cell_routes (run_steps ops s) (n, T) = cell_routes s (n, T)"
proof -
  have "route_cell_of op \<noteq> Some (n, T)" for op
    using assms by (cases op) auto
  then show ?thesis unfolding run_steps_def by (intro route_cells.cell_untouched) auto
qed

lemma family_steps_result:
  "fold act_on_cell (family_steps prev l f) C =
     lane_cell l f \<union> (if lane_unicast_route l f = None then {e \<in> C. \<not> ro_terminal e} else {})"
proof (cases "lane_unicast_route l f")
  case None
  then show ?thesis by (auto simp: family_steps_def lane_cell_def needs_open_table_def has_gateway_def)
next
  case (Some r)
  then show ?thesis using lane_unicast_not_terminal [OF Some]
    by (auto simp: family_steps_def lane_cell_def)
qed

definition plan_or_empty :: "lane_plan list option \<Rightarrow> lane_plan list" where
  "plan_or_empty active = (case active of None \<Rightarrow> [] | Some P \<Rightarrow> P)"

lemma no_plan_is_empty_plan:
  "transition_steps active K = transition_steps (Some (plan_or_empty active)) K"
  "active_ownership active = plan_routing_ownership (plan_or_empty active)"
  "active_retire_steps active K = retire_steps (plan_or_empty active) K"
  by (cases active; simp add: plan_or_empty_def transition_steps_def previous_lane_def
      lane_for_table_def install_rules_def active_ownership_def plan_routing_ownership_def
      install_steps_def active_retire_steps_def retire_steps_def)+

definition tables_distinct :: "lane_plan list option \<Rightarrow> bool" where
  "tables_distinct active = distinct (map lp_table (plan_or_empty active))"

lemma cell_empty [simp]: "cell_routes empty_ownership k = {}"
  by (simp add: cell_routes_def empty_ownership_def)

lemma plan_ownership_cell:
  assumes "distinct (map lp_table K)"
  shows "cell_routes (plan_routing_ownership K) (family_number f, T) = plan_cell K f T"
  unfolding plan_routing_ownership_def cell_run_steps install_steps_def filter_transition [OF assms]
  by (auto simp: cell_steps_def plan_cell_def family_steps_result split: option.split)

lemma plan_ownership_unknown:
  "\<forall>f. n \<noteq> family_number f \<Longrightarrow> cell_routes (plan_routing_ownership K) (n, T) = {}"
  by (simp add: plan_routing_ownership_def unknown_family_cell)

lemma transition_rules [simp]:
  "deleted_rules (transition_steps prev K) = {}"
  "added_rules (transition_steps prev K) = added_rules (rule_part prev K)"
  "added_rules (route_part prev K) = {}"
  "deleted_rules (route_part prev K) = {}"
  "deleted_rules (rule_part prev K) = {}"
  by (auto simp: deleted_rules_def added_rules_def transition_parts route_part_def rule_part_def
      family_steps_def in_install_rules split: if_splits option.splits)

lemma added_rule_part: "added_rules (rule_part (Some P) K) = rules_of K - rules_of P"
  by (auto simp: added_rules_def rule_part_def rules_of_def in_install_rules)

lemma added_rule_part_None: "added_rules (rule_part None K) = rules_of K"
  by (auto simp: added_rules_def rule_part_def rules_of_def in_install_rules)

lemma plan_ownership_rules: "own_rules (plan_routing_ownership K) = rules_of K"
  by (simp add: plan_routing_ownership_def install_steps_def rules_only_added added_rule_part_None
      empty_ownership_def)

lemma retire_rules [simp]:
  "added_rules (retire_steps P K) = {}"
  by (auto simp: added_rules_def retire_steps_def retire_lane_def in_install_rules
      split: option.splits if_splits)

lemma deleted_retire: "deleted_rules (retire_steps P K) = rules_of P - rules_of K"
proof -
  have "DeleteRule f p T m \<in> set (retire_steps P K) \<longleftrightarrow>
      AddRule f p T m \<in> set (install_rules P) - set (install_rules K)" for f p T m
    by (force simp: retire_steps_def retire_lane_def in_install_rules split: option.splits if_splits)
  then have "deleted_rules (retire_steps P K) = {rule_ownership_of f p T m | f p T m.
      AddRule f p T m \<in> set (install_rules P) - set (install_rules K)}"
    by (simp add: deleted_rules_def)
  also have "\<dots> = rules_of P - rules_of K"
    by (auto simp: rules_of_def in_install_rules)
  finally show ?thesis .
qed

lemma ownership_eqI:
  assumes "own_rules a = own_rules b"
    and "\<And>f T. cell_routes a (family_number f, T) = cell_routes b (family_number f, T)"
    and "\<And>n T. \<forall>f. n \<noteq> family_number f \<Longrightarrow> cell_routes a (n, T) = cell_routes b (n, T)"
  shows "a = b"
proof -
  have "cell_routes a (n, T) = cell_routes b (n, T)" for n T
    using assms(2,3) by (cases "\<exists>f. n = family_number f") auto
  then have "own_routes a = own_routes b" by (auto simp: own_routes_cells)
  with assms(1) show ?thesis by simp
qed

lemma transition_cell:
  assumes "distinct (map lp_table P)" "distinct (map lp_table K)"
  shows "cell_routes (run_steps (transition_steps (Some P) K) (plan_routing_ownership P))
      (family_number f, T) =
    fold act_on_cell (cell_steps (Some P) K f T) (plan_cell P f T)"
  by (simp add: cell_run_steps filter_transition [OF assms(2)] plan_ownership_cell [OF assms(1)])

lemma retired_cell:
  assumes "distinct (map lp_table P)" "distinct (map lp_table K)"
  shows "fold act_on_cell (cell_retire P K f T)
      (fold act_on_cell (cell_steps (Some P) K f T) (plan_cell P f T)) = plan_cell K f T"
proof (cases "lane_for_table K T")
  case None
  then show ?thesis
    by (auto simp: cell_steps_def cell_retire_def plan_cell_def split: option.split)
next
  case (Some l)
  note l = lane_for_table_Some [OF Some]
  show ?thesis
  proof (cases "lane_for_table P T")
    case None
    with Some show ?thesis
      by (simp add: cell_steps_def cell_retire_def plan_cell_def family_steps_result)
  next
    case (Some p)
    note p = lane_for_table_Some [OF Some]
    from \<open>lane_for_table K T = Some l\<close> Some l p show ?thesis
      by (auto simp: cell_steps_def cell_retire_def plan_cell_def family_steps_result lane_cell_def
          dest: lane_unicast_not_terminal split: option.splits if_splits)
  qed
qed

lemma forward_run:
  assumes "tables_distinct active" "distinct (map lp_table K)"
  shows "run_steps (active_retire_steps active K) (run_steps (transition_steps active K)
    (active_ownership active)) = plan_routing_ownership K"
proof -
  let ?P = "plan_or_empty active"
  have P: "distinct (map lp_table ?P)" using assms(1) by (simp add: tables_distinct_def)
  show ?thesis unfolding no_plan_is_empty_plan [of active]
  proof (rule ownership_eqI)
    show "own_rules (run_steps (retire_steps ?P K) (run_steps (transition_steps (Some ?P) K)
        (plan_routing_ownership ?P))) = own_rules (plan_routing_ownership K)"
      by (auto simp: rules_only_deleted rules_only_added deleted_retire added_rule_part
          plan_ownership_rules)
    show "cell_routes (run_steps (retire_steps ?P K) (run_steps (transition_steps (Some ?P) K)
        (plan_routing_ownership ?P))) (family_number f, T) =
      cell_routes (plan_routing_ownership K) (family_number f, T)" for f T
      using retired_cell [OF P assms(2)]
      by (simp add: cell_run_steps [of "retire_steps ?P K"] filter_retire [OF P]
          transition_cell [OF P assms(2)] plan_ownership_cell [OF assms(2)])
  qed (simp add: unknown_family_cell plan_ownership_unknown)
qed

section \<open>Interrupted runs\<close>

lemma set_trace: "set (trace s xs) = {run_steps (take n xs) s | n. True}"
proof (induction xs arbitrary: s)
  case (Cons x xs)
  have "{run_steps (take n (x # xs)) s | n. True} =
      insert s {run_steps (take n xs) (apply_routing_step x s) | n. True}" (is "?L = ?R")
  proof
    show "?L \<subseteq> ?R"
    proof
      fix t assume "t \<in> ?L"
      then obtain n where n: "t = run_steps (take n (x # xs)) s" by blast
      then show "t \<in> ?R" by (cases n) auto
    qed
    show "?R \<subseteq> ?L"
    proof
      fix t assume "t \<in> ?R"
      then consider "t = s" | n where "t = run_steps (take n xs) (apply_routing_step x s)" by blast
      then show "t \<in> ?L"
      proof cases
        case 1
        then have "t = run_steps (take 0 (x # xs)) s" by simp
        then show ?thesis by blast
      next
        case (2 n)
        then have "t = run_steps (take (Suc n) (x # xs)) s" by simp
        then show ?thesis by blast
      qed
    qed
  qed
  with Cons.IH show ?case by simp
qed simp

lemma reaches_run:
  "s = live \<or> reaches live s xs \<longleftrightarrow> (\<exists>n. live = run_steps (take n xs) s)"
proof -
  have "s = live \<or> reaches live s xs \<longleftrightarrow> live \<in> set (trace s xs)"
  proof (induction xs arbitrary: s)
    case (Cons x xs)
    have "set (trace s (x # xs)) = insert s (set (trace (apply_routing_step x s) xs))" by simp
    moreover have "s = live \<or> reaches live s (x # xs) \<longleftrightarrow>
        s = live \<or> apply_routing_step x s = live \<or> reaches live (apply_routing_step x s) xs"
      by (auto simp: Let_def)
    ultimately show ?case using Cons.IH [of "apply_routing_step x s"] by auto
  qed auto
  then show ?thesis by (auto simp: set_trace)
qed

text \<open>
  The states of the transaction before a rollback starts, phase by phase, and the states left
  when that rollback is interrupted after any number of steps.
\<close>

definition phase_states ::
  "lane_plan list option \<Rightarrow> lane_plan list \<Rightarrow> pending_nft_phase \<Rightarrow> routing_ownership set"
where
  "phase_states active pending phase =
     (let before = active_ownership active;
          after = run_steps (transition_steps active pending) before
      in case phase of
        Untouched \<Rightarrow> {before}
      | Guard \<Rightarrow> {run_steps (take n (transition_steps active pending)) before | n. True}
      | GuardlessTransaction \<Rightarrow> {run_steps (take n (transition_steps active pending)) before | n. True}
      | Activated \<Rightarrow> {run_steps (take n (active_retire_steps active pending)) after | n. True}
      | Committed \<Rightarrow> {run_steps (take n (active_retire_steps active pending)) after | n. True}
      | RollbackAbsent \<Rightarrow> {})"

definition crash_states ::
  "lane_plan list option \<Rightarrow> lane_plan list \<Rightarrow> pending_nft_phase \<Rightarrow> routing_ownership set"
where
  "crash_states active pending phase =
     (if phase = RollbackAbsent
      then {run_steps (take n (install_steps (plan_or_empty active))) empty_ownership | n. True}
      else {run_steps (take m (rollback_steps (active_and_pending active pending))) s | m s.
              s \<in> phase_states active pending phase})"

lemma reached_from_iff:
  "reached_from active pending live states \<longleftrightarrow>
     (\<exists>s \<in> set states. \<exists>m. live = run_steps (take m (rollback_steps (active_and_pending active pending))) s)"
  by (simp add: reached_from_def rollback_prefix_reaches_def reaches_run)

lemma build_forward_states:
  assumes "tables_distinct active" "distinct (map lp_table pending)"
  shows "build_forward_routing_states active pending Untouched = Inr [active_ownership active]"
    and "build_forward_routing_states active pending Guard =
      Inr (trace (active_ownership active) (transition_steps active pending))"
    and "build_forward_routing_states active pending Activated =
      Inr (trace (run_steps (transition_steps active pending) (active_ownership active))
        (active_retire_steps active pending))"
    and "build_forward_routing_states active pending Committed =
      Inr [plan_routing_ownership pending]"
  using forward_run [OF assms]
  by (simp_all add: build_forward_routing_states_def Let_def)

lemma committed_is_activated:
  assumes "tables_distinct active" "distinct (map lp_table pending)"
  shows "plan_routing_ownership pending \<in> phase_states active pending Activated"
proof -
  have "plan_routing_ownership pending =
    run_steps (take (length (active_retire_steps active pending)) (active_retire_steps active pending))
      (run_steps (transition_steps active pending) (active_ownership active))"
    using forward_run [OF assms] by simp
  then show ?thesis unfolding phase_states_def Let_def pending_nft_phase.case by blast
qed

lemma reachable_iff:
  assumes "tables_distinct active" "distinct (map lp_table pending)"
  shows "routing_state_reachable_for_phase live active pending phase =
    Inr (live \<in> crash_states active pending phase)"
proof -
  note fwd = build_forward_states [OF assms]
  have absent: "live \<in> set (build_absent_rollback_states active) \<longleftrightarrow>
      live \<in> crash_states active pending RollbackAbsent"
    by (cases active) (auto simp: build_absent_rollback_states_def set_trace crash_states_def
        plan_or_empty_def install_steps_def transition_steps_def install_rules_def)
  have act: "reached_from active pending live
      (trace (run_steps (transition_steps active pending) (active_ownership active))
        (active_retire_steps active pending)) \<longleftrightarrow> live \<in> crash_states active pending Activated"
    unfolding reached_from_iff set_trace by (auto simp: crash_states_def phase_states_def Let_def)
  have com: "reached_from active pending live [plan_routing_ownership pending] \<Longrightarrow>
      live \<in> crash_states active pending Activated"
    using committed_is_activated [OF assms] by (auto simp: reached_from_iff crash_states_def)
  have same: "crash_states active pending Committed = crash_states active pending Activated"
    "crash_states active pending GuardlessTransaction = crash_states active pending Guard"
    by (simp_all add: crash_states_def phase_states_def Let_def)
  have guard: "reached_from active pending live
      (trace (active_ownership active) (transition_steps active pending)) \<longleftrightarrow>
      live \<in> crash_states active pending Guard"
    unfolding reached_from_iff set_trace by (auto simp: crash_states_def phase_states_def Let_def)
  have untouched: "reached_from active pending live [active_ownership active] \<longleftrightarrow>
      live \<in> crash_states active pending Untouched"
    unfolding reached_from_iff by (auto simp: crash_states_def phase_states_def Let_def)
  show ?thesis
    by (cases phase) (use com in \<open>auto simp: routing_state_reachable_for_phase_def fwd absent act
        guard untouched same Let_def\<close>)
qed

section \<open>Rolling back\<close>

definition plan_tables :: "lane_plan list list \<Rightarrow> u32 set" where
  "plan_tables plans = (\<Union>K \<in> set plans. lp_table ` set K)"

definition plan_rules :: "lane_plan list list \<Rightarrow> rule_ownership set" where
  "plan_rules plans = (\<Union>K \<in> set plans. rules_of K)"

lemma in_plan_tables [intro]: "K \<in> set plans \<Longrightarrow> l \<in> set K \<Longrightarrow> lp_table l \<in> plan_tables plans"
  by (auto simp: plan_tables_def)

lemma in_plan_rules [intro]: "K \<in> set plans \<Longrightarrow> l \<in> set K \<Longrightarrow>
    rule_ownership_of f (lp_rule_priority l) (lp_table l) (lp_mark l) \<in> plan_rules plans"
  unfolding plan_rules_def rules_of_def by blast

definition within :: "lane_plan list list \<Rightarrow> routing_ownership \<Rightarrow> bool" where
  "within plans s \<longleftrightarrow>
     own_rules s \<subseteq> plan_rules plans \<and>
     (\<forall>r \<in> own_routes s. \<exists>f. ro_family r = family_number f \<and>
        ro_table r \<in> plan_tables plans)"

fun step_within :: "lane_plan list list \<Rightarrow> routing_step \<Rightarrow> bool" where
  "step_within plans (ReplaceRoute f T r) = (T \<in> plan_tables plans)"
| "step_within plans (AddRule f p T m) =
     (rule_ownership_of f p T m \<in> plan_rules plans)"
| "step_within plans _ = True"

interpretation within_plans: machine "\<lambda>s x. apply_routing_step x s" "step_within plans" "within plans"
  for plans
proof
  show "within plans (apply_routing_step e s)" if "within plans s" "step_within plans e" for s e
    using that by (cases e) (auto simp: within_def Let_def)
qed

lemma run_within:
  "within plans s \<Longrightarrow> \<forall>x \<in> set xs. step_within plans x \<Longrightarrow> within plans (run_steps xs s)"
  unfolding run_steps_def by (rule within_plans.inv_run)

lemma set_push_new: "set (push_new acc xs) = set acc \<union> set xs"
  by (induction acc xs rule: push_new.induct) auto

lemma delete_of_within: "\<forall>x \<in> set (delete_of r). step_within plans x"
  by (cases r) simp_all

lemma steps_within:
  "K \<in> set plans \<Longrightarrow> x \<in> set (transition_steps prev K) \<Longrightarrow> step_within plans x"
  "x \<in> set (retire_steps P K) \<Longrightarrow> step_within plans x"
  "x \<in> set (rollback_steps Ks) \<Longrightarrow> step_within plans x"
proof -
  show "step_within plans x" if "K \<in> set plans" "x \<in> set (transition_steps prev K)"
    using that
    by (auto simp: transition_parts route_part_def rule_part_def family_steps_def in_install_rules
        split: if_splits option.splits)
  show "step_within plans x" if "x \<in> set (retire_steps P K)"
    using that delete_of_within
    by (auto simp: retire_steps_def retire_lane_def split: if_splits option.splits)
  show "step_within plans x" if "x \<in> set (rollback_steps Ks)"
    using that delete_of_within
    by (auto simp: rollback_steps_def rollback_rule_order_def rollback_table_order_def set_push_new)
qed

lemma empty_within [simp]: "within plans empty_ownership"
  by (simp add: within_def empty_ownership_def)

lemma plan_within: "K \<in> set plans \<Longrightarrow> within plans (plan_routing_ownership K)"
  unfolding plan_routing_ownership_def install_steps_def
  by (rule run_within) (auto intro: steps_within)

lemma active_within: "within (active_and_pending active pending) (active_ownership active)"
  by (cases active) (simp_all add: active_ownership_def active_and_pending_def plan_within)

lemma take_within:
  "\<forall>x \<in> set xs. step_within plans x \<Longrightarrow> within plans s \<Longrightarrow> within plans (run_steps (take n xs) s)"
  by (rule run_within) (auto dest: in_set_takeD)

lemma phase_within:
  assumes "s \<in> phase_states active pending phase"
  shows "within (active_and_pending active pending) s"
proof -
  let ?plans = "active_and_pending active pending"
  have t: "\<forall>x \<in> set (transition_steps active pending). step_within ?plans x"
    by (auto simp: active_and_pending_def intro: steps_within)
  have r: "\<forall>x \<in> set (active_retire_steps active pending). step_within ?plans x"
    by (auto simp: no_plan_is_empty_plan intro: steps_within)
  note after = run_within [OF active_within t]
  show ?thesis using assms active_within take_within [OF t] take_within [OF r] after
    by (cases phase) (auto simp: phase_states_def Let_def)
qed

lemma crash_within:
  assumes "live \<in> crash_states active pending phase"
  shows "within (active_and_pending active pending) live"
proof (cases "phase = RollbackAbsent")
  case True
  let ?plans = "active_and_pending active pending"
  have "\<forall>x \<in> set (install_steps (plan_or_empty active)). step_within ?plans x"
  proof (cases active)
    case None
    then show ?thesis
      by (simp add: plan_or_empty_def install_steps_def transition_steps_def install_rules_def)
  next
    case (Some P)
    then show ?thesis
      by (auto simp: plan_or_empty_def install_steps_def active_and_pending_def
          intro: steps_within(1) [of P])
  qed
  with True assms show ?thesis by (auto simp: crash_states_def intro: take_within)
next
  case False
  with assms phase_within show ?thesis
    by (auto simp: crash_states_def intro!: take_within steps_within)
qed

lemma deleted_rollback: "deleted_rules (rollback_steps plans) = plan_rules plans"
proof -
  have "DeleteRule f p T m \<in> set (rollback_steps plans) \<longleftrightarrow>
      (\<exists>K \<in> set plans. AddRule f p T m \<in> set (install_rules K))" for f p T m
  proof -
    have d: "DeleteRule f p T m \<in> set (delete_of x) \<longleftrightarrow> x = AddRule f p T m" for x
      by (cases x) auto
    have i: "AddRule f p T m \<in> set (install_steps K) \<longleftrightarrow> AddRule f p T m \<in> set (install_rules K)" for K
      by (auto simp: install_steps_def transition_parts route_part_def rule_part_def
          family_steps_def split: if_splits option.splits)
    show ?thesis
      by (auto simp: rollback_steps_def rollback_rule_order_def rollback_table_order_def
          set_push_new d i)
  qed
  then have "deleted_rules (rollback_steps plans) = {rule_ownership_of f p T m | f p T m.
      \<exists>K \<in> set plans. AddRule f p T m \<in> set (install_rules K)}"
    by (simp add: deleted_rules_def)
  also have "\<dots> = plan_rules plans"
    unfolding plan_rules_def rules_of_def in_install_rules by blast
  finally show ?thesis .
qed

lemma added_rollback: "added_rules (rollback_steps plans) = {}"
proof -
  have "AddRule f p T m \<notin> set (delete_of x)" for f p T m x
    by (cases x) auto
  then show ?thesis
    by (auto simp: added_rules_def rollback_steps_def rollback_rule_order_def rollback_table_order_def
        set_push_new)
qed

lemma fold_flush: "FlushTable f T \<in> set xs \<Longrightarrow> \<forall>x \<in> set xs. \<exists>f T. x = FlushTable f T \<Longrightarrow>
   fold act_on_cell xs C = {}"
proof (induction xs arbitrary: C)
  case (Cons x xs)
  show ?case
  proof (cases "FlushTable f T \<in> set xs")
    case True
    with Cons show ?thesis by simp
  next
    case False
    with Cons.prems have x: "x = FlushTable f T" by auto
    have "fold act_on_cell xs {} = {}" using Cons.prems(2)
      by (induction xs) auto
    with x show ?thesis by simp
  qed
qed simp

lemma rollback_clears:
  assumes "within plans s"
  shows "run_steps (rollback_steps plans) s = empty_ownership"
proof (rule ownership_eqI)
  show "own_rules (run_steps (rollback_steps plans) s) = own_rules empty_ownership"
    using assms by (simp add: rules_only_deleted [OF added_rollback] deleted_rollback within_def
        empty_ownership_def)
next
  fix f T
  let ?P = "\<lambda>op. route_cell_of op = Some (family_number f, T)"
  have no_rules: "filter ?P (rollback_rule_order plans) = []"
  proof -
    have "route_cell_of y = None" if "y \<in> set (delete_of x)" for x y
      using that by (cases x) auto
    then show ?thesis
      by (auto simp: filter_empty_conv rollback_rule_order_def set_push_new)
  qed
  have flushes: "\<forall>x \<in> set (filter ?P (rollback_table_order plans)). \<exists>f T. x = FlushTable f T"
    by (auto simp: rollback_table_order_def set_push_new)
  show "cell_routes (run_steps (rollback_steps plans) s) (family_number f, T) =
    cell_routes empty_ownership (family_number f, T)"
  proof (cases "T \<in> plan_tables plans")
    case True
    then have "FlushTable f T \<in> set (filter ?P (rollback_table_order plans))"
      by (auto simp: rollback_table_order_def set_push_new plan_tables_def)
    from fold_flush [OF this flushes] show ?thesis
      by (simp add: cell_run_steps rollback_steps_def no_rules)
  next
    case False
    then have "cell_routes s (family_number f, T) = {}"
      using assms by (auto simp: within_def cell_routes_def)
    moreover have "filter ?P (rollback_table_order plans) = []"
      using False by (auto simp: filter_empty_conv rollback_table_order_def set_push_new plan_tables_def)
    ultimately show ?thesis by (simp add: cell_run_steps rollback_steps_def no_rules)
  qed
next
  fix n :: u8 and T
  assume n: "\<forall>f. n \<noteq> family_number f"
  then have "cell_routes s (n, T) = {}"
    using assms by (auto simp: within_def cell_routes_def)
  with n show "cell_routes (run_steps (rollback_steps plans) s) (n, T) =
      cell_routes empty_ownership (n, T)"
    by (simp add: unknown_family_cell)
qed

section \<open>Failing closed\<close>

text \<open>A policy rule is safe when its table ends in the unreachable default of its family.\<close>

definition has_terminal :: "routing_ownership \<Rightarrow> ip_family \<Rightarrow> u32 \<Rightarrow> bool" where
  "has_terminal s f T = (route_ownership_of f T Terminal \<in> own_routes s)"

definition rule_for :: "routing_ownership \<Rightarrow> ip_family \<Rightarrow> u32 \<Rightarrow> bool" where
  "rule_for s f T = (\<exists>u \<in> own_rules s. uo_family u = family_number f \<and> uo_table u = T)"

lemma has_terminal_cell:
  "has_terminal s f T \<longleftrightarrow> route_ownership_of f T Terminal \<in> cell_routes s (family_number f, T)"
  by (simp add: has_terminal_def cell_routes_def)

lemma filter_take: "\<exists>m. filter P (take n xs) = take m (filter P xs)"
proof (induction xs arbitrary: n)
  case (Cons x xs)
  show ?case
  proof (cases n)
    case 0
    then show ?thesis by (intro exI [of _ 0]) simp
  next
    case (Suc k)
    from Cons.IH [of k] obtain m where m: "filter P (take k xs) = take m (filter P xs)" by blast
    show ?thesis
    proof (cases "P x")
      case True
      with Suc m show ?thesis by (intro exI [of _ "Suc m"]) simp
    next
      case False
      with Suc m show ?thesis by (intro exI [of _ m]) simp
    qed
  qed
qed simp

lemma family_steps_keep_terminal:
  assumes "route_ownership_of f (lp_table l) Terminal \<in> C" "\<not> needs_open_table prev l f"
  shows "route_ownership_of f (lp_table l) Terminal \<in> fold act_on_cell (take m (family_steps prev l f)) C"
proof (cases "lane_unicast_route l f")
  case None
  with assms show ?thesis by (cases m) (simp_all add: family_steps_def)
next
  case (Some r)
  note lane_unicast_not_terminal [OF Some]
  with Some assms show ?thesis
    by (cases m; cases "m - 1") (simp_all add: family_steps_def)
qed

definition reopened :: "lane_plan list \<Rightarrow> lane_plan list \<Rightarrow> ip_family \<Rightarrow> u32 \<Rightarrow> bool" where
  "reopened P K f T =
     (\<exists>l. lane_for_table K T = Some l \<and> needs_open_table (lane_for_table P T) l f)"

lemma rules_in_tables:
  "u \<in> rules_of K \<Longrightarrow> uo_table u \<in> lp_table ` set K"
  by (auto simp: rules_of_def rule_ownership_of_def)

lemma plan_cell_terminal:
  "T \<in> lp_table ` set K \<Longrightarrow> route_ownership_of f T Terminal \<in> plan_cell K f T"
  by (cases "lane_for_table K T")
     (auto simp: plan_cell_def lane_cell_def lane_for_table_None dest: lane_for_table_Some)

lemma cell_steps_result_terminal:
  "lane_for_table K T = Some l \<Longrightarrow>
     route_ownership_of f T Terminal \<in> fold act_on_cell (cell_steps prev K f T) C"
  using lane_for_table_Some [of K T l]
  by (simp add: cell_steps_def family_steps_result lane_cell_def)

text \<open>The forward run in three segments: routes, then rules, then the removal of routes.\<close>

definition rule_segment :: "lane_plan list \<Rightarrow> lane_plan list \<Rightarrow> routing_step list" where
  "rule_segment P K = rule_part (Some P) K @
     concat (map delete_of (filter (\<lambda>r. r \<notin> set (install_rules K)) (install_rules P)))"

definition removal_segment :: "lane_plan list \<Rightarrow> lane_plan list \<Rightarrow> routing_step list" where
  "removal_segment P K = concat (map (retire_lane K) P)"

lemma forward_segments:
  "transition_steps (Some P) K @ retire_steps P K =
     route_part (Some P) K @ rule_segment P K @ removal_segment P K"
  by (simp add: transition_parts rule_segment_def removal_segment_def retire_steps_def)

lemma rule_segment_cell: "op \<in> set (rule_segment P K) \<Longrightarrow> route_cell_of op = None"
  by (auto simp: rule_segment_def in_install_rules dest: rule_part_cell)

lemma removal_segment_rules:
  "added_rules (removal_segment P K) = {}" "deleted_rules (removal_segment P K) = {}"
  by (auto simp: added_rules_def deleted_rules_def removal_segment_def retire_lane_def
      split: option.splits if_splits)

lemma removal_keeps_terminal:
  assumes "T \<in> lp_table ` set K" "op \<in> set (removal_segment P K)"
    "route_cell_of op = Some (family_number f, T)" "route_ownership_of f T Terminal \<in> C"
  shows "route_ownership_of f T Terminal \<in> act_on_cell op C"
  using assms lane_for_table_None [of K T]
  by (auto simp: removal_segment_def retire_lane_def dest: lane_unicast_not_terminal
      split: option.splits if_splits)

lemma fold_keeps_terminal:
  assumes "\<And>op C. op \<in> set ops \<Longrightarrow> x \<in> C \<Longrightarrow> x \<in> act_on_cell op C" "x \<in> C"
  shows "x \<in> fold act_on_cell ops C"
  using assms by (induction ops arbitrary: C) auto

lemma rules_take:
  "added_rules (take n xs) \<subseteq> added_rules xs" "deleted_rules (take n xs) \<subseteq> deleted_rules xs"
  by (auto simp: added_rules_def deleted_rules_def dest: in_set_takeD)

lemma rules_after_segment:
  "own_rules (run_steps (rule_segment P K) (run_steps (route_part (Some P) K)
     (plan_routing_ownership P))) = rules_of K"
proof -
  let ?d = "concat (map delete_of (filter (\<lambda>r. r \<notin> set (install_rules K)) (install_rules P)))"
  have d: "added_rules ?d = {}" "deleted_rules ?d = rules_of P - rules_of K"
    using deleted_retire [of P K] removal_segment_rules(2) [of P K] retire_rules [of P K]
    by (auto simp: retire_steps_def removal_segment_def deleted_rules_def added_rules_def)
  show ?thesis
    by (auto simp: rule_segment_def rules_only_deleted [OF d(1)] d(2) rules_only_added
        added_rule_part plan_ownership_rules)
qed

lemma route_segment_closed:
  assumes "distinct (map lp_table P)" "distinct (map lp_table K)"
    and "s = run_steps (take n (route_part (Some P) K)) (plan_routing_ownership P)"
    and "rule_for s f T" "\<not> reopened P K f T"
  shows "has_terminal s f T"
proof -
  have none: "added_rules (take n (route_part (Some P) K)) = {}"
    "deleted_rules (take n (route_part (Some P) K)) = {}"
    using rules_take [of n "route_part (Some P) K"] by auto
  then have "own_rules s = rules_of P"
    by (simp add: assms(3) rules_only_added plan_ownership_rules)
  with assms(4) have T: "T \<in> lp_table ` set P"
    by (auto simp: rule_for_def dest: rules_in_tables)
  obtain m where m: "filter (\<lambda>op. route_cell_of op = Some (family_number f, T))
      (take n (route_part (Some P) K)) = take m (cell_steps (Some P) K f T)"
    using filter_take filter_route_part [OF assms(2)] by metis
  have "cell_routes s (family_number f, T) =
      fold act_on_cell (take m (cell_steps (Some P) K f T)) (plan_cell P f T)"
    by (simp add: assms(3) cell_run_steps m plan_ownership_cell [OF assms(1)])
  moreover have "route_ownership_of f T Terminal \<in>
      fold act_on_cell (take m (cell_steps (Some P) K f T)) (plan_cell P f T)"
  proof (cases "lane_for_table K T")
    case None
    then show ?thesis by (simp add: cell_steps_def plan_cell_terminal [OF T])
  next
    case (Some l)
    with lane_for_table_Some [OF Some] assms(5) plan_cell_terminal [OF T]
    show ?thesis
      by (auto simp: cell_steps_def reopened_def previous_lane_def intro!: family_steps_keep_terminal)
  qed
  ultimately show ?thesis by (simp add: has_terminal_cell)
qed

lemma later_segments_closed:
  assumes "distinct (map lp_table P)" "distinct (map lp_table K)"
    and "s = run_steps (take n (rule_segment P K @ removal_segment P K))
      (run_steps (route_part (Some P) K) (plan_routing_ownership P))"
    and "rule_for s f T"
  shows "has_terminal s f T"
proof -
  let ?s1 = "run_steps (route_part (Some P) K) (plan_routing_ownership P)"
  let ?c = "(family_number f, T)"
  have c1: "cell_routes ?s1 ?c = fold act_on_cell (cell_steps (Some P) K f T) (plan_cell P f T)"
    by (simp add: cell_run_steps filter_route_part [OF assms(2)] plan_ownership_cell [OF assms(1)])
  have seg: "filter (\<lambda>op. route_cell_of op = Some ?c) (take j (rule_segment P K)) = []" for j
    using rule_segment_cell by (auto simp: filter_empty_conv dest: in_set_takeD)
  have s: "cell_routes s ?c = fold act_on_cell (filter (\<lambda>op. route_cell_of op = Some ?c)
      (take (n - length (rule_segment P K)) (removal_segment P K))) (cell_routes ?s1 ?c)"
    by (simp add: assms(3) cell_run_steps seg)
  have "route_ownership_of f T Terminal \<in> cell_routes s ?c"
  proof (cases "T \<in> lp_table ` set K")
    case True
    then obtain l where "lane_for_table K T = Some l"
      using lane_for_table_None [of K T] by (cases "lane_for_table K T") auto
    then have "route_ownership_of f T Terminal \<in> cell_routes ?s1 ?c"
      unfolding c1 by (rule cell_steps_result_terminal)
    then show ?thesis unfolding s
      by (rule fold_keeps_terminal [rotated])
         (auto intro: removal_keeps_terminal [OF True] dest: in_set_takeD)
  next
    case False
    then have K: "lane_for_table K T = None" by (simp add: lane_for_table_None)
    have w: "within [P, K] s"
      unfolding assms(3)
      by (intro run_within ballI plan_within)
         (auto dest!: in_set_takeD simp: forward_segments [symmetric] transition_parts
           retire_steps_def rule_segment_def removal_segment_def
           intro: steps_within(1) [of K, unfolded transition_parts]
             steps_within(2) [of _ P K, unfolded retire_steps_def])
    have short: "n \<le> length (rule_segment P K)"
    proof (rule ccontr)
      assume "\<not> n \<le> length (rule_segment P K)"
      then have "s = run_steps (take (n - length (rule_segment P K)) (removal_segment P K))
          (run_steps (rule_segment P K) ?s1)"
        by (simp add: assms(3))
      moreover have "added_rules (take j (removal_segment P K)) = {}"
        "deleted_rules (take j (removal_segment P K)) = {}" for j
        using rules_take [of j "removal_segment P K"] removal_segment_rules [of P K] by auto
      ultimately have "own_rules s = rules_of K"
        by (simp add: rules_only_added rules_after_segment)
      with assms(4) False show False by (auto simp: rule_for_def dest: rules_in_tables)
    qed
    from assms(4) w False have "T \<in> lp_table ` set P"
      by (auto simp: rule_for_def within_def plan_rules_def dest!: rules_in_tables subsetD)
    with short show ?thesis
      by (simp add: s c1 cell_steps_def K plan_cell_terminal)
  qed
  then show ?thesis by (simp add: has_terminal_cell)
qed

lemma forward_closed:
  assumes "distinct (map lp_table P)" "distinct (map lp_table K)"
    and "s = run_steps (take n (transition_steps (Some P) K @ retire_steps P K))
      (plan_routing_ownership P)"
    and "rule_for s f T" "\<not> reopened P K f T"
  shows "has_terminal s f T"
proof (cases "n \<le> length (route_part (Some P) K)")
  case True
  then have "s = run_steps (take n (route_part (Some P) K)) (plan_routing_ownership P)"
    by (simp add: assms(3) forward_segments)
  then show ?thesis by (rule route_segment_closed [OF assms(1,2) _ assms(4,5)])
next
  case False
  then have "s = run_steps (take (n - length (route_part (Some P) K))
      (rule_segment P K @ removal_segment P K))
      (run_steps (route_part (Some P) K) (plan_routing_ownership P))"
    by (simp add: assms(3) forward_segments)
  then show ?thesis by (rule later_segments_closed [OF assms(1,2) _ assms(4)])
qed

section \<open>Properties\<close>

text \<open>
  C9. The forward transition is exact: from the routes and rules of the active plan (or none), the
  transition steps followed by the retirement steps leave exactly the routes and rules the
  pending plan would install into an empty kernel, whatever the two plans share.
\<close>

theorem forward_reaches_pending_plan:
  assumes "tables_distinct active" "distinct (map lp_table pending)"
  shows "run_steps (active_retire_steps active pending)
      (run_steps (transition_steps active pending) (active_ownership active)) =
    plan_routing_ownership pending"
  using assms by (rule forward_run)

text \<open>
  C10. The crash-recovery test is exact: it never fails, and in every phase it accepts a live state
  if and only if that state is left by interrupting the transition (or the retirement, or the
  reinstallation after a rollback) at some step, possibly followed by an interrupted rollback.
\<close>

theorem reachability_test_exact:
  assumes "tables_distinct active" "distinct (map lp_table pending)"
  shows "routing_state_reachable_for_phase live active pending phase =
    Inr (live \<in> crash_states active pending phase)"
  using assms by (rule reachable_iff)

text \<open>
  C11. Recovery is complete: from every state an interruption in any phase can leave, the rollback
  steps remove every owned route and rule, and reinstalling the active plan then restores exactly
  the state before the transaction.
\<close>

theorem rollback_restores_active_plan:
  assumes "live \<in> crash_states active pending phase"
  shows "run_steps (rollback_steps (active_and_pending active pending)) live = empty_ownership \<and>
    run_steps (install_steps (plan_or_empty active))
      (run_steps (rollback_steps (active_and_pending active pending)) live) = active_ownership active"
  using rollback_clears [OF crash_within [OF assms]]
  by (simp add: no_plan_is_empty_plan(2) plan_routing_ownership_def)

text \<open>
  C12. Marked traffic fails closed at every point of a plan change: after any number of forward
  steps, every policy rule's table holds the unreachable default of its family, except an IPv6
  table whose lane is just gaining a gateway route, which is lifted for that one replacement.
\<close>

theorem forward_fails_closed:
  assumes "distinct (map lp_table P)" "distinct (map lp_table K)"
    and "s = run_steps (take n (transition_steps (Some P) K @ retire_steps P K))
      (plan_routing_ownership P)"
    and "rule_for s f T"
  shows "has_terminal s f T \<or>
    f = V6 \<and> (\<exists>p l. lane_for_table P T = Some p \<and> lane_for_table K T = Some l \<and>
      lane_unicast_route p V6 = None \<and> has_gateway (lane_unicast_route l V6))"
proof (cases "reopened P K f T")
  case True
  then show ?thesis
    by (auto simp: reopened_def needs_open_table_def)
next
  case False
  from forward_closed [OF assms this] show ?thesis by simp
qed

lemma replace_own_route:
  assumes "op \<in> set (family_steps (Some l) l f)"
  shows "act_on_cell op (lane_cell l f) = lane_cell l f"
  using assms
  by (cases "lane_unicast_route l f")
     (auto simp: family_steps_def needs_open_table_def has_gateway_def lane_cell_def)

lemma fold_fixed: "(\<And>x. x \<in> set xs \<Longrightarrow> g x c = c) \<Longrightarrow> fold g xs c = c"
  by (induction xs) auto

lemma self_forward_cell:
  assumes "distinct (map lp_table K)"
    and "op \<in> set (filter (\<lambda>op. route_cell_of op = Some (family_number f, T))
      (transition_steps (Some K) K @ retire_steps K K))"
  shows "act_on_cell op (plan_cell K f T) = plan_cell K f T"
proof -
  have "op \<in> set (cell_steps (Some K) K f T) \<or> op \<in> set (cell_retire K K f T)"
    using assms(2) by (simp only: filter_append filter_transition [OF assms(1)]
        filter_retire [OF assms(1)] set_append Un_iff)
  then show ?thesis
    by (auto simp: cell_steps_def cell_retire_def plan_cell_def previous_lane_def
        replace_own_route split: option.splits)
qed

text \<open>
  Reapplying a plan disturbs nothing: every prefix of the forward steps from a plan to itself
  leaves the owned routes and rules as they are.
\<close>

lemma reapplying_is_steady:
  assumes "distinct (map lp_table K)"
  shows "run_steps (take n (transition_steps (Some K) K @ retire_steps K K))
    (plan_routing_ownership K) = plan_routing_ownership K"
proof -
  let ?steps = "transition_steps (Some K) K @ retire_steps K K"
  show ?thesis
  proof (rule ownership_eqI)
    have a: "added_rules ?steps = {}"
      using added_rule_part [of K K] retire_rules [of K K] transition_rules [of "Some K" K]
      by (auto simp: added_rules_def)
    have d: "deleted_rules ?steps = {}"
      using deleted_retire [of K K] transition_rules(1) [of "Some K" K]
      by (auto simp: deleted_rules_def)
    have "added_rules (take n ?steps) = {}" "deleted_rules (take n ?steps) = {}"
      using rules_take [of n ?steps] a d by blast+
    then show "own_rules (run_steps (take n ?steps) (plan_routing_ownership K)) =
        own_rules (plan_routing_ownership K)"
      by (metis Un_empty_right rules_only_added)
  next
    fix f T
    obtain m where m: "filter (\<lambda>op. route_cell_of op = Some (family_number f, T)) (take n ?steps) =
        take m (filter (\<lambda>op. route_cell_of op = Some (family_number f, T)) ?steps)"
      using filter_take by blast
    show "cell_routes (run_steps (take n ?steps) (plan_routing_ownership K)) (family_number f, T) =
        cell_routes (plan_routing_ownership K) (family_number f, T)"
      unfolding cell_run_steps m plan_ownership_cell [OF assms]
      by (rule fold_fixed) (rule self_forward_cell [OF assms], rule in_set_takeD)
  qed (simp add: unknown_family_cell plan_ownership_unknown)
qed

lemma lose_routes_keep [simp]:
  "lp_table (lose_routes lost l) = lp_table l" "rule_step (lose_routes lost l) = rule_step l"
  by (rule ext | simp add: lose_routes_def rule_step_def)+

lemma lose_routes_unicast: "lane_unicast_route (lose_routes lost l) f =
    (if (family_number f, lp_table l) \<in> lost then None else lane_unicast_route l f)"
  by (cases f) (auto simp: lane_unicast_route_def family_number_def lose_routes_def
      split: option.split)

lemma basis_lane_tables:
  "map lp_table (kp_lanes (routing_basis k lost)) = map lp_table (kp_lanes k)"
  by (simp add: routing_basis_def)

lemma basis_rules: "rules_of (kp_lanes (routing_basis k lost)) = rules_of (kp_lanes k)"
proof -
  have "install_rules (kp_lanes (routing_basis k lost)) = install_rules (kp_lanes k)"
    by (simp add: install_rules_def routing_basis_def comp_def)
  then show ?thesis by (metis added_install_rules)
qed

lemma find_map: "find P (map g xs) = map_option g (find (\<lambda>x. P (g x)) xs)"
  by (induction xs) auto

lemma basis_cell:
  "plan_cell (kp_lanes (routing_basis k lost)) f T =
     {r \<in> plan_cell (kp_lanes k) f T. ro_terminal r \<or> (family_number f, T) \<notin> lost}"
proof -
  have "lane_for_table (kp_lanes (routing_basis k lost)) T =
      map_option (lose_routes lost) (lane_for_table (kp_lanes k) T)"
    by (simp add: routing_basis_def lane_for_table_def find_map)
  then show ?thesis
    by (cases "lane_for_table (kp_lanes k) T")
       (auto simp: plan_cell_def lane_cell_def lose_routes_unicast dest: lane_for_table_Some
         split: option.splits if_splits)
qed

text \<open>
  Losing unicast routes only removes unicast routes: the routing basis of a plan whose defaults
  the kernel dropped keeps every policy rule and every terminal route of the plan and adds nothing.
\<close>

lemma routing_basis_loses_only_unicast:
  assumes "distinct (map lp_table (kp_lanes k))"
  shows "own_rules (plan_routing_ownership (kp_lanes (routing_basis k lost))) =
      own_rules (plan_routing_ownership (kp_lanes k)) \<and>
    own_routes (plan_routing_ownership (kp_lanes (routing_basis k lost))) =
      {r \<in> own_routes (plan_routing_ownership (kp_lanes k)).
         ro_terminal r \<or> (ro_family r, ro_table r) \<notin> lost}"
proof -
  let ?b = "kp_lanes (routing_basis k lost)"
  have dist: "distinct (map lp_table ?b)" by (simp add: basis_lane_tables assms)
  have "cell_routes (plan_routing_ownership ?b) (n, T) =
      {r \<in> cell_routes (plan_routing_ownership (kp_lanes k)) (n, T). ro_terminal r \<or> (n, T) \<notin> lost}"
    for n T
  proof (cases "\<exists>f. n = family_number f")
    case True
    then show ?thesis
      by (auto simp: plan_ownership_cell [OF dist] plan_ownership_cell [OF assms] basis_cell)
  next
    case False
    then show ?thesis by (simp add: plan_ownership_unknown)
  qed
  then have "r \<in> own_routes (plan_routing_ownership ?b) \<longleftrightarrow>
      r \<in> own_routes (plan_routing_ownership (kp_lanes k)) \<and>
      (ro_terminal r \<or> (ro_family r, ro_table r) \<notin> lost)" for r
    by (auto simp: cell_routes_def set_eq_iff)
  then show ?thesis by (auto simp: plan_ownership_rules basis_rules)
qed

section \<open>Witnesses\<close>

definition demo_slot :: "nat \<Rightarrow> lane_id \<Rightarrow> ipv6 route_mode option \<Rightarrow> lane_plan" where
  "demo_slot n i r6 = \<lparr>lp_identity = None, lp_source_v4 = [], lp_source_v6 = [], lp_id = i,
     lp_interface = i, lp_route_v4 = Some (Via 0x0A000001), lp_route_v6 = r6,
     lp_availability = Available, lp_table = TABLE_BASE + of_nat n, lp_mark = MARK_BASE + of_nat n,
     lp_rule_priority = RULE_PRIORITY_BASE + of_nat n, lp_failure_policy = FailBlock\<rparr>"

text \<open>The active plan has two lanes; the pending one drops the second and gains an IPv6 gateway.\<close>

definition demo_active :: "lane_plan list" where
  "demo_active = [demo_slot 0 ''a'' None, demo_slot 1 ''b'' None]"

definition demo_pending :: "lane_plan list" where
  "demo_pending = [demo_slot 0 ''a'' (Some (Via 0xFE80))]"

lemma demo_tables:
  "distinct (map lp_table demo_active)" "distinct (map lp_table demo_pending)"
  "tables_distinct (Some demo_active)"
  by (simp_all add: demo_active_def demo_pending_def demo_slot_def tables_distinct_def
      plan_or_empty_def rl_defs)

lemma demo_interrupted:
  "run_steps (take 3 (transition_steps (Some demo_active) demo_pending))
     (active_ownership (Some demo_active)) \<in> crash_states (Some demo_active) demo_pending Guard"
  (is "?s \<in> _")
proof -
  have "?s = run_steps (take 0 (rollback_steps (active_and_pending (Some demo_active) demo_pending))) ?s"
    by simp
  moreover have "?s \<in> phase_states (Some demo_active) demo_pending Guard"
    unfolding phase_states_def Let_def pending_nft_phase.case by blast
  ultimately have "?s \<in> {run_steps (take m (rollback_steps
      (active_and_pending (Some demo_active) demo_pending))) s | m s.
      s \<in> phase_states (Some demo_active) demo_pending Guard}" by blast
  then show ?thesis by (simp add: crash_states_def)
qed

theorem forward_reaches_pending_plan_witness:
  "run_steps (active_retire_steps (Some demo_active) demo_pending)
     (run_steps (transition_steps (Some demo_active) demo_pending)
       (active_ownership (Some demo_active))) =
   plan_routing_ownership demo_pending"
  by (rule forward_reaches_pending_plan [OF demo_tables(3,2)])

theorem reachability_test_exact_witness:
  "routing_state_reachable_for_phase
     (run_steps (take 3 (transition_steps (Some demo_active) demo_pending))
       (active_ownership (Some demo_active)))
     (Some demo_active) demo_pending Guard = Inr True"
  using reachability_test_exact [OF demo_tables(3,2)] demo_interrupted by simp

theorem rollback_restores_active_plan_witness:
  "run_steps (rollback_steps (active_and_pending (Some demo_active) demo_pending))
     (run_steps (take 3 (transition_steps (Some demo_active) demo_pending))
       (active_ownership (Some demo_active))) = empty_ownership"
  using rollback_restores_active_plan [OF demo_interrupted] by (rule conjunct1)

theorem forward_fails_closed_witness:
  "has_terminal (plan_routing_ownership demo_active) V4 TABLE_BASE"
proof -
  have "rule_for (plan_routing_ownership demo_active) V4 TABLE_BASE"
  proof -
    have "rule_ownership_of V4 (lp_rule_priority (demo_slot 0 ''a'' None)) TABLE_BASE
        (lp_mark (demo_slot 0 ''a'' None)) \<in> rules_of demo_active"
      unfolding rules_of_def demo_active_def by (force simp: demo_slot_def)
    then show ?thesis
      unfolding rule_for_def plan_ownership_rules
      by (rule bexI [rotated]) (simp add: rule_ownership_of_def)
  qed
  with forward_fails_closed [OF demo_tables(1,2), of "plan_routing_ownership demo_active" 0 V4 TABLE_BASE]
  show ?thesis by simp
qed

lemma reapplying_is_steady_witness:
  "run_steps (take 5 (transition_steps (Some demo_active) demo_active @
       retire_steps demo_active demo_active)) (plan_routing_ownership demo_active) =
   plan_routing_ownership demo_active"
  by (rule reapplying_is_steady [OF demo_tables(1)])

lemma routing_basis_loses_only_unicast_witness:
  "own_rules (plan_routing_ownership (kp_lanes (routing_basis
       \<lparr>kp_primary = default_decision, kp_local_networks = ([] :: nat list), kp_local_addresses = [],
        kp_generation = 1, kp_profile_id = ''p'', kp_lanes = demo_active, kp_rules = []\<rparr>
       {(4, TABLE_BASE)}))) = rules_of demo_active"
  using routing_basis_loses_only_unicast [of "\<lparr>kp_primary = default_decision,
      kp_local_networks = ([] :: nat list), kp_local_addresses = [],
      kp_generation = 1, kp_profile_id = ''p'', kp_lanes = demo_active, kp_rules = []\<rparr>"
      "{(4, TABLE_BASE)}"] demo_tables(1)
  by (simp add: plan_ownership_rules)

end
