(* ===== verification/Text_Numbers.thy ===== *)
theory Text_Numbers
  imports Rust_Text
begin

text \<open>
  Numbers and addresses in text: what \<open>format!\<close> writes is what \<open>parse\<close> reads, and the parser of
  \<open>std::net::IpAddr\<close>.
\<close>

section \<open>Writing and reading numbers\<close>

lemma digit_value_char: "0 \<le> d \<Longrightarrow> d < 36 \<Longrightarrow> digit_value (digit_char d) = Some d"
proof -
  assume d: "0 \<le> d" "d < 36"
  have c: "(of_char (char_of k :: char) :: int) = k" if "0 \<le> k" "k < 256" for k :: int
    using that by simp
  show ?thesis
  proof (cases "d < 10")
    case True
    then show ?thesis using d c [of "d + 48"] by (simp add: digit_char_def digit_value_def)
  next
    case False
    with d show ?thesis using c [of "d + 87"] by (simp add: digit_char_def digit_value_def)
  qed
qed

lemma radix_value_digits:
  "r \<le> 36 \<Longrightarrow> \<forall>d \<in> set ds. 0 \<le> d \<and> d < r \<Longrightarrow>
     radix_value r acc (map digit_char ds) = Some (foldl (\<lambda>a d. r * a + d) acc ds)"
  by (induction ds arbitrary: acc) (simp_all add: digit_value_char)

lemma digits_of_value: "1 < b \<Longrightarrow> foldl (\<lambda>a d. b * a + d) 0 (digits_of b n) = n"
proof (induction b n rule: digits_of.induct)
  case (1 b n)
  then show ?case
    by (cases "n < b") (simp_all add: digits_of.simps [of b n])
qed

lemma digits_of_bound: "1 < b \<Longrightarrow> 0 \<le> n \<Longrightarrow> d \<in> set (digits_of b n) \<Longrightarrow> 0 \<le> d \<and> d < b"
proof (induction b n rule: digits_of.induct)
  case (1 b n)
  then show ?case
    by (cases "n < b") (auto simp: digits_of.simps [of b n] pos_imp_zdiv_nonneg_iff)
qed

lemma digits_of_nonempty: "digits_of b n \<noteq> []"
  by (subst digits_of.simps) simp

lemma plus_no_digit: "digit_value (CHR ''+'') = None"
  by code_simp

lemma parse_radix_digits:
  assumes "1 < r" "r \<le> 36" "0 \<le> n" "n < bound"
  shows "parse_radix r bound (replicate k (CHR ''0'') @ map digit_char (digits_of r n)) = Some n"
proof -
  have zero: "(CHR ''0'') = digit_char 0" by code_simp
  let ?ds = "replicate k 0 @ digits_of r n"
  have s: "replicate k (CHR ''0'') @ map digit_char (digits_of r n) = map digit_char ?ds"
    by (simp add: zero)
  have small: "\<forall>d \<in> set ?ds. 0 \<le> d \<and> d < r"
    using assms digits_of_bound [of r n] by (auto simp: in_set_conv_nth)
  have val: "foldl (\<lambda>a d. r * a + d) 0 ?ds = n"
  proof -
    have "foldl (\<lambda>a d. r * a + d) 0 (replicate k 0) = 0" by (induction k) simp_all
    then show ?thesis using assms(1) by (simp add: digits_of_value)
  qed
  have ne: "?ds \<noteq> []" using digits_of_nonempty by simp
  then obtain d ds where ds: "?ds = d # ds" by (cases ?ds) auto
  with small assms have "digit_value (digit_char d) = Some d"
    by (intro digit_value_char) auto
  then have "digit_char d \<noteq> CHR ''+''" using plus_no_digit by auto
  then have "parse_radix r bound (map digit_char ?ds) =
      (case radix_value r 0 (map digit_char ?ds) of
         Some n \<Rightarrow> if n < bound then Some n else None | None \<Rightarrow> None)"
    unfolding ds by (simp add: parse_radix_def)
  also have "\<dots> = Some n"
    unfolding radix_value_digits [OF assms(2) small] val using assms(4) by simp
  finally show ?thesis unfolding s .
qed

lemma uint_u32_bound: "uint w < 4294967296" for w :: u32
  using uint_bounded [of w] by simp

lemma parse_u32_decimal: "parse_u32 (decimal (uint w)) = Some w"
  using parse_radix_digits [of 10 "uint w" "2 ^ 32" 0] uint_u32_bound [of w]
  by (simp add: parse_u32_def decimal_def)

lemma parse_u32_hex_08: "parse_u32_hex (hex_08 w) = Some w"
  using parse_radix_digits [of 16 "uint w" "2 ^ 32" "8 - length (lower_hex (uint w))"]
    uint_u32_bound [of w]
  by (simp add: parse_u32_hex_def hex_08_def pad_left_def lower_hex_def)

lemma hex_0x08_split: "hex_0x08 w = ''0x'' @ hex_08 w"
  by (simp add: hex_0x08_def hex_08_def)

lemma hex_08_digits: "c \<in> set (hex_08 w) \<Longrightarrow> digit_value c \<noteq> None"
proof -
  assume c: "c \<in> set (hex_08 w)"
  have "digit_value (CHR ''0'') = Some 0" by code_simp
  moreover have "digit_value (digit_char d) \<noteq> None" if "d \<in> set (digits_of 16 (uint w))" for d
    using digits_of_bound [OF _ _ that] by (simp add: digit_value_char)
  ultimately show ?thesis
    using c by (auto simp: hex_08_def pad_left_def lower_hex_def simp del: replicate.simps)
qed

section \<open>Reading addresses\<close>

text \<open>\<open>Ipv4Addr\<close>: four decimal octets without leading zeros.\<close>

definition parse_octet :: "string \<Rightarrow> int option" where
  "parse_octet s =
     (if s = [] \<or> 3 < length s \<or> (1 < length s \<and> hd s = CHR ''0'') \<or> \<not> list_all is_ascii_digit s
      then None
      else (case radix_value 10 0 s of Some n \<Rightarrow> if n < 256 then Some n else None | None \<Rightarrow> None))"

fun parse_all :: "('a \<Rightarrow> 'b option) \<Rightarrow> 'a list \<Rightarrow> 'b list option" where
  "parse_all p [] = Some []"
| "parse_all p (x # xs) =
     (case p x of
        None \<Rightarrow> None
      | Some y \<Rightarrow> map_option (Cons y) (parse_all p xs))"

definition parse_ipv4 :: "string \<Rightarrow> u32 option" where
  "parse_ipv4 s =
     (case parse_all parse_octet (split_on (CHR ''.'') s) of
        Some [a, b, c, d] \<Rightarrow> Some (of_int (((a * 256 + b) * 256 + c) * 256 + d))
      | _ \<Rightarrow> None)"

text \<open>
  \<open>Ipv6Addr\<close>: groups of one to four hexadecimal digits, at most one \<open>::\<close> standing for one or more
  zero groups, and an embedded IPv4 address in place of the last two groups.
\<close>

definition parse_group :: "string \<Rightarrow> int option" where
  "parse_group s =
     (if s = [] \<or> 4 < length s \<or> \<not> list_all is_ascii_hexdigit s then None else radix_value 16 0 s)"

definition ipv4_groups :: "string \<Rightarrow> int list option" where
  "ipv4_groups s =
     (case parse_ipv4 s of
        None \<Rightarrow> None
      | Some w \<Rightarrow> Some [uint (drop_bit 16 w), uint (take_bit 16 w)])"

fun tail_groups :: "string list \<Rightarrow> int list option" where
  "tail_groups [] = Some []"
| "tail_groups [s] =
     (case parse_group s of Some g \<Rightarrow> Some [g] | None \<Rightarrow> ipv4_groups s)"
| "tail_groups (s # ss) =
     (case parse_group s of
        None \<Rightarrow> None
      | Some g \<Rightarrow> map_option (Cons g) (tail_groups ss))"

fun split_gap :: "string \<Rightarrow> (string \<times> string) option" where
  "split_gap [] = None"
| "split_gap (c # cs) =
     (if c = CHR '':'' \<and> cs \<noteq> [] \<and> hd cs = CHR '':'' then Some ([], tl cs)
      else map_option (\<lambda>(a, b). (c # a, b)) (split_gap cs))"

definition colon_parts :: "string \<Rightarrow> string list" where
  "colon_parts s = (if s = [] then [] else split_on (CHR '':'') s)"

definition parse_ipv6 :: "string \<Rightarrow> 128 word option" where
  "parse_ipv6 s =
     (let groups = (case split_gap s of
            None \<Rightarrow>
              (case tail_groups (colon_parts s) of
                 Some gs \<Rightarrow> if length gs = 8 then Some gs else None
               | None \<Rightarrow> None)
          | Some (h, t) \<Rightarrow>
              (case (parse_all parse_group (colon_parts h), tail_groups (colon_parts t)) of
                 (Some hs, Some ts) \<Rightarrow>
                   if length hs + length ts \<le> 7
                   then Some (hs @ replicate (8 - length hs - length ts) 0 @ ts) else None
               | _ \<Rightarrow> None))
      in map_option (\<lambda>gs. of_int (foldl (\<lambda>a g. a * 65536 + g) 0 gs)) groups)"

definition parse_ip :: "string \<Rightarrow> ip_addr option" where
  "parse_ip s =
     (case parse_ipv4 s of
        Some w \<Rightarrow> Some (V4Addr w)
      | None \<Rightarrow> map_option V6Addr (parse_ipv6 s))"

lemma parse_ip_examples:
  "parse_ip ''10.0.0.1'' = Some (V4Addr 0x0A000001)"
  "parse_ip ''10.0.0.01'' = None"
  "parse_ip ''fe80::1'' = Some (V6Addr 0xFE800000000000000000000000000001)"
  "parse_ip ''::ffff:1.2.3.4'' = Some (V6Addr 0xFFFF01020304)"
  "parse_ip ''1:2:3:4:5:6:7:8::'' = None"
  by code_simp+

end
