(* ===== verification/Json.thy ===== *)
theory Json
  imports Text_Numbers
begin

text \<open>
  JSON values and the decoding that \<open>#[derive(Deserialize)]\<close> generates for the types of the
  repository. Reading bytes into a value is \<open>serde_json\<close>, a parameter of the readers. An object
  keeps its members in order, duplicates included, because decoding a struct rejects a repeated
  field. \<open>None\<close> is a decoding error.
\<close>

datatype json =
    JNull
  | JBool bool
  | JInt int
  | JFloat string
  | JString string
  | JArray "json list"
  | JObject "(string \<times> json) list"

section \<open>Scalars and collections\<close>

fun de_string :: "json \<Rightarrow> string option" where
  "de_string (JString s) = Some s"
| "de_string _ = None"

fun de_bool :: "json \<Rightarrow> bool option" where
  "de_bool (JBool b) = Some b"
| "de_bool _ = None"

fun de_u32 :: "json \<Rightarrow> u32 option" where
  "de_u32 (JInt i) = (if 0 \<le> i \<and> i < 4294967296 then Some (of_int i) else None)"
| "de_u32 _ = None"

fun de_list :: "(json \<Rightarrow> 'a option) \<Rightarrow> json \<Rightarrow> 'a list option" where
  "de_list d (JArray xs) = parse_all d xs"
| "de_list d _ = None"

definition de_option :: "(json \<Rightarrow> 'a option) \<Rightarrow> json \<Rightarrow> 'a option option" where
  "de_option d j = (case j of JNull \<Rightarrow> Some None | _ \<Rightarrow> map_option Some (d j))"

section \<open>Members of an object\<close>

text \<open>The value of a field under any of its names; a repeated field is an error.\<close>

definition field :: "string list \<Rightarrow> (string \<times> json) list \<Rightarrow> json option option" where
  "field names obj =
     (case filter (\<lambda>(k, _). k \<in> set names) obj of
        [] \<Rightarrow> Some None
      | [(_, j)] \<Rightarrow> Some (Some j)
      | _ \<Rightarrow> None)"

text \<open>\<open>#[serde(default)]\<close>.\<close>

definition default_field ::
  "(json \<Rightarrow> 'a option) \<Rightarrow> 'a \<Rightarrow> string list \<Rightarrow> (string \<times> json) list \<Rightarrow> 'a option"
where
  "default_field d a names obj =
     (case field names obj of
        None \<Rightarrow> None
      | Some None \<Rightarrow> Some a
      | Some (Some j) \<Rightarrow> d j)"

definition option_field ::
  "(json \<Rightarrow> 'a option) \<Rightarrow> string list \<Rightarrow> (string \<times> json) list \<Rightarrow> 'a option option"
where
  "option_field d names obj = default_field (de_option d) None names obj"

definition required_field ::
  "(json \<Rightarrow> 'a option) \<Rightarrow> string list \<Rightarrow> (string \<times> json) list \<Rightarrow> 'a option"
where
  "required_field d names obj =
     (case field names obj of Some (Some j) \<Rightarrow> d j | _ \<Rightarrow> None)"

text \<open>\<open>#[serde(flatten)]\<close> into a map: the members no field has taken.\<close>

definition flattened :: "string list \<Rightarrow> (string \<times> json) list \<Rightarrow> (string, json) btree" where
  "flattened names obj = bt_collect (filter (\<lambda>(k, _). k \<notin> set names) obj)"

definition option_bind :: "'a option \<Rightarrow> ('a \<Rightarrow> 'b option) \<Rightarrow> 'b option" where
  "option_bind x f = (case x of None \<Rightarrow> None | Some a \<Rightarrow> f a)"

lemma option_bind_simps [simp]:
  "option_bind None f = None" "option_bind (Some a) f = f a"
  by (simp_all add: option_bind_def)

end
