(* ===== verification/Inspect.thy ===== *)
theory Inspect
  imports Policy_Route Json
begin

text \<open>
  Kernel snapshots and conflict detection (\<open>src/src/backend/inspect.rs\<close>): the output of \<open>ip -j\<close>
  and \<open>nft -j\<close> decoded into route and rule entries, the state of each resource RouteLane would
  own, and the check that refuses a plan whose tables or priorities hold anything foreign. The
  lemmas show that the check accepts exactly the snapshots in which every entry in RouteLane's
  place is RouteLane's own, and that what the step commands write is what the reader reads.
\<close>

section \<open>Snapshot commands and errors\<close>

record snapshot_commands =
  sc_ipv4_routes :: command_spec
  sc_ipv6_routes :: command_spec
  sc_ipv4_rules :: command_spec
  sc_ipv6_rules :: command_spec
  sc_nft :: command_spec

definition build_snapshot_commands :: snapshot_commands where
  "build_snapshot_commands = \<lparr>
     sc_ipv4_routes = ip4 [''-j'', ''-N'', ''route'', ''show'', ''table'', ''all''],
     sc_ipv6_routes = ip6 [''-j'', ''-N'', ''route'', ''show'', ''table'', ''all''],
     sc_ipv4_rules = ip4 [''-j'', ''-N'', ''rule'', ''show''],
     sc_ipv6_rules = ip6 [''-j'', ''-N'', ''rule'', ''show''],
     sc_nft = \<lparr>cs_program = ProgNft, cs_family = None,
       cs_args = [''-j'', ''list'', ''table'', ''inet'', ''routelane''], cs_stdin = None\<rparr>\<rparr>"

datatype snapshot_source = Ipv4Routes | Ipv6Routes | Ipv4Rules | Ipv6Rules | Nft

text \<open>The message of a parse error, by its kind and the text it quotes.\<close>

datatype parse_message =
    JsonMessage
  | InvalidGateway string
  | GatewayFamilyMismatch
  | InvalidPreferredSource string
  | PreferredSourceFamilyMismatch
  | UnsupportedTableName string
  | InvalidFwmark string

record snapshot_parse_error =
  pe_source :: snapshot_source
  pe_message :: parse_message

definition parse_error :: "snapshot_source \<Rightarrow> parse_message \<Rightarrow> snapshot_parse_error" where
  "parse_error source m = \<lparr>pe_source = source, pe_message = m\<rparr>"

section \<open>Entries\<close>

record route_entry =
  re_family :: ip_family
  re_table :: u32
  re_route_type :: "string option"
  re_destination :: "string option"
  re_gateway :: "ip_addr option"
  re_interface :: "string option"
  re_metric :: "u32 option"
  re_protocol :: "string option"
  re_scope :: "string option"
  re_preferred_source :: "ip_addr option"
  re_flags :: "string list"
  re_preference :: "string option"
  re_extra :: "(string, json) btree"

record mark =
  mk_value :: u32
  mk_mask :: "u32 option"

record rule_entry =
  ru_family :: ip_family
  ru_priority :: u32
  ru_table :: "u32 option"
  ru_mark :: "mark option"
  ru_source :: "string option"
  ru_destination :: "string option"
  ru_extra :: "(string, json) btree"

record ('n, 'h) kernel_snapshot =
  ks_routes :: "route_entry list"
  ks_rules :: "rule_entry list"
  ks_nft_tables :: "(string \<times> string) set"
  ks_topology :: "'n topology"
  ks_nft_generation :: "u64 option"
  ks_nft_plan_hash :: "'h option"

definition is_none_or :: "'a option \<Rightarrow> ('a \<Rightarrow> bool) \<Rightarrow> bool" where
  "is_none_or x p = (case x of None \<Rightarrow> True | Some a \<Rightarrow> p a)"

definition route_enum_matches :: "string \<Rightarrow> string \<Rightarrow> u32 \<Rightarrow> bool" where
  "route_enum_matches v name number = (v = name \<or> parse_u32 v = Some number)"

definition matches_terminal :: "route_entry \<Rightarrow> ip_family \<Rightarrow> u32 \<Rightarrow> bool" where
  "matches_terminal e f table =
     (re_family e = f \<and> re_table e = table \<and> re_destination e = Some ''default'' \<and>
      (re_route_type e = Some ''unreachable'' \<or> re_route_type e = Some ''7'') \<and>
      re_gateway e = None \<and>
      (case f of
         V4 \<Rightarrow> re_interface e = None \<and> re_preference e = None
       | V6 \<Rightarrow> is_none_or (re_interface e) (\<lambda>d. d = ''lo'') \<and>
           is_none_or (re_preference e) (\<lambda>p. p = ''medium'')) \<and>
      re_metric e = Some TERMINAL_ROUTE_METRIC \<and>
      (re_protocol e = None \<or> re_protocol e = Some ''boot'' \<or> re_protocol e = Some ''3'') \<and>
      (re_scope e = None \<or> re_scope e = Some ''global'' \<or> re_scope e = Some ''0'') \<and>
      re_preferred_source e = None \<and> re_flags e = [] \<and> re_extra e = [])"

definition matches_default ::
  "route_entry \<Rightarrow> ip_family \<Rightarrow> u32 \<Rightarrow> ip_addr option \<Rightarrow> string \<Rightarrow> bool"
where
  "matches_default e f table gw dev =
     (re_family e = f \<and> re_table e = table \<and> re_destination e = Some ''default'' \<and>
      re_gateway e = gw \<and> re_interface e = Some dev \<and>
      is_none_or (re_route_type e) (\<lambda>t. route_enum_matches t ''unicast'' 1) \<and>
      (case re_metric e of None \<Rightarrow> 0 | Some m \<Rightarrow> m) = (case f of V4 \<Rightarrow> 0 | V6 \<Rightarrow> 1024) \<and>
      is_none_or (re_protocol e) (\<lambda>p. route_enum_matches p ''boot'' 3) \<and>
      is_none_or (re_scope e) (\<lambda>s. route_enum_matches s ''global'' 0 \<or>
        re_gateway e = None \<and> route_enum_matches s ''link'' 253) \<and>
      re_preferred_source e = None \<and>
      (re_flags e = [] \<or> re_flags e = [''linkdown'']) \<and>
      (case f of
         V4 \<Rightarrow> re_preference e = None
       | V6 \<Rightarrow> is_none_or (re_preference e) (\<lambda>p. p = ''medium'')) \<and>
      re_extra e = [])"

definition is_full_width :: "mark \<Rightarrow> bool" where
  "is_full_width m = (mk_mask m = None \<or> mk_mask m = Some (- 1))"

definition matches_policy :: "rule_entry \<Rightarrow> ip_family \<Rightarrow> u32 \<Rightarrow> u32 \<Rightarrow> u32 \<Rightarrow> bool" where
  "matches_policy e f priority table mark =
     (ru_family e = f \<and> ru_priority e = priority \<and> ru_table e = Some table \<and>
      (case ru_mark e of None \<Rightarrow> False | Some m \<Rightarrow> mk_value m = mark \<and> is_full_width m) \<and>
      is_none_or (ru_source e) (\<lambda>s. s = ''all'') \<and>
      is_none_or (ru_destination e) (\<lambda>d. d = ''all'') \<and>
      ru_extra e = [])"

section \<open>Reading \<open>ip\<close> and \<open>nft\<close> output\<close>

datatype table_ref = TableNumber u32 | TableName string

definition default_table_ref :: table_ref where
  "default_table_ref = TableNumber 254"

fun table_number :: "snapshot_source \<Rightarrow> table_ref \<Rightarrow> (snapshot_parse_error, u32) result" where
  "table_number source (TableNumber n) = Inr n"
| "table_number source (TableName name) =
     (if name = ''default'' then Inr 253
      else if name = ''main'' then Inr 254
      else if name = ''local'' then Inr 255
      else ok_or (parse_error source (UnsupportedTableName name)) (parse_u32 name))"

fun de_table_ref :: "json \<Rightarrow> table_ref option" where
  "de_table_ref (JString s) = Some (TableName s)"
| "de_table_ref j = map_option TableNumber (de_u32 j)"

datatype mark_value = MarkNumber u32 | MarkText string

fun de_mark_value :: "json \<Rightarrow> mark_value option" where
  "de_mark_value (JString s) = Some (MarkText s)"
| "de_mark_value j = map_option MarkNumber (de_u32 j)"

record raw_route =
  rr_route_type :: "string option"
  rr_dst :: "string option"
  rr_gateway :: "string option"
  rr_dev :: "string option"
  rr_table :: table_ref
  rr_metric :: "u32 option"
  rr_protocol :: "string option"
  rr_scope :: "string option"
  rr_prefsrc :: "string option"
  rr_flags :: "string list"
  rr_pref :: "string option"
  rr_extra :: "(string, json) btree"

definition raw_route_fields :: "string list" where
  "raw_route_fields = [''type'', ''dst'', ''gateway'', ''dev'', ''table'', ''metric'', ''protocol'',
     ''scope'', ''prefsrc'', ''flags'', ''pref'']"

fun de_raw_route :: "json \<Rightarrow> raw_route option" where
  "de_raw_route (JObject obj) =
     option_bind (option_field de_string [''type''] obj) (\<lambda>ty.
     option_bind (option_field de_string [''dst''] obj) (\<lambda>dst.
     option_bind (option_field de_string [''gateway''] obj) (\<lambda>gw.
     option_bind (option_field de_string [''dev''] obj) (\<lambda>dev.
     option_bind (default_field de_table_ref default_table_ref [''table''] obj) (\<lambda>table.
     option_bind (option_field de_u32 [''metric''] obj) (\<lambda>metric.
     option_bind (option_field de_string [''protocol''] obj) (\<lambda>protocol.
     option_bind (option_field de_string [''scope''] obj) (\<lambda>scope.
     option_bind (option_field de_string [''prefsrc''] obj) (\<lambda>prefsrc.
     option_bind (default_field (de_list de_string) [] [''flags''] obj) (\<lambda>flags.
     option_bind (option_field de_string [''pref''] obj) (\<lambda>pref.
       Some \<lparr>rr_route_type = ty, rr_dst = dst, rr_gateway = gw, rr_dev = dev, rr_table = table,
         rr_metric = metric, rr_protocol = protocol, rr_scope = scope, rr_prefsrc = prefsrc,
         rr_flags = flags, rr_pref = pref,
         rr_extra = flattened raw_route_fields obj\<rparr>)))))))))))"
| "de_raw_route _ = None"

record raw_rule =
  rw_priority :: u32
  rw_table :: "table_ref option"
  rw_fwmark :: "mark_value option"
  rw_src :: "string option"
  rw_dst :: "string option"
  rw_extra :: "(string, json) btree"

definition raw_rule_fields :: "string list" where
  "raw_rule_fields = [''priority'', ''table'', ''fwmark'', ''mark'', ''src'', ''dst'']"

fun de_raw_rule :: "json \<Rightarrow> raw_rule option" where
  "de_raw_rule (JObject obj) =
     option_bind (required_field de_u32 [''priority''] obj) (\<lambda>priority.
     option_bind (option_field de_table_ref [''table''] obj) (\<lambda>table.
     option_bind (option_field de_mark_value [''fwmark'', ''mark''] obj) (\<lambda>mark.
     option_bind (option_field de_string [''src''] obj) (\<lambda>src.
     option_bind (option_field de_string [''dst''] obj) (\<lambda>dst.
       Some \<lparr>rw_priority = priority, rw_table = table, rw_fwmark = mark, rw_src = src,
         rw_dst = dst, rw_extra = flattened raw_rule_fields obj\<rparr>)))))"
| "de_raw_rule _ = None"

text \<open>\<open>serde_json::from_slice\<close>: \<open>read_json\<close> turns the bytes into a value.\<close>

definition deserialize ::
  "(string \<Rightarrow> json option) \<Rightarrow> (json \<Rightarrow> 'a option) \<Rightarrow> string \<Rightarrow> snapshot_source \<Rightarrow>
     (snapshot_parse_error, 'a) result"
where
  "deserialize read_json d bytes source =
     ok_or (parse_error source JsonMessage) (option_bind (read_json bytes) d)"

definition family_matches :: "ip_family \<Rightarrow> ip_addr \<Rightarrow> bool" where
  "family_matches f a = (case f of V4 \<Rightarrow> is_ipv4 a | V6 \<Rightarrow> \<not> is_ipv4 a)"

definition parse_address ::
  "snapshot_source \<Rightarrow> ip_family \<Rightarrow> (string \<Rightarrow> parse_message) \<Rightarrow> parse_message \<Rightarrow> string option \<Rightarrow>
     (snapshot_parse_error, ip_addr option) result"
where
  "parse_address source f invalid mismatch text =
     (case text of
        None \<Rightarrow> Inr None
      | Some s \<Rightarrow>
          (case parse_ip s of
             None \<Rightarrow> Inl (parse_error source (invalid s))
           | Some a \<Rightarrow>
               if family_matches f a then Inr (Some a) else Inl (parse_error source mismatch)))"

definition route_of_raw ::
  "ip_family \<Rightarrow> snapshot_source \<Rightarrow> raw_route \<Rightarrow> (snapshot_parse_error, route_entry) result"
where
  "route_of_raw f source r =
     and_then (parse_address source f InvalidGateway GatewayFamilyMismatch (rr_gateway r)) (\<lambda>gw.
     and_then (parse_address source f InvalidPreferredSource PreferredSourceFamilyMismatch
         (rr_prefsrc r)) (\<lambda>src.
     and_then (table_number source (rr_table r)) (\<lambda>table.
       Inr \<lparr>re_family = f, re_table = table, re_route_type = rr_route_type r,
         re_destination = rr_dst r, re_gateway = gw, re_interface = rr_dev r,
         re_metric = rr_metric r, re_protocol = rr_protocol r, re_scope = rr_scope r,
         re_preferred_source = src, re_flags = rr_flags r, re_preference = rr_pref r,
         re_extra = rr_extra r\<rparr>)))"

fun try_map :: "('a \<Rightarrow> ('e, 'b) result) \<Rightarrow> 'a list \<Rightarrow> ('e, 'b list) result" where
  "try_map g [] = Inr []"
| "try_map g (x # xs) =
     and_then (g x) (\<lambda>y. and_then (try_map g xs) (\<lambda>ys. Inr (y # ys)))"

definition parse_routes ::
  "(string \<Rightarrow> json option) \<Rightarrow> string \<Rightarrow> ip_family \<Rightarrow> snapshot_source \<Rightarrow>
     (snapshot_parse_error, route_entry list) result"
where
  "parse_routes read_json bytes f source =
     and_then (deserialize read_json (de_list de_raw_route) bytes source)
       (try_map (route_of_raw f source))"

definition parse_mark_u32 :: "string \<Rightarrow> u32 option" where
  "parse_mark_u32 v =
     (case strip_prefix ''0x'' v of
        Some hex \<Rightarrow> parse_u32_hex hex
      | None \<Rightarrow>
          (case strip_prefix ''0X'' v of
             Some hex \<Rightarrow> parse_u32_hex hex
           | None \<Rightarrow> parse_u32 v))"

fun parse_mark :: "snapshot_source \<Rightarrow> mark_value \<Rightarrow> (snapshot_parse_error, mark) result" where
  "parse_mark source (MarkNumber v) = Inr \<lparr>mk_value = v, mk_mask = None\<rparr>"
| "parse_mark source (MarkText v) =
     (let (m, width) = (case split_once (CHR ''/'') v of
            None \<Rightarrow> (v, None)
          | Some (m, w) \<Rightarrow> (m, Some w))
      in and_then (ok_or (parse_error source (InvalidFwmark m)) (parse_mark_u32 m)) (\<lambda>value.
         (case width of
            None \<Rightarrow> Inr \<lparr>mk_value = value, mk_mask = None\<rparr>
          | Some w \<Rightarrow>
              and_then (ok_or (parse_error source (InvalidFwmark w)) (parse_mark_u32 w))
                (\<lambda>w. Inr \<lparr>mk_value = value, mk_mask = Some w\<rparr>))))"

definition transpose_result :: "('a \<Rightarrow> ('e, 'b) result) \<Rightarrow> 'a option \<Rightarrow> ('e, 'b option) result" where
  "transpose_result g x =
     (case x of None \<Rightarrow> Inr None | Some a \<Rightarrow> and_then (g a) (\<lambda>b. Inr (Some b)))"

definition rule_of_raw ::
  "ip_family \<Rightarrow> snapshot_source \<Rightarrow> raw_rule \<Rightarrow> (snapshot_parse_error, rule_entry) result"
where
  "rule_of_raw f source r =
     and_then (transpose_result (table_number source) (rw_table r)) (\<lambda>table.
     and_then (transpose_result (parse_mark source) (rw_fwmark r)) (\<lambda>mark.
       Inr \<lparr>ru_family = f, ru_priority = rw_priority r, ru_table = table, ru_mark = mark,
         ru_source = rw_src r, ru_destination = rw_dst r, ru_extra = rw_extra r\<rparr>))"

definition parse_rules ::
  "(string \<Rightarrow> json option) \<Rightarrow> string \<Rightarrow> ip_family \<Rightarrow> snapshot_source \<Rightarrow>
     (snapshot_parse_error, rule_entry list) result"
where
  "parse_rules read_json bytes f source =
     and_then (deserialize read_json (de_list de_raw_rule) bytes source)
       (try_map (rule_of_raw f source))"

text \<open>The three structs of the \<open>nft\<close> reader have no flattened field, so arrays decode too.\<close>

fun de_nft_table :: "json \<Rightarrow> (string \<times> string) option" where
  "de_nft_table (JObject obj) =
     option_bind (required_field de_string [''family''] obj) (\<lambda>f.
     option_bind (required_field de_string [''name''] obj) (\<lambda>n. Some (f, n)))"
| "de_nft_table (JArray [f, n]) =
     option_bind (de_string f) (\<lambda>f. option_bind (de_string n) (\<lambda>n. Some (f, n)))"
| "de_nft_table _ = None"

fun de_nft_object :: "json \<Rightarrow> (string \<times> string) option option" where
  "de_nft_object (JObject obj) = option_field de_nft_table [''table''] obj"
| "de_nft_object (JArray []) = Some None"
| "de_nft_object (JArray [t]) = de_option de_nft_table t"
| "de_nft_object _ = None"

fun de_nft_envelope :: "json \<Rightarrow> (string \<times> string) option list option" where
  "de_nft_envelope (JObject obj) = required_field (de_list de_nft_object) [''nftables''] obj"
| "de_nft_envelope (JArray [xs]) = de_list de_nft_object xs"
| "de_nft_envelope _ = None"

definition parse_nft_tables ::
  "(string \<Rightarrow> json option) \<Rightarrow> string \<Rightarrow> (snapshot_parse_error, (string \<times> string) set) result"
where
  "parse_nft_tables read_json bytes =
     and_then (deserialize read_json de_nft_envelope bytes Nft)
       (\<lambda>objects. Inr (set (List.map_filter (\<lambda>t. t) objects)))"

section \<open>Snapshots\<close>

record snapshot_input =
  si_ipv4_routes :: string
  si_ipv6_routes :: string
  si_ipv4_rules :: string
  si_ipv6_rules :: string
  si_nft :: string

type_synonym route_evidence = "u32 route_mode option \<times> ipv6 route_mode option"

definition add_evidence ::
  "route_entry \<Rightarrow> (string, route_evidence) btree \<Rightarrow> (string, route_evidence) btree"
where
  "add_evidence r m =
     (if re_destination r \<noteq> Some ''default'' then m
      else case re_interface r of
        None \<Rightarrow> m
      | Some dev \<Rightarrow>
          (let (r4, r6) = (case bt_get m dev of None \<Rightarrow> (None, None) | Some e \<Rightarrow> e);
               e = (case (re_family r, re_gateway r) of
                   (V4, Some (V4Addr g)) \<Rightarrow> (Some (Via g), r6)
                 | (V6, Some (V6Addr g)) \<Rightarrow> (r4, Some (Via g))
                 | (V4, None) \<Rightarrow> (Some (case r4 of None \<Rightarrow> Device | Some r \<Rightarrow> r), r6)
                 | (V6, None) \<Rightarrow> (r4, Some (case r6 of None \<Rightarrow> Device | Some r \<Rightarrow> r))
                 | _ \<Rightarrow> (r4, r6))
           in bt_insert dev e m))"

definition topology_from_routes :: "route_entry list \<Rightarrow> 'n topology" where
  "topology_from_routes rs =
     fold (\<lambda>(dev, r4, r6) t. insert_routes dev r4 r6 t) (fold add_evidence rs []) empty_topology"

definition parse_snapshot ::
  "(string \<Rightarrow> json option) \<Rightarrow> snapshot_input \<Rightarrow>
     (snapshot_parse_error, ('n, 'h) kernel_snapshot) result"
where
  "parse_snapshot read_json input =
     and_then (parse_routes read_json (si_ipv4_routes input) V4 Ipv4Routes) (\<lambda>r4.
     and_then (parse_routes read_json (si_ipv6_routes input) V6 Ipv6Routes) (\<lambda>r6.
     and_then (parse_rules read_json (si_ipv4_rules input) V4 Ipv4Rules) (\<lambda>u4.
     and_then (parse_rules read_json (si_ipv6_rules input) V6 Ipv6Rules) (\<lambda>u6.
     and_then (parse_nft_tables read_json (si_nft input)) (\<lambda>tables.
       Inr \<lparr>ks_routes = r4 @ r6, ks_rules = u4 @ u6, ks_nft_tables = tables,
         ks_topology = topology_from_routes (r4 @ r6), ks_nft_generation = None,
         ks_nft_plan_hash = None\<rparr>)))))"

definition with_topology ::
  "'n topology \<Rightarrow> ('n, 'h) kernel_snapshot \<Rightarrow> ('n, 'h) kernel_snapshot"
where
  "with_topology t s = s\<lparr>ks_topology := t\<rparr>"

definition with_nft_ownership ::
  "u64 \<Rightarrow> 'h \<Rightarrow> ('n, 'h) kernel_snapshot \<Rightarrow> ('n, 'h) kernel_snapshot"
where
  "with_nft_ownership g h s = s\<lparr>ks_nft_generation := Some g, ks_nft_plan_hash := Some h\<rparr>"

definition has_nft_table :: "('n, 'h) kernel_snapshot \<Rightarrow> string \<Rightarrow> string \<Rightarrow> bool" where
  "has_nft_table s family name = ((family, name) \<in> ks_nft_tables s)"

definition has_interface :: "('n, 'h) kernel_snapshot \<Rightarrow> string \<Rightarrow> bool" where
  "has_interface s name = (t_interface (ks_topology s) name \<noteq> None)"

definition route_mode_matches ::
  "'n interface_topology \<Rightarrow> ip_family \<Rightarrow> ip_addr option \<Rightarrow> bool"
where
  "route_mode_matches e f gw =
     (case (f, gw) of
        (V4, Some (V4Addr a)) \<Rightarrow> it_route_v4 e = Some (Via a)
      | (V6, Some (V6Addr a)) \<Rightarrow> it_route_v6 e = Some (Via a)
      | (V4, None) \<Rightarrow> it_route_v4 e = Some Device
      | (V6, None) \<Rightarrow> it_route_v6 e = Some Device
      | _ \<Rightarrow> False)"

definition route_reachable ::
  "('n, 'h) kernel_snapshot \<Rightarrow> string \<Rightarrow> ip_family \<Rightarrow> ip_addr option \<Rightarrow> bool"
where
  "route_reachable s dev f gw =
     (let e = t_interface (ks_topology s) dev;
          refused = (t_observed (ks_topology s) \<and>
            (case e of None \<Rightarrow> True | Some e \<Rightarrow> \<not> interface_ready e f \<or> \<not> route_mode_matches e f gw))
      in if refused then False
      else if \<exists>r \<in> set (ks_routes s). re_family r = f \<and> re_destination r = Some ''default'' \<and>
          re_interface r = Some dev \<and> re_gateway r = gw then True
      else (case e of None \<Rightarrow> False | Some e \<Rightarrow> route_mode_matches e f gw))"

definition nft_is_owned_by ::
  "('n policy_content \<Rightarrow> 'h) \<Rightarrow> ('n, 'h) kernel_snapshot \<Rightarrow> 'n kernel_plan \<Rightarrow> bool"
where
  "nft_is_owned_by digest s k =
     (has_nft_table s ''inet'' ''routelane'' \<and> ks_nft_generation s = Some (kp_generation k) \<and>
      ks_nft_plan_hash s = Some (content_hash digest k))"

section \<open>The state of one resource\<close>

datatype resource_state = Missing | Exact | Foreign

definition route_state ::
  "('n, 'h) kernel_snapshot \<Rightarrow> ip_family \<Rightarrow> u32 \<Rightarrow> ip_addr option \<Rightarrow> string \<Rightarrow> resource_state"
where
  "route_state s f table gw dev =
     (case filter (\<lambda>r. re_family r = f \<and> re_table r = table \<and> \<not> matches_terminal r f table)
        (ks_routes s) of
        [] \<Rightarrow> Missing
      | [r] \<Rightarrow> if matches_default r f table gw dev then Exact else Foreign
      | _ \<Rightarrow> Foreign)"

definition rule_state ::
  "('n, 'h) kernel_snapshot \<Rightarrow> ip_family \<Rightarrow> u32 \<Rightarrow> u32 \<Rightarrow> u32 \<Rightarrow> resource_state"
where
  "rule_state s f priority table mark =
     (case filter (\<lambda>r. ru_family r = f \<and> ru_priority r = priority) (ks_rules s) of
        [] \<Rightarrow> Missing
      | [r] \<Rightarrow> if matches_policy r f priority table mark then Exact else Foreign
      | _ \<Rightarrow> Foreign)"

section \<open>Conflicts\<close>

datatype resource_conflict = RoutingTableInUse u32 | RulePriorityInUse u32

fun exactly_one :: "'a list \<Rightarrow> (unit, 'a option) result" where
  "exactly_one [] = Inr None"
| "exactly_one [x] = Inr (Some x)"
| "exactly_one _ = Inl ()"

definition owned_route_of ::
  "'n kernel_plan \<Rightarrow> ip_family \<Rightarrow> u32 \<Rightarrow> (unit, owned_route option option) result"
where
  "owned_route_of current f table =
     exactly_one (map (\<lambda>l. lane_unicast_route l f) (filter (\<lambda>l. lp_table l = table) (kp_lanes current)))"

definition owned_rule_of ::
  "'n kernel_plan \<Rightarrow> u32 \<Rightarrow> (unit, (u32 \<times> u32) option) result"
where
  "owned_rule_of current priority =
     exactly_one (map (\<lambda>l. (lp_table l, lp_mark l))
       (filter (\<lambda>l. lp_rule_priority l = priority) (kp_lanes current)))"

definition allowed_unicast ::
  "ip_family \<Rightarrow> lane_plan \<Rightarrow> 'n kernel_plan option \<Rightarrow> (resource_conflict, owned_route option) result"
where
  "allowed_unicast f l current =
     (case current of
        None \<Rightarrow> Inr (lane_unicast_route l f)
      | Some c \<Rightarrow>
          (case owned_route_of c f (lp_table l) of
             Inl _ \<Rightarrow> Inl (RoutingTableInUse (lp_table l))
           | Inr (Some owned) \<Rightarrow> Inr owned
           | Inr None \<Rightarrow> Inr (lane_unicast_route l f)))"

definition is_allowed_unicast :: "route_entry \<Rightarrow> ip_family \<Rightarrow> u32 \<Rightarrow> owned_route option \<Rightarrow> bool" where
  "is_allowed_unicast r f table allowed =
     (case allowed of
        Some (Unicast gw dev) \<Rightarrow> matches_default r f table gw dev
      | _ \<Rightarrow> False)"

text \<open>The counting loop over the routes of one table.\<close>

fun count_routes ::
  "ip_family \<Rightarrow> u32 \<Rightarrow> owned_route option \<Rightarrow> nat \<times> nat \<Rightarrow> route_entry \<Rightarrow>
     (resource_conflict, nat \<times> nat) result"
where
  "count_routes f table allowed (unicast, terminal) r =
     (if matches_terminal r f table then Inr (unicast, terminal + 1)
      else if \<not> is_allowed_unicast r f table allowed then Inl (RoutingTableInUse table)
      else Inr (unicast + 1, terminal))"

definition check_route ::
  "('n, 'h) kernel_snapshot \<Rightarrow> 'n kernel_plan option \<Rightarrow> lane_plan \<times> ip_family \<Rightarrow>
     (resource_conflict, unit) result"
where
  "check_route s current lf =
     (case lf of (l, f) \<Rightarrow>
        and_then (allowed_unicast f l current) (\<lambda>allowed.
        and_then (try_fold (count_routes f (lp_table l) allowed) (0, 0)
            (filter (\<lambda>r. re_family r = f \<and> re_table r = lp_table l) (ks_routes s)))
          (\<lambda>(unicast, terminal).
             if 1 < unicast \<or> 1 < terminal then Inl (RoutingTableInUse (lp_table l)) else Inr ())))"

definition check_rule_entries ::
  "('n, 'h) kernel_snapshot \<Rightarrow> ip_family \<Rightarrow> u32 \<Rightarrow> u32 \<Rightarrow> u32 \<Rightarrow> (resource_conflict, unit) result"
where
  "check_rule_entries s f priority table mark =
     (case filter (\<lambda>r. ru_family r = f \<and> ru_priority r = priority) (ks_rules s) of
        [] \<Rightarrow> Inr ()
      | [r] \<Rightarrow> if matches_policy r f priority table mark then Inr () else Inl (RulePriorityInUse priority)
      | _ \<Rightarrow> Inl (RulePriorityInUse priority))"

definition check_rule_conflict ::
  "('n, 'h) kernel_snapshot \<Rightarrow> 'n kernel_plan option \<Rightarrow> lane_plan \<times> ip_family \<Rightarrow>
     (resource_conflict, unit) result"
where
  "check_rule_conflict s current lf =
     (case lf of (l, f) \<Rightarrow>
        (case current of
           None \<Rightarrow> check_rule_entries s f (lp_rule_priority l) (lp_table l) (lp_mark l)
         | Some c \<Rightarrow>
             (case owned_rule_of c (lp_rule_priority l) of
                Inl _ \<Rightarrow> Inl (RulePriorityInUse (lp_rule_priority l))
              | Inr (Some (table, mark)) \<Rightarrow>
                  check_rule_entries s f (lp_rule_priority l) table mark
              | Inr None \<Rightarrow>
                  check_rule_entries s f (lp_rule_priority l) (lp_table l) (lp_mark l))))"

definition lane_families :: "lane_plan list \<Rightarrow> (lane_plan \<times> ip_family) list" where
  "lane_families K = concat (map (\<lambda>l. map (Pair l) families) K)"

definition detect_resource_conflicts_with_owner ::
  "'n kernel_plan \<Rightarrow> 'n kernel_plan option \<Rightarrow> ('n, 'h) kernel_snapshot \<Rightarrow>
     (resource_conflict, unit) result"
where
  "detect_resource_conflicts_with_owner k current s =
     and_then (try_each (check_route s current) (lane_families (kp_lanes k)))
       (\<lambda>_. try_each (check_rule_conflict s current) (lane_families (kp_lanes k)))"

definition detect_resource_conflicts ::
  "'n kernel_plan \<Rightarrow> ('n, 'h) kernel_snapshot \<Rightarrow> (resource_conflict, unit) result"
where
  "detect_resource_conflicts k s = detect_resource_conflicts_with_owner k None s"

definition detect_resource_conflicts_for_update ::
  "'n kernel_plan \<Rightarrow> 'n kernel_plan \<Rightarrow> ('n, 'h) kernel_snapshot \<Rightarrow> (resource_conflict, unit) result"
where
  "detect_resource_conflicts_for_update k current s =
     detect_resource_conflicts_with_owner k (Some current) s"

section \<open>What the conflict check accepts\<close>

definition slot_routes :: "('n, 'h) kernel_snapshot \<Rightarrow> ip_family \<Rightarrow> u32 \<Rightarrow> route_entry list" where
  "slot_routes s f table = filter (\<lambda>r. re_family r = f \<and> re_table r = table) (ks_routes s)"

definition slot_rules :: "('n, 'h) kernel_snapshot \<Rightarrow> ip_family \<Rightarrow> u32 \<Rightarrow> rule_entry list" where
  "slot_rules s f priority = filter (\<lambda>r. ru_family r = f \<and> ru_priority r = priority) (ks_rules s)"

text \<open>
  A route slot is clean when it holds at most one terminal route and at most one other route,
  the one RouteLane expects there.
\<close>

definition clean_routes :: "('n, 'h) kernel_snapshot \<Rightarrow> ip_family \<Rightarrow> u32 \<Rightarrow> owned_route option \<Rightarrow> bool" where
  "clean_routes s f table expected \<longleftrightarrow>
     length (filter (\<lambda>r. matches_terminal r f table) (slot_routes s f table)) \<le> 1 \<and>
     length (filter (\<lambda>r. \<not> matches_terminal r f table) (slot_routes s f table)) \<le> 1 \<and>
     (\<forall>r \<in> set (slot_routes s f table). matches_terminal r f table \<or>
        is_allowed_unicast r f table expected)"

definition clean_rules :: "('n, 'h) kernel_snapshot \<Rightarrow> ip_family \<Rightarrow> u32 \<Rightarrow> u32 \<times> u32 \<Rightarrow> bool" where
  "clean_rules s f priority expected \<longleftrightarrow>
     slot_rules s f priority = [] \<or>
     (\<exists>r. slot_rules s f priority = [r] \<and>
        matches_policy r f priority (fst expected) (snd expected))"

text \<open>What a lane's slots may hold: what the current plan owns there, else what the lane will own.\<close>

definition expected_route :: "'n kernel_plan option \<Rightarrow> lane_plan \<Rightarrow> ip_family \<Rightarrow> owned_route option" where
  "expected_route current l f =
     (case current of
        None \<Rightarrow> lane_unicast_route l f
      | Some c \<Rightarrow>
          (case lane_for_table (kp_lanes c) (lp_table l) of
             None \<Rightarrow> lane_unicast_route l f
           | Some q \<Rightarrow> lane_unicast_route q f))"

definition expected_rule :: "'n kernel_plan option \<Rightarrow> lane_plan \<Rightarrow> u32 \<times> u32" where
  "expected_rule current l =
     (case current of
        None \<Rightarrow> (lp_table l, lp_mark l)
      | Some c \<Rightarrow>
          (case find (\<lambda>q. lp_rule_priority q = lp_rule_priority l) (kp_lanes c) of
             None \<Rightarrow> (lp_table l, lp_mark l)
           | Some q \<Rightarrow> (lp_table q, lp_mark q)))"

text \<open>The current plan has one lane per table and per priority.\<close>

definition slots_distinct :: "'n kernel_plan option \<Rightarrow> bool" where
  "slots_distinct current =
     (case current of
        None \<Rightarrow> True
      | Some c \<Rightarrow> distinct (map lp_table (kp_lanes c)) \<and> distinct (map lp_rule_priority (kp_lanes c)))"

lemma exactly_one_distinct:
  assumes "distinct (map key xs)"
  shows "exactly_one (map h (filter (\<lambda>x. key x = k) xs)) = Inr (map_option h (find (\<lambda>x. key x = k) xs))"
  using assms
proof (induction xs)
  case (Cons x xs)
  have "filter (\<lambda>x. key x = k) xs = []" if "key x = k"
    using Cons.prems that by (auto simp: filter_empty_conv image_iff)
  with Cons show ?case by auto
qed simp

lemma allowed_unicast_expected:
  "slots_distinct current \<Longrightarrow> allowed_unicast f l current = Inr (expected_route current l f)"
  by (auto simp: allowed_unicast_def expected_route_def owned_route_of_def slots_distinct_def
      exactly_one_distinct lane_for_table_def split: option.split)

lemma count_routes_fold:
  "try_fold (count_routes f T allowed) (u, t) rs =
     (if \<forall>r \<in> set rs. matches_terminal r f T \<or> is_allowed_unicast r f T allowed
      then Inr (u + length (filter (\<lambda>r. \<not> matches_terminal r f T) rs),
                t + length (filter (\<lambda>r. matches_terminal r f T) rs))
      else Inl (RoutingTableInUse T))"
  by (induction rs arbitrary: u t) auto

lemma check_route_iff:
  assumes "slots_distinct current"
  shows "check_route s current (l, f) = Inr () \<longleftrightarrow>
    clean_routes s f (lp_table l) (expected_route current l f)"
proof -
  let ?rs = "slot_routes s f (lp_table l)"
  have "check_route s current (l, f) =
      and_then (try_fold (count_routes f (lp_table l) (expected_route current l f)) (0, 0) ?rs)
        (\<lambda>(u, t). if 1 < u \<or> 1 < t then Inl (RoutingTableInUse (lp_table l)) else Inr ())"
    by (simp add: check_route_def allowed_unicast_expected [OF assms] slot_routes_def)
  then show ?thesis
    unfolding count_routes_fold clean_routes_def by (auto split: if_splits)
qed

lemma check_rule_entries_iff:
  "check_rule_entries s f priority T m = Inr () \<longleftrightarrow> clean_rules s f priority (T, m)"
  unfolding check_rule_entries_def clean_rules_def slot_rules_def
  by (auto split: list.splits)

lemma check_rule_conflict_iff:
  assumes "slots_distinct current"
  shows "check_rule_conflict s current (l, f) = Inr () \<longleftrightarrow>
    clean_rules s f (lp_rule_priority l) (expected_rule current l)"
proof (cases current)
  case None
  then show ?thesis
    by (simp add: check_rule_conflict_def check_rule_entries_iff expected_rule_def)
next
  case (Some c)
  with assms have "owned_rule_of c (lp_rule_priority l) =
      Inr (map_option (\<lambda>l. (lp_table l, lp_mark l))
        (find (\<lambda>q. lp_rule_priority q = lp_rule_priority l) (kp_lanes c)))"
    by (simp add: owned_rule_of_def slots_distinct_def exactly_one_distinct)
  then show ?thesis
    using Some by (auto simp: check_rule_conflict_def check_rule_entries_iff expected_rule_def
        split: option.split)
qed

lemma detect_iff:
  assumes "slots_distinct current"
  shows "detect_resource_conflicts_with_owner k current s = Inr () \<longleftrightarrow>
    (\<forall>l \<in> set (kp_lanes k). \<forall>f.
       clean_routes s f (lp_table l) (expected_route current l f) \<and>
       clean_rules s f (lp_rule_priority l) (expected_rule current l))"
proof -
  have "detect_resource_conflicts_with_owner k current s = Inr () \<longleftrightarrow>
      (\<forall>(l, f) \<in> set (lane_families (kp_lanes k)). check_route s current (l, f) = Inr ()) \<and>
      (\<forall>(l, f) \<in> set (lane_families (kp_lanes k)). check_rule_conflict s current (l, f) = Inr ())"
    by (auto simp: detect_resource_conflicts_with_owner_def and_then_Inr_iff try_each_Inr_iff)
  then show ?thesis
    by (auto simp: lane_families_def check_route_iff [OF assms] check_rule_conflict_iff [OF assms])
qed

lemma terminal_not_default: "matches_terminal e f T \<Longrightarrow> \<not> matches_default e g T' gw dev"
  by (cases g) (auto simp: matches_terminal_def matches_default_def TERMINAL_ROUTE_METRIC_def)

lemma length_le_1: "length xs \<le> 1 \<longleftrightarrow> xs = [] \<or> (\<exists>x. xs = [x])"
  by (cases xs) auto

lemma clean_route_state:
  assumes "clean_routes s f T (Some (Unicast gw dev))"
  shows "route_state s f T gw dev \<noteq> Foreign"
proof -
  let ?rs = "filter (\<lambda>r. re_family r = f \<and> re_table r = T \<and> \<not> matches_terminal r f T) (ks_routes s)"
  have rs: "filter (\<lambda>r. \<not> matches_terminal r f T) (slot_routes s f T) = ?rs"
    by (simp add: slot_routes_def conj_ac)
  have ok: "matches_default r f T gw dev" if "r \<in> set ?rs" for r
    using assms that by (auto simp: clean_routes_def slot_routes_def is_allowed_unicast_def)
  from assms have "?rs = [] \<or> (\<exists>r. ?rs = [r])"
    unfolding clean_routes_def rs length_le_1 by blast
  then show ?thesis
  proof
    assume "\<exists>r. ?rs = [r]"
    then obtain r where r: "?rs = [r]" by blast
    with ok [of r] show ?thesis by (simp add: route_state_def)
  qed (simp add: route_state_def)
qed

lemma clean_route_none:
  assumes "clean_routes s f T None"
  shows "route_state s f T gw dev = Missing"
proof -
  have "filter (\<lambda>r. re_family r = f \<and> re_table r = T \<and> \<not> matches_terminal r f T) (ks_routes s) = []"
    using assms by (auto simp: clean_routes_def slot_routes_def is_allowed_unicast_def filter_empty_conv)
  then show ?thesis by (simp add: route_state_def)
qed

lemma clean_rule_state:
  "clean_rules s f priority (T, m) \<Longrightarrow> rule_state s f priority T m \<noteq> Foreign"
  by (auto simp: clean_rules_def rule_state_def slot_rules_def)

section \<open>Writing and reading\<close>

lemma split_once_None_iff: "split_once c s = None \<longleftrightarrow> c \<notin> set s"
  by (induction c s rule: split_once.induct) auto

lemma parse_mark_hex: "parse_mark_u32 (hex_0x08 m) = Some m"
  by (simp add: parse_mark_u32_def hex_0x08_split parse_u32_hex_08 del: append.simps)

lemma mark_text: "parse_mark source (MarkText (hex_0x08 m)) = Inr \<lparr>mk_value = m, mk_mask = None\<rparr>"
proof -
  have "digit_value (CHR ''/'') = None" by code_simp
  then have "CHR ''/'' \<notin> set (hex_08 m)" using hex_08_digits by fastforce
  then have "split_once (CHR ''/'') (hex_0x08 m) = None"
    by (auto simp: split_once_None_iff hex_0x08_split)
  then show ?thesis by (simp add: parse_mark_hex)
qed

lemma table_text: "table_number source (TableName (word_to_string T)) = Inr T"
proof -
  have p: "parse_u32 (word_to_string T) = Some T"
    by (simp add: word_to_string_def parse_u32_decimal)
  have "parse_u32 ''default'' = None" "parse_u32 ''main'' = None" "parse_u32 ''local'' = None"
    by code_simp+
  with p have "word_to_string T \<noteq> ''default''" "word_to_string T \<noteq> ''main''"
    "word_to_string T \<noteq> ''local''" by auto
  with p show ?thesis by simp
qed

lemma try_map_all: "try_map g xs = Inr ys \<Longrightarrow> y \<in> set ys \<Longrightarrow> \<exists>x \<in> set xs. g x = Inr y"
  by (induction xs arbitrary: ys) (auto simp: and_then_Inr_iff)

lemma parse_address_family:
  "parse_address source f invalid mismatch text = Inr (Some a) \<Longrightarrow> family_matches f a"
  by (auto simp: parse_address_def split: option.splits if_splits)

lemma route_of_raw_typed:
  "route_of_raw f source r = Inr e \<Longrightarrow> re_family e = f \<and>
     (\<forall>a. re_gateway e = Some a \<longrightarrow> family_matches f a) \<and>
     (\<forall>a. re_preferred_source e = Some a \<longrightarrow> family_matches f a)"
  by (auto simp: route_of_raw_def and_then_Inr_iff dest: parse_address_family)

section \<open>Properties\<close>

text \<open>
  C13. The conflict check accepts exactly the clean snapshots: for every lane and family of the plan,
  the lane's table holds at most one terminal route and at most one other route, which is the one
  the current plan (or, in a table it does not own, the new lane) expects, and the lane's rule
  priority holds at most one rule, the expected one with the full-width mark.
\<close>

theorem conflict_check_exact:
  assumes "slots_distinct current"
  shows "detect_resource_conflicts_with_owner k current s = Inr () \<longleftrightarrow>
    (\<forall>l \<in> set (kp_lanes k). \<forall>f.
       clean_routes s f (lp_table l) (expected_route current l f) \<and>
       clean_rules s f (lp_rule_priority l) (expected_rule current l))"
  using assms by (rule detect_iff)

text \<open>
  A first installation never touches foreign resources: when the check passes without a current
  plan, every unicast route and every rule the plan will install is missing or exactly present,
  and the table of a lane without a usable route holds nothing but its terminal route.
\<close>

lemma no_conflict_no_foreign:
  assumes "detect_resource_conflicts k s = Inr ()" and "l \<in> set (kp_lanes k)"
  shows "rule_state s f (lp_rule_priority l) (lp_table l) (lp_mark l) \<noteq> Foreign \<and>
    (case lane_unicast_route l f of
       Some (Unicast gw dev) \<Rightarrow> route_state s f (lp_table l) gw dev \<noteq> Foreign
     | _ \<Rightarrow> \<forall>gw dev. route_state s f (lp_table l) gw dev = Missing)"
proof -
  have "slots_distinct (None :: 'a kernel_plan option)" by (simp add: slots_distinct_def)
  from assms detect_iff [OF this, of k s]
  have c: "clean_routes s f (lp_table l) (lane_unicast_route l f)"
    "clean_rules s f (lp_rule_priority l) (lp_table l, lp_mark l)"
    by (auto simp: detect_resource_conflicts_def expected_route_def expected_rule_def)
  have "lane_unicast_route l f \<noteq> Some Terminal"
    by (auto simp: lane_unicast_route_def split: if_splits ip_family.splits option.splits)
  with c clean_rule_state [OF c(2)] show ?thesis
    by (auto dest: clean_route_state clean_route_none split: option.split owned_route.split)
qed

text \<open>
  Commands and reader agree: the mark, table and priority texts of the \<open>ip rule\<close> command for a
  step, read back from a rule listing, are decoded as exactly the rule the step adds.
\<close>

lemma rule_command_read_back:
  assumes "args = cs_args (step_command (AddRule f priority table m))"
    and "raw = \<lparr>rw_priority = priority, rw_table = Some (TableName (args ! 5)),
      rw_fwmark = Some (MarkText (args ! 3)), rw_src = Some ''all'', rw_dst = None, rw_extra = []\<rparr>"
  shows "parse_u32 (args ! 7) = Some priority \<and>
    (\<exists>e. rule_of_raw f source raw = Inr e \<and> matches_policy e f priority table m)"
  by (simp add: assms rule_command_def ip_command_def word_to_string_def parse_u32_decimal
      rule_of_raw_def transpose_result_def mark_text matches_policy_def is_full_width_def is_none_or_def
      table_text [unfolded word_to_string_def] del: parse_mark.simps table_number.simps)

text \<open>
  Decoded routes are typed: every entry of a successfully parsed route listing carries the
  family it was requested for, and its gateway and preferred source are addresses of that family.
\<close>

lemma parsed_routes_typed:
  assumes "parse_routes read_json bytes f source = Inr rs" and "r \<in> set rs"
  shows "re_family r = f \<and> (\<forall>a. re_gateway r = Some a \<longrightarrow> family_matches f a) \<and>
    (\<forall>a. re_preferred_source r = Some a \<longrightarrow> family_matches f a)"
proof -
  from assms obtain raws where "try_map (route_of_raw f source) raws = Inr rs"
    by (auto simp: parse_routes_def and_then_Inr_iff)
  from try_map_all [OF this assms(2)] obtain x where "route_of_raw f source x = Inr r" by blast
  then show ?thesis by (rule route_of_raw_typed)
qed

section \<open>Witnesses\<close>

definition demo_lane_plan :: lane_plan where
  "demo_lane_plan = \<lparr>lp_identity = None, lp_source_v4 = [], lp_source_v6 = [], lp_id = ''a'',
     lp_interface = ''eth0'', lp_route_v4 = Some (Via 0x0A000001), lp_route_v6 = None,
     lp_availability = Available, lp_table = TABLE_BASE, lp_mark = MARK_BASE,
     lp_rule_priority = RULE_PRIORITY_BASE, lp_failure_policy = FailBlock\<rparr>"

definition demo_kernel_plan :: "u64 \<Rightarrow> nat kernel_plan" where
  "demo_kernel_plan g = \<lparr>kp_primary = default_decision, kp_local_networks = [],
     kp_local_addresses = [], kp_generation = g, kp_profile_id = ''p'',
     kp_lanes = [demo_lane_plan], kp_rules = []\<rparr>"

definition demo_route_listing :: json where
  "demo_route_listing = JArray [JObject [(''dst'', JString ''default''),
     (''gateway'', JString ''10.0.0.1''), (''dev'', JString ''eth0''),
     (''table'', JString ''20000''), (''flags'', JArray [])]]"

definition demo_route_entry :: route_entry where
  "demo_route_entry = \<lparr>re_family = V4, re_table = 20000, re_route_type = None,
     re_destination = Some ''default'', re_gateway = Some (V4Addr 0x0A000001),
     re_interface = Some ''eth0'', re_metric = None, re_protocol = None, re_scope = None,
     re_preferred_source = None, re_flags = [], re_preference = None, re_extra = []\<rparr>"

lemma demo_parse:
  "parse_routes (\<lambda>_. Some demo_route_listing) [] V4 Ipv4Routes = Inr [demo_route_entry]"
  by code_simp

definition demo_snapshot :: "(nat, nat) kernel_snapshot" where
  "demo_snapshot = \<lparr>ks_routes = [demo_route_entry], ks_rules = [], ks_nft_tables = {},
     ks_topology = empty_topology, ks_nft_generation = None, ks_nft_plan_hash = None\<rparr>"

lemma demo_detect: "detect_resource_conflicts (demo_kernel_plan 1) demo_snapshot = Inr ()"
  by code_simp

theorem conflict_check_exact_witness:
  "clean_routes demo_snapshot V4 (lp_table demo_lane_plan) (lane_unicast_route demo_lane_plan V4)"
proof -
  have "slots_distinct (None :: nat kernel_plan option)" by (simp add: slots_distinct_def)
  from conflict_check_exact [OF this, of "demo_kernel_plan 1" demo_snapshot] demo_detect
  show ?thesis
    by (simp add: detect_resource_conflicts_def demo_kernel_plan_def expected_route_def)
qed

lemma no_conflict_no_foreign_witness:
  "rule_state demo_snapshot V4 (lp_rule_priority demo_lane_plan) (lp_table demo_lane_plan)
     (lp_mark demo_lane_plan) \<noteq> Foreign"
  using no_conflict_no_foreign [OF demo_detect, of demo_lane_plan V4]
  by (simp add: demo_kernel_plan_def)

lemma rule_command_read_back_witness:
  "parse_u32 (cs_args (step_command (AddRule V4 10000 20000 0x524c0001)) ! 7) = Some 10000"
  using rule_command_read_back [OF refl refl, of V4 10000 20000 "0x524c0001"] by blast

lemma parsed_routes_typed_witness:
  "re_family demo_route_entry = V4 \<and> family_matches V4 (V4Addr 0x0A000001)"
  using parsed_routes_typed [OF demo_parse, of demo_route_entry]
  by (simp add: demo_route_entry_def)

end
