(* ===== verification/Transaction.thy ===== *)
theory Transaction
  imports Inspect
begin

text \<open>
  The apply transaction (\<open>src/src/backend/transaction.rs\<close>) over any \<open>KernelRunner\<close>: a runner is a
  record of operations on a world, each returning a result and the next world. The lemmas fix
  which operations run, in which order, and what a failure undoes, for every runner.
\<close>

section \<open>State, errors and runners\<close>

record ('n, 'h) applied_kernel_state =
  ak_generation :: u64
  ak_plan_hash :: 'h
  ak_plan :: "'n kernel_plan"

definition applied_from_plan ::
  "('n policy_content \<Rightarrow> 'h) \<Rightarrow> 'n kernel_plan \<Rightarrow> ('n, 'h) applied_kernel_state"
where
  "applied_from_plan digest k = \<lparr>ak_generation = kp_generation k,
     ak_plan_hash = content_hash digest k, ak_plan = k\<rparr>"

type_synonym runner_error = string

type_synonym ('w, 'a) action = "'w \<Rightarrow> (runner_error, 'a) result \<times> 'w"

record ('w, 'n, 'h) kernel_runner =
  kr_snapshot :: "('w, ('n, 'h) kernel_snapshot) action"
  kr_install_guard :: "'n kernel_plan \<Rightarrow> ('w, unit) action"
  kr_prepare_routes :: "'n kernel_plan \<Rightarrow> ('w, unit) action"
  kr_activate_nft :: "'n kernel_plan \<Rightarrow> ('w, unit) action"
  kr_verify :: "'n kernel_plan \<Rightarrow> ('w, unit) action"
  kr_remove_generation :: "u64 \<Rightarrow> ('w, unit) action"
  kr_remove_guard :: "('w, unit) action"
  kr_restore :: "('n, 'h) applied_kernel_state option \<Rightarrow> ('w, unit) action"

datatype apply_stage =
    InstallGuard | PrepareRoutes | ActivateNft | Verify | RemoveOldGeneration | RemoveGuard

fun stage_label :: "apply_stage \<Rightarrow> string" where
  "stage_label InstallGuard = ''install guard''"
| "stage_label PrepareRoutes = ''prepare routes''"
| "stage_label ActivateNft = ''activate nftables''"
| "stage_label Verify = ''verify generation''"
| "stage_label RemoveOldGeneration = ''remove old generation''"
| "stage_label RemoveGuard = ''remove guard''"

record mutation_failure =
  mf_stage :: apply_stage
  mf_primary_error :: runner_error
  mf_rollback_error :: "runner_error option"
  mf_cleanup_error :: "runner_error option"

datatype 'h apply_error =
    StaleGeneration u64 u64
  | GenerationConflict u64 'h 'h
  | SnapshotFailed runner_error
  | ConflictFound resource_conflict
  | Mutation mutation_failure

fun error_code :: "'h apply_error \<Rightarrow> string" where
  "error_code (StaleGeneration _ _) = ''STALE_GENERATION''"
| "error_code (GenerationConflict _ _ _) = ''GENERATION_CONFLICT''"
| "error_code (SnapshotFailed _) = ''KERNEL_SNAPSHOT_FAILED''"
| "error_code (ConflictFound _) = ''ROUTING_RESOURCE_CONFLICT''"
| "error_code (Mutation f) =
     (if mf_rollback_error f \<noteq> None \<or> mf_cleanup_error f \<noteq> None
      then ''POLICY_ROLLBACK_FAILED'' else ''POLICY_APPLY_ROLLED_BACK'')"

fun error_stage :: "'h apply_error \<Rightarrow> apply_stage option" where
  "error_stage (Mutation f) = Some (mf_stage f)"
| "error_stage _ = None"

fun primary_error :: "'h apply_error \<Rightarrow> runner_error option" where
  "primary_error (SnapshotFailed e) = Some e"
| "primary_error (Mutation f) = Some (mf_primary_error f)"
| "primary_error _ = None"

fun rollback_error :: "'h apply_error \<Rightarrow> runner_error option" where
  "rollback_error (Mutation f) = mf_rollback_error f"
| "rollback_error _ = None"

fun cleanup_error :: "'h apply_error \<Rightarrow> runner_error option" where
  "cleanup_error (Mutation f) = mf_cleanup_error f"
| "cleanup_error _ = None"

fun conflict_debug :: "resource_conflict \<Rightarrow> string" where
  "conflict_debug (RoutingTableInUse n) = ''RoutingTableInUse('' @ word_to_string n @ '')''"
| "conflict_debug (RulePriorityInUse n) = ''RulePriorityInUse('' @ word_to_string n @ '')''"

fun error_display :: "'h apply_error \<Rightarrow> string" where
  "error_display (StaleGeneration current requested) =
     ''requested generation '' @ decimal (uint requested) @
     '' is older than applied generation '' @ decimal (uint current)"
| "error_display (GenerationConflict g _ _) =
     ''generation '' @ decimal (uint g) @ '' has different policy content''"
| "error_display (SnapshotFailed e) = ''kernel snapshot failed: '' @ e"
| "error_display (ConflictFound c) = ''routing resource conflict: '' @ conflict_debug c"
| "error_display (Mutation f) =
     stage_label (mf_stage f) @ '' failed: '' @ mf_primary_error f @
     (case mf_rollback_error f of Some e \<Rightarrow> ''; restore failed: '' @ e | None \<Rightarrow> []) @
     (case mf_cleanup_error f of Some e \<Rightarrow> ''; guard cleanup failed: '' @ e | None \<Rightarrow> [])"

section \<open>The transaction\<close>

definition err_of :: "('e, 'a) result \<Rightarrow> 'e option" where
  "err_of r = (case r of Inl e \<Rightarrow> Some e | Inr _ \<Rightarrow> None)"

definition run_mutating_stage ::
  "('w, 'n, 'h) kernel_runner \<Rightarrow> ('n, 'h) applied_kernel_state option \<Rightarrow> apply_stage \<Rightarrow>
     ('w, unit) action \<Rightarrow> 'w \<Rightarrow> ('h apply_error, unit) result \<times> 'w"
where
  "run_mutating_stage R current stage act w =
     (case act w of
        (Inr _, w) \<Rightarrow> (Inr (), w)
      | (Inl e, w) \<Rightarrow>
          (let (restored, w) = kr_restore R current w;
               (cleaned, w) = kr_remove_guard R w
           in (Inl (Mutation \<lparr>mf_stage = stage, mf_primary_error = e,
                 mf_rollback_error = err_of restored, mf_cleanup_error = err_of cleaned\<rparr>), w)))"

text \<open>The stages in the order of their calls; the old generation is removed when there is one.\<close>

definition stages ::
  "('w, 'n, 'h) kernel_runner \<Rightarrow> ('n, 'h) applied_kernel_state option \<Rightarrow> 'n kernel_plan \<Rightarrow>
     (apply_stage \<times> ('w, unit) action) list"
where
  "stages R current next =
     [(InstallGuard, kr_install_guard R next), (PrepareRoutes, kr_prepare_routes R next),
      (ActivateNft, kr_activate_nft R next), (Verify, kr_verify R next)] @
     (case current of
        Some c \<Rightarrow> [(RemoveOldGeneration, kr_remove_generation R (ak_generation c))]
      | None \<Rightarrow> []) @
     [(RemoveGuard, kr_remove_guard R)]"

fun run_stages ::
  "('w, 'n, 'h) kernel_runner \<Rightarrow> ('n, 'h) applied_kernel_state option \<Rightarrow>
     (apply_stage \<times> ('w, unit) action) list \<Rightarrow> 'w \<Rightarrow> ('h apply_error, unit) result \<times> 'w"
where
  "run_stages R current [] w = (Inr (), w)"
| "run_stages R current ((stage, act) # rest) w =
     (case run_mutating_stage R current stage act w of
        (Inl e, w) \<Rightarrow> (Inl e, w)
      | (Inr _, w) \<Rightarrow> run_stages R current rest w)"

definition transition_plan ::
  "('n policy_content \<Rightarrow> 'h) \<Rightarrow> ('w, 'n, 'h) kernel_runner \<Rightarrow> ('n, 'h) applied_kernel_state option \<Rightarrow>
     'n kernel_plan \<Rightarrow> 'w \<Rightarrow> ('h apply_error, ('n, 'h) applied_kernel_state) result \<times> 'w"
where
  "transition_plan digest R current next w =
     (case kr_snapshot R w of
        (Inl e, w) \<Rightarrow> (Inl (SnapshotFailed e), w)
      | (Inr s, w) \<Rightarrow>
          (case (case current of
               Some c \<Rightarrow> detect_resource_conflicts_for_update next (ak_plan c) s
             | None \<Rightarrow> detect_resource_conflicts next s) of
             Inl c \<Rightarrow> (Inl (ConflictFound c), w)
           | Inr _ \<Rightarrow>
               (case run_stages R current (stages R current next) w of
                  (Inl e, w) \<Rightarrow> (Inl e, w)
                | (Inr _, w) \<Rightarrow> (Inr (applied_from_plan digest next), w))))"

definition apply_plan ::
  "('n policy_content \<Rightarrow> 'h) \<Rightarrow> ('w, 'n, 'h) kernel_runner \<Rightarrow> ('n, 'h) applied_kernel_state option \<Rightarrow>
     'n kernel_plan \<Rightarrow> 'w \<Rightarrow> ('h apply_error, ('n, 'h) applied_kernel_state) result \<times> 'w"
where
  "apply_plan digest R current next w =
     (case current of
        None \<Rightarrow> transition_plan digest R current next w
      | Some c \<Rightarrow>
          if kp_generation next < ak_generation c
          then (Inl (StaleGeneration (ak_generation c) (kp_generation next)), w)
          else if kp_generation next = ak_generation c then
            (if content_hash digest next = ak_plan_hash c then (Inr c, w)
             else (Inl (GenerationConflict (kp_generation next) (ak_plan_hash c)
                 (content_hash digest next)), w))
          else transition_plan digest R current next w)"

definition restore_plan ::
  "('n policy_content \<Rightarrow> 'h) \<Rightarrow> ('w, 'n, 'h) kernel_runner \<Rightarrow> ('n, 'h) applied_kernel_state \<Rightarrow>
     'n kernel_plan \<Rightarrow> 'w \<Rightarrow> ('h apply_error, ('n, 'h) applied_kernel_state) result \<times> 'w"
where
  "restore_plan digest R current previous w = transition_plan digest R (Some current) previous w"

section \<open>Runs of stages\<close>

text \<open>\<open>stages_ok ss w w'\<close>: the actions of \<open>ss\<close> succeed one after the other from \<open>w\<close> to \<open>w'\<close>.\<close>

inductive stages_ok :: "(apply_stage \<times> ('w, unit) action) list \<Rightarrow> 'w \<Rightarrow> 'w \<Rightarrow> bool" where
  nil: "stages_ok [] w w"
| cons: "act w = (Inr (), w1) \<Longrightarrow> stages_ok rest w1 w2 \<Longrightarrow> stages_ok ((st, act) # rest) w w2"

inductive_simps stages_ok_Nil: "stages_ok [] w w'"
inductive_simps stages_ok_Cons: "stages_ok (s # ss) w w'"

text \<open>
  \<open>rolled_back\<close>: some prefix of the stages succeeded, the next one failed, and then the previous
  state was restored and the guard removed, each exactly once.
\<close>

inductive rolled_back ::
  "('w, 'n, 'h) kernel_runner \<Rightarrow> ('n, 'h) applied_kernel_state option \<Rightarrow>
     (apply_stage \<times> ('w, unit) action) list \<Rightarrow> 'w \<Rightarrow> mutation_failure \<Rightarrow> 'w \<Rightarrow> bool"
  for R current
where
  "ss = before @ (st, act) # after \<Longrightarrow> stages_ok before w w1 \<Longrightarrow> act w1 = (Inl e, w2) \<Longrightarrow>
   kr_restore R current w2 = (r, w3) \<Longrightarrow> kr_remove_guard R w3 = (g, w4) \<Longrightarrow>
   f = \<lparr>mf_stage = st, mf_primary_error = e, mf_rollback_error = err_of r,
     mf_cleanup_error = err_of g\<rparr> \<Longrightarrow>
   rolled_back R current ss w f w4"

inductive_cases rolled_backE: "rolled_back R current ss w f w'"

lemma run_stages_ok: "run_stages R current ss w = (Inr (), w') \<longleftrightarrow> stages_ok ss w w'"
proof (induction ss arbitrary: w)
  case Nil
  then show ?case by (auto simp: stages_ok_Nil)
next
  case (Cons s ss)
  obtain st act where s: "s = (st, act)" by (cases s)
  show ?case
    by (cases "act w"; cases "fst (act w)")
       (auto simp: s stages_ok_Cons run_mutating_stage_def Cons.IH split: prod.split)
qed

lemma run_stages_failed:
  "run_stages R current ss w = (Inl e, w') \<Longrightarrow> \<exists>f. e = Mutation f \<and> rolled_back R current ss w f w'"
proof (induction ss arbitrary: w)
  case (Cons s ss)
  obtain st act where s: "s = (st, act)" by (cases s)
  obtain r w1 where a: "act w = (r, w1)" by (cases "act w")
  show ?case
  proof (cases r)
    case (Inl x)
    obtain rr w2 where rr: "kr_restore R current w1 = (rr, w2)" by (cases "kr_restore R current w1")
    obtain g w3 where g: "kr_remove_guard R w2 = (g, w3)" by (cases "kr_remove_guard R w2")
    from Cons.prems a Inl rr g have e: "e = Mutation \<lparr>mf_stage = st, mf_primary_error = x,
        mf_rollback_error = err_of rr, mf_cleanup_error = err_of g\<rparr>" "w' = w3"
      by (auto simp: s run_mutating_stage_def)
    have "rolled_back R current (s # ss) w \<lparr>mf_stage = st, mf_primary_error = x,
        mf_rollback_error = err_of rr, mf_cleanup_error = err_of g\<rparr> w3"
      by (rule rolled_back.intros [where before = "[]" and after = ss and act = act, OF _ stages_ok.nil])
         (use a Inl rr g s in auto)
    with e show ?thesis by blast
  next
    case (Inr u)
    with Cons.prems a have "run_stages R current ss w1 = (Inl e, w')"
      by (simp add: s run_mutating_stage_def)
    from Cons.IH [OF this] obtain f where f: "e = Mutation f" "rolled_back R current ss w1 f w'"
      by blast
    from f(2) have "rolled_back R current (s # ss) w f w'"
    proof cases
      case (1 before st' act' after w1' e' w2 r' w3 g)
      have ok: "stages_ok (s # before) w w1'"
        unfolding s by (rule stages_ok.cons [OF _ 1(2)]) (use a Inr in simp)
      from 1(1) have "s # ss = (s # before) @ (st', act') # after" by simp
      from rolled_back.intros [OF this ok 1(3-5)] 1(6) show ?thesis by blast
    qed
    with f(1) show ?thesis by blast
  qed
qed simp

section \<open>Properties\<close>

text \<open>
  A plan that is not newer than the applied one touches nothing: an older generation is refused
  as stale, the same generation is accepted without work when its content hash agrees and refused
  otherwise, and in all three cases no operation of the runner is called.
\<close>

lemma old_generation_touches_nothing:
  assumes "kp_generation next \<le> ak_generation c"
  shows "apply_plan digest R (Some c) next w =
    ((if kp_generation next < ak_generation c
      then Inl (StaleGeneration (ak_generation c) (kp_generation next))
      else if content_hash digest next = ak_plan_hash c then Inr c
      else Inl (GenerationConflict (kp_generation next) (ak_plan_hash c) (content_hash digest next))),
     w)"
  using assms by (auto simp: apply_plan_def)

text \<open>
  Nothing is changed before the snapshot is read and found free of conflicts: when a plan is
  refused for its snapshot or for a resource conflict, reading the snapshot is the only operation
  that has run.
\<close>

lemma refused_before_mutation:
  assumes "transition_plan digest R current next w = (Inl e, w')"
    and "error_stage e = None"
  shows "w' = snd (kr_snapshot R w) \<and> (\<exists>x c. e = SnapshotFailed x \<or> e = ConflictFound c)"
proof (cases "kr_snapshot R w")
  case (Pair r w1)
  show ?thesis
  proof (cases "\<exists>s. r = Inr s \<and> (case current of
      Some c \<Rightarrow> detect_resource_conflicts_for_update next (ak_plan c) s
    | None \<Rightarrow> detect_resource_conflicts next s) = Inr ()")
    case True
    with assms(1) Pair obtain w2 where "run_stages R current (stages R current next) w1 = (Inl e, w2)"
      by (auto simp: transition_plan_def split: prod.splits sum.splits)
    from run_stages_failed [OF this] assms(2) show ?thesis by auto
  next
    case False
    with assms(1) Pair show ?thesis
      by (cases r) (auto simp: transition_plan_def split: sum.splits option.splits)
  qed
qed

text \<open>
  Success means the whole transaction: the snapshot was free of conflicts, guard, routes,
  nftables, verification, removal of the old generation (when there is one) and removal of the
  guard all succeeded in that order and nothing else ran, and the recorded state is the new plan.
\<close>

lemma applied_means_all_stages:
  assumes "transition_plan digest R current next w = (Inr state, w')"
  shows "state = applied_from_plan digest next \<and>
    (\<exists>s w1. kr_snapshot R w = (Inr s, w1) \<and>
       detect_resource_conflicts_with_owner next (map_option ak_plan current) s = Inr () \<and>
       stages_ok (stages R current next) w1 w')"
proof -
  from assms obtain s w1 where s: "kr_snapshot R w = (Inr s, w1)"
    by (auto simp: transition_plan_def split: prod.splits sum.splits)
  let ?check = "case current of
      Some c \<Rightarrow> detect_resource_conflicts_for_update next (ak_plan c) s
    | None \<Rightarrow> detect_resource_conflicts next s"
  have check: "?check = detect_resource_conflicts_with_owner next (map_option ak_plan current) s"
    by (simp add: detect_resource_conflicts_def detect_resource_conflicts_for_update_def
        split: option.split)
  from assms s have ok: "?check = Inr ()"
    by (auto simp: transition_plan_def split: sum.splits)
  with assms s have "run_stages R current (stages R current next) w1 = (Inr (), w')"
    and "state = applied_from_plan digest next"
    by (auto simp: transition_plan_def split: prod.splits sum.splits)
  with s ok check show ?thesis by (auto simp: run_stages_ok)
qed

text \<open>
  C16. A failed stage is always rolled back: after any stage error, the stages before it succeeded
  in order, no stage after it ran, the previous state was restored and then the guard removed,
  exactly once each; and the error code tells whether both succeeded.
\<close>

theorem failure_is_rolled_back:
  assumes "transition_plan digest R current next w = (Inl e, w')"
    and "error_stage e = Some stage"
  shows "\<exists>f s w1. e = Mutation f \<and> kr_snapshot R w = (Inr s, w1) \<and>
    rolled_back R current (stages R current next) w1 f w' \<and>
    (error_code e = ''POLICY_APPLY_ROLLED_BACK'' \<longleftrightarrow>
       mf_rollback_error f = None \<and> mf_cleanup_error f = None)"
proof -
  from assms obtain s w1 where s: "kr_snapshot R w = (Inr s, w1)"
    by (cases "kr_snapshot R w"; cases "fst (kr_snapshot R w)")
       (auto simp: transition_plan_def)
  from assms s have "run_stages R current (stages R current next) w1 = (Inl e, w')"
    by (auto simp: transition_plan_def split: prod.splits sum.splits)
  from run_stages_failed [OF this] s show ?thesis by auto
qed

section \<open>Witnesses\<close>

text \<open>A runner that logs its calls and fails at the stage given.\<close>

definition demo_act :: "apply_stage \<Rightarrow> apply_stage option \<Rightarrow> (string list, unit) action" where
  "demo_act st bad w =
     (if bad = Some st then Inl ''failed'' else Inr (), w @ [stage_label st])"

definition demo_runner :: "apply_stage option \<Rightarrow> (nat, nat) kernel_snapshot option \<Rightarrow>
    (string list, nat, nat) kernel_runner" where
  "demo_runner bad snap = \<lparr>
     kr_snapshot = (\<lambda>w. (ok_or ''no snapshot'' snap, w @ [''snapshot''])),
     kr_install_guard = (\<lambda>_. demo_act InstallGuard bad),
     kr_prepare_routes = (\<lambda>_. demo_act PrepareRoutes bad),
     kr_activate_nft = (\<lambda>_. demo_act ActivateNft bad),
     kr_verify = (\<lambda>_. demo_act Verify bad),
     kr_remove_generation = (\<lambda>_. demo_act RemoveOldGeneration bad),
     kr_remove_guard = demo_act RemoveGuard bad,
     kr_restore = (\<lambda>_ w. (Inr (), w @ [''restore'']))\<rparr>"

definition demo_digest :: "nat policy_content \<Rightarrow> nat" where
  "demo_digest c = length (pc_lanes c)"

lemma demo_run_fail:
  "transition_plan demo_digest (demo_runner (Some Verify) (Some demo_snapshot)) None
     (demo_kernel_plan 1) [] =
   (Inl (Mutation \<lparr>mf_stage = Verify, mf_primary_error = ''failed'', mf_rollback_error = None,
      mf_cleanup_error = None\<rparr>),
    [''snapshot'', ''install guard'', ''prepare routes'', ''activate nftables'',
     ''verify generation'', ''restore'', ''remove guard''])"
  using demo_detect
  by (simp add: transition_plan_def demo_runner_def stages_def run_mutating_stage_def demo_act_def
      err_of_def)

lemma demo_run_ok:
  "transition_plan demo_digest (demo_runner None (Some demo_snapshot)) None (demo_kernel_plan 1) [] =
   (Inr (applied_from_plan demo_digest (demo_kernel_plan 1)),
    [''snapshot'', ''install guard'', ''prepare routes'', ''activate nftables'',
     ''verify generation'', ''remove guard''])"
  using demo_detect
  by (simp add: transition_plan_def demo_runner_def stages_def run_mutating_stage_def demo_act_def)

lemma demo_run_refused:
  "transition_plan demo_digest (demo_runner None None) None (demo_kernel_plan 1) [] =
     (Inl (SnapshotFailed ''no snapshot''), [''snapshot''])"
  by (simp add: transition_plan_def demo_runner_def)

lemma old_generation_touches_nothing_witness:
  "snd (apply_plan demo_digest (demo_runner None None)
     (Some (applied_from_plan demo_digest (demo_kernel_plan 2))) (demo_kernel_plan 1) []) = []"
  by (subst old_generation_touches_nothing) (simp_all add: applied_from_plan_def demo_kernel_plan_def)

lemma refused_before_mutation_witness:
  "[''snapshot''] = snd (kr_snapshot (demo_runner None None) [])"
  using refused_before_mutation [OF demo_run_refused] by simp

lemma applied_means_all_stages_witness:
  "\<exists>w1. stages_ok (stages (demo_runner None (Some demo_snapshot)) None (demo_kernel_plan 1)) w1
     [''snapshot'', ''install guard'', ''prepare routes'', ''activate nftables'',
      ''verify generation'', ''remove guard'']"
  using applied_means_all_stages [OF demo_run_ok] by blast

theorem failure_is_rolled_back_witness:
  "\<exists>f w1. rolled_back (demo_runner (Some Verify) (Some demo_snapshot)) None
     (stages (demo_runner (Some Verify) (Some demo_snapshot)) None (demo_kernel_plan 1)) w1 f
     [''snapshot'', ''install guard'', ''prepare routes'', ''activate nftables'',
      ''verify generation'', ''restore'', ''remove guard'']"
  using failure_is_rolled_back [OF demo_run_fail, of Verify] by auto

end
