(* ===== verification/Validation.thy ===== *)
theory Validation
  imports Planner
begin

text \<open>
  What the privileged helper checks of a plan it is asked to activate
  (\<open>src/src/backend/privileged.rs\<close>: \<open>validate_privileged_plan\<close>, \<open>validate_new_plan_rules\<close> and
  their name predicates). The helper does not trust the daemon's planner; the theorems say what
  the checks amount to, and which plans of the planner pass them.
\<close>

section \<open>Errors and names\<close>

datatype validation_error =
    ZeroGeneration
  | PlanTooManyLanes nat nat
  | PlanTooManyRules nat nat
  | TableOutOfRange u32
  | MarkOutOfRange u32
  | PriorityOutOfRange u32
  | PlanDuplicateLaneId lane_id
  | DuplicateTable u32
  | DuplicateMark u32
  | DuplicatePriority u32
  | DuplicateCompiledRule rule_id
  | InvalidInterface string
  | InvalidApplicationCgroup string
  | UnknownMark u32

definition MAX_LANES :: nat where "MAX_LANES = 100"
definition MAX_RULES :: nat where "MAX_RULES = 10000"

definition is_kernel_interface_name :: "string \<Rightarrow> bool" where
  "is_kernel_interface_name s =
     (s \<noteq> [] \<and> length s \<le> 15 \<and>
      list_all (\<lambda>b. is_ascii_alphanumeric b \<or> b \<in> {CHR ''_'', CHR ''-'', CHR ''.''}) s)"

definition is_routelane_application_cgroup :: "string \<Rightarrow> bool" where
  "is_routelane_application_cgroup p =
     (case strip_prefix ''routelane.apps/'' p of
        None \<Rightarrow> False
      | Some i \<Rightarrow> i \<noteq> [] \<and>
          list_all (\<lambda>b. is_ascii_alphanumeric b \<or> b \<in> {CHR ''-'', CHR ''_''}) i)"

section \<open>The checks\<close>

text \<open>The identifiers, tables, marks and priorities the loop has seen.\<close>

type_synonym seen_lanes = "lane_id set \<times> u32 set \<times> u32 set \<times> u32 set"

definition check_plan_lane ::
  "seen_lanes \<Rightarrow> lane_plan \<Rightarrow> (validation_error, seen_lanes) result"
where
  "check_plan_lane = (\<lambda>(ids, tables, marks, priorities) l.
     if \<not> (TABLE_BASE \<le> lp_table l \<and> lp_table l \<le> TABLE_MAX) then Inl (TableOutOfRange (lp_table l))
     else if \<not> (MARK_BASE \<le> lp_mark l \<and> lp_mark l \<le> MARK_MAX) then Inl (MarkOutOfRange (lp_mark l))
     else if \<not> (RULE_PRIORITY_BASE \<le> lp_rule_priority l \<and> lp_rule_priority l \<le> RULE_PRIORITY_MAX)
     then Inl (PriorityOutOfRange (lp_rule_priority l))
     else if \<not> is_kernel_interface_name (lp_interface l) then Inl (InvalidInterface (lp_interface l))
     else if lp_id l \<in> ids then Inl (PlanDuplicateLaneId (lp_id l))
     else if lp_table l \<in> tables then Inl (DuplicateTable (lp_table l))
     else if lp_mark l \<in> marks then Inl (DuplicateMark (lp_mark l))
     else if lp_rule_priority l \<in> priorities then Inl (DuplicatePriority (lp_rule_priority l))
     else Inr (insert (lp_id l) ids, insert (lp_table l) tables, insert (lp_mark l) marks,
       insert (lp_rule_priority l) priorities))"

definition check_plan_rule ::
  "u32 set \<Rightarrow> 'n compiled_rule \<Rightarrow> (validation_error, unit) result"
where
  "check_plan_rule marks c =
     and_then
       (case cr_target c of
          Cgroup p \<Rightarrow>
            if is_routelane_application_cgroup p then Inr () else Inl (InvalidApplicationCgroup p)
        | _ \<Rightarrow> Inr ())
       (\<lambda>_. case cr_action c of
          Mark m \<Rightarrow> if m \<in> marks then Inr () else Inl (UnknownMark m)
        | _ \<Rightarrow> Inr ())"

definition validate_privileged_plan :: "'n kernel_plan \<Rightarrow> (validation_error, unit) result" where
  "validate_privileged_plan k =
     (if kp_generation k = 0 then Inl ZeroGeneration
      else if MAX_LANES < length (kp_lanes k)
      then Inl (PlanTooManyLanes (length (kp_lanes k)) MAX_LANES)
      else if MAX_RULES < length (kp_rules k)
      then Inl (PlanTooManyRules (length (kp_rules k)) MAX_RULES)
      else and_then (try_fold check_plan_lane ({}, {}, {}, {}) (kp_lanes k))
        (\<lambda>(_, _, marks, _). try_each (check_plan_rule marks) (kp_rules k)))"

definition validate_new_plan_rules ::
  "'n foreign \<Rightarrow> 'n kernel_plan \<Rightarrow> (validation_error, unit) result"
where
  "validate_new_plan_rules X k =
     and_then (try_fold (\<lambda>verdicts c.
         if routing_key X c \<in> verdicts then Inl (DuplicateCompiledRule (cr_id c))
         else Inr (insert (routing_key X c) verdicts)) {} (kp_rules k))
       (\<lambda>_. Inr ())"

section \<open>What they amount to\<close>

definition lane_admissible :: "lane_plan \<Rightarrow> bool" where
  "lane_admissible l =
     (lp_table l \<in> {TABLE_BASE..TABLE_MAX} \<and> lp_mark l \<in> {MARK_BASE..MARK_MAX} \<and>
      lp_rule_priority l \<in> {RULE_PRIORITY_BASE..RULE_PRIORITY_MAX} \<and>
      is_kernel_interface_name (lp_interface l))"

definition rule_admissible :: "u32 set \<Rightarrow> 'n compiled_rule \<Rightarrow> bool" where
  "rule_admissible marks c =
     ((\<forall>p. cr_target c = Cgroup p \<longrightarrow> is_routelane_application_cgroup p) \<and>
      (\<forall>m. cr_action c = Mark m \<longrightarrow> m \<in> marks))"

definition plan_admissible :: "'n kernel_plan \<Rightarrow> bool" where
  "plan_admissible k =
     (kp_generation k \<noteq> 0 \<and> length (kp_lanes k) \<le> 100 \<and> length (kp_rules k) \<le> 10000 \<and>
      (\<forall>l \<in> set (kp_lanes k). lane_admissible l) \<and>
      distinct (map lp_id (kp_lanes k)) \<and> distinct (map lp_table (kp_lanes k)) \<and>
      distinct (map lp_mark (kp_lanes k)) \<and> distinct (map lp_rule_priority (kp_lanes k)) \<and>
      (\<forall>c \<in> set (kp_rules k). rule_admissible (lp_mark ` set (kp_lanes k)) c))"

lemma check_plan_lane_Inr:
  "check_plan_lane (a, b, c, d) l = Inr s \<longleftrightarrow>
     lane_admissible l \<and> lp_id l \<notin> a \<and> lp_table l \<notin> b \<and> lp_mark l \<notin> c \<and>
     lp_rule_priority l \<notin> d \<and>
     s = (insert (lp_id l) a, insert (lp_table l) b, insert (lp_mark l) c,
       insert (lp_rule_priority l) d)"
  by (auto simp: check_plan_lane_def lane_admissible_def)

lemma check_plan_lanes_Inr:
  "try_fold check_plan_lane (a, b, c, d) ls = Inr s \<longleftrightarrow>
     (\<forall>l \<in> set ls. lane_admissible l) \<and>
     distinct (map lp_id ls) \<and> lp_id ` set ls \<inter> a = {} \<and>
     distinct (map lp_table ls) \<and> lp_table ` set ls \<inter> b = {} \<and>
     distinct (map lp_mark ls) \<and> lp_mark ` set ls \<inter> c = {} \<and>
     distinct (map lp_rule_priority ls) \<and> lp_rule_priority ` set ls \<inter> d = {} \<and>
     s = (lp_id ` set ls \<union> a, lp_table ` set ls \<union> b, lp_mark ` set ls \<union> c,
       lp_rule_priority ` set ls \<union> d)"
proof (induction ls arbitrary: a b c d)
  case (Cons l ls)
  show ?case
  proof (cases "check_plan_lane (a, b, c, d) l")
    case (Inl e)
    with check_plan_lane_Inr [of a b c d l] have "\<not> (lane_admissible l \<and> lp_id l \<notin> a \<and>
        lp_table l \<notin> b \<and> lp_mark l \<notin> c \<and> lp_rule_priority l \<notin> d)" by auto
    then show ?thesis unfolding try_fold.simps Inl sum.case by (simp only: sum.distinct) auto
  next
    case (Inr s')
    with check_plan_lane_Inr [of a b c d l s'] show ?thesis
      by (auto simp: Cons.IH)
  qed
qed auto

lemma check_plan_rule_Inr: "check_plan_rule marks c = Inr () \<longleftrightarrow> rule_admissible marks c"
  by (auto simp: check_plan_rule_def rule_admissible_def and_then_def
      split: compiled_target.split compiled_action.split)

lemma validate_new_plan_rules_Inr:
  "validate_new_plan_rules X k = Inr () \<longleftrightarrow> distinct (map (routing_key X) (kp_rules k))"
proof -
  have "(\<exists>s. try_fold (\<lambda>verdicts c.
         if routing_key X c \<in> verdicts then Inl (DuplicateCompiledRule (cr_id c) :: validation_error)
         else Inr (insert (routing_key X c) verdicts)) {} (kp_rules k) = Inr s) \<longleftrightarrow>
      scan_ok (\<lambda>seen x. routing_key X x \<notin> seen) (\<lambda>seen x. insert (routing_key X x) seen) {} (kp_rules k)"
    by (rule try_fold_scan(2)) auto
  then show ?thesis
    by (auto simp: validate_new_plan_rules_def and_then_Inr_iff scan_ok_distinct)
qed

lemma validate_privileged_plan_Inr: "validate_privileged_plan k = Inr () \<longleftrightarrow> plan_admissible k"
  unfolding validate_privileged_plan_def plan_admissible_def MAX_LANES_def MAX_RULES_def
  by (auto simp: and_then_Inr_iff check_plan_lanes_Inr try_each_Inr_iff check_plan_rule_Inr
      simp del: try_each_simps)

text \<open>The application cgroups a compiled plan names.\<close>

lemma routing_key_cgroup: "fst (snd (routing_key X c)) = Cgroup q \<longleftrightarrow> cr_target c = Cgroup q"
  by (auto simp: routing_key_def split: compiled_target.split)

lemma rule_targets_cgroup:
  "(\<exists>ts tgt. rule_targets X res r = Inr ts \<and> tgt \<in> set ts \<and> tgt = Cgroup q) \<longleftrightarrow>
     r_source r \<noteq> SourceAny \<and> q = ''routelane.apps/'' @ r_id r"
  by (auto simp: rule_targets_def and_then_Inr_iff split: rule_source.splits rule_target.splits)

lemma compiled_cgroups:
  assumes "compile_profile_with_primary X p t res primary g = Some (Inr k)"
  shows "(\<exists>c \<in> set (kp_rules k). cr_target c = Cgroup q) \<longleftrightarrow>
    (\<exists>r \<in> set (p_rules p). r_enabled r \<and> r_source r \<noteq> SourceAny \<and>
       q = ''routelane.apps/'' @ r_id r \<and> (\<exists>f a. verdict p (kp_lanes k) primary f (r_action r) a))"
proof -
  have rules: "kp_rules k = retain_first (routing_key X) {} (all_output X p t res primary)"
    by (simp add: compiled_plan(5) [OF assms])
  have "(\<exists>c \<in> set (kp_rules k). cr_target c = Cgroup q) \<longleftrightarrow>
      (\<exists>key \<in> routing_key X ` set (kp_rules k). fst (snd key) = Cgroup q)"
    by (auto simp: routing_key_cgroup)
  also have "\<dots> \<longleftrightarrow> (\<exists>c \<in> set (all_output X p t res primary). cr_target c = Cgroup q)"
    by (auto simp: rules retain_first_keys routing_key_cgroup)
  also have "\<dots> \<longleftrightarrow> (\<exists>r ts f a. r \<in> set (p_rules p) \<and> r_enabled r \<and>
      rule_targets X res r = Inr ts \<and> Cgroup q \<in> set ts \<and>
      verdict p (kp_lanes k) primary f (r_action r) a)"
  proof
    assume "\<exists>c \<in> set (all_output X p t res primary). cr_target c = Cgroup q"
    then obtain c where c: "c \<in> set (all_output X p t res primary)" "cr_target c = Cgroup q" ..
    from c(1) obtain r ts tgt f a where r: "r \<in> set (p_rules p)" "r_enabled r"
      "rule_targets X res r = Inr ts" "tgt \<in> set ts"
      "verdict p (kp_lanes k) primary f (r_action r) a" "c = compiled_rule_of r tgt f a"
      unfolding in_all_output [OF assms] by blast
    with c(2) have "tgt = Cgroup q" by (simp add: compiled_rule_of_def)
    with r show "\<exists>r ts f a. r \<in> set (p_rules p) \<and> r_enabled r \<and> rule_targets X res r = Inr ts \<and>
        Cgroup q \<in> set ts \<and> verdict p (kp_lanes k) primary f (r_action r) a" by blast
  next
    assume "\<exists>r ts f a. r \<in> set (p_rules p) \<and> r_enabled r \<and> rule_targets X res r = Inr ts \<and>
        Cgroup q \<in> set ts \<and> verdict p (kp_lanes k) primary f (r_action r) a"
    then obtain r ts f a where r: "r \<in> set (p_rules p)" "r_enabled r"
      "rule_targets X res r = Inr ts" "Cgroup q \<in> set ts"
      "verdict p (kp_lanes k) primary f (r_action r) a" by blast
    have "f \<in> set (target_families X (Cgroup q))" by (cases f) (simp_all add: target_families_def)
    with r have "compiled_rule_of r (Cgroup q) f a \<in> set (all_output X p t res primary)"
      unfolding in_all_output [OF assms] by blast
    then show "\<exists>c \<in> set (all_output X p t res primary). cr_target c = Cgroup q"
      by (rule bexI [rotated]) (simp add: compiled_rule_of_def)
  qed
  finally show ?thesis using rule_targets_cgroup [of X res _ q] by blast
qed

definition safe_rule_id :: "rule_id \<Rightarrow> bool" where
  "safe_rule_id i =
     (i \<noteq> [] \<and> list_all (\<lambda>b. is_ascii_alphanumeric b \<or> b \<in> {CHR ''-'', CHR ''_''}) i)"

lemma cgroup_of_rule:
  "is_routelane_application_cgroup (''routelane.apps/'' @ i) \<longleftrightarrow> safe_rule_id i"
  unfolding is_routelane_application_cgroup_def safe_rule_id_def strip_prefix_append by simp

lemma compiled_interfaces:
  assumes "compile_profile_with_primary X p t res primary g = Some (Inr k)"
  shows "lp_interface ` set (kp_lanes k) = l_interface ` set (p_lanes p)"
proof -
  have "map lp_interface (compile_lanes t (p_lanes p)) = map l_interface (sort_key l_id (p_lanes p))"
    by (rule nth_equalityI) (simp_all add: compile_lanes_nth)
  then have "set (map lp_interface (kp_lanes k)) = set (map l_interface (sort_key l_id (p_lanes p)))"
    by (simp add: compiled_plan(5) [OF assms])
  then show ?thesis by simp
qed

lemma compiled_plan_sizes:
  assumes "compile_profile_with_primary X p t res primary g = Some (Inr k)"
  shows "length (kp_lanes k) \<le> 100" "kp_generation k = g" "distinct (map lp_id (kp_lanes k))"
    "distinct (map (routing_key X) (kp_rules k))"
  using compiled_plan [OF assms] compiled_lanes_distinct(2) [OF assms]
    retain_first_distinct [of "routing_key X" "{}" "all_output X p t res primary"]
  by (simp_all add: profile_ok_def strict_sorted_iff)

section \<open>Properties\<close>

text \<open>
  C17. The helper's validation is exact: it accepts a plan if and only if its generation is nonzero,
  it has at most 100 lanes and 10000 rules, every lane owns a table, mark and priority in the
  reserved ranges and a well-formed interface name, no two lanes share an identifier, table, mark
  or priority, every cgroup target is a RouteLane application cgroup, and every mark of a rule
  belongs to a lane of the plan.
\<close>

theorem privileged_validation_exact: "validate_privileged_plan k = Inr () \<longleftrightarrow> plan_admissible k"
  by (rule validate_privileged_plan_Inr)

text \<open>
  C18. The planner and the helper agree: a compiled plan always passes the check for repeated
  verdicts, and it passes the privileged validation exactly if its generation is nonzero, the
  interface names of the profile's lanes are kernel interface names, the enabled application rules
  that compile to something have identifiers fit for a cgroup name, and there are at most 10000
  compiled rules. Ranges, uniqueness and known marks never make the helper refuse it.
\<close>

theorem compiled_plan_validates:
  assumes "compile_profile_with_primary X p t res primary g = Some (Inr k)"
  shows "validate_new_plan_rules X k = Inr () \<and>
    (validate_privileged_plan k = Inr () \<longleftrightarrow>
       g \<noteq> 0 \<and> (\<forall>l \<in> set (p_lanes p). is_kernel_interface_name (l_interface l)) \<and>
       length (kp_rules k) \<le> 10000 \<and>
       (\<forall>r \<in> set (p_rules p). r_enabled r \<and> r_source r \<noteq> SourceAny \<and>
          (\<exists>f a. verdict p (kp_lanes k) primary f (r_action r) a) \<longrightarrow> safe_rule_id (r_id r)))"
proof -
  note sizes = compiled_plan_sizes [OF assms]
  have lanes: "(\<forall>l \<in> set (kp_lanes k). lane_admissible l) \<longleftrightarrow>
      (\<forall>l \<in> set (p_lanes p). is_kernel_interface_name (l_interface l))"
  proof -
    have "(\<forall>l \<in> set (kp_lanes k). lane_admissible l) \<longleftrightarrow>
        (\<forall>n \<in> lp_interface ` set (kp_lanes k). is_kernel_interface_name n)"
      using compiled_lane_ranges [OF assms] by (auto simp: lane_admissible_def)
    then show ?thesis by (simp add: compiled_interfaces [OF assms])
  qed
  have rules: "(\<forall>c \<in> set (kp_rules k). rule_admissible (lp_mark ` set (kp_lanes k)) c) \<longleftrightarrow>
      (\<forall>r \<in> set (p_rules p). r_enabled r \<and> r_source r \<noteq> SourceAny \<and>
         (\<exists>f a. verdict p (kp_lanes k) primary f (r_action r) a) \<longrightarrow> safe_rule_id (r_id r))"
  proof -
    have "(\<forall>c \<in> set (kp_rules k). rule_admissible (lp_mark ` set (kp_lanes k)) c) \<longleftrightarrow>
        (\<forall>q. (\<exists>c \<in> set (kp_rules k). cr_target c = Cgroup q) \<longrightarrow>
           is_routelane_application_cgroup q)"
      using compiled_mark_lane [OF assms] by (auto simp: rule_admissible_def)
    then show ?thesis
      unfolding compiled_cgroups [OF assms] using cgroup_of_rule by blast
  qed
  show ?thesis
    unfolding validate_new_plan_rules_Inr validate_privileged_plan_Inr plan_admissible_def
    using sizes compiled_lanes_distinct [OF assms] lanes rules by (simp add: conj_commute conj_left_commute)
qed

theorem compiled_plan_validates_witness:
  "validate_privileged_plan demo_plan = Inr ()"
proof -
  have "\<forall>l \<in> set (p_lanes demo_profile). is_kernel_interface_name (l_interface l)"
    "\<forall>r \<in> set (p_rules demo_profile). r_source r = SourceAny" "length (kp_rules demo_plan) \<le> 10000"
    by code_simp+
  then show ?thesis using compiled_plan_validates [OF demo_compile] by simp
qed

end
