(* ===== verification/Topology_Parse.thy ===== *)
theory Topology_Parse
  imports Planner Json
begin

text \<open>
  Reading the observed network (\<open>src/src/backend/topology.rs\<close>, \<open>parse_topology\<close> and what it calls):
  the output of \<open>ip -j link/address/route/rule\<close> decoded into a snapshot. The lemmas show that the
  reader never panics and that every snapshot it produces is well-formed: interfaces filed under
  the name of their identity, usable and ordered source addresses, routes only on ready links, and
  a system default that is really ready.
\<close>

section \<open>Decoding\<close>

text \<open>
  \<open>serde_json\<close> is a parameter: \<open>jc_read\<close> reads a document or fails with a message, and
  \<open>jc_mismatch\<close> is the message when a document does not have the expected type.
\<close>

record json_reader =
  jc_read :: "string \<Rightarrow> (string, json) result"
  jc_mismatch :: "string \<Rightarrow> json \<Rightarrow> string"

definition from_slice ::
  "json_reader \<Rightarrow> string \<Rightarrow> (json \<Rightarrow> 'a option) \<Rightarrow> string \<Rightarrow> (string, 'a) result"
where
  "from_slice C ty d bytes =
     and_then (jc_read C bytes) (\<lambda>j. ok_or (jc_mismatch C ty j) (d j))"

text \<open>
  A derived struct decoder takes an object, or an array of the fields in their order where at
  least the first \<open>n\<close> are present.
\<close>

definition struct_members :: "string list \<Rightarrow> nat \<Rightarrow> json \<Rightarrow> (string \<times> json) list option" where
  "struct_members names n j =
     (case j of
        JObject obj \<Rightarrow> Some obj
      | JArray xs \<Rightarrow>
          if n \<le> length xs \<and> length xs \<le> length names then Some (zip names xs) else None
      | _ \<Rightarrow> None)"

record link_info =
  li_info_kind :: "string option"

record link =
  lk_ifindex :: u32
  lk_ifname :: string
  lk_flags :: "string list"
  lk_operstate :: string
  lk_link_type :: string
  lk_address :: "string option"
  lk_linkinfo :: "link_info option"

record address =
  ad_family :: string
  ad_local :: ip_addr
  ad_scope :: json
  ad_flags :: "string list"
  ad_tentative :: bool
  ad_dadfailed :: bool
  ad_deprecated :: bool
  ad_preferred_life_time :: "json option"
  ad_valid_life_time :: "json option"

record address_list =
  al_ifindex :: u32
  al_ifname :: string
  al_addr_info :: "address list"

record route =
  rt_dst :: "string option"
  rt_dev :: "string option"
  rt_gateway :: "ip_addr option"
  rt_table :: "json option"
  rt_metric :: u32
  rt_flags :: "string list"
  rt_nexthops :: "json list"
  rt_scope :: "json option"
  rt_kind :: "json option"

definition de_value :: "json \<Rightarrow> json option" where
  "de_value j = Some j"

definition de_ip_addr :: "json \<Rightarrow> ip_addr option" where
  "de_ip_addr j = option_bind (de_string j) parse_ip"

definition de_link_info :: "json \<Rightarrow> link_info option" where
  "de_link_info j =
     option_bind (struct_members [''info_kind''] 1 j) (\<lambda>obj.
     option_bind (option_field de_string [''info_kind''] obj) (\<lambda>kind.
       Some \<lparr>li_info_kind = kind\<rparr>))"

definition de_link :: "json \<Rightarrow> link option" where
  "de_link j =
     option_bind (struct_members [''ifindex'', ''ifname'', ''flags'', ''operstate'', ''link_type'',
         ''address'', ''linkinfo''] 7 j) (\<lambda>obj.
     option_bind (required_field de_u32 [''ifindex''] obj) (\<lambda>ifindex.
     option_bind (required_field de_string [''ifname''] obj) (\<lambda>ifname.
     option_bind (default_field (de_list de_string) [] [''flags''] obj) (\<lambda>flags.
     option_bind (default_field de_string [] [''operstate''] obj) (\<lambda>operstate.
     option_bind (default_field de_string [] [''link_type''] obj) (\<lambda>link_type.
     option_bind (option_field de_string [''address''] obj) (\<lambda>address.
     option_bind (option_field de_link_info [''linkinfo''] obj) (\<lambda>linkinfo.
       Some \<lparr>lk_ifindex = ifindex, lk_ifname = ifname, lk_flags = flags, lk_operstate = operstate,
         lk_link_type = link_type, lk_address = address, lk_linkinfo = linkinfo\<rparr>))))))))"

definition de_address :: "json \<Rightarrow> address option" where
  "de_address j =
     option_bind (struct_members [''family'', ''local'', ''scope'', ''flags'', ''tentative'',
         ''dadfailed'', ''deprecated'', ''preferred_life_time'', ''valid_life_time''] 9 j) (\<lambda>obj.
     option_bind (required_field de_string [''family''] obj) (\<lambda>family.
     option_bind (required_field de_ip_addr [''local''] obj) (\<lambda>addr.
     option_bind (required_field de_value [''scope''] obj) (\<lambda>scope.
     option_bind (default_field (de_list de_string) [] [''flags''] obj) (\<lambda>flags.
     option_bind (default_field de_bool False [''tentative''] obj) (\<lambda>tentative.
     option_bind (default_field de_bool False [''dadfailed''] obj) (\<lambda>dadfailed.
     option_bind (default_field de_bool False [''deprecated''] obj) (\<lambda>deprecated.
     option_bind (option_field de_value [''preferred_life_time''] obj) (\<lambda>preferred.
     option_bind (option_field de_value [''valid_life_time''] obj) (\<lambda>valid.
       Some \<lparr>ad_family = family, ad_local = addr, ad_scope = scope, ad_flags = flags,
         ad_tentative = tentative, ad_dadfailed = dadfailed, ad_deprecated = deprecated,
         ad_preferred_life_time = preferred, ad_valid_life_time = valid\<rparr>))))))))))"

definition de_address_list :: "json \<Rightarrow> address_list option" where
  "de_address_list j =
     option_bind (struct_members [''ifindex'', ''ifname'', ''addr_info''] 2 j) (\<lambda>obj.
     option_bind (required_field de_u32 [''ifindex''] obj) (\<lambda>ifindex.
     option_bind (required_field de_string [''ifname''] obj) (\<lambda>ifname.
     option_bind (default_field (de_list de_address) [] [''addr_info''] obj) (\<lambda>infos.
       Some \<lparr>al_ifindex = ifindex, al_ifname = ifname, al_addr_info = infos\<rparr>))))"

definition de_route :: "json \<Rightarrow> route option" where
  "de_route j =
     option_bind (struct_members [''dst'', ''dev'', ''gateway'', ''table'', ''metric'', ''flags'',
         ''nexthops'', ''scope'', ''type''] 9 j) (\<lambda>obj.
     option_bind (option_field de_string [''dst''] obj) (\<lambda>dst.
     option_bind (option_field de_string [''dev''] obj) (\<lambda>dev.
     option_bind (option_field de_ip_addr [''gateway''] obj) (\<lambda>gw.
     option_bind (option_field de_value [''table''] obj) (\<lambda>table.
     option_bind (default_field de_u32 0 [''metric''] obj) (\<lambda>metric.
     option_bind (default_field (de_list de_string) [] [''flags''] obj) (\<lambda>flags.
     option_bind (default_field (de_list de_value) [] [''nexthops''] obj) (\<lambda>nexthops.
     option_bind (option_field de_value [''scope''] obj) (\<lambda>scope.
     option_bind (option_field de_value [''type''] obj) (\<lambda>kind.
       Some \<lparr>rt_dst = dst, rt_dev = dev, rt_gateway = gw, rt_table = table, rt_metric = metric,
         rt_flags = flags, rt_nexthops = nexthops, rt_scope = scope, rt_kind = kind\<rparr>))))))))))"

section \<open>Values\<close>

datatype topology_failure = TopologyError string | TopologyPanic

definition decode ::
  "json_reader \<Rightarrow> string \<Rightarrow> (json \<Rightarrow> 'a option) \<Rightarrow> string \<Rightarrow> (topology_failure, 'a) result"
where
  "decode C ty d bytes =
     (if 1024 * 1024 < int (length bytes) then Inl (TopologyError ''topology JSON exceeds size limit'')
      else map_err (\<lambda>e. TopologyError (''invalid topology JSON: '' @ e)) (from_slice C ty d bytes))"

fun as_str :: "json \<Rightarrow> string option" where
  "as_str (JString s) = Some s"
| "as_str _ = None"

definition or_else :: "'a option \<Rightarrow> 'a option \<Rightarrow> 'a option" where
  "or_else x y = (case x of None \<Rightarrow> y | Some a \<Rightarrow> Some a)"

text \<open>\<open>as_u64\<close> narrowed to 32 bits, else a decimal text.\<close>

definition number :: "json \<Rightarrow> u32 option" where
  "number v = or_else (de_u32 v) (option_bind (as_str v) parse_u32)"

definition table_name :: "string \<Rightarrow> u32 option" where
  "table_name s =
     (if s = ''main'' then Some 254 else if s = ''local'' then Some 255
      else if s = ''default'' then Some 253 else None)"

definition table_of :: "json option \<Rightarrow> (topology_failure, u32) result" where
  "table_of v =
     (case v of
        None \<Rightarrow> Inr 254
      | Some v \<Rightarrow> ok_or (TopologyError ''unknown route table representation'')
          (or_else (number v) (option_bind (as_str v) table_name)))"

section \<open>Links and addresses\<close>

definition link_is_ready :: "link \<Rightarrow> bool" where
  "link_is_ready l =
     (let has = (\<lambda>flag. flag \<in> set (lk_flags l)) in
      has ''UP'' \<and> \<not> has ''NO-CARRIER'' \<and> \<not> has ''NO_CARRIER'' \<and> lk_operstate l \<noteq> ''DOWN'' \<and>
      (has ''LOWER_UP'' \<or> has ''POINTOPOINT'' \<and> lk_operstate l = ''UNKNOWN''))"

definition link_identity :: "link \<Rightarrow> interface_identity" where
  "link_identity l = \<lparr>ii_ifindex = lk_ifindex l, ii_name = lk_ifname l,
     ii_kind = (case option_bind (lk_linkinfo l) li_info_kind of
         Some kind \<Rightarrow> kind | None \<Rightarrow> lk_link_type l),
     ii_hardware_address = lk_address l\<rparr>"

definition add_link :: "'n topology \<Rightarrow> link \<Rightarrow> (topology_failure, 'n topology) result" where
  "add_link s l =
     (if lk_ifindex l = 0 \<or> lk_ifname l = [] \<or> bt_get (t_interfaces s) (lk_ifname l) \<noteq> None
      then Inl (TopologyError ''invalid or duplicate kernel interface identity'')
      else Inr (s\<lparr>t_interfaces := bt_insert (lk_ifname l)
        (default_interface\<lparr>it_identity := Some (link_identity l), it_link_ready := link_is_ready l\<rparr>)
        (t_interfaces s)\<rparr>))"

fun usable_v4 :: "u32 \<Rightarrow> bool" where
  "usable_v4 a =
     (a \<noteq> 0 \<and> drop_bit 24 a \<noteq> 127 \<and> drop_bit 28 a \<noteq> 14 \<and> drop_bit 16 a \<noteq> 0xA9FE)"

fun usable_v6 :: "ipv6 \<Rightarrow> bool" where
  "usable_v6 a =
     (a \<noteq> 0 \<and> a \<noteq> 1 \<and> drop_bit 120 a \<noteq> 0xFF \<and> drop_bit 118 a \<noteq> 0x3FA)"

definition address_invalid :: "address \<Rightarrow> bool" where
  "address_invalid a =
     (ad_tentative a \<or> ad_dadfailed a \<or>
      ''tentative'' \<in> set (ad_flags a) \<or> ''dadfailed'' \<in> set (ad_flags a) \<or>
      option_bind (ad_valid_life_time a) number = Some 0)"

definition address_scope_global :: "address \<Rightarrow> bool" where
  "address_scope_global a =
     (as_str (ad_scope a) = Some ''global'' \<or> as_str (ad_scope a) = Some ''0'' \<or>
      number (ad_scope a) = Some 0)"

definition address_usable_kind :: "address \<Rightarrow> bool" where
  "address_usable_kind a =
     (case ad_local a of
        V4Addr ip \<Rightarrow> ad_family a = ''inet'' \<and> usable_v4 ip
      | V6Addr ip \<Rightarrow> ad_family a = ''inet6'' \<and> usable_v6 ip)"

definition address_deprecated :: "address \<Rightarrow> bool" where
  "address_deprecated a =
     (ad_deprecated a \<or> ''deprecated'' \<in> set (ad_flags a) \<or>
      option_bind (ad_preferred_life_time a) number = Some 0)"

text \<open>One round of the loop over \<open>addr_info\<close>: the assigned addresses and the interface.\<close>

definition add_address ::
  "address \<Rightarrow> ip_addr list \<times> 'n interface_topology \<Rightarrow> ip_addr list \<times> 'n interface_topology"
where
  "add_address a = (\<lambda>(assigned, e).
     if address_invalid a \<or> \<not> address_scope_global a \<or> \<not> address_usable_kind a then (assigned, e)
     else if address_deprecated a then (assigned @ [ad_local a], e)
     else (assigned @ [ad_local a],
       (case ad_local a of
          V4Addr ip \<Rightarrow>
            if ad_family a = ''inet'' \<and> usable_v4 ip
            then e\<lparr>it_source_v4 := it_source_v4 e @ [ip]\<rparr> else e
        | V6Addr ip \<Rightarrow>
            if ad_family a = ''inet6'' \<and> usable_v6 ip
            then e\<lparr>it_source_v6 := it_source_v6 e @ [ip]\<rparr> else e)))"

definition canonical_sources :: "'n interface_topology \<Rightarrow> 'n interface_topology" where
  "canonical_sources e = e\<lparr>it_source_v4 := sort_dedup (it_source_v4 e),
     it_source_v6 := sort_dedup (it_source_v6 e)\<rparr>"

definition add_address_list :: "address_list \<Rightarrow> 'n topology \<Rightarrow> 'n topology" where
  "add_address_list al s =
     (case t_interface s (al_ifname al) of
        None \<Rightarrow> s
      | Some e \<Rightarrow>
          if map_option ii_ifindex (it_identity e) \<noteq> Some (al_ifindex al) then s
          else (let (assigned, e') = fold add_address (al_addr_info al) (t_assigned_addresses s, e)
                in s\<lparr>t_assigned_addresses := assigned,
                     t_interfaces := bt_insert (al_ifname al) (canonical_sources e')
                       (t_interfaces s)\<rparr>))"

section \<open>Routes and rules of a family\<close>

definition family_debug :: "ip_family \<Rightarrow> string" where
  "family_debug f = (case f of V4 \<Rightarrow> ''V4'' | V6 \<Rightarrow> ''V6'')"

definition is_default_dst :: "string option \<Rightarrow> bool" where
  "is_default_dst d \<longleftrightarrow> d \<in> {Some ''default'', Some ''0.0.0.0/0'', Some ''::/0''}"

definition value_is :: "json \<Rightarrow> string \<Rightarrow> string \<Rightarrow> u32 \<Rightarrow> bool" where
  "value_is v name digits n = (as_str v = Some name \<or> as_str v = Some digits \<or> number v = Some n)"

text \<open>The state of the loop over the routes.\<close>

record 'n route_scan =
  rs_snapshot :: "'n topology"
  rs_candidates :: "(string, route list) btree"
  rs_ambiguity :: "string option"

definition set_interface :: "string \<Rightarrow> 'n interface_topology \<Rightarrow> 'n topology \<Rightarrow> 'n topology" where
  "set_interface name e s = s\<lparr>t_interfaces := bt_insert name e (t_interfaces s)\<rparr>"

definition connected_network ::
  "'n foreign \<Rightarrow> ip_family \<Rightarrow> route \<Rightarrow> 'n option"
where
  "connected_network X f r =
     (if rt_gateway r = None \<and>
         (case rt_scope r of None \<Rightarrow> False | Some scope \<Rightarrow> value_is scope ''link'' ''253'' 253)
      then (case option_bind (rt_dst r) (net_parse X) of
          None \<Rightarrow> None
        | Some n \<Rightarrow>
            if net_prefix_len X n \<noteq> 0 \<and> is_ipv4 (net_addr X n) = (f = V4)
            then Some (net_trunc X n) else None)
      else None)"

definition gateway_mismatch :: "ip_family \<Rightarrow> ip_addr option \<Rightarrow> bool" where
  "gateway_mismatch f gw =
     (case (f, gw) of (V4, Some (V6Addr _)) \<Rightarrow> True | (V6, Some (V4Addr _)) \<Rightarrow> True | _ \<Rightarrow> False)"

definition push_candidate ::
  "string \<Rightarrow> route \<Rightarrow> (string, route list) btree \<Rightarrow> (string, route list) btree"
where
  "push_candidate name r m =
     bt_insert name ((case bt_get m name of None \<Rightarrow> [] | Some rs \<Rightarrow> rs) @ [r]) m"

definition unusable_kind :: "route \<Rightarrow> bool" where
  "unusable_kind r = (case rt_kind r of None \<Rightarrow> False | Some k \<Rightarrow> \<not> value_is k ''unicast'' ''1'' 1)"

definition scan_route ::
  "'n foreign \<Rightarrow> ip_family \<Rightarrow> 'n route_scan \<Rightarrow> route \<Rightarrow> (topology_failure, 'n route_scan) result"
where
  "scan_route X f st r =
     and_then (table_of (rt_table r)) (\<lambda>table.
       let s = rs_snapshot st; default = is_default_dst (rt_dst r) in
       if table \<noteq> 254 then Inr st
       else if ''linkdown'' \<in> set (rt_flags r) \<or> ''dead'' \<in> set (rt_flags r) then Inr st
       else if unusable_kind r then
         (if default then
            (let reason = family_debug f @ '': terminal or unsupported system default route'' in
             Inr (st\<lparr>rs_snapshot := s\<lparr>t_conflicts := t_conflicts s @ [reason]\<rparr>,
               rs_ambiguity := Some reason\<rparr>))
          else Inr st)
       else if default \<and> rt_nexthops r \<noteq> [] then
         Inr (st\<lparr>rs_ambiguity := Some
           ''system default is multipath; choose a primary connection explicitly''\<rparr>)
       else (case rt_dev r of
           None \<Rightarrow> Inr st
         | Some name \<Rightarrow>
             (case t_interface s name of
                None \<Rightarrow> Inr st
              | Some e \<Rightarrow>
                  if \<not> default then
                    (case connected_network X f r of
                       None \<Rightarrow> Inr st
                     | Some n \<Rightarrow> Inr (st\<lparr>rs_snapshot := set_interface name
                         (e\<lparr>it_connected_networks := it_connected_networks e @ [n]\<rparr>) s\<rparr>))
                  else if \<not> it_link_ready e then Inr st
                  else if gateway_mismatch f (rt_gateway r)
                  then Inl (TopologyError ''gateway address family mismatch'')
                  else Inr (st\<lparr>rs_candidates := push_candidate name r (rs_candidates st)\<rparr>))))"

text \<open>The state of the loop over the candidates: snapshot, ambiguity, available exits.\<close>

type_synonym 'n candidate_scan = "'n topology \<times> string option \<times> (u32 \<times> string) list"

definition pick_candidate ::
  "ip_family \<Rightarrow> 'n candidate_scan \<Rightarrow> string \<times> route list \<Rightarrow>
     (topology_failure, 'n candidate_scan) result"
where
  "pick_candidate f = (\<lambda>(s, ambiguity, available) (name, routes).
     (case sort_key rt_metric routes of
        [] \<Rightarrow> Inl TopologyPanic
      | best # rest \<Rightarrow>
          if list_ex (\<lambda>r. rt_metric r = rt_metric best \<and> rt_gateway r \<noteq> rt_gateway best)
               (best # rest)
          then Inr (s, Some (''multiple equal default routes for '' @ name), available)
          else (case t_interface s name of
              None \<Rightarrow> Inl TopologyPanic
            | Some e \<Rightarrow>
                (case f of
                   V4 \<Rightarrow>
                     if it_source_v4 e = [] then Inr (s, ambiguity, available)
                     else (case rt_gateway best of
                         Some (V6Addr _) \<Rightarrow> Inl TopologyPanic
                       | Some (V4Addr ip) \<Rightarrow>
                           Inr (set_interface name (e\<lparr>it_route_v4 := Some (Via ip)\<rparr>) s, ambiguity,
                             available @ [(rt_metric best, name)])
                       | None \<Rightarrow>
                           Inr (set_interface name (e\<lparr>it_route_v4 := Some Device\<rparr>) s, ambiguity,
                             available @ [(rt_metric best, name)]))
                 | V6 \<Rightarrow>
                     if it_source_v6 e = [] then Inr (s, ambiguity, available)
                     else (case rt_gateway best of
                         Some (V4Addr _) \<Rightarrow> Inl TopologyPanic
                       | Some (V6Addr ip) \<Rightarrow>
                           Inr (set_interface name (e\<lparr>it_route_v6 := Some (Via ip)\<rparr>) s, ambiguity,
                             available @ [(rt_metric best, name)])
                       | None \<Rightarrow>
                           Inr (set_interface name (e\<lparr>it_route_v6 := Some Device\<rparr>) s, ambiguity,
                             available @ [(rt_metric best, name)]))))))"
text \<open>Policy rules; \<open>serde_json::Value\<close> keeps the last member of a repeated name.\<close>

definition object_get :: "string \<Rightarrow> (string \<times> json) list \<Rightarrow> json option" where
  "object_get k obj = map_of (rev obj) k"

definition ordinary_fields :: "string list" where
  "ordinary_fields = [''priority'', ''table'', ''src'', ''dst'', ''from'', ''to'', ''protocol'',
     ''flags'', ''fwmark'', ''fwmask'']"

definition mark_number :: "json \<Rightarrow> u32 option" where
  "mark_number v =
     or_else (number v)
       (option_bind (option_bind (as_str v) (strip_prefix ''0x'')) parse_u32_hex)"

definition rule_mask :: "(string \<times> json) list \<Rightarrow> u32 option" where
  "rule_mask obj =
     (case object_get ''fwmask'' obj of None \<Rightarrow> Some (- 1) | Some v \<Rightarrow> mark_number v)"

definition builtin_rule :: "u32 option \<Rightarrow> u32 \<Rightarrow> bool" where
  "builtin_rule priority table \<longleftrightarrow>
     (priority, table) \<in> {(Some 0, 255), (Some 32766, 254), (Some 32767, 253)}"

definition ordinary_rule :: "json \<Rightarrow> (topology_failure, bool) result" where
  "ordinary_rule rule =
     (case rule of
        JObject obj \<Rightarrow>
          if list_ex (\<lambda>(k, _). k \<notin> set ordinary_fields) obj then Inr False
          else if list_ex (\<lambda>k. case object_get k obj of
              None \<Rightarrow> False | Some v \<Rightarrow> as_str v \<noteq> Some ''all'') [''src'', ''dst'', ''from'', ''to'']
          then Inr False
          else if (case object_get ''flags'' obj of None \<Rightarrow> False | Some v \<Rightarrow> v \<noteq> JArray [])
          then Inr False
          else and_then (table_of (object_get ''table'' obj)) (\<lambda>table.
            let priority = option_bind (object_get ''priority'' obj) number in
            if object_get ''fwmark'' obj = None \<and> object_get ''fwmask'' obj = None \<and>
               builtin_rule priority table
            then Inr True
            else if TABLE_BASE \<le> table \<and> table \<le> TABLE_MAX \<and> rule_mask obj = Some (- 1)
            then (let slot = table - TABLE_BASE in
                  Inr (option_bind (object_get ''fwmark'' obj) mark_number = Some (MARK_BASE + slot) \<and>
                    priority = Some (RULE_PRIORITY_BASE + slot)))
            else Inr False)
      | _ \<Rightarrow> Inl (TopologyError ''policy rule is not an object''))"

definition scan_rule ::
  "ip_family \<Rightarrow> 'n topology \<times> string option \<Rightarrow> json \<Rightarrow>
     (topology_failure, 'n topology \<times> string option) result"
where
  "scan_rule f = (\<lambda>(s, ambiguity) rule.
     and_then (ordinary_rule rule) (\<lambda>ordinary.
       if ordinary then Inr (s, ambiguity)
       else (let reason = family_debug f @
                 '': foreign policy routing prevents a unique system default'' in
             Inr (s\<lparr>t_conflicts := t_conflicts s @ [reason]\<rparr>, Some reason))))"

definition select_default :: "string option \<Rightarrow> (u32 \<times> string) list \<Rightarrow> default_selection" where
  "select_default ambiguity available =
     (case ambiguity of
        Some reason \<Rightarrow> DefaultAmbiguous reason
      | None \<Rightarrow>
          (case available of
             (m, _) # (m', _) # _ \<Rightarrow>
               if m = m' then DefaultAmbiguous
                 ''equal-metric default exits; choose a primary connection explicitly''
               else DefaultInterface (snd (hd available))
           | [(_, name)] \<Rightarrow> DefaultInterface name
           | [] \<Rightarrow> DefaultNone))"

definition set_default :: "ip_family \<Rightarrow> default_selection \<Rightarrow> 'n topology \<Rightarrow> 'n topology" where
  "set_default f d s = (case f of V4 \<Rightarrow> s\<lparr>t_default_v4 := d\<rparr> | V6 \<Rightarrow> s\<lparr>t_default_v6 := d\<rparr>)"

definition canonical_networks :: "'n::linorder topology \<Rightarrow> 'n topology" where
  "canonical_networks s = s\<lparr>t_interfaces := map (\<lambda>(name, e).
     (name, e\<lparr>it_connected_networks := sort_dedup (it_connected_networks e)\<rparr>)) (t_interfaces s)\<rparr>"

definition fill_family ::
  "'n::linorder foreign \<Rightarrow> 'n topology \<Rightarrow> ip_family \<Rightarrow> route list \<Rightarrow> json list \<Rightarrow>
     (topology_failure, 'n topology) result"
where
  "fill_family X s f routes rules =
     and_then (try_fold (scan_route X f)
         \<lparr>rs_snapshot = s, rs_candidates = [], rs_ambiguity = None\<rparr> routes) (\<lambda>st.
     and_then (try_fold (pick_candidate f) (rs_snapshot st, rs_ambiguity st, []) (rs_candidates st))
       (\<lambda>(s, ambiguity, available).
     and_then (try_fold (scan_rule f) (s, ambiguity) rules) (\<lambda>(s, ambiguity).
       Inr (canonical_networks
         (set_default f (select_default ambiguity (sort available)) s)))))"

section \<open>The snapshot\<close>

record topology_input =
  ti_links :: string
  ti_addresses :: string
  ti_routes_v4 :: string
  ti_routes_v6 :: string
  ti_rules_v4 :: string
  ti_rules_v6 :: string

definition parse_family ::
  "json_reader \<Rightarrow> 'n::linorder foreign \<Rightarrow> 'n topology \<Rightarrow> ip_family \<times> string \<times> string \<Rightarrow>
     (topology_failure, 'n topology) result"
where
  "parse_family C X s = (\<lambda>(f, route_bytes, rule_bytes).
     and_then (decode C ''Vec<Route>'' (de_list de_route) route_bytes) (\<lambda>routes.
     and_then (decode C ''Vec<Value>'' (de_list de_value) rule_bytes) (\<lambda>rules.
       fill_family X s f routes rules)))"

definition parse_topology ::
  "json_reader \<Rightarrow> 'n::linorder foreign \<Rightarrow> topology_input \<Rightarrow> (topology_failure, 'n topology) result"
where
  "parse_topology C X input =
     and_then (decode C ''Vec<Link>'' (de_list de_link) (ti_links input)) (\<lambda>links.
     and_then (decode C ''Vec<AddressList>'' (de_list de_address_list) (ti_addresses input)) (\<lambda>addresses.
     and_then (try_fold add_link (empty_topology\<lparr>t_observed := True\<rparr>) links) (\<lambda>s.
       let s = fold add_address_list addresses s;
           s = s\<lparr>t_assigned_addresses := sort_dedup (t_assigned_addresses s)\<rparr>
       in try_fold (parse_family C X) s
            [(V4, ti_routes_v4 input, ti_rules_v4 input), (V6, ti_routes_v6 input, ti_rules_v6 input)])))"

datatype topology_query = QueryLinks | QueryAddresses | QueryRoutes4 | QueryRoutes6 | QueryRules4 | QueryRules6

fun query_arguments :: "topology_query \<Rightarrow> string list" where
  "query_arguments QueryLinks = [''-j'', ''-d'', ''-N'', ''link'', ''show'']"
| "query_arguments QueryAddresses = [''-j'', ''-N'', ''address'', ''show'']"
| "query_arguments QueryRoutes4 = [''-j'', ''-4'', ''-N'', ''route'', ''show'', ''table'', ''all'']"
| "query_arguments QueryRoutes6 = [''-j'', ''-6'', ''-N'', ''route'', ''show'', ''table'', ''all'']"
| "query_arguments QueryRules4 = [''-j'', ''-4'', ''-N'', ''rule'', ''show'']"
| "query_arguments QueryRules6 = [''-j'', ''-6'', ''-N'', ''rule'', ''show'']"

section \<open>Well-formed snapshots\<close>

definition entry_ok :: "string \<Rightarrow> 'n interface_topology \<Rightarrow> bool" where
  "entry_ok name e \<longleftrightarrow>
     name \<noteq> [] \<and>
     (\<exists>i. it_identity e = Some i \<and> ii_name i = name \<and> ii_ifindex i \<noteq> 0) \<and>
     sorted_wrt (<) (it_source_v4 e) \<and> list_all usable_v4 (it_source_v4 e) \<and>
     sorted_wrt (<) (it_source_v6 e) \<and> list_all usable_v6 (it_source_v6 e) \<and>
     (it_route_v4 e \<noteq> None \<longrightarrow> interface_ready e V4) \<and>
     (it_route_v6 e \<noteq> None \<longrightarrow> interface_ready e V6)"

definition entries_ok :: "'n topology \<Rightarrow> bool" where
  "entries_ok s \<longleftrightarrow> topology_wf s \<and> (\<forall>(name, e) \<in> set (t_interfaces s). entry_ok name e)"

definition ready_of :: "'n topology \<Rightarrow> string \<Rightarrow> bool option" where
  "ready_of s n = map_option it_link_ready (t_interface s n)"

text \<open>Nothing that was ready stops being ready.\<close>

definition ready_grows :: "'n topology \<Rightarrow> 'n topology \<Rightarrow> bool" where
  "ready_grows s s' \<longleftrightarrow> (\<forall>n f. (\<exists>e. t_interface s n = Some e \<and> interface_ready e f) \<longrightarrow>
     (\<exists>e. t_interface s' n = Some e \<and> interface_ready e f))"

lemma ready_grows_refl [simp]: "ready_grows s s"
  by (simp add: ready_grows_def)

lemma ready_grows_trans: "ready_grows s t \<Longrightarrow> ready_grows t u \<Longrightarrow> ready_grows s u"
  by (simp add: ready_grows_def)

lemma set_bt_insert: "x \<in> set (bt_insert k v m) \<Longrightarrow> x = (k, v) \<or> x \<in> set m"
  by (induction k v m rule: bt_insert.induct) (auto split: if_splits)

lemma t_interface_set [simp]:
  "t_interface (set_interface n e s) m = (if m = n then Some e else t_interface s m)"
  by (simp add: t_interface_def set_interface_def bt_get_insert)

lemma t_observed_set [simp]: "t_observed (set_interface n e s) = t_observed s"
  by (simp add: set_interface_def)

lemma entries_ok_set:
  "entries_ok s \<Longrightarrow> entry_ok n e \<Longrightarrow> entries_ok (set_interface n e s)"
  by (auto simp: entries_ok_def set_interface_def topology_wf_def bt_wf_insert dest!: set_bt_insert)

lemma entries_ok_lookup: "entries_ok s \<Longrightarrow> t_interface s n = Some e \<Longrightarrow> entry_ok n e"
  by (auto simp: entries_ok_def t_interface_def dest: map_of_SomeD)

lemma entries_ok_keep [simp]:
  "entries_ok (s\<lparr>t_conflicts := c\<rparr>) = entries_ok s"
  "entries_ok (s\<lparr>t_assigned_addresses := a\<rparr>) = entries_ok s"
  "entries_ok (set_default f d s) = entries_ok s"
  by (simp_all add: entries_ok_def topology_wf_def set_default_def split: ip_family.split)

lemma t_interface_keep [simp]:
  "t_interface (s\<lparr>t_conflicts := c\<rparr>) n = t_interface s n"
  "t_interface (s\<lparr>t_assigned_addresses := a\<rparr>) n = t_interface s n"
  "t_interface (set_default f d s) n = t_interface s n"
  by (simp_all add: t_interface_def set_default_def split: ip_family.split)

lemma default_of_set [simp]:
  "default_of (set_default f d s) g = (if g = f then d else default_of s g)"
  "default_of (set_interface n e s) g = default_of s g"
  "default_of (s\<lparr>t_conflicts := c\<rparr>) g = default_of s g"
  "default_of (s\<lparr>t_assigned_addresses := a\<rparr>) g = default_of s g"
  by (auto simp: default_of_def set_default_def set_interface_def split: ip_family.split)

lemma ready_grows_set:
  "t_interface s n = Some e \<Longrightarrow> (\<And>f. interface_ready e f \<Longrightarrow> interface_ready e' f) \<Longrightarrow>
     ready_grows s (set_interface n e' s)"
  by (auto simp: ready_grows_def)

subsection \<open>Links and addresses\<close>

lemma add_link_ok: "add_link s l = Inr s' \<Longrightarrow> entries_ok s \<Longrightarrow> entries_ok s'"
proof -
  assume l: "add_link s l = Inr s'" and s: "entries_ok s"
  let ?e = "default_interface\<lparr>it_identity := Some (link_identity l), it_link_ready := link_is_ready l\<rparr>"
  from l have s': "s' = set_interface (lk_ifname l) ?e s"
    and "lk_ifindex l \<noteq> 0" "lk_ifname l \<noteq> []"
    by (auto simp: add_link_def set_interface_def split: if_splits)
  then have "entry_ok (lk_ifname l) ?e"
    by (simp add: entry_ok_def default_interface_def link_identity_def)
  with s show ?thesis unfolding s' by (rule entries_ok_set)
qed

text \<open>What the address loop may change of an interface, and what it adds.\<close>

definition sources_over :: "'n interface_topology \<Rightarrow> 'n interface_topology \<Rightarrow> bool" where
  "sources_over e e' \<longleftrightarrow>
     it_identity e' = it_identity e \<and> it_link_ready e' = it_link_ready e \<and>
     it_route_v4 e' = it_route_v4 e \<and> it_route_v6 e' = it_route_v6 e \<and>
     set (it_source_v4 e) \<subseteq> set (it_source_v4 e') \<and> set (it_source_v6 e) \<subseteq> set (it_source_v6 e') \<and>
     (list_all usable_v4 (it_source_v4 e) \<longrightarrow> list_all usable_v4 (it_source_v4 e')) \<and>
     (list_all usable_v6 (it_source_v6 e) \<longrightarrow> list_all usable_v6 (it_source_v6 e'))"

lemma sources_over_refl: "sources_over e e"
  by (simp add: sources_over_def)

lemma sources_over_trans: "sources_over a b \<Longrightarrow> sources_over b c \<Longrightarrow> sources_over a c"
  unfolding sources_over_def by auto

lemma add_address_over: "sources_over e (snd (add_address a (as, e)))"
  by (auto simp: add_address_def sources_over_def simp del: usable_v4.simps usable_v6.simps
      split: ip_addr.split)

lemma add_addresses_over: "sources_over e (snd (fold add_address xs (as, e)))"
proof (induction xs arbitrary: as e)
  case (Cons a xs)
  obtain as' e' where e': "add_address a (as, e) = (as', e')" by (cases "add_address a (as, e)")
  with add_address_over [of e a as] have "sources_over e e'" by simp
  with Cons.IH [of e' as'] show ?case by (simp add: e') (blast intro: sources_over_trans)
qed (simp add: sources_over_refl)

lemma sort_dedup_Nil_iff [simp]: "sort_dedup xs = [] \<longleftrightarrow> xs = []"
  by (metis set_empty set_sort_dedup)

lemma interface_ready_canonical [simp]:
  "interface_ready (canonical_sources e) f = interface_ready e f"
  by (simp add: interface_ready_def canonical_sources_def split: ip_family.split)

lemma interface_ready_over: "sources_over e e' \<Longrightarrow> interface_ready e f \<Longrightarrow> interface_ready e' f"
  by (cases f) (auto simp: sources_over_def interface_ready_def)

lemma entry_ok_sources:
  assumes "entry_ok n e" "sources_over e e'"
  shows "entry_ok n (canonical_sources e')"
proof -
  have "list_all usable_v4 (sort_dedup (it_source_v4 e'))"
    "list_all usable_v6 (sort_dedup (it_source_v6 e'))"
    using assms by (simp_all add: entry_ok_def sources_over_def list_all_iff)
  moreover have "it_route_v4 e' \<noteq> None \<longrightarrow> interface_ready e' V4"
    "it_route_v6 e' \<noteq> None \<longrightarrow> interface_ready e' V6"
    using assms interface_ready_over [OF assms(2)] by (simp_all add: entry_ok_def sources_over_def)
  ultimately show ?thesis
    using assms unfolding entry_ok_def interface_ready_canonical
    by (simp add: canonical_sources_def strict_sort_dedup sources_over_def)
qed

lemma add_address_list_ok: "entries_ok s \<Longrightarrow> entries_ok (add_address_list al s)"
proof (cases "t_interface s (al_ifname al)")
  case (Some e)
  assume s: "entries_ok s"
  obtain as e' where f: "fold add_address (al_addr_info al) (t_assigned_addresses s, e) = (as, e')"
    by (cases "fold add_address (al_addr_info al) (t_assigned_addresses s, e)")
  with add_addresses_over [of e "al_addr_info al" "t_assigned_addresses s"]
  have "sources_over e e'" by simp
  with entries_ok_lookup [OF s Some] have "entry_ok (al_ifname al) (canonical_sources e')"
    by (rule entry_ok_sources)
  from entries_ok_set [OF s this] s show ?thesis
    by (simp add: add_address_list_def Some f set_interface_def entries_ok_def topology_wf_def)
qed (simp add: add_address_list_def)

subsection \<open>Routes\<close>

text \<open>What the passes over a family keep of the snapshot they started from.\<close>

definition kept :: "'n topology \<Rightarrow> 'n topology \<Rightarrow> bool" where
  "kept s0 s \<longleftrightarrow> entries_ok s \<and> ready_grows s0 s \<and> (\<forall>g. default_of s g = default_of s0 g) \<and>
     (\<forall>n. ready_of s n = ready_of s0 n) \<and> t_observed s = t_observed s0"

lemma kept_refl: "entries_ok s \<Longrightarrow> kept s s"
  by (simp add: kept_def)

lemma kept_trans: "kept r s \<Longrightarrow> kept s t \<Longrightarrow> kept r t"
  unfolding kept_def by (auto intro: ready_grows_trans)

lemma kept_set:
  assumes "entries_ok s" "t_interface s n = Some e" "entry_ok n e'"
    and "\<And>f. interface_ready e f \<Longrightarrow> interface_ready e' f" "it_link_ready e' = it_link_ready e"
  shows "kept s (set_interface n e' s)"
  using assms
  by (auto simp: kept_def entries_ok_set ready_of_def intro: ready_grows_set)

lemma kept_conflict_iff [simp]: "kept r (s\<lparr>t_conflicts := c\<rparr>) = kept r s"
  by (simp add: kept_def ready_grows_def ready_of_def)

lemma kept_conflict: "entries_ok s \<Longrightarrow> kept s (s\<lparr>t_conflicts := c\<rparr>)"
  by (simp add: kept_refl)

lemma interface_ready_networks [simp]:
  "interface_ready (e\<lparr>it_connected_networks := ns\<rparr>) f = interface_ready e f"
  by (simp add: interface_ready_def split: ip_family.split)

lemma entry_ok_networks [simp]: "entry_ok n (e\<lparr>it_connected_networks := ns\<rparr>) = entry_ok n e"
  by (simp add: entry_ok_def interface_ready_def)

definition candidate_ok :: "ip_family \<Rightarrow> 'n topology \<Rightarrow> string \<times> route list \<Rightarrow> bool" where
  "candidate_ok f s c \<longleftrightarrow> snd c \<noteq> [] \<and> ready_of s (fst c) = Some True \<and>
     (\<forall>r \<in> set (snd c). \<not> gateway_mismatch f (rt_gateway r))"

definition scan_inv :: "ip_family \<Rightarrow> 'n topology \<Rightarrow> 'n route_scan \<Rightarrow> bool" where
  "scan_inv f s0 st \<longleftrightarrow>
     kept s0 (rs_snapshot st) \<and> (\<forall>c \<in> set (rs_candidates st). candidate_ok f s0 c)"

lemma push_candidate_ok:
  assumes "\<forall>c \<in> set m. candidate_ok f s c" "ready_of s name = Some True"
    and "\<not> gateway_mismatch f (rt_gateway r)"
  shows "\<forall>c \<in> set (push_candidate name r m). candidate_ok f s c"
proof -
  have "candidate_ok f s (name, (case bt_get m name of None \<Rightarrow> [] | Some rs \<Rightarrow> rs) @ [r])"
    using assms by (cases "bt_get m name") (auto simp: candidate_ok_def dest: map_of_SomeD)
  then show ?thesis
    using assms(1) unfolding push_candidate_def by (metis set_bt_insert)
qed

lemma scan_route_inv:
  assumes inv: "scan_inv f s0 st" and step: "scan_route X f st r = Inr st'"
  shows "scan_inv f s0 st'"
proof -
  let ?s = "rs_snapshot st"
  have s: "entries_ok ?s" "kept s0 ?s" using inv by (simp_all add: scan_inv_def kept_def)
  have net: "scan_inv f s0 (st\<lparr>rs_snapshot :=
      set_interface n (e\<lparr>it_connected_networks := ns\<rparr>) ?s\<rparr>)" if "t_interface ?s n = Some e" for n e ns
    using inv kept_trans [OF s(2) kept_set [OF s(1) that]] entries_ok_lookup [OF s(1) that]
    by (simp add: scan_inv_def)
  have cand: "scan_inv f s0 (st\<lparr>rs_candidates := push_candidate n r (rs_candidates st)\<rparr>)"
    if "t_interface ?s n = Some e" "it_link_ready e" "\<not> gateway_mismatch f (rt_gateway r)" for n e
  proof -
    have "ready_of s0 n = ready_of ?s n" using s(2) by (simp add: kept_def)
    with that have "ready_of s0 n = Some True" by (simp add: ready_of_def)
    from push_candidate_ok [OF _ this that(3)] have
      "\<forall>c \<in> set (push_candidate n r (rs_candidates st)). candidate_ok f s0 c"
      using inv unfolding scan_inv_def by blast
    with inv show ?thesis unfolding scan_inv_def by simp
  qed
  have conf: "scan_inv f s0 (st\<lparr>rs_snapshot := ?s\<lparr>t_conflicts := c\<rparr>, rs_ambiguity := a\<rparr>)" for c a
    using inv kept_trans [OF s(2) kept_conflict [OF s(1)]] by (simp add: scan_inv_def)
  have amb: "scan_inv f s0 (st\<lparr>rs_ambiguity := a\<rparr>)" for a
    using inv by (simp add: scan_inv_def)
  from step inv show ?thesis
    unfolding scan_route_def and_then_Inr_iff Let_def
    by (elim exE conjE)
       (auto split: if_splits option.splits intro: net cand conf amb)
qed

lemma scan_route_no_panic: "scan_route X f st r \<noteq> Inl TopologyPanic"
  by (auto simp: scan_route_def Let_def and_then_def table_of_def ok_or_def split: sum.splits
      option.splits if_splits)

definition pick_inv :: "ip_family \<Rightarrow> 'n topology \<Rightarrow> 'n candidate_scan \<Rightarrow> bool" where
  "pick_inv f s0 = (\<lambda>(s, _, available). kept s0 s \<and>
     (\<forall>(m, n) \<in> set available. \<exists>e. t_interface s n = Some e \<and> interface_ready e f))"

definition route_set :: "ip_family \<Rightarrow> route \<Rightarrow> 'n interface_topology \<Rightarrow> 'n interface_topology" where
  "route_set f best e =
     (case (f, rt_gateway best) of
        (V4, Some (V4Addr ip)) \<Rightarrow> e\<lparr>it_route_v4 := Some (Via ip)\<rparr>
      | (V4, _) \<Rightarrow> e\<lparr>it_route_v4 := Some Device\<rparr>
      | (V6, Some (V6Addr ip)) \<Rightarrow> e\<lparr>it_route_v6 := Some (Via ip)\<rparr>
      | (V6, _) \<Rightarrow> e\<lparr>it_route_v6 := Some Device\<rparr>)"

definition has_source :: "ip_family \<Rightarrow> 'n interface_topology \<Rightarrow> bool" where
  "has_source f e = (case f of V4 \<Rightarrow> it_source_v4 e \<noteq> [] | V6 \<Rightarrow> it_source_v6 e \<noteq> [])"

text \<open>The pass over one candidate, given what the first loop has established.\<close>

lemma pick_candidate_result:
  assumes "candidate_ok f s0 c" "kept s0 s"
  obtains best e where "best \<in> set (snd c)" "\<forall>r \<in> set (snd c). rt_metric best \<le> rt_metric r"
    "t_interface s (fst c) = Some e" "it_link_ready e"
    "pick_candidate f (s, amb, av) c =
      (if \<exists>r \<in> set (snd c). rt_metric r = rt_metric best \<and> rt_gateway r \<noteq> rt_gateway best
       then Inr (s, Some (''multiple equal default routes for '' @ fst c), av)
       else if has_source f e
       then Inr (set_interface (fst c) (route_set f best e) s, amb, av @ [(rt_metric best, fst c)])
       else Inr (s, amb, av))"
proof -
  obtain best rest where sort: "sort_key rt_metric (snd c) = best # rest"
    using assms(1) by (cases "sort_key rt_metric (snd c)") (auto simp: candidate_ok_def dest: arg_cong [of _ _ length])
  have mem: "set (snd c) = set (best # rest)" by (metis set_sort sort)
  have "sorted (map rt_metric (best # rest))" by (metis sort sorted_sort_key)
  then have least: "\<forall>r \<in> set (snd c). rt_metric best \<le> rt_metric r" by (auto simp: mem)
  have gw: "\<not> gateway_mismatch f (rt_gateway best)"
    using assms(1) mem by (auto simp: candidate_ok_def)
  have "ready_of s (fst c) = Some True"
    using assms by (simp add: candidate_ok_def kept_def)
  then obtain e where e: "t_interface s (fst c) = Some e" "it_link_ready e"
    by (auto simp: ready_of_def)
  have ex: "list_ex (\<lambda>r. rt_metric r = rt_metric best \<and> rt_gateway r \<noteq> rt_gateway best) (best # rest) =
      (\<exists>r \<in> set (snd c). rt_metric r = rt_metric best \<and> rt_gateway r \<noteq> rt_gateway best)"
    by (simp only: mem list_ex_iff)
  have "pick_candidate f (s, amb, av) c =
      (if \<exists>r \<in> set (snd c). rt_metric r = rt_metric best \<and> rt_gateway r \<noteq> rt_gateway best
       then Inr (s, Some (''multiple equal default routes for '' @ fst c), av)
       else if has_source f e
       then Inr (set_interface (fst c) (route_set f best e) s, amb, av @ [(rt_metric best, fst c)])
       else Inr (s, amb, av))"
  proof (cases "\<exists>r \<in> set (snd c). rt_metric r = rt_metric best \<and> rt_gateway r \<noteq> rt_gateway best")
    case True
    then show ?thesis
      unfolding pick_candidate_def prod.case split_beta sort list.case ex by simp
  next
    case False
    then show ?thesis
      using gw e unfolding pick_candidate_def prod.case split_beta sort list.case ex
      by (cases f; cases "rt_gateway best"; cases "the (rt_gateway best)")
         (auto simp: has_source_def route_set_def gateway_mismatch_def simp del: append.simps)
  qed
  moreover have "best \<in> set (snd c)" by (simp add: mem)
  ultimately show thesis using that least e by blast
qed

lemma route_set_sel [simp]:
  "it_link_ready (route_set f best e) = it_link_ready e"
  "it_identity (route_set f best e) = it_identity e"
  "it_source_v4 (route_set f best e) = it_source_v4 e"
  "it_source_v6 (route_set f best e) = it_source_v6 e"
  "it_route_v4 (route_set V6 best e) = it_route_v4 e"
  "it_route_v6 (route_set V4 best e) = it_route_v6 e"
  "it_route_v4 (route_set V4 best e) \<noteq> None"
  "it_route_v6 (route_set V6 best e) \<noteq> None"
  by (simp_all add: route_set_def split: ip_family.split option.split ip_addr.split)

lemma route_set_ready:
  assumes "entry_ok n e" "it_link_ready e" "has_source f e"
  shows "entry_ok n (route_set f best e)" "interface_ready (route_set f best e) f"
    "\<And>g. interface_ready e g \<Longrightarrow> interface_ready (route_set f best e) g"
    "it_link_ready (route_set f best e) = it_link_ready e"
proof -
  show ready: "interface_ready (route_set f best e) f"
    using assms by (cases f) (simp_all del: not_None_eq add: interface_ready_def has_source_def entry_ok_def, auto)
  show grows: "interface_ready (route_set f best e) g" if "interface_ready e g" for g
    using that by (cases f; cases g) (simp_all del: not_None_eq add: interface_ready_def)
  show "entry_ok n (route_set f best e)"
    using assms ready grows unfolding entry_ok_def by (cases f) simp_all
qed simp

lemma pick_candidate_inv:
  assumes c: "candidate_ok f s0 c" and inv: "pick_inv f s0 st"
  shows "\<exists>st'. pick_candidate f st c = Inr st' \<and> pick_inv f s0 st'"
proof -
  obtain s amb av where st: "st = (s, amb, av)" by (cases st)
  have k: "kept s0 s" using inv by (simp add: st pick_inv_def)
  then have ok: "entries_ok s" by (simp add: kept_def)
  obtain best e where "best \<in> set (snd c)" "\<forall>r \<in> set (snd c). rt_metric best \<le> rt_metric r"
    and e: "t_interface s (fst c) = Some e" "it_link_ready e"
    and r: "pick_candidate f (s, amb, av) c =
      (if \<exists>r \<in> set (snd c). rt_metric r = rt_metric best \<and> rt_gateway r \<noteq> rt_gateway best
       then Inr (s, Some (''multiple equal default routes for '' @ fst c), av)
       else if has_source f e
       then Inr (set_interface (fst c) (route_set f best e) s, amb, av @ [(rt_metric best, fst c)])
       else Inr (s, amb, av))"
    by (rule pick_candidate_result [OF c k])
  have "pick_inv f s0 (set_interface (fst c) (route_set f best e) s, amb,
      av @ [(rt_metric best, fst c)])" if "has_source f e"
  proof -
    note rs = route_set_ready [OF entries_ok_lookup [OF ok e(1)] e(2) that, where best = best]
    have "kept s0 (set_interface (fst c) (route_set f best e) s)"
      by (rule kept_trans [OF k kept_set [OF ok e(1) rs(1)]]) (use rs in auto)
    moreover have "\<exists>e'. t_interface (set_interface (fst c) (route_set f best e) s) n = Some e' \<and>
        interface_ready e' f" if "(m, n) \<in> set (av @ [(rt_metric best, fst c)])" for m n
      using inv that rs(2) by (auto simp: st pick_inv_def)
    ultimately show ?thesis
      unfolding pick_inv_def prod.case by (auto simp del: t_interface_set set_append)
  qed
  moreover have "pick_inv f s0 (s, amb', av)" for amb' using inv by (simp add: st pick_inv_def)
  ultimately show ?thesis unfolding st r by simp
qed

lemma try_fold_total:
  assumes "\<And>s x. I s \<Longrightarrow> x \<in> set xs \<Longrightarrow> \<exists>s'. f s x = Inr s' \<and> I s'" and "I s"
  shows "\<exists>s'. try_fold f s xs = Inr s' \<and> I s'"
  using assms
proof (induction xs arbitrary: s)
  case (Cons x xs)
  from Cons.prems(1) [OF Cons.prems(2)] obtain t where "f s x = Inr t" "I t" by auto
  with Cons.IH [of t] Cons.prems(1) show ?case by simp
qed simp

lemma try_fold_no_error:
  assumes "\<And>s x. x \<in> set xs \<Longrightarrow> f s x \<noteq> Inl e"
  shows "try_fold f s xs \<noteq> Inl e"
  using assms
proof (induction xs arbitrary: s)
  case (Cons x xs)
  then show ?case by (cases "f s x") auto
qed simp

lemma ordinary_rule_no_panic: "ordinary_rule rule \<noteq> Inl TopologyPanic"
  by (auto simp: ordinary_rule_def Let_def and_then_def table_of_def ok_or_def
      split: json.split option.split if_splits)

lemma scan_rule_no_panic: "scan_rule f st rule \<noteq> Inl TopologyPanic"
  using ordinary_rule_no_panic [of rule]
  by (cases st; cases "ordinary_rule rule") (auto simp: scan_rule_def Let_def)

lemma scan_rule_inv:
  "scan_rule f (s, amb) rule = Inr st' \<Longrightarrow> pick_inv f s0 (s, a, av) \<Longrightarrow> pick_inv f s0 (fst st', a, av)"
  by (auto simp: scan_rule_def and_then_Inr_iff Let_def pick_inv_def split: if_splits)

lemma select_default_available:
  "select_default amb (sort av) = DefaultInterface n \<Longrightarrow> \<exists>m. (m, n) \<in> set av"
proof -
  assume sel: "select_default amb (sort av) = DefaultInterface n"
  then have ne: "sort av \<noteq> []" and "n = snd (hd (sort av))"
    by (auto simp: select_default_def split: option.splits list.splits prod.splits if_splits)
  moreover from ne have "hd (sort av) \<in> set (sort av)" by (rule hd_in_set)
  ultimately show ?thesis by (metis prod.collapse set_sort)
qed

definition defaults_ready :: "'n topology \<Rightarrow> bool" where
  "defaults_ready s \<longleftrightarrow> (\<forall>f n. default_of s f = DefaultInterface n \<longrightarrow>
     (\<exists>e. t_interface s n = Some e \<and> interface_ready e f))"

lemma map_of_map_snd: "map_of (map (\<lambda>(k, v). (k, g v)) xs) k = map_option g (map_of xs k)"
  by (induction xs) auto

lemma canonical_networks_interface:
  "t_interface (canonical_networks s) n = map_option (\<lambda>e. e\<lparr>it_connected_networks :=
     sort_dedup (it_connected_networks e)\<rparr>) (t_interface s n)"
  by (simp add: t_interface_def canonical_networks_def map_of_map_snd)

lemma canonical_networks_ok: "entries_ok s \<Longrightarrow> entries_ok (canonical_networks s)"
  by (auto simp: entries_ok_def topology_wf_def canonical_networks_def bt_wf_def split_beta comp_def)

lemma canonical_networks_default [simp]: "default_of (canonical_networks s) f = default_of s f"
  by (simp add: default_of_def canonical_networks_def split: ip_family.split)

lemma canonical_networks_defaults:
  assumes "defaults_ready s"
  shows "defaults_ready (canonical_networks s)"
  unfolding defaults_ready_def canonical_networks_default
proof (intro allI impI)
  fix f n assume "default_of s f = DefaultInterface n"
  with assms obtain e where "t_interface s n = Some e" "interface_ready e f"
    by (auto simp: defaults_ready_def)
  then show "\<exists>e. t_interface (canonical_networks s) n = Some e \<and> interface_ready e f"
    by (simp add: canonical_networks_interface)
qed

lemma fill_family_result:
  assumes s: "entries_ok s" and d: "defaults_ready s"
  shows "fill_family X s f routes rules \<noteq> Inl TopologyPanic \<and>
    (\<forall>s'. fill_family X s f routes rules = Inr s' \<longrightarrow>
       entries_ok s' \<and> defaults_ready s' \<and> t_observed s' = t_observed s)"
proof (cases "try_fold (scan_route X f)
    \<lparr>rs_snapshot = s, rs_candidates = [], rs_ambiguity = None\<rparr> routes")
  case (Inl e)
  moreover have "e \<noteq> TopologyPanic"
    using try_fold_no_error [of routes "scan_route X f", OF scan_route_no_panic] Inl by metis
  ultimately show ?thesis by (simp add: fill_family_def)
next
  case (Inr st)
  have "scan_inv f s \<lparr>rs_snapshot = s, rs_candidates = [], rs_ambiguity = None\<rparr>"
    using s by (simp add: scan_inv_def kept_refl)
  have scan: "scan_inv f s st"
    by (rule try_fold_inv [OF Inr, where I = "scan_inv f s"]) (fact, rule scan_route_inv)
  have "\<exists>st'. try_fold (pick_candidate f) (rs_snapshot st, rs_ambiguity st, []) (rs_candidates st) =
      Inr st' \<and> pick_inv f s st'"
  proof (rule try_fold_total)
    show "pick_inv f s (rs_snapshot st, rs_ambiguity st, [])"
      using scan by (simp add: scan_inv_def pick_inv_def)
  next
    fix st' c assume "pick_inv f s st'" "c \<in> set (rs_candidates st)"
    with scan show "\<exists>t. pick_candidate f st' c = Inr t \<and> pick_inv f s t"
      by (intro pick_candidate_inv) (simp_all add: scan_inv_def)
  qed
  then obtain s2 amb av where pick: "try_fold (pick_candidate f)
      (rs_snapshot st, rs_ambiguity st, []) (rs_candidates st) = Inr (s2, amb, av)"
    "pick_inv f s (s2, amb, av)" by (metis prod_cases3)
  show ?thesis
  proof (cases "try_fold (scan_rule f) (s2, amb) rules")
    case (Inl e)
    moreover have "e \<noteq> TopologyPanic"
      using try_fold_no_error [of rules "scan_rule f", OF scan_rule_no_panic] Inl by metis
    ultimately show ?thesis using Inr pick(1) by (simp add: fill_family_def)
  next
    case inr2: (Inr st3)
    obtain s3 amb3 where st3: "st3 = (s3, amb3)" by (cases st3)
    have "pick_inv f s (fst st3, amb, av)"
      by (rule try_fold_inv [OF inr2, where I = "\<lambda>st. pick_inv f s (fst st, amb, av)"])
        (use pick(2) scan_rule_inv in \<open>auto\<close>)
    then have k: "kept s s3" and av: "\<And>m n. (m, n) \<in> set av \<Longrightarrow>
        \<exists>e. t_interface s3 n = Some e \<and> interface_ready e f"
      by (auto simp: st3 pick_inv_def)
    let ?d = "select_default amb3 (sort av)"
    have "defaults_ready (set_default f ?d s3)"
      unfolding defaults_ready_def
    proof (intro allI impI)
      fix g n assume "default_of (set_default f ?d s3) g = DefaultInterface n"
      then consider "g = f" "?d = DefaultInterface n" | "default_of s g = DefaultInterface n"
        using k by (auto simp: kept_def split: if_splits)
      then show "\<exists>e. t_interface (set_default f ?d s3) n = Some e \<and> interface_ready e g"
      proof cases
        case 1
        then show ?thesis using select_default_available av by fastforce
      next
        case 2
        with d k show ?thesis by (auto simp: defaults_ready_def kept_def ready_grows_def)
      qed
    qed
    then have "defaults_ready (canonical_networks (set_default f ?d s3))"
      by (rule canonical_networks_defaults)
    moreover have "entries_ok (canonical_networks (set_default f ?d s3))"
      using k by (simp add: kept_def canonical_networks_ok)
    moreover have "t_observed (canonical_networks (set_default f ?d s3)) = t_observed s"
      using k by (simp add: kept_def canonical_networks_def set_default_def split: ip_family.split)
    ultimately show ?thesis using Inr pick(1) inr2 by (simp add: fill_family_def st3)
  qed
qed

lemma decode_no_panic: "decode C ty d bytes \<noteq> Inl TopologyPanic"
  by (cases "from_slice C ty d bytes") (simp_all add: decode_def)

lemma add_link_no_panic: "add_link s l \<noteq> Inl TopologyPanic"
  by (simp add: add_link_def)

definition snapshot_ok :: "'n topology \<Rightarrow> bool" where
  "snapshot_ok s \<longleftrightarrow> entries_ok s \<and> defaults_ready s \<and> t_observed s"

lemma parse_family_result:
  assumes "snapshot_ok s"
  shows "parse_family C X s x \<noteq> Inl TopologyPanic \<and>
    (\<forall>s'. parse_family C X s x = Inr s' \<longrightarrow> snapshot_ok s')"
proof -
  obtain f rb ub where x: "x = (f, rb, ub)" by (cases x)
  show ?thesis
  proof (cases "decode C ''Vec<Route>'' (de_list de_route) rb")
    case (Inl e)
    then show ?thesis using decode_no_panic by (auto simp: parse_family_def x)
  next
    case routes: (Inr routes)
    show ?thesis
    proof (cases "decode C ''Vec<Value>'' (de_list de_value) ub")
      case (Inl e)
      then show ?thesis using decode_no_panic routes by (auto simp: parse_family_def x)
    next
      case (Inr rules)
      with routes show ?thesis
        using assms fill_family_result [of s X f routes rules]
        by (auto simp: parse_family_def x snapshot_ok_def)
    qed
  qed
qed

lemma snapshot_ok_start: "entries_ok s \<Longrightarrow> t_observed s \<Longrightarrow> \<forall>f. default_of s f = DefaultNone \<Longrightarrow> snapshot_ok s"
  by (simp add: snapshot_ok_def defaults_ready_def)

lemma add_address_list_keep [simp]:
  "t_observed (add_address_list al s) = t_observed s"
  "default_of (add_address_list al s) f = default_of s f"
  by (simp_all add: add_address_list_def default_of_def split: option.split prod.split ip_family.split)

lemma add_link_keep:
  "add_link s l = Inr s' \<Longrightarrow> t_observed s' = t_observed s \<and> default_of s' f = default_of s f"
  by (auto simp: add_link_def default_of_def split: if_splits ip_family.split)

lemma add_links_ok:
  assumes "try_fold add_link (empty_topology\<lparr>t_observed := True\<rparr>) links = Inr s"
  shows "entries_ok s \<and> t_observed s \<and> (\<forall>f. default_of s f = DefaultNone)"
proof (rule try_fold_inv [OF assms])
  show "entries_ok (empty_topology\<lparr>t_observed := True\<rparr>) \<and> t_observed (empty_topology\<lparr>t_observed := True\<rparr>) \<and>
      (\<forall>f. default_of (empty_topology\<lparr>t_observed := True\<rparr>) f = DefaultNone)"
    by (simp add: entries_ok_def topology_wf_def empty_topology_def bt_wf_def default_of_def
        split: ip_family.split)
next
  fix s l s' assume "entries_ok s \<and> t_observed s \<and> (\<forall>f. default_of s f = DefaultNone)"
    "add_link s l = Inr s'"
  then show "entries_ok s' \<and> t_observed s' \<and> (\<forall>f. default_of s' f = DefaultNone)"
    using add_link_ok add_link_keep by metis
qed

lemma add_address_lists_ok:
  "entries_ok s \<Longrightarrow> entries_ok (fold add_address_list als s) \<and>
     t_observed (fold add_address_list als s) = t_observed s \<and>
     default_of (fold add_address_list als s) f = default_of s f"
  by (induction als arbitrary: s) (simp_all add: add_address_list_ok)

text \<open>The assigned addresses do not change after the address pass.\<close>

lemma set_interface_assigned [simp]:
  "t_assigned_addresses (set_interface n e s) = t_assigned_addresses s"
  by (simp add: set_interface_def)

lemma fill_family_assigned:
  assumes "fill_family X s f routes rules = Inr s'"
  shows "t_assigned_addresses s' = t_assigned_addresses s"
proof -
  from assms obtain st s2 amb av s3 amb3 where
    1: "try_fold (scan_route X f) \<lparr>rs_snapshot = s, rs_candidates = [], rs_ambiguity = None\<rparr> routes = Inr st" and
    2: "try_fold (pick_candidate f) (rs_snapshot st, rs_ambiguity st, []) (rs_candidates st) = Inr (s2, amb, av)" and
    3: "try_fold (scan_rule f) (s2, amb) rules = Inr (s3, amb3)" and
    4: "s' = canonical_networks (set_default f (select_default amb3 (sort av)) s3)"
    by (auto simp: fill_family_def and_then_Inr_iff)
  have "t_assigned_addresses (rs_snapshot st) = t_assigned_addresses s"
    by (rule try_fold_inv [OF 1, where I = "\<lambda>st. t_assigned_addresses (rs_snapshot st) = t_assigned_addresses s"])
      (auto simp: scan_route_def and_then_Inr_iff Let_def split: if_splits option.splits)
  moreover have "t_assigned_addresses (fst (s2, amb, av)) = t_assigned_addresses (rs_snapshot st)"
    by (rule try_fold_inv [OF 2, where I = "\<lambda>st'. t_assigned_addresses (fst st') = t_assigned_addresses (rs_snapshot st)"])
      (auto simp: pick_candidate_def split: if_splits option.splits list.splits ip_family.splits ip_addr.splits)
  moreover have "t_assigned_addresses (fst (s3, amb3)) = t_assigned_addresses s2"
    by (rule try_fold_inv [OF 3, where I = "\<lambda>st'. t_assigned_addresses (fst st') = t_assigned_addresses s2"])
      (auto simp: scan_rule_def and_then_Inr_iff Let_def split: if_splits)
  ultimately show ?thesis
    by (simp add: 4 canonical_networks_def set_default_def split: ip_family.split)
qed

lemma parse_families_result:
  assumes "snapshot_ok s"
  shows "try_fold (parse_family C X) s xs \<noteq> Inl TopologyPanic \<and>
    (\<forall>t. try_fold (parse_family C X) s xs = Inr t \<longrightarrow>
       snapshot_ok t \<and> t_assigned_addresses t = t_assigned_addresses s)"
  using assms
proof (induction xs arbitrary: s)
  case (Cons x xs)
  show ?case
  proof (cases "parse_family C X s x")
    case (Inl e)
    with parse_family_result [OF Cons.prems, of C X x] show ?thesis by simp
  next
    case (Inr s')
    then have "t_assigned_addresses s' = t_assigned_addresses s"
      by (auto simp: parse_family_def and_then_Inr_iff split: prod.splits dest: fill_family_assigned)
    moreover have "snapshot_ok s'" using parse_family_result [OF Cons.prems, of C X x] Inr by simp
    ultimately show ?thesis using Cons.IH [of s'] Inr by simp
  qed
qed simp

lemma parse_topology_result:
  "parse_topology C X input \<noteq> Inl TopologyPanic \<and>
   (\<forall>t. parse_topology C X input = Inr t \<longrightarrow>
      snapshot_ok t \<and> sorted_wrt (<) (t_assigned_addresses t))"
proof -
  let ?links = "decode C ''Vec<Link>'' (de_list de_link) (ti_links input)"
  let ?addresses = "decode C ''Vec<AddressList>'' (de_list de_address_list) (ti_addresses input)"
  consider e where "?links = Inl e" | links e where "?links = Inr links" "?addresses = Inl e"
    | links addresses where "?links = Inr links" "?addresses = Inr addresses"
    by (cases ?links; cases ?addresses) auto
  then show ?thesis
  proof cases
    case 3
    show ?thesis
    proof (cases "try_fold add_link (empty_topology\<lparr>t_observed := True\<rparr> :: 'a topology) links")
      case (Inl e)
      then show ?thesis
        using 3 try_fold_no_error [of links add_link, OF add_link_no_panic]
        by (auto simp: parse_topology_def)
    next
      case (Inr s)
      let ?s = "fold add_address_list addresses s"
      let ?t = "?s\<lparr>t_assigned_addresses := sort_dedup (t_assigned_addresses ?s)\<rparr>"
      have "entries_ok s" "t_observed s" "\<forall>f. default_of s f = DefaultNone"
        using add_links_ok [OF Inr] by auto
      then have "snapshot_ok ?t"
        using add_address_lists_ok [of s addresses]
        by (intro snapshot_ok_start) auto
      from parse_families_result [OF this, of C X "[(V4, ti_routes_v4 input, ti_rules_v4 input),
          (V6, ti_routes_v6 input, ti_rules_v6 input)]"] show ?thesis
        using 3 Inr by (auto simp: parse_topology_def Let_def strict_sort_dedup simp del: try_fold.simps)
    qed
  qed (use decode_no_panic in \<open>auto simp: parse_topology_def\<close>)
qed

section \<open>Policy rules\<close>

lemma ordinary_rule_parts:
  assumes "ordinary_rule rule = Inr True"
  obtains obj table where "rule = JObject obj" "fst ` set obj \<subseteq> set ordinary_fields"
    "\<And>k v. k \<in> {''src'', ''dst'', ''from'', ''to''} \<Longrightarrow> object_get k obj = Some v \<Longrightarrow> v = JString ''all''"
    "object_get ''flags'' obj \<in> {None, Some (JArray [])}"
    "table_of (object_get ''table'' obj) = Inr table"
    "object_get ''fwmark'' obj = None \<and> object_get ''fwmask'' obj = None \<and>
       builtin_rule (option_bind (object_get ''priority'' obj) number) table \<or>
     TABLE_BASE \<le> table \<and> table \<le> TABLE_MAX \<and> rule_mask obj = Some (- 1) \<and>
       option_bind (object_get ''fwmark'' obj) mark_number = Some (MARK_BASE + (table - TABLE_BASE)) \<and>
       option_bind (object_get ''priority'' obj) number = Some (RULE_PRIORITY_BASE + (table - TABLE_BASE))"
proof (cases rule)
  case (JObject obj)
  have all: "v = JString ''all''" if "as_str v = Some ''all''" for v
    using that by (cases v) auto
  from assms JObject obtain table where t: "table_of (object_get ''table'' obj) = Inr table"
    by (auto simp: ordinary_rule_def and_then_Inr_iff split: if_splits)
  show thesis
  proof (rule that [OF JObject _ _ _ t])
    show "fst ` set obj \<subseteq> set ordinary_fields"
      using assms JObject by (auto simp: ordinary_rule_def list_ex_iff split: if_splits)
    show "v = JString ''all''" if "k \<in> {''src'', ''dst'', ''from'', ''to''}" "object_get k obj = Some v" for k v
      using assms JObject that by (intro all) (auto simp: ordinary_rule_def split: if_splits)
    show "object_get ''flags'' obj \<in> {None, Some (JArray [])}"
      using assms JObject by (auto simp: ordinary_rule_def split: if_splits option.splits)
  qed (use assms JObject t in \<open>auto simp: ordinary_rule_def Let_def split: if_splits\<close>)
qed (use assms in \<open>simp_all add: ordinary_rule_def\<close>)

section \<open>Properties\<close>

text \<open>
  Reading the network never panics: for every output of the \<open>ip\<close> commands, no \<open>expect\<close>,
  index or \<open>unreachable!\<close> of the reader is reached; the result is a snapshot or an error.
\<close>

lemma topology_reader_never_panics: "parse_topology C X input \<noteq> Inl TopologyPanic"
  using parse_topology_result by blast

text \<open>
  C19. Every snapshot read is well-formed: it is marked observed, each interface is filed once under
  the nonempty name of its own identity with a nonzero index, its source addresses are usable,
  ordered and unique, a route is recorded only on a ready link that has a source address of the
  family, the assigned addresses are ordered and unique, and a reported system default is an
  interface that is ready for that family.
\<close>

theorem parsed_topology_well_formed:
  assumes "parse_topology C X input = Inr t"
  shows "t_observed t \<and> topology_wf t \<and> (\<forall>(name, e) \<in> set (t_interfaces t). entry_ok name e) \<and>
    sorted_wrt (<) (t_assigned_addresses t) \<and>
    (\<forall>f name. system_default t f = Inr (Some name) \<longrightarrow>
       (\<exists>e. t_interface t name = Some e \<and> interface_ready e f))"
proof -
  have "snapshot_ok t" "sorted_wrt (<) (t_assigned_addresses t)"
    using parse_topology_result assms by blast+
  then show ?thesis
    by (auto simp: snapshot_ok_def entries_ok_def defaults_ready_def system_default_def
        split: default_selection.splits)
qed

text \<open>
  Foreign policy routing is never taken for our own: a rule counts as ordinary only if it is
  an object with known members, selects all sources and destinations, has no flags, and is either a
  built-in rule without a mark or the rule of a reserved table with exactly that slot's mark, full
  mask and priority.
\<close>

lemma ordinary_rule_only_builtin_or_owned:
  assumes "ordinary_rule rule = Inr True"
  shows "\<exists>obj table. rule = JObject obj \<and> fst ` set obj \<subseteq> set ordinary_fields \<and>
    (\<forall>k \<in> {''src'', ''dst'', ''from'', ''to''}. object_get k obj \<in> {None, Some (JString ''all'')}) \<and>
    object_get ''flags'' obj \<in> {None, Some (JArray [])} \<and>
    table_of (object_get ''table'' obj) = Inr table \<and>
    (object_get ''fwmark'' obj = None \<and>
       (option_bind (object_get ''priority'' obj) number, table) \<in>
         {(Some 0, 255), (Some 32766, 254), (Some 32767, 253)} \<or>
     TABLE_BASE \<le> table \<and> table \<le> TABLE_MAX \<and> rule_mask obj = Some (- 1) \<and>
       option_bind (object_get ''fwmark'' obj) mark_number = Some (MARK_BASE + (table - TABLE_BASE)) \<and>
       option_bind (object_get ''priority'' obj) number = Some (RULE_PRIORITY_BASE + (table - TABLE_BASE)))"
  using assms
proof (rule ordinary_rule_parts)
  fix obj table
  assume rule: "rule = JObject obj" "fst ` set obj \<subseteq> set ordinary_fields"
    and sel: "\<And>k v. k \<in> {''src'', ''dst'', ''from'', ''to''} \<Longrightarrow> object_get k obj = Some v \<Longrightarrow> v = JString ''all''"
    and rest: "object_get ''flags'' obj \<in> {None, Some (JArray [])}"
      "table_of (object_get ''table'' obj) = Inr table"
    and kind: "object_get ''fwmark'' obj = None \<and> object_get ''fwmask'' obj = None \<and>
       builtin_rule (option_bind (object_get ''priority'' obj) number) table \<or>
     TABLE_BASE \<le> table \<and> table \<le> TABLE_MAX \<and> rule_mask obj = Some (- 1) \<and>
       option_bind (object_get ''fwmark'' obj) mark_number = Some (MARK_BASE + (table - TABLE_BASE)) \<and>
       option_bind (object_get ''priority'' obj) number = Some (RULE_PRIORITY_BASE + (table - TABLE_BASE))"
  have "\<forall>k \<in> {''src'', ''dst'', ''from'', ''to''}. object_get k obj \<in> {None, Some (JString ''all'')}"
    using sel by (metis insertCI option.exhaust)
  with rule rest kind show ?thesis unfolding builtin_rule_def by blast
qed

text \<open>
  The rule RouteLane adds for a slot, as \<open>ip -j -N rule show\<close> prints it, is ordinary: our own
  policy rules never make the system default ambiguous.
\<close>

lemma owned_rule_is_ordinary:
  assumes "slot < 100"
  shows "ordinary_rule (JObject
    [(''priority'', JInt (uint (RULE_PRIORITY_BASE + of_nat slot))), (''src'', JString ''all''),
     (''fwmark'', JString (hex_0x08 (MARK_BASE + of_nat slot))),
     (''table'', JString (decimal (uint (TABLE_BASE + of_nat slot))))]) = Inr True"
proof -
  let ?slot = "of_nat slot :: u32"
  have int: "number (JInt (uint w)) = Some w" for w :: u32
    using uint_u32_bound [of w] by (simp add: number_def or_else_def)
  have dec: "number (JString (decimal (uint w))) = Some w" for w :: u32
    by (simp add: number_def or_else_def parse_u32_decimal)
  have "parse_u32 (hex_0x08 w) = None" for w
    by (simp add: hex_0x08_split parse_u32_def parse_radix_def digit_value_def)
  then have mark: "mark_number (JString (hex_0x08 w)) = Some w" for w
    by (simp add: mark_number_def number_def or_else_def hex_0x08_split parse_u32_hex_08 del: append.simps)
  have "table_of (Some (JString (decimal (uint (TABLE_BASE + ?slot))))) = Inr (TABLE_BASE + ?slot)"
    by (simp add: table_of_def dec or_else_def)
  then show ?thesis
    using slot_words [OF assms]
    by (simp add: ordinary_rule_def object_get_def ordinary_fields_def rule_mask_def int mark Let_def)
qed

section \<open>Witnesses\<close>

definition demo_links :: json where
  "demo_links = JArray [JObject [(''ifindex'', JInt 2), (''ifname'', JString ''eth0''),
     (''flags'', JArray [JString ''UP'', JString ''LOWER_UP'']), (''operstate'', JString ''UP''),
     (''link_type'', JString ''ether'')]]"

definition demo_addresses :: json where
  "demo_addresses = JArray [JObject [(''ifindex'', JInt 2), (''ifname'', JString ''eth0''),
     (''addr_info'', JArray [JObject [(''family'', JString ''inet''),
       (''local'', JString ''10.0.0.2''), (''scope'', JString ''global'')]])]]"

definition demo_routes :: json where
  "demo_routes = JArray [JObject [(''dst'', JString ''default''), (''gateway'', JString ''10.0.0.1''),
     (''dev'', JString ''eth0''), (''metric'', JInt 100)]]"

text \<open>A reader that knows the four documents by one-letter names.\<close>

definition demo_reader :: json_reader where
  "demo_reader = \<lparr>jc_read = (\<lambda>s. Inr (if s = ''l'' then demo_links else if s = ''a'' then demo_addresses
     else if s = ''r'' then demo_routes else JArray [])), jc_mismatch = (\<lambda>_ _. ''mismatch'')\<rparr>"

definition demo_input :: topology_input where
  "demo_input = \<lparr>ti_links = ''l'', ti_addresses = ''a'', ti_routes_v4 = ''r'', ti_routes_v6 = [],
     ti_rules_v4 = [], ti_rules_v6 = []\<rparr>"

definition demo_parsed :: "(ip_addr \<times> nat) topology" where
  "demo_parsed = \<lparr>t_interfaces = [(''eth0'', \<lparr>
       it_identity = Some \<lparr>ii_ifindex = 2, ii_name = ''eth0'', ii_kind = ''ether'', ii_hardware_address = None\<rparr>,
       it_link_ready = True, it_route_v4 = Some (Via 0x0A000001), it_route_v6 = None,
       it_source_v4 = [0x0A000002], it_source_v6 = [], it_connected_networks = []\<rparr>)],
     t_default_v4 = DefaultInterface ''eth0'', t_default_v6 = DefaultNone, t_observed = True,
     t_conflicts = [], t_assigned_addresses = [V4Addr 0x0A000002]\<rparr>"

lemma demo_topology_parse: "parse_topology demo_reader demo_foreign demo_input = Inr demo_parsed"
  by code_simp

theorem parsed_topology_well_formed_witness:
  "system_default demo_parsed V4 = Inr (Some ''eth0'') \<and>
     (\<exists>e. t_interface demo_parsed ''eth0'' = Some e \<and> interface_ready e V4)"
proof -
  have "system_default demo_parsed V4 = Inr (Some ''eth0'')" by code_simp
  then show ?thesis using parsed_topology_well_formed [OF demo_topology_parse] by blast
qed

lemma ordinary_rule_only_builtin_or_owned_witness:
  "\<exists>obj. JObject [(''priority'', JInt 0), (''table'', JString ''local'')] = JObject obj \<and>
     fst ` set obj \<subseteq> set ordinary_fields"
proof -
  have "ordinary_rule (JObject [(''priority'', JInt 0), (''table'', JString ''local'')]) = Inr True"
    by code_simp
  from ordinary_rule_only_builtin_or_owned [OF this] show ?thesis by blast
qed

lemma owned_rule_is_ordinary_witness:
  "ordinary_rule (JObject [(''priority'', JInt (uint (RULE_PRIORITY_BASE + of_nat 3))),
     (''src'', JString ''all''), (''fwmark'', JString (hex_0x08 (MARK_BASE + of_nat 3))),
     (''table'', JString (decimal (uint (TABLE_BASE + of_nat 3))))]) = Inr True"
  by (rule owned_rule_is_ordinary) simp

end
