(* ===== verification/Effects.thy ===== *)
theory Effects
  imports Prelude
begin

text \<open>
  Fallible operations on a world. The code outside the repository (the kernel, the file system, the
  \<open>ip\<close> and \<open>nft\<close> programs) is reached only through a few traits; an operation of such a trait is a
  function from the world to a result and the next world. The combinators follow Rust's \<open>?\<close>,
  \<open>map_err\<close> and \<open>for\<close>; \<open>hoare\<close> is partial correctness with a postcondition for each outcome, the
  tool for facts that hold whatever the outside world does.
\<close>

section \<open>Operations\<close>

text \<open>Errors are texts in most of the program; some components have an error type of their own.\<close>

type_synonym ('w, 'e, 'a) fallible = "'w \<Rightarrow> ('e, 'a) result \<times> 'w"
type_synonym ('w, 'a) io = "('w, string, 'a) fallible"

definition io_return :: "'a \<Rightarrow> ('w, 'e, 'a) fallible" where
  "io_return a w = (Inr a, w)"

definition io_fail :: "'e \<Rightarrow> ('w, 'e, 'a) fallible" where
  "io_fail e w = (Inl e, w)"

text \<open>\<open>m?\<close> followed by the rest of the function.\<close>

definition io_bind ::
  "('w, 'e, 'a) fallible \<Rightarrow> ('a \<Rightarrow> ('w, 'e, 'b) fallible) \<Rightarrow> ('w, 'e, 'b) fallible"
where
  "io_bind m k w = (case m w of (Inl e, w') \<Rightarrow> (Inl e, w') | (Inr a, w') \<Rightarrow> k a w')"

definition io_seq :: "('w, 'e, unit) fallible \<Rightarrow> ('w, 'e, 'b) fallible \<Rightarrow> ('w, 'e, 'b) fallible" where
  "io_seq m k = io_bind m (\<lambda>_. k)"

definition io_lift :: "('e, 'a) result \<Rightarrow> ('w, 'e, 'a) fallible" where
  "io_lift r w = (r, w)"

definition io_guard :: "bool \<Rightarrow> 'e \<Rightarrow> ('w, 'e, unit) fallible" where
  "io_guard ok e = (if ok then io_return () else io_fail e)"

definition io_map_err :: "('e \<Rightarrow> 'f) \<Rightarrow> ('w, 'e, 'a) fallible \<Rightarrow> ('w, 'f, 'a) fallible" where
  "io_map_err g m w = (case m w of (r, w') \<Rightarrow> (map_err g r, w'))"

text \<open>The outcome as a value, for code that inspects a \<open>Result\<close> instead of passing it on.\<close>

definition io_result :: "('w, 'e, 'a) fallible \<Rightarrow> ('w, 'f, ('e, 'a) result) fallible" where
  "io_result m w = (case m w of (r, w') \<Rightarrow> (Inr r, w'))"

fun io_each :: "('a \<Rightarrow> ('w, 'e, unit) fallible) \<Rightarrow> 'a list \<Rightarrow> ('w, 'e, unit) fallible" where
  "io_each f [] = io_return ()"
| "io_each f (x # xs) = io_seq (f x) (io_each f xs)"

lemma io_simps [simp]:
  "io_return a w = (Inr a, w)"
  "io_fail e w = (Inl e, w)"
  "io_lift r w = (r, w)"
  "io_bind (io_return a) k = k a"
  "io_bind (io_fail e) k = io_fail e"
  "io_guard True e = io_return ()"
  "io_guard False e = io_fail e"
  by (simp_all add: io_return_def io_fail_def io_lift_def io_bind_def io_guard_def fun_eq_iff)

lemma io_bind_Inr:
  "io_bind m k w = (Inr b, w') \<longleftrightarrow> (\<exists>a w1. m w = (Inr a, w1) \<and> k a w1 = (Inr b, w'))"
  by (auto simp: io_bind_def split: prod.splits sum.splits)

lemma io_bind_Inl:
  "io_bind m k w = (Inl e, w') \<longleftrightarrow>
     m w = (Inl e, w') \<or> (\<exists>a w1. m w = (Inr a, w1) \<and> k a w1 = (Inl e, w'))"
  by (auto simp: io_bind_def split: prod.splits sum.splits)

lemma io_lift_simps [simp]:
  "io_lift (Inr a) = io_return a" "io_lift (Inl e) = io_fail e"
  by (simp_all add: fun_eq_iff)

lemma io_result_eq: "io_result m w = (r, w') \<longleftrightarrow> (\<exists>x. r = Inr x \<and> m w = (x, w'))"
  by (auto simp: io_result_def split: prod.splits)

text \<open>An operation of the world inside one that has a state of its own besides it.\<close>

definition in_world :: "('w, 'e, 'a) fallible \<Rightarrow> ('s \<times> 'w, 'e, 'a) fallible" where
  "in_world m x = (case x of (s, w) \<Rightarrow> (case m w of (r, w') \<Rightarrow> (r, (s, w'))))"

definition io_gets :: "('s \<Rightarrow> 'a) \<Rightarrow> ('s \<times> 'w, 'e, 'a) fallible" where
  "io_gets f x = (Inr (f (fst x)), x)"

definition io_modify :: "('s \<Rightarrow> 's) \<Rightarrow> ('s \<times> 'w, 'e, unit) fallible" where
  "io_modify f x = (case x of (s, w) \<Rightarrow> (Inr (), (f s, w)))"

text \<open>Run an operation with a state of its own and forget that state.\<close>

definition with_state :: "'s \<Rightarrow> ('s \<times> 'w, 'e, 'a) fallible \<Rightarrow> ('w, 'e, 'a) fallible" where
  "with_state s m w = (case m (s, w) of (r, (_, w')) \<Rightarrow> (r, w'))"

text \<open>Run an operation with a state of its own and return that state with the outcome.\<close>

definition run_state ::
  "'s \<Rightarrow> ('s \<times> 'w, 'e, 'a) fallible \<Rightarrow> ('w, 'f, ('e, 'a) result \<times> 's) fallible"
where
  "run_state s m w = (case m (s, w) of (r, (s', w')) \<Rightarrow> (Inr (r, s'), w'))"

text \<open>\<open>unwrap_or\<close> on the outcome of an operation.\<close>

definition io_unwrap_or :: "'a \<Rightarrow> ('w, 'e, 'a) fallible \<Rightarrow> ('w, 'f, 'a) fallible" where
  "io_unwrap_or d m w = (case m w of (r, w') \<Rightarrow> (Inr (case r of Inl _ \<Rightarrow> d | Inr a \<Rightarrow> a), w'))"

section \<open>Partial correctness\<close>

text \<open>
  \<open>hoare P m Q E\<close>: from a world that satisfies \<open>P\<close>, if \<open>m\<close> succeeds with \<open>a\<close> the next world satisfies
  \<open>Q a\<close>, and if it fails the next world satisfies \<open>E\<close>.
\<close>

named_theorems hoare_rule "rules that step through an operation"

definition hoare ::
  "('w \<Rightarrow> bool) \<Rightarrow> ('w, 'e, 'a) fallible \<Rightarrow> ('a \<Rightarrow> 'w \<Rightarrow> bool) \<Rightarrow> ('w \<Rightarrow> bool) \<Rightarrow> bool"
where
  "hoare P m Q E \<longleftrightarrow>
     (\<forall>w. P w \<longrightarrow> (case m w of (Inr a, w') \<Rightarrow> Q a w' | (Inl _, w') \<Rightarrow> E w'))"

lemma hoareI:
  assumes "\<And>w a w'. P w \<Longrightarrow> m w = (Inr a, w') \<Longrightarrow> Q a w'"
    and "\<And>w e w'. P w \<Longrightarrow> m w = (Inl e, w') \<Longrightarrow> E w'"
  shows "hoare P m Q E"
  using assms by (auto simp: hoare_def split: prod.split sum.split)

lemma hoareD:
  assumes "hoare P m Q E" "P w"
  shows "m w = (Inr a, w') \<Longrightarrow> Q a w'" "m w = (Inl e, w') \<Longrightarrow> E w'"
proof -
  have *: "case m w of (Inr a, w') \<Rightarrow> Q a w' | (Inl _, w') \<Rightarrow> E w'"
    by (rule mp [OF spec [OF assms(1) [unfolded hoare_def]] assms(2)])
  show "m w = (Inr a, w') \<Longrightarrow> Q a w'" "m w = (Inl e, w') \<Longrightarrow> E w'" using * by simp_all
qed

lemma hoare_conseq:
  assumes "hoare P m Q E" "\<And>w. P' w \<Longrightarrow> P w" "\<And>a w. Q a w \<Longrightarrow> Q' a w" "\<And>w. E w \<Longrightarrow> E' w"
  shows "hoare P' m Q' E'"
  using assms by (fastforce simp: hoare_def split: prod.splits sum.splits)

lemma hoare_return [hoare_rule]: "(\<And>w. P w \<Longrightarrow> Q a w) \<Longrightarrow> hoare P (io_return a) Q E"
  by (simp add: hoare_def)

lemma hoare_fail [hoare_rule]: "(\<And>w. P w \<Longrightarrow> E w) \<Longrightarrow> hoare P (io_fail e) Q E"
  by (simp add: hoare_def)

lemma hoare_lift [hoare_rule]:
  "(\<And>w a. r = Inr a \<Longrightarrow> P w \<Longrightarrow> Q a w) \<Longrightarrow> (\<And>w e. r = Inl e \<Longrightarrow> P w \<Longrightarrow> E w) \<Longrightarrow>
     hoare P (io_lift r) Q E"
  by (cases r) (simp_all add: hoare_return hoare_fail)

lemma hoare_guard [hoare_rule]:
  "(\<And>w. ok \<Longrightarrow> P w \<Longrightarrow> Q () w) \<Longrightarrow> (\<And>w. \<not> ok \<Longrightarrow> P w \<Longrightarrow> E w) \<Longrightarrow> hoare P (io_guard ok e) Q E"
  by (cases ok) (simp_all add: hoare_return hoare_fail)

lemma hoare_bind:
  assumes "hoare P m R E" "\<And>a. hoare (R a) (k a) Q E"
  shows "hoare P (io_bind m k) Q E"
  using assms by (fastforce simp: hoare_def io_bind_def split: prod.splits sum.splits)

lemma hoare_seq: "hoare P m (\<lambda>_. R) E \<Longrightarrow> hoare R k Q E \<Longrightarrow> hoare P (io_seq m k) Q E"
  unfolding io_seq_def by (erule hoare_bind)

lemma hoare_map_err [hoare_rule]: "hoare P m Q E \<Longrightarrow> hoare P (io_map_err g m) Q E"
  by (fastforce simp: hoare_def io_map_err_def map_err_def split: prod.splits sum.splits)

lemma hoare_result [hoare_rule]:
  "hoare P m (\<lambda>a. Q (Inr a)) (\<lambda>w. \<forall>e. Q (Inl e) w) \<Longrightarrow> hoare P (io_result m) Q E"
proof (rule hoareI)
  fix w r w' assume m: "hoare P m (\<lambda>a. Q (Inr a)) (\<lambda>w. \<forall>e. Q (Inl e) w)" "P w"
    "io_result m w = (Inr r, w')"
  then show "Q r w'" using hoareD [OF m(1,2)] by (cases r) (auto simp: io_result_eq)
qed (auto simp: io_result_eq)

lemma hoare_if [hoare_rule]:
  "(c \<Longrightarrow> hoare P m Q E) \<Longrightarrow> (\<not> c \<Longrightarrow> hoare P n Q E) \<Longrightarrow> hoare P (if c then m else n) Q E"
  by simp

lemma hoare_option [hoare_rule]:
  "(x = None \<Longrightarrow> hoare P m Q E) \<Longrightarrow> (\<And>a. x = Some a \<Longrightarrow> hoare P (k a) Q E) \<Longrightarrow>
     hoare P (case x of None \<Rightarrow> m | Some a \<Rightarrow> k a) Q E"
  by (cases x) simp_all

lemma hoare_sum [hoare_rule]:
  "(\<And>e. x = Inl e \<Longrightarrow> hoare P (m e) Q E) \<Longrightarrow> (\<And>a. x = Inr a \<Longrightarrow> hoare P (k a) Q E) \<Longrightarrow>
     hoare P (case x of Inl e \<Rightarrow> m e | Inr a \<Rightarrow> k a) Q E"
  by (cases x) simp_all

text \<open>An operation keeps a world predicate, whatever its outcome.\<close>

definition keeps :: "('w \<Rightarrow> bool) \<Rightarrow> ('w, 'e, 'a) fallible \<Rightarrow> bool" where
  "keeps P m \<longleftrightarrow> hoare P m (\<lambda>_. P) P"

named_theorems keeps_rule "rules for operations that keep a predicate"

lemma keepsD: "keeps P m \<Longrightarrow> P w \<Longrightarrow> m w = (r, w') \<Longrightarrow> P w'"
  by (cases r) (auto simp: keeps_def hoare_def split: prod.splits sum.splits)

lemma keeps_hoare: "keeps P m \<Longrightarrow> (\<And>a w. P w \<Longrightarrow> Q a w) \<Longrightarrow> (\<And>w. P w \<Longrightarrow> E w) \<Longrightarrow> hoare P m Q E"
  unfolding keeps_def by (erule hoare_conseq)

lemma keepsI: "(\<And>w. P w \<Longrightarrow> P (snd (m w))) \<Longrightarrow> keeps P m"
  unfolding keeps_def by (rule hoareI) (metis snd_conv)+

lemma keeps_simps [keeps_rule]:
  "keeps P (io_return a)" "keeps P (io_fail e)" "keeps P (io_lift r)" "keeps P (io_guard ok e)"
  by (auto simp: keeps_def intro!: hoare_rule)

lemma keeps_bind [keeps_rule]: "keeps P m \<Longrightarrow> (\<And>a. keeps P (k a)) \<Longrightarrow> keeps P (io_bind m k)"
  unfolding keeps_def by (erule hoare_bind)

lemma keeps_seq [keeps_rule]: "keeps P m \<Longrightarrow> keeps P k \<Longrightarrow> keeps P (io_seq m k)"
  unfolding keeps_def by (erule hoare_seq)

lemma keeps_map_err [keeps_rule]: "keeps P m \<Longrightarrow> keeps P (io_map_err g m)"
  unfolding keeps_def by (rule hoare_map_err)

lemma keeps_result [keeps_rule]: "keeps P m \<Longrightarrow> keeps P (io_result m)"
  unfolding keeps_def by (intro hoare_result) simp

lemma keeps_if [keeps_rule]:
  "(c \<Longrightarrow> keeps P m) \<Longrightarrow> (\<not> c \<Longrightarrow> keeps P n) \<Longrightarrow> keeps P (if c then m else n)"
  by simp

lemma keeps_option [keeps_rule]:
  "(x = None \<Longrightarrow> keeps P m) \<Longrightarrow> (\<And>a. x = Some a \<Longrightarrow> keeps P (k a)) \<Longrightarrow>
     keeps P (case x of None \<Rightarrow> m | Some a \<Rightarrow> k a)"
  by (cases x) simp_all

lemma keeps_sum [keeps_rule]:
  "(\<And>e. x = Inl e \<Longrightarrow> keeps P (m e)) \<Longrightarrow> (\<And>a. x = Inr a \<Longrightarrow> keeps P (k a)) \<Longrightarrow>
     keeps P (case x of Inl e \<Rightarrow> m e | Inr a \<Rightarrow> k a)"
  by (cases x) simp_all

lemma keeps_prod [keeps_rule]:
  "(\<And>a b. x = (a, b) \<Longrightarrow> keeps P (k a b)) \<Longrightarrow> keeps P (case x of (a, b) \<Rightarrow> k a b)"
  by (cases x) simp_all

lemma keeps_each [keeps_rule]: "(\<And>x. x \<in> set xs \<Longrightarrow> keeps P (f x)) \<Longrightarrow> keeps P (io_each f xs)"
  by (induction xs) (auto intro: keeps_rule)

lemma keeps_in_world [keeps_rule]:
  "(\<And>s. keeps (\<lambda>w. P (s, w)) m) \<Longrightarrow> keeps P (in_world m)"
  by (rule keepsI) (auto simp: in_world_def split: prod.splits dest: keepsD)

lemma keeps_gets [keeps_rule]: "keeps P (io_gets f)"
  by (rule keepsI) (simp add: io_gets_def)

lemma keeps_modify [keeps_rule]: "(\<And>s w. P (s, w) \<Longrightarrow> P (f s, w)) \<Longrightarrow> keeps P (io_modify f)"
  by (rule keepsI) (auto simp: io_modify_def split: prod.splits)

lemma keeps_with_state [keeps_rule]: "keeps (\<lambda>(_, w). P w) m \<Longrightarrow> keeps P (with_state s m)"
  by (rule keepsI) (auto simp: with_state_def split: prod.splits dest: keepsD)

lemma keeps_run_state [keeps_rule]: "keeps (\<lambda>(_, w). P w) m \<Longrightarrow> keeps P (run_state s m)"
  by (rule keepsI) (auto simp: run_state_def split: prod.splits dest: keepsD)

lemma keeps_unwrap_or [keeps_rule]: "keeps P m \<Longrightarrow> keeps P (io_unwrap_or d m)"
  by (rule keepsI) (auto simp: io_unwrap_or_def split: prod.splits dest: keepsD)

end
