(* ===== verification/Command.thy ===== *)
theory Command
  imports Effects Topology_Parse Policy_Route
begin

text \<open>
  Running the typed commands (\<open>src/src/backend/privileged.rs\<close>: \<open>command_invocation\<close>,
  \<open>run_required\<close>, \<open>run_nft_batch\<close>, \<open>run_topology_query\<close>; \<open>src/src/backend/topology.rs\<close>:
  \<open>capture_system_topology\<close>). Starting a process, feeding and reading its pipes and the time-out are
  the operating system's and stay a parameter; which program runs with which arguments, and what a
  failing command turns into, is the model's.
\<close>

section \<open>Lossy UTF-8\<close>

text \<open>
  \<open>String::from_utf8_lossy\<close>: valid sequences stay, and each maximal invalid part becomes U+FFFD. The
  function gives the ranges a lead byte allows for the bytes that follow it.
\<close>

definition utf8_follow :: "int \<Rightarrow> (int \<times> int) list option" where
  "utf8_follow b =
     (let cont = (0x80, 0xBF) in
      if b < 0x80 then Some []
      else if 0xC2 \<le> b \<and> b \<le> 0xDF then Some [cont]
      else if b = 0xE0 then Some [(0xA0, 0xBF), cont]
      else if b = 0xED then Some [(0x80, 0x9F), cont]
      else if 0xE1 \<le> b \<and> b \<le> 0xEF then Some [cont, cont]
      else if b = 0xF0 then Some [(0x90, 0xBF), cont, cont]
      else if 0xF1 \<le> b \<and> b \<le> 0xF3 then Some [cont, cont, cont]
      else if b = 0xF4 then Some [(0x80, 0x8F), cont, cont]
      else None)"

fun follow_length :: "(int \<times> int) list \<Rightarrow> string \<Rightarrow> nat" where
  "follow_length ((lo, hi) # rs) (c # cs) =
     (if lo \<le> of_char c \<and> of_char c \<le> hi then Suc (follow_length rs cs) else 0)"
| "follow_length _ _ = 0"

definition replacement_char :: string where
  "replacement_char = [byte 0xEF, byte 0xBF, byte 0xBD]"

function from_utf8_lossy :: "string \<Rightarrow> string" where
  "from_utf8_lossy [] = []"
| "from_utf8_lossy (c # cs) =
     (case utf8_follow (of_char c) of
        None \<Rightarrow> replacement_char @ from_utf8_lossy cs
      | Some rs \<Rightarrow>
          (let n = follow_length rs cs in
           (if n = length rs then c # take n cs else replacement_char) @ from_utf8_lossy (drop n cs)))"
  by pat_completeness auto
termination by (relation "measure length") auto

lemma utf8_follow_ascii: "of_char c < (0x80 :: int) \<Longrightarrow> utf8_follow (of_char c) = Some []"
  by (simp add: utf8_follow_def)

lemma from_utf8_lossy_ascii: "\<forall>c \<in> set s. of_char c < (0x80 :: int) \<Longrightarrow> from_utf8_lossy s = s"
  by (induction s) (simp_all add: utf8_follow_ascii)

section \<open>Invocations\<close>

definition IP_BINARY :: string where "IP_BINARY = ''/usr/sbin/ip''"
definition NFT_BINARY :: string where "NFT_BINARY = ''/usr/sbin/nft''"

record command_invocation =
  ci_program :: string
  ci_args :: "string list"
  ci_stdin :: "string option"

record command_output =
  co_success :: bool
  co_stdout :: string
  co_stderr :: string

definition family_flag :: "ip_family \<Rightarrow> string" where
  "family_flag f = (case f of V4 \<Rightarrow> ''-4'' | V6 \<Rightarrow> ''-6'')"

definition command_invocation :: "command_spec \<Rightarrow> (string, command_invocation) result" where
  "command_invocation spec =
     (case (cs_program spec, cs_family spec, cs_stdin spec) of
        (ProgIp, Some f, None) \<Rightarrow>
          Inr \<lparr>ci_program = IP_BINARY, ci_args = family_flag f # cs_args spec, ci_stdin = None\<rparr>
      | (ProgNft, None, stdin) \<Rightarrow>
          Inr \<lparr>ci_program = NFT_BINARY, ci_args = cs_args spec, ci_stdin = stdin\<rparr>
      | (ProgIp, None, _) \<Rightarrow> Inl ''ip command is missing an address family''
      | (ProgIp, Some _, Some _) \<Rightarrow> Inl ''ip command cannot accept standard input''
      | (ProgNft, Some _, _) \<Rightarrow> Inl ''nft command cannot have an IP address family'')"

text \<open>
  \<open>'w run_process\<close>: \<open>execute_invocation_with_timeout\<close>, with the time-out of ten seconds every
  caller passes.
\<close>

type_synonym 'w run_process = "command_invocation \<Rightarrow> ('w, command_output) io"
type_synonym 'w executor = "command_spec \<Rightarrow> ('w, command_output) io"

definition process_executor :: "'w run_process \<Rightarrow> 'w executor" where
  "process_executor run spec = io_bind (io_lift (command_invocation spec)) run"

definition run_topology_query :: "'w run_process \<Rightarrow> topology_query \<Rightarrow> ('w, string) io" where
  "run_topology_query run q =
     io_bind (run \<lparr>ci_program = IP_BINARY, ci_args = query_arguments q, ci_stdin = None\<rparr>) (\<lambda>out.
       if co_success out then io_return (co_stdout out)
       else io_fail (''read kernel topology: '' @ from_utf8_lossy (co_stderr out)))"

definition run_required :: "'w executor \<Rightarrow> command_spec \<Rightarrow> string \<Rightarrow> ('w, string) io" where
  "run_required exec spec context =
     io_bind (exec spec) (\<lambda>out.
       if co_success out then io_return (co_stdout out)
       else io_fail (context @ '': '' @ trim (from_utf8_lossy (co_stderr out))))"

definition nft_command :: "string \<Rightarrow> command_spec" where
  "nft_command batch = \<lparr>cs_program = ProgNft, cs_family = None,
     cs_args = (if take 1 batch = ''{'' then [''-j'', ''-f'', ''-''] else [''-f'', ''-'']),
     cs_stdin = Some batch\<rparr>"

definition run_nft_batch :: "'w executor \<Rightarrow> string \<Rightarrow> string \<Rightarrow> ('w, unit) io" where
  "run_nft_batch exec batch context =
     io_bind (run_required exec (nft_command batch) context) (\<lambda>_. io_return ())"

section \<open>The live network\<close>

fun topology_message :: "topology_failure \<Rightarrow> string" where
  "topology_message (TopologyError e) = e"
| "topology_message TopologyPanic = ''''"

definition capture_system_topology ::
  "json_reader \<Rightarrow> 'n::linorder foreign \<Rightarrow> 'w run_process \<Rightarrow> 'w \<Rightarrow>
     (topology_failure, 'n topology) result \<times> 'w"
where
  "capture_system_topology C X run w =
     (case io_bind (run_topology_query run QueryLinks) (\<lambda>links.
        io_bind (run_topology_query run QueryAddresses) (\<lambda>addresses.
        io_bind (run_topology_query run QueryRoutes4) (\<lambda>routes4.
        io_bind (run_topology_query run QueryRoutes6) (\<lambda>routes6.
        io_bind (run_topology_query run QueryRules4) (\<lambda>rules4.
        io_bind (run_topology_query run QueryRules6) (\<lambda>rules6.
          io_return \<lparr>ti_links = links, ti_addresses = addresses, ti_routes_v4 = routes4,
            ti_routes_v6 = routes6, ti_rules_v4 = rules4, ti_rules_v6 = rules6\<rparr>)))))) w of
        (Inl e, w) \<Rightarrow> (Inl (TopologyError e), w)
      | (Inr input, w) \<Rightarrow> (parse_topology C X input, w))"

end
