(* ===== verification/Interface_Settings.thy ===== *)
theory Interface_Settings
  imports Command
begin

text \<open>
  Mark-aware reverse-path filtering (\<open>src/src/backend/interface_settings.rs\<close>): the one setting
  RouteLane changes outside its own resources, \<open>src_valid_mark\<close> of an interface. The lemmas show
  that the setting is written only for a validated interface identity, only from 0 to 1 and back,
  only after its receipt has been journaled, and never over a value somebody else has set.
\<close>

section \<open>Receipts and the backend trait\<close>

record setting_receipt =
  sr_identity :: interface_identity
  sr_previous :: u8
  sr_applied :: u8

record 'w rpf_backend =
  rpf_identity :: "string \<Rightarrow> ('w, interface_identity) io"
  rpf_rp_filter :: "string \<Rightarrow> ('w, u8) io"
  rpf_src_valid_mark :: "string \<Rightarrow> ('w, u8) io"
  rpf_set :: "interface_identity \<Rightarrow> u8 \<Rightarrow> ('w, unit) io"

definition valid_interface_name :: "string \<Rightarrow> bool" where
  "valid_interface_name name =
     (name \<notin> {''all'', ''default'', ''.'', ''..''} \<and> name \<noteq> [] \<and> length name \<le> 15 \<and>
      list_all (\<lambda>b. is_ascii_alphanumeric b \<or> b \<in> {CHR ''_'', CHR ''-'', CHR ''.''}) name)"

definition valid_interface_scope :: "interface_identity \<Rightarrow> bool" where
  "valid_interface_scope i = (ii_ifindex i \<noteq> 0 \<and> valid_interface_name (ii_name i))"

section \<open>The system's backend\<close>

text \<open>
  What the code asks of the operating system: read at most some bytes of a file as text, without
  following a link; open a file for writing and write to it; the effective user; the \<open>ip\<close> program.
\<close>

record 'w proc_fs =
  fs_read_text :: "string \<Rightarrow> nat \<Rightarrow> ('w, string) io"
  fs_open_write :: "string \<Rightarrow> ('w, unit) io"
  fs_write :: "string \<Rightarrow> string \<Rightarrow> ('w, unit) io"
  fs_euid :: "'w \<Rightarrow> u32"

definition conf_path :: "string \<Rightarrow> string \<Rightarrow> string" where
  "conf_path name knob = ''/proc/sys/net/ipv4/conf/'' @ name @ ''/'' @ knob"

definition parse_u8 :: "string \<Rightarrow> u8 option" where
  "parse_u8 s = map_option of_int (parse_radix 10 256 s)"

definition read_knob :: "'w proc_fs \<Rightarrow> string \<Rightarrow> string \<Rightarrow> ('w, u8) io" where
  "read_knob F name knob =
     (if knob \<notin> {''rp_filter'', ''src_valid_mark''} \<or>
         \<not> (name \<in> {''all'', ''default''} \<or> valid_interface_name name)
      then io_fail ''invalid fixed-purpose interface setting read''
      else io_bind (io_map_err (\<lambda>e. ''read interface '' @ knob @ '': '' @ e)
             (fs_read_text F (conf_path name knob) 32)) (\<lambda>text.
        io_lift (ok_or (''invalid interface '' @ knob @ '' value'') (parse_u8 (trim text)))))"

definition links_only :: "string \<Rightarrow> topology_input" where
  "links_only links = \<lparr>ti_links = links, ti_addresses = ''[]'', ti_routes_v4 = ''[]'',
     ti_routes_v6 = ''[]'', ti_rules_v4 = ''[]'', ti_rules_v6 = ''[]''\<rparr>"

definition system_identity ::
  "json_reader \<Rightarrow> 'n::linorder foreign \<Rightarrow> 'w run_process \<Rightarrow> string \<Rightarrow> ('w, interface_identity) io"
where
  "system_identity C X run name =
     (if \<not> valid_interface_name name then io_fail ''interface setting requires a non-global interface''
      else io_bind (run_topology_query run QueryLinks) (\<lambda>links.
        io_bind (io_lift (map_err topology_message (parse_topology C X (links_only links)))) (\<lambda>t.
        io_lift (ok_or ''interface for mark-aware filtering no longer exists''
          (option_bind (t_interface t name) it_identity)))))"

definition revalidate ::
  "(string \<Rightarrow> ('w, interface_identity) io) \<Rightarrow> interface_identity \<Rightarrow> ('w, unit) io"
where
  "revalidate identity_of i =
     (if \<not> valid_interface_scope i
      then io_fail ''interface setting write identity is invalid or changed''
      else io_bind (identity_of (ii_name i)) (\<lambda>live.
        io_guard (live = i) ''interface setting write identity is invalid or changed''))"

definition system_set_src_valid_mark ::
  "'w proc_fs \<Rightarrow> (string \<Rightarrow> ('w, interface_identity) io) \<Rightarrow> interface_identity \<Rightarrow> u8 \<Rightarrow> ('w, unit) io"
where
  "system_set_src_valid_mark F identity_of i v =
     (if \<not> valid_interface_scope i \<or> 1 < v
      then io_fail ''mark-aware setting forbids global/default/invalid targets and values''
      else (\<lambda>w.
        if fs_euid F w \<noteq> 0
        then (Inl ''mark-aware interface setting requires the privileged helper'', w)
        else (let path = conf_path (ii_name i) ''src_valid_mark'' in
          io_seq (revalidate identity_of i)
          (io_seq (io_map_err (\<lambda>e. ''open interface src_valid_mark: '' @ e) (fs_open_write F path))
          (io_seq (revalidate identity_of i)
            (io_map_err (\<lambda>e. ''write interface src_valid_mark: '' @ e)
              (fs_write F path (if v = 1 then ''1'' @ [byte 10] else ''0'' @ [byte 10]))))) w)))"

definition system_rpf_backend ::
  "json_reader \<Rightarrow> 'n::linorder foreign \<Rightarrow> 'w run_process \<Rightarrow> 'w proc_fs \<Rightarrow> 'w rpf_backend"
where
  "system_rpf_backend C X run F = \<lparr>
     rpf_identity = system_identity C X run,
     rpf_rp_filter = (\<lambda>name. read_knob F name ''rp_filter''),
     rpf_src_valid_mark = (\<lambda>name. read_knob F name ''src_valid_mark''),
     rpf_set = system_set_src_valid_mark F (system_identity C X run)\<rparr>"

section \<open>The coordinator\<close>

definition validate_identity :: "'w rpf_backend \<Rightarrow> interface_identity \<Rightarrow> ('w, unit) io" where
  "validate_identity B i =
     (if \<not> valid_interface_scope i
      then io_fail ''interface setting requires an exact non-global kernel interface identity''
      else io_bind (rpf_identity B (ii_name i)) (\<lambda>live.
        io_guard (live = i)
          ''interface identity changed; refusing a setting mutation on another device''))"

text \<open>The part of \<open>ensure_mark_aware_rpf\<close> from the journal on.\<close>

definition write_journaled ::
  "'w rpf_backend \<Rightarrow> (setting_receipt \<Rightarrow> ('w, unit) io) \<Rightarrow> setting_receipt \<Rightarrow>
     ('w, setting_receipt option) io"
where
  "write_journaled B journal r =
     (let i = sr_identity r in
      io_seq (journal r)
      (io_seq (validate_identity B i)
      (io_bind (rpf_src_valid_mark B (ii_name i)) (\<lambda>now.
        if now \<noteq> sr_previous r
        then io_fail ''interface setting changed after journaling; refusing to overwrite it''
        else io_seq (rpf_set B i (sr_applied r))
          (io_bind (rpf_src_valid_mark B (ii_name i)) (\<lambda>after.
            if after \<noteq> sr_applied r
            then io_fail ''mark-aware interface setting failed read-back verification''
            else io_return (Some r)))))))"

definition ensure_mark_aware_rpf ::
  "'w rpf_backend \<Rightarrow> (setting_receipt \<Rightarrow> ('w, unit) io) \<Rightarrow> interface_identity \<Rightarrow>
     ('w, setting_receipt option) io"
where
  "ensure_mark_aware_rpf B journal i =
     io_seq (validate_identity B i)
     (io_bind (rpf_rp_filter B ''all'') (\<lambda>global.
      io_bind (rpf_rp_filter B (ii_name i)) (\<lambda>local.
        if 2 < global \<or> 2 < local
        then io_fail ''invalid observed reverse-path filtering value''
        else if max global local \<noteq> 1 then io_return None
        else io_bind (rpf_src_valid_mark B ''all'') (\<lambda>global.
          io_bind (rpf_src_valid_mark B (ii_name i)) (\<lambda>previous.
            if 1 < global \<or> 1 < previous
            then io_fail ''invalid observed mark-aware filtering value''
            else if max global previous = 1 then io_return None
            else write_journaled B journal
              \<lparr>sr_identity = i, sr_previous = previous, sr_applied = 1\<rparr>)))))"

definition restore_mark_aware_rpf :: "'w rpf_backend \<Rightarrow> setting_receipt \<Rightarrow> ('w, unit) io" where
  "restore_mark_aware_rpf B r =
     (if sr_previous r \<noteq> 0 \<or> sr_applied r \<noteq> 1
      then io_fail ''invalid mark-aware interface setting receipt''
      else (let i = sr_identity r in
        io_seq (validate_identity B i)
        (io_bind (rpf_src_valid_mark B (ii_name i)) (\<lambda>current.
          if current = sr_previous r then io_return ()
          else if current \<noteq> sr_applied r
          then io_fail ''administrator changed interface setting; preserving current value''
          else io_seq (validate_identity B i)
            (io_seq (rpf_set B i (sr_previous r))
            (io_bind (rpf_src_valid_mark B (ii_name i)) (\<lambda>after.
              if after \<noteq> sr_previous r
              then io_fail ''restored interface setting failed read-back verification''
              else io_return ())))))))"

section \<open>What a run does\<close>

text \<open>
  The calls a run makes, with their outcomes. \<open>observed\<close> wraps a backend so that its world also
  holds the calls made so far; the coordinator's code runs on it unchanged.
\<close>

datatype rpf_event =
    SawIdentity string "(string, interface_identity) result"
  | SawFilter string "(string, u8) result"
  | SawMark string "(string, u8) result"
  | Journaled setting_receipt "(string, unit) result"
  | SetMark interface_identity u8 "(string, unit) result"

type_synonym 'w traced = "'w \<times> rpf_event list"

definition observe ::
  "((string, 'a) result \<Rightarrow> rpf_event) \<Rightarrow> ('w, 'a) io \<Rightarrow> ('w traced, 'a) io"
where
  "observe ev m = (\<lambda>(w, tr). case m w of (r, w') \<Rightarrow> (r, (w', tr @ [ev r])))"

definition observed :: "'w rpf_backend \<Rightarrow> 'w traced rpf_backend" where
  "observed B = \<lparr>
     rpf_identity = (\<lambda>n. observe (SawIdentity n) (rpf_identity B n)),
     rpf_rp_filter = (\<lambda>n. observe (SawFilter n) (rpf_rp_filter B n)),
     rpf_src_valid_mark = (\<lambda>n. observe (SawMark n) (rpf_src_valid_mark B n)),
     rpf_set = (\<lambda>i v. observe (SetMark i v) (rpf_set B i v))\<rparr>"

definition observed_journal ::
  "(setting_receipt \<Rightarrow> ('w, unit) io) \<Rightarrow> setting_receipt \<Rightarrow> ('w traced, unit) io"
where
  "observed_journal J r = observe (Journaled r) (J r)"

lemma observed_sel [simp]:
  "rpf_identity (observed B) n = observe (SawIdentity n) (rpf_identity B n)"
  "rpf_rp_filter (observed B) n = observe (SawFilter n) (rpf_rp_filter B n)"
  "rpf_src_valid_mark (observed B) n = observe (SawMark n) (rpf_src_valid_mark B n)"
  "rpf_set (observed B) i v = observe (SetMark i v) (rpf_set B i v)"
  by (simp_all add: observed_def)

lemma observe_result:
  "observe ev m (w, tr) = (r, (w', tr')) \<longleftrightarrow> m w = (r, w') \<and> tr' = tr @ [ev r]"
  by (auto simp: observe_def split: prod.splits)

lemma observe_any: "observe ev m s = (r, s') \<longleftrightarrow> m (fst s) = (r, fst s') \<and> snd s' = snd s @ [ev r]"
  by (cases s; cases s') (simp add: observe_result)

definition is_write :: "rpf_event \<Rightarrow> bool" where
  "is_write e = (case e of SetMark _ _ _ \<Rightarrow> True | _ \<Rightarrow> False)"

lemma is_write_simps [simp]:
  "\<not> is_write (SawIdentity n r1)" "\<not> is_write (SawFilter n r2)" "\<not> is_write (SawMark n r2)"
  "\<not> is_write (Journaled j r3)" "is_write (SetMark i v r3)"
  by (simp_all add: is_write_def)

lemma u8_small: "\<not> 1 < v \<Longrightarrow> v \<noteq> 1 \<Longrightarrow> v = 0" for v :: u8
  by (metis linorder_not_less order_less_le word_less_1)

lemma validate_identity_trace:
  assumes "validate_identity (observed B) i (w, tr) = (r, (w', tr'))"
  shows "\<exists>ev. tr' = tr @ ev \<and> \<not> list_ex is_write ev \<and>
    (r = Inr () \<longrightarrow> valid_interface_scope i \<and> ev = [SawIdentity (ii_name i) (Inr i)])"
  using assms
  by (cases r)
     (auto simp: validate_identity_def io_bind_Inr io_bind_Inl observed_def observe_any io_guard_def
       split: if_splits)

lemma write_journaled_trace:
  assumes "write_journaled (observed B) (observed_journal J) k (w, tr) = (r, (w', tr'))"
  defines "i \<equiv> sr_identity k"
  shows "(\<exists>ev. tr' = tr @ ev \<and> \<not> list_ex is_write ev \<and> (\<exists>e. r = Inl e)) \<or>
    (\<exists>ok post. tr' = tr @ [Journaled k (Inr ()), SawIdentity (ii_name i) (Inr i),
        SawMark (ii_name i) (Inr (sr_previous k)), SetMark i (sr_applied k) ok] @ post \<and>
      \<not> list_ex is_write post \<and> valid_interface_scope i \<and>
      (\<forall>x. r = Inr x \<longrightarrow> x = Some k \<and> ok = Inr () \<and>
         post = [SawMark (ii_name i) (Inr (sr_applied k))]))"
proof (cases r)
  case (Inl e)
  with assms(1) show ?thesis
    unfolding write_journaled_def Let_def io_seq_def i_def [symmetric]
    by (auto simp: io_bind_Inr io_bind_Inl observed_def observed_journal_def observe_any
        dest!: validate_identity_trace [unfolded observed_def] split: if_splits)
next
  case (Inr x)
  with assms(1) show ?thesis
    unfolding write_journaled_def Let_def io_seq_def i_def [symmetric]
    by (auto simp: io_bind_Inr observed_def observed_journal_def observe_any
        dest!: validate_identity_trace [unfolded observed_def] split: if_splits)
qed

text \<open>The events of the one write of \<open>ensure\<close> and what precedes it.\<close>

definition journaled_write :: "interface_identity \<Rightarrow> (string, unit) result \<Rightarrow> rpf_event list" where
  "journaled_write i ok =
     [Journaled \<lparr>sr_identity = i, sr_previous = 0, sr_applied = 1\<rparr> (Inr ()),
      SawIdentity (ii_name i) (Inr i), SawMark (ii_name i) (Inr 0), SetMark i 1 ok]"

definition already_fine :: "interface_identity \<Rightarrow> rpf_event list \<Rightarrow> bool" where
  "already_fine i ev \<longleftrightarrow>
     (\<exists>g l. SawFilter ''all'' (Inr g) \<in> set ev \<and> SawFilter (ii_name i) (Inr l) \<in> set ev \<and> max g l \<noteq> 1) \<or>
     (\<exists>g p. SawMark ''all'' (Inr g) \<in> set ev \<and> SawMark (ii_name i) (Inr p) \<in> set ev \<and> max g p = 1)"

definition ensure_outcome ::
  "interface_identity \<Rightarrow> (string, setting_receipt option) result \<Rightarrow> rpf_event list \<Rightarrow> bool"
where
  "ensure_outcome i r ev \<longleftrightarrow>
     \<not> list_ex is_write ev \<and> (\<forall>x. r = Inr x \<longrightarrow> x = None \<and> already_fine i ev) \<or>
     (\<exists>pre ok post. ev = pre @ journaled_write i ok @ post \<and>
       \<not> list_ex is_write pre \<and> \<not> list_ex is_write post \<and> valid_interface_scope i \<and>
       (\<forall>x. r = Inr x \<longrightarrow> x = Some \<lparr>sr_identity = i, sr_previous = 0, sr_applied = 1\<rparr> \<and> ok = Inr () \<and>
          post = [SawMark (ii_name i) (Inr 1)]))"

lemma write_journaled_outcome:
  assumes "write_journaled (observed B) (observed_journal J)
      \<lparr>sr_identity = i, sr_previous = previous, sr_applied = 1\<rparr> s = (r, s')"
    and "snd s = tr @ pre" "\<not> list_ex is_write pre"
    and "\<not> 1 < global" "\<not> 1 < previous" "max global previous \<noteq> 1"
  shows "\<exists>ev. snd s' = tr @ ev \<and> ensure_outcome i r ev"
proof -
  have "previous \<noteq> 1" using assms(4,6) by (metis linorder_not_less max.absorb2)
  with assms(5) have p: "previous = 0" by (rule u8_small)
  from assms(1) have run: "write_journaled (observed B) (observed_journal J)
      \<lparr>sr_identity = i, sr_previous = 0, sr_applied = 1\<rparr> (fst s, tr @ pre) = (r, (fst s', snd s'))"
    by (simp add: p flip: assms(2))
  from write_journaled_trace [OF run] consider
    (quiet) ev e where "snd s' = tr @ pre @ ev" "\<not> list_ex is_write ev" "r = Inl e" |
    (wrote) ok post where "snd s' = tr @ pre @ journaled_write i ok @ post"
      "\<not> list_ex is_write post" "valid_interface_scope i"
      "\<forall>x. r = Inr x \<longrightarrow> x = Some \<lparr>sr_identity = i, sr_previous = 0, sr_applied = 1\<rparr> \<and> ok = Inr () \<and>
         post = [SawMark (ii_name i) (Inr 1)]"
    by (auto simp: journaled_write_def)
  then show ?thesis
  proof cases
    case quiet
    with assms(3) show ?thesis by (intro exI [of _ "pre @ ev"]) (simp add: ensure_outcome_def)
  next
    case wrote
    have "ensure_outcome i r (pre @ journaled_write i ok @ post)"
      unfolding ensure_outcome_def using assms(3) wrote(2-4) by (intro disjI2) blast
    with wrote(1) show ?thesis by blast
  qed
qed

lemma already_fine_steps [simp]:
  "max g l \<noteq> 1 \<Longrightarrow> already_fine i (ev @ [SawFilter ''all'' (Inr g), SawFilter (ii_name i) (Inr l)])"
  "max g' p = 1 \<Longrightarrow> already_fine i (ev @ [e1, e2, SawMark ''all'' (Inr g'), SawMark (ii_name i) (Inr p)])"
  unfolding already_fine_def by (auto intro: exI [of _ g] exI [of _ l] exI [of _ g'] exI [of _ p])

lemma quiet_outcome:
  "\<not> list_ex is_write ev \<Longrightarrow> (\<And>x. r = Inr x \<Longrightarrow> x = None \<and> already_fine i ev) \<Longrightarrow> ensure_outcome i r ev"
  by (simp add: ensure_outcome_def)

lemma ensure_trace:
  assumes "ensure_mark_aware_rpf (observed B) (observed_journal J) i (w, tr) = (r, (w', tr'))"
  shows "\<exists>ev. tr' = tr @ ev \<and> ensure_outcome i r ev"
proof -
  from assms obtain r1 w1 tr1 where
    v: "validate_identity (observed B) i (w, tr) = (r1, (w1, tr1))" by (metis prod_cases3)
  from validate_identity_trace [OF v] obtain ev where
    tr1: "tr1 = tr @ ev" and ev: "\<not> list_ex is_write ev" by blast
  show ?thesis
  proof (cases r1)
    case (Inl e)
    with assms v tr1 show ?thesis
      by (auto simp: ensure_mark_aware_rpf_def io_seq_def io_bind_def ensure_outcome_def ev)
  next
    case (Inr u)
    define rest where "rest global previous = (if max global previous = 1 then io_return None
      else write_journaled (observed B) (observed_journal J)
        \<lparr>sr_identity = i, sr_previous = previous, sr_applied = 1\<rparr>)" for global previous
    have rest: "\<exists>ev. tr' = tr @ ev \<and> ensure_outcome i r ev"
      if run: "rest g p (w2, tr @ pre @ [e1, e2, SawMark ''all'' (Inr g), SawMark (ii_name i) (Inr p)]) =
          (r, (w', tr'))"
        and quiet: "\<not> list_ex is_write (pre @ [e1, e2])" and "\<not> 1 < g" "\<not> 1 < p"
      for g p w2 pre e1 e2 r
    proof (cases "max g p = 1")
      case True
      with run quiet show ?thesis by (auto simp: rest_def intro!: quiet_outcome)
    next
      case False
      with run have "write_journaled (observed B) (observed_journal J)
          \<lparr>sr_identity = i, sr_previous = p, sr_applied = 1\<rparr>
          (w2, tr @ pre @ [e1, e2, SawMark ''all'' (Inr g), SawMark (ii_name i) (Inr p)]) =
          (r, (w', tr'))" by (simp add: rest_def)
      from write_journaled_outcome [OF this _ _ that(3,4) False] quiet show ?thesis by simp
    qed
    show ?thesis
    proof (cases r)
      case (Inl e)
      with assms v \<open>r1 = Inr u\<close> show ?thesis
        by (auto simp: ensure_mark_aware_rpf_def io_seq_def io_bind_Inl observe_any tr1 ev
            simp flip: rest_def split: if_split_asm elim: rest intro!: quiet_outcome)
    next
      case x: (Inr x)
      with assms v \<open>r1 = Inr u\<close> show ?thesis
        by (auto simp: ensure_mark_aware_rpf_def io_seq_def io_bind_Inr observe_any tr1 ev
            simp flip: rest_def split: if_split_asm elim: rest intro!: quiet_outcome)
    qed
  qed
qed

definition restore_outcome ::
  "setting_receipt \<Rightarrow> (string, unit) result \<Rightarrow> rpf_event list \<Rightarrow> bool"
where
  "restore_outcome k r ev \<longleftrightarrow>
     (let i = sr_identity k in
      \<not> list_ex is_write ev \<and>
        (r = Inr () \<longrightarrow> ev = [SawIdentity (ii_name i) (Inr i), SawMark (ii_name i) (Inr 0)]) \<or>
      (\<exists>ok post. ev = [SawIdentity (ii_name i) (Inr i), SawMark (ii_name i) (Inr 1),
           SawIdentity (ii_name i) (Inr i), SetMark i 0 ok] @ post \<and>
         \<not> list_ex is_write post \<and> valid_interface_scope i \<and> sr_previous k = 0 \<and> sr_applied k = 1 \<and>
         (r = Inr () \<longrightarrow> ok = Inr () \<and> post = [SawMark (ii_name i) (Inr 0)])))"

lemma restore_trace:
  assumes "restore_mark_aware_rpf (observed B) k (w, tr) = (r, (w', tr'))"
  shows "\<exists>ev. tr' = tr @ ev \<and> restore_outcome k r ev"
proof (cases "sr_previous k \<noteq> 0 \<or> sr_applied k \<noteq> 1")
  case True
  with assms show ?thesis by (auto simp: restore_mark_aware_rpf_def restore_outcome_def)
next
  case False
  show ?thesis
  proof (cases r)
    case (Inl e)
    with assms False show ?thesis
      by (auto simp: restore_mark_aware_rpf_def Let_def io_seq_def io_bind_Inl observe_any
          restore_outcome_def split: if_split_asm dest!: validate_identity_trace)
  next
    case (Inr u)
    with assms False show ?thesis
      by (auto simp: restore_mark_aware_rpf_def Let_def io_seq_def io_bind_Inr observe_any
          restore_outcome_def split: if_split_asm dest!: validate_identity_trace)
  qed
qed

section \<open>Properties\<close>

text \<open>
  C20. A setting is written at most once, and only after its journal: in every run of
  \<open>ensure_mark_aware_rpf\<close>, over any backend and journal, either nothing is written, or the one write
  sets the mark of exactly the requested, valid, non-global interface to 1, and directly before it
  the receipt (previous value 0, applied value 1) was saved successfully, the interface's identity
  was read again and matched, and its current value was read as still 0. Success with a receipt
  means that the value was read back as 1; success without one, that no setting was needed.
\<close>

theorem setting_written_only_after_journal:
  assumes "ensure_mark_aware_rpf (observed B) (observed_journal J) i (w, []) = (r, (w', ev))"
  shows "\<not> list_ex is_write ev \<and> (\<forall>x. r = Inr x \<longrightarrow> x = None \<and> already_fine i ev) \<or>
     (\<exists>pre ok post. ev = pre @ journaled_write i ok @ post \<and>
       \<not> list_ex is_write pre \<and> \<not> list_ex is_write post \<and> valid_interface_scope i \<and>
       (\<forall>x. r = Inr x \<longrightarrow> x = Some \<lparr>sr_identity = i, sr_previous = 0, sr_applied = 1\<rparr> \<and> ok = Inr () \<and>
          post = [SawMark (ii_name i) (Inr 1)]))"
  using ensure_trace [OF assms] unfolding ensure_outcome_def by simp

text \<open>
  Restoring compares first: a run of \<open>restore_mark_aware_rpf\<close> either writes nothing, or writes
  0 once to the receipt's interface after reading its identity as unchanged, its value as exactly
  the 1 that RouteLane applied, and its identity as unchanged again. A value an administrator has
  set since, or another device under the same name, is never written to; and success means the value
  is 0.
\<close>

lemma restore_compares_before_write:
  assumes "restore_mark_aware_rpf (observed B) k (w, []) = (r, (w', ev))"
  shows "\<not> list_ex is_write ev \<and> (r = Inr () \<longrightarrow>
       ev = [SawIdentity (ii_name (sr_identity k)) (Inr (sr_identity k)),
         SawMark (ii_name (sr_identity k)) (Inr 0)]) \<or>
     (\<exists>ok post. ev = [SawIdentity (ii_name (sr_identity k)) (Inr (sr_identity k)),
           SawMark (ii_name (sr_identity k)) (Inr 1),
           SawIdentity (ii_name (sr_identity k)) (Inr (sr_identity k)), SetMark (sr_identity k) 0 ok] @ post \<and>
         \<not> list_ex is_write post \<and> valid_interface_scope (sr_identity k) \<and>
         sr_previous k = 0 \<and> sr_applied k = 1 \<and>
         (r = Inr () \<longrightarrow> ok = Inr () \<and> post = [SawMark (ii_name (sr_identity k)) (Inr 0)]))"
  using restore_trace [OF assms] unfolding restore_outcome_def Let_def by simp

section \<open>Witnesses\<close>

text \<open>A machine with one interface, strict filtering, and its mark setting as the world.\<close>

definition demo_device :: interface_identity where
  "demo_device = \<lparr>ii_ifindex = 3, ii_name = ''wg0'', ii_kind = ''wireguard'', ii_hardware_address = None\<rparr>"

definition demo_rpf :: "u8 rpf_backend" where
  "demo_rpf = \<lparr>rpf_identity = (\<lambda>_. io_return demo_device), rpf_rp_filter = (\<lambda>_. io_return 1),
     rpf_src_valid_mark = (\<lambda>n v. (Inr (if n = ''all'' then 0 else v), v)),
     rpf_set = (\<lambda>_ v _. (Inr (), v))\<rparr>"

lemma demo_ensure:
  "ensure_mark_aware_rpf (observed demo_rpf) (observed_journal (\<lambda>_. io_return ())) demo_device (0, []) =
     (Inr (Some \<lparr>sr_identity = demo_device, sr_previous = 0, sr_applied = 1\<rparr>), (1,
       [SawIdentity ''wg0'' (Inr demo_device), SawFilter ''all'' (Inr 1), SawFilter ''wg0'' (Inr 1),
        SawMark ''all'' (Inr 0), SawMark ''wg0'' (Inr 0)] @ journaled_write demo_device (Inr ()) @
       [SawMark ''wg0'' (Inr 1)]))"
  by code_simp

lemma demo_restore:
  "restore_mark_aware_rpf (observed demo_rpf)
       \<lparr>sr_identity = demo_device, sr_previous = 0, sr_applied = 1\<rparr> (7, []) =
     (Inl ''administrator changed interface setting; preserving current value'',
       (7, [SawIdentity ''wg0'' (Inr demo_device), SawMark ''wg0'' (Inr 7)]))"
  by code_simp

theorem setting_written_only_after_journal_witness:
  "\<exists>pre ok post. [SawIdentity ''wg0'' (Inr demo_device), SawFilter ''all'' (Inr 1),
       SawFilter ''wg0'' (Inr 1), SawMark ''all'' (Inr 0), SawMark ''wg0'' (Inr 0)] @
       journaled_write demo_device (Inr ()) @ [SawMark ''wg0'' (Inr 1)] =
     pre @ journaled_write demo_device ok @ post"
proof -
  have "list_ex is_write ([SawIdentity ''wg0'' (Inr demo_device), SawFilter ''all'' (Inr 1),
       SawFilter ''wg0'' (Inr 1), SawMark ''all'' (Inr 0), SawMark ''wg0'' (Inr 0)] @
       journaled_write demo_device (Inr ()) @ [SawMark ''wg0'' (Inr 1)])"
    by (simp add: journaled_write_def)
  then show ?thesis using setting_written_only_after_journal [OF demo_ensure] by blast
qed

lemma restore_compares_before_write_witness:
  "\<not> list_ex is_write [SawIdentity ''wg0'' (Inr demo_device), SawMark ''wg0'' (Inr 7)]"
  using restore_compares_before_write [OF demo_restore] by auto

end
