(* ===== verification/Json_Value.thy ===== *)
theory Json_Value
  imports Json
begin

text \<open>
  \<open>serde_json::Value\<close> as the code manipulates it: the accessors (\<open>get\<close>, indexing, \<open>as_str\<close> and
  the like) and the \<open>json!\<close> objects, whose map is a \<open>BTreeMap\<close>: members in key order, at most one
  per key.
\<close>

section \<open>Building\<close>

definition jobj :: "(string \<times> json) list \<Rightarrow> json" where
  "jobj ms = JObject (bt_collect ms)"

definition jstr :: "string \<Rightarrow> json" where "jstr s = JString s"

section \<open>Reading\<close>

fun as_object :: "json \<Rightarrow> (string, json) btree option" where
  "as_object (JObject m) = Some m"
| "as_object _ = None"

fun as_array :: "json \<Rightarrow> json list option" where
  "as_array (JArray xs) = Some xs"
| "as_array _ = None"

fun as_str :: "json \<Rightarrow> string option" where
  "as_str (JString s) = Some s"
| "as_str _ = None"

fun as_u64 :: "json \<Rightarrow> int option" where
  "as_u64 (JInt i) = (if 0 \<le> i \<and> i < 2 ^ 64 then Some i else None)"
| "as_u64 _ = None"

fun is_number :: "json \<Rightarrow> bool" where
  "is_number (JInt _) = True"
| "is_number (JFloat _) = True"
| "is_number _ = False"

definition is_string :: "json \<Rightarrow> bool" where
  "is_string j = (as_str j \<noteq> None)"

definition jget :: "string \<Rightarrow> json \<Rightarrow> json option" where
  "jget k j = option_bind (as_object j) (\<lambda>m. bt_get m k)"

text \<open>\<open>value[key]\<close>, and the path \<open>value[k1][k2]...\<close>: a missing member is null.\<close>

definition jindex :: "json \<Rightarrow> string \<Rightarrow> json" where
  "jindex j k = (case jget k j of Some v \<Rightarrow> v | None \<Rightarrow> JNull)"

fun jpath :: "json \<Rightarrow> string list \<Rightarrow> json" where
  "jpath j [] = j"
| "jpath j (k # ks) = jpath (jindex j k) ks"

definition has :: "string \<Rightarrow> json \<Rightarrow> bool" where
  "has k j = (jget k j \<noteq> None)"

lemma jget_obj [simp]: "jget k (jobj ms) = map_of (rev ms) k"
  by (simp add: jget_def jobj_def bt_get_collect)

lemma jget_other [simp]:
  "jget k JNull = None" "jget k (JBool b) = None" "jget k (JInt i) = None"
  "jget k (JString s) = None" "jget k (JArray xs) = None"
  by (simp_all add: jget_def)

lemma jindex_obj [simp]:
  "jindex (jobj ms) k = (case map_of (rev ms) k of Some v \<Rightarrow> v | None \<Rightarrow> JNull)"
  by (simp add: jindex_def)

lemma jindex_other [simp]:
  "jindex JNull k = JNull" "jindex (JInt i) k = JNull" "jindex (JString s) k = JNull"
  "jindex (JArray xs) k = JNull"
  by (simp_all add: jindex_def)

lemma as_obj [simp]:
  "as_array (jobj ms) = None" "as_str (jobj ms) = None" "as_object (jobj ms) = Some (bt_collect ms)"
  "as_u64 (jobj ms) = None" "\<not> is_number (jobj ms)"
  by (simp_all add: jobj_def)

lemma is_string_simps [simp]:
  "is_string (JString s)" "\<not> is_string (jobj ms)" "\<not> is_string (JInt i)" "\<not> is_string JNull"
  "\<not> is_string (JArray xs)"
  by (simp_all add: is_string_def)

lemma jobj_not [simp]:
  "jobj ms \<noteq> JNull" "jobj ms \<noteq> JInt i" "jobj ms \<noteq> JString s" "jobj ms \<noteq> JArray xs"
  "JNull \<noteq> jobj ms" "JInt i \<noteq> jobj ms" "JString s \<noteq> jobj ms" "JArray xs \<noteq> jobj ms"
  by (simp_all add: jobj_def)

lemma jobj_eqD: "jobj ms = jobj ns \<Longrightarrow> map_of (rev ms) k = map_of (rev ns) k"
  by (metis jget_obj)

end
