(* ===== verification/Nft_Document.thy ===== *)
theory Nft_Document
  imports Validation Inspect Json_Value
begin

text \<open>
  The nftables policy (\<open>src/src/backend/nft_document.rs\<close>): the JSON document of RouteLane's table
  for a plan, its normal form, its content seal and the interface indices of a dumped table. What a
  packet meets in such a table is the subject of \<open>Nft_Policy\<close>.
\<close>

text \<open>
  Digests are \<open>blake3\<close> over \<open>serde_json\<close> text, in hexadecimal: the plan's content hash, the digest
  of that hash that names a chain, and the digest of a canonical policy document.
\<close>

record ('n, 'h) digests =
  dg_content :: "'n policy_content \<Rightarrow> 'h"
  dg_marker :: "'h \<Rightarrow> string"
  dg_policy :: "json \<Rightarrow> string"

definition POLICY_SEAL_PREFIX :: string where
  "POLICY_SEAL_PREFIX = ''rules_v2_''"

section \<open>Interface indices in a dumped table\<close>

definition is_ifindex_match :: "json \<Rightarrow> bool" where
  "is_ifindex_match e =
     (as_str (jpath e [''match'', ''left'', ''meta'', ''key'']) \<in> {Some ''iif'', Some ''oif''})"

definition nft_objects :: "json \<Rightarrow> json list option" where
  "nft_objects doc = option_bind (jget ''nftables'' doc) as_array"

definition has_symbolic_ifindices :: "json \<Rightarrow> bool" where
  "has_symbolic_ifindices doc =
     (case nft_objects doc of
        None \<Rightarrow> False
      | Some objects \<Rightarrow>
          list_ex (\<lambda>obj. case as_array (jpath obj [''rule'', ''expr'']) of
              None \<Rightarrow> False
            | Some es \<Rightarrow>
                list_ex (\<lambda>e. is_ifindex_match e \<and> is_string (jpath e [''match'', ''right''])) es)
            objects)"

definition all_digits :: "string \<Rightarrow> bool" where
  "all_digits s = (s \<noteq> [] \<and> list_all is_ascii_digit s)"

text \<open>Assigning \<open>value[k1]...[kn] = v\<close> where every member of the path exists.\<close>

definition set_member :: "string \<Rightarrow> json \<Rightarrow> json \<Rightarrow> json" where
  "set_member k v j =
     (case j of
        JObject m \<Rightarrow> JObject (map (\<lambda>(k', v'). (k', if k' = k then v else v')) m)
      | _ \<Rightarrow> j)"

definition operand_index :: "(string, interface_identity) btree \<Rightarrow> json \<Rightarrow> u32 option" where
  "operand_index identities operand =
     (case as_str operand of
        Some name \<Rightarrow>
          if all_digits name then parse_u32 name
          else map_option ii_ifindex (bt_get identities name)
      | None \<Rightarrow>
          option_bind (as_u64 operand) (\<lambda>n. if n < 2 ^ 32 then Some (of_int n) else None))"

definition resolve_expression ::
  "(string, interface_identity) btree \<Rightarrow> json \<Rightarrow> (string, json) result"
where
  "resolve_expression identities e =
     (if \<not> is_ifindex_match e then Inr e
      else (case operand_index identities (jpath e [''match'', ''right'']) of
          Some i \<Rightarrow>
            if i \<le> 0x7FFFFFFF
            then Inr (set_member ''match''
                   (set_member ''right'' (JInt (uint i)) (jindex e ''match'')) e)
            else Inl ''nft ifindex operand cannot be bound to the stable observed interface snapshot''
        | None \<Rightarrow>
            Inl ''nft ifindex operand cannot be bound to the stable observed interface snapshot''))"

definition resolve_object ::
  "(string, interface_identity) btree \<Rightarrow> json \<Rightarrow> (string, json) result"
where
  "resolve_object identities obj =
     (case as_array (jpath obj [''rule'', ''expr'']) of
        None \<Rightarrow> Inr obj
      | Some es \<Rightarrow>
          and_then (try_map (resolve_expression identities) es) (\<lambda>es'.
            Inr (set_member ''rule'' (set_member ''expr'' (JArray es') (jindex obj ''rule'')) obj)))"

text \<open>The document is changed in place and matters only when the call succeeds.\<close>

definition resolve_dump_ifindices ::
  "(string, interface_identity) btree \<Rightarrow> json \<Rightarrow> (string, json) result"
where
  "resolve_dump_ifindices identities doc =
     (if list_ex (\<lambda>(name, _). all_digits name) identities
      then Inl (''numeric-only interface names make exact nft ifindex ownership proof ambiguous; '' @
        ''no network resources were adopted'')
      else (case nft_objects doc of
          None \<Rightarrow> Inl ''invalid nftables document for interface identity proof''
        | Some objects \<Rightarrow>
            and_then (try_map (resolve_object identities) objects) (\<lambda>objects'.
              Inr (set_member ''nftables'' (JArray objects') doc))))"

section \<open>Normal form and seal\<close>

text \<open>Rule objects after all others; the order among each kind stays.\<close>

definition rules_last :: "json \<Rightarrow> json" where
  "rules_last v =
     (case v of
        JArray xs \<Rightarrow> JArray (filter (\<lambda>x. \<not> has ''rule'' x) xs @ filter (has ''rule'') xs)
      | _ \<Rightarrow> v)"

definition has_counts :: "json \<Rightarrow> bool" where
  "has_counts c = (as_object c \<noteq> None \<and> (has ''packets'' c \<or> has ''bytes'' c))"

definition clean_value :: "string \<Rightarrow> json \<Rightarrow> json" where
  "clean_value k v =
     (let v = (if k = ''nftables'' then rules_last v else v)
      in if k = ''counter'' \<and> has_counts v then JNull else v)"

definition dropped_member :: "string \<Rightarrow> bool" where
  "dropped_member k = (k \<in> {''metainfo'', ''handle''})"

definition clean_members :: "(string \<times> json) list \<Rightarrow> (string \<times> json) list" where
  "clean_members m =
     map (\<lambda>(k, v). (k, clean_value k v)) (filter (\<lambda>(k, _). \<not> dropped_member k) m)"

lemma in_clean_members:
  "(k, v) \<in> set (clean_members m) \<longleftrightarrow>
     \<not> dropped_member k \<and> (\<exists>v'. (k, v') \<in> set m \<and> v = clean_value k v')"
  by (auto simp: clean_members_def)

lemma size_list_partition:
  "size_list f (filter (\<lambda>x. \<not> P x) xs) + size_list f (filter P xs) = size_list f xs"
  by (induction xs) auto

lemma size_rules_last: "size (rules_last v) = size v"
  using size_list_partition [where f = size]
  by (cases v) (simp_all add: rules_last_def size_list_append)

lemma size_clean_value: "size (clean_value k v) \<le> size v"
  by (simp add: clean_value_def size_rules_last Let_def)

lemma clean_member_origin:
  "(k, v) \<in> set (clean_members m) \<Longrightarrow> \<exists>v'. (k, v') \<in> set m \<and> size v \<le> size v'"
  using size_clean_value by (auto simp: in_clean_members)

lemma size_clean_member:
  assumes "(k, v) \<in> set (clean_members m)"
  shows "size v < Suc (size_list (size_prod (\<lambda>x. 0) size) m)"
proof -
  from clean_member_origin [OF assms] obtain v' where v': "(k, v') \<in> set m" "size v \<le> size v'"
    by blast
  have "size v' < size_list (size_prod (\<lambda>x. 0) size) m"
    by (rule size_list_estimation [OF v'(1)]) simp
  with v'(2) show ?thesis by simp
qed

function normalize_nft_document :: "json \<Rightarrow> json" where
  "normalize_nft_document (JObject m) =
     JObject (map (\<lambda>(k, v). (k, normalize_nft_document v)) (clean_members m))"
| "normalize_nft_document (JArray xs) = JArray (map normalize_nft_document xs)"
| "normalize_nft_document JNull = JNull"
| "normalize_nft_document (JBool b) = JBool b"
| "normalize_nft_document (JInt i) = JInt i"
| "normalize_nft_document (JFloat x) = JFloat x"
| "normalize_nft_document (JString s) = JString s"
  by (pat_completeness) auto
termination
proof (relation "measure size", goal_cases)
  case (2 m x k v)
  then show ?case using size_clean_member [of k v m] by (auto simp: in_measure)
next
  case (3 xs x)
  then show ?case by (simp add: less_Suc_eq_le size_list_estimation')
qed simp


text \<open>
  What the seal covers: every object but empty ones, metadata, the guard chain with its rules, and
  the seal itself. Both callers of \<open>content_seal\<close> pass a document with an object array, so its
  \<open>expect\<close> cannot fire and the model takes the objects.
\<close>

definition chain_name :: "json \<Rightarrow> json" where
  "chain_name obj = jpath obj [''chain'', ''name'']"

definition seal_name :: "json \<Rightarrow> string option" where
  "seal_name obj = option_bind (as_str (chain_name obj)) (strip_prefix POLICY_SEAL_PREFIX)"

definition sealed :: "json \<Rightarrow> bool" where
  "sealed obj =
     (as_object obj \<noteq> Some [] \<and> \<not> has ''metainfo'' obj \<and>
      chain_name obj \<noteq> JString ''guard'' \<and> jpath obj [''rule'', ''chain''] \<noteq> JString ''guard'' \<and>
      seal_name obj = None)"

definition content_seal :: "('n, 'h) digests \<Rightarrow> json list \<Rightarrow> string" where
  "content_seal D objects =
     dg_policy D (normalize_nft_document (jobj [(''nftables'', JArray (filter sealed objects))]))"

definition has_valid_policy_seal :: "('n, 'h) digests \<Rightarrow> json \<Rightarrow> bool" where
  "has_valid_policy_seal D doc =
     (case nft_objects doc of
        None \<Rightarrow> False
      | Some objects \<Rightarrow> List.map_filter seal_name objects = [content_seal D objects])"

section \<open>Statements\<close>

definition meta :: "string \<Rightarrow> json" where
  "meta key = jobj [(''meta'', jobj [(''key'', JString key)])]"

definition ct :: "string \<Rightarrow> json" where
  "ct key = jobj [(''ct'', jobj [(''key'', JString key)])]"

definition matches :: "json \<Rightarrow> string \<Rightarrow> json \<Rightarrow> json" where
  "matches left op right =
     jobj [(''match'', jobj [(''left'', left), (''op'', JString op), (''right'', right)])]"

definition equal :: "json \<Rightarrow> json \<Rightarrow> json" where
  "equal left right = matches left ''=='' right"

definition family :: "ip_family \<Rightarrow> json" where
  "family f = equal (meta ''nfproto'') (JString (if f = V4 then ''ipv4'' else ''ipv6''))"

definition protocol :: "ip_family \<Rightarrow> string" where
  "protocol f = (if f = V4 then ''ip'' else ''ip6'')"

definition suffix :: "ip_family \<Rightarrow> string" where
  "suffix f = (if f = V4 then ''4'' else ''6'')"

definition payload :: "string \<Rightarrow> string \<Rightarrow> json" where
  "payload proto fld =
     jobj [(''payload'', jobj [(''protocol'', JString proto), (''field'', JString fld)])]"

definition mangle :: "json \<Rightarrow> json \<Rightarrow> json" where
  "mangle key v = jobj [(''mangle'', jobj [(''key'', key), (''value'', v)])]"

definition ret :: json where
  "ret = jobj [(''return'', JNull)]"

definition reject :: "ip_family option \<Rightarrow> json" where
  "reject f =
     jobj [(''reject'', jobj [
       (''type'', JString (case f of Some V4 \<Rightarrow> ''icmp'' | Some V6 \<Rightarrow> ''icmpv6'' | None \<Rightarrow> ''icmpx'')),
       (''expr'', JString ''port-unreachable'')])]"

definition goto :: "string \<Rightarrow> json" where
  "goto name = jobj [(''goto'', jobj [(''target'', JString name)])]"

definition counter :: json where
  "counter = jobj [(''counter'', JNull)]"

definition jmark :: "u32 \<Rightarrow> json" where
  "jmark m = JInt (uint m)"

definition owned :: "json \<Rightarrow> json list" where
  "owned key = [equal key (jobj [(''range'', JArray [jmark MARK_BASE, jmark MARK_MAX])])]"

definition network :: "'n foreign \<Rightarrow> 'n \<Rightarrow> json" where
  "network X n =
     (if net_prefix_len X n = (if is_ipv4 (net_addr X n) then 32 else 128)
      then JString (ip_to_string (net_addr X n))
      else jobj [(''prefix'', jobj [(''addr'', JString (ip_to_string (net_addr X (net_trunc X n)))),
             (''len'', JInt (int (net_prefix_len X n)))])])"

definition destination :: "'n foreign \<Rightarrow> 'n \<Rightarrow> json" where
  "destination X n =
     equal (payload (if is_ipv4 (net_addr X n) then ''ip'' else ''ip6'') ''daddr'') (network X n)"

definition ready :: "lane_plan \<Rightarrow> ip_family \<Rightarrow> bool" where
  "ready l f =
     (lp_availability l = Available \<and>
      (case lp_identity l of
         None \<Rightarrow> False
       | Some i \<Rightarrow> 0 < ii_ifindex i \<and> ii_ifindex i \<le> 0x7FFFFFFF \<and> ii_name i = lp_interface l) \<and>
      (case f of
         V4 \<Rightarrow> lp_route_v4 l \<noteq> None \<and> lp_source_v4 l \<noteq> []
       | V6 \<Rightarrow> lp_route_v6 l \<noteq> None \<and> lp_source_v6 l \<noteq> []))"

definition selection_name :: "ip_family \<Rightarrow> u32 \<Rightarrow> string" where
  "selection_name f m = ''select'' @ suffix f @ ''_'' @ hex_08 m"

definition restore_name :: "ip_family \<Rightarrow> string" where
  "restore_name f = ''restore'' @ suffix f"

definition marker_name :: "('n, 'h) digests \<Rightarrow> string \<Rightarrow> 'n kernel_plan \<Rightarrow> string" where
  "marker_name D kind k =
     kind @ ''_g'' @ decimal (uint (kp_generation k)) @ ''_'' @
     take 16 (dg_marker D (content_hash (dg_content D) k))"

definition state_chain_name :: "('n, 'h) digests \<Rightarrow> 'n kernel_plan \<Rightarrow> string" where
  "state_chain_name D k = marker_name D ''state'' k"

definition transaction_chain_name :: "('n, 'h) digests \<Rightarrow> 'n kernel_plan \<Rightarrow> string" where
  "transaction_chain_name D k = marker_name D ''transaction'' k"

section \<open>Chains\<close>

record chain =
  ch_object :: json
  ch_rules :: "json list"

definition table_members :: "(string \<times> json) list" where
  "table_members = [(''family'', JString ''inet''), (''table'', JString ''routelane'')]"

definition chain_regular :: "string \<Rightarrow> chain" where
  "chain_regular name =
     \<lparr>ch_object = jobj [(''chain'', jobj (table_members @ [(''name'', JString name)]))], ch_rules = []\<rparr>"

definition chain_base :: "string \<Rightarrow> string \<Rightarrow> string \<Rightarrow> int \<Rightarrow> chain" where
  "chain_base name kind hook priority =
     \<lparr>ch_object = jobj [(''chain'', jobj (table_members @ [(''name'', JString name),
        (''type'', JString kind), (''hook'', JString hook), (''prio'', JInt priority),
        (''policy'', JString ''accept'')]))], ch_rules = []\<rparr>"

definition rule_object :: "json \<Rightarrow> json list \<Rightarrow> json" where
  "rule_object name es =
     jobj [(''rule'', jobj (table_members @ [(''chain'', name), (''expr'', JArray es)]))]"

text \<open>The rules pushed to a chain, in order.\<close>

definition add_rules :: "json list list \<Rightarrow> chain \<Rightarrow> chain" where
  "add_rules ess c =
     c\<lparr>ch_rules := ch_rules c @ map (rule_object (chain_name (ch_object c))) ess\<rparr>"

section \<open>The rules of each chain\<close>

text \<open>
  Preserved control traffic. Its constant networks are parsed by \<open>ipnet\<close> with an \<open>expect\<close>; \<open>None\<close>
  is that panic.
\<close>

definition dhcp4 :: "json list" where
  "dhcp4 = [equal (payload ''udp'' ''sport'') (JInt 68), equal (payload ''udp'' ''dport'') (JInt 67)]"

definition neighbour_discovery :: "json list" where
  "neighbour_discovery = [equal (payload ''ip6'' ''hoplimit'') (JInt 255),
     equal (payload ''icmpv6'' ''type'') (jobj [(''set'', JArray (map JString
       [''nd-router-solicit'', ''nd-router-advert'', ''nd-neighbor-solicit'',
        ''nd-neighbor-advert'', ''nd-redirect'']))])]"

definition control_matches :: "'n foreign \<Rightarrow> 'n list \<Rightarrow> json list list option" where
  "control_matches X networks =
     (case (parse_all (net_parse X) [''224.0.0.0/24'', ''ff02::/16''], net_parse X ''fe80::/10'') of
        (Some multicast, Some link_local) \<Rightarrow>
          Some ([[equal (meta ''oifname'') (JString ''lo'')],
             [equal (jobj [(''fib'', jobj [(''result'', JString ''type''),
                 (''flags'', JArray [JString ''daddr''])])]) (JString ''local'')],
             dhcp4 @ [equal (payload ''ip'' ''daddr'') (JString ''255.255.255.255'')]] @
           map (\<lambda>n. dhcp4 @ [destination X n]) (filter (\<lambda>n. is_ipv4 (net_addr X n)) networks) @
           map (\<lambda>n. [destination X n]) multicast @
           [neighbour_discovery,
            [equal (payload ''udp'' ''sport'') (JInt 546), equal (payload ''udp'' ''dport'') (JInt 547),
             destination X link_local]])
      | _ \<Rightarrow> None)"

definition controls :: "json list list \<Rightarrow> json list list" where
  "controls conds = map (\<lambda>c. c @ [ret]) conds"

definition session_matches :: "json list list" where
  "session_matches =
     [[equal (ct ''mark'') (JInt 0),
       equal (ct ''state'') (jobj [(''set'', JArray [JString ''established'', JString ''related''])])],
      [equal (ct ''mark'') (JInt 0), equal (ct ''direction'') (JString ''reply'')]]"

definition preserve_unmanaged_sessions :: "json list list" where
  "preserve_unmanaged_sessions = map (\<lambda>c. c @ [ret]) session_matches"

definition family_addresses :: "'n kernel_plan \<Rightarrow> ip_family \<Rightarrow> ip_addr list" where
  "family_addresses k f =
     sort_dedup (filter (\<lambda>a. is_ipv4 a = (f = V4)) (kp_local_addresses k))"

definition source_proof :: "'n kernel_plan \<Rightarrow> ip_family \<Rightarrow> json option" where
  "source_proof k f =
     (case map (\<lambda>a. JString (ip_to_string a)) (family_addresses k f) of
        [] \<Rightarrow> None
      | a # as \<Rightarrow>
          Some (equal (jobj [(''ct'', jobj [(''key'', JString (protocol f @ '' saddr'')),
                 (''dir'', JString ''original'')])])
            (if as = [] then a else jobj [(''set'', JArray (a # as))])))"

definition effective_exit :: "'n kernel_plan \<Rightarrow> ip_family \<Rightarrow> family_exit" where
  "effective_exit k f =
     (if f = V4 then v4 (pd_effective (kp_primary k)) else v6 (pd_effective (kp_primary k)))"

definition primary_mark :: "'n kernel_plan \<Rightarrow> ip_family \<Rightarrow> u32 option" where
  "primary_mark k f =
     (case effective_exit k f of
        ExitLane i \<Rightarrow> map_option lp_mark (find (\<lambda>l. lp_id l = i \<and> ready l f) (kp_lanes k))
      | ExitBlocked \<Rightarrow> None)"

definition action_mark :: "'n kernel_plan \<Rightarrow> 'n compiled_rule \<Rightarrow> u32 option" where
  "action_mark k c =
     (case cr_action c of
        Mark m \<Rightarrow> Some m
      | Direct \<Rightarrow> primary_mark k (cr_family c)
      | Block \<Rightarrow> None)"

definition rule_verdict :: "'n kernel_plan \<Rightarrow> 'n compiled_rule \<Rightarrow> json" where
  "rule_verdict k c =
     (case action_mark k c of
        Some m \<Rightarrow>
          if list_ex (\<lambda>l. lp_mark l = m) (kp_lanes k) then goto (selection_name (cr_family c) m)
          else reject (Some (cr_family c))
      | None \<Rightarrow> reject (Some (cr_family c)))"

definition rule_matches :: "'n foreign \<Rightarrow> 'n compiled_rule \<Rightarrow> json list" where
  "rule_matches X c =
     (case cr_target c of
        TargetAll \<Rightarrow> [family (cr_family c)]
      | Network n \<Rightarrow> [destination X n]
      | Cgroup path \<Rightarrow>
          [family (cr_family c), equal (jobj [(''socket'', jobj [(''key'', JString ''cgroupv2''),
             (''level'', JInt 2)])]) (JString path)])"

definition explicit_rule :: "'n foreign \<Rightarrow> 'n kernel_plan \<Rightarrow> 'n compiled_rule \<Rightarrow> json list" where
  "explicit_rule X k c = rule_matches X c @ [counter, rule_verdict k c]"

definition restore_rules :: "'n kernel_plan \<Rightarrow> ip_family \<Rightarrow> json list list" where
  "restore_rules k f =
     map (\<lambda>l. [equal (ct ''mark'') (jmark (lp_mark l)), mangle (meta ''mark'') (ct ''mark''), ret])
       (filter (\<lambda>l. ready l f) (kp_lanes k)) @ [[reject None]]"

definition select_rules :: "lane_plan \<Rightarrow> ip_family \<Rightarrow> json list list" where
  "select_rules l f =
     [[matches (ct ''mark'') ''!='' (JInt 0), goto (restore_name f)]] @
     preserve_unmanaged_sessions @
     (if ready l f
      then [[matches (ct ''state'') ''in'' (JString ''new''),
             equal (ct ''direction'') (JString ''original''),
             mangle (meta ''mark'') (jmark (lp_mark l)), mangle (ct ''mark'') (meta ''mark''), ret]]
      else []) @
     [[reject None]]"

definition foreign_mark_rules :: "json list list" where
  "foreign_mark_rules =
     concat (map (\<lambda>key.
       [[matches key ''!='' (JInt 0), matches key ''<'' (jmark MARK_BASE), reject None],
        [matches key ''>'' (jmark MARK_MAX), reject None]]) [meta ''mark'', ct ''mark''])"

definition output_rules :: "'n foreign \<Rightarrow> 'n kernel_plan \<Rightarrow> json list list \<Rightarrow> json list list" where
  "output_rules X k conds =
     controls conds @
     foreign_mark_rules @
     map (explicit_rule X k) (kp_rules k) @
     map (\<lambda>f. [family f] @ owned (ct ''mark'') @ [goto (restore_name f)]) families @
     preserve_unmanaged_sessions @
     map (\<lambda>n. [destination X n, ret]) (kp_local_networks k) @
     map (\<lambda>f. [family f, counter,
       (case primary_mark k f of
          Some m \<Rightarrow> goto (selection_name f m)
        | None \<Rightarrow> reject (Some f))]) families"

text \<open>A ready lane has an identity, so the \<open>expect\<close> here cannot fire for the lanes it is used on.\<close>

definition lane_index :: "lane_plan \<Rightarrow> json" where
  "lane_index l = JInt (case lp_identity l of Some i \<Rightarrow> uint (ii_ifindex i) | None \<Rightarrow> 0)"

definition reply_rule :: "json \<Rightarrow> lane_plan \<Rightarrow> json list" where
  "reply_rule source l =
     [equal (meta ''iif'') (lane_index l), equal (meta ''iifname'') (JString (lp_interface l)),
      equal (ct ''direction'') (JString ''reply''), source,
      equal (ct ''mark'') (jmark (lp_mark l)), mangle (meta ''mark'') (ct ''mark''), ret]"

definition egress_scope :: "json \<Rightarrow> lane_plan \<Rightarrow> json list" where
  "egress_scope source l =
     [equal (meta ''iif'') (JInt 0), equal (meta ''oif'') (lane_index l),
      equal (meta ''oifname'') (JString (lp_interface l)),
      equal (ct ''direction'') (JString ''original''), source,
      equal (ct ''mark'') (jmark (lp_mark l)), equal (meta ''mark'') (jmark (lp_mark l))]"

text \<open>The rules of the ready lanes of both families, where the family has a source address.\<close>

definition lane_rules ::
  "'n kernel_plan \<Rightarrow> (json \<Rightarrow> lane_plan \<Rightarrow> json list) \<Rightarrow> json list list"
where
  "lane_rules k rule =
     concat (map (\<lambda>f.
       case source_proof k f of
         None \<Rightarrow> []
       | Some source \<Rightarrow> map (rule source) (filter (\<lambda>l. ready l f) (kp_lanes k))) families)"

definition egress_rules :: "'n kernel_plan \<Rightarrow> json list list \<Rightarrow> json list list" where
  "egress_rules k conds =
     [[matches (meta ''iif'') ''!='' (JInt 0), ret]] @
     controls conds @
     lane_rules k (\<lambda>source l. egress_scope source l @ [ret]) @
     [owned (meta ''mark'') @ [jobj [(''drop'', JNull)]]]"

definition nat_rules :: "'n kernel_plan \<Rightarrow> json list list" where
  "nat_rules k =
     lane_rules k (\<lambda>source l. egress_scope source l @ [counter, jobj [(''masquerade'', JNull)]])"

definition guard_rules :: "'n foreign \<Rightarrow> 'n list \<Rightarrow> json list list \<Rightarrow> json list list" where
  "guard_rules X networks conds =
     controls conds @ map (\<lambda>n. [destination X n, ret]) networks @ [[reject None]]"

section \<open>The document\<close>

definition selection_chains :: "'n kernel_plan \<Rightarrow> chain list" where
  "selection_chains k =
     concat (map (\<lambda>f.
       add_rules (restore_rules k f) (chain_regular (restore_name f)) #
       map (\<lambda>l. add_rules (select_rules l f) (chain_regular (selection_name f (lp_mark l))))
         (kp_lanes k)) families)"

definition active_chains :: "'n foreign \<Rightarrow> 'n kernel_plan \<Rightarrow> json list list \<Rightarrow> chain list" where
  "active_chains X k conds =
     selection_chains k @
     [add_rules (output_rules X k conds) (chain_base ''output'' ''route'' ''output'' (- 150)),
      add_rules (lane_rules k reply_rule) (chain_base ''prerouting'' ''filter'' ''prerouting'' (- 150)),
      add_rules (egress_rules k conds) (chain_base ''egress_guard'' ''filter'' ''postrouting'' 99),
      add_rules (nat_rules k) (chain_base ''source_nat'' ''nat'' ''postrouting'' 100)]"

definition marker_chains ::
  "('n, 'h) digests \<Rightarrow> 'n kernel_plan option \<Rightarrow> 'n kernel_plan option \<Rightarrow> chain list"
where
  "marker_chains D active pending =
     (case active of Some p \<Rightarrow> [chain_regular (state_chain_name D p)] | None \<Rightarrow> []) @
     (case pending of Some p \<Rightarrow> [chain_regular (transaction_chain_name D p)] | None \<Rightarrow> [])"

definition guard_networks ::
  "('n::linorder) kernel_plan option \<Rightarrow> 'n kernel_plan option \<Rightarrow> 'n list"
where
  "guard_networks active pending =
     (let nets = (\<lambda>p. case p of Some k \<Rightarrow> kp_local_networks k | None \<Rightarrow> [])
      in sort_dedup (nets active @ nets pending))"

definition policy_chains ::
  "('n::linorder) foreign \<Rightarrow> ('n, 'h) digests \<Rightarrow> 'n kernel_plan option \<Rightarrow> 'n kernel_plan option \<Rightarrow>
     bool \<Rightarrow> chain list option"
where
  "policy_chains X D active pending guard =
     (case (case active of
              None \<Rightarrow> Some []
            | Some k \<Rightarrow> map_option (active_chains X k) (control_matches X (kp_local_networks k))) of
        None \<Rightarrow> None
      | Some built \<Rightarrow>
          map_option (\<lambda>guarded. marker_chains D active pending @ built @ guarded)
            (if guard
             then (let nets = guard_networks active pending in
               map_option (\<lambda>conds. [add_rules (guard_rules X nets conds)
                   (chain_base ''guard'' ''route'' ''output'' (- 149))]) (control_matches X nets))
             else Some []))"

definition table_object :: json where
  "table_object = jobj [(''table'', jobj [(''family'', JString ''inet''), (''name'', JString ''routelane'')])]"

definition document_objects :: "chain list \<Rightarrow> json list" where
  "document_objects built =
     [jobj [], table_object] @ map ch_object built @ concat (map ch_rules built)"

definition seal_object :: "string \<Rightarrow> json" where
  "seal_object seal = ch_object (chain_regular (POLICY_SEAL_PREFIX @ seal))"

definition seal_document :: "('n, 'h) digests \<Rightarrow> json list \<Rightarrow> json" where
  "seal_document D objects =
     jobj [(''nftables'',
       JArray (take 2 objects @ [seal_object (content_seal D objects)] @ drop 2 objects))]"

definition render_nft_document ::
  "('n::linorder) foreign \<Rightarrow> ('n, 'h) digests \<Rightarrow> 'n kernel_plan option \<Rightarrow> 'n kernel_plan option \<Rightarrow>
     bool \<Rightarrow> json option"
where
  "render_nft_document X D active pending guard =
     map_option (\<lambda>built. seal_document D (document_objects built))
       (policy_chains X D active pending guard)"

section \<open>The shape of the document\<close>

text \<open>
  An outline lists the chains by name with the expression lists of their rules. Everything below
  about a rendered document goes through its outline.
\<close>

definition is_chain :: "string \<times> json list list \<Rightarrow> chain \<Rightarrow> bool" where
  "is_chain p c \<longleftrightarrow>
     chain_name (ch_object c) = JString (fst p) \<and> ch_rules c = map (rule_object (JString (fst p))) (snd p) \<and>
     jget ''rule'' (ch_object c) = None \<and> jget ''metainfo'' (ch_object c) = None \<and>
     as_object (ch_object c) \<noteq> Some []"

lemma bt_insert_ne: "bt_insert k v m \<noteq> []"
  by (induction k v m rule: bt_insert.induct) auto

lemma jobj_empty_iff: "as_object (jobj ms) = Some [] \<longleftrightarrow> ms = []"
proof (cases ms rule: rev_cases)
  case (snoc xs x)
  then show ?thesis using bt_insert_ne by (cases x) (simp add: bt_collect_def)
qed (simp add: bt_collect_def)

lemma is_chain_new:
  "is_chain (n, ess) (add_rules ess (chain_regular n))"
  "is_chain (n, ess) (add_rules ess (chain_base n k h p))"
  "is_chain (n, []) (chain_regular n)"
  by (simp_all add: is_chain_def add_rules_def chain_regular_def chain_base_def chain_name_def
      table_members_def jobj_empty_iff del: as_obj(3))

definition selection_outline :: "'n kernel_plan \<Rightarrow> (string \<times> json list list) list" where
  "selection_outline k =
     concat (map (\<lambda>f. (restore_name f, restore_rules k f) #
       map (\<lambda>l. (selection_name f (lp_mark l), select_rules l f)) (kp_lanes k)) families)"

definition active_outline ::
  "'n foreign \<Rightarrow> 'n kernel_plan \<Rightarrow> json list list \<Rightarrow> (string \<times> json list list) list"
where
  "active_outline X k conds =
     selection_outline k @
     [(''output'', output_rules X k conds), (''prerouting'', lane_rules k reply_rule),
      (''egress_guard'', egress_rules k conds), (''source_nat'', nat_rules k)]"

definition marker_outline ::
  "('n, 'h) digests \<Rightarrow> 'n kernel_plan option \<Rightarrow> 'n kernel_plan option \<Rightarrow> (string \<times> json list list) list"
where
  "marker_outline D active pending =
     (case active of Some p \<Rightarrow> [(state_chain_name D p, [])] | None \<Rightarrow> []) @
     (case pending of Some p \<Rightarrow> [(transaction_chain_name D p, [])] | None \<Rightarrow> [])"

definition guard_outline ::
  "'n foreign \<Rightarrow> ('n::linorder) kernel_plan option \<Rightarrow> 'n kernel_plan option \<Rightarrow> bool \<Rightarrow>
     json list list \<Rightarrow> (string \<times> json list list) list"
where
  "guard_outline X active pending guard conds =
     (if guard then [(''guard'', guard_rules X (guard_networks active pending) conds)] else [])"

lemma selection_chains_outline: "list_all2 is_chain (selection_outline k) (selection_chains k)"
  unfolding selection_outline_def selection_chains_def families_def
  by (auto simp: is_chain_new list.rel_map intro!: list_all2_appendI list.rel_refl_strong)

lemma active_chains_outline: "list_all2 is_chain (active_outline X k conds) (active_chains X k conds)"
  unfolding active_outline_def active_chains_def
  by (auto simp: is_chain_new intro!: list_all2_appendI selection_chains_outline)

lemma marker_chains_outline: "list_all2 is_chain (marker_outline D active pending) (marker_chains D active pending)"
  unfolding marker_outline_def marker_chains_def
  by (auto simp: is_chain_new split: option.splits)

text \<open>A rendered document: its control matches exist, and its chains follow the outline.\<close>

definition outline_of ::
  "('n::linorder) foreign \<Rightarrow> ('n, 'h) digests \<Rightarrow> 'n kernel_plan option \<Rightarrow> 'n kernel_plan option \<Rightarrow>
     bool \<Rightarrow> (string \<times> json list list) list"
where
  "outline_of X D active pending guard =
     marker_outline D active pending @
     (case active of None \<Rightarrow> []
      | Some k \<Rightarrow> active_outline X k (the (control_matches X (kp_local_networks k)))) @
     guard_outline X active pending guard (the (control_matches X (guard_networks active pending)))"

lemma policy_chains_outline:
  assumes "policy_chains X D active pending guard = Some built"
  shows "list_all2 is_chain (outline_of X D active pending guard) built"
  using assms unfolding policy_chains_def outline_of_def guard_outline_def
  by (auto simp: is_chain_new Let_def split: option.splits if_splits
      intro!: list_all2_appendI marker_chains_outline active_chains_outline)

lemma rendered_chains:
  assumes "render_nft_document X D active pending guard = Some doc"
  obtains built where "list_all2 is_chain (outline_of X D active pending guard) built"
    "doc = seal_document D (document_objects built)"
  using assms policy_chains_outline unfolding render_nft_document_def by blast

section \<open>The seal\<close>

lemma nft_objects_doc [simp]: "nft_objects (jobj [(''nftables'', JArray xs)]) = Some xs"
  by (simp add: nft_objects_def)

lemma seal_document_objects:
  "nft_objects (seal_document D objs) =
     Some (take 2 objs @ [seal_object (content_seal D objs)] @ drop 2 objs)"
  by (simp add: seal_document_def)

lemma seal_name_seal [simp]: "seal_name (seal_object s) = Some s"
  by (simp add: seal_name_def seal_object_def chain_name_def chain_regular_def table_members_def)

lemma content_seal_cong: "filter sealed xs = filter sealed ys \<Longrightarrow> content_seal D xs = content_seal D ys"
  by (simp add: content_seal_def)

lemma map_filter_none: "\<forall>x \<in> set xs. f x = None \<Longrightarrow> List.map_filter f xs = []"
  by (induction xs) (simp_all add: List.map_filter_simps)

lemma seal_document_names:
  assumes "\<forall>obj \<in> set objs. seal_name obj = None"
  shows "List.map_filter seal_name (take 2 objs @ [seal_object s] @ drop 2 objs) = [s]"
proof -
  have "List.map_filter seal_name (take 2 objs) = []" "List.map_filter seal_name (drop 2 objs) = []"
    using assms by (auto intro!: map_filter_none dest: in_set_takeD in_set_dropD)
  then show ?thesis by (simp add: List.map_filter_def)
qed

lemma seal_document_valid:
  assumes "\<forall>obj \<in> set objs. seal_name obj = None"
  shows "has_valid_policy_seal D (seal_document D objs)"
proof -
  let ?s = "seal_object (content_seal D objs)"
  have "\<not> sealed ?s" by (simp add: sealed_def)
  then have "filter sealed (take 2 objs @ [?s] @ drop 2 objs) = filter sealed (take 2 objs @ drop 2 objs)"
    by (simp del: append_take_drop_id)
  then have "content_seal D (take 2 objs @ [?s] @ drop 2 objs) = content_seal D objs"
    by (intro content_seal_cong) simp
  then show ?thesis
    using seal_document_names [OF assms] by (simp add: has_valid_policy_seal_def seal_document_objects)
qed

lemma chain_object_unsealed:
  assumes "is_chain (n, ess) c" "\<not> starts_with POLICY_SEAL_PREFIX n"
  shows "seal_name (ch_object c) = None"
  using assms by (simp add: is_chain_def seal_name_def starts_with_def)

lemma rule_object_seal [simp]: "seal_name (rule_object n es) = None"
  by (simp add: seal_name_def chain_name_def rule_object_def)

lemma prefix_names:
  "\<not> starts_with POLICY_SEAL_PREFIX (state_chain_name D k)"
  "\<not> starts_with POLICY_SEAL_PREFIX (transaction_chain_name D k)"
  "\<not> starts_with POLICY_SEAL_PREFIX (restore_name f)"
  "\<not> starts_with POLICY_SEAL_PREFIX (selection_name f m)"
  by (simp_all add: starts_with_def POLICY_SEAL_PREFIX_def state_chain_name_def
      transaction_chain_name_def marker_name_def restore_name_def selection_name_def)

lemma outline_names:
  "(n, ess) \<in> set (outline_of X D active pending guard) \<Longrightarrow> \<not> starts_with POLICY_SEAL_PREFIX n"
  unfolding outline_of_def marker_outline_def active_outline_def selection_outline_def
    guard_outline_def
  by (auto simp: prefix_names split: option.splits if_splits)
     (simp_all add: starts_with_def POLICY_SEAL_PREFIX_def)

lemma in_chains:
  assumes "list_all2 is_chain outline built" "c \<in> set built"
  obtains n ess where "(n, ess) \<in> set outline" "is_chain (n, ess) c"
  using assms by (metis list_all2_iff in_set_zip list_all2_conv_all_nth in_set_conv_nth surj_pair)

lemma document_unsealed:
  assumes "list_all2 is_chain (outline_of X D active pending guard) built"
  shows "\<forall>obj \<in> set (document_objects built). seal_name obj = None"
proof -
  have "seal_name (ch_object c) = None \<and> (\<forall>r \<in> set (ch_rules c). seal_name r = None)"
    if c: "c \<in> set built" for c
  proof -
    from in_chains [OF assms c] obtain n ess where
      n: "(n, ess) \<in> set (outline_of X D active pending guard)" and ic: "is_chain (n, ess) c" by blast
    from ic have "\<forall>r \<in> set (ch_rules c). seal_name r = None" by (auto simp: is_chain_def)
    with chain_object_unsealed [OF ic outline_names [OF n]] show ?thesis by blast
  qed
  moreover have "seal_name (jobj []) = None" "seal_name table_object = None"
    by (simp_all add: seal_name_def chain_name_def table_object_def)
  ultimately show ?thesis by (auto simp: document_objects_def)
qed

lemma guard_unsealed:
  "is_chain (''guard'', ess) c \<Longrightarrow> \<not> sealed (ch_object c) \<and> (\<forall>r \<in> set (ch_rules c). \<not> sealed r)"
  by (auto simp: is_chain_def sealed_def rule_object_def table_members_def)

lemma sealed_without_guard:
  assumes "is_chain (''guard'', ess) c"
  shows "filter sealed (document_objects (built @ [c])) = filter sealed (document_objects built)"
  using guard_unsealed [OF assms] by (auto simp: document_objects_def filter_empty_conv)

lemma policy_chains_guard:
  assumes "policy_chains X D active pending True = Some built"
  shows "\<exists>base conds. policy_chains X D active pending False = Some base \<and> built = base @
    [add_rules (guard_rules X (guard_networks active pending) conds)
      (chain_base ''guard'' ''route'' ''output'' (- 149))]"
  using assms unfolding policy_chains_def by (auto simp: Let_def split: option.splits)

section \<open>The normal form is one\<close>

lemma map_of_clean:
  "\<not> dropped_member k \<Longrightarrow> (map_of (clean_members m) k = None) = (map_of m k = None)"
  by (induction m) (auto simp: clean_members_def)

lemma map_of_map_value:
  "map_of (map (\<lambda>(k, v). (k, g v)) m) k = map_option g (map_of m k)"
  by (induction m) auto

lemma has_normalize: "\<not> dropped_member k \<Longrightarrow> has k (normalize_nft_document j) = has k j"
  by (cases j) (simp_all add: has_def jget_def map_of_map_value map_of_clean)

lemma kept_members [simp]:
  "\<not> dropped_member ''rule''" "\<not> dropped_member ''packets''" "\<not> dropped_member ''bytes''"
  by (simp_all add: dropped_member_def)

lemma as_object_normalize: "(as_object (normalize_nft_document j) = None) = (as_object j = None)"
  by (cases j) simp_all

lemma has_counts_normalize: "has_counts (normalize_nft_document j) = has_counts j"
  by (simp add: has_counts_def has_normalize as_object_normalize)

lemma rules_last_normalize:
  "rules_last (normalize_nft_document (rules_last v)) = normalize_nft_document (rules_last v)"
proof (cases v)
  case (JArray xs)
  have h: "has ''rule'' (normalize_nft_document x) = has ''rule'' x" for x by (simp add: has_normalize)
  have n: "has ''rule'' \<circ> normalize_nft_document = has ''rule''"
    "(\<lambda>x. \<not> has ''rule'' x) \<circ> normalize_nft_document = (\<lambda>x. \<not> has ''rule'' x)"
    by (simp_all add: fun_eq_iff h)
  show ?thesis
    by (simp add: JArray rules_last_def filter_map n filter_empty_conv cong: conj_cong)
next
  case (JObject m)
  then show ?thesis by (simp add: rules_last_def)
qed (simp_all add: rules_last_def)

lemma has_counts_null [simp]: "\<not> has_counts JNull"
  by (simp add: has_counts_def)

lemma clean_value_normalize:
  "clean_value k (normalize_nft_document (clean_value k v)) = normalize_nft_document (clean_value k v)"
proof (cases "k = ''nftables''")
  case True
  then show ?thesis by (simp add: clean_value_def rules_last_normalize)
next
  case False
  then show ?thesis by (simp add: clean_value_def has_counts_normalize)
qed

lemma normalize_idempotent:
  "normalize_nft_document (normalize_nft_document j) = normalize_nft_document j"
proof (induction j rule: normalize_nft_document.induct)
  case (1 m)
  let ?N = "\<lambda>(k, v). (k, normalize_nft_document v)"
  have "clean_members (map ?N ms) = map ?N ms" if "set ms \<subseteq> set (clean_members m)" for ms
    using that
  proof (induction ms)
    case (Cons p ms)
    obtain k v where p: "p = (k, v)" by (cases p)
    with Cons.prems obtain v' where "\<not> dropped_member k" "v = clean_value k v'"
      by (auto simp: in_clean_members)
    with Cons show ?case by (simp add: p clean_members_def clean_value_normalize)
  qed (simp add: clean_members_def)
  then have "clean_members (map ?N (clean_members m)) = map ?N (clean_members m)" by blast
  then show ?case using 1 by (auto simp: case_prod_beta)
qed simp_all

section \<open>Rendered documents\<close>

text \<open>
  Every rendered document carries exactly one seal, which is the digest of its own canonical
  content, and installing or removing the guard leaves the seal what it is.
\<close>

lemma rendered_seal_valid:
  assumes "render_nft_document X D active pending True = Some doc"
  shows "\<exists>base. render_nft_document X D active pending False = Some base \<and>
    has_valid_policy_seal D doc \<and> has_valid_policy_seal D base \<and>
    List.map_filter seal_name (the (nft_objects doc)) = List.map_filter seal_name (the (nft_objects base))"
proof -
  from assms obtain built where
    built: "policy_chains X D active pending True = Some built"
    and doc: "doc = seal_document D (document_objects built)"
    unfolding render_nft_document_def by blast
  from policy_chains_guard [OF built] obtain base c conds where
    base: "policy_chains X D active pending False = Some base" and split: "built = base @ [c]"
    and c: "c = add_rules (guard_rules X (guard_networks active pending) conds)
      (chain_base ''guard'' ''route'' ''output'' (- 149))" by blast
  let ?base = "seal_document D (document_objects base)"
  have valid: "has_valid_policy_seal D doc" "has_valid_policy_seal D ?base"
    unfolding doc
    by (rule seal_document_valid document_unsealed policy_chains_outline built base)+
  have "content_seal D (document_objects built) = content_seal D (document_objects base)"
    unfolding split by (rule content_seal_cong) (rule sealed_without_guard, unfold c, rule is_chain_new)
  moreover have "render_nft_document X D active pending False = Some ?base"
    by (simp add: render_nft_document_def base)
  ultimately show ?thesis
    using valid seal_document_names [OF document_unsealed [OF policy_chains_outline [OF built]]]
      seal_document_names [OF document_unsealed [OF policy_chains_outline [OF base]]]
    by (simp add: doc seal_document_objects)
qed

text \<open>The planner's example, with a parser for the three constant networks.\<close>

definition nft_foreign :: "(ip_addr \<times> nat) foreign" where
  "nft_foreign = demo_foreign\<lparr>net_parse := (\<lambda>s.
     if s = ''224.0.0.0/24'' then Some (V4Addr 0xE0000000, 24)
     else if s = ''ff02::/16'' then Some (V6Addr 0xFF020000000000000000000000000000, 16)
     else if s = ''fe80::/10'' then Some (V6Addr 0xFE800000000000000000000000000000, 10) else None)\<rparr>"

definition demo_digests :: "(ip_addr \<times> nat, unit) digests" where
  "demo_digests = \<lparr>dg_content = (\<lambda>_. ()), dg_marker = (\<lambda>_. ''0123456789abcdef''),
     dg_policy = (\<lambda>_. ''feed'')\<rparr>"

definition demo_controls :: "json list list" where
  "demo_controls = the (control_matches nft_foreign (kp_local_networks demo_plan))"

definition demo_document :: json where
  "demo_document = the (render_nft_document nft_foreign demo_digests (Some demo_plan) None True)"

lemma nft_control_matches: "control_matches nft_foreign nets \<noteq> None"
  by (simp add: control_matches_def nft_foreign_def)

lemma demo_plan_controls:
  "control_matches nft_foreign (kp_local_networks demo_plan) = Some demo_controls"
  using nft_control_matches by (simp add: demo_controls_def)

lemma demo_rendered:
  "render_nft_document nft_foreign demo_digests (Some demo_plan) None True = Some demo_document"
  using nft_control_matches
  by (simp add: demo_document_def render_nft_document_def policy_chains_def Let_def split: option.split)

lemma rendered_seal_valid_witness: "has_valid_policy_seal demo_digests demo_document"
  using rendered_seal_valid [OF demo_rendered] by blast

end
