(* ===== verification/Nft_Policy.thy ===== *)
theory Nft_Policy
  imports Nft_Document
begin

text \<open>
  What a packet meets in a rendered table. The kernel's packet filter is not part of the repository:
  \<open>walk\<close> is its documented reading of a chain (rules in order; a rule's statements from left to right
  until a match fails; \<open>goto\<close> without return; every base chain accepts at its end), and what the
  kernel says of a match other than one on a mark is a parameter, \<open>facts\<close>, constant for a packet. The
  theorems compare the document that \<open>render_nft_document\<close> builds with decisions stated on the plan.
\<close>

section \<open>Walking a chain\<close>

type_synonym facts = "json \<Rightarrow> string \<Rightarrow> json \<Rightarrow> bool"

record marks =
  mk_meta :: u32
  mk_ct :: u32

datatype verdict = Return | Goto string | Refuse | Discard | Translate
datatype fate = Accepted | Rejected | Dropped | Masqueraded
datatype effect = Continue marks | NoMatch | Verdict verdict

definition read_mark :: "marks \<Rightarrow> json \<Rightarrow> u32 option" where
  "read_mark m j =
     (if j = meta ''mark'' then Some (mk_meta m) else if j = ct ''mark'' then Some (mk_ct m) else None)"

fun compare_mark :: "string \<Rightarrow> u32 \<Rightarrow> json \<Rightarrow> bool" where
  "compare_mark op w (JInt i) =
     (if op = ''=='' then uint w = i else if op = ''!='' then uint w \<noteq> i
      else if op = ''<'' then uint w < i else if op = ''>'' then i < uint w else False)"
| "compare_mark op w j =
     (case option_bind (jget ''range'' j) as_array of
        Some [JInt a, JInt b] \<Rightarrow> op = ''=='' \<and> a \<le> uint w \<and> uint w \<le> b
      | _ \<Rightarrow> False)"

definition test_match :: "facts \<Rightarrow> marks \<Rightarrow> json \<Rightarrow> bool" where
  "test_match facts m b =
     (let left = jindex b ''left''; right = jindex b ''right'' in
      (case as_str (jindex b ''op'') of
         None \<Rightarrow> False
       | Some op \<Rightarrow>
           (case read_mark m left of Some w \<Rightarrow> compare_mark op w right | None \<Rightarrow> facts left op right)))"

definition mangle_value :: "marks \<Rightarrow> json \<Rightarrow> u32 option" where
  "mangle_value m j = (case j of JInt i \<Rightarrow> Some (of_int i) | _ \<Rightarrow> read_mark m j)"

definition run_mangle :: "marks \<Rightarrow> json \<Rightarrow> effect" where
  "run_mangle m b =
     (case mangle_value m (jindex b ''value'') of
        None \<Rightarrow> NoMatch
      | Some w \<Rightarrow>
          if jindex b ''key'' = meta ''mark'' then Continue (m\<lparr>mk_meta := w\<rparr>)
          else if jindex b ''key'' = ct ''mark'' then Continue (m\<lparr>mk_ct := w\<rparr>)
          else NoMatch)"

definition run_statement :: "facts \<Rightarrow> marks \<Rightarrow> json \<Rightarrow> effect" where
  "run_statement facts m s =
     (case jget ''match'' s of
        Some b \<Rightarrow> if test_match facts m b then Continue m else NoMatch
      | None \<Rightarrow>
     (case jget ''mangle'' s of
        Some b \<Rightarrow> run_mangle m b
      | None \<Rightarrow>
          if has ''counter'' s then Continue m
          else if has ''return'' s then Verdict Return
          else if has ''reject'' s then Verdict Refuse
          else if has ''drop'' s then Verdict Discard
          else if has ''masquerade'' s then Verdict Translate
          else (case as_str (jpath s [''goto'', ''target'']) of
              Some n \<Rightarrow> Verdict (Goto n) | None \<Rightarrow> NoMatch)))"

text \<open>The marks after a rule, and its verdict if it reached one.\<close>

fun run_rule :: "facts \<Rightarrow> marks \<Rightarrow> json list \<Rightarrow> marks \<times> verdict option" where
  "run_rule facts m [] = (m, None)"
| "run_rule facts m (s # ss) =
     (case run_statement facts m s of
        Continue m' \<Rightarrow> run_rule facts m' ss
      | NoMatch \<Rightarrow> (m, None)
      | Verdict v \<Rightarrow> (m, Some v))"

fun run_rules :: "facts \<Rightarrow> marks \<Rightarrow> json list list \<Rightarrow> marks \<times> verdict option" where
  "run_rules facts m [] = (m, None)"
| "run_rules facts m (r # rs) =
     (case run_rule facts m r of
        (m', None) \<Rightarrow> run_rules facts m' rs
      | (m', Some v) \<Rightarrow> (m', Some v))"

text \<open>The rules of a chain of a document, and the walk with a bound on the number of gotos.\<close>

definition chain_rule :: "string \<Rightarrow> json \<Rightarrow> json list list" where
  "chain_rule name obj =
     (if jpath obj [''rule'', ''chain''] = JString name
      then (case as_array (jpath obj [''rule'', ''expr'']) of Some es \<Rightarrow> [es] | None \<Rightarrow> [])
      else [])"

definition rule_exprs :: "json \<Rightarrow> string \<Rightarrow> json list list" where
  "rule_exprs doc name =
     concat (map (chain_rule name) (case nft_objects doc of Some objects \<Rightarrow> objects | None \<Rightarrow> []))"

fun walk :: "nat \<Rightarrow> facts \<Rightarrow> json \<Rightarrow> string \<Rightarrow> marks \<Rightarrow> (marks \<times> fate) option" where
  "walk gotos facts doc name m =
     (case run_rules facts m (rule_exprs doc name) of
        (m', None) \<Rightarrow> Some (m', Accepted)
      | (m', Some Return) \<Rightarrow> Some (m', Accepted)
      | (m', Some Refuse) \<Rightarrow> Some (m', Rejected)
      | (m', Some Discard) \<Rightarrow> Some (m', Dropped)
      | (m', Some Translate) \<Rightarrow> Some (m', Masqueraded)
      | (m', Some (Goto n)) \<Rightarrow>
          (case gotos of 0 \<Rightarrow> None | Suc g \<Rightarrow> walk g facts doc n m'))"

declare walk.simps [simp del]

section \<open>Stepping\<close>

definition is_match :: "json \<Rightarrow> bool" where
  "is_match s = has ''match'' s"

definition holds :: "facts \<Rightarrow> marks \<Rightarrow> json list \<Rightarrow> bool" where
  "holds facts m es = list_all (\<lambda>s. case jget ''match'' s of Some b \<Rightarrow> test_match facts m b | None \<Rightarrow> False) es"

lemma holds_simps [simp]:
  "holds facts m []"
  "holds facts m (e # es) = (holds facts m [e] \<and> holds facts m es)" if "es \<noteq> []"
  using that by (simp_all add: holds_def)

lemma holds_append [simp]: "holds facts m (xs @ ys) = (holds facts m xs \<and> holds facts m ys)"
  by (simp add: holds_def)

lemma run_rule_matches:
  "list_all is_match es \<Longrightarrow>
     run_rule facts m (es @ ss) = (if holds facts m es then run_rule facts m ss else (m, None))"
  by (induction es) (auto simp: is_match_def has_def run_statement_def holds_def split: option.splits)

lemma run_rules_append:
  "run_rules facts m (xs @ ys) =
     (case run_rules facts m xs of (m', None) \<Rightarrow> run_rules facts m' ys | r \<Rightarrow> r)"
  by (induction xs arbitrary: m) (auto split: prod.splits option.splits)

lemma matches_holds:
  "holds facts m [matches left op right] =
     (case read_mark m left of Some w \<Rightarrow> compare_mark op w right | None \<Rightarrow> facts left op right)"
  by (simp add: holds_def matches_def test_match_def)

lemma is_match_matches [simp]: "is_match (matches left op right)"
  by (simp add: is_match_def has_def matches_def)

lemma is_match_equal [simp]: "is_match (equal left right)"
  by (simp add: equal_def)

lemma run_statement_match [simp]:
  "run_statement facts m (matches left op right) =
     (if holds facts m [matches left op right] then Continue m else NoMatch)"
  "run_statement facts m (equal left right) =
     (if holds facts m [equal left right] then Continue m else NoMatch)"
  "run_statement facts m (family f) = (if holds facts m [family f] then Continue m else NoMatch)"
  "run_statement facts m (destination X n) =
     (if holds facts m [destination X n] then Continue m else NoMatch)"
  by (simp_all add: run_statement_def family_def destination_def matches_def equal_def holds_def)

lemma is_match_shapes [simp]:
  "is_match (family f)" "is_match (destination X n)" "list_all is_match (owned key)"
  "list_all is_match dhcp4" "list_all is_match neighbour_discovery"
  by (simp_all add: family_def destination_def owned_def dhcp4_def neighbour_discovery_def)

lemma run_statement_simps [simp]:
  "run_statement facts m ret = Verdict Return"
  "run_statement facts m (reject f) = Verdict Refuse"
  "run_statement facts m (goto n) = Verdict (Goto n)"
  "run_statement facts m counter = Continue m"
  "run_statement facts m (jobj [(''drop'', JNull)]) = Verdict Discard"
  "run_statement facts m (jobj [(''masquerade'', JNull)]) = Verdict Translate"
  by (simp_all add: run_statement_def ret_def reject_def goto_def counter_def has_def)

lemma meta_ct_distinct [simp]:
  "meta k = meta k' \<longleftrightarrow> k = k'" "ct k = ct k' \<longleftrightarrow> k = k'" "meta k \<noteq> ct k'" "ct k \<noteq> meta k'"
  by (simp_all add: meta_def ct_def jobj_def bt_collect_def)

lemma other_keys [simp]:
  "payload p k \<noteq> meta k'" "payload p k \<noteq> ct k'"
  by (simp_all add: meta_def ct_def payload_def jobj_def bt_collect_def)

lemma read_mark_simps [simp]:
  "read_mark m (meta ''mark'') = Some (mk_meta m)" "read_mark m (ct ''mark'') = Some (mk_ct m)"
  "k \<noteq> ''mark'' \<Longrightarrow> read_mark m (meta k) = None" "k \<noteq> ''mark'' \<Longrightarrow> read_mark m (ct k) = None"
  "read_mark m (payload p k) = None"
  by (simp_all add: read_mark_def)

lemma compare_mark_jmark [simp]:
  "compare_mark ''=='' w (jmark v) = (w = v)"
  "compare_mark ''!='' w (jmark v) = (w \<noteq> v)"
  "compare_mark ''<'' w (jmark v) = (w < v)"
  "compare_mark ''>'' w (jmark v) = (v < w)"
  by (simp_all add: jmark_def word_less_def word_uint_eq_iff)

lemma compare_mark_zero [simp]:
  "compare_mark ''=='' w (JInt 0) = (w = 0)" "compare_mark ''!='' w (JInt 0) = (w \<noteq> 0)"
  by (simp_all add: uint_0_iff)

declare compare_mark.simps [simp del]

lemma compare_mark_range [simp]:
  "compare_mark ''=='' w (jobj [(''range'', JArray [jmark a, jmark b])]) = (a \<le> w \<and> w \<le> b)"
  by (simp add: jobj_def bt_collect_def jmark_def jget_def word_le_def compare_mark.simps)

lemma mangle_value_simps [simp]:
  "mangle_value m (meta k) = read_mark m (meta k)" "mangle_value m (ct k) = read_mark m (ct k)"
  "mangle_value m (jmark w) = Some w"
  by (simp_all add: mangle_value_def meta_def ct_def jobj_def jmark_def)

lemma run_mangle_simps [simp]:
  "run_statement facts m (mangle (meta ''mark'') (ct ''mark'')) = Continue (m\<lparr>mk_meta := mk_ct m\<rparr>)"
  "run_statement facts m (mangle (ct ''mark'') (meta ''mark'')) = Continue (m\<lparr>mk_ct := mk_meta m\<rparr>)"
  "run_statement facts m (mangle (meta ''mark'') (jmark w)) = Continue (m\<lparr>mk_meta := w\<rparr>)"
  by (simp_all add: run_statement_def mangle_def run_mangle_def)

section \<open>Chains of a rendered document\<close>

lemma chain_rule_object [simp]:
  "chain_rule name (rule_object (JString n) es) = (if n = name then [es] else [])"
  by (simp add: chain_rule_def rule_object_def table_members_def)

lemma chain_rule_none: "jget ''rule'' obj = None \<Longrightarrow> chain_rule name obj = []"
  by (simp add: chain_rule_def jindex_def)

lemma chain_rules_chain:
  "concat (map (chain_rule name \<circ> rule_object (JString n)) ess) = (if n = name then ess else [])"
  by (induction ess) simp_all

lemma chain_rules_outline:
  assumes "list_all2 is_chain outline built"
  shows "concat (map (chain_rule name) (concat (map ch_rules built))) =
      concat (map snd (filter (\<lambda>p. fst p = name) outline)) \<and>
    concat (map (chain_rule name) (map ch_object built)) = []"
  using assms
  by (induction rule: list_all2_induct) (simp_all add: is_chain_def chain_rules_chain chain_rule_none)

lemma rule_exprs_rendered:
  assumes "render_nft_document X D active pending guard = Some doc"
  shows "rule_exprs doc name =
    concat (map snd (filter (\<lambda>p. fst p = name) (outline_of X D active pending guard)))"
proof -
  from rendered_chains [OF assms] obtain built where
    built: "list_all2 is_chain (outline_of X D active pending guard) built"
    and doc: "doc = seal_document D (document_objects built)" by blast
  have heads: "chain_rule name (jobj []) = []" "chain_rule name table_object = []"
    "chain_rule name (seal_object s) = []" for s
    by (rule chain_rule_none, simp add: table_object_def seal_object_def chain_regular_def)+
  show ?thesis
    using heads chain_rules_outline [OF built]
    by (simp add: rule_exprs_def doc seal_document_objects document_objects_def)
qed

text \<open>The rules an outline gives a name.\<close>

definition pick :: "(string \<times> json list list) list \<Rightarrow> string \<Rightarrow> json list list" where
  "pick outline name = concat (map snd (filter (\<lambda>p. fst p = name) outline))"

lemma pick_simps [simp]:
  "pick [] name = []" "pick (xs @ ys) name = pick xs name @ pick ys name"
  "pick ((n, ess) # xs) name = (if n = name then ess else []) @ pick xs name"
  by (simp_all add: pick_def)

lemma pick_absent: "\<forall>p \<in> set xs. fst p \<noteq> name \<Longrightarrow> pick xs name = []"
  by (simp add: pick_def filter_empty_conv)

lemma hex_08_inj [simp]: "hex_08 a = hex_08 b \<longleftrightarrow> a = b"
  by (metis option.inject parse_u32_hex_08)

lemma suffix_inj [simp]: "suffix f = suffix g \<longleftrightarrow> f = g"
  by (cases f; cases g) (simp_all add: suffix_def)

lemma selection_name_inj [simp]: "selection_name f a = selection_name g b \<longleftrightarrow> f = g \<and> a = b"
  by (cases f; cases g) (simp_all add: selection_name_def suffix_def)

lemma name_simps [simp]:
  "restore_name f = restore_name g \<longleftrightarrow> f = g"
  "restore_name f \<noteq> selection_name g m" "selection_name g m \<noteq> restore_name f"
  "state_chain_name D k \<noteq> restore_name f" "state_chain_name D k \<noteq> selection_name f m"
  "transaction_chain_name D k \<noteq> restore_name f" "transaction_chain_name D k \<noteq> selection_name f m"
  by (simp_all add: restore_name_def selection_name_def state_chain_name_def transaction_chain_name_def
      marker_name_def)

definition fixed_names :: "string set" where
  "fixed_names = {''output'', ''prerouting'', ''egress_guard'', ''source_nat'', ''guard''}"

lemma in_fixed_names [simp]:
  "''output'' \<in> fixed_names" "''egress_guard'' \<in> fixed_names" "''source_nat'' \<in> fixed_names"
  "''prerouting'' \<in> fixed_names" "''guard'' \<in> fixed_names"
  by (simp_all add: fixed_names_def)

lemma fixed_name_simps:
  "n \<in> fixed_names \<Longrightarrow> restore_name f \<noteq> n" "n \<in> fixed_names \<Longrightarrow> selection_name f m \<noteq> n"
  "n \<in> fixed_names \<Longrightarrow> state_chain_name D k \<noteq> n" "n \<in> fixed_names \<Longrightarrow> transaction_chain_name D k \<noteq> n"
  by (auto simp: fixed_names_def restore_name_def selection_name_def state_chain_name_def
      transaction_chain_name_def marker_name_def)

lemma pick_markers:
  "n \<in> fixed_names \<Longrightarrow> pick (marker_outline D active pending) n = []"
  "pick (marker_outline D active pending) (restore_name f) = []"
  "pick (marker_outline D active pending) (selection_name f m) = []"
  by (auto simp: marker_outline_def fixed_name_simps split: option.splits)

lemma pick_selections_fixed: "n \<in> fixed_names \<Longrightarrow> pick (selection_outline k) n = []"
  by (rule pick_absent) (auto simp: selection_outline_def fixed_name_simps)

lemma pick_lanes:
  "pick (map (\<lambda>l. (selection_name f (lp_mark l), g l)) ls) (selection_name f' m) =
     (if f' = f then concat (map g (filter (\<lambda>l. lp_mark l = m) ls)) else [])"
  by (induction ls) auto

lemma pick_lanes_restore:
  "pick (map (\<lambda>l. (selection_name f (lp_mark l), g l)) ls) (restore_name f') = []"
  by (rule pick_absent) auto

lemma pick_restore:
  "pick (selection_outline k) (restore_name f) = restore_rules k f"
  by (cases f) (simp_all add: selection_outline_def families_def pick_lanes_restore)

lemma filter_distinct_key:
  "distinct (map g xs) \<Longrightarrow> x \<in> set xs \<Longrightarrow> filter (\<lambda>y. g y = g x) xs = [x]"
  by (induction xs) (auto simp: filter_empty_conv image_iff)

lemma pick_select:
  assumes "distinct (map lp_mark (kp_lanes k))" "l \<in> set (kp_lanes k)"
  shows "pick (selection_outline k) (selection_name f (lp_mark l)) = select_rules l f"
  using filter_distinct_key [OF assms]
  by (cases f) (simp_all add: selection_outline_def families_def pick_lanes)

lemma pick_guard [simp]:
  "n \<noteq> ''guard'' \<Longrightarrow> pick (guard_outline X active pending guard conds) n = []"
  by (simp add: guard_outline_def)

lemma rendered_rules:
  assumes "render_nft_document X D (Some k) pending guard = Some doc"
    and "control_matches X (kp_local_networks k) = Some conds"
  shows "rule_exprs doc ''output'' = output_rules X k conds"
    and "rule_exprs doc ''egress_guard'' = egress_rules k conds"
    and "rule_exprs doc ''source_nat'' = nat_rules k"
    and "rule_exprs doc (restore_name f) = restore_rules k f"
    and "distinct (map lp_mark (kp_lanes k)) \<Longrightarrow> l \<in> set (kp_lanes k) \<Longrightarrow>
      rule_exprs doc (selection_name f (lp_mark l)) = select_rules l f"
  unfolding rule_exprs_rendered [OF assms(1)] pick_def [symmetric] outline_of_def active_outline_def
  by (simp_all add: assms(2) pick_markers pick_restore pick_select pick_selections_fixed)
     (simp_all add: restore_name_def selection_name_def)

lemma rendered_guard_rules:
  assumes "render_nft_document X D active pending True = Some doc"
    and "control_matches X (guard_networks active pending) = Some conds"
  shows "rule_exprs doc ''guard'' = guard_rules X (guard_networks active pending) conds"
  unfolding rule_exprs_rendered [OF assms(1)] pick_def [symmetric] outline_of_def active_outline_def
    guard_outline_def
  by (simp add: assms(2) pick_markers pick_selections_fixed split: option.splits)

section \<open>Blocks of rules\<close>

text \<open>Rules that start with matches and then always reach a verdict: the first that holds decides.\<close>

lemma run_first:
  assumes "\<And>x. x \<in> set xs \<Longrightarrow> list_all is_match (c x)"
    and "\<And>x. x \<in> set xs \<Longrightarrow> snd (run_rule facts m (t x)) \<noteq> None"
  shows "run_rules facts m (map (\<lambda>x. c x @ t x) xs) =
    (case find (\<lambda>x. holds facts m (c x)) xs of
       None \<Rightarrow> (m, None) | Some x \<Rightarrow> run_rule facts m (t x))"
  using assms
proof (induction xs)
  case (Cons x xs)
  obtain m' v where t: "run_rule facts m (t x) = (m', Some v)"
    using Cons.prems(2) [of x] by (cases "run_rule facts m (t x)") auto
  have "run_rule facts m (c x @ t x) = (if holds facts m (c x) then (m', Some v) else (m, None))"
    using Cons.prems(1) [of x] t by (simp add: run_rule_matches)
  with Cons show ?case by (simp add: t)
qed simp

lemma find_list_ex: "(find P xs = None) = (\<not> list_ex P xs)"
  by (induction xs) auto

lemma run_returns:
  assumes "\<And>x. x \<in> set xs \<Longrightarrow> list_all is_match (c x)"
  shows "run_rules facts m (map (\<lambda>x. c x @ [ret]) xs) =
    (m, if list_ex (\<lambda>x. holds facts m (c x)) xs then Some Return else None)"
proof -
  have "run_rules facts m (map (\<lambda>x. c x @ [ret]) xs) =
      (case find (\<lambda>x. holds facts m (c x)) xs of None \<Rightarrow> (m, None) | Some x \<Rightarrow> run_rule facts m [ret])"
    by (rule run_first) (simp_all add: assms)
  then show ?thesis
    using find_list_ex [of "\<lambda>x. holds facts m (c x)" xs] by (simp split: option.splits)
qed

lemma run_last: "list_all is_match es \<Longrightarrow> run_statement facts m s = Verdict v \<Longrightarrow>
   run_rules facts m [es @ [s]] = (m, if holds facts m es then Some v else None)"
  by (simp add: run_rule_matches)

lemma control_is_match:
  assumes "control_matches X networks = Some conds" "c \<in> set conds"
  shows "list_all is_match c"
  using assms unfolding control_matches_def
  by (auto simp: list_all_append split: option.splits)

lemma run_controls:
  assumes "control_matches X networks = Some conds"
  shows "run_rules facts m (controls conds) =
    (m, if list_ex (holds facts m) conds then Some Return else None)"
  unfolding controls_def using run_returns [where c = "\<lambda>c. c"] control_is_match [OF assms] by simp

definition unmanaged_session :: "facts \<Rightarrow> marks \<Rightarrow> bool" where
  "unmanaged_session facts m = list_ex (holds facts m) session_matches"

lemma run_sessions:
  "run_rules facts m preserve_unmanaged_sessions =
     (m, if unmanaged_session facts m then Some Return else None)"
proof -
  have "list_all is_match c" if "c \<in> set session_matches" for c
    using that by (auto simp: session_matches_def)
  then show ?thesis
    unfolding preserve_unmanaged_sessions_def unmanaged_session_def
    using run_returns [where c = "\<lambda>c. c"] by simp
qed

section \<open>Decisions on the plan\<close>

definition foreign_mark :: "u32 \<Rightarrow> bool" where
  "foreign_mark w = (w \<noteq> 0 \<and> w < MARK_BASE \<or> MARK_MAX < w)"

definition owned_mark :: "u32 \<Rightarrow> bool" where
  "owned_mark w = (MARK_BASE \<le> w \<and> w \<le> MARK_MAX)"

text \<open>A connection RouteLane marked keeps its lane while the lane is ready in its family.\<close>

definition restored :: "'n kernel_plan \<Rightarrow> ip_family \<Rightarrow> marks \<Rightarrow> marks \<times> fate" where
  "restored k f m =
     (if list_ex (\<lambda>l. ready l f \<and> lp_mark l = mk_ct m) (kp_lanes k)
      then (m\<lparr>mk_meta := mk_ct m\<rparr>, Accepted) else (m, Rejected))"

definition new_flow :: "facts \<Rightarrow> bool" where
  "new_flow facts \<longleftrightarrow> facts (ct ''state'') ''in'' (JString ''new'') \<and>
     facts (ct ''direction'') ''=='' (JString ''original'')"

text \<open>A packet sent to a lane by its mark; no mark means the traffic is to be blocked.\<close>

definition sent :: "facts \<Rightarrow> 'n kernel_plan \<Rightarrow> ip_family \<Rightarrow> u32 option \<Rightarrow> marks \<Rightarrow> marks \<times> fate" where
  "sent facts k f target m =
     (case option_bind target (\<lambda>w. find (\<lambda>l. lp_mark l = w) (kp_lanes k)) of
        None \<Rightarrow> (m, Rejected)
      | Some l \<Rightarrow>
          if mk_ct m \<noteq> 0 then restored k f m
          else if unmanaged_session facts m then (m, Accepted)
          else if ready l f \<and> new_flow facts
          then (\<lparr>mk_meta = lp_mark l, mk_ct = lp_mark l\<rparr>, Accepted)
          else (m, Rejected))"

definition packet_family :: "facts \<Rightarrow> ip_family option" where
  "packet_family facts = find (\<lambda>f. holds facts \<lparr>mk_meta = 0, mk_ct = 0\<rparr> [family f]) families"

definition local_destination :: "'n foreign \<Rightarrow> facts \<Rightarrow> 'n list \<Rightarrow> marks \<Rightarrow> bool" where
  "local_destination X facts networks m = list_ex (\<lambda>n. holds facts m [destination X n]) networks"

definition output_decision ::
  "'n foreign \<Rightarrow> facts \<Rightarrow> 'n kernel_plan \<Rightarrow> json list list \<Rightarrow> marks \<Rightarrow> marks \<times> fate"
where
  "output_decision X facts k conds m =
     (if list_ex (holds facts m) conds then (m, Accepted)
      else if foreign_mark (mk_meta m) \<or> foreign_mark (mk_ct m) then (m, Rejected)
      else (case find (\<lambda>c. holds facts m (rule_matches X c)) (kp_rules k) of
          Some c \<Rightarrow> sent facts k (cr_family c) (action_mark k c) m
        | None \<Rightarrow>
            (case packet_family facts of
               Some f \<Rightarrow>
                 if owned_mark (mk_ct m) then restored k f m
                 else if unmanaged_session facts m \<or> local_destination X facts (kp_local_networks k) m
                 then (m, Accepted)
                 else sent facts k f (primary_mark k f) m
             | None \<Rightarrow> (m, Accepted))))"

section \<open>Walks of the rendered chains\<close>

lemma run_restore:
  "run_rules facts m (restore_rules k f) =
     (if list_ex (\<lambda>l. ready l f \<and> lp_mark l = mk_ct m) (kp_lanes k)
      then (m\<lparr>mk_meta := mk_ct m\<rparr>, Some Return) else (m, Some Refuse))"
proof -
  let ?ls = "filter (\<lambda>l. ready l f) (kp_lanes k)"
  have h: "holds facts m [equal (ct ''mark'') (jmark w)] = (w = mk_ct m)" for w
    by (auto simp: equal_def matches_holds)
  have "run_rules facts m (map (\<lambda>l. [equal (ct ''mark'') (jmark (lp_mark l))] @
      [mangle (meta ''mark'') (ct ''mark''), ret]) ?ls) =
    (case find (\<lambda>l. lp_mark l = mk_ct m) ?ls of
       None \<Rightarrow> (m, None) | Some x \<Rightarrow> (m\<lparr>mk_meta := mk_ct m\<rparr>, Some Return))"
    by (subst run_first) (simp_all add: h split: option.split)
  moreover have "(find (\<lambda>l. lp_mark l = mk_ct m) ?ls = None) =
      (\<not> list_ex (\<lambda>l. ready l f \<and> lp_mark l = mk_ct m) (kp_lanes k))"
    by (auto simp: find_list_ex list_ex_iff)
  ultimately show ?thesis
    unfolding restore_rules_def by (auto simp: run_rules_append split: option.splits)
qed

lemma walk_restore:
  assumes "rule_exprs doc (restore_name f) = restore_rules k f"
  shows "walk g facts doc (restore_name f) m = Some (restored k f m)"
  by (simp add: walk.simps assms run_restore restored_def)

lemma run_select:
  "run_rules facts m (select_rules l f) =
     (if mk_ct m \<noteq> 0 then (m, Some (Goto (restore_name f)))
      else if unmanaged_session facts m then (m, Some Return)
      else if ready l f \<and> new_flow facts
      then (\<lparr>mk_meta = lp_mark l, mk_ct = lp_mark l\<rparr>, Some Return)
      else (m, Some Refuse))"
  by (cases m)
     (simp add: select_rules_def run_rules_append run_sessions matches_holds equal_def new_flow_def)

lemma walk_select:
  assumes "rule_exprs doc (restore_name f) = restore_rules k f"
    and "rule_exprs doc (selection_name f (lp_mark l)) = select_rules l f"
    and "find (\<lambda>l'. lp_mark l' = lp_mark l) (kp_lanes k) = Some l"
  shows "walk (Suc g) facts doc (selection_name f (lp_mark l)) m = Some (sent facts k f (Some (lp_mark l)) m)"
  by (simp add: walk.simps [of _ _ _ "selection_name f (lp_mark l)"] assms(2) run_select sent_def
      assms(3) walk_restore [OF assms(1)])

lemma sent_unknown: "find (\<lambda>l. lp_mark l = w) (kp_lanes k) = None \<Longrightarrow> sent facts k f (Some w) m = (m, Rejected)"
  by (simp add: sent_def)

lemma sent_blocked [simp]: "sent facts k f None m = (m, Rejected)"
  by (simp add: sent_def)

lemma primary_mark_lane:
  "primary_mark k f = Some w \<Longrightarrow> \<exists>l \<in> set (kp_lanes k). lp_mark l = w \<and> ready l f"
  by (auto simp: primary_mark_def split: family_exit.splits dest: find_Some_in)

lemma run_foreign_marks:
  "run_rules facts m foreign_mark_rules =
     (m, if foreign_mark (mk_meta m) \<or> foreign_mark (mk_ct m) then Some Refuse else None)"
  by (simp add: foreign_mark_rules_def matches_holds foreign_mark_def)

lemma rule_matches_is_match: "list_all is_match (rule_matches X c)"
  by (simp add: rule_matches_def split: compiled_target.split)

lemma rule_verdict_runs: "snd (run_rule facts m [counter, rule_verdict k c]) \<noteq> None"
  by (simp add: rule_verdict_def split: option.split)

lemma run_explicit:
  "run_rules facts m (map (explicit_rule X k) cs) =
     (case find (\<lambda>c. holds facts m (rule_matches X c)) cs of
        None \<Rightarrow> (m, None)
      | Some c \<Rightarrow> run_rule facts m [counter, rule_verdict k c])"
  unfolding explicit_rule_def [abs_def]
  by (rule run_first) (rule rule_matches_is_match, rule rule_verdict_runs)

lemma run_local:
  "run_rules facts m (map (\<lambda>n. [destination X n, ret]) ns) =
     (m, if local_destination X facts ns m then Some Return else None)"
  using run_returns [where c = "\<lambda>n. [destination X n]" and xs = ns] by (simp add: local_destination_def)

lemma holds_family:
  "holds facts m [family f] = facts (meta ''nfproto'') ''=='' (JString (if f = V4 then ''ipv4'' else ''ipv6''))"
  by (simp add: family_def equal_def matches_holds)

lemma holds_owned: "holds facts m (owned (ct ''mark'')) = owned_mark (mk_ct m)"
  "holds facts m (owned (meta ''mark'')) = owned_mark (mk_meta m)"
  by (simp_all add: owned_def equal_def matches_holds owned_mark_def)

lemma packet_family_holds: "packet_family facts = find (\<lambda>f. holds facts m [family f]) families"
  by (simp add: packet_family_def holds_family)

lemma run_owned:
  "run_rules facts m (map (\<lambda>f. family f # owned (ct ''mark'') @ [goto (restore_name f)]) families) =
     (m, if owned_mark (mk_ct m) then map_option (\<lambda>f. Goto (restore_name f)) (packet_family facts) else None)"
  by (simp add: packet_family_def families_def holds_family owned_def run_rule.simps
      holds_owned [unfolded owned_def])

lemma run_primary:
  "run_rules facts m (map (\<lambda>f. [family f, counter,
       (case primary_mark k f of
          Some w \<Rightarrow> goto (selection_name f w)
        | None \<Rightarrow> reject (Some f))]) families) =
     (m, map_option (\<lambda>f. case primary_mark k f of
        Some w \<Rightarrow> Goto (selection_name f w) | None \<Rightarrow> Refuse) (packet_family facts))"
  by (simp add: packet_family_def families_def holds_family split: option.split)

lemma rendered_controls:
  assumes "render_nft_document X D (Some k) pending guard = Some doc"
  obtains conds where "control_matches X (kp_local_networks k) = Some conds"
  using assms unfolding render_nft_document_def policy_chains_def by (auto split: option.splits)

lemma walk_sent:
  assumes "render_nft_document X D (Some k) pending guard = Some doc"
    and "distinct (map lp_mark (kp_lanes k))"
    and "\<exists>l \<in> set (kp_lanes k). lp_mark l = w"
  shows "walk (Suc g) facts doc (selection_name f w) m = Some (sent facts k f (Some w) m)"
proof -
  from rendered_controls [OF assms(1)] obtain conds where
    conds: "control_matches X (kp_local_networks k) = Some conds" .
  from assms(3) obtain l where l: "l \<in> set (kp_lanes k)" "lp_mark l = w" by blast
  have "find (\<lambda>l'. lp_mark l' = lp_mark l) (kp_lanes k) = Some l"
    using find_distinct_key [OF assms(2) l(1)] .
  from walk_select [OF rendered_rules(4) [OF assms(1) conds]
      rendered_rules(5) [OF assms(1) conds assms(2) l(1)] this]
  show ?thesis by (simp add: l(2))
qed

lemma run_rule_verdict [simp]:
  "run_statement facts m (rule_verdict k c) =
     Verdict (case action_mark k c of
        Some w \<Rightarrow> if list_ex (\<lambda>l. lp_mark l = w) (kp_lanes k) then Goto (selection_name (cr_family c) w)
          else Refuse
      | None \<Rightarrow> Refuse)"
  by (simp add: rule_verdict_def split: option.split)

lemma output_walk:
  assumes "render_nft_document X D (Some k) pending guard = Some doc"
    and "distinct (map lp_mark (kp_lanes k))"
    and "control_matches X (kp_local_networks k) = Some conds"
  shows "walk 2 facts doc ''output'' m = Some (output_decision X facts k conds m)"
proof -
  have two: "(2 :: nat) = Suc (Suc 0)" by simp
  have restore: "walk g facts doc (restore_name f) m = Some (restored k f m)" for g f
    using rendered_rules(4) [OF assms(1,3)] by (rule walk_restore)
  have send: "walk (Suc g) facts doc (selection_name f w) m = Some (sent facts k f (Some w) m)"
    if "list_ex (\<lambda>l. lp_mark l = w) (kp_lanes k)" for g f w
    using that by (intro walk_sent [OF assms(1,2)]) (simp add: list_ex_iff)
  have primary: "list_ex (\<lambda>l. lp_mark l = w) (kp_lanes k)" if "primary_mark k f = Some w" for f w
    using primary_mark_lane [OF that] by (auto simp: list_ex_iff)
  have blocked: "sent facts k f (Some w) m = (m, Rejected)"
    if "\<not> list_ex (\<lambda>l. lp_mark l = w) (kp_lanes k)" for f w
    using that by (intro sent_unknown) (simp add: find_list_ex)
  show ?thesis
    unfolding two walk.simps [of _ _ _ "''output''"] rendered_rules(1) [OF assms(1,3)] output_rules_def
    by (simp add: run_rules_append run_controls [OF assms(3)] run_foreign_marks run_explicit
        run_owned run_sessions run_local run_primary output_decision_def
        restore send blocked primary split: option.split)
qed

text \<open>Leaving by a lane: the packet's marks, its interface and its source are the lane's own.\<close>

definition leaves_by :: "facts \<Rightarrow> 'n kernel_plan \<Rightarrow> marks \<Rightarrow> ip_family \<Rightarrow> lane_plan \<Rightarrow> bool" where
  "leaves_by facts k m f l \<longleftrightarrow>
     ready l f \<and> mk_ct m = lp_mark l \<and> mk_meta m = lp_mark l \<and>
     facts (meta ''iif'') ''=='' (JInt 0) \<and>
     facts (meta ''oif'') ''=='' (lane_index l) \<and>
     facts (meta ''oifname'') ''=='' (JString (lp_interface l)) \<and>
     facts (ct ''direction'') ''=='' (JString ''original'') \<and>
     (case source_proof k f of None \<Rightarrow> False | Some source \<Rightarrow> holds facts m [source])"

definition leaves_by_lane :: "facts \<Rightarrow> 'n kernel_plan \<Rightarrow> marks \<Rightarrow> bool" where
  "leaves_by_lane facts k m = list_ex (\<lambda>f. list_ex (leaves_by facts k m f) (kp_lanes k)) families"

definition lane_pairs :: "'n kernel_plan \<Rightarrow> (json \<times> lane_plan) list" where
  "lane_pairs k = concat (map (\<lambda>f.
     case source_proof k f of
       None \<Rightarrow> []
     | Some source \<Rightarrow> map (Pair source) (filter (\<lambda>l. ready l f) (kp_lanes k))) families)"

lemma lane_rules_pairs: "lane_rules k rule = map (\<lambda>p. rule (fst p) (snd p)) (lane_pairs k)"
  by (simp add: lane_rules_def lane_pairs_def families_def split: option.split)

lemma source_proof_match: "source_proof k f = Some source \<Longrightarrow> is_match source"
  by (auto simp: source_proof_def split: list.splits)

lemma in_lane_pairs:
  "(source, l) \<in> set (lane_pairs k) \<longleftrightarrow>
     (\<exists>f. source_proof k f = Some source \<and> l \<in> set (kp_lanes k) \<and> ready l f)"
proof -
  have "(source, l) \<in> set (case source_proof k f of None \<Rightarrow> []
      | Some source \<Rightarrow> map (Pair source) (filter (\<lambda>l. ready l f) (kp_lanes k))) \<longleftrightarrow>
    source_proof k f = Some source \<and> l \<in> set (kp_lanes k) \<and> ready l f" for f
    by (auto split: option.splits)
  then show ?thesis by (simp add: lane_pairs_def)
qed

lemma egress_scope_match: "(source, l) \<in> set (lane_pairs k) \<Longrightarrow> list_all is_match (egress_scope source l)"
  by (auto simp: egress_scope_def in_lane_pairs dest: source_proof_match)

lemma holds_egress_scope:
  "holds facts m (egress_scope source l) \<longleftrightarrow>
     mk_ct m = lp_mark l \<and> mk_meta m = lp_mark l \<and>
     facts (meta ''iif'') ''=='' (JInt 0) \<and>
     facts (meta ''oif'') ''=='' (lane_index l) \<and>
     facts (meta ''oifname'') ''=='' (JString (lp_interface l)) \<and>
     facts (ct ''direction'') ''=='' (JString ''original'') \<and> holds facts m [source]"
  unfolding egress_scope_def equal_def by (auto simp: matches_holds)

lemma leaves_by_source:
  "leaves_by facts k m f l \<longleftrightarrow>
     (\<exists>source. source_proof k f = Some source \<and> ready l f \<and> holds facts m (egress_scope source l))"
  by (auto simp: leaves_by_def holds_egress_scope split: option.splits)

lemma scope_leaves:
  "list_ex (\<lambda>p. holds facts m (egress_scope (fst p) (snd p))) (lane_pairs k) = leaves_by_lane facts k m"
proof -
  have "(\<exists>p \<in> set (lane_pairs k). holds facts m (egress_scope (fst p) (snd p))) \<longleftrightarrow>
      (\<exists>source l. (source, l) \<in> set (lane_pairs k) \<and> holds facts m (egress_scope source l))" by force
  also have "\<dots> \<longleftrightarrow> (\<exists>f. \<exists>l \<in> set (kp_lanes k). leaves_by facts k m f l)"
    unfolding in_lane_pairs leaves_by_source by blast
  finally show ?thesis by (simp add: leaves_by_lane_def list_ex_iff)
qed

lemma run_lane_rules:
  assumes "snd (run_rule facts m t) \<noteq> None" "fst (run_rule facts m t) = m"
  shows "run_rules facts m (lane_rules k (\<lambda>source l. egress_scope source l @ t)) =
    (m, if leaves_by_lane facts k m then snd (run_rule facts m t) else None)"
proof -
  let ?scope = "\<lambda>p. egress_scope (fst p) (snd p)"
  have "run_rules facts m (map (\<lambda>p. ?scope p @ t) (lane_pairs k)) =
      (case find (\<lambda>p. holds facts m (?scope p)) (lane_pairs k) of
         None \<Rightarrow> (m, None) | Some x \<Rightarrow> run_rule facts m t)"
    by (rule run_first) (use assms(1) in \<open>auto dest: egress_scope_match\<close>)
  then show ?thesis
    using assms find_list_ex [of "\<lambda>p. holds facts m (?scope p)" "lane_pairs k"]
    unfolding lane_rules_pairs scope_leaves
    by (cases "run_rule facts m t") (auto split: option.splits)
qed

lemma egress_walk:
  assumes "render_nft_document X D (Some k) pending guard = Some doc"
    and "control_matches X (kp_local_networks k) = Some conds"
  shows "walk 0 facts doc ''egress_guard'' m =
    Some (m, if facts (meta ''iif'') ''!='' (JInt 0) \<or> list_ex (holds facts m) conds \<or>
        leaves_by_lane facts k m \<or> \<not> owned_mark (mk_meta m) then Accepted else Dropped)"
proof -
  have last: "run_rule facts m (owned (meta ''mark'') @ [jobj [(''drop'', JNull)]]) =
      (m, if owned_mark (mk_meta m) then Some Discard else None)"
    by (simp add: run_rule_matches holds_owned)
  show ?thesis
    unfolding walk.simps [of _ _ _ "''egress_guard''"] rendered_rules(2) [OF assms] egress_rules_def
    by (simp add: run_rules_append run_controls [OF assms(2)] run_lane_rules last matches_holds)
qed

lemma nat_walk:
  assumes "render_nft_document X D (Some k) pending guard = Some doc"
    and "control_matches X (kp_local_networks k) = Some conds"
  shows "walk 0 facts doc ''source_nat'' m =
    Some (m, if leaves_by_lane facts k m then Masqueraded else Accepted)"
  unfolding walk.simps [of _ _ _ "''source_nat''"] rendered_rules(3) [OF assms] nat_rules_def
  by (simp add: run_lane_rules)

lemma guard_walk:
  assumes "render_nft_document X D active pending True = Some doc"
    and "control_matches X (guard_networks active pending) = Some conds"
  shows "walk 0 facts doc ''guard'' m =
    Some (m, if list_ex (holds facts m) conds \<or>
        local_destination X facts (guard_networks active pending) m then Accepted else Rejected)"
  unfolding walk.simps [of _ _ _ "''guard''"] rendered_guard_rules [OF assms] guard_rules_def
  by (simp add: run_rules_append run_controls [OF assms(2)] run_local)

section \<open>The policy on packets\<close>

text \<open>
  C21. What the output chain does: for every plan with distinct lane marks, every rendering of it
  (with or without a pending transaction and the guard), and every outgoing packet, whatever the
  kernel says of its header, connection and destination, the walk through the rendered chains ends
  after at most two gotos with exactly the decision stated on the plan: control traffic passes;
  packets with somebody else's mark are rejected; else the first explicit rule that holds sends the
  packet to its lane or rejects it; then connections of a lane return to it, unmanaged sessions and
  local networks pass, and the rest goes to the primary exit or is rejected.
\<close>

theorem output_chain_exact:
  assumes "render_nft_document X D (Some k) pending guard = Some doc"
    and "distinct (map lp_mark (kp_lanes k))"
    and "control_matches X (kp_local_networks k) = Some conds"
  shows "walk 2 facts doc ''output'' m = Some (output_decision X facts k conds m)"
  using assms by (rule output_walk)

text \<open>
  C22. The policy fails closed: a packet the output chain accepts is either control traffic, a session
  RouteLane does not manage, local traffic or no IP traffic, and then keeps its marks; or it carries
  on packet and connection the mark of one and the same lane, which is ready in its family. Every
  other packet is rejected.
\<close>

theorem output_fails_closed:
  assumes "render_nft_document X D (Some k) pending guard = Some doc"
    and "distinct (map lp_mark (kp_lanes k))"
    and "control_matches X (kp_local_networks k) = Some conds"
    and "walk 2 facts doc ''output'' m = Some (m', Accepted)"
  shows "m' = m \<and> (list_ex (holds facts m) conds \<or> unmanaged_session facts m \<or>
      local_destination X facts (kp_local_networks k) m \<or> packet_family facts = None) \<or>
    (\<exists>l \<in> set (kp_lanes k). \<exists>f. ready l f \<and> mk_meta m' = lp_mark l \<and> mk_ct m' = lp_mark l)"
proof -
  have lane: "m' = m \<and> unmanaged_session facts m \<or>
      (\<exists>l \<in> set (kp_lanes k). \<exists>f. ready l f \<and> mk_meta m' = lp_mark l \<and> mk_ct m' = lp_mark l)"
    if "sent facts k f t m = (m', Accepted)" for f t
    using that by (auto simp: sent_def restored_def list_ex_iff option_bind_def
        split: option.splits if_splits dest!: find_Some_in)
  have restored: "\<exists>l \<in> set (kp_lanes k). \<exists>f. ready l f \<and> mk_meta m' = lp_mark l \<and> mk_ct m' = lp_mark l"
    if "restored k f m = (m', Accepted)" for f
    using that by (auto simp: restored_def list_ex_iff split: if_splits)
  have "output_decision X facts k conds m = (m', Accepted)"
    using assms(4) unfolding output_walk [OF assms(1-3)] by simp
  then show ?thesis
    unfolding output_decision_def
    by (auto split: if_split_asm option.split_asm dest!: lane restored)
qed


text \<open>
  While the guard is up, whether or not a policy is active or pending, an outgoing packet passes
  its chain only as control traffic or to a local network of the two plans; everything else is
  rejected.
\<close>

lemma guard_rejects_everything_else:
  assumes "render_nft_document X D active pending True = Some doc"
    and "control_matches X (guard_networks active pending) = Some conds"
  shows "walk 0 facts doc ''guard'' m =
    Some (m, if list_ex (holds facts m) conds \<or>
        local_destination X facts (guard_networks active pending) m then Accepted else Rejected)"
  using assms by (rule guard_walk)

section \<open>Witnesses\<close>

text \<open>The first packet of a new IPv4 connection to the internet, with no mark yet.\<close>

definition new_packet :: facts where
  "new_packet left op right \<longleftrightarrow>
     left = meta ''nfproto'' \<and> right = JString ''ipv4'' \<or>
     left = ct ''state'' \<and> right = JString ''new'' \<or>
     left = ct ''direction'' \<and> right = JString ''original''"

definition no_marks :: marks where "no_marks = \<lparr>mk_meta = 0, mk_ct = 0\<rparr>"

definition home_marks :: marks where "home_marks = \<lparr>mk_meta = 0x524c0001, mk_ct = 0x524c0001\<rparr>"

lemma demo_plan_marks: "distinct (map lp_mark (kp_lanes demo_plan))"
  by code_simp

lemma demo_decision:
  "output_decision nft_foreign new_packet demo_plan demo_controls no_marks = (home_marks, Accepted)"
  by code_simp

theorem output_chain_exact_witness:
  "walk 2 new_packet demo_document ''output'' no_marks = Some (home_marks, Accepted)"
  using output_chain_exact [OF demo_rendered demo_plan_marks demo_plan_controls, of new_packet no_marks]
  unfolding demo_decision .

theorem output_fails_closed_witness:
  "\<exists>l \<in> set (kp_lanes demo_plan). \<exists>f. ready l f \<and> mk_meta home_marks = lp_mark l \<and>
     mk_ct home_marks = lp_mark l"
proof -
  have "walk 2 new_packet demo_document ''output'' no_marks = Some (home_marks, Accepted)"
    using output_walk [OF demo_rendered demo_plan_marks demo_plan_controls, of new_packet no_marks]
    unfolding demo_decision .
  from output_fails_closed [OF demo_rendered demo_plan_marks demo_plan_controls this]
  show ?thesis by (auto simp: home_marks_def no_marks_def)
qed


lemma guard_rejects_everything_else_witness:
  "walk 0 new_packet demo_document ''guard'' no_marks = Some (no_marks, Rejected)"
proof -
  have nets: "guard_networks (Some demo_plan) None = kp_local_networks demo_plan" by code_simp
  have "\<not> list_ex (holds new_packet no_marks) demo_controls"
    "\<not> local_destination nft_foreign new_packet (kp_local_networks demo_plan) no_marks"
    by code_simp+
  then show ?thesis
    using guard_rejects_everything_else [OF demo_rendered, unfolded nets, OF demo_plan_controls,
        of new_packet no_marks]
    by simp
qed

end
