(* ===== verification/Nft_Text.thy ===== *)
theory Nft_Text
  imports Nft_Document
begin

text \<open>
  The textual form of the policy (\<open>src/src/backend/nftables.rs\<close>), written from the JSON document, and
  the JSON batches handed to \<open>nft\<close> (\<open>render_nft_command_document\<close> and its callers in
  \<open>src/src/backend/privileged.rs\<close>). The text of a JSON value (\<open>Display\<close> of \<open>serde_json::Value\<close>) is a
  parameter. The renderer walks the document with fallible accessors; the theorem says that they never
  fail on a document of this program.
\<close>

datatype table_mode = Create | Replace
datatype nft_render_error = InvalidInterfaceName | UnsupportedPolicyExpression

type_synonym json_writer = "json \<Rightarrow> string"
type_synonym 'a rendered = "(nft_render_error, 'a) result"

section \<open>Values and statements\<close>

definition text_of :: "json \<Rightarrow> string rendered" where
  "text_of v = ok_or UnsupportedPolicyExpression (as_str v)"

definition ct_direction :: "json \<Rightarrow> string" where
  "ct_direction c =
     (case jget ''dir'' c of
        None \<Rightarrow> []
      | Some d \<Rightarrow> (case as_str d of Some s \<Rightarrow> s | None \<Rightarrow> []) @ '' '')"

lemma jget_smaller: "jget k v = Some w \<Longrightarrow> size w < size v"
proof -
  assume "jget k v = Some w"
  then obtain m where v: "v = JObject m" and "(k, w) \<in> set m"
    by (cases v) (auto simp: jget_def dest: map_of_SomeD)
  from this(2) have "size w < size_list (size_prod (\<lambda>x. 0) size) m"
    by (rule size_list_estimation) simp
  with v show ?thesis by simp
qed

lemma element_smaller:
  assumes "jget k v = Some (JArray xs)" "x \<in> set xs"
  shows "size x < size v"
proof -
  have "size x \<le> size_list size xs" using assms(2) by (rule size_list_estimation') simp
  with jget_smaller [OF assms(1)] show ?thesis by simp
qed

text \<open>The two ends of a range.\<close>

definition range_ends :: "json \<Rightarrow> (json \<times> json) option" where
  "range_ends v = (case jget ''range'' v of Some (JArray [a, b]) \<Rightarrow> Some (a, b) | _ \<Rightarrow> None)"

lemma range_ends_smaller: "range_ends v = Some (a, b) \<Longrightarrow> size a < size v \<and> size b < size v"
  by (auto simp: range_ends_def element_smaller split: option.splits json.splits list.splits)

lemma try_map_cong [fundef_cong]:
  "xs = ys \<Longrightarrow> (\<And>x. x \<in> set ys \<Longrightarrow> f x = g x) \<Longrightarrow> try_map f xs = try_map g ys"
  by (induction xs arbitrary: ys) auto

function value_text :: "json_writer \<Rightarrow> json \<Rightarrow> string rendered" where
  "value_text W v =
     (if is_string v \<or> is_number v then Inr (W v)
      else case jget ''meta'' v of
        Some m \<Rightarrow> and_then (text_of (jindex m ''key'')) (\<lambda>key. Inr (''meta '' @ key))
      | None \<Rightarrow>
     (case jget ''ct'' v of
        Some c \<Rightarrow> and_then (text_of (jindex c ''key'')) (\<lambda>key. Inr (''ct '' @ ct_direction c @ key))
      | None \<Rightarrow>
     (case jget ''payload'' v of
        Some p \<Rightarrow> and_then (text_of (jindex p ''protocol'')) (\<lambda>proto.
          and_then (text_of (jindex p ''field'')) (\<lambda>fld. Inr (proto @ '' '' @ fld)))
      | None \<Rightarrow>
     (case jget ''socket'' v of
        Some s \<Rightarrow> and_then (text_of (jindex s ''key'')) (\<lambda>key.
          Inr (''socket '' @ key @ '' level '' @ W (jindex s ''level'')))
      | None \<Rightarrow>
     (case jget ''prefix'' v of
        Some p \<Rightarrow> and_then (text_of (jindex p ''addr'')) (\<lambda>addr.
          Inr (addr @ ''/'' @ W (jindex p ''len'')))
      | None \<Rightarrow>
     (case range_ends v of
        Some (a, b) \<Rightarrow> and_then (value_text W a) (\<lambda>x.
          and_then (value_text W b) (\<lambda>y. Inr (x @ ''-'' @ y)))
      | None \<Rightarrow>
     (case jget ''set'' v of
        Some elements \<Rightarrow>
          (case elements of
             JArray xs \<Rightarrow>
               and_then (try_map (value_text W) xs) (\<lambda>ts. Inr (''{ '' @ join '', '' ts @ '' }''))
           | _ \<Rightarrow> Inl UnsupportedPolicyExpression)
      | None \<Rightarrow>
          if has ''fib'' v then Inr ''fib daddr type'' else Inl UnsupportedPolicyExpression)))))))"
  by pat_completeness auto
termination
  by (relation "measure (size \<circ> snd)") (auto simp: element_smaller dest: range_ends_smaller)

declare value_text.simps [simp del]

definition statement_text :: "json_writer \<Rightarrow> json \<Rightarrow> string rendered" where
  "statement_text W v =
     (case jget ''match'' v of
        Some m \<Rightarrow> and_then (text_of (jindex m ''op'')) (\<lambda>op.
          and_then (value_text W (jindex m ''left'')) (\<lambda>left.
          and_then (value_text W (jindex m ''right'')) (\<lambda>right.
            Inr (left @ '' '' @ (if op \<in> {''=='', ''in''} then [] else op @ '' '') @ right))))
      | None \<Rightarrow>
     (case jget ''mangle'' v of
        Some m \<Rightarrow> and_then (value_text W (jindex m ''key'')) (\<lambda>key.
          and_then (value_text W (jindex m ''value'')) (\<lambda>v. Inr (key @ '' set '' @ v)))
      | None \<Rightarrow>
     (case (jget ''goto'' v, jget ''jump'' v) of
        (Some g, _) \<Rightarrow> and_then (text_of (jindex g ''target'')) (\<lambda>t. Inr (''goto '' @ t))
      | (None, Some g) \<Rightarrow> and_then (text_of (jindex g ''target'')) (\<lambda>t. Inr (''jump '' @ t))
      | (None, None) \<Rightarrow>
     (case jget ''reject'' v of
        Some r \<Rightarrow> and_then (text_of (jindex r ''type'')) (\<lambda>t.
          and_then (text_of (jindex r ''expr'')) (\<lambda>e. Inr (''reject with '' @ t @ '' type '' @ e)))
      | None \<Rightarrow>
          ok_or UnsupportedPolicyExpression
            (find (\<lambda>name. has name v) [''counter'', ''return'', ''drop'', ''masquerade''])))))"

section \<open>The ruleset\<close>

definition newline :: string where "newline = [byte 10]"

definition chain_text :: "json_writer \<Rightarrow> json \<Rightarrow> string rendered" where
  "chain_text W c =
     and_then (text_of (jindex c ''name'')) (\<lambda>name.
     and_then (if has ''hook'' c
         then and_then (text_of (jindex c ''type'')) (\<lambda>kind.
           and_then (text_of (jindex c ''hook'')) (\<lambda>hook.
             Inr ('' { type '' @ kind @ '' hook '' @ hook @ '' priority '' @ W (jindex c ''prio'') @
               ''; policy accept; }'')))
         else Inr []) (\<lambda>hooks.
       Inr (''add chain inet routelane '' @ name @ hooks @ newline)))"

definition rule_text :: "json_writer \<Rightarrow> json \<Rightarrow> string rendered" where
  "rule_text W r =
     and_then (text_of (jindex r ''chain'')) (\<lambda>name.
     and_then (ok_or UnsupportedPolicyExpression (as_array (jindex r ''expr''))) (\<lambda>es.
     and_then (try_map (statement_text W) es) (\<lambda>ts.
       Inr (''add rule inet routelane '' @ name @ concat (map (\<lambda>t. '' '' @ t) ts) @ newline))))"

definition object_text :: "json_writer \<Rightarrow> json \<Rightarrow> string rendered" where
  "object_text W obj =
     (case (jget ''chain'' obj, jget ''rule'' obj) of
        (Some c, _) \<Rightarrow> chain_text W c
      | (None, Some r) \<Rightarrow> rule_text W r
      | (None, None) \<Rightarrow> Inr [])"

definition ruleset_text :: "json_writer \<Rightarrow> table_mode \<Rightarrow> json \<Rightarrow> string rendered" where
  "ruleset_text W mode doc =
     and_then (ok_or UnsupportedPolicyExpression (as_array (jindex doc ''nftables''))) (\<lambda>objects.
     and_then (try_map (object_text W) objects) (\<lambda>ts.
       Inr ((if mode = Replace then ''delete table inet routelane'' @ newline else []) @
         ''add table inet routelane'' @ newline @ concat ts)))"

definition render_ruleset ::
  "json_writer \<Rightarrow> ('n::linorder) foreign \<Rightarrow> ('n, 'h) digests \<Rightarrow> 'n kernel_plan \<Rightarrow> table_mode \<Rightarrow>
     string rendered option"
where
  "render_ruleset W X D k mode =
     (if list_ex (\<lambda>l. \<not> is_kernel_interface_name (lp_interface l)) (kp_lanes k)
      then Some (Inl InvalidInterfaceName)
      else map_option (ruleset_text W mode) (render_nft_document X D (Some k) None False))"

section \<open>JSON batches\<close>

definition command_document :: "json \<Rightarrow> table_mode \<Rightarrow> (string, json) result" where
  "command_document expected mode =
     and_then (ok_or ''expected nftables document is malformed'' (nft_objects expected)) (\<lambda>objects.
       Inr (jobj [(''nftables'', JArray (
         (if mode = Replace
          then [jobj [(''delete'', jobj [(''table'',
                  jobj [(''family'', JString ''inet''), (''name'', JString ''routelane'')])])]]
          else []) @
         map (\<lambda>obj. jobj [(''add'', obj)])
           (filter (\<lambda>obj. as_object obj \<noteq> Some []) objects)))]))"

section \<open>Every rendered document has a text\<close>

definition prints :: "json_writer \<Rightarrow> json \<Rightarrow> bool" where
  "prints W v \<longleftrightarrow> (\<exists>t. value_text W v = Inr t)"

definition says :: "json_writer \<Rightarrow> json \<Rightarrow> bool" where
  "says W v \<longleftrightarrow> (\<exists>t. statement_text W v = Inr t)"

lemma try_map_total: "(\<And>x. x \<in> set xs \<Longrightarrow> \<exists>y. f x = Inr y) \<Longrightarrow> \<exists>ys. try_map f xs = Inr ys"
proof (induction xs)
  case (Cons x xs)
  then obtain y ys where "f x = Inr y" "try_map f xs = Inr ys" by fastforce
  then show ?case by simp
qed simp

lemma text_of_string [simp]: "text_of (JString s) = Inr s"
  by (simp add: text_of_def)

lemma prints_scalars [simp]: "prints W (JString s)" "prints W (JInt i)" "prints W (jmark m)"
  by (simp_all add: prints_def value_text.simps jmark_def)

lemma prints_keys [simp]: "prints W (meta key)" "prints W (ct key)" "prints W (payload p k)"
  by (simp_all add: prints_def value_text.simps [of W "jobj _"] meta_def ct_def payload_def)

lemma prints_set:
  assumes "\<forall>x \<in> set xs. prints W x"
  shows "prints W (jobj [(''set'', JArray xs)])"
proof -
  obtain ts where "try_map (value_text W) xs = Inr ts"
    using try_map_total [of xs "value_text W"] assms by (auto simp: prints_def)
  then show ?thesis
    by (simp add: prints_def value_text.simps [of W "jobj _"] range_ends_def)
qed

lemma prints_others [simp]:
  "prints W (jobj [(''range'', JArray [jmark a, jmark b])])"
  "prints W (jobj [(''fib'', j)])"
  "prints W (jobj [(''socket'', jobj [(''key'', JString key), (''level'', l)])])"
  "prints W (jobj [(''ct'', jobj [(''key'', JString key), (''dir'', d)])])"
  "prints W (network X n)"
  using prints_scalars(3) [of W a] prints_scalars(3) [of W b]
  by (auto simp: prints_def value_text.simps [of W "jobj _"] range_ends_def network_def has_def
      value_text.simps [of W "JString _"])

lemma says_match: "prints W left \<Longrightarrow> prints W right \<Longrightarrow> says W (matches left op right)"
  by (auto simp: prints_def says_def statement_text_def matches_def)

lemma says_equal: "prints W left \<Longrightarrow> prints W right \<Longrightarrow> says W (equal left right)"
  unfolding equal_def by (rule says_match)

lemma says_mangle: "prints W key \<Longrightarrow> prints W v \<Longrightarrow> says W (mangle key v)"
  by (auto simp: prints_def says_def statement_text_def mangle_def)

lemma says_verdicts [simp]:
  "says W ret" "says W (reject f)" "says W (goto n)" "says W counter"
  "says W (jobj [(''drop'', JNull)])" "says W (jobj [(''masquerade'', JNull)])"
  by (simp_all add: says_def statement_text_def ret_def reject_def goto_def counter_def has_def)

lemma says_family [simp]: "says W (family f)"
  unfolding family_def by (rule says_equal) simp_all

lemma says_destination [simp]: "says W (destination X n)"
  unfolding destination_def by (rule says_equal) simp_all

lemma says_owned: "prints W key \<Longrightarrow> s \<in> set (owned key) \<Longrightarrow> says W s"
  unfolding owned_def by (auto intro: says_equal)

lemma says_owned_marks [simp]:
  "s \<in> set (owned (ct ''mark'')) \<Longrightarrow> says W s" "s \<in> set (owned (meta ''mark'')) \<Longrightarrow> says W s"
  by (rule says_owned; simp)+

lemma says_source: "source_proof k f = Some s \<Longrightarrow> says W s"
  unfolding source_proof_def
  by (auto split: list.splits if_splits intro!: says_equal prints_set)

definition rules_say :: "json_writer \<Rightarrow> json list list \<Rightarrow> bool" where
  "rules_say W ess \<longleftrightarrow> (\<forall>es \<in> set ess. \<forall>s \<in> set es. says W s)"

lemma rules_say_simps [simp]:
  "rules_say W []" "rules_say W (es # ess) = ((\<forall>s \<in> set es. says W s) \<and> rules_say W ess)"
  "rules_say W (xs @ ys) = (rules_say W xs \<and> rules_say W ys)"
  by (auto simp: rules_say_def)

lemma rules_say_map: "(\<And>x. x \<in> set xs \<Longrightarrow> \<forall>s \<in> set (f x). says W s) \<Longrightarrow> rules_say W (map f xs)"
  by (auto simp: rules_say_def)

lemma controls_say:
  assumes "control_matches X networks = Some conds"
  shows "rules_say W (controls conds)"
proof -
  have "\<forall>s \<in> set c. says W s" if "c \<in> set conds" for c
    using assms that unfolding control_matches_def
    by (auto simp: dhcp4_def neighbour_discovery_def split: option.splits
        intro!: says_equal prints_set)
  then show ?thesis unfolding controls_def by (intro rules_say_map) auto
qed

lemma sessions_say: "rules_say W preserve_unmanaged_sessions"
  by (auto simp: preserve_unmanaged_sessions_def session_matches_def intro!: says_equal prints_set)

lemma restore_say: "rules_say W (restore_rules k f)"
  by (auto simp: restore_rules_def intro!: rules_say_map says_equal says_mangle)

lemma select_say: "rules_say W (select_rules l f)"
  by (auto simp: select_rules_def sessions_say intro!: says_match says_equal says_mangle)

lemma explicit_say: "s \<in> set (explicit_rule X k c) \<Longrightarrow> says W s"
  by (auto simp: explicit_rule_def rule_matches_def rule_verdict_def
      split: compiled_target.splits option.splits if_splits intro!: says_equal)

lemma foreign_say: "rules_say W foreign_mark_rules"
  by (auto simp: foreign_mark_rules_def intro!: says_match)

lemma output_say: "rules_say W (controls conds) \<Longrightarrow> rules_say W (output_rules X k conds)"
  by (auto simp: output_rules_def foreign_say sessions_say
      intro!: rules_say_map elim: explicit_say split: option.splits)

lemma lane_rules_say:
  assumes "\<And>f source l s. source_proof k f = Some source \<Longrightarrow> s \<in> set (rule source l) \<Longrightarrow> says W s"
  shows "rules_say W (lane_rules k rule)"
  unfolding rules_say_def lane_rules_def by (auto split: option.splits intro: assms [OF sym])

lemma reply_say: "source_proof k f = Some source \<Longrightarrow> s \<in> set (reply_rule source l) \<Longrightarrow> says W s"
  by (auto simp: reply_rule_def lane_index_def intro!: says_equal says_mangle elim: says_source)

lemma scope_say: "source_proof k f = Some source \<Longrightarrow> s \<in> set (egress_scope source l) \<Longrightarrow> says W s"
  by (auto simp: egress_scope_def lane_index_def intro!: says_equal elim: says_source)

lemma egress_say: "rules_say W (controls conds) \<Longrightarrow> rules_say W (egress_rules k conds)"
  by (auto simp: egress_rules_def intro!: says_match lane_rules_say elim: scope_say)

lemma nat_say: "rules_say W (nat_rules k)"
  by (auto simp: nat_rules_def intro!: lane_rules_say elim: scope_say)

text \<open>An object of a chain of rules that all have a text.\<close>

lemma rule_object_text:
  assumes "\<forall>s \<in> set es. says W s"
  shows "\<exists>t. object_text W (rule_object (JString n) es) = Inr t"
proof -
  obtain ts where "try_map (statement_text W) es = Inr ts"
    using try_map_total [of es "statement_text W"] assms by (auto simp: says_def)
  then show ?thesis
    by (simp add: object_text_def rule_object_def table_members_def rule_text_def)
qed

definition chain_prints :: "json_writer \<Rightarrow> chain \<Rightarrow> bool" where
  "chain_prints W c \<longleftrightarrow>
     (\<forall>obj \<in> insert (ch_object c) (set (ch_rules c)). \<exists>t. object_text W obj = Inr t)"

lemma chain_object_text:
  "\<exists>t. object_text W (ch_object (chain_regular n)) = Inr t"
  "\<exists>t. object_text W (ch_object (chain_base n kind h p)) = Inr t"
  by (simp_all add: object_text_def chain_regular_def chain_base_def chain_text_def table_members_def has_def)

lemma chain_prints_new:
  "rules_say W ess \<Longrightarrow> chain_prints W (add_rules ess (chain_regular n))"
  "rules_say W ess \<Longrightarrow> chain_prints W (add_rules ess (chain_base n kind h p))"
  "chain_prints W (chain_regular n)"
  using chain_object_text rule_object_text
  by (auto simp: chain_prints_def add_rules_def rules_say_def chain_regular_def chain_base_def
      chain_name_def table_members_def)

lemma active_chains_print:
  assumes "control_matches X (kp_local_networks k) = Some conds" "c \<in> set (active_chains X k conds)"
  shows "chain_prints W c"
  using assms(2) controls_say [OF assms(1)]
  unfolding active_chains_def selection_chains_def
  by (auto intro!: chain_prints_new restore_say select_say output_say lane_rules_say egress_say nat_say
      elim: reply_say)

lemma policy_chains_print:
  assumes "policy_chains X D (Some k) None False = Some built"
  shows "\<forall>c \<in> set built. chain_prints W c"
  using assms unfolding policy_chains_def marker_chains_def
  by (auto simp: chain_prints_new split: option.splits elim: active_chains_print)

lemma document_text:
  assumes "\<forall>c \<in> set built. chain_prints W c"
  shows "\<exists>t. ruleset_text W mode (seal_document D (document_objects built)) = Inr t"
proof -
  let ?objs = "take 2 (document_objects built) @ [seal_object (content_seal D (document_objects built))] @
    drop 2 (document_objects built)"
  have "object_text W (jobj []) = Inr []" "object_text W table_object = Inr []"
    by (simp_all add: object_text_def table_object_def)
  then have "\<exists>t. object_text W obj = Inr t" if "obj \<in> set ?objs" for obj
    using that assms chain_object_text(1)
    by (auto simp: document_objects_def chain_prints_def seal_object_def)
  then obtain ts where "try_map (object_text W) ?objs = Inr ts" using try_map_total by metis
  then show ?thesis by (simp add: ruleset_text_def seal_document_def)
qed

text \<open>
  The textual renderer is total on the program's own documents: for every plan and either table
  mode it refuses exactly the plans with an interface name the kernel could not have, and with the
  error that says so; "unsupported internal policy expression" is never its answer.
\<close>

lemma text_renderer_total:
  assumes "render_nft_document X D (Some k) None False \<noteq> None"
  shows "\<exists>r. render_ruleset W X D k mode = Some r \<and> r \<noteq> Inl UnsupportedPolicyExpression \<and>
    (r = Inl InvalidInterfaceName \<longleftrightarrow>
       (\<exists>l \<in> set (kp_lanes k). \<not> is_kernel_interface_name (lp_interface l)))"
proof -
  from assms obtain built where built: "policy_chains X D (Some k) None False = Some built"
    unfolding render_nft_document_def by blast
  obtain t where "ruleset_text W mode (seal_document D (document_objects built)) = Inr t"
    using document_text [OF policy_chains_print [OF built]] by blast
  then show ?thesis
    by (auto simp: render_ruleset_def render_nft_document_def built list_ex_iff)
qed

lemma text_renderer_total_witness:
  "\<exists>r. render_ruleset (\<lambda>_. []) nft_foreign demo_digests demo_plan Replace = Some r \<and>
     r \<noteq> Inl UnsupportedPolicyExpression"
proof -
  have "render_nft_document nft_foreign demo_digests (Some demo_plan) None False \<noteq> None"
    using nft_control_matches
    by (simp add: render_nft_document_def policy_chains_def split: option.split)
  from text_renderer_total [OF this] show ?thesis by blast
qed

end
