(* ===== verification/Live_State.thy ===== *)
theory Live_State
  imports Crash_Model Interface_Settings Transaction Nft_Text
begin

text \<open>
  What the privileged helper reads back from the kernel before it trusts or touches anything
  (\<open>src/src/backend/privileged.rs\<close>): the snapshot, the live ownership of the reserved tables and
  priorities, the live nftables table and its fingerprint, and the routing steps, which look before
  they remove. The lemmas say what an accepted reading excludes: every entry of the reserved ranges
  is of exactly the form RouteLane installs, and none is left out of the result.
\<close>

section \<open>The helper's surroundings\<close>

text \<open>
  Everything the helper reaches outside the repository: the command executor, the process runner that
  topology queries use directly, \<open>serde_json\<close> as reader and writer, \<open>ipnet\<close>, and \<open>blake3\<close> over the
  serialized plan, nftables document, routing ownership and crash model. Texts of errors that come from
  the standard library or from \<open>{:?}\<close> of a string are parameters too.
\<close>

record ('w, 'n, 'h) system =
  sy_execute :: "'w executor"
  sy_process :: "'w run_process"
  sy_json :: json_reader
  sy_write :: json_writer
  sy_foreign :: "'n foreign"
  sy_digests :: "('n, 'h) digests"
  sy_routing_digest :: "routing_ownership \<Rightarrow> string"
  sy_model_digest :: "'h option \<Rightarrow> 'h \<Rightarrow> string"
  sy_snapshot_text :: "snapshot_parse_error \<Rightarrow> string"
  sy_debug :: "string \<Rightarrow> string"

definition json_bytes :: "('w, 'n, 'h) system \<Rightarrow> string \<Rightarrow> json option" where
  "json_bytes Y bytes = (case jc_read (sy_json Y) bytes of Inl _ \<Rightarrow> None | Inr j \<Rightarrow> Some j)"

text \<open>Decoding into \<open>serde_json::Value\<close>: maps keep one member per key, the last.\<close>

fun value_of :: "json \<Rightarrow> json" where
  "value_of (JArray xs) = JArray (map value_of xs)"
| "value_of (JObject ms) = jobj (map (\<lambda>(k, v). (k, value_of v)) ms)"
| "value_of j = j"

fun de_values :: "json \<Rightarrow> json list option" where
  "de_values (JArray xs) = Some (map value_of xs)"
| "de_values _ = None"

definition read_values :: "json_reader \<Rightarrow> string \<Rightarrow> (string, json list) result" where
  "read_values C bytes = from_slice C ''Vec<Value>'' de_values bytes"

definition read_value :: "json_reader \<Rightarrow> string \<Rightarrow> (string, json) result" where
  "read_value C bytes = from_slice C ''Value'' (\<lambda>j. Some (value_of j)) bytes"

section \<open>The snapshot\<close>

record ('n, 'h) captured_snapshot =
  cp_snapshot :: "('n, 'h) kernel_snapshot"
  cp_ipv4_rules :: string
  cp_ipv6_rules :: string
  cp_ipv4_routes :: string
  cp_ipv6_routes :: string

definition list_tables_command :: command_spec where
  "list_tables_command = \<lparr>cs_program = ProgNft, cs_family = None,
     cs_args = [''-j'', ''list'', ''tables''], cs_stdin = None\<rparr>"

definition capture_snapshot ::
  "('w, 'n, 'h) system \<Rightarrow> ('w, ('n, 'h) captured_snapshot) io"
where
  "capture_snapshot Y =
     (let E = sy_execute Y; commands = build_snapshot_commands in
      io_bind (run_required E (sc_ipv4_routes commands) ''inspect IPv4 routing tables'') (\<lambda>r4.
      io_bind (run_required E (sc_ipv6_routes commands) ''inspect IPv6 routing tables'') (\<lambda>r6.
      io_bind (run_required E (sc_ipv4_rules commands) ''inspect IPv4 policy rules'') (\<lambda>u4.
      io_bind (run_required E (sc_ipv6_rules commands) ''inspect IPv6 policy rules'') (\<lambda>u6.
      io_bind (run_required E list_tables_command ''inspect nftables tables'') (\<lambda>nft.
      io_bind (io_lift (map_err (sy_snapshot_text Y) (parse_snapshot (json_bytes Y)
        \<lparr>si_ipv4_routes = r4, si_ipv6_routes = r6, si_ipv4_rules = u4, si_ipv6_rules = u6,
          si_nft = nft\<rparr>))) (\<lambda>s.
        io_return \<lparr>cp_snapshot = s, cp_ipv4_rules = u4, cp_ipv6_rules = u6,
          cp_ipv4_routes = r4, cp_ipv6_routes = r6\<rparr>)))))))"

definition table_present :: "('n, 'h) captured_snapshot \<Rightarrow> bool" where
  "table_present c = has_nft_table (cp_snapshot c) ''inet'' ''routelane''"

section \<open>Live ownership\<close>

definition u64_to_u32 :: "int \<Rightarrow> u32 option" where
  "u64_to_u32 i = (if i < 2 ^ 32 then Some (of_int i) else None)"

fun json_u32 :: "json option \<Rightarrow> u32 option" where
  "json_u32 (Some (JInt i)) = option_bind (as_u64 (JInt i)) u64_to_u32"
| "json_u32 (Some (JString s)) = parse_u32 s"
| "json_u32 _ = None"

definition absent_or_exact_string :: "json option \<Rightarrow> string \<Rightarrow> bool" where
  "absent_or_exact_string v expected = is_none_or v (\<lambda>j. as_str j = Some expected)"

definition absent_or_exact_route_enum :: "json option \<Rightarrow> string \<Rightarrow> u32 \<Rightarrow> bool" where
  "absent_or_exact_route_enum v name n =
     is_none_or v (\<lambda>j.
       (case as_str j of Some s \<Rightarrow> route_enum_matches s name n | None \<Rightarrow> False) \<or>
       as_u64 j = Some (uint n))"

definition route_scope_is_exact :: "json option \<Rightarrow> bool \<Rightarrow> bool" where
  "route_scope_is_exact v gatewayless =
     is_none_or v (\<lambda>j. absent_or_exact_route_enum (Some j) ''global'' 0 \<or>
       gatewayless \<and> absent_or_exact_route_enum (Some j) ''link'' 253)"

definition absent_or_exact_u32 :: "json option \<Rightarrow> u32 \<Rightarrow> bool" where
  "absent_or_exact_u32 v expected = is_none_or v (\<lambda>j. json_u32 (Some j) = Some expected)"

definition absent_or_empty_array :: "json option \<Rightarrow> bool" where
  "absent_or_empty_array v = is_none_or v (\<lambda>j. as_array j = Some [])"

definition parse_u32_text :: "string \<Rightarrow> u32 option" where
  "parse_u32_text v =
     (case strip_prefix ''0x'' v of
        Some hex \<Rightarrow> parse_u32_hex hex
      | None \<Rightarrow>
          (case strip_prefix ''0X'' v of
             Some hex \<Rightarrow> parse_u32_hex hex
           | None \<Rightarrow> parse_u32 v))"

fun parse_exact_mark :: "json \<Rightarrow> u32 option" where
  "parse_exact_mark (JInt i) = option_bind (as_u64 (JInt i)) u64_to_u32"
| "parse_exact_mark (JString s) =
     (let (mark, mask) = (case split_once (CHR ''/'') s of
            None \<Rightarrow> (s, None)
          | Some (m, w) \<Rightarrow> (m, Some w))
      in if (case mask of None \<Rightarrow> False | Some w \<Rightarrow> parse_u32_text w \<noteq> Some (- 1)) then None
         else parse_u32_text mark)"
| "parse_exact_mark _ = None"

definition terminal_is_exact :: "json \<Rightarrow> u8 \<Rightarrow> bool" where
  "terminal_is_exact route f =
     (option_bind (jget ''dst'' route) as_str = Some ''default'' \<and>
      json_u32 (jget ''metric'' route) = Some TERMINAL_ROUTE_METRIC \<and>
      jget ''gateway'' route = None \<and>
      (if f = 4 then jget ''dev'' route = None
       else absent_or_exact_string (jget ''dev'' route) ''lo'') \<and>
      is_none_or (jget ''protocol'' route) (\<lambda>j. as_str j \<in> {Some ''boot'', Some ''3''}) \<and>
      is_none_or (jget ''scope'' route) (\<lambda>j. as_str j \<in> {Some ''global'', Some ''0''}) \<and>
      jget ''prefsrc'' route = None \<and>
      absent_or_empty_array (jget ''flags'' route) \<and>
      \<not> (f = 4 \<and> jget ''pref'' route \<noteq> None) \<and>
      \<not> (f = 6 \<and> \<not> absent_or_exact_string (jget ''pref'' route) ''medium''))"

definition live_terminal_route :: "json \<Rightarrow> u8 \<Rightarrow> u32 \<Rightarrow> (string, route_ownership) result" where
  "live_terminal_route route f table =
     (if terminal_is_exact route f
      then Inr \<lparr>ro_family = f, ro_table = table, ro_gateway = None, ro_interface = [],
        ro_terminal = True\<rparr>
      else Inl ''live RouteLane terminal route has foreign semantics'')"

definition unicast_flags_are_owned :: "json option \<Rightarrow> bool" where
  "unicast_flags_are_owned flags =
     is_none_or flags (\<lambda>j. case as_array j of
         None \<Rightarrow> False
       | Some xs \<Rightarrow> xs = [] \<or> xs = [JString ''linkdown''])"

definition gateway_text :: "json \<Rightarrow> string option" where
  "gateway_text route = option_bind (jget ''gateway'' route) as_str"

definition unicast_is_exact :: "json \<Rightarrow> u8 \<Rightarrow> bool" where
  "unicast_is_exact route f =
     (option_bind (jget ''dst'' route) as_str = Some ''default'' \<and>
      absent_or_exact_route_enum (jget ''type'' route) ''unicast'' 1 \<and>
      absent_or_exact_u32 (jget ''metric'' route) (if f = 4 then 0 else 1024) \<and>
      absent_or_exact_route_enum (jget ''protocol'' route) ''boot'' 3 \<and>
      route_scope_is_exact (jget ''scope'' route) (gateway_text route = None) \<and>
      jget ''prefsrc'' route = None \<and>
      unicast_flags_are_owned (jget ''flags'' route) \<and>
      \<not> (f = 4 \<and> jget ''pref'' route \<noteq> None) \<and>
      \<not> (f = 6 \<and> \<not> absent_or_exact_string (jget ''pref'' route) ''medium''))"

definition live_unicast_route :: "json \<Rightarrow> u8 \<Rightarrow> u32 \<Rightarrow> (string, route_ownership) result" where
  "live_unicast_route route f table =
     (if \<not> unicast_is_exact route f
      then Inl ''live RouteLane routing-table entry has foreign semantics''
      else and_then (ok_or ''live RouteLane route is missing its interface''
          (option_bind (jget ''dev'' route) as_str)) (\<lambda>dev.
        Inr \<lparr>ro_family = f, ro_table = table, ro_gateway = gateway_text route,
          ro_interface = dev, ro_terminal = False\<rparr>))"

text \<open>Both loops: skip what is outside the reserved range, refuse foreign members and duplicates.\<close>

definition in_tables :: "u32 \<Rightarrow> bool" where
  "in_tables table \<longleftrightarrow> TABLE_BASE \<le> table \<and> table \<le> TABLE_MAX"

definition in_priorities :: "u32 \<Rightarrow> bool" where
  "in_priorities priority \<longleftrightarrow> RULE_PRIORITY_BASE \<le> priority \<and> priority \<le> RULE_PRIORITY_MAX"

definition route_members :: "string list" where
  "route_members = [''type'', ''dst'', ''gateway'', ''dev'', ''table'', ''metric'', ''protocol'',
     ''scope'', ''prefsrc'', ''flags'', ''pref'']"

definition is_terminal_kind :: "json \<Rightarrow> bool" where
  "is_terminal_kind route \<longleftrightarrow>
     option_bind (jget ''type'' route) as_str \<in> {Some ''unreachable'', Some ''7''}"

definition collect_route ::
  "u8 \<Rightarrow> routing_ownership \<Rightarrow> json \<Rightarrow> (string, routing_ownership) result"
where
  "collect_route f s route =
     (case json_u32 (jget ''table'' route) of
        None \<Rightarrow> Inr s
      | Some table \<Rightarrow>
          if \<not> in_tables table then Inr s
          else (case as_object route of
              None \<Rightarrow> Inl ''live RouteLane routing-table entry is not an object''
            | Some ms \<Rightarrow>
                if list_ex (\<lambda>(k, _). k \<notin> set route_members) ms
                then Inl ''live RouteLane routing-table entry has foreign semantics''
                else and_then (if is_terminal_kind route then live_terminal_route route f table
                       else live_unicast_route route f table) (\<lambda>r.
                  if r \<in> own_routes s then Inl ''live RouteLane routing-table entry is duplicated''
                  else Inr (s\<lparr>own_routes := insert r (own_routes s)\<rparr>))))"

definition collect_live_routes ::
  "json_reader \<Rightarrow> string \<Rightarrow> u8 \<Rightarrow> routing_ownership \<Rightarrow> (string, routing_ownership) result"
where
  "collect_live_routes C bytes f s =
     and_then (map_err (\<lambda>e. ''invalid live route JSON: '' @ e) (read_values C bytes))
       (try_fold (collect_route f) s)"

definition rule_members :: "string list" where
  "rule_members = [''priority'', ''table'', ''fwmark'', ''mark'', ''src'', ''dst'']"

definition collect_rule ::
  "u8 \<Rightarrow> routing_ownership \<Rightarrow> json \<Rightarrow> (string, routing_ownership) result"
where
  "collect_rule f s rule =
     (case json_u32 (jget ''priority'' rule) of
        None \<Rightarrow> Inr s
      | Some priority \<Rightarrow>
          if \<not> in_priorities priority then Inr s
          else (case as_object rule of
              None \<Rightarrow> Inl ''live RouteLane policy-rule entry is not an object''
            | Some ms \<Rightarrow>
                if list_ex (\<lambda>(k, _). k \<notin> set rule_members) ms \<or>
                   \<not> absent_or_exact_string (jget ''src'' rule) ''all'' \<or>
                   \<not> absent_or_exact_string (jget ''dst'' rule) ''all''
                then Inl ''live RouteLane policy-rule entry has foreign semantics''
                else and_then (ok_or ''live RouteLane policy rule is missing its table''
                    (json_u32 (jget ''table'' rule))) (\<lambda>table.
                  and_then (ok_or ''live RouteLane policy rule is missing its mark''
                    (option_bind (case jget ''fwmark'' rule of Some m \<Rightarrow> Some m | None \<Rightarrow> jget ''mark'' rule)
                       parse_exact_mark)) (\<lambda>mark.
                  let r = \<lparr>uo_family = f, uo_priority = priority, uo_table = table, uo_mark = mark\<rparr> in
                  if r \<in> own_rules s then Inl ''live RouteLane policy-rule entry is duplicated''
                  else Inr (s\<lparr>own_rules := insert r (own_rules s)\<rparr>)))))"

definition collect_live_rules ::
  "json_reader \<Rightarrow> string \<Rightarrow> u8 \<Rightarrow> routing_ownership \<Rightarrow> (string, routing_ownership) result"
where
  "collect_live_rules C bytes f s =
     and_then (map_err (\<lambda>e. ''invalid live policy-rule JSON: '' @ e) (read_values C bytes))
       (try_fold (collect_rule f) s)"

definition live_routing_ownership ::
  "json_reader \<Rightarrow> ('n, 'h) captured_snapshot \<Rightarrow> (string, routing_ownership) result"
where
  "live_routing_ownership C c =
     and_then (collect_live_routes C (cp_ipv4_routes c) 4 empty_ownership) (\<lambda>s.
     and_then (collect_live_routes C (cp_ipv6_routes c) 6 s) (\<lambda>s.
     and_then (collect_live_rules C (cp_ipv4_rules c) 4 s) (\<lambda>s.
       collect_live_rules C (cp_ipv6_rules c) 6 s)))"

definition linkdown_in :: "json_reader \<Rightarrow> u8 \<Rightarrow> string \<Rightarrow> (u8 \<times> u32) set" where
  "linkdown_in C f bytes =
     (case read_values C bytes of
        Inl _ \<Rightarrow> {}
      | Inr routes \<Rightarrow> set (List.map_filter (\<lambda>route.
          option_bind (json_u32 (jget ''table'' route)) (\<lambda>table.
            if option_bind (jget ''flags'' route) as_array = Some [JString ''linkdown''] \<and> in_tables table
            then Some (f, table) else None)) routes))"

definition linkdown_unicast :: "json_reader \<Rightarrow> ('n, 'h) captured_snapshot \<Rightarrow> (u8 \<times> u32) set" where
  "linkdown_unicast C c = linkdown_in C 4 (cp_ipv4_routes c) \<union> linkdown_in C 6 (cp_ipv6_routes c)"

definition captured_plan_present ::
  "json_reader \<Rightarrow> ('n, 'h) captured_snapshot \<Rightarrow> 'n kernel_plan \<Rightarrow> (string, bool) result"
where
  "captured_plan_present C c k =
     (if \<not> table_present c then Inr False
      else and_then (live_routing_ownership C c) (\<lambda>live.
        Inr (routing_ownership_is_subset (plan_routing_ownership (kp_lanes k)) live)))"

section \<open>The live table\<close>

definition list_table_command :: command_spec where
  "list_table_command = \<lparr>cs_program = ProgNft, cs_family = None,
     cs_args = [''-j'', ''list'', ''table'', ''inet'', ''routelane''], cs_stdin = None\<rparr>"

definition read_nft_table_once :: "('w, 'n, 'h) system \<Rightarrow> ('w, json) io" where
  "read_nft_table_once Y =
     io_bind (run_required (sy_execute Y) list_table_command ''inspect exact RouteLane nftables table'')
       (\<lambda>out. io_lift (map_err (\<lambda>e. ''invalid nftables table JSON: '' @ e) (read_value (sy_json Y) out)))"

definition read_nft_link_bindings ::
  "('w, 'n::linorder, 'h) system \<Rightarrow> ('w, (string, interface_identity) btree) io"
where
  "read_nft_link_bindings Y =
     io_bind (run_topology_query (sy_process Y) QueryLinks) (\<lambda>links.
     io_bind (io_lift (map_err topology_message
         (parse_topology (sy_json Y) (sy_foreign Y) (links_only links)))) (\<lambda>t.
       io_return (interface_identities t)))"

definition read_nft_table :: "('w, 'n::linorder, 'h) system \<Rightarrow> ('w, json) io" where
  "read_nft_table Y =
     io_bind (read_nft_table_once Y) (\<lambda>doc.
       if \<not> has_symbolic_ifindices doc then io_return doc
       else
         io_bind (read_nft_link_bindings Y) (\<lambda>before.
         io_bind (read_nft_table_once Y) (\<lambda>doc.
         io_bind (read_nft_link_bindings Y) (\<lambda>after.
           if before \<noteq> after
           then io_fail (''interface identities changed during exact nft ownership inspection; '' @
             ''retry with fresh topology'')
           else io_lift (resolve_dump_ifindices before doc)))))"

definition is_owned_chain :: "string \<Rightarrow> json \<Rightarrow> bool" where
  "is_owned_chain expected obj =
     (let member = (\<lambda>k. option_bind (option_bind (jget ''chain'' obj) (jget k)) as_str) in
      member ''family'' = Some ''inet'' \<and> member ''table'' = Some ''routelane'' \<and>
      member ''name'' = Some expected)"

definition nft_chain_present :: "('w, 'n::linorder, 'h) system \<Rightarrow> string \<Rightarrow> ('w, bool) io" where
  "nft_chain_present Y expected =
     io_bind (read_nft_table Y) (\<lambda>doc.
       io_return (case nft_objects doc of
           None \<Rightarrow> False
         | Some objects \<Rightarrow> list_ex (is_owned_chain expected) objects))"

definition nft_marker_present :: "('w, 'n::linorder, 'h) system \<Rightarrow> 'n kernel_plan \<Rightarrow> ('w, bool) io" where
  "nft_marker_present Y k = nft_chain_present Y (state_chain_name (sy_digests Y) k)"

definition nft_document_fingerprint :: "('w, 'n, 'h) system \<Rightarrow> json \<Rightarrow> string" where
  "nft_document_fingerprint Y doc = dg_policy (sy_digests Y) (normalize_nft_document doc)"

definition live_nft_fingerprint :: "('w, 'n::linorder, 'h) system \<Rightarrow> ('w, string) io" where
  "live_nft_fingerprint Y =
     io_bind (read_nft_table Y) (\<lambda>doc. io_return (nft_document_fingerprint Y doc))"

section \<open>Routing steps\<close>

definition show_routes :: "ip_family \<Rightarrow> command_spec" where
  "show_routes f = ip_command f [''-j'', ''-N'', ''route'', ''show'', ''table'', ''all'']"

definition show_rules :: "ip_family \<Rightarrow> command_spec" where
  "show_rules f = ip_command f [''-j'', ''-N'', ''rule'', ''show'']"

definition live_family_ownership ::
  "('w, 'n, 'h) system \<Rightarrow> ip_family \<Rightarrow> ('w, routing_ownership) io"
where
  "live_family_ownership Y f =
     io_bind (run_required (sy_execute Y) (show_routes f) ''inspect RouteLane routes'') (\<lambda>routes.
     io_bind (run_required (sy_execute Y) (show_rules f) ''inspect RouteLane policy rules'') (\<lambda>rules.
       io_lift (and_then
         (collect_live_routes (sy_json Y) routes (family_number f) empty_ownership)
         (collect_live_rules (sy_json Y) rules (family_number f)))))"

definition route_table_present :: "json_reader \<Rightarrow> string \<Rightarrow> u32 \<Rightarrow> (string, bool) result" where
  "route_table_present C bytes table =
     and_then (map_err (\<lambda>e. ''invalid route JSON: '' @ e) (read_values C bytes)) (\<lambda>routes.
       Inr (list_ex (\<lambda>route. json_u32 (jget ''table'' route) = Some table) routes))"

fun step_present :: "('w, 'n, 'h) system \<Rightarrow> routing_step \<Rightarrow> ('w, bool) io" where
  "step_present Y (DeleteRoute f table route) =
     io_bind (live_family_ownership Y f) (\<lambda>s.
       io_return (route_ownership_of f table route \<in> own_routes s))"
| "step_present Y (DeleteRule f priority table mark) =
     io_bind (live_family_ownership Y f) (\<lambda>s.
       io_return (rule_ownership_of f priority table mark \<in> own_rules s))"
| "step_present Y (FlushTable f table) =
     io_bind (run_required (sy_execute Y) (show_routes f) ''inspect RouteLane routing table'')
       (\<lambda>routes. io_lift (route_table_present (sy_json Y) routes table))"
| "step_present Y _ = io_return True"

definition run_routing_step ::
  "('w, 'n, 'h) system \<Rightarrow> string \<Rightarrow> routing_step \<Rightarrow> ('w, unit) io"
where
  "run_routing_step Y context step =
     io_bind (step_present Y step) (\<lambda>present.
       if present
       then io_bind (run_required (sy_execute Y) (step_command step) context) (\<lambda>_. io_return ())
       else io_return ())"

text \<open>
  The rollback of the policy rules: each rule is removed at most three times, and must be gone after.
  The \<open>unreachable!\<close> arm has no case: \<open>rollback_rule_order\<close> yields rule removals.
\<close>

fun remove_loop :: "('w, 'n, 'h) system \<Rightarrow> nat \<Rightarrow> routing_step \<Rightarrow> ('w, unit) io" where
  "remove_loop Y 0 step = io_return ()"
| "remove_loop Y (Suc n) step =
     io_bind (step_present Y step) (\<lambda>present.
       if \<not> present then io_return ()
       else io_bind (run_required (sy_execute Y) (step_command step)
           ''remove RouteLane policy rule during rollback'') (\<lambda>_. remove_loop Y n step))"

definition remove_rule :: "('w, 'n, 'h) system \<Rightarrow> routing_step \<Rightarrow> ('w, unit) io" where
  "remove_rule Y step =
     io_seq (remove_loop Y 3 step)
       (io_bind (step_present Y step) (\<lambda>present.
         io_guard (\<not> present) ''too many duplicate RouteLane policy rules during rollback''))"

definition remove_plan_policy_rules ::
  "('w, 'n, 'h) system \<Rightarrow> lane_plan list list \<Rightarrow> ('w, unit) io"
where
  "remove_plan_policy_rules Y plans = io_each (remove_rule Y) (rollback_rule_order plans)"

end
