(* ===== verification/Kernel_Runner.thy ===== *)
theory Kernel_Runner
  imports Live_State
begin

text \<open>
  The kernel runner of the privileged helper (\<open>CommandKernelRunner\<close> in
  \<open>src/src/backend/privileged.rs\<close>): the operations the apply transaction asks for, as \<open>ip\<close> and
  \<open>nft\<close> commands, with the little state the runner keeps between them. The fail point that the
  \<open>root-integration\<close> build feature compiles in is left out.
\<close>

section \<open>State\<close>

record ('n, 'h) runner_state =
  rs_previous :: "('n, 'h) applied_kernel_state option"
  rs_previous_routing :: "'n kernel_plan option"
  rs_next :: "'n kernel_plan option"
  rs_table_present :: bool
  rs_guard_installed :: bool

type_synonym ('w, 'n, 'h) runner_world = "('n, 'h) runner_state \<times> 'w"

definition new_runner :: "('n, 'h) applied_kernel_state option \<Rightarrow> ('n, 'h) runner_state" where
  "new_runner previous = \<lparr>rs_previous = previous, rs_previous_routing = map_option ak_plan previous,
     rs_next = None, rs_table_present = False, rs_guard_installed = False\<rparr>"

definition with_lost_unicast ::
  "(u8 \<times> u32) set \<Rightarrow> ('n, 'h) runner_state \<Rightarrow> ('n, 'h) runner_state"
where
  "with_lost_unicast lost rs = rs\<lparr>rs_previous_routing :=
     map_option (\<lambda>state. routing_basis (ak_plan state) lost) (rs_previous rs)\<rparr>"

section \<open>Rulesets\<close>

text \<open>
  \<open>expected_nft_document\<close> panics only if \<open>ipnet\<close> does not read the three networks written in the
  program. A panic unwinds through the helper without any further operation; it appears here as
  the error \<open>panicked\<close>, and theorems that depend on the difference assume that it does not happen.
\<close>

definition panicked :: string where
  "panicked = ''internal control prefix''"

definition expected_nft_document ::
  "('w, 'n::linorder, 'h) system \<Rightarrow> 'n kernel_plan option \<Rightarrow> 'n kernel_plan option \<Rightarrow> bool \<Rightarrow>
     (string, json) result"
where
  "expected_nft_document Y active pending guard =
     ok_or panicked (render_nft_document (sy_foreign Y) (sy_digests Y) active pending guard)"

definition render_nft_command_document ::
  "('w, 'n, 'h) system \<Rightarrow> json \<Rightarrow> table_mode \<Rightarrow> (string, string) result"
where
  "render_nft_command_document Y expected mode =
     and_then (command_document expected mode) (\<lambda>j. Inr (sy_write Y j))"

definition render_owned_ruleset ::
  "('w, 'n::linorder, 'h) system \<Rightarrow> 'n kernel_plan \<Rightarrow> table_mode \<Rightarrow> bool \<Rightarrow> (string, string) result"
where
  "render_owned_ruleset Y k mode guard =
     and_then (expected_nft_document Y (Some k) None guard) (\<lambda>d. render_nft_command_document Y d mode)"

definition render_guarded_ruleset ::
  "('w, 'n::linorder, 'h) system \<Rightarrow> 'n kernel_plan \<Rightarrow> (string, string) result"
where
  "render_guarded_ruleset Y k = render_owned_ruleset Y k Replace True"

definition render_transaction_ruleset ::
  "('w, 'n::linorder, 'h) system \<Rightarrow> 'n kernel_plan option \<Rightarrow> 'n kernel_plan \<Rightarrow> table_mode \<Rightarrow>
     (string, string) result"
where
  "render_transaction_ruleset Y active pending mode =
     and_then (expected_nft_document Y active (Some pending) True)
       (\<lambda>d. render_nft_command_document Y d mode)"

definition delete_guard_batch :: string where
  "delete_guard_batch = ''flush chain inet routelane guard'' @ newline @
     ''delete chain inet routelane guard'' @ newline"

definition delete_table_batch :: string where
  "delete_table_batch = ''delete table inet routelane'' @ newline"

section \<open>Verification\<close>

definition verify_plan_basis ::
  "('w, 'n::linorder, 'h) system \<Rightarrow> 'n kernel_plan \<Rightarrow> 'n kernel_plan \<Rightarrow> ('w, unit) io"
where
  "verify_plan_basis Y k routing =
     io_bind (capture_snapshot Y) (\<lambda>c.
     io_bind (io_lift (captured_plan_present (sy_json Y) c routing)) (\<lambda>present.
     io_seq (io_guard present ''generated RouteLane route or policy resources are incomplete'')
     (io_bind (nft_marker_present Y k) (\<lambda>marked.
       io_guard marked ''generated RouteLane nftables ownership marker is not active''))))"

definition verify_plan :: "('w, 'n::linorder, 'h) system \<Rightarrow> 'n kernel_plan \<Rightarrow> ('w, unit) io" where
  "verify_plan Y k = verify_plan_basis Y k k"

section \<open>Operations\<close>

definition runner_snapshot ::
  "('w, 'n, 'h) system \<Rightarrow> (('w, 'n, 'h) runner_world, ('n, 'h) kernel_snapshot) io"
where
  "runner_snapshot Y =
     io_bind (in_world (capture_snapshot Y)) (\<lambda>c.
     io_seq (io_modify (rs_table_present_update (\<lambda>_. table_present c)))
       (io_return (cp_snapshot c)))"

definition runner_install_guard ::
  "('w, 'n::linorder, 'h) system \<Rightarrow> 'n kernel_plan \<Rightarrow> (('w, 'n, 'h) runner_world, unit) io"
where
  "runner_install_guard Y k =
     io_seq (io_modify (rs_next_update (\<lambda>_. Some k)))
     (io_bind (io_gets (\<lambda>rs. rs)) (\<lambda>rs.
      io_bind (io_lift (render_transaction_ruleset Y (map_option ak_plan (rs_previous rs)) k
          (if rs_table_present rs then Replace else Create))) (\<lambda>batch.
      io_seq (in_world (run_nft_batch (sy_execute Y) batch ''install temporary RouteLane guard''))
        (io_modify (\<lambda>rs. rs\<lparr>rs_table_present := True, rs_guard_installed := True\<rparr>)))))"

definition runner_prepare_routes ::
  "('w, 'n, 'h) system \<Rightarrow> 'n kernel_plan \<Rightarrow> (('w, 'n, 'h) runner_world, unit) io"
where
  "runner_prepare_routes Y k =
     io_bind (io_gets rs_previous_routing) (\<lambda>previous.
       in_world (io_each (run_routing_step Y ''prepare RouteLane route or policy rule'')
         (transition_steps (map_option kp_lanes previous) (kp_lanes k))))"

definition runner_activate_nft ::
  "('w, 'n::linorder, 'h) system \<Rightarrow> 'n kernel_plan \<Rightarrow> (('w, 'n, 'h) runner_world, unit) io"
where
  "runner_activate_nft Y k =
     io_bind (io_lift (render_guarded_ruleset Y k)) (\<lambda>batch.
     io_seq (in_world (run_nft_batch (sy_execute Y) batch
         ''activate generated RouteLane nftables ruleset''))
       (io_modify (\<lambda>rs. rs\<lparr>rs_table_present := True, rs_guard_installed := True\<rparr>)))"

definition runner_remove_generation ::
  "('w, 'n, 'h) system \<Rightarrow> u64 \<Rightarrow> (('w, 'n, 'h) runner_world, unit) io"
where
  "runner_remove_generation Y generation =
     io_bind (io_gets (\<lambda>rs. rs)) (\<lambda>rs.
     io_bind (io_lift (ok_or ''previous applied generation is unavailable''
       (case rs_previous rs of
          Some state \<Rightarrow> if ak_generation state = generation then Some (ak_plan state) else None
        | None \<Rightarrow> None))) (\<lambda>previous.
     io_bind (io_lift (ok_or ''next plan is unavailable during cleanup'' (rs_next rs))) (\<lambda>next.
       let previous = (case rs_previous_routing rs of Some basis \<Rightarrow> basis | None \<Rightarrow> previous) in
       in_world (io_each (run_routing_step Y ''remove previous RouteLane route, policy rule or table'')
         (retire_steps (kp_lanes previous) (kp_lanes next))))))"

definition runner_remove_guard ::
  "('w, 'n, 'h) system \<Rightarrow> (('w, 'n, 'h) runner_world, unit) io"
where
  "runner_remove_guard Y =
     io_bind (io_gets rs_guard_installed) (\<lambda>installed.
       if \<not> installed then io_return ()
       else io_seq (in_world (run_nft_batch (sy_execute Y) delete_guard_batch
           ''remove temporary RouteLane guard''))
         (io_modify (rs_guard_installed_update (\<lambda>_. False))))"

definition runner_plans :: "('n, 'h) runner_state \<Rightarrow> 'n kernel_plan list" where
  "runner_plans rs =
     (case rs_previous rs of Some state \<Rightarrow> [ak_plan state] | None \<Rightarrow> []) @
     (case rs_next rs of Some k \<Rightarrow> [k] | None \<Rightarrow> [])"

definition restored_routing ::
  "('n, 'h) runner_state \<Rightarrow> ('n, 'h) applied_kernel_state \<Rightarrow> 'n kernel_plan"
where
  "restored_routing rs state =
     (case (rs_previous rs, rs_previous_routing rs) of
        (Some previous, Some basis) \<Rightarrow> if previous = state then basis else ak_plan state
      | _ \<Rightarrow> ak_plan state)"

definition clear_routing ::
  "('w, 'n, 'h) system \<Rightarrow> lane_plan list list \<Rightarrow> ('w, unit) io"
where
  "clear_routing Y plans =
     io_seq (remove_plan_policy_rules Y plans)
       (io_each (run_routing_step Y ''flush RouteLane table during rollback'')
         (rollback_table_order plans))"

definition clear_table ::
  "('w, 'n, 'h) system \<Rightarrow> (('w, 'n, 'h) runner_world, unit) io"
where
  "clear_table Y =
     io_bind (io_gets rs_table_present) (\<lambda>present.
       if \<not> present then io_return ()
       else io_seq (in_world (run_nft_batch (sy_execute Y) delete_table_batch
           ''clear RouteLane nftables state for rollback''))
         (io_modify (rs_table_present_update (\<lambda>_. False))))"

definition restore_state ::
  "('w, 'n::linorder, 'h) system \<Rightarrow> ('n, 'h) applied_kernel_state \<Rightarrow>
     (('w, 'n, 'h) runner_world, unit) io"
where
  "restore_state Y state =
     io_bind (io_gets (\<lambda>rs. restored_routing rs state)) (\<lambda>routing.
     io_seq (in_world (io_each (run_routing_step Y ''restore previous RouteLane route or policy rule'')
         (install_steps (kp_lanes routing))))
     (io_bind (io_lift (render_owned_ruleset Y (ak_plan state) Create False)) (\<lambda>batch.
      io_seq (in_world (run_nft_batch (sy_execute Y) batch
         ''restore previous RouteLane nftables ruleset''))
      (io_seq (io_modify (rs_table_present_update (\<lambda>_. True)))
        (in_world (verify_plan_basis Y (ak_plan state) routing))))))"

definition runner_restore ::
  "('w, 'n::linorder, 'h) system \<Rightarrow> ('n, 'h) applied_kernel_state option \<Rightarrow>
     (('w, 'n, 'h) runner_world, unit) io"
where
  "runner_restore Y state =
     io_bind (io_gets runner_plans) (\<lambda>plans.
     io_seq (in_world (clear_routing Y (map kp_lanes plans)))
     (io_seq (clear_table Y)
     (io_seq (io_modify (rs_guard_installed_update (\<lambda>_. False)))
       (case state of None \<Rightarrow> io_return () | Some state \<Rightarrow> restore_state Y state))))"

definition command_runner ::
  "('w, 'n::linorder, 'h) system \<Rightarrow> (('w, 'n, 'h) runner_world, 'n, 'h) kernel_runner"
where
  "command_runner Y = \<lparr>kr_snapshot = runner_snapshot Y, kr_install_guard = runner_install_guard Y,
     kr_prepare_routes = runner_prepare_routes Y, kr_activate_nft = runner_activate_nft Y,
     kr_verify = (\<lambda>k. in_world (verify_plan Y k)),
     kr_remove_generation = runner_remove_generation Y, kr_remove_guard = runner_remove_guard Y,
     kr_restore = runner_restore Y\<rparr>"

end
