(* ===== verification/Runtime.thy ===== *)
theory Runtime
  imports Primary Plan Effects
begin

text \<open>
  Runtime authority (\<open>src/src/backend/runtime.rs\<close>): the grant one authorization arms, the record that
  is journaled with the plan, the status reported to clients, and the facts of the kernel a grant is
  bound to. The serialized policy and its hash are \<open>serde_json\<close> and \<open>blake3\<close>, parameters.
\<close>

definition RUNTIME_PROTOCOL_VERSION :: u32 where "RUNTIME_PROTOCOL_VERSION = 2"
definition MAX_ACTIVATION_JSON_BYTES :: nat where "MAX_ACTIVATION_JSON_BYTES = 1024 * 1024"

section \<open>Grants and records\<close>

record 'n runtime_activation =
  ra_protocol_version :: u32
  ra_profile :: "'n profile"
  ra_resolutions :: "'n resolutions"
  ra_expected_generation :: u64

record 'h runtime_grant =
  rg_owner_uid :: u32
  rg_boot_id :: string
  rg_network_namespace :: u64
  rg_policy_hash :: 'h
  rg_interfaces :: "(lane_id, interface_identity) btree"

record ('n, 'h) runtime_record =
  rt_grant :: "'h runtime_grant"
  rt_profile :: "'n profile"
  rt_resolutions :: "'n resolutions"
  rt_decision :: primary_decision

datatype runtime_phase = Inactive | Armed | Switching | Degraded | NeedsReauthorization

record 'h runtime_status =
  st_grant :: "'h runtime_grant option"
  st_generation :: u64
  st_decision :: "primary_decision option"
  st_phase :: runtime_phase
  st_last_error :: "string option"
  st_failback_in_ms :: "u64 option"

definition inactive_status :: "u64 \<Rightarrow> 'h runtime_status" where
  "inactive_status generation = \<lparr>st_grant = None, st_generation = generation, st_decision = None,
     st_phase = Inactive, st_last_error = None, st_failback_in_ms = None\<rparr>"

record ('n, 'h) runtime_apply_response =
  rp_status :: "'h runtime_status"
  rp_plan :: "'n kernel_plan"
  rp_rollback_receipt :: string

record ('n, 'h) runtime_restore_receipt =
  rc_token_hash :: string
  rc_owner_uid :: u32
  rc_issued_for_generation :: u64
  rc_issued_for_plan_hash :: 'h
  rc_previous_plan :: "'n kernel_plan option"
  rc_previous_record :: "('n, 'h) runtime_record option"

definition restrict_to_grant :: "'n topology \<Rightarrow> 'h runtime_grant \<Rightarrow> 'n topology" where
  "restrict_to_grant t g = restricted_to (map snd (rg_interfaces g)) t"

section \<open>The kernel facts a grant is bound to\<close>

record 'w runtime_environment =
  en_boot_id :: "('w, string) io"
  en_network_namespace :: "('w, u64) io"
  en_new_token :: "('w, string) io"

text \<open>
  The system environment reads \<open>/proc\<close> and \<open>/dev/urandom\<close>; the reads themselves are the operating
  system's. \<open>is_ascii_hexdigit\<close> is the range check of the standard library.
\<close>

definition is_hex_digit :: "char \<Rightarrow> bool" where
  "is_hex_digit c =
     (let n = (of_char c :: int) in
      0x30 \<le> n \<and> n \<le> 0x39 \<or> 0x41 \<le> n \<and> n \<le> 0x46 \<or> 0x61 \<le> n \<and> n \<le> 0x66)"

definition is_lower_hex_digit :: "char \<Rightarrow> bool" where
  "is_lower_hex_digit c =
     (let n = (of_char c :: int) in 0x30 \<le> n \<and> n \<le> 0x39 \<or> 0x61 \<le> n \<and> n \<le> 0x66)"

definition checked_boot_id :: "string \<Rightarrow> (string, string) result" where
  "checked_boot_id raw =
     (let t = trim raw in
      if length t \<noteq> 36 \<or> \<not> list_all (\<lambda>c. is_hex_digit c \<or> c = CHR ''-'') t
      then Inl ''kernel boot id is malformed'' else Inr t)"

definition token_text :: "u8 list \<Rightarrow> string" where
  "token_text bytes = concat (map (\<lambda>b. pad_left 2 (lower_hex (uint b))) bytes)"

definition system_environment ::
  "('w, string) io \<Rightarrow> ('w, u64) io \<Rightarrow> ('w, u8 list) io \<Rightarrow> 'w runtime_environment"
where
  "system_environment read_boot_id stat_namespace read_entropy = \<lparr>
     en_boot_id = io_bind (io_map_err (\<lambda>e. ''read boot id: '' @ e) read_boot_id)
       (\<lambda>raw. io_lift (checked_boot_id raw)),
     en_network_namespace = io_map_err (\<lambda>e. ''read network namespace: '' @ e) stat_namespace,
     en_new_token = io_bind (io_map_err (\<lambda>e. ''read restore token entropy: '' @ e) read_entropy)
       (\<lambda>bytes. io_return (token_text bytes))\<rparr>"

end
