(* ===== verification/Legacy_Journal.thy ===== *)
theory Legacy_Journal
  imports Runtime Crash_Model Interface_Settings Json_Value
begin

text \<open>
  Journals of earlier releases (\<open>src/src/backend/legacy_journal.rs\<close>,
  \<open>src/src/backend/legacy_journal_v2.rs\<close>, and the profile of \<open>src/src/config/v3.rs\<close> that the second
  holds): evidence of what an older helper owned. A record of either kind is cleaned up and never
  becomes a plan of the current schema. The members that schema 1 keeps as raw JSON stay JSON.
\<close>

section \<open>Schema 1\<close>

datatype legacy_availability = LegacyAvailable | LegacyUnavailable

record legacy_lane_v1 =
  l1_id :: lane_id
  l1_interface :: string
  l1_route_v4 :: "u32 route_mode option"
  l1_route_v6 :: "ipv6 route_mode option"
  l1_availability :: legacy_availability
  l1_table :: u32
  l1_mark :: u32
  l1_rule_priority :: u32
  l1_failure_policy :: lane_failure_policy

datatype 'n legacy_target = LegacyAny | LegacyCgroup string | LegacyNetwork 'n
datatype legacy_action = LegacyMark u32 | LegacyDirect | LegacyBlock

record 'n legacy_rule_v1 =
  r1_id :: rule_id
  r1_priority :: u32
  r1_target :: "'n legacy_target"
  r1_action :: legacy_action

record 'n legacy_plan_v1 =
  p1_generation :: u64
  p1_profile_id :: profile_id
  p1_lanes :: "legacy_lane_v1 list"
  p1_rules :: "'n legacy_rule_v1 list"

record 'n legacy_journal_v1 =
  j1_active :: "'n legacy_plan_v1 option"
  j1_active_nft_fingerprint :: "string option"
  j1_pending :: "'n legacy_plan_v1 option"
  j1_pending_expectations :: "json option"
  j1_cleanup_pending :: bool
  j1_restore_receipt :: "json option"
  j1_orphan_cleanup :: "json option"

text \<open>
  The marker: \<open>digest\<close> is the hexadecimal \<open>blake3\<close> of the JSON of the \<open>blake3\<close> of the JSON of the
  policy content (profile, lanes and rules).
\<close>

type_synonym 'n legacy_digest = "profile_id \<times> legacy_lane_v1 list \<times> 'n legacy_rule_v1 list \<Rightarrow> string"

definition legacy_state_chain_name :: "'n legacy_digest \<Rightarrow> 'n legacy_plan_v1 \<Rightarrow> string" where
  "legacy_state_chain_name digest p = ''state_g'' @ decimal (uint (p1_generation p)) @ ''_'' @
     take 16 (digest (p1_profile_id p, p1_lanes p, p1_rules p))"

text \<open>
  What the schema-1 helper installed: one unicast default and one rule per available lane and family.
\<close>

definition legacy_gateway :: "legacy_lane_v1 \<Rightarrow> ip_family \<Rightarrow> string option option" where
  "legacy_gateway l f =
     (case f of
        V4 \<Rightarrow> map_option (\<lambda>r. map_option (\<lambda>a. ip_to_string (V4Addr a)) (gateway r)) (l1_route_v4 l)
      | V6 \<Rightarrow> map_option (\<lambda>r. map_option (\<lambda>a. ip_to_string (V6Addr a)) (gateway r)) (l1_route_v6 l))"

definition legacy_cells :: "'n legacy_plan_v1 \<Rightarrow> (legacy_lane_v1 \<times> ip_family \<times> string option) list" where
  "legacy_cells p =
     concat (map (\<lambda>l. List.map_filter (\<lambda>f. map_option (\<lambda>g. (l, f, g)) (legacy_gateway l f)) families)
       (filter (\<lambda>l. l1_availability l = LegacyAvailable) (p1_lanes p)))"

definition legacy_ownership :: "'n legacy_plan_v1 \<Rightarrow> routing_ownership" where
  "legacy_ownership p = \<lparr>
     own_routes = set (map (\<lambda>(l, f, g). \<lparr>ro_family = family_number f, ro_table = l1_table l,
       ro_gateway = g, ro_interface = l1_interface l, ro_terminal = False\<rparr>) (legacy_cells p)),
     own_rules = set (map (\<lambda>(l, f, _). \<lparr>uo_family = family_number f, uo_priority = l1_rule_priority l,
       uo_table = l1_table l, uo_mark = l1_mark l\<rparr>) (legacy_cells p))\<rparr>"

text \<open>
  The frozen normal form: \<open>metainfo\<close> and \<open>handle\<close> removed, counters without their counts, and, unlike
  the current one, the objects of the dump left in their order.
\<close>

definition legacy_dropped :: "string \<Rightarrow> bool" where
  "legacy_dropped k \<longleftrightarrow> k = ''metainfo'' \<or> k = ''handle''"

definition legacy_counter :: "json \<Rightarrow> bool" where
  "legacy_counter c \<longleftrightarrow>
     (case as_object c of
        None \<Rightarrow> False
      | Some m \<Rightarrow> bt_get m ''packets'' \<noteq> None \<or> bt_get m ''bytes'' \<noteq> None)"

definition legacy_member :: "string \<times> json \<Rightarrow> string \<times> json" where
  "legacy_member kv =
     (if fst kv = ''counter'' \<and> legacy_counter (snd kv) then (fst kv, JNull) else kv)"

lemma legacy_member_size: "size (snd (legacy_member kv)) \<le> size (snd kv)"
  by (cases "snd kv") (auto simp: legacy_member_def)

function legacy_normalize :: "json \<Rightarrow> json" where
  "legacy_normalize (JObject m) =
     JObject (map (\<lambda>kv. (fst kv, legacy_normalize (snd kv)))
       (map legacy_member (filter (\<lambda>kv. \<not> legacy_dropped (fst kv)) m)))"
| "legacy_normalize (JArray xs) = JArray (map legacy_normalize xs)"
| "legacy_normalize JNull = JNull"
| "legacy_normalize (JBool b) = JBool b"
| "legacy_normalize (JInt i) = JInt i"
| "legacy_normalize (JFloat s) = JFloat s"
| "legacy_normalize (JString s) = JString s"
  by pat_completeness auto
termination
proof (relation "measure size")
  fix m kv assume "kv \<in> set (map legacy_member (filter (\<lambda>kv. \<not> legacy_dropped (fst kv)) m))"
  then obtain x where x: "x \<in> set m" "kv = legacy_member x" by auto
  have "size (snd x) < size_list (size_prod (\<lambda>_. 0) size) m"
    by (rule size_list_estimation [OF x(1)]) (cases x, simp)
  with legacy_member_size [of x] x(2) show "(snd kv, JObject m) \<in> measure size" by simp
qed (auto simp: less_Suc_eq_le size_list_estimation')

section \<open>Schema 2\<close>

text \<open>
  \<open>LegacyPlanV2\<close> has the fields of the current plan with the same types, and its digests are taken
  over the same fields.
\<close>

type_synonym 'n legacy_plan_v2 = "'n kernel_plan"

record routing_policy_v3 =
  rp3_primary :: primary_selection
  rp3_backups :: "lane_id list"
  rp3_automatic_failover :: bool

record 'n profile_v3 =
  p3_id :: profile_id
  p3_name :: string
  p3_enabled :: bool
  p3_lanes :: "lane list"
  p3_rules :: "'n rule list"
  p3_routing :: routing_policy_v3

record ('n, 'h) runtime_record_v2 =
  t2_grant :: "'h runtime_grant"
  t2_profile :: "'n profile_v3"
  t2_resolutions :: "'n resolutions"
  t2_decision :: primary_decision

record ('n, 'h) runtime_restore_receipt_v2 =
  c2_token_hash :: string
  c2_owner_uid :: u32
  c2_issued_for_generation :: u64
  c2_issued_for_plan_hash :: 'h
  c2_previous_plan :: "'n legacy_plan_v2 option"
  c2_previous_record :: "('n, 'h) runtime_record_v2 option"

record 'h restore_receipt =
  rx_failed_generation :: u64
  rx_failed_plan_hash :: 'h
  rx_previous_generation :: "u64 option"
  rx_previous_plan_hash :: "'h option"

record pending_expectations =
  px_guard :: string
  px_guardless_transaction :: string
  px_activated :: string
  px_committed :: string
  px_committed_routing :: string
  px_routing_model :: string
  px_lost_unicast :: "(u8 \<times> u32) set"

record orphaned_ownership =
  oo_nft_fingerprint :: "string option"
  oo_routing :: routing_ownership

text \<open>\<open>RestoreReceiptV2\<close>, \<open>PendingExpectationsV2\<close> and \<open>OrphanedOwnershipV2\<close> repeat the current types.\<close>

record ('n, 'h) legacy_journal_v2 =
  j2_active :: "'n legacy_plan_v2 option"
  j2_active_nft_fingerprint :: "string option"
  j2_pending :: "'n legacy_plan_v2 option"
  j2_pending_expectations :: "pending_expectations option"
  j2_cleanup_pending :: bool
  j2_restore_receipt :: "'h restore_receipt option"
  j2_orphan_cleanup :: "orphaned_ownership option"
  j2_interface_settings :: "setting_receipt list"
  j2_pending_interface_settings :: "setting_receipt list"
  j2_legacy_v1 :: "'n legacy_journal_v1 option"
  j2_runtime :: "('n, 'h) runtime_record_v2 option"
  j2_pending_runtime :: "('n, 'h) runtime_record_v2 option"
  j2_runtime_restore :: "('n, 'h) runtime_restore_receipt_v2 option"

end
