(* ===== verification/Journal.thy ===== *)
theory Journal
  imports Kernel_Runner Legacy_Journal Planner
begin

text \<open>
  The journal of the privileged helper (\<open>StoredAppliedState\<close> in \<open>src/src/backend/privileged.rs\<close>): what
  is made durable before the kernel is touched, the checks a loaded record must pass, the ways a
  record is written, and the proofs of exact ownership that a record enables. The store is a trait;
  its contract is the locale \<open>applied_state_store\<close>, and the in-memory store of the source satisfies it.
\<close>

section \<open>Records\<close>

record ('n, 'h) stored_state =
  sa_journal_version :: u32
  sa_active :: "'n kernel_plan option"
  sa_active_nft_fingerprint :: "string option"
  sa_pending :: "'n kernel_plan option"
  sa_pending_expectations :: "pending_expectations option"
  sa_cleanup_pending :: bool
  sa_restore_receipt :: "'h restore_receipt option"
  sa_orphan_cleanup :: "orphaned_ownership option"
  sa_interface_settings :: "setting_receipt list"
  sa_pending_interface_settings :: "setting_receipt list"
  sa_legacy_v1 :: "'n legacy_journal_v1 option"
  sa_legacy_v2 :: "('n, 'h) legacy_journal_v2 option"
  sa_runtime :: "('n, 'h) runtime_record option"
  sa_pending_runtime :: "('n, 'h) runtime_record option"
  sa_runtime_restore :: "('n, 'h) runtime_restore_receipt option"

definition JOURNAL_VERSION :: u32 where "JOURNAL_VERSION = 3"

definition default_stored :: "('n, 'h) stored_state" where
  "default_stored = \<lparr>sa_journal_version = JOURNAL_VERSION, sa_active = None,
     sa_active_nft_fingerprint = None, sa_pending = None, sa_pending_expectations = None,
     sa_cleanup_pending = False, sa_restore_receipt = None, sa_orphan_cleanup = None,
     sa_interface_settings = [], sa_pending_interface_settings = [], sa_legacy_v1 = None,
     sa_legacy_v2 = None, sa_runtime = None, sa_pending_runtime = None, sa_runtime_restore = None\<rparr>"

definition committed_state ::
  "'n kernel_plan option \<Rightarrow> string option \<Rightarrow> 'h restore_receipt option \<Rightarrow> ('n, 'h) stored_state"
where
  "committed_state active fingerprint receipt = default_stored\<lparr>sa_active := active,
     sa_active_nft_fingerprint := fingerprint, sa_restore_receipt := receipt\<rparr>"

record ('n, 'h) committed_extras =
  ce_settings :: "setting_receipt list"
  ce_runtime :: "('n, 'h) runtime_record option"
  ce_runtime_restore :: "('n, 'h) runtime_restore_receipt option"

definition no_extras :: "('n, 'h) committed_extras" where
  "no_extras = \<lparr>ce_settings = [], ce_runtime = None, ce_runtime_restore = None\<rparr>"

definition extras_of :: "('n, 'h) stored_state \<Rightarrow> ('n, 'h) committed_extras" where
  "extras_of r = \<lparr>ce_settings = sa_interface_settings r, ce_runtime = sa_runtime r,
     ce_runtime_restore = sa_runtime_restore r\<rparr>"

section \<open>The store\<close>

record ('w, 'n, 'h) store =
  js_load :: "('w, ('n, 'h) stored_state option) io"
  js_save :: "('n, 'h) stored_state \<Rightarrow> ('w, unit) io"
  js_clear :: "('w, unit) io"

text \<open>
  A load that succeeds returns the content; a save or clear that succeeds makes its argument the
  content; one that fails leaves the old content or the new one.
\<close>

locale applied_state_store =
  fixes S :: "('w, 'n, 'h) store"
    and content :: "'w \<Rightarrow> ('n, 'h) stored_state option"
  assumes load_content: "js_load S w = (Inr j, w') \<Longrightarrow> j = content w"
    and load_keeps: "js_load S w = (x, w') \<Longrightarrow> content w' = content w"
    and save_ok: "js_save S r w = (Inr (), w') \<Longrightarrow> content w' = Some r"
    and save_failed: "js_save S r w = (Inl e, w') \<Longrightarrow> content w' = content w \<or> content w' = Some r"
    and clear_ok: "js_clear S w = (Inr (), w') \<Longrightarrow> content w' = None"
    and clear_failed: "js_clear S w = (Inl e, w') \<Longrightarrow> content w' = content w \<or> content w' = None"
begin

lemma save_then_load:
  assumes "js_save S r w = (Inr (), w1)" "js_load S w1 = (Inr j, w2)"
  shows "j = Some r"
  using save_ok [OF assms(1)] load_content [OF assms(2)] by simp

lemma clear_then_load:
  assumes "js_clear S w = (Inr (), w1)" "js_load S w1 = (Inr j, w2)"
  shows "j = None"
  using clear_ok [OF assms(1)] load_content [OF assms(2)] by simp

end

text \<open>\<open>InMemoryAppliedStateStore\<close>.\<close>

definition memory_store :: "(('n, 'h) stored_state option \<times> 'w, 'n, 'h) store" where
  "memory_store = \<lparr>js_load = io_gets (\<lambda>s. s), js_save = (\<lambda>r. io_modify (\<lambda>_. Some r)),
     js_clear = io_modify (\<lambda>_. None)\<rparr>"

interpretation memory: applied_state_store memory_store fst
  by unfold_locales (auto simp: memory_store_def io_gets_def io_modify_def split: prod.splits)

section \<open>The helper\<close>

text \<open>
  Everything a backend is built with: the system, the store, the settings adapter, the runtime
  environment, and what \<open>blake3\<close> and \<open>serde_json\<close> say of a policy, a token, a schema-1 plan, the
  encoded size of a plan and of an activation, and the derived \<open>{:?}\<close> texts of two error types.
\<close>

record ('w, 'n, 'h) helper =
  hp_system :: "('w, 'n, 'h) system"
  hp_store :: "('w, 'n, 'h) store"
  hp_settings :: "'w rpf_backend"
  hp_environment :: "'w runtime_environment"
  hp_policy_digest :: "'n profile \<Rightarrow> 'n resolutions \<Rightarrow> 'h"
  hp_token_digest :: "string \<Rightarrow> string"
  hp_legacy_digest :: "'n legacy_digest"
  hp_domain_debug :: "domain_error \<Rightarrow> string"
  hp_plan_debug :: "plan_error \<Rightarrow> string"
  hp_plan_size :: "'n kernel_plan \<Rightarrow> nat"
  hp_activation_size :: "'n runtime_activation \<Rightarrow> nat"

abbreviation hp_content :: "('w, 'n, 'h) helper \<Rightarrow> 'n policy_content \<Rightarrow> 'h" where
  "hp_content H \<equiv> dg_content (sy_digests (hp_system H))"

abbreviation hp_json :: "('w, 'n, 'h) helper \<Rightarrow> json_reader" where
  "hp_json H \<equiv> sy_json (hp_system H)"

section \<open>Restore receipts\<close>

definition new_restore_receipt ::
  "('n policy_content \<Rightarrow> 'h) \<Rightarrow> 'n kernel_plan \<Rightarrow> 'n kernel_plan option \<Rightarrow> 'h restore_receipt"
where
  "new_restore_receipt digest failed previous = \<lparr>rx_failed_generation = kp_generation failed,
     rx_failed_plan_hash = content_hash digest failed,
     rx_previous_generation = map_option kp_generation previous,
     rx_previous_plan_hash = map_option (content_hash digest) previous\<rparr>"

definition matches_current ::
  "'h restore_receipt \<Rightarrow> ('n, 'h) applied_kernel_state option \<Rightarrow> bool"
where
  "matches_current r current =
     (case (current, rx_previous_generation r, rx_previous_plan_hash r) of
        (Some c, Some g, Some h) \<Rightarrow> ak_generation c = g \<and> ak_plan_hash c = h
      | (None, None, None) \<Rightarrow> True
      | _ \<Rightarrow> False)"

definition failed_matches ::
  "('n policy_content \<Rightarrow> 'h) \<Rightarrow> 'h restore_receipt \<Rightarrow> 'n kernel_plan option \<Rightarrow> bool"
where
  "failed_matches digest r plan =
     (case plan of
        None \<Rightarrow> False
      | Some k \<Rightarrow> kp_generation k = rx_failed_generation r \<and>
          content_hash digest k = rx_failed_plan_hash r)"

definition previous_matches ::
  "('n policy_content \<Rightarrow> 'h) \<Rightarrow> 'h restore_receipt \<Rightarrow> 'n kernel_plan option \<Rightarrow> bool"
where
  "previous_matches digest r plan =
     (case (plan, rx_previous_generation r, rx_previous_plan_hash r) of
        (Some k, Some g, Some h) \<Rightarrow> kp_generation k = g \<and> content_hash digest k = h
      | (None, None, None) \<Rightarrow> True
      | _ \<Rightarrow> False)"

section \<open>Expectations of a pending transition\<close>

definition plan_hash_option ::
  "('w, 'n, 'h) system \<Rightarrow> 'n kernel_plan option \<Rightarrow> 'h option"
where
  "plan_hash_option Y k = map_option (content_hash (dg_content (sy_digests Y))) k"

definition routing_model_fingerprint ::
  "('w, 'n, 'h) system \<Rightarrow> 'n kernel_plan option \<Rightarrow> 'n kernel_plan \<Rightarrow> string"
where
  "routing_model_fingerprint Y active pending =
     sy_model_digest Y (plan_hash_option Y active) (content_hash (dg_content (sy_digests Y)) pending)"

definition routing_ownership_fingerprint ::
  "('w, 'n, 'h) system \<Rightarrow> routing_ownership \<Rightarrow> string"
where
  "routing_ownership_fingerprint Y s = sy_routing_digest Y s"

definition build_pending_expectations_from ::
  "('w, 'n::linorder, 'h) system \<Rightarrow> 'n kernel_plan option \<Rightarrow> (u8 \<times> u32) set \<Rightarrow> 'n kernel_plan \<Rightarrow>
     (string, pending_expectations) result"
where
  "build_pending_expectations_from Y active lost pending =
     and_then (expected_nft_document Y active (Some pending) True) (\<lambda>guard.
     and_then (expected_nft_document Y active (Some pending) False) (\<lambda>guardless.
     and_then (expected_nft_document Y (Some pending) None True) (\<lambda>activated.
     and_then (expected_nft_document Y (Some pending) None False) (\<lambda>committed.
       Inr \<lparr>px_guard = nft_document_fingerprint Y guard,
         px_guardless_transaction = nft_document_fingerprint Y guardless,
         px_activated = nft_document_fingerprint Y activated,
         px_committed = nft_document_fingerprint Y committed,
         px_committed_routing =
           routing_ownership_fingerprint Y (plan_routing_ownership (kp_lanes pending)),
         px_routing_model = routing_model_fingerprint Y
           (map_option (\<lambda>k. routing_basis k lost) active) pending,
         px_lost_unicast = lost\<rparr>))))"

section \<open>Checks of a loaded record\<close>

definition require :: "bool \<Rightarrow> string \<Rightarrow> (string, unit) result" where
  "require ok e = (if ok then Inr () else Inl e)"

text \<open>The text of a validation error; \<open>{:?}\<close> of a string is the parameter \<open>debug\<close>.\<close>

fun validation_text :: "(string \<Rightarrow> string) \<Rightarrow> validation_error \<Rightarrow> string" where
  "validation_text debug ZeroGeneration = ''generation must be nonzero''"
| "validation_text debug (PlanTooManyLanes a m) =
     ''plan has '' @ decimal (int a) @ '' lanes; maximum is '' @ decimal (int m)"
| "validation_text debug (PlanTooManyRules a m) =
     ''plan has '' @ decimal (int a) @ '' rules; maximum is '' @ decimal (int m)"
| "validation_text debug (TableOutOfRange t) =
     ''routing table '' @ word_to_string t @ '' is outside the reserved range''"
| "validation_text debug (MarkOutOfRange m) =
     ''mark '' @ hex_0x08 m @ '' is outside the reserved range''"
| "validation_text debug (PriorityOutOfRange p) =
     ''rule priority '' @ word_to_string p @ '' is outside the reserved range''"
| "validation_text debug (PlanDuplicateLaneId i) = ''duplicate lane ID '' @ debug i"
| "validation_text debug (DuplicateTable t) = ''duplicate routing table '' @ word_to_string t"
| "validation_text debug (DuplicateMark m) = ''duplicate mark '' @ hex_0x08 m"
| "validation_text debug (DuplicatePriority p) = ''duplicate rule priority '' @ word_to_string p"
| "validation_text debug (DuplicateCompiledRule i) = ''duplicate compiled rule '' @ debug i"
| "validation_text debug (InvalidInterface i) = ''invalid kernel interface name '' @ debug i"
| "validation_text debug (InvalidApplicationCgroup p) =
     ''invalid RouteLane application cgroup '' @ debug p"
| "validation_text debug (UnknownMark m) = ''compiled rule refers to unknown mark '' @ hex_0x08 m"

definition validate_stored_plan ::
  "('w, 'n, 'h) system \<Rightarrow> string \<Rightarrow> 'n kernel_plan option \<Rightarrow> (string, unit) result"
where
  "validate_stored_plan Y label plan =
     (case plan of
        None \<Rightarrow> Inr ()
      | Some k \<Rightarrow> map_err (\<lambda>e. ''invalid persisted '' @ label @ '' plan: '' @
          validation_text (sy_debug Y) e) (validate_privileged_plan k))"

definition validate_stored_fingerprint_pair ::
  "'n kernel_plan option \<Rightarrow> string option \<Rightarrow> (string, unit) result"
where
  "validate_stored_fingerprint_pair active fingerprint =
     (case (active, fingerprint) of
        (None, None) \<Rightarrow> Inr ()
      | (Some _, Some f) \<Rightarrow> require (length f = 64 \<and> list_all is_hex_digit f)
          ''invalid persisted state: active plan and exact nftables fingerprint must be paired''
      | _ \<Rightarrow> Inl ''invalid persisted state: active plan and exact nftables fingerprint must be paired'')"

definition validate_pending_expectations ::
  "('w, 'n::linorder, 'h) system \<Rightarrow> 'n kernel_plan option \<Rightarrow> 'n kernel_plan option \<Rightarrow>
     pending_expectations option \<Rightarrow> (string, unit) result"
where
  "validate_pending_expectations Y active pending expectations =
     (case (pending, expectations) of
        (None, None) \<Rightarrow> Inr ()
      | (Some p, Some x) \<Rightarrow>
          and_then (build_pending_expectations_from Y active (px_lost_unicast x) p) (\<lambda>expected.
            require (expected = x) (''invalid persisted state: pending transition expectations '' @
              ''do not match the journaled plans''))
      | _ \<Rightarrow> Inl (''invalid persisted state: pending plan and exact transition expectations '' @
          ''must be paired''))"

definition validate_restore_receipt ::
  "('n policy_content \<Rightarrow> 'h) \<Rightarrow> ('n, 'h) stored_state \<Rightarrow> (string, unit) result"
where
  "validate_restore_receipt digest r =
     (case sa_restore_receipt r of
        None \<Rightarrow> Inr ()
      | Some x \<Rightarrow>
          if (rx_previous_generation x \<noteq> None) \<noteq> (rx_previous_plan_hash x \<noteq> None)
          then Inl ''invalid persisted state: restore receipt previous generation and hash must be paired''
          else if sa_cleanup_pending r
          then require (sa_pending r = None \<and> failed_matches digest x (sa_active r) \<and>
              previous_matches digest x None)
            (''invalid persisted state: cleanup restore receipt does not bind the failed candidate '' @
              ''to an empty target'')
          else (case sa_pending r of
              Some p \<Rightarrow> require (failed_matches digest x (sa_active r) \<and>
                  previous_matches digest x (Some p))
                (''invalid persisted state: pending restore receipt does not bind the failed '' @
                  ''candidate and previous plan'')
            | None \<Rightarrow> require (previous_matches digest x (sa_active r))
                (''invalid persisted state: committed restore receipt does not match the restored '' @
                  ''plan'')))"

definition sound_receipt :: "setting_receipt \<Rightarrow> bool" where
  "sound_receipt r \<longleftrightarrow> sr_previous r = 0 \<and> sr_applied r = 1"

definition validate_setting_receipts :: "('n, 'h) stored_state \<Rightarrow> (string, unit) result" where
  "validate_setting_receipts r =
     (if sa_interface_settings r \<noteq> [] \<and> sa_active r = None
      then Inl ''invalid persisted state: interface setting receipts without an active plan''
      else if sa_pending_interface_settings r \<noteq> [] \<and> sa_pending r = None
      then Inl ''invalid persisted state: pending interface settings without a pending plan''
      else if (sa_runtime r \<noteq> None \<or> sa_runtime_restore r \<noteq> None) \<and> sa_active r = None \<or>
        sa_pending_runtime r \<noteq> None \<and> sa_pending r = None
      then Inl ''invalid persisted state: runtime authority without its plan''
      else (let receipts = sa_interface_settings r @ sa_pending_interface_settings r in
        require (list_all sound_receipt receipts \<and> length receipts \<le> 2 * MAX_LANES)
          ''invalid persisted state: interface setting receipts are out of bounds''))"

definition validate_orphan_journal :: "('n, 'h) stored_state \<Rightarrow> (string, unit) result" where
  "validate_orphan_journal r =
     require (sa_orphan_cleanup r \<noteq> None \<and> sa_active r = None \<and>
         sa_active_nft_fingerprint r = None \<and> sa_pending r = None \<and>
         sa_pending_expectations r = None \<and> \<not> sa_cleanup_pending r \<and> sa_restore_receipt r = None)
       ''invalid persisted state: orphan cleanup must be an isolated journal''"

definition validate_legacy_envelope :: "('n, 'h) stored_state \<Rightarrow> (string, unit) result" where
  "validate_legacy_envelope r =
     require (r = default_stored\<lparr>sa_legacy_v1 := sa_legacy_v1 r\<rparr>)
       ''invalid persisted state: a schema-1 journal cannot carry current-schema state''"

text \<open>The sequence of checks that inspection and recovery share.\<close>

definition validate_record ::
  "('w, 'n::linorder, 'h) system \<Rightarrow> ('n, 'h) stored_state \<Rightarrow> (string, unit) result"
where
  "validate_record Y r =
     and_then (validate_stored_plan Y ''active'' (sa_active r)) (\<lambda>_.
     and_then (validate_stored_plan Y ''pending'' (sa_pending r)) (\<lambda>_.
     and_then (validate_stored_fingerprint_pair (sa_active r) (sa_active_nft_fingerprint r)) (\<lambda>_.
     and_then (validate_pending_expectations Y (sa_active r) (sa_pending r)
         (sa_pending_expectations r)) (\<lambda>_.
     and_then (validate_restore_receipt (dg_content (sy_digests Y)) r) (\<lambda>_.
       validate_setting_receipts r)))))"

section \<open>Writing a committed record\<close>

definition persist_committed_with_receipt ::
  "('w, 'n, 'h) store \<Rightarrow> ('n, 'h) applied_kernel_state option \<Rightarrow> string option \<Rightarrow>
     'h restore_receipt option \<Rightarrow> ('n, 'h) committed_extras \<Rightarrow> ('w, unit) io"
where
  "persist_committed_with_receipt S state fingerprint receipt extras =
     (if state = None \<and> extras \<noteq> no_extras
      then io_fail ''interface setting and runtime receipts require an active committed plan''
      else (case (state, fingerprint) of
          (Some s, Some f) \<Rightarrow> js_save S ((committed_state (Some (ak_plan s)) (Some f) receipt)
            \<lparr>sa_interface_settings := ce_settings extras, sa_runtime := ce_runtime extras,
              sa_runtime_restore := ce_runtime_restore extras\<rparr>)
        | (None, None) \<Rightarrow>
            (case receipt of
               Some x \<Rightarrow> js_save S (committed_state None None (Some x))
             | None \<Rightarrow> js_clear S)
        | _ \<Rightarrow> io_fail ''cannot persist an active plan without its exact nftables fingerprint''))"

definition persist_committed ::
  "('w, 'n, 'h) store \<Rightarrow> ('n, 'h) applied_kernel_state option \<Rightarrow> string option \<Rightarrow>
     ('n, 'h) committed_extras \<Rightarrow> ('w, unit) io"
where
  "persist_committed S state fingerprint extras =
     persist_committed_with_receipt S state fingerprint None extras"

end
