(* ===== verification/Ownership.thy ===== *)
theory Ownership
  imports Journal
begin

text \<open>
  What the helper proves of the live kernel before it acts on a record (\<open>verify_*\<close>,
  \<open>preflight_plan\<close> and \<open>tolerated_lost_unicast\<close> in \<open>src/src/backend/privileged.rs\<close>), and the
  interface settings a transition makes and takes back. Nothing here changes routes, rules or tables.
\<close>

section \<open>A committed generation\<close>

definition verify_persisted_ownership_basis ::
  "('w, 'n::linorder, 'h) system \<Rightarrow> 'n kernel_plan \<Rightarrow> 'n kernel_plan \<Rightarrow> string \<Rightarrow> ('w, bool) io"
where
  "verify_persisted_ownership_basis Y k routing fingerprint =
     io_bind (capture_snapshot Y) (\<lambda>c.
     io_seq (io_lift (map_err (\<lambda>e. ''persisted plan conflicts with live kernel resources: '' @
         conflict_debug e) (detect_resource_conflicts routing (cp_snapshot c))))
     (io_bind (io_lift (live_routing_ownership (sy_json Y) c)) (\<lambda>live.
      io_seq (io_guard (live = plan_routing_ownership (kp_lanes routing))
        (''persisted plan does not exactly own all live RouteLane route and policy-rule '' @
          ''resources''))
      (io_seq
        (if table_present c
         then io_bind (nft_marker_present Y k) (\<lambda>marked.
           io_guard marked ''persisted plan does not own the live inet/routelane table'')
         else io_return ())
      (io_seq
        (if table_present c
         then io_bind (live_nft_fingerprint Y) (\<lambda>live.
           io_guard (live = fingerprint)
             (''persisted plan ownership marker is present but the live inet/routelane table '' @
               ''differs from the exact committed state''))
         else io_return ())
        (io_lift (captured_plan_present (sy_json Y) c routing)))))))"

definition verify_persisted_ownership ::
  "('w, 'n::linorder, 'h) system \<Rightarrow> 'n kernel_plan \<Rightarrow> string \<Rightarrow> ('w, bool) io"
where
  "verify_persisted_ownership Y k fingerprint = verify_persisted_ownership_basis Y k k fingerprint"

definition no_live_resources ::
  "('w, 'n, 'h) system \<Rightarrow> ('n, 'h) captured_snapshot \<Rightarrow> (string, bool) result"
where
  "no_live_resources Y c =
     (if table_present c then Inr False
      else and_then (live_routing_ownership (sy_json Y) c) (\<lambda>live. Inr (live = empty_ownership)))"

definition verify_exact_kernel_basis ::
  "('w, 'n::linorder, 'h) system \<Rightarrow> ('n, 'h) applied_kernel_state option \<Rightarrow> string option \<Rightarrow>
     (u8 \<times> u32) set \<Rightarrow> ('w, unit) io"
where
  "verify_exact_kernel_basis Y state fingerprint lost =
     (case (state, fingerprint) of
        (Some s, Some f) \<Rightarrow>
          io_bind (verify_persisted_ownership_basis Y (ak_plan s) (routing_basis (ak_plan s) lost) f)
            (\<lambda>present. io_guard present ''exact rollback target is incomplete'')
      | (None, None) \<Rightarrow>
          io_bind (capture_snapshot Y) (\<lambda>c.
          io_bind (io_lift (no_live_resources Y c)) (\<lambda>none.
            io_guard none ''exact empty rollback target still has live RouteLane resources''))
      | _ \<Rightarrow> io_fail ''exact rollback target has an invalid plan/fingerprint pair'')"

definition verify_exact_kernel_state ::
  "('w, 'n::linorder, 'h) system \<Rightarrow> ('n, 'h) applied_kernel_state option \<Rightarrow> string option \<Rightarrow>
     ('w, unit) io"
where
  "verify_exact_kernel_state Y state fingerprint = verify_exact_kernel_basis Y state fingerprint {}"

section \<open>Routes the kernel dropped\<close>

definition family_of_number :: "u8 \<Rightarrow> ip_family" where
  "family_of_number n = (if n = 4 then V4 else V6)"

text \<open>Whether the fresh plan still has a unicast route in that table and family.\<close>

definition still_used :: "'n kernel_plan \<Rightarrow> u8 \<Rightarrow> u32 \<Rightarrow> bool" where
  "still_used next f table =
     (case lane_for_table (kp_lanes next) table of
        None \<Rightarrow> False
      | Some l \<Rightarrow> lane_unicast_route l (family_of_number f) \<noteq> None)"

definition tolerated_lost_unicast ::
  "('w, 'n::linorder, 'h) system \<Rightarrow> 'n kernel_plan \<Rightarrow> string \<Rightarrow> 'n kernel_plan \<Rightarrow>
     ('w, (u8 \<times> u32) set) io"
where
  "tolerated_lost_unicast Y k fingerprint next =
     io_bind (capture_snapshot Y) (\<lambda>c.
     io_bind (io_lift (live_routing_ownership (sy_json Y) c)) (\<lambda>live.
       let expected = plan_routing_ownership (kp_lanes k);
           missing = own_routes expected - own_routes live;
           lost = (\<lambda>r. (ro_family r, ro_table r)) ` missing
       in
       io_seq (io_guard (\<forall>(f, table) \<in> linkdown_unicast (sy_json Y) c. \<not> still_used next f table)
         ''a lane without carrier is still used by the fresh plan; refusing apply'')
       (io_seq (io_guard (own_rules live = own_rules expected \<and> own_routes live \<subseteq> own_routes expected)
         ''committed RouteLane kernel resources were modified; refusing apply'')
       (io_seq (io_guard (\<forall>r \<in> missing. \<not> ro_terminal r \<and> \<not> still_used next (ro_family r) (ro_table r))
         ''committed RouteLane kernel resources are incomplete; refusing apply'')
       (io_bind (verify_persisted_ownership_basis Y k (routing_basis k lost) fingerprint) (\<lambda>present.
        io_seq (io_guard present
          ''committed RouteLane kernel resources are incomplete; refusing apply'')
         (io_return lost)))))))"

section \<open>Cleanup and recovery\<close>

definition verify_cleanup_table_ownership ::
  "('w, 'n::linorder, 'h) system \<Rightarrow> ('n, 'h) applied_kernel_state option \<Rightarrow> string option \<Rightarrow>
     ('w, unit) io"
where
  "verify_cleanup_table_ownership Y active fingerprint =
     io_bind (capture_snapshot Y) (\<lambda>c.
       (case (active, fingerprint) of
          (Some a, Some f) \<Rightarrow>
            io_seq (io_lift (map_err (\<lambda>e. ''cleanup journal conflicts with live kernel resources: '' @
                conflict_debug e) (detect_resource_conflicts (ak_plan a) (cp_snapshot c))))
            (io_bind (io_lift (live_routing_ownership (sy_json Y) c)) (\<lambda>live.
             io_seq (io_guard
               (routing_ownership_is_subset live (plan_routing_ownership (kp_lanes (ak_plan a))))
               ''cleanup journal does not own the exact live RouteLane routing subset'')
             (if \<not> table_present c
              then io_guard (live = empty_ownership)
                (''cleanup journal is missing its committed nftables table before routing '' @
                  ''cleanup completed'')
              else io_bind (nft_marker_present Y (ak_plan a)) (\<lambda>marked.
                if \<not> marked
                then io_fail ''cleanup journal does not exactly own the live inet/routelane table''
                else io_bind (live_nft_fingerprint Y) (\<lambda>live.
                  io_guard (live = f)
                    ''cleanup journal does not exactly own the live inet/routelane table'')))))
        | _ \<Rightarrow> io_fail ''cleanup journal cannot own a live inet/routelane table''))"

definition model_message :: "model_stop \<Rightarrow> string" where
  "model_message e =
     (case e of ModelError m \<Rightarrow> m | Unreachable \<Rightarrow> ''internal error: entered unreachable code'')"

definition validate_pending_routing_resources ::
  "('w, 'n, 'h) system \<Rightarrow> ('n, 'h) captured_snapshot \<Rightarrow> 'n kernel_plan option \<Rightarrow> 'n kernel_plan \<Rightarrow>
     pending_nft_phase \<Rightarrow> (string, unit) result"
where
  "validate_pending_routing_resources Y c active pending phase =
     and_then (live_routing_ownership (sy_json Y) c) (\<lambda>live.
     and_then (map_err model_message (routing_state_reachable_for_phase live
         (map_option kp_lanes active) (kp_lanes pending) phase)) (\<lambda>valid.
       require valid (''pending journal live route or policy-rule state is outside the persisted '' @
         ''crash expectations'')))"

definition pending_phase ::
  "('n, 'h) applied_kernel_state option \<Rightarrow> string option \<Rightarrow> string option \<Rightarrow> pending_expectations \<Rightarrow>
     pending_nft_phase option"
where
  "pending_phase active fingerprint live x =
     (case (active, fingerprint, live) of
        (None, None, None) \<Rightarrow> Some Untouched
      | (Some _, Some _, None) \<Rightarrow> Some RollbackAbsent
      | (_, _, None) \<Rightarrow> None
      | (_, _, Some live) \<Rightarrow>
          if active \<noteq> None \<and> fingerprint = Some live then Some Untouched
          else if live = px_guard x then Some Guard
          else if live = px_guardless_transaction x then Some GuardlessTransaction
          else if live = px_activated x then Some Activated
          else if live = px_committed x then Some Committed
          else None)"

definition verify_pending_table_ownership ::
  "('w, 'n::linorder, 'h) system \<Rightarrow> ('n, 'h) applied_kernel_state option \<Rightarrow> string option \<Rightarrow>
     'n kernel_plan \<Rightarrow> pending_expectations \<Rightarrow> ('w, unit) io"
where
  "verify_pending_table_ownership Y active fingerprint pending x =
     io_bind (capture_snapshot Y) (\<lambda>c.
     io_bind (if table_present c
         then io_bind (live_nft_fingerprint Y) (\<lambda>f. io_return (Some f)) else io_return None) (\<lambda>live.
     io_bind (io_lift (ok_or
         ''pending journal does not exactly match any persisted nftables crash state''
         (pending_phase active fingerprint live x))) (\<lambda>phase.
       io_lift (validate_pending_routing_resources Y c
         (map_option (\<lambda>s. routing_basis (ak_plan s) (px_lost_unicast x)) active) pending phase))))"

section \<open>Before a transition\<close>

definition unowned_requested_resource_present ::
  "('w, 'n, 'h) system \<Rightarrow> ('n, 'h) captured_snapshot \<Rightarrow> 'n kernel_plan option \<Rightarrow> 'n kernel_plan \<Rightarrow>
     (string, bool) result"
where
  "unowned_requested_resource_present Y c current next =
     and_then (live_routing_ownership (sy_json Y) c) (\<lambda>live.
       let requested = plan_routing_ownership (kp_lanes next);
           owned = active_ownership (map_option kp_lanes current)
       in Inr (own_routes live \<inter> own_routes requested - own_routes owned \<noteq> {} \<or>
         own_rules live \<inter> own_rules requested - own_rules owned \<noteq> {}))"

definition preflight_plan ::
  "('w, 'n, 'h) system \<Rightarrow> ('n, 'h) applied_kernel_state option \<Rightarrow> 'n kernel_plan \<Rightarrow> ('w, unit) io"
where
  "preflight_plan Y current next =
     io_bind (capture_snapshot Y) (\<lambda>c.
     io_seq (io_guard (\<not> (current = None \<and> table_present c))
       (''routing resource conflict before journaling: unowned inet/routelane table already '' @
         ''exists''))
     (io_seq
       (if current = None
        then io_bind (io_lift (live_routing_ownership (sy_json Y) c)) (\<lambda>live.
          io_guard (live = empty_ownership)
            (''routing resource conflict before journaling: route or policy-rule state exists '' @
              ''without persisted RouteLane ownership in the reserved ranges''))
        else io_return ())
     (io_seq (io_lift (map_err (\<lambda>e. ''routing resource conflict before journaling: '' @ conflict_debug e)
         (case current of
            Some s \<Rightarrow> detect_resource_conflicts_for_update next (ak_plan s) (cp_snapshot c)
          | None \<Rightarrow> detect_resource_conflicts next (cp_snapshot c))))
     (io_bind (io_lift (unowned_requested_resource_present Y c (map_option ak_plan current) next))
       (\<lambda>unowned. io_guard (\<not> unowned)
         (''routing resource conflict before journaling: requested route or policy-rule state '' @
           ''exists without persisted RouteLane ownership'')))))) "

section \<open>Interface settings\<close>

definition mark_aware_identities :: "'n kernel_plan \<Rightarrow> interface_identity list" where
  "mark_aware_identities k =
     fold (\<lambda>l identities.
         if lp_availability l \<noteq> Available \<or> lp_route_v4 l = None then identities
         else (case lp_identity l of
             Some i \<Rightarrow> if i \<in> set identities then identities else identities @ [i]
           | None \<Rightarrow> identities)) (kp_lanes k) []"

definition settings_in_world :: "'w rpf_backend \<Rightarrow> ('s \<times> 'w) rpf_backend" where
  "settings_in_world B = \<lparr>rpf_identity = (\<lambda>n. in_world (rpf_identity B n)),
     rpf_rp_filter = (\<lambda>n. in_world (rpf_rp_filter B n)),
     rpf_src_valid_mark = (\<lambda>n. in_world (rpf_src_valid_mark B n)),
     rpf_set = (\<lambda>i v. in_world (rpf_set B i v))\<rparr>"

text \<open>The journal callback: the intent joins the record, and the record is saved, before the write.\<close>

definition journal_setting ::
  "('w, 'n, 'h) store \<Rightarrow> setting_receipt \<Rightarrow> (('n, 'h) stored_state \<times> 'w, unit) io"
where
  "journal_setting S receipt =
     io_seq (io_modify (\<lambda>r. r\<lparr>sa_pending_interface_settings :=
         sa_pending_interface_settings r @ [receipt]\<rparr>))
     (io_bind (io_gets (\<lambda>r. r)) (\<lambda>r.
       io_map_err (\<lambda>e. ''interface setting journal: '' @ e) (in_world (js_save S r))))"

fun ensure_settings_for ::
  "'w rpf_backend \<Rightarrow> ('w, 'n, 'h) store \<Rightarrow> interface_identity list \<Rightarrow> setting_receipt list \<Rightarrow>
     (('n, 'h) stored_state \<times> 'w, setting_receipt list) io"
where
  "ensure_settings_for B S [] applied = io_return applied"
| "ensure_settings_for B S (i # is) applied =
     io_bind (io_gets (\<lambda>r. i \<in> sr_identity ` set (sa_interface_settings r))) (\<lambda>owned.
       if owned then ensure_settings_for B S is applied
       else io_bind (ensure_mark_aware_rpf (settings_in_world B) (journal_setting S) i) (\<lambda>receipt.
         ensure_settings_for B S is
           (case receipt of Some r \<Rightarrow> applied @ [r] | None \<Rightarrow> applied)))"

definition ensure_interface_settings ::
  "'w rpf_backend \<Rightarrow> ('w, 'n, 'h) store \<Rightarrow> 'n kernel_plan \<Rightarrow>
     (('n, 'h) stored_state \<times> 'w, setting_receipt list) io"
where
  "ensure_interface_settings B S k = ensure_settings_for B S (mark_aware_identities k) []"

fun restore_setting_receipts ::
  "'w rpf_backend \<Rightarrow> setting_receipt list \<Rightarrow> ('w, string list) io"
where
  "restore_setting_receipts B [] = io_return []"
| "restore_setting_receipts B (r # rs) =
     io_bind (io_result (restore_mark_aware_rpf B r)) (\<lambda>x.
     io_bind (restore_setting_receipts B rs) (\<lambda>diverged.
       io_return (case x of
           Inl e \<Rightarrow> (''interface '' @ ii_name (sr_identity r) @ '' src_valid_mark left unchanged: '' @
             e) # diverged
         | Inr _ \<Rightarrow> diverged)))"

section \<open>After a rollback\<close>

definition repair_committed_journal_after_rollback ::
  "('w, 'n::linorder, 'h) helper \<Rightarrow> ('n, 'h) applied_kernel_state option \<Rightarrow> string option \<Rightarrow>
     (u8 \<times> u32) set \<Rightarrow> ('n, 'h) committed_extras \<Rightarrow> bool \<Rightarrow> ('w, unit) io"
where
  "repair_committed_journal_after_rollback H state fingerprint lost extras succeeded =
     (if \<not> succeeded
      then io_fail (''rollback did not complete; exact pending state is still required for '' @
        ''recovery'')
      else io_seq (verify_exact_kernel_basis (hp_system H) state fingerprint lost)
        (persist_committed (hp_store H) state fingerprint extras))"

end
