(* ===== verification/Transition.thy ===== *)
theory Transition
  imports Ownership
begin

text \<open>
  The transactional move to a plan (\<open>CommandPrivilegedBackend\<close> and its \<open>transition_with\<close> in
  \<open>src/src/backend/privileged.rs\<close>): preflight, pending journal, interface settings, the apply
  transaction over the command runner, the comparison with the journaled expectations, and the
  commit; or, on any failure, the rollback and the repair of the journal.
\<close>

section \<open>The backend's state\<close>

record 'h held_back_candidate =
  hb_plan_hash :: 'h
  hb_retry_at :: duration
  hb_wait :: duration

record ('n, 'h) armed_runtime =
  ar_record :: "('n, 'h) runtime_record"
  ar_selector :: "selector option"
  ar_phase :: runtime_phase
  ar_last_error :: "string option"
  ar_failback_in_ms :: "u64 option"
  ar_held_back :: "'h held_back_candidate option"

record ('n, 'h) backend_state =
  be_current :: "('n, 'h) applied_kernel_state option"
  be_fingerprint :: "string option"
  be_interface_settings :: "setting_receipt list"
  be_restore_receipt :: "'h restore_receipt option"
  be_legacy :: "'n legacy_journal_v1 option"
  be_legacy_v2 :: "('n, 'h) legacy_journal_v2 option"
  be_initialized :: bool
  be_runtime :: "('n, 'h) armed_runtime option"
  be_runtime_restore :: "('n, 'h) runtime_restore_receipt option"
  be_runtime_loaded :: bool
  be_recovery_held_back :: "(duration \<times> duration) option"

definition new_backend :: "('n, 'h) backend_state" where
  "new_backend = \<lparr>be_current = None, be_fingerprint = None, be_interface_settings = [],
     be_restore_receipt = None, be_legacy = None, be_legacy_v2 = None, be_initialized = False,
     be_runtime = None, be_runtime_restore = None, be_runtime_loaded = False,
     be_recovery_held_back = None\<rparr>"

type_synonym ('w, 'n, 'h) backend_world = "('n, 'h) backend_state \<times> 'w"

record 'h apply_response =
  re_generation :: u64
  re_plan_hash :: 'h
  re_diagnostics :: "string list"

definition response_of ::
  "('n policy_content \<Rightarrow> 'h) \<Rightarrow> 'n kernel_plan \<Rightarrow> string list \<Rightarrow> 'h apply_response"
where
  "response_of digest k diagnostics = \<lparr>re_generation = kp_generation k,
     re_plan_hash = content_hash digest k, re_diagnostics = diagnostics\<rparr>"

definition backend_extras :: "('n, 'h) backend_state \<Rightarrow> ('n, 'h) committed_extras" where
  "backend_extras b = \<lparr>ce_settings = be_interface_settings b,
     ce_runtime = map_option ar_record (be_runtime b), ce_runtime_restore = be_runtime_restore b\<rparr>"

definition result_label :: "(string, 'a) result \<Rightarrow> string" where
  "result_label r = (case r of Inr _ \<Rightarrow> ''ok'' | Inl e \<Rightarrow> e)"

section \<open>Settings before the kernel is touched\<close>

text \<open>
  On an error the journaled setting writes are undone and the journal goes back to the previous
  committed generation.
\<close>

definition transition_settings ::
  "('w, 'n, 'h) helper \<Rightarrow> 'n kernel_plan \<Rightarrow> ('n, 'h) applied_kernel_state option \<Rightarrow> string option \<Rightarrow>
     ('n, 'h) committed_extras \<Rightarrow> ('n, 'h) stored_state \<Rightarrow> ('w, setting_receipt list) io"
where
  "transition_settings H k previous fingerprint extras r w =
     (case ensure_interface_settings (hp_settings H) (hp_store H) k (r, w) of
        (Inr receipts, (_, w)) \<Rightarrow> (Inr receipts, w)
      | (Inl e, (r, w)) \<Rightarrow>
          io_bind (restore_setting_receipts (hp_settings H) (sa_pending_interface_settings r)) (\<lambda>restored.
          io_bind (io_result (persist_committed (hp_store H) previous fingerprint extras)) (\<lambda>repair.
            io_fail (e @ ''; setting restore: '' @
              (if restored = [] then ''ok'' else join ''; '' restored) @
              ''; state repair: '' @ result_label repair))) w)"

section \<open>Undoing\<close>

definition undo ::
  "('w, 'n::linorder, 'h) helper \<Rightarrow> ('n, 'h) applied_kernel_state option \<Rightarrow> string option \<Rightarrow>
     (u8 \<times> u32) set \<Rightarrow> ('n, 'h) committed_extras \<Rightarrow> setting_receipt list \<Rightarrow> bool \<Rightarrow>
     (('w, 'n, 'h) runner_world, unit) io"
where
  "undo H previous fingerprint lost extras new_settings rollback_succeeded =
     in_world (io_seq (repair_committed_journal_after_rollback H previous fingerprint lost extras
         rollback_succeeded)
       (io_bind (restore_setting_receipts (hp_settings H) new_settings) (\<lambda>diverged.
         io_guard (diverged = []) (join ''; '' diverged))))"

definition roll_back ::
  "('w, 'n::linorder, 'h) helper \<Rightarrow> ('n, 'h) applied_kernel_state option \<Rightarrow> string option \<Rightarrow>
     (u8 \<times> u32) set \<Rightarrow> ('n, 'h) committed_extras \<Rightarrow> setting_receipt list \<Rightarrow> string \<Rightarrow>
     (('w, 'n, 'h) runner_world, 'a) io"
where
  "roll_back H previous fingerprint lost extras new_settings reason =
     io_bind (io_result (runner_restore (hp_system H) previous)) (\<lambda>rollback.
     io_bind (io_result (undo H previous fingerprint lost extras new_settings
         (err_of rollback = None))) (\<lambda>repair.
       io_fail (reason @ ''; rollback: '' @ result_label rollback @ ''; state repair: '' @
         result_label repair)))"

section \<open>The transaction\<close>

definition kernel_transition ::
  "('w, 'n::linorder, 'h) helper \<Rightarrow> ('n, 'h) applied_kernel_state option \<Rightarrow> bool \<Rightarrow> 'n kernel_plan \<Rightarrow>
     ('w, 'n, 'h) runner_world \<Rightarrow>
     ('h apply_error, ('n, 'h) applied_kernel_state) result \<times> ('w, 'n, 'h) runner_world"
where
  "kernel_transition H previous restoring k x =
     (case (restoring, previous) of
        (True, Some failed) \<Rightarrow>
          restore_plan (hp_content H) (command_runner (hp_system H)) failed k x
      | _ \<Rightarrow> apply_plan (hp_content H) (command_runner (hp_system H)) previous k x)"

definition live_routing_fingerprint :: "('w, 'n, 'h) system \<Rightarrow> ('w, string) io" where
  "live_routing_fingerprint Y =
     io_bind (capture_snapshot Y) (\<lambda>c.
       io_lift (and_then (live_routing_ownership (sy_json Y) c)
         (\<lambda>s. Inr (routing_ownership_fingerprint Y s))))"

definition commit_applied ::
  "('w, 'n::linorder, 'h) helper \<Rightarrow> ('n, 'h) applied_kernel_state option \<Rightarrow> string option \<Rightarrow>
     (u8 \<times> u32) set \<Rightarrow> ('n, 'h) committed_extras \<Rightarrow> setting_receipt list \<Rightarrow> pending_expectations \<Rightarrow>
     'h restore_receipt option \<Rightarrow> ('n, 'h) committed_extras \<Rightarrow> ('n, 'h) applied_kernel_state \<Rightarrow>
     (('w, 'n, 'h) runner_world, string) io"
where
  "commit_applied H previous fingerprint lost extras new_settings x receipt committed applied =
     io_bind (io_result (in_world (live_nft_fingerprint (hp_system H)))) (\<lambda>live.
       case live of
         Inl e \<Rightarrow> roll_back H previous fingerprint lost extras new_settings
           (''kernel apply completed but exact nftables state could not be recorded: '' @ e)
       | Inr f \<Rightarrow>
           io_bind (io_result (in_world (live_routing_fingerprint (hp_system H)))) (\<lambda>routing.
             if \<not> (routing = Inr (px_committed_routing x) \<and> f = px_committed x)
             then roll_back H previous fingerprint lost extras new_settings
               (case routing of
                  Inl e \<Rightarrow> e
                | Inr _ \<Rightarrow> ''live kernel state differs from the exact journaled pending commit'')
             else io_bind (io_result (in_world (persist_committed_with_receipt (hp_store H)
                 (Some applied) (Some f) receipt committed))) (\<lambda>persisted.
               case persisted of
                 Inl e \<Rightarrow> roll_back H previous fingerprint lost extras new_settings
                   (''kernel apply completed but state commit failed: '' @ e)
               | Inr _ \<Rightarrow> io_return f)))"

definition commit_transition ::
  "('w, 'n::linorder, 'h) helper \<Rightarrow> ('n, 'h) applied_kernel_state option \<Rightarrow> string option \<Rightarrow>
     (u8 \<times> u32) set \<Rightarrow> ('n, 'h) committed_extras \<Rightarrow> setting_receipt list \<Rightarrow> pending_expectations \<Rightarrow>
     'h restore_receipt option \<Rightarrow> ('n, 'h) committed_extras \<Rightarrow> 'n kernel_plan \<Rightarrow>
     (('w, 'n, 'h) runner_world, ('n, 'h) applied_kernel_state \<times> string) io"
where
  "commit_transition H previous fingerprint lost extras new_settings x receipt committed k y =
     (case kernel_transition H previous (receipt \<noteq> None) k y of
        (Inl e, y) \<Rightarrow>
          io_bind (io_result (undo H previous fingerprint lost extras new_settings
              (rollback_error e = None \<and> cleanup_error e = None))) (\<lambda>repair.
            case repair of
              Inr _ \<Rightarrow> io_fail (error_display e)
            | Inl s \<Rightarrow> io_fail (error_display e @ ''; pending journal retained: '' @ s)) y
      | (Inr applied, y) \<Rightarrow>
          io_bind (commit_applied H previous fingerprint lost extras new_settings x receipt committed
              applied) (\<lambda>f. io_return (applied, f)) y)"

definition pending_record ::
  "('n, 'h) applied_kernel_state option \<Rightarrow> string option \<Rightarrow> ('n, 'h) committed_extras \<Rightarrow>
     'n kernel_plan \<Rightarrow> pending_expectations \<Rightarrow> 'h restore_receipt option \<Rightarrow>
     ('n, 'h) runtime_record option \<Rightarrow> ('n, 'h) stored_state"
where
  "pending_record previous fingerprint extras k x receipt runtime = default_stored\<lparr>
     sa_active := map_option ak_plan previous, sa_active_nft_fingerprint := fingerprint,
     sa_pending := Some k, sa_pending_expectations := Some x, sa_restore_receipt := receipt,
     sa_interface_settings := ce_settings extras, sa_runtime := ce_runtime extras,
     sa_pending_runtime := runtime, sa_runtime_restore := ce_runtime_restore extras\<rparr>"

text \<open>A restore transition always has a current plan; without one the code panics.\<close>

definition transition_with ::
  "('w, 'n::linorder, 'h) helper \<Rightarrow> 'n kernel_plan \<Rightarrow> 'h restore_receipt option \<Rightarrow> (u8 \<times> u32) set \<Rightarrow>
     ('n, 'h) runtime_record option \<Rightarrow> ('n, 'h) runtime_restore_receipt option \<Rightarrow>
     (('w, 'n, 'h) backend_world, 'h apply_response) io"
where
  "transition_with H k receipt lost runtime runtime_restore =
     io_bind (io_gets (\<lambda>b. b)) (\<lambda>b.
     let previous = be_current b; fingerprint = be_fingerprint b; extras = backend_extras b in
     io_seq (in_world (preflight_plan (hp_system H) previous k))
     (io_bind (io_lift (build_pending_expectations_from (hp_system H) (map_option ak_plan previous)
         lost k)) (\<lambda>x.
     let r = pending_record previous fingerprint extras k x receipt runtime in
     io_seq (in_world (js_save (hp_store H) r))
     (io_seq (io_modify (be_restore_receipt_update (\<lambda>_. None)))
     (io_bind (in_world (transition_settings H k previous fingerprint extras r)) (\<lambda>new_settings.
     let committed = \<lparr>ce_settings = ce_settings extras @ new_settings, ce_runtime = runtime,
           ce_runtime_restore = runtime_restore\<rparr> in
     io_seq (io_guard (\<not> (receipt \<noteq> None \<and> previous = None))
         ''restore transition has a failed candidate'')
     (io_bind (in_world (with_state (with_lost_unicast lost (new_runner previous))
         (commit_transition H previous fingerprint lost extras new_settings x receipt committed k)))
       (\<lambda>(applied, f).
       io_seq (io_modify (\<lambda>b. b\<lparr>be_current := Some applied, be_fingerprint := Some f,
           be_interface_settings := ce_settings committed,
           be_runtime_restore := ce_runtime_restore committed, be_restore_receipt := receipt\<rparr>))
         (io_return (response_of (hp_content H) k []))))))))))"

end
