(* ===== verification/Orphan.thy ===== *)
theory Orphan
  imports Ownership "HOL-Library.Option_ord"
begin

text \<open>
  Recovery without a journal (\<open>capture_verified_orphaned_ownership\<close> and \<open>resume_orphan_cleanup\<close> in
  \<open>src/src/backend/privileged.rs\<close>): resources left by a helper whose journal is gone are taken over
  only if they are exactly of the reserved shape and the table carries its own content seal, and they
  are journaled before the first of them is removed.
\<close>

section \<open>The order of ownership sets\<close>

text \<open>\<open>#[derive(Ord)]\<close>: the fields in their order.\<close>

definition rule_order_key :: "('a) rule_ownership_scheme \<Rightarrow> u8 \<times> u32 \<times> u32 \<times> u32 \<times> 'a" where
  "rule_order_key r = (uo_family r, uo_priority r, uo_table r, uo_mark r, rule_ownership.more r)"

definition route_order_key ::
  "('a) route_ownership_scheme \<Rightarrow> u8 \<times> u32 \<times> string option \<times> string \<times> bool \<times> 'a"
where
  "route_order_key r = (ro_family r, ro_table r, ro_gateway r, ro_interface r, ro_terminal r,
     route_ownership.more r)"

lemma order_keys_inj: "rule_order_key a = rule_order_key b \<longleftrightarrow> a = b"
  "route_order_key c = route_order_key d \<longleftrightarrow> c = d"
  by (auto simp: rule_order_key_def route_order_key_def)

instantiation rule_ownership_ext :: (linorder) linorder
begin

definition less_eq_rule_ownership_ext ::
  "'a rule_ownership_scheme \<Rightarrow> 'a rule_ownership_scheme \<Rightarrow> bool" where
  "less_eq_rule_ownership_ext a b \<longleftrightarrow> rule_order_key a \<le> rule_order_key b"

definition less_rule_ownership_ext ::
  "'a rule_ownership_scheme \<Rightarrow> 'a rule_ownership_scheme \<Rightarrow> bool" where
  "less_rule_ownership_ext a b \<longleftrightarrow> rule_order_key a < rule_order_key b"

instance
  by intro_classes
    (auto simp: less_eq_rule_ownership_ext_def less_rule_ownership_ext_def order_keys_inj
      less_le_not_le intro: order_trans dest: antisym)

end

instantiation route_ownership_ext :: (linorder) linorder
begin

definition less_eq_route_ownership_ext ::
  "'a route_ownership_scheme \<Rightarrow> 'a route_ownership_scheme \<Rightarrow> bool" where
  "less_eq_route_ownership_ext a b \<longleftrightarrow> route_order_key a \<le> route_order_key b"

definition less_route_ownership_ext ::
  "'a route_ownership_scheme \<Rightarrow> 'a route_ownership_scheme \<Rightarrow> bool" where
  "less_route_ownership_ext a b \<longleftrightarrow> route_order_key a < route_order_key b"

instance
  by intro_classes
    (auto simp: less_eq_route_ownership_ext_def less_route_ownership_ext_def order_keys_inj
      less_le_not_le intro: order_trans dest: antisym)

end

definition ordered_rules :: "routing_ownership \<Rightarrow> rule_ownership list" where
  "ordered_rules s = sorted_list_of_set (own_rules s)"

definition ordered_routes :: "routing_ownership \<Rightarrow> route_ownership list" where
  "ordered_routes s = sorted_list_of_set (own_routes s)"

section \<open>Routing that nobody journaled\<close>

definition checked_sub :: "u32 \<Rightarrow> u32 \<Rightarrow> u32 option" where
  "checked_sub a b = (if b \<le> a then Some (a - b) else None)"

definition check_orphan_rule :: "routing_ownership \<Rightarrow> rule_ownership \<Rightarrow> (string, unit) result" where
  "check_orphan_rule s r =
     (let slot = checked_sub (uo_table r) TABLE_BASE in
      and_then (require (slot = checked_sub (uo_priority r) RULE_PRIORITY_BASE \<and>
          slot = checked_sub (uo_mark r) MARK_BASE)
        ''ambiguous RouteLane ownership: policy rule does not match a reserved lane tuple'') (\<lambda>_.
      require (card {c \<in> own_rules s. uo_family c = uo_family r \<and> uo_table c = uo_table r} = 1)
        ''ambiguous RouteLane ownership: routing table has multiple policy rules''))"

definition check_orphan_route :: "routing_ownership \<Rightarrow> route_ownership \<Rightarrow> (string, unit) result" where
  "check_orphan_route s r =
     require (card {c \<in> own_routes s. ro_family c = ro_family r \<and> ro_table c = ro_table r \<and>
         ro_terminal c = ro_terminal r} = 1)
       ''ambiguous RouteLane ownership: routing table has multiple default routes''"

definition validate_orphan_routing :: "routing_ownership \<Rightarrow> (string, unit) result" where
  "validate_orphan_routing s =
     and_then (try_each (check_orphan_rule s) (ordered_rules s))
       (\<lambda>_. try_each (check_orphan_route s) (ordered_routes s))"

section \<open>A table that nobody journaled\<close>

definition parse_u64 :: "string \<Rightarrow> int option" where
  "parse_u64 s = parse_radix 10 (2 ^ 64) s"

definition valid_state_chain_name :: "string \<Rightarrow> bool" where
  "valid_state_chain_name name =
     (case option_bind (strip_prefix ''state_g'' name) (split_once (CHR ''_'')) of
        None \<Rightarrow> False
      | Some (generation, fingerprint) \<Rightarrow>
          (case parse_u64 generation of None \<Rightarrow> False | Some g \<Rightarrow> 0 < g) \<and>
          length fingerprint = 16 \<and> list_all is_lower_hex_digit fingerprint)"

definition owned_hook :: "string \<Rightarrow> (string \<times> string \<times> int) option" where
  "owned_hook name =
     (if name = ''output'' then Some (''route'', ''output'', - 150)
      else if name = ''prerouting'' then Some (''filter'', ''prerouting'', - 150)
      else if name = ''egress_guard'' then Some (''filter'', ''postrouting'', 99)
      else if name = ''source_nat'' then Some (''nat'', ''postrouting'', 100)
      else if name = ''guard'' then Some (''route'', ''output'', - 149)
      else None)"

definition is_seal_digest :: "string \<Rightarrow> bool" where
  "is_seal_digest d \<longleftrightarrow> length d = 64 \<and> list_all is_lower_hex_digit d"

definition is_selector_mark :: "string \<Rightarrow> bool" where
  "is_selector_mark mark \<longleftrightarrow>
     length mark = 8 \<and>
     (case parse_u32_hex mark of None \<Rightarrow> False | Some m \<Rightarrow> MARK_BASE \<le> m \<and> m \<le> MARK_MAX)"

definition suffix_ok :: "string \<Rightarrow> (string \<Rightarrow> bool) \<Rightarrow> string \<Rightarrow> bool" where
  "suffix_ok prefix ok name = (case strip_prefix prefix name of None \<Rightarrow> False | Some s \<Rightarrow> ok s)"

definition modern_owned_chain :: "json \<Rightarrow> bool" where
  "modern_owned_chain chain =
     (case as_str (jindex chain ''name'') of
        None \<Rightarrow> False
      | Some name \<Rightarrow>
          (case owned_hook name of
             Some (kind, hook, priority) \<Rightarrow>
               jindex chain ''type'' = JString kind \<and> jindex chain ''hook'' = JString hook \<and>
               jindex chain ''prio'' = JInt priority \<and> jindex chain ''policy'' = JString ''accept''
           | None \<Rightarrow>
               (name = ''restore4'' \<or> name = ''restore6'' \<or> valid_state_chain_name name \<or>
                 suffix_ok POLICY_SEAL_PREFIX is_seal_digest name \<or>
                 suffix_ok ''select4_'' is_selector_mark name \<or>
                 suffix_ok ''select6_'' is_selector_mark name) \<and>
               list_all (\<lambda>k. \<not> has k chain) [''type'', ''hook'', ''prio'', ''policy'']))"

datatype object_kind = KindTable | KindChain | KindRule

definition object_kind :: "json \<Rightarrow> (object_kind \<times> json) option" where
  "object_kind obj =
     (case jget ''table'' obj of
        Some v \<Rightarrow> Some (KindTable, v)
      | None \<Rightarrow>
          (case jget ''chain'' obj of
             Some v \<Rightarrow> Some (KindChain, v)
           | None \<Rightarrow> map_option (Pair KindRule) (jget ''rule'' obj)))"

record orphan_count =
  oc_tables :: nat
  oc_outputs :: nat
  oc_markers :: nat
  oc_chains :: "string set"

definition member_is :: "string \<Rightarrow> string \<Rightarrow> json \<Rightarrow> bool" where
  "member_is k s v \<longleftrightarrow> option_bind (jget k v) as_str = Some s"

definition check_orphan_chain ::
  "bool \<Rightarrow> json \<Rightarrow> orphan_count \<Rightarrow> (string, orphan_count) result"
where
  "check_orphan_chain modern v c =
     and_then (ok_or ''RouteLane nftables chain has no name'' (option_bind (jget ''name'' v) as_str))
       (\<lambda>name.
     if name \<in> oc_chains c then Inl ''RouteLane nftables chain is duplicated''
     else let c = c\<lparr>oc_chains := insert name (oc_chains c)\<rparr> in
     if modern \<and> \<not> modern_owned_chain v
     then Inl ''RouteLane nftables chain does not match an exact owned hook or selector''
     else if name = ''output'' then Inr (c\<lparr>oc_outputs := oc_outputs c + 1\<rparr>)
     else if valid_state_chain_name name then Inr (c\<lparr>oc_markers := oc_markers c + 1\<rparr>)
     else if modern then Inr c
     else Inl ''RouteLane nftables table contains an unrecognized ownership marker'')"

definition orphan_rule_permitted :: "bool \<Rightarrow> json \<Rightarrow> orphan_count \<Rightarrow> bool" where
  "orphan_rule_permitted modern v c =
     (let name = option_bind (jget ''chain'' v) as_str in
      if modern
      then (case name of
          None \<Rightarrow> False
        | Some n \<Rightarrow> n \<in> oc_chains c \<and> \<not> valid_state_chain_name n \<and>
            strip_prefix POLICY_SEAL_PREFIX n = None)
      else name = Some ''output'')"

definition check_orphan_object ::
  "bool \<Rightarrow> orphan_count \<Rightarrow> json \<Rightarrow> (string, orphan_count) result"
where
  "check_orphan_object modern c obj =
     (if has ''metainfo'' obj then Inr c
      else and_then (ok_or ''RouteLane nftables table contains an unknown object'' (object_kind obj))
        (\<lambda>(kind, v).
         if \<not> member_is ''family'' ''inet'' v \<or>
            kind \<noteq> KindTable \<and> \<not> member_is ''table'' ''routelane'' v \<or>
            kind = KindTable \<and> \<not> member_is ''name'' ''routelane'' v
         then Inl ''RouteLane nftables ownership document crosses its reserved table boundary''
         else (case kind of
             KindTable \<Rightarrow> Inr (c\<lparr>oc_tables := oc_tables c + 1\<rparr>)
           | KindChain \<Rightarrow> check_orphan_chain modern v c
           | KindRule \<Rightarrow>
               if orphan_rule_permitted modern v c then Inr c
               else Inl ''RouteLane nftables rule is outside the owned output chain'')))"

definition validate_orphan_nft_document ::
  "('n, 'h) digests \<Rightarrow> json \<Rightarrow> (string, unit) result"
where
  "validate_orphan_nft_document D doc =
     and_then (ok_or ''RouteLane nftables ownership document is invalid'' (nft_objects doc)) (\<lambda>objects.
     let modern = list_ex (\<lambda>obj. seal_name obj \<noteq> None) objects in
     and_then (require (\<not> (modern \<and> \<not> has_valid_policy_seal D doc))
       (''RouteLane nftables ownership content seal does not match the complete live '' @ ''table'')) (\<lambda>_.
     and_then (require (\<not> (modern \<and> list_ex (\<lambda>obj. chain_name obj = JString ''guard'') objects))
       ''RouteLane temporary guard requires its exact transaction journal for recovery'') (\<lambda>_.
     and_then (try_fold (check_orphan_object modern)
         \<lparr>oc_tables = 0, oc_outputs = 0, oc_markers = 0, oc_chains = {}\<rparr> objects) (\<lambda>c.
     and_then (require (oc_tables c = 1 \<and> oc_outputs c = 1 \<and> oc_markers c = 1)
       ''RouteLane nftables table has no unique validated ownership marker'') (\<lambda>_.
       require (\<not> (modern \<and> list_ex (\<lambda>n. n \<notin> oc_chains c)
           [''restore4'', ''restore6'', ''prerouting'', ''egress_guard'', ''source_nat'']))
         ''RouteLane nftables policy is missing a required owned chain'')))))"

definition capture_verified_orphaned_ownership ::
  "('w, 'n::linorder, 'h) system \<Rightarrow> ('w, orphaned_ownership) io"
where
  "capture_verified_orphaned_ownership Y =
     io_bind (capture_snapshot Y) (\<lambda>c.
     io_bind (io_lift (live_routing_ownership (sy_json Y) c)) (\<lambda>routing.
     io_seq (io_lift (validate_orphan_routing routing))
     (io_bind
       (if table_present c
        then io_bind (read_nft_table Y) (\<lambda>doc.
          io_seq (io_lift (validate_orphan_nft_document (sy_digests Y) doc))
            (io_return (Some (nft_document_fingerprint Y doc))))
        else io_return None) (\<lambda>fingerprint.
      io_seq (io_guard (\<not> (fingerprint = None \<and> routing \<noteq> empty_ownership))
        (''ambiguous RouteLane ownership: reserved routing resources have no '' @
          ''ownership-marked nftables table''))
       (io_return \<lparr>oo_nft_fingerprint = fingerprint, oo_routing = routing\<rparr>)))))"

section \<open>Removing it\<close>

definition orphan_journal :: "orphaned_ownership \<Rightarrow> ('n, 'h) stored_state" where
  "orphan_journal oo = default_stored\<lparr>sa_orphan_cleanup := Some oo\<rparr>"

definition remove_orphan_rule_command :: "rule_ownership \<Rightarrow> command_spec" where
  "remove_orphan_rule_command r =
     rule_command ''del'' (family_of_number (uo_family r)) (uo_priority r) (uo_table r) (uo_mark r)"

definition flush_orphan_table_command :: "route_ownership \<Rightarrow> command_spec" where
  "flush_orphan_table_command r =
     ip_command (family_of_number (ro_family r)) [''route'', ''flush'', ''table'',
       word_to_string (ro_table r)]"

fun remove_orphan_rules ::
  "('w, 'n, 'h) helper \<Rightarrow> rule_ownership list \<Rightarrow> orphaned_ownership \<Rightarrow> ('w, orphaned_ownership) io"
where
  "remove_orphan_rules H [] oo = io_return oo"
| "remove_orphan_rules H (r # rs) oo =
     io_bind (run_required (sy_execute (hp_system H)) (remove_orphan_rule_command r)
       ''remove verified orphan RouteLane policy rule'') (\<lambda>_.
     let oo = oo\<lparr>oo_routing := (oo_routing oo)\<lparr>own_rules := own_rules (oo_routing oo) - {r}\<rparr>\<rparr> in
     io_seq (js_save (hp_store H) (orphan_journal oo)) (remove_orphan_rules H rs oo))"

fun remove_orphan_routes ::
  "('w, 'n, 'h) helper \<Rightarrow> route_ownership list \<Rightarrow> orphaned_ownership \<Rightarrow> ('w, orphaned_ownership) io"
where
  "remove_orphan_routes H [] oo = io_return oo"
| "remove_orphan_routes H (r # rs) oo =
     io_bind (run_required (sy_execute (hp_system H)) (flush_orphan_table_command r)
       ''flush verified orphan RouteLane routing table'') (\<lambda>_.
     let oo = oo\<lparr>oo_routing := (oo_routing oo)\<lparr>own_routes :=
           {c \<in> own_routes (oo_routing oo). ro_family c \<noteq> ro_family r \<or> ro_table c \<noteq> ro_table r}\<rparr>\<rparr> in
     io_seq (js_save (hp_store H) (orphan_journal oo)) (remove_orphan_routes H rs oo))"

text \<open>The proof that the journal owns what is live, before the first removal.\<close>

definition verify_orphan_ownership ::
  "('w, 'n::linorder, 'h) system \<Rightarrow> orphaned_ownership \<Rightarrow> ('w, orphaned_ownership) io"
where
  "verify_orphan_ownership Y oo =
     io_bind (capture_snapshot Y) (\<lambda>c.
     io_bind (io_lift (live_routing_ownership (sy_json Y) c)) (\<lambda>live.
     io_bind
       (if table_present c
        then io_bind (io_lift (ok_or ''orphan cleanup journal does not own the live nftables table''
            (oo_nft_fingerprint oo))) (\<lambda>expected.
          io_bind (live_nft_fingerprint Y) (\<lambda>f.
          io_seq (io_guard (f = expected)
            ''orphan cleanup journal does not exactly own the live inet/routelane table'')
            (io_return oo)))
        else if live \<noteq> empty_ownership
        then io_fail ''orphan cleanup table is missing while routing resources remain''
        else io_return (oo\<lparr>oo_nft_fingerprint := None\<rparr>)) (\<lambda>oo.
      io_seq (io_guard (routing_ownership_is_subset live (oo_routing oo))
        ''orphan cleanup journal conflicts with live routing resources'')
        (io_return (oo\<lparr>oo_routing := live\<rparr>)))))"

definition remove_orphan_table ::
  "('w, 'n::linorder, 'h) helper \<Rightarrow> orphaned_ownership \<Rightarrow> ('w, unit) io"
where
  "remove_orphan_table H oo =
     (case oo_nft_fingerprint oo of
        None \<Rightarrow> io_return ()
      | Some expected \<Rightarrow>
          io_bind (read_nft_table (hp_system H)) (\<lambda>doc.
          io_seq (io_guard (nft_document_fingerprint (hp_system H) doc = expected)
            ''orphan cleanup journal does not exactly own the live inet/routelane table'')
          (io_seq (run_nft_batch (sy_execute (hp_system H)) delete_table_batch
            ''delete verified orphan RouteLane nftables table'')
            (js_save (hp_store H) (orphan_journal (oo\<lparr>oo_nft_fingerprint := None\<rparr>))))))"

definition resume_orphan_cleanup ::
  "('w, 'n::linorder, 'h) helper \<Rightarrow> ('w, unit) io"
where
  "resume_orphan_cleanup H =
     io_bind (js_load (hp_store H)) (\<lambda>j.
     io_bind (io_lift (ok_or ''orphan cleanup journal is missing'' j)) (\<lambda>r.
     io_seq (io_lift (validate_orphan_journal r))
     (io_bind (io_lift (ok_or ''validated orphan journal'' (sa_orphan_cleanup r))) (\<lambda>oo.
     io_bind (verify_orphan_ownership (hp_system H) oo) (\<lambda>oo.
     io_seq (js_save (hp_store H) (orphan_journal oo))
     (io_bind (remove_orphan_rules H (ordered_rules (oo_routing oo)) oo) (\<lambda>oo.
      io_bind (remove_orphan_routes H (ordered_routes (oo_routing oo)) oo) (\<lambda>oo.
      io_seq (remove_orphan_table H oo)
      (io_bind (capture_snapshot (hp_system H)) (\<lambda>c.
       io_bind (io_lift (no_live_resources (hp_system H) c)) (\<lambda>none.
       io_seq (io_guard none ''verified orphan RouteLane resources remain after cleanup'')
         (js_clear (hp_store H)))))))))))))"

end
