(* ===== verification/Legacy_Cleanup.thy ===== *)
theory Legacy_Cleanup
  imports Transition Orphan
begin

text \<open>
  Cleanup of what earlier releases left (\<open>cleanup_legacy\<close>, \<open>cleanup_legacy_v2\<close> and their checks in
  \<open>src/src/backend/privileged.rs\<close>). Such a record is evidence only: it is proved against the live
  kernel before every removal, marked in the journal before the first one, and never becomes a plan.
\<close>

record cleanup_response =
  cu_cleaned :: bool
  cu_diagnostics :: "string list"

definition delete_table ::
  "('w, 'n, 'h) system \<Rightarrow> string \<Rightarrow> ('w, unit) io"
where
  "delete_table Y context = run_nft_batch (sy_execute Y) delete_table_batch context"

definition legacy_v1_journal :: "'n legacy_journal_v1 \<Rightarrow> ('n, 'h) stored_state" where
  "legacy_v1_journal r = default_stored\<lparr>sa_legacy_v1 := Some r\<rparr>"

definition legacy_v2_journal :: "('n, 'h) legacy_journal_v2 \<Rightarrow> ('n, 'h) stored_state" where
  "legacy_v2_journal r = default_stored\<lparr>sa_legacy_v2 := Some r\<rparr>"

section \<open>Schema 1\<close>

definition legacy_nft_fingerprint :: "('w, 'n, 'h) system \<Rightarrow> json \<Rightarrow> string" where
  "legacy_nft_fingerprint Y doc = dg_policy (sy_digests Y) (legacy_normalize doc)"

definition names_chain :: "string \<Rightarrow> json \<Rightarrow> bool" where
  "names_chain marker obj \<longleftrightarrow>
     option_bind (option_bind (jget ''chain'' obj) (jget ''name'')) as_str = Some marker"

definition verify_legacy_v1 ::
  "('w, 'n, 'h) helper \<Rightarrow> 'n legacy_plan_v1 \<Rightarrow> string \<Rightarrow> bool \<Rightarrow> ('w, bool) io"
where
  "verify_legacy_v1 H active fingerprint exact =
     (let Y = hp_system H; expected = legacy_ownership active in
      io_bind (capture_snapshot Y) (\<lambda>c.
      io_bind (io_lift (live_routing_ownership (sy_json Y) c)) (\<lambda>live.
      io_seq (io_guard (if exact then live = expected else routing_ownership_is_subset live expected)
        ''schema-1 journal does not own the exact live RouteLane routing state'')
      (if \<not> table_present c
       then (if live = empty_ownership \<and> \<not> exact then io_return False
             else io_fail ''schema-1 journal is missing its committed nftables table'')
       else io_bind (read_nft_table_once Y) (\<lambda>doc.
         let marked = (case nft_objects doc of
               None \<Rightarrow> False
             | Some objects \<Rightarrow>
                 list_ex (names_chain (legacy_state_chain_name (hp_legacy_digest H) active)) objects)
         in io_seq (io_guard (\<not> (\<not> marked \<or> legacy_nft_fingerprint Y doc \<noteq> fingerprint))
             ''schema-1 journal does not exactly own the live inet/routelane table'')
           (io_return True))))))"

definition remove_legacy_rule :: "('w, 'n, 'h) system \<Rightarrow> rule_ownership \<Rightarrow> ('w, unit) io" where
  "remove_legacy_rule Y r =
     run_routing_step Y ''remove schema-1 RouteLane policy rule''
       (DeleteRule (family_of_number (uo_family r)) (uo_priority r) (uo_table r) (uo_mark r))"

definition flush_legacy_route :: "('w, 'n, 'h) system \<Rightarrow> route_ownership \<Rightarrow> ('w, unit) io" where
  "flush_legacy_route Y r =
     run_routing_step Y ''flush schema-1 RouteLane routing table''
       (FlushTable (family_of_number (ro_family r)) (ro_table r))"

definition clean_legacy_v1 ::
  "('w, 'n::linorder, 'h) helper \<Rightarrow> 'n legacy_journal_v1 \<Rightarrow> 'n legacy_plan_v1 \<Rightarrow> string \<Rightarrow> ('w, unit) io"
where
  "clean_legacy_v1 H r active fingerprint =
     (let Y = hp_system H; expected = legacy_ownership active in
      io_bind (verify_legacy_v1 H active fingerprint (\<not> j1_cleanup_pending r)) (\<lambda>present.
      io_seq (js_save (hp_store H) (legacy_v1_journal (r\<lparr>j1_cleanup_pending := True\<rparr>)))
      (io_seq (io_each (remove_legacy_rule Y) (ordered_rules expected))
      (io_seq (io_each (flush_legacy_route Y) (ordered_routes expected))
      (io_bind (if present then verify_legacy_v1 H active fingerprint False else io_return False)
        (\<lambda>present.
      io_seq (if present then delete_table Y ''delete schema-1 RouteLane nftables table''
              else io_return ())
      (io_seq (verify_exact_kernel_state Y None None)
        (js_clear (hp_store H)))))))))"

definition cleanup_legacy ::
  "('w, 'n::linorder, 'h) helper \<Rightarrow> (('w, 'n, 'h) backend_world, cleanup_response) io"
where
  "cleanup_legacy H =
     io_bind (io_gets be_legacy) (\<lambda>legacy.
     io_bind (io_lift (ok_or ''legacy cleanup requires a schema-1 record'' legacy)) (\<lambda>r.
     io_seq (io_guard (j1_pending r = None \<and> j1_pending_expectations r = None \<and>
         j1_orphan_cleanup r = None)
       (''an interrupted schema-1 transaction cannot be proven by this helper; leaving its '' @
         ''resources untouched''))
     (case j1_active r of
        None \<Rightarrow>
          io_seq (in_world (js_clear (hp_store H)))
          (io_seq (io_modify (be_legacy_update (\<lambda>_. None)))
            (io_return \<lparr>cu_cleaned = False,
              cu_diagnostics = [''no schema-1 RouteLane ownership to clean'']\<rparr>))
      | Some active \<Rightarrow>
          io_bind (io_lift (ok_or ''schema-1 journal is missing its nftables fingerprint''
            (j1_active_nft_fingerprint r))) (\<lambda>fingerprint.
          io_seq (in_world (clean_legacy_v1 H r active fingerprint))
          (io_seq (io_modify (be_legacy_update (\<lambda>_. None)))
            (io_return \<lparr>cu_cleaned = True, cu_diagnostics = []\<rparr>))))))"

section \<open>Schema 2\<close>

text \<open>
  The frozen renderer of \<open>src/src/backend/legacy_nft_v2.rs\<close> repeats, function by function, the text of
  the current one without the reading of symbolic indices and of seals; it is the same function.
\<close>

definition legacy_render_nft_document ::
  "('n::linorder) foreign \<Rightarrow> ('n, 'h) digests \<Rightarrow> 'n legacy_plan_v2 option \<Rightarrow>
     'n legacy_plan_v2 option \<Rightarrow> bool \<Rightarrow> json option"
where
  "legacy_render_nft_document X D active pending guard = render_nft_document X D active pending guard"

definition legacy_v2_basis :: "'n legacy_plan_v2 \<Rightarrow> (u8 \<times> u32) set \<Rightarrow> 'n legacy_plan_v2" where
  "legacy_v2_basis k lost = k\<lparr>kp_lanes := map (lose_routes lost) (kp_lanes k)\<rparr>"

definition legacy_v2_expected_nft ::
  "('w, 'n::linorder, 'h) system \<Rightarrow> 'n legacy_plan_v2 option \<Rightarrow> 'n legacy_plan_v2 option \<Rightarrow> bool \<Rightarrow>
     (string, string) result"
where
  "legacy_v2_expected_nft Y active pending guard =
     and_then (ok_or panicked
         (legacy_render_nft_document (sy_foreign Y) (sy_digests Y) active pending guard))
       (\<lambda>doc. Inr (nft_document_fingerprint Y doc))"

text \<open>The tables and lane ids seen so far are the accumulator of the inner loop.\<close>

definition legacy_lane_ok :: "lane_plan \<Rightarrow> u32 set \<times> lane_id set \<Rightarrow> (string, u32 set \<times> lane_id set) result"
where
  "legacy_lane_ok l seen =
     (case checked_sub (lp_table l) TABLE_BASE of
        None \<Rightarrow> Inl ''invalid schema-2 reserved table''
      | Some slot \<Rightarrow>
          if \<not> slot < 100 then Inl ''invalid schema-2 reserved table''
          else if lp_table l \<in> fst seen \<or> lp_mark l \<noteq> MARK_BASE + slot \<or>
            lp_rule_priority l \<noteq> RULE_PRIORITY_BASE + slot \<or> lp_id l \<in> snd seen \<or>
            \<not> is_kernel_interface_name (lp_interface l)
          then Inl ''invalid schema-2 reserved lane tuple''
          else Inr (insert (lp_table l) (fst seen), insert (lp_id l) (snd seen)))"

definition legacy_plan_ok :: "'n legacy_plan_v2 \<Rightarrow> (string, unit) result" where
  "legacy_plan_ok k =
     and_then (require (\<not> (kp_generation k = 0 \<or> 100 < length (kp_lanes k)))
       ''invalid schema-2 plan bounds'') (\<lambda>_.
     and_then (try_fold (\<lambda>seen l. legacy_lane_ok l seen) ({}, {}) (kp_lanes k)) (\<lambda>_. Inr ()))"

definition legacy_pending_ok ::
  "('w, 'n::linorder, 'h) system \<Rightarrow> 'n legacy_plan_v2 option \<Rightarrow> 'n legacy_plan_v2 \<Rightarrow>
     pending_expectations \<Rightarrow> (string, unit) result"
where
  "legacy_pending_ok Y active pending x =
     and_then (legacy_v2_expected_nft Y active (Some pending) True) (\<lambda>guard.
     and_then (legacy_v2_expected_nft Y active (Some pending) False) (\<lambda>guardless.
     and_then (legacy_v2_expected_nft Y (Some pending) None True) (\<lambda>activated.
     and_then (legacy_v2_expected_nft Y (Some pending) None False) (\<lambda>committed.
       require (px_guard x = guard \<and> px_guardless_transaction x = guardless \<and>
           px_activated x = activated \<and> px_committed x = committed \<and>
           px_committed_routing x =
             routing_ownership_fingerprint Y (plan_routing_ownership (kp_lanes pending)) \<and>
           px_routing_model x = routing_model_fingerprint Y
             (map_option (\<lambda>k. legacy_v2_basis k (px_lost_unicast x)) active) pending)
         ''schema-2 pending expectations do not match frozen policy''))))"

definition plans_of :: "('n, 'h) legacy_journal_v2 \<Rightarrow> 'n legacy_plan_v2 list" where
  "plans_of r = (case j2_active r of Some k \<Rightarrow> [k] | None \<Rightarrow> []) @
     (case j2_pending r of Some k \<Rightarrow> [k] | None \<Rightarrow> [])"

definition validate_legacy_v2_evidence ::
  "('w, 'n::linorder, 'h) system \<Rightarrow> ('n, 'h) legacy_journal_v2 \<Rightarrow> (string, unit) result"
where
  "validate_legacy_v2_evidence Y r =
     and_then (try_each legacy_plan_ok (plans_of r)) (\<lambda>_.
     and_then
       (case (j2_active r, j2_active_nft_fingerprint r) of
          (Some k, Some f) \<Rightarrow>
            and_then (legacy_v2_expected_nft Y (Some k) None False) (\<lambda>expected.
              require (f = expected) ''schema-2 committed fingerprint does not match frozen policy'')
        | (None, None) \<Rightarrow> Inr ()
        | _ \<Rightarrow> Inl ''schema-2 committed fingerprint does not match frozen policy'') (\<lambda>_.
     (case (j2_pending r, j2_pending_expectations r) of
        (None, None) \<Rightarrow> Inr ()
      | (Some k, Some x) \<Rightarrow> legacy_pending_ok Y (j2_active r) k x
      | _ \<Rightarrow> Inl ''schema-2 pending plan/expectations are incomplete'')))"

definition legacy_v2_phase ::
  "('n, 'h) legacy_journal_v2 \<Rightarrow> string option \<Rightarrow> pending_nft_phase option"
where
  "legacy_v2_phase r fingerprint =
     (let phase = (if fingerprint = j2_active_nft_fingerprint r \<and> fingerprint \<noteq> None
                   then Some Untouched else None)
      in case j2_pending_expectations r of
           None \<Rightarrow> phase
         | Some x \<Rightarrow>
             if fingerprint = None then Some RollbackAbsent
             else fold (\<lambda>(f, p) phase. if fingerprint = Some f then Some p else phase)
               [(px_guard x, Guard), (px_guardless_transaction x, GuardlessTransaction),
                (px_activated x, Activated), (px_committed x, Committed)] phase)"

definition legacy_v2_routing_ok ::
  "('n, 'h) legacy_journal_v2 \<Rightarrow> routing_ownership \<Rightarrow> pending_nft_phase \<Rightarrow> (string, bool) result"
where
  "legacy_v2_routing_ok r live phase =
     (case j2_pending r of
        Some pending \<Rightarrow>
          and_then (ok_or ''validated pending expectations'' (j2_pending_expectations r)) (\<lambda>x.
          let active = map_option (\<lambda>k. kp_lanes (legacy_v2_basis k (px_lost_unicast x))) (j2_active r)
          in if phase = RollbackAbsent \<and> j2_cleanup_pending r
             then Inr (list_ex (\<lambda>s. s = live \<or> rollback_prefix_reaches s active (kp_lanes pending) live)
               (build_absent_rollback_states active))
             else map_err model_message
               (routing_state_reachable_for_phase live active (kp_lanes pending) phase))
      | None \<Rightarrow>
          (case j2_active r of
             Some active \<Rightarrow>
               (let initial = plan_routing_ownership (kp_lanes active)
                in Inr (live = initial \<or> j2_cleanup_pending r \<and>
                  rollback_prefix_reaches initial None (kp_lanes active) live))
           | None \<Rightarrow> Inr (live = empty_ownership)))"

definition verify_legacy_v2_live ::
  "('w, 'n::linorder, 'h) system \<Rightarrow> ('n, 'h) legacy_journal_v2 \<Rightarrow> ('w, bool) io"
where
  "verify_legacy_v2_live Y r =
     io_bind (capture_snapshot Y) (\<lambda>c.
     io_bind (io_lift (live_routing_ownership (sy_json Y) c)) (\<lambda>live.
     if \<not> table_present c \<and> j2_cleanup_pending r \<and> live = empty_ownership then io_return False
     else io_bind (if table_present c
         then io_bind (live_nft_fingerprint Y) (\<lambda>f. io_return (Some f)) else io_return None)
       (\<lambda>fingerprint.
     io_bind (io_lift (ok_or ''schema-2 journal does not exactly own the live nftables state''
       (legacy_v2_phase r fingerprint))) (\<lambda>phase.
     io_bind (io_lift (legacy_v2_routing_ok r live phase)) (\<lambda>valid.
     io_seq (io_guard valid ''schema-2 cleanup is outside an exact owned command prefix'')
       (io_return (table_present c)))))))"

definition check_legacy_identities ::
  "('w, 'n, 'h) helper \<Rightarrow> ('n, 'h) legacy_journal_v2 \<Rightarrow> ('w, unit) io"
where
  "check_legacy_identities H r =
     io_each (\<lambda>i. io_bind (rpf_identity (hp_settings H) (ii_name i)) (\<lambda>found.
         io_guard (found = i) ''schema-2 interface identity changed; refusing cleanup''))
       (List.map_filter lp_identity (concat (map kp_lanes (plans_of r))))"

definition remove_legacy_step ::
  "('w, 'n::linorder, 'h) system \<Rightarrow> ('n, 'h) legacy_journal_v2 \<Rightarrow> routing_step \<Rightarrow> ('w, unit) io"
where
  "remove_legacy_step Y r step =
     io_bind (verify_legacy_v2_live Y r) (\<lambda>_.
       run_routing_step Y ''remove exact schema-2 RouteLane resource'' step)"

definition legacy_v2_receipts :: "('n, 'h) legacy_journal_v2 \<Rightarrow> setting_receipt list" where
  "legacy_v2_receipts r =
     fold (\<lambda>x receipts. if sr_identity x \<in> sr_identity ` set receipts then receipts
         else receipts @ [x])
       (j2_pending_interface_settings r) (j2_interface_settings r)"

definition prove_legacy_v2 ::
  "('w, 'n::linorder, 'h) helper \<Rightarrow> ('n, 'h) legacy_journal_v2 \<Rightarrow> ('w, unit) io"
where
  "prove_legacy_v2 H r =
     io_seq (io_guard (j2_orphan_cleanup r = None)
       (''schema-2 orphan recovery needs exact legacy proof; resources were left '' @ ''untouched''))
     (io_seq (io_lift (validate_legacy_v2_evidence (hp_system H) r))
     (io_seq (check_legacy_identities H r)
     (io_bind (verify_legacy_v2_live (hp_system H) r) (\<lambda>_. io_return ()))))"

definition clean_legacy_v2 ::
  "('w, 'n::linorder, 'h) helper \<Rightarrow> ('n, 'h) legacy_journal_v2 \<Rightarrow> ('w, string list) io"
where
  "clean_legacy_v2 H r =
     (let Y = hp_system H; plans = map kp_lanes (plans_of r) in
      io_seq (io_each (remove_legacy_step Y r) (rollback_rule_order plans @ rollback_table_order plans))
      (io_bind (verify_legacy_v2_live Y r) (\<lambda>present.
      io_seq (if present then delete_table Y ''delete exact schema-2 RouteLane nftables table''
              else io_return ())
      (io_seq (verify_exact_kernel_state Y None None)
      (io_bind (restore_setting_receipts (hp_settings H) (legacy_v2_receipts r)) (\<lambda>diagnostics.
       io_seq (js_clear (hp_store H)) (io_return diagnostics)))))))"

definition cleanup_legacy_v2 ::
  "('w, 'n::linorder, 'h) helper \<Rightarrow> (('w, 'n, 'h) backend_world, cleanup_response) io"
where
  "cleanup_legacy_v2 H =
     io_bind (io_gets be_legacy_v2) (\<lambda>legacy.
     io_bind (io_lift (ok_or ''legacy v2 cleanup record'' legacy)) (\<lambda>r.
     case j2_legacy_v1 r of
       Some v1 \<Rightarrow>
         io_seq (io_guard (j2_active r = None \<and> j2_pending r = None \<and> j2_orphan_cleanup r = None)
           ''mixed schema-1/schema-2 ownership cannot be cleaned'')
         (io_seq (in_world (js_save (hp_store H) (legacy_v1_journal v1)))
         (io_seq (io_modify (\<lambda>b. b\<lparr>be_legacy_v2 := None, be_legacy := Some v1\<rparr>))
           (cleanup_legacy H)))
     | None \<Rightarrow>
         (let marked = r\<lparr>j2_cleanup_pending := True\<rparr> in
          io_seq (in_world (prove_legacy_v2 H r))
          (io_seq (in_world (js_save (hp_store H) (legacy_v2_journal marked)))
          (io_seq (io_modify (\<lambda>b. b\<lparr>be_legacy_v2 := Some marked, be_runtime := None,
             be_runtime_restore := None\<rparr>))
          (io_bind (in_world (clean_legacy_v2 H marked)) (\<lambda>diagnostics.
          io_seq (io_modify (be_legacy_v2_update (\<lambda>_. None)))
            (io_return \<lparr>cu_cleaned = True, cu_diagnostics = diagnostics\<rparr>))))))))"

definition adopt_legacy_v2 ::
  "('n, 'h) stored_state \<Rightarrow> (('w, 'n, 'h) backend_world, unit) io"
where
  "adopt_legacy_v2 r =
     io_seq (io_guard (r = default_stored\<lparr>sa_legacy_v2 := sa_legacy_v2 r\<rparr>)
       ''a schema-2 journal cannot carry current-schema state'')
     (io_modify (\<lambda>b. b\<lparr>be_current := None, be_fingerprint := None, be_interface_settings := [],
        be_restore_receipt := None, be_legacy := None, be_legacy_v2 := sa_legacy_v2 r,
        be_runtime := None, be_runtime_restore := None, be_runtime_loaded := True,
        be_initialized := True\<rparr>))"

definition adopt_legacy_v1 ::
  "('n, 'h) stored_state \<Rightarrow> (('w, 'n, 'h) backend_world, unit) io"
where
  "adopt_legacy_v1 r =
     io_seq (io_lift (validate_legacy_envelope r))
     (io_modify (\<lambda>b. b\<lparr>be_current := None, be_fingerprint := None, be_interface_settings := [],
        be_restore_receipt := None, be_legacy := sa_legacy_v1 r, be_initialized := True\<rparr>))"

end
