(* ===== verification/Backend.thy ===== *)
theory Backend
  imports Legacy_Cleanup
begin

text \<open>
  The handlers of the privileged backend (\<open>impl PrivilegedBackend for CommandPrivilegedBackend\<close> in
  \<open>src/src/backend/privileged.rs\<close>): adopting or replaying the journal, apply, restore, inspection,
  cleanup and orphan recovery. The handlers of runtime authority are in \<open>Runtime_Control\<close>.
\<close>

section \<open>Responses\<close>

record 'h restore_response =
  rr_generation :: "u64 option"
  rr_plan_hash :: "'h option"

definition restore_response_of ::
  "('n policy_content \<Rightarrow> 'h) \<Rightarrow> 'n kernel_plan option \<Rightarrow> 'h restore_response"
where
  "restore_response_of digest k = \<lparr>rr_generation = map_option kp_generation k,
     rr_plan_hash = map_option (content_hash digest) k\<rparr>"

record ('n, 'h) inspect_response =
  ir_generation :: "u64 option"
  ir_plan_hash :: "'h option"
  ir_applied_plan :: "'n kernel_plan option"
  ir_table_present :: bool
  ir_snapshot :: "('n, 'h) kernel_snapshot"
  ir_diagnostics :: "string list"
  ir_runtime :: "'h runtime_status"

section \<open>Runtime authority as the journal has it\<close>

definition grant_mismatch ::
  "('w, 'n, 'h) helper \<Rightarrow> ('n, 'h) runtime_record \<Rightarrow> ('w, string option) io"
where
  "grant_mismatch H r =
     io_bind (io_result (en_boot_id (hp_environment H))) (\<lambda>boot.
     io_bind (io_result (en_network_namespace (hp_environment H))) (\<lambda>namespace.
       io_return (case (boot, namespace) of
           (Inr b, Inr n) \<Rightarrow>
             if \<not> (b = rg_boot_id (rt_grant r) \<and> n = rg_network_namespace (rt_grant r))
             then Some ''runtime grant belongs to another boot or network namespace''
             else if hp_policy_digest H (rt_profile r) (rt_resolutions r) \<noteq> rg_policy_hash (rt_grant r)
             then Some ''runtime grant does not match its journaled policy''
             else None
         | (Inl e, _) \<Rightarrow> Some e
         | (_, Inl e) \<Rightarrow> Some e)))"

definition armed_from :: "('n, 'h) runtime_record \<Rightarrow> string option \<Rightarrow> ('n, 'h) armed_runtime" where
  "armed_from r mismatch = \<lparr>ar_record = r, ar_selector = None,
     ar_phase = (if mismatch \<noteq> None then NeedsReauthorization else Armed),
     ar_last_error = mismatch, ar_failback_in_ms = None, ar_held_back = None\<rparr>"

definition load_runtime ::
  "('w, 'n, 'h) helper \<Rightarrow> (('w, 'n, 'h) backend_world, unit) io"
where
  "load_runtime H =
     io_bind (io_gets be_runtime_loaded) (\<lambda>loaded.
       if loaded then io_return ()
       else io_bind (in_world (js_load (hp_store H))) (\<lambda>j.
         let r = (case j of Some r \<Rightarrow> r | None \<Rightarrow> default_stored) in
         io_seq (io_modify (be_runtime_restore_update (\<lambda>_. sa_runtime_restore r)))
         (io_bind (case sa_runtime r of
             None \<Rightarrow> io_return None
           | Some x \<Rightarrow> io_bind (in_world (grant_mismatch H x)) (\<lambda>mismatch.
               io_return (Some (armed_from x mismatch)))) (\<lambda>runtime.
           io_modify (\<lambda>b. b\<lparr>be_runtime := runtime, be_runtime_loaded := True\<rparr>)))))"

definition status_snapshot :: "('n, 'h) backend_state \<Rightarrow> 'h runtime_status" where
  "status_snapshot b =
     (let generation = (case be_current b of None \<Rightarrow> 0 | Some s \<Rightarrow> ak_generation s) in
      if be_legacy_v2 b \<noteq> None
      then (inactive_status 0)\<lparr>st_phase := NeedsReauthorization, st_last_error :=
        Some ''schema-2 ownership requires authorized cleanup before activation''\<rparr>
      else (case be_runtime b of
          None \<Rightarrow> inactive_status generation
        | Some r \<Rightarrow> \<lparr>st_grant = Some (rt_grant (ar_record r)), st_generation = generation,
            st_decision = Some (rt_decision (ar_record r)), st_phase = ar_phase r,
            st_last_error = ar_last_error r, st_failback_in_ms = ar_failback_in_ms r\<rparr>))"

definition refuse_armed_runtime ::
  "('w, 'n, 'h) helper \<Rightarrow> (('w, 'n, 'h) backend_world, unit) io"
where
  "refuse_armed_runtime H =
     io_seq (load_runtime H)
     (io_bind (io_gets be_runtime) (\<lambda>runtime. io_guard (runtime = None)
       ''runtime authority is armed; change it through runtime activation or cleanup''))"

definition refuse_legacy_activation :: "(('w, 'n, 'h) backend_world, unit) io" where
  "refuse_legacy_activation =
     io_bind (io_gets (\<lambda>b. b)) (\<lambda>b.
     io_seq (io_guard (be_legacy_v2 b = None)
       ''a schema-2 RouteLane journal requires authorized cleanup before activation'')
     (io_guard (be_legacy b = None)
       ''a schema-1 RouteLane journal is cleanup-only; clean it up before activation''))"

section \<open>Adopting the journal\<close>

text \<open>For an inspection: the record is checked and believed, and nothing is replayed.\<close>

definition ensure_inspection_ready ::
  "('w, 'n::linorder, 'h) helper \<Rightarrow> (('w, 'n, 'h) backend_world, unit) io"
where
  "ensure_inspection_ready H =
     io_bind (in_world (js_load (hp_store H))) (\<lambda>j.
       case j of
         None \<Rightarrow> io_modify (be_initialized_update (\<lambda>_. True))
       | Some r \<Rightarrow>
           if sa_legacy_v2 r \<noteq> None then adopt_legacy_v2 r
           else if sa_legacy_v1 r \<noteq> None then adopt_legacy_v1 r
           else
             io_seq (io_lift (validate_record (hp_system H) r))
             (io_seq (io_lift (if sa_orphan_cleanup r \<noteq> None then validate_orphan_journal r else Inr ()))
             (io_modify (\<lambda>b. b\<lparr>
                be_current := map_option (applied_from_plan (hp_content H)) (sa_active r),
                be_fingerprint := sa_active_nft_fingerprint r,
                be_interface_settings := sa_interface_settings r,
                be_restore_receipt := sa_restore_receipt r, be_legacy := None,
                be_initialized := True\<rparr>))))"

section \<open>Replaying the journal\<close>

definition replay_orphan_cleanup ::
  "('w, 'n::linorder, 'h) helper \<Rightarrow> ('n, 'h) stored_state \<Rightarrow> (('w, 'n, 'h) backend_world, unit) io"
where
  "replay_orphan_cleanup H r =
     io_seq (io_lift (validate_orphan_journal r))
     (io_seq (in_world (resume_orphan_cleanup H))
     (io_modify (\<lambda>b. b\<lparr>be_current := None, be_fingerprint := None, be_restore_receipt := None,
        be_initialized := True\<rparr>)))"

text \<open>The runner that removes everything the record and a pending plan name, then restores.\<close>

definition run_restore ::
  "('w, 'n::linorder, 'h) system \<Rightarrow> ('n, 'h) runner_state \<Rightarrow> ('n, 'h) applied_kernel_state option \<Rightarrow>
     ('w, unit) io"
where
  "run_restore Y rs state =
     with_state rs (io_bind (runner_snapshot Y) (\<lambda>_. runner_restore Y state))"

definition journal_receipt_or_clear ::
  "('w, 'n, 'h) store \<Rightarrow> 'h restore_receipt option \<Rightarrow> ('w, unit) io"
where
  "journal_receipt_or_clear S receipt =
     (case receipt of
        Some x \<Rightarrow> js_save S (committed_state None None (Some x))
      | None \<Rightarrow> js_clear S)"

definition replay_cleanup ::
  "('w, 'n::linorder, 'h) helper \<Rightarrow> ('n, 'h) stored_state \<Rightarrow> ('n, 'h) applied_kernel_state option \<Rightarrow>
     (('w, 'n, 'h) backend_world, unit) io"
where
  "replay_cleanup H r active =
     io_seq (in_world (verify_cleanup_table_ownership (hp_system H) active
       (sa_active_nft_fingerprint r)))
     (io_seq (io_map_err (\<lambda>e. ''resume persisted cleanup: '' @ e)
       (in_world (run_restore (hp_system H) (new_runner active) None)))
     (io_bind (in_world (restore_setting_receipts (hp_settings H) (sa_interface_settings r))) (\<lambda>_.
      io_seq (in_world (journal_receipt_or_clear (hp_store H) (sa_restore_receipt r)))
      (io_modify (\<lambda>b. b\<lparr>be_current := None, be_fingerprint := None, be_interface_settings := [],
         be_restore_receipt := sa_restore_receipt r, be_initialized := True\<rparr>)))))"

definition interrupted_settings :: "('n, 'h) stored_state \<Rightarrow> setting_receipt list" where
  "interrupted_settings r =
     filter (\<lambda>x. x \<notin> set (sa_interface_settings r)) (sa_pending_interface_settings r)"

definition replay_pending ::
  "('w, 'n::linorder, 'h) helper \<Rightarrow> ('n, 'h) stored_state \<Rightarrow> ('n, 'h) applied_kernel_state option \<Rightarrow>
     'n kernel_plan \<Rightarrow> pending_expectations \<Rightarrow> (('w, 'n, 'h) backend_world, unit) io"
where
  "replay_pending H r active pending x =
     (let Y = hp_system H; fingerprint = sa_active_nft_fingerprint r; lost = px_lost_unicast x in
      io_seq (in_world (verify_pending_table_ownership Y active fingerprint pending x))
      (io_seq (io_map_err (\<lambda>e. ''recover pending kernel transaction: '' @ e)
        (in_world (run_restore Y ((with_lost_unicast lost (new_runner active))\<lparr>rs_next := Some pending\<rparr>)
          active)))
      (io_seq (io_map_err (\<lambda>e. ''recovered kernel state differs from the exact rollback target; '' @
          ''pending journal retained: '' @ e)
        (in_world (verify_exact_kernel_basis Y active fingerprint lost)))
      (io_bind (in_world (restore_setting_receipts (hp_settings H) (interrupted_settings r))) (\<lambda>_.
       io_seq (in_world (persist_committed_with_receipt (hp_store H) active fingerprint None
         (extras_of r)))
       (io_modify (\<lambda>b. b\<lparr>be_runtime_loaded := False, be_current := active,
          be_fingerprint := fingerprint, be_interface_settings := sa_interface_settings r,
          be_restore_receipt := None, be_initialized := True\<rparr>)))))))"

definition adopt_committed ::
  "('w, 'n::linorder, 'h) helper \<Rightarrow> ('n, 'h) stored_state \<Rightarrow> ('n, 'h) applied_kernel_state option \<Rightarrow>
     (('w, 'n, 'h) backend_world, unit) io"
where
  "adopt_committed H r active =
     (case active of
        Some a \<Rightarrow>
          io_bind (io_lift (ok_or ''validated active state has an nft fingerprint''
            (sa_active_nft_fingerprint r))) (\<lambda>f.
          io_bind (in_world (verify_persisted_ownership (hp_system H) (ak_plan a) f)) (\<lambda>present.
          io_seq (io_guard present
            (''persisted RouteLane generation is incomplete; refusing implicit repair without a '' @
              ''pending journal''))
          (io_modify (\<lambda>b. b\<lparr>be_current := Some a, be_fingerprint := Some f,
             be_interface_settings := sa_interface_settings r,
             be_restore_receipt := sa_restore_receipt r, be_initialized := True\<rparr>))))
      | None \<Rightarrow>
          io_seq (if sa_restore_receipt r = None then in_world (js_clear (hp_store H))
                  else io_return ())
          (io_modify (\<lambda>b. b\<lparr>be_current := None, be_fingerprint := None,
             be_restore_receipt := sa_restore_receipt r, be_initialized := True\<rparr>)))"

definition replay_record ::
  "('w, 'n::linorder, 'h) helper \<Rightarrow> ('n, 'h) stored_state \<Rightarrow> (('w, 'n, 'h) backend_world, unit) io"
where
  "replay_record H r =
     io_seq (io_lift (validate_record (hp_system H) r))
     (if sa_orphan_cleanup r \<noteq> None then replay_orphan_cleanup H r
      else let active = map_option (applied_from_plan (hp_content H)) (sa_active r) in
        if sa_cleanup_pending r then replay_cleanup H r active
        else (case sa_pending r of
            Some pending \<Rightarrow>
              io_bind (io_lift (ok_or ''validated pending state has exact expectations''
                (sa_pending_expectations r))) (\<lambda>x. replay_pending H r active pending x)
          | None \<Rightarrow> adopt_committed H r active))"

definition must_replay :: "bool \<Rightarrow> ('n, 'h) stored_state \<Rightarrow> bool" where
  "must_replay initialized r \<longleftrightarrow> \<not> initialized \<or> sa_pending r \<noteq> None \<or> sa_cleanup_pending r \<or>
     sa_orphan_cleanup r \<noteq> None"

definition ensure_reconciled ::
  "('w, 'n::linorder, 'h) helper \<Rightarrow> (('w, 'n, 'h) backend_world, unit) io"
where
  "ensure_reconciled H =
     io_bind (in_world (js_load (hp_store H))) (\<lambda>j.
     io_bind (io_gets be_initialized) (\<lambda>initialized.
       case j of
         None \<Rightarrow> io_modify (be_initialized_update (\<lambda>_. True))
       | Some r \<Rightarrow>
           if \<not> must_replay initialized r then io_return ()
           else if sa_legacy_v2 r \<noteq> None then adopt_legacy_v2 r
           else if sa_legacy_v1 r \<noteq> None then adopt_legacy_v1 r
           else replay_record H r))"

section \<open>Proving the committed generation\<close>

definition revalidate_current_ownership ::
  "('w, 'n::linorder, 'h) helper \<Rightarrow> (('w, 'n, 'h) backend_world, unit) io"
where
  "revalidate_current_ownership H =
     io_bind (io_gets (\<lambda>b. b)) (\<lambda>b.
       case be_current b of
         None \<Rightarrow> io_return ()
       | Some s \<Rightarrow>
           io_bind (io_lift (ok_or
             ''active RouteLane state is missing its committed nftables fingerprint''
             (be_fingerprint b))) (\<lambda>f.
           io_bind (in_world (verify_persisted_ownership (hp_system H) (ak_plan s) f)) (\<lambda>present.
             io_guard present
               ''committed RouteLane kernel resources are incomplete; refusing apply'')))"

definition revalidate_current_ownership_for ::
  "('w, 'n::linorder, 'h) helper \<Rightarrow> 'n kernel_plan \<Rightarrow>
     (('w, 'n, 'h) backend_world, (u8 \<times> u32) set) io"
where
  "revalidate_current_ownership_for H next =
     io_bind (io_gets (\<lambda>b. b)) (\<lambda>b.
       case (be_current b, be_fingerprint b) of
         (Some s, Some f) \<Rightarrow> in_world (tolerated_lost_unicast (hp_system H) (ak_plan s) f next)
       | (Some _, None) \<Rightarrow>
           io_fail ''active RouteLane state is missing its committed nftables fingerprint''
       | (None, _) \<Rightarrow> io_return {})"

section \<open>Apply\<close>

definition settle_receipt ::
  "('w, 'n, 'h) helper \<Rightarrow> (('w, 'n, 'h) backend_world, unit) io"
where
  "settle_receipt H =
     io_bind (io_gets (\<lambda>b. b)) (\<lambda>b.
       if be_restore_receipt b = None then io_return ()
       else io_seq (in_world (persist_committed (hp_store H) (be_current b) (be_fingerprint b)
           (backend_extras b)))
         (io_modify (be_restore_receipt_update (\<lambda>_. None))))"

definition apply_handler ::
  "('w, 'n::linorder, 'h) helper \<Rightarrow> 'n kernel_plan \<Rightarrow>
     (('w, 'n, 'h) backend_world, 'h apply_response) io"
where
  "apply_handler H k =
     io_seq (io_lift (map_err (validation_text (sy_debug (hp_system H)))
       (validate_new_plan_rules (sy_foreign (hp_system H)) k)))
     (io_seq (ensure_reconciled H)
     (io_seq refuse_legacy_activation
     (io_seq (refuse_armed_runtime H)
     (io_bind (revalidate_current_ownership_for H k) (\<lambda>lost.
      io_bind (io_gets be_current) (\<lambda>current.
        case current of
          None \<Rightarrow> transition_with H k None lost None None
        | Some s \<Rightarrow>
            if kp_generation k < ak_generation s
            then io_fail (''requested generation '' @ decimal (uint (kp_generation k)) @
              '' is older than applied generation '' @ decimal (uint (ak_generation s)))
            else if kp_generation k = ak_generation s
            then (if content_hash (hp_content H) k \<noteq> ak_plan_hash s
                  then io_fail (''generation '' @ decimal (uint (kp_generation k)) @
                    '' has different policy content'')
                  else io_seq (settle_receipt H) (io_return (response_of (hp_content H) k [])))
            else transition_with H k None lost None None))))))"

section \<open>Cleanup\<close>

definition cleanup_record ::
  "('n, 'h) backend_state \<Rightarrow> ('n, 'h) applied_kernel_state \<Rightarrow> 'h restore_receipt option \<Rightarrow>
     ('n, 'h) stored_state"
where
  "cleanup_record b s receipt = default_stored\<lparr>sa_active := Some (ak_plan s),
     sa_active_nft_fingerprint := be_fingerprint b, sa_cleanup_pending := True,
     sa_restore_receipt := receipt, sa_interface_settings := be_interface_settings b\<rparr>"

definition clean_committed ::
  "('w, 'n::linorder, 'h) helper \<Rightarrow> ('n, 'h) applied_kernel_state \<Rightarrow> 'h restore_receipt option \<Rightarrow>
     (('w, 'n, 'h) backend_world, cleanup_response) io"
where
  "clean_committed H s receipt =
     io_bind (io_gets (\<lambda>b. b)) (\<lambda>b.
     io_seq (in_world (verify_cleanup_table_ownership (hp_system H) (Some s) (be_fingerprint b)))
     (io_seq (in_world (js_save (hp_store H) (cleanup_record b s receipt)))
     (io_seq (in_world (run_restore (hp_system H) (new_runner (Some s)) None))
     (io_bind (in_world (restore_setting_receipts (hp_settings H) (be_interface_settings b)))
       (\<lambda>diagnostics.
      io_seq (io_modify (be_interface_settings_update (\<lambda>_. [])))
      (io_seq (in_world (journal_receipt_or_clear (hp_store H) receipt))
      (io_seq (io_modify (\<lambda>b. b\<lparr>be_current := None, be_fingerprint := None,
         be_restore_receipt := receipt\<rparr>))
        (io_return \<lparr>cu_cleaned = True, cu_diagnostics = diagnostics\<rparr>))))))))"

definition cleanup_with_receipt ::
  "('w, 'n::linorder, 'h) helper \<Rightarrow> 'h restore_receipt option \<Rightarrow>
     (('w, 'n, 'h) backend_world, cleanup_response) io"
where
  "cleanup_with_receipt H receipt =
     io_seq (ensure_inspection_ready H)
     (io_seq (ensure_reconciled H)
     (io_bind (io_gets (\<lambda>b. b)) (\<lambda>b.
        if be_legacy_v2 b \<noteq> None then cleanup_legacy_v2 H
        else if be_legacy b \<noteq> None then cleanup_legacy H
        else io_seq (io_modify (\<lambda>b. b\<lparr>be_runtime := None, be_runtime_restore := None,
            be_runtime_loaded := True\<rparr>))
          (case be_current b of
             Some s \<Rightarrow> clean_committed H s receipt
           | None \<Rightarrow>
               io_seq (if receipt \<noteq> None then io_return ()
                 else io_seq (in_world (js_clear (hp_store H)))
                   (io_modify (be_restore_receipt_update (\<lambda>_. None))))
               (io_return \<lparr>cu_cleaned = False,
                 cu_diagnostics = [''no persisted RouteLane ownership to clean'']\<rparr>)))))"

definition cleanup_handler ::
  "('w, 'n::linorder, 'h) helper \<Rightarrow> (('w, 'n, 'h) backend_world, cleanup_response) io"
where
  "cleanup_handler H = cleanup_with_receipt H None"

section \<open>Restore\<close>

definition restore_handler ::
  "('w, 'n::linorder, 'h) helper \<Rightarrow> 'n kernel_plan \<Rightarrow> 'n kernel_plan option \<Rightarrow>
     (('w, 'n, 'h) backend_world, 'h restore_response) io"
where
  "restore_handler H failed previous =
     (let receipt = new_restore_receipt (hp_content H) failed previous;
          response = restore_response_of (hp_content H) previous in
      io_seq (ensure_reconciled H)
      (io_seq refuse_legacy_activation
      (io_seq (refuse_armed_runtime H)
      (io_seq (revalidate_current_ownership H)
      (io_seq (io_guard (case previous of None \<Rightarrow> True | Some k \<Rightarrow> kp_generation k < kp_generation failed)
        ''restore target must be older than the failed candidate'')
      (io_bind (io_gets (\<lambda>b. b)) (\<lambda>b.
       if be_restore_receipt b = Some receipt \<and> matches_current receipt (be_current b)
       then io_return response
       else
         io_bind (io_lift (ok_or
           ''cannot restore because no candidate plan is currently applied'' (be_current b)))
           (\<lambda>s.
         io_seq (io_guard (ak_generation s = kp_generation failed \<and>
             ak_plan_hash s = content_hash (hp_content H) failed)
           ''cannot restore because the live committed plan is not the failed candidate'')
         (case previous of
            Some k \<Rightarrow> io_bind (transition_with H k (Some receipt) {} None None) (\<lambda>_.
              io_return response)
          | None \<Rightarrow> io_bind (cleanup_with_receipt H (Some receipt)) (\<lambda>_.
              io_return response))))))))))"

section \<open>Inspection\<close>

definition live_nft_exact ::
  "('w, 'n::linorder, 'h) system \<Rightarrow> ('n, 'h) backend_state \<Rightarrow> ('n, 'h) captured_snapshot \<Rightarrow> ('w, bool) io"
where
  "live_nft_exact Y b c =
     (case (be_current b, be_fingerprint b) of
        (Some s, Some f) \<Rightarrow>
          if \<not> table_present c then io_return False
          else io_bind (nft_marker_present Y (ak_plan s)) (\<lambda>marked.
            if \<not> marked then io_return False
            else io_bind (live_nft_fingerprint Y) (\<lambda>live. io_return (live = f)))
      | _ \<Rightarrow> io_return False)"

definition legacy_diagnostics :: "('n, 'h) backend_state \<Rightarrow> string list" where
  "legacy_diagnostics b =
     (if be_legacy_v2 b \<noteq> None
      then [''DAEMON_LEGACY_CLEANUP_REQUIRED: schema-2 ownership requires authorized cleanup '' @
        ''before activation'']
      else if be_legacy b \<noteq> None
      then [''a schema-1 RouteLane journal is cleanup-only; run cleanup before activating'']
      else [])"

definition inspect_handler ::
  "('w, 'n::linorder, 'h) helper \<Rightarrow> (('w, 'n, 'h) backend_world, ('n, 'h) inspect_response) io"
where
  "inspect_handler H =
     io_seq (ensure_inspection_ready H)
     (io_bind (in_world (capture_snapshot (hp_system H))) (\<lambda>c.
      io_bind (io_gets (\<lambda>b. b)) (\<lambda>b.
      io_bind (in_world (live_nft_exact (hp_system H) b c)) (\<lambda>exact.
      let snapshot = (case (be_current b, exact) of
            (Some s, True) \<Rightarrow> with_nft_ownership (ak_generation s) (ak_plan_hash s) (cp_snapshot c)
          | _ \<Rightarrow> cp_snapshot c) in
      io_seq (load_runtime H)
      (io_bind (io_gets (\<lambda>b. b)) (\<lambda>b.
        io_return \<lparr>ir_generation = map_option ak_generation (be_current b),
          ir_plan_hash = map_option ak_plan_hash (be_current b),
          ir_applied_plan = map_option ak_plan (be_current b),
          ir_table_present = has_nft_table snapshot ''inet'' ''routelane'',
          ir_snapshot = snapshot, ir_diagnostics = legacy_diagnostics b,
          ir_runtime = status_snapshot b\<rparr>))))))"

section \<open>Orphan recovery\<close>

definition recover_orphaned ::
  "('w, 'n::linorder, 'h) helper \<Rightarrow> (('w, 'n, 'h) backend_world, cleanup_response) io"
where
  "recover_orphaned H =
     io_bind (in_world (js_load (hp_store H))) (\<lambda>j.
     let resumed = (case j of None \<Rightarrow> False | Some r \<Rightarrow> sa_orphan_cleanup r \<noteq> None) in
     io_seq (ensure_reconciled H)
     (io_bind (io_gets (\<lambda>b. b)) (\<lambda>b.
      io_seq (io_guard (be_current b = None \<and> be_legacy b = None \<and> be_legacy_v2 b = None)
        ''validated RouteLane state must use normal cleanup'')
      (io_bind (in_world (capture_verified_orphaned_ownership (hp_system H))) (\<lambda>oo.
       if oo_nft_fingerprint oo = None \<and> oo_routing oo = empty_ownership
       then io_return \<lparr>cu_cleaned = resumed, cu_diagnostics = []\<rparr>
       else io_seq (in_world (js_save (hp_store H) (orphan_journal oo)))
         (io_seq (in_world (resume_orphan_cleanup H))
           (io_return \<lparr>cu_cleaned = True, cu_diagnostics = []\<rparr>)))))))"

end
