(* ===== verification/Runtime_Control.thy ===== *)
theory Runtime_Control
  imports Backend
begin

text \<open>
  Runtime authority in the privileged backend (\<open>activate_runtime_inner\<close>, \<open>refresh_runtime_inner\<close>,
  \<open>refresh_armed\<close>, \<open>restore_runtime_inner\<close> and \<open>degrade_runtime\<close> in
  \<open>src/src/backend/privileged.rs\<close>): one authorization arms a profile; from then on the helper follows
  the observed topology by itself, within the grant, and holds a failing candidate back.
\<close>

section \<open>Waiting\<close>

definition FIRST_RETRY_WAIT :: duration where "FIRST_RETRY_WAIT = from_secs 2"
definition MAX_RETRY_WAIT :: duration where "MAX_RETRY_WAIT = from_secs 60"

definition next_wait :: "duration option \<Rightarrow> duration" where
  "next_wait previous =
     (case previous of None \<Rightarrow> FIRST_RETRY_WAIT | Some w \<Rightarrow> min (w * 2) MAX_RETRY_WAIT)"

text \<open>\<open>as_millis() as u64\<close>, the same with \<open>.max(1)\<close> before the cast, and the earlier of two waits.\<close>

definition millis :: "duration \<Rightarrow> u64" where "millis d = of_nat (d div 1000000)"

definition at_least_one_milli :: "duration \<Rightarrow> u64" where
  "at_least_one_milli d = of_nat (max (d div 1000000) 1)"

definition sooner :: "u64 option \<Rightarrow> u64 \<Rightarrow> u64 option" where
  "sooner x m = Some (case x of None \<Rightarrow> m | Some ms \<Rightarrow> min ms m)"

text \<open>The clock reading plus a wait; past the range of \<open>Duration\<close> the addition panics.\<close>

definition later :: "duration \<Rightarrow> duration \<Rightarrow> (string, duration) result" where
  "later now wait = ok_or panicked (dur_checked_add now wait)"

definition hold_back_recovery ::
  "duration \<Rightarrow> (('w, 'n, 'h) backend_world, duration) io"
where
  "hold_back_recovery now =
     io_bind (io_gets be_recovery_held_back) (\<lambda>held.
     let wait = next_wait (map_option snd held) in
     io_bind (io_lift (later now wait)) (\<lambda>at.
     io_seq (io_modify (be_recovery_held_back_update (\<lambda>_. Some (at, wait))))
       (io_return wait)))"

section \<open>Before a runtime operation\<close>

definition interrupted_record :: "('n, 'h) stored_state \<Rightarrow> bool" where
  "interrupted_record r \<longleftrightarrow> sa_pending r \<noteq> None \<or> sa_cleanup_pending r \<or> sa_orphan_cleanup r \<noteq> None \<or>
     sa_legacy_v1 r \<noteq> None \<or> sa_legacy_v2 r \<noteq> None"

definition journal_interrupted ::
  "('w, 'n, 'h) helper \<Rightarrow> (('w, 'n, 'h) backend_world, bool) io"
where
  "journal_interrupted H =
     io_bind (in_world (js_load (hp_store H))) (\<lambda>j.
       io_return (case j of None \<Rightarrow> False | Some r \<Rightarrow> interrupted_record r))"

definition prepare_runtime_operation ::
  "('w, 'n::linorder, 'h) helper \<Rightarrow> (('w, 'n, 'h) backend_world, bool) io"
where
  "prepare_runtime_operation H =
     io_bind (io_gets (\<lambda>b. \<not> be_initialized b)) (\<lambda>unverified.
     io_bind (journal_interrupted H) (\<lambda>interrupted.
       if interrupted
       then io_seq (ensure_reconciled H)
         (io_seq (io_modify (\<lambda>b. b\<lparr>be_recovery_held_back := None, be_runtime_loaded := False\<rparr>))
         (io_seq (load_runtime H) (io_return False)))
       else io_seq (ensure_inspection_ready H)
         (io_seq (load_runtime H)
         (io_bind (io_gets be_current) (\<lambda>current.
           io_return (unverified \<and> current \<noteq> None))))))"

section \<open>Plans of a runtime\<close>

definition MAX_PLAN_JSON_BYTES :: nat where "MAX_PLAN_JSON_BYTES = 1024 * 1024"

text \<open>
  The planner returns for every input and never panics (theorem \<open>planner_total\<close>); the case for
  neither outcome is a panic here.
\<close>

definition compile_runtime_plan ::
  "('w, 'n::linorder, 'h) helper \<Rightarrow> 'n profile \<Rightarrow> 'n topology \<Rightarrow> 'n resolutions \<Rightarrow>
     primary_decision \<Rightarrow> u64 \<Rightarrow> (string, 'n kernel_plan) result"
where
  "compile_runtime_plan H p t res decision generation =
     (case compile_profile_with_primary (sy_foreign (hp_system H)) p t res decision generation of
        Some (Inr k) \<Rightarrow>
          and_then (map_err (\<lambda>e. ''runtime plan is invalid: '' @
              validation_text (sy_debug (hp_system H)) e) (validate_privileged_plan k)) (\<lambda>_.
          and_then (require (hp_plan_size H k \<le> MAX_PLAN_JSON_BYTES)
            ''runtime plan exceeds the size limit'') (\<lambda>_. Inr k))
      | Some (Inl (Rejected e)) \<Rightarrow> Inl (''compile runtime plan: '' @ hp_plan_debug H e)
      | _ \<Rightarrow> Inl panicked)"

section \<open>Activation\<close>

definition check_activation ::
  "('w, 'n, 'h) helper \<Rightarrow> 'n runtime_activation \<Rightarrow> 'n topology \<Rightarrow> (string, unit) result"
where
  "check_activation H a t =
     and_then (require (ra_protocol_version a = RUNTIME_PROTOCOL_VERSION)
       (''runtime protocol '' @ word_to_string (ra_protocol_version a) @
         '' is not supported; expected '' @ word_to_string RUNTIME_PROTOCOL_VERSION)) (\<lambda>_.
     and_then (require (hp_activation_size H a \<le> MAX_ACTIVATION_JSON_BYTES)
       ''runtime activation exceeds the size limit'') (\<lambda>_.
     and_then (map_err (\<lambda>e. ''invalid profile: '' @ hp_domain_debug H e)
       (validate_profile (sy_foreign (hp_system H)) (ra_profile a))) (\<lambda>_.
       require (t_observed t) ''runtime activation requires observed kernel topology'')))"

definition new_grant ::
  "('w, 'n, 'h) helper \<Rightarrow> 'n runtime_activation \<Rightarrow> u32 \<Rightarrow> 'n topology \<Rightarrow>
     (('w, 'n, 'h) backend_world, 'h runtime_grant) io"
where
  "new_grant H a uid t =
     io_bind (in_world (en_boot_id (hp_environment H))) (\<lambda>boot.
     io_bind (in_world (en_network_namespace (hp_environment H))) (\<lambda>namespace.
       io_return \<lparr>rg_owner_uid = uid, rg_boot_id = boot, rg_network_namespace = namespace,
         rg_policy_hash = hp_policy_digest H (ra_profile a) (ra_resolutions a),
         rg_interfaces = lane_bindings (p_lanes (ra_profile a)) t\<rparr>))"

definition issue_receipt ::
  "('w, 'n, 'h) helper \<Rightarrow> ('n, 'h) backend_state \<Rightarrow> string \<Rightarrow> u32 \<Rightarrow> 'n kernel_plan \<Rightarrow>
     ('n, 'h) runtime_restore_receipt"
where
  "issue_receipt H b token uid k = \<lparr>rc_token_hash = hp_token_digest H token, rc_owner_uid = uid,
     rc_issued_for_generation = kp_generation k,
     rc_issued_for_plan_hash = content_hash (hp_content H) k,
     rc_previous_plan = map_option ak_plan (be_current b),
     rc_previous_record = map_option ar_record (be_runtime b)\<rparr>"

definition current_generation :: "('n, 'h) backend_state \<Rightarrow> u64" where
  "current_generation b = (case be_current b of None \<Rightarrow> 0 | Some s \<Rightarrow> ak_generation s)"

definition activate_runtime ::
  "('w, 'n::linorder, 'h) helper \<Rightarrow> 'n runtime_activation \<Rightarrow> u32 \<Rightarrow> 'n topology \<Rightarrow> duration \<Rightarrow>
     (('w, 'n, 'h) backend_world, ('n, 'h) runtime_apply_response) io"
where
  "activate_runtime H a uid t now =
     io_seq (io_lift (check_activation H a t))
     (io_bind (prepare_runtime_operation H) (\<lambda>_.
      io_seq refuse_legacy_activation
      (io_bind (io_gets current_generation) (\<lambda>generation.
      io_seq (io_guard (ra_expected_generation a = generation)
        (''runtime activation expected generation '' @ decimal (uint (ra_expected_generation a)) @
          '' but '' @ decimal (uint generation) @ '' is applied''))
      (io_bind (new_grant H a uid t) (\<lambda>grant.
       let p = ra_profile a; filtered = restrict_to_grant t grant;
           (decision, selector) = selector_update (p_routing p) filtered now (selector_new p filtered)
       in
       io_bind (io_lift (compile_runtime_plan H p filtered (ra_resolutions a) decision
         (generation + 1))) (\<lambda>k.
       io_bind (revalidate_current_ownership_for H k) (\<lambda>lost.
       io_bind (in_world (en_new_token (hp_environment H))) (\<lambda>token.
       io_bind (io_gets (\<lambda>b. issue_receipt H b token uid k)) (\<lambda>receipt.
       let r = \<lparr>rt_grant = grant, rt_profile = p, rt_resolutions = ra_resolutions a,
             rt_decision = decision\<rparr> in
       io_bind (transition_with H k None lost (Some r) (Some receipt)) (\<lambda>_.
       io_seq (io_modify (be_runtime_update (\<lambda>_. Some ((armed_from r None)
         \<lparr>ar_selector := Some selector\<rparr>))))
       (io_bind (io_gets status_snapshot) (\<lambda>status.
         io_return \<lparr>rp_status = status, rp_plan = k, rp_rollback_receipt = token\<rparr>)))))))))))))"

section \<open>Refresh\<close>

text \<open>
  The runtime is taken out of the backend while it is refreshed; it is the state these operations
  carry besides the backend's.
\<close>

type_synonym ('w, 'n, 'h) runtime_world = "('n, 'h) armed_runtime \<times> ('w, 'n, 'h) backend_world"

definition rearm :: "('n, 'h) armed_runtime \<Rightarrow> ('n, 'h) armed_runtime" where
  "rearm r = r\<lparr>ar_phase := Armed, ar_last_error := None, ar_held_back := None\<rparr>"

definition hold_back_candidate ::
  "duration \<Rightarrow> 'h held_back_candidate option \<Rightarrow> 'h \<Rightarrow> (('w, 'n, 'h) runtime_world, unit) io"
where
  "hold_back_candidate now held candidate_hash =
     (let wait = next_wait (map_option hb_wait held) in
      io_bind (io_lift (later now wait)) (\<lambda>at.
        io_modify (\<lambda>r. r\<lparr>ar_held_back := Some \<lparr>hb_plan_hash = candidate_hash, hb_retry_at = at,
            hb_wait = wait\<rparr>,
          ar_failback_in_ms := sooner (ar_failback_in_ms r) (millis wait)\<rparr>)))"

definition switch_runtime ::
  "('w, 'n::linorder, 'h) helper \<Rightarrow> duration \<Rightarrow> 'n kernel_plan \<Rightarrow> primary_decision \<Rightarrow>
     (u8 \<times> u32) set \<Rightarrow> 'h held_back_candidate option \<Rightarrow> (('w, 'n, 'h) runtime_world, unit) io"
where
  "switch_runtime H now candidate decision lost held =
     io_bind (io_gets (\<lambda>r. (ar_record r)\<lparr>rt_decision := decision\<rparr>)) (\<lambda>record'.
     io_seq (io_modify (ar_phase_update (\<lambda>_. Switching)))
     (io_bind (in_world (io_gets be_runtime_restore)) (\<lambda>restore.
      io_bind (io_result (in_world (transition_with H candidate None lost (Some record') restore)))
        (\<lambda>outcome.
        case outcome of
          Inl e \<Rightarrow> io_seq (hold_back_candidate now held (content_hash (hp_content H) candidate))
            (io_fail e)
        | Inr _ \<Rightarrow> io_modify (\<lambda>r. rearm (r\<lparr>ar_record := record'\<rparr>))))))"

definition try_candidate ::
  "('w, 'n::linorder, 'h) helper \<Rightarrow> duration \<Rightarrow> ('n, 'h) applied_kernel_state \<Rightarrow> 'n kernel_plan \<Rightarrow>
     primary_decision \<Rightarrow> (u8 \<times> u32) set \<Rightarrow> (('w, 'n, 'h) runtime_world, unit) io"
where
  "try_candidate H now current candidate decision lost =
     io_bind (io_gets (\<lambda>r. r)) (\<lambda>r.
     let hash = content_hash (hp_content H) candidate in
     if hash = ak_plan_hash current \<and> decision = rt_decision (ar_record r)
     then io_modify rearm
     else
       let held = (case ar_held_back r of
             None \<Rightarrow> None | Some h \<Rightarrow> if hb_plan_hash h = hash then Some h else None)
       in (case held of
             Some h \<Rightarrow>
               if now < hb_retry_at h
               then io_modify (\<lambda>r. r\<lparr>ar_failback_in_ms := sooner (ar_failback_in_ms r)
                 (at_least_one_milli (hb_retry_at h - now))\<rparr>)
               else switch_runtime H now candidate decision lost held
           | None \<Rightarrow> switch_runtime H now candidate decision lost held))"

definition prove_current ::
  "('w, 'n::linorder, 'h) helper \<Rightarrow> bool \<Rightarrow> 'n kernel_plan \<Rightarrow>
     (('w, 'n, 'h) runtime_world, (u8 \<times> u32) set) io"
where
  "prove_current H unverified candidate =
     io_bind (io_result (in_world (revalidate_current_ownership_for H candidate))) (\<lambda>lost.
       case lost of
         Inr lost \<Rightarrow> io_return lost
       | Inl e \<Rightarrow>
           if unverified
           then io_seq (io_modify (ar_phase_update (\<lambda>_. NeedsReauthorization)))
             (io_fail (''restarted helper could not prove its runtime state: '' @ e))
           else io_fail e)"

text \<open>The selector in use: the one the runtime holds, or one resumed from the journaled decision.\<close>

definition runtime_selector ::
  "('n, 'h) armed_runtime \<Rightarrow> 'n topology \<Rightarrow> selector"
where
  "runtime_selector r filtered =
     (case ar_selector r of
        Some s \<Rightarrow> s
      | None \<Rightarrow> selector_resume (rt_profile (ar_record r)) filtered (rt_decision (ar_record r)))"

definition refresh_armed ::
  "('w, 'n::linorder, 'h) helper \<Rightarrow> 'n topology \<Rightarrow> duration \<Rightarrow> bool \<Rightarrow>
     (('w, 'n, 'h) runtime_world, unit) io"
where
  "refresh_armed H t now unverified =
     io_bind (io_gets (\<lambda>r. r)) (\<lambda>r.
     if ar_phase r = NeedsReauthorization then io_return ()
     else
       io_seq (io_guard (t_observed t) ''runtime refresh requires observed kernel topology'')
       (io_bind (in_world (io_gets be_current)) (\<lambda>current.
        io_bind (io_lift (ok_or ''armed runtime has no committed RouteLane generation'' current))
          (\<lambda>current.
        let p = rt_profile (ar_record r); filtered = restrict_to_grant t (rt_grant (ar_record r));
            (decision, selector) =
              selector_update (p_routing p) filtered now (runtime_selector r filtered)
        in
        io_seq (io_modify (\<lambda>r. r\<lparr>ar_selector := Some selector, ar_failback_in_ms :=
            map_option (\<lambda>d. at_least_one_milli (d - now)) (next_deadline selector)\<rparr>))
        (io_bind (io_lift (compile_runtime_plan H p filtered (rt_resolutions (ar_record r)) decision
          (ak_generation current + 1))) (\<lambda>candidate.
        io_bind (prove_current H unverified candidate) (\<lambda>lost.
          try_candidate H now current candidate decision lost)))))))"

text \<open>The recovery wait: within it an interrupted journal is not replayed again.\<close>

definition held_back_until :: "('n, 'h) backend_state \<Rightarrow> duration \<Rightarrow> duration option" where
  "held_back_until b now =
     (case be_recovery_held_back b of
        None \<Rightarrow> None
      | Some (at, _) \<Rightarrow> if now < at then Some at else None)"

definition update_runtime ::
  "(('n, 'h) armed_runtime \<Rightarrow> ('n, 'h) armed_runtime) \<Rightarrow> (('w, 'n, 'h) backend_world, unit) io"
where
  "update_runtime f = io_modify (be_runtime_update (map_option f))"

definition wait_for_recovery ::
  "('w, 'n, 'h) helper \<Rightarrow> duration \<Rightarrow> (('w, 'n, 'h) backend_world, bool) io"
where
  "wait_for_recovery H now =
     io_bind (io_gets (\<lambda>b. held_back_until b now)) (\<lambda>held.
       case held of
         None \<Rightarrow> io_return False
       | Some at \<Rightarrow>
           io_bind (io_unwrap_or True (journal_interrupted H)) (\<lambda>interrupted.
             if \<not> interrupted then io_return False
             else io_seq (update_runtime (\<lambda>r. r\<lparr>ar_failback_in_ms :=
                 Some (at_least_one_milli (at - now))\<rparr>)) (io_return True)))"

definition degrade :: "string \<Rightarrow> ('n, 'h) armed_runtime \<Rightarrow> ('n, 'h) armed_runtime" where
  "degrade e r = r\<lparr>ar_phase :=
     (if ar_phase r = NeedsReauthorization then NeedsReauthorization else Degraded),
     ar_last_error := Some e, ar_selector := None\<rparr>"

definition prepare_failed ::
  "duration \<Rightarrow> string \<Rightarrow> (('w, 'n, 'h) backend_world, 'h runtime_status) io"
where
  "prepare_failed now e =
     io_bind (hold_back_recovery now) (\<lambda>wait.
     io_bind (io_gets be_runtime) (\<lambda>runtime.
       if runtime = None then io_fail e
       else io_seq (update_runtime (\<lambda>r. r\<lparr>ar_phase := Degraded, ar_last_error := Some e,
           ar_selector := None, ar_failback_in_ms := Some (millis wait)\<rparr>))
         (io_gets status_snapshot)))"

definition settle_refresh ::
  "('w, 'n, 'h) helper \<Rightarrow> duration \<Rightarrow> (string, unit) result \<Rightarrow> ('n, 'h) armed_runtime \<Rightarrow>
     (('w, 'n, 'h) backend_world, ('n, 'h) armed_runtime) io"
where
  "settle_refresh H now outcome r =
     (case outcome of
        Inr _ \<Rightarrow> io_return r
      | Inl e \<Rightarrow>
          io_bind (io_unwrap_or True (journal_interrupted H)) (\<lambda>interrupted.
          io_bind (if interrupted
              then io_bind (hold_back_recovery now) (\<lambda>wait. io_return
                (r\<lparr>ar_failback_in_ms := sooner (ar_failback_in_ms r) (millis wait)\<rparr>))
              else io_return r) (\<lambda>r. io_return (degrade e r))))"

definition refresh_taken ::
  "('w, 'n::linorder, 'h) helper \<Rightarrow> 'n topology \<Rightarrow> duration \<Rightarrow> bool \<Rightarrow> ('n, 'h) armed_runtime \<Rightarrow>
     (('w, 'n, 'h) backend_world, 'h runtime_status) io"
where
  "refresh_taken H t now unverified r =
     io_seq (io_modify (be_runtime_update (\<lambda>_. None)))
     (io_bind (run_state r (refresh_armed H t now unverified)) (\<lambda>(outcome, r).
      io_bind (settle_refresh H now outcome r) (\<lambda>r.
      io_seq (io_modify (be_runtime_update (\<lambda>_. Some r)))
        (io_gets status_snapshot))))"

definition refresh_runtime ::
  "('w, 'n::linorder, 'h) helper \<Rightarrow> 'n topology \<Rightarrow> duration \<Rightarrow>
     (('w, 'n, 'h) backend_world, 'h runtime_status) io"
where
  "refresh_runtime H t now =
     io_bind (wait_for_recovery H now) (\<lambda>waiting.
       if waiting then io_gets status_snapshot
       else io_bind (io_result (prepare_runtime_operation H)) (\<lambda>prepared.
         case prepared of
           Inl e \<Rightarrow> prepare_failed now e
         | Inr unverified \<Rightarrow>
             io_bind (io_gets be_runtime) (\<lambda>runtime.
               case runtime of
                 None \<Rightarrow> io_gets status_snapshot
               | Some r \<Rightarrow> refresh_taken H t now unverified r)))"

section \<open>Restore and status\<close>

definition restore_runtime ::
  "('w, 'n::linorder, 'h) helper \<Rightarrow> string \<Rightarrow> u32 \<Rightarrow>
     (('w, 'n, 'h) backend_world, 'h runtime_status) io"
where
  "restore_runtime H token uid =
     io_bind (prepare_runtime_operation H) (\<lambda>_.
     io_seq refuse_legacy_activation
     (io_bind (io_gets (\<lambda>b. b)) (\<lambda>b.
      io_bind (io_lift (ok_or ''no runtime restore receipt is available'' (be_runtime_restore b)))
        (\<lambda>receipt.
      io_seq (io_guard (hp_token_digest H token = rc_token_hash receipt \<and> uid = rc_owner_uid receipt)
        ''runtime restore receipt does not belong to this caller'')
      (io_bind (io_lift (ok_or ''runtime restore receipt has no committed generation'' (be_current b)))
        (\<lambda>current.
      io_seq (io_guard (ak_generation current = rc_issued_for_generation receipt \<and>
          ak_plan_hash current = rc_issued_for_plan_hash receipt)
        ''a newer RouteLane transition superseded this runtime restore receipt'')
      (case rc_previous_plan receipt of
         None \<Rightarrow> io_bind (cleanup_with_receipt H None) (\<lambda>_. io_gets status_snapshot)
       | Some previous \<Rightarrow>
           let previous = previous\<lparr>kp_generation := ak_generation current + 1\<rparr> in
           io_bind (revalidate_current_ownership_for H previous) (\<lambda>lost.
           io_bind (transition_with H previous None lost (rc_previous_record receipt) None) (\<lambda>_.
           io_seq (io_modify (be_runtime_update (\<lambda>_.
               map_option (\<lambda>r. armed_from r None) (rc_previous_record receipt))))
             (io_gets status_snapshot))))))))))"

definition runtime_status_handler ::
  "('w, 'n::linorder, 'h) helper \<Rightarrow> (('w, 'n, 'h) backend_world, 'h runtime_status) io"
where
  "runtime_status_handler H =
     io_bind (prepare_runtime_operation H) (\<lambda>_. io_gets status_snapshot)"

definition degrade_runtime ::
  "('w, 'n::linorder, 'h) helper \<Rightarrow> string \<Rightarrow> (('w, 'n, 'h) backend_world, 'h runtime_status) io"
where
  "degrade_runtime H reason =
     io_bind (prepare_runtime_operation H) (\<lambda>_.
     io_seq (update_runtime (\<lambda>r. if ar_phase r = NeedsReauthorization then r
         else r\<lparr>ar_phase := Degraded, ar_last_error := Some reason\<rparr>))
       (io_gets status_snapshot))"

end
