(* ===== verification/Effect_Rules.thy ===== *)
theory Effect_Rules
  imports Effects
begin

text \<open>
  Further rules for fallible operations: operations lifted to a state of their own, outcomes inspected
  as values, and values that are known where they are used.
\<close>

section \<open>Operations lifted to a state of their own\<close>

lemma hoare_in_world:
  "hoare P m Q E \<Longrightarrow>
     hoare (\<lambda>(s, w). P w) (in_world m) (\<lambda>a (s, w). Q a w) (\<lambda>(s, w). E w)"
  by (fastforce simp: hoare_def in_world_def split: prod.splits sum.splits)

lemma hoare_in_world_state:
  "(\<And>s. hoare (\<lambda>w. P (s, w)) m (\<lambda>a w. Q a (s, w)) (\<lambda>w. E (s, w))) \<Longrightarrow> hoare P (in_world m) Q E"
  by (fastforce simp: hoare_def in_world_def split: prod.splits sum.splits)

definition world_has :: "('w \<Rightarrow> bool) \<Rightarrow> 's \<times> 'w \<Rightarrow> bool" where "world_has Q x = Q (snd x)"

lemma world_has_fun: "world_has Q = (\<lambda>x. Q (snd x))"
  by (simp add: fun_eq_iff world_has_def)

lemma world_has_simp [simp]: "world_has Q (s, w) = Q w"
  by (simp add: world_has_def)

lemma hoare_gets [hoare_rule]: "(\<And>s w. P (s, w) \<Longrightarrow> Q (f s) (s, w)) \<Longrightarrow> hoare P (io_gets f) Q E"
  by (auto simp: hoare_def io_gets_def)

lemma hoare_modify [hoare_rule]: "(\<And>s w. P (s, w) \<Longrightarrow> Q () (f s, w)) \<Longrightarrow> hoare P (io_modify f) Q E"
  by (auto simp: hoare_def io_modify_def)

lemma hoare_with_state:
  "(\<And>w. P w \<Longrightarrow> P' (s, w)) \<Longrightarrow> hoare P' m (\<lambda>a (_, w). Q a w) (\<lambda>(_, w). E w) \<Longrightarrow>
     hoare P (with_state s m) Q E"
  by (fastforce simp: hoare_def with_state_def split: prod.splits sum.splits)

lemma hoare_bind_gets: "(\<And>s. hoare P (k (f s)) Q E) \<Longrightarrow> hoare P (io_bind (io_gets f) k) Q E"
  by (auto simp: hoare_def io_bind_def io_gets_def)

lemma hoare_bind_lift:
  "(\<And>a. r = Inr a \<Longrightarrow> hoare P (k a) Q E) \<Longrightarrow> (\<And>w. P w \<Longrightarrow> E w) \<Longrightarrow>
     hoare P (io_bind (io_lift r) k) Q E"
  by (cases r) (simp_all add: hoare_fail)

lemma hoare_seq_guard:
  "(ok \<Longrightarrow> hoare P k Q E) \<Longrightarrow> (\<And>w. P w \<Longrightarrow> E w) \<Longrightarrow> hoare P (io_seq (io_guard ok e) k) Q E"
  by (cases ok) (simp_all add: hoare_fail io_seq_def)

lemma hoare_seq_modify:
  "(\<And>s w. P (s, w) \<Longrightarrow> P' (f s, w)) \<Longrightarrow> hoare P' k Q E \<Longrightarrow> hoare P (io_seq (io_modify f) k) Q E"
  by (rule hoare_seq [where R = P']) (rule hoare_modify)

text \<open>Inspecting the outcome of an operation with errors of its own type.\<close>

lemma hoare_case_result:
  assumes "\<And>x r y. P x \<Longrightarrow> m x = (r, y) \<Longrightarrow> R y" "\<And>e. hoare R (h e) Q E" "\<And>a. hoare R (k a) Q E"
  shows "hoare P (\<lambda>x. case m x of (Inl e, y) \<Rightarrow> h e y | (Inr a, y) \<Rightarrow> k a y) Q E"
proof (rule hoareI)
  fix x b y assume x: "P x" "(case m x of (Inl e, y) \<Rightarrow> h e y | (Inr a, y) \<Rightarrow> k a y) = (Inr b, y)"
  obtain r z where r: "m x = (r, z)" by (rule prod.exhaust)
  have z: "R z" by (rule assms(1) [OF x(1) r])
  show "Q b y"
  proof (cases r)
    case (Inl e)
    show ?thesis by (rule hoareD(1) [OF assms(2) z]) (use x(2) r Inl in simp)
  next
    case (Inr a)
    show ?thesis by (rule hoareD(1) [OF assms(3) z]) (use x(2) r Inr in simp)
  qed
next
  fix x e' y assume x: "P x" "(case m x of (Inl e, y) \<Rightarrow> h e y | (Inr a, y) \<Rightarrow> k a y) = (Inl e', y)"
  obtain r z where r: "m x = (r, z)" by (rule prod.exhaust)
  have z: "R z" by (rule assms(1) [OF x(1) r])
  show "E y"
  proof (cases r)
    case (Inl e)
    show ?thesis by (rule hoareD(2) [OF assms(2) z]) (use x(2) r Inl in simp)
  next
    case (Inr a)
    show ?thesis by (rule hoareD(2) [OF assms(3) z]) (use x(2) r Inr in simp)
  qed
qed

lemma hoare_run_state:
  "(\<And>w. P w \<Longrightarrow> P' (s, w)) \<Longrightarrow>
   hoare P' m (\<lambda>a (s', w). Q (Inr a, s') w) (\<lambda>(s', w). \<forall>e. Q (Inl e, s') w) \<Longrightarrow>
     hoare P (run_state s m) Q E"
proof (rule hoareI)
  fix w x w'
  assume P: "\<And>w. P w \<Longrightarrow> P' (s, w)" and w: "P w" and x: "run_state s m w = (Inr x, w')"
    and m: "hoare P' m (\<lambda>a (s', w). Q (Inr a, s') w) (\<lambda>(s', w). \<forall>e. Q (Inl e, s') w)"
  obtain r s' where r: "m (s, w) = (r, (s', w'))" "x = (r, s')"
    using x by (auto simp: run_state_def split: prod.splits)
  show "Q x w'"
  proof (cases r)
    case (Inl e)
    with hoareD(2) [OF m P [OF w]] r show ?thesis by fastforce
  next
    case (Inr a)
    with hoareD(1) [OF m P [OF w]] r show ?thesis by fastforce
  qed
qed (auto simp: run_state_def split: prod.splits)

lemma hoare_pure: "(F \<Longrightarrow> hoare P m Q E) \<Longrightarrow> hoare (\<lambda>w. P w \<and> F) m Q E"
  by (auto simp: hoare_def)

lemma hoare_keeps: "keeps P m \<Longrightarrow> hoare P m (\<lambda>_. P) P"
  by (simp add: keeps_def)

lemma keeps_each_in_world:
  "(\<And>x. x \<in> set xs \<Longrightarrow> keeps P (f x)) \<Longrightarrow> keeps (\<lambda>(s, w). P w) (in_world (io_each f xs))"
  by (intro keeps_rule) simp_all

lemma ok_or_Inr: "ok_or e x = Inr a \<longleftrightarrow> x = Some a"
  by (cases x) simp_all

text \<open>A value read from the state, or computed, is known where it is used.\<close>

lemma keeps_bind_gets:
  "(\<And>s w. P (s, w) \<Longrightarrow> keeps P (k (f s))) \<Longrightarrow> keeps P (io_bind (io_gets f) k)"
  by (rule keepsI) (auto simp: io_bind_def io_gets_def, metis keepsD prod.collapse)

lemma keeps_bind_lift:
  "(\<And>a. r = Inr a \<Longrightarrow> keeps P (k a)) \<Longrightarrow> keeps P (io_bind (io_lift r) k)"
  by (cases r) (simp_all add: keeps_simps)

end
