(* ===== verification/Reading.thy ===== *)
theory Reading
  imports Runtime_Control Effect_Rules
begin

text \<open>
  What only reads: the queries of the kernel, and every operation of the backend that is built from
  them. The locale \<open>reading\<close> asks that queries, process queries and reads of the environment and the
  journal keep an invariant and the journal; then so do capture, verification and inspection.
\<close>

section \<open>Queries\<close>

definition is_query :: "command_spec \<Rightarrow> bool" where
  "is_query spec \<longleftrightarrow> (\<exists>f. spec = show_routes f) \<or> (\<exists>f. spec = show_rules f) \<or>
     spec = list_tables_command \<or> spec = list_table_command"

section \<open>Quiet operations\<close>

text \<open>An operation that keeps an invariant and leaves the journal alone.\<close>

definition quiet :: "('w \<Rightarrow> bool) \<Rightarrow> ('w \<Rightarrow> 'j) \<Rightarrow> ('w, 'a) io \<Rightarrow> bool" where
  "quiet P content m \<longleftrightarrow> (\<forall>w x w'. P w \<longrightarrow> m w = (x, w') \<longrightarrow> P w' \<and> content w' = content w)"

definition holds :: "('w \<Rightarrow> bool) \<Rightarrow> ('w \<Rightarrow> 'j) \<Rightarrow> ('j \<Rightarrow> bool) \<Rightarrow> 'w \<Rightarrow> bool" where
  "holds P content G w \<longleftrightarrow> P w \<and> G (content w)"

lemma quiet_keeps: "quiet P content m \<Longrightarrow> keeps (holds P content G) m"
  by (rule keepsI) (metis holds_def prod.collapse quiet_def)

section \<open>The helper as a reader\<close>

text \<open>
  \<open>P\<close> is any invariant of the world that the reads keep; \<open>content\<close> is the journal in the world.
\<close>

locale reading =
  fixes H :: "('w, 'n::linorder, 'h) helper" and content :: "'w \<Rightarrow> ('n, 'h) stored_state option"
    and P :: "'w \<Rightarrow> bool"
  assumes query: "is_query spec \<Longrightarrow> quiet P content (sy_execute (hp_system H) spec)"
    and process: "quiet P content (sy_process (hp_system H) invocation)"
    and identity: "quiet P content (rpf_identity (hp_settings H) name)"
    and boot_id: "quiet P content (en_boot_id (hp_environment H))"
    and namespace: "quiet P content (en_network_namespace (hp_environment H))"
    and load: "quiet P content (js_load (hp_store H))"
begin

abbreviation Y where "Y \<equiv> hp_system H"
abbreviation at where "at \<equiv> holds P content"
abbreviation inv_in :: "'s \<times> 'w \<Rightarrow> bool" where "inv_in \<equiv> world_has P"

lemma at_True: "at (\<lambda>_. True) = P"
  by (simp add: holds_def fun_eq_iff)

lemma at_P: "at G w \<Longrightarrow> P w"
  by (simp add: holds_def)

lemma reads_P: "(\<And>G. keeps (at G) m) \<Longrightarrow> keeps P m"
  using at_True by metis

lemma at_step: "keeps (at G) m \<Longrightarrow> hoare (at G) m (\<lambda>_. at G) P"
  by (erule hoare_conseq [OF hoare_keeps]) (auto simp: holds_def)

lemmas reading_keeps_rule [keeps_rule] = quiet_keeps [OF process] quiet_keeps [OF identity]
  quiet_keeps [OF boot_id] quiet_keeps [OF namespace] quiet_keeps [OF load]

lemma execute_query: "is_query spec \<Longrightarrow> keeps (at G) (sy_execute Y spec)"
  by (rule quiet_keeps) (rule query)

lemma inv_world [keeps_rule]: "keeps P m \<Longrightarrow> keeps inv_in (in_world m)"
  by (rule keeps_in_world) (simp add: world_has_def)

lemma read_world: "(\<And>G. keeps (at G) m) \<Longrightarrow> keeps inv_in (in_world m)"
  by (rule inv_world) (rule reads_P)

lemma load_keeps_P [keeps_rule]: "keeps P (js_load (hp_store H))"
  by (rule reads_P) (rule reading_keeps_rule)

section \<open>Reading\<close>

lemma run_queries [keeps_rule]:
  "keeps (at G) (run_required (sy_execute Y) (show_routes f) context)"
  "keeps (at G) (run_required (sy_execute Y) (show_rules f) context)"
  "keeps (at G) (run_required (sy_execute Y) list_tables_command context)"
  "keeps (at G) (run_required (sy_execute Y) list_table_command context)"
  unfolding run_required_def
  by (intro keeps_rule execute_query; auto simp: is_query_def)+

lemma capture_keeps [keeps_rule]: "keeps (at G) (capture_snapshot Y)"
  unfolding capture_snapshot_def Let_def
  by (simp add: build_snapshot_commands_def ip4_def ip6_def show_routes_def [symmetric]
    show_rules_def [symmetric]) (intro keeps_rule)

lemma topology_keeps [keeps_rule]: "keeps (at G) (run_topology_query (sy_process Y) q)"
  unfolding run_topology_query_def by (intro keeps_rule)

lemma table_keeps [keeps_rule]:
  "keeps (at G) (read_nft_table_once Y)"
  "keeps (at G) (read_nft_link_bindings Y)"
  unfolding read_nft_table_once_def read_nft_link_bindings_def by (intro keeps_rule)+

lemma read_table_keeps [keeps_rule]: "keeps (at G) (read_nft_table Y)"
  unfolding read_nft_table_def by (intro keeps_rule)

lemma marker_keeps [keeps_rule]:
  "keeps (at G) (nft_marker_present Y k)" "keeps (at G) (live_nft_fingerprint Y)"
  unfolding nft_marker_present_def nft_chain_present_def live_nft_fingerprint_def
  by (intro keeps_rule)+

lemma step_present_keeps [keeps_rule]: "keeps (at G) (step_present Y s)"
  by (cases s) (auto simp: live_family_ownership_def intro!: keeps_rule)

lemma verify_keeps [keeps_rule]:
  "keeps (at G) (verify_plan_basis Y k routing)"
  "keeps (at G) (verify_persisted_ownership_basis Y k routing fingerprint)"
  unfolding verify_plan_basis_def verify_persisted_ownership_basis_def by (intro keeps_rule)+

lemma verify_more_keeps [keeps_rule]:
  "keeps (at G) (verify_plan Y k)"
  "keeps (at G) (verify_persisted_ownership Y k fingerprint)"
  "keeps (at G) (verify_exact_kernel_basis Y state f lost)"
  unfolding verify_plan_def verify_persisted_ownership_def verify_exact_kernel_basis_def
  by (intro keeps_rule)+

lemma verify_exact_keeps [keeps_rule]: "keeps (at G) (verify_exact_kernel_state Y state f)"
  unfolding verify_exact_kernel_state_def by (intro keeps_rule)

lemma ownership_keeps [keeps_rule]:
  "keeps (at G) (tolerated_lost_unicast Y k fingerprint next)"
  "keeps (at G) (verify_cleanup_table_ownership Y active f)"
  "keeps (at G) (verify_pending_table_ownership Y active f pending x)"
  "keeps (at G) (preflight_plan Y current next)"
  "keeps (at G) (live_routing_fingerprint Y)"
  unfolding tolerated_lost_unicast_def verify_cleanup_table_ownership_def Let_def
    verify_pending_table_ownership_def preflight_plan_def live_routing_fingerprint_def
  by (intro keeps_rule)+

lemma orphan_reads_keep [keeps_rule]:
  "keeps (at G) (capture_verified_orphaned_ownership Y)"
  "keeps (at G) (verify_orphan_ownership Y oo)"
  unfolding capture_verified_orphaned_ownership_def verify_orphan_ownership_def
  by (intro keeps_rule)+

lemma legacy_reads_keep [keeps_rule]:
  "keeps (at G) (verify_legacy_v1 H active fingerprint exact)"
  "keeps (at G) (verify_legacy_v2_live Y r)"
  "keeps (at G) (check_legacy_identities H r)"
  unfolding verify_legacy_v1_def verify_legacy_v2_live_def check_legacy_identities_def Let_def
  by (intro keeps_rule)+

lemma more_reads_keep [keeps_rule]:
  "keeps (at G) (prove_legacy_v2 H r)"
  "keeps (at G) (live_nft_exact Y b c)"
  "keeps (at G) (grant_mismatch H x)"
  unfolding prove_legacy_v2_def live_nft_exact_def grant_mismatch_def
  by (intro keeps_rule)+

section \<open>Inspection\<close>

lemma adopt_keeps [keeps_rule]:
  "keeps inv_in (adopt_legacy_v1 r)" "keeps inv_in (adopt_legacy_v2 r)"
  unfolding adopt_legacy_v1_def adopt_legacy_v2_def
  by (intro keeps_seq keeps_simps keeps_modify; simp)+

lemma inspection_ready_keeps [keeps_rule]: "keeps inv_in (ensure_inspection_ready H)"
  unfolding ensure_inspection_ready_def
  by (intro keeps_rule) simp_all

lemma load_runtime_keeps [keeps_rule]: "keeps inv_in (load_runtime H)"
  unfolding load_runtime_def Let_def
  by (intro keeps_if keeps_bind keeps_seq keeps_simps keeps_gets keeps_option keeps_modify
      inv_world load_keeps_P reads_P more_reads_keep) simp_all

lemma inspect_keeps [keeps_rule]: "keeps inv_in (inspect_handler H)"
  unfolding inspect_handler_def Let_def
  by (intro keeps_bind keeps_seq keeps_simps keeps_gets inspection_ready_keeps load_runtime_keeps
      read_world capture_keeps more_reads_keep)

end

end
