(* ===== verification/Live_Ownership.thy ===== *)
theory Live_Ownership
  imports Live_State
begin

text \<open>
  What an accepted reading of the live kernel means (\<open>live_routing_ownership\<close> and its two collectors in
  \<open>src/src/backend/privileged.rs\<close>). An entry of a reserved table or priority either has exactly the form
  RouteLane installs, and then stands in the result, or the reading is refused; nothing outside the
  reserved ranges is looked at.
\<close>

section \<open>Entries\<close>

definition reserved_route :: "json \<Rightarrow> bool" where
  "reserved_route v \<longleftrightarrow> (\<exists>T. json_u32 (jget ''table'' v) = Some T \<and> in_tables T)"

definition reserved_rule :: "json \<Rightarrow> bool" where
  "reserved_rule v \<longleftrightarrow> (\<exists>p. json_u32 (jget ''priority'' v) = Some p \<and> in_priorities p)"

text \<open>Only members RouteLane knows: a foreign member could change what the entry does.\<close>

definition members_within :: "string list \<Rightarrow> json \<Rightarrow> bool" where
  "members_within ks v \<longleftrightarrow> (\<exists>ms. as_object v = Some ms \<and> fst ` set ms \<subseteq> set ks)"

definition rule_mark_value :: "json \<Rightarrow> json option" where
  "rule_mark_value v = (case jget ''fwmark'' v of Some m \<Rightarrow> Some m | None \<Rightarrow> jget ''mark'' v)"

text \<open>The two readings, as relations: the exact forms, and the resource each stands for.\<close>

inductive route_reads :: "u8 \<Rightarrow> json \<Rightarrow> route_ownership \<Rightarrow> bool" for f v where
  terminal: "json_u32 (jget ''table'' v) = Some T \<Longrightarrow> in_tables T \<Longrightarrow> members_within route_members v \<Longrightarrow>
    is_terminal_kind v \<Longrightarrow> terminal_is_exact v f \<Longrightarrow>
    route_reads f v \<lparr>ro_family = f, ro_table = T, ro_gateway = None, ro_interface = [],
      ro_terminal = True\<rparr>"
| unicast: "json_u32 (jget ''table'' v) = Some T \<Longrightarrow> in_tables T \<Longrightarrow> members_within route_members v \<Longrightarrow>
    \<not> is_terminal_kind v \<Longrightarrow> unicast_is_exact v f \<Longrightarrow>
    option_bind (jget ''dev'' v) as_str = Some dev \<Longrightarrow>
    route_reads f v \<lparr>ro_family = f, ro_table = T, ro_gateway = gateway_text v, ro_interface = dev,
      ro_terminal = False\<rparr>"

inductive rule_reads :: "u8 \<Rightarrow> json \<Rightarrow> rule_ownership \<Rightarrow> bool" for f v where
  rule: "json_u32 (jget ''priority'' v) = Some p \<Longrightarrow> in_priorities p \<Longrightarrow> members_within rule_members v \<Longrightarrow>
    absent_or_exact_string (jget ''src'' v) ''all'' \<Longrightarrow>
    absent_or_exact_string (jget ''dst'' v) ''all'' \<Longrightarrow>
    json_u32 (jget ''table'' v) = Some T \<Longrightarrow> option_bind (rule_mark_value v) parse_exact_mark = Some m \<Longrightarrow>
    rule_reads f v \<lparr>uo_family = f, uo_priority = p, uo_table = T, uo_mark = m\<rparr>"

inductive_simps route_reads_iff: "route_reads f v r"
inductive_simps rule_reads_iff: "rule_reads f v r"

lemma route_reads_bounds: "route_reads f v r \<Longrightarrow> ro_family r = f \<and> in_tables (ro_table r)"
  by (auto simp: route_reads_iff)

lemma rule_reads_bounds: "rule_reads f v u \<Longrightarrow> uo_family u = f \<and> in_priorities (uo_priority u)"
  by (auto simp: rule_reads_iff)

section \<open>One entry\<close>

lemma foreign_members:
  "as_object v = Some ms \<Longrightarrow> list_ex (\<lambda>(k, _). k \<notin> set ks) ms \<longleftrightarrow> \<not> members_within ks v"
  by (auto simp: members_within_def list_ex_iff)

lemma collect_route_Inr:
  "collect_route f s v = Inr s' \<longleftrightarrow>
     (if reserved_route v
      then \<exists>r. route_reads f v r \<and> r \<notin> own_routes s \<and> s' = s\<lparr>own_routes := insert r (own_routes s)\<rparr>
      else s' = s)"
proof (cases "json_u32 (jget ''table'' v)")
  case None
  then show ?thesis by (auto simp: collect_route_def reserved_route_def)
next
  case (Some T)
  show ?thesis
  proof (cases "in_tables T")
    case False
    with Some show ?thesis by (auto simp: collect_route_def reserved_route_def)
  next
    case True
    show ?thesis
    proof (cases "members_within route_members v")
      case False
      with Some True show ?thesis
        by (cases "as_object v")
          (auto simp: collect_route_def reserved_route_def route_reads_iff foreign_members)
    next
      case members: True
      then obtain ms where ms: "as_object v = Some ms" by (auto simp: members_within_def)
      show ?thesis
      proof (cases "is_terminal_kind v")
        case True
        with Some \<open>in_tables T\<close> members ms show ?thesis
          by (auto simp: collect_route_def reserved_route_def route_reads_iff foreign_members
            live_terminal_route_def and_then_Inr_iff)
      next
        case False
        with Some \<open>in_tables T\<close> members ms show ?thesis
          by (cases "option_bind (jget ''dev'' v) as_str")
            (auto simp: collect_route_def reserved_route_def route_reads_iff foreign_members
              live_unicast_route_def and_then_Inr_iff)
      qed
    qed
  qed
qed

lemma collect_rule_Inr:
  "collect_rule f s v = Inr s' \<longleftrightarrow>
     (if reserved_rule v
      then \<exists>u. rule_reads f v u \<and> u \<notin> own_rules s \<and> s' = s\<lparr>own_rules := insert u (own_rules s)\<rparr>
      else s' = s)"
proof (cases "json_u32 (jget ''priority'' v)")
  case None
  then show ?thesis by (auto simp: collect_rule_def reserved_rule_def)
next
  case (Some p)
  show ?thesis
  proof (cases "in_priorities p \<and> members_within rule_members v")
    case False
    with Some show ?thesis
      by (cases "as_object v")
        (auto simp: collect_rule_def reserved_rule_def rule_reads_iff foreign_members)
  next
    case True
    then obtain ms where ms: "as_object v = Some ms" by (auto simp: members_within_def)
    show ?thesis
      using Some True ms
      by (cases "json_u32 (jget ''table'' v)";
          cases "option_bind (rule_mark_value v) parse_exact_mark")
        (auto simp: collect_rule_def reserved_rule_def rule_reads_iff foreign_members Let_def
          rule_mark_value_def [symmetric])
  qed
qed

section \<open>All entries\<close>

lemma ex_of_image: "(\<exists>t. (\<exists>r. A r \<and> B r \<and> t = g r) \<and> C t) \<longleftrightarrow> (\<exists>r. A r \<and> B r \<and> C (g r))"
  by blast

text \<open>A loop that collects what the entries of interest read as, each at most once.\<close>

lemma try_fold_collect:
  assumes step: "\<And>s v s'. f s v = Inr s' \<longleftrightarrow>
      (if res v then \<exists>r. reads v r \<and> r \<notin> get s \<and> s' = ins r s else s' = s)"
    and get: "\<And>r s. get (ins r s) = insert r (get s)"
  shows "try_fold f s vs = Inr s' \<longleftrightarrow>
    (\<exists>rs. list_all2 reads (filter res vs) rs \<and> distinct rs \<and> set rs \<inter> get s = {} \<and>
       s' = fold ins rs s)"
proof (induction vs arbitrary: s)
  case Nil
  then show ?case by auto
next
  case (Cons v vs)
  have "try_fold f s (v # vs) = Inr s' \<longleftrightarrow> (\<exists>t. f s v = Inr t \<and> try_fold f t vs = Inr s')"
    by (auto split: sum.splits)
  also have "\<dots> \<longleftrightarrow> (\<exists>rs. list_all2 reads (filter res (v # vs)) rs \<and> distinct rs \<and>
      set rs \<inter> get s = {} \<and> s' = fold ins rs s)"
  proof (cases "res v")
    case False
    then show ?thesis by (auto simp: step Cons.IH)
  next
    case True
    have "(\<exists>t. f s v = Inr t \<and> try_fold f t vs = Inr s') \<longleftrightarrow>
        (\<exists>r rs. reads v r \<and> r \<notin> get s \<and> list_all2 reads (filter res vs) rs \<and> distinct rs \<and>
           set rs \<inter> insert r (get s) = {} \<and> s' = fold ins rs (ins r s))"
      unfolding step if_P [OF True] ex_of_image Cons.IH get by blast
    also have "\<dots> \<longleftrightarrow> (\<exists>rs. list_all2 reads (v # filter res vs) rs \<and> distinct rs \<and>
        set rs \<inter> get s = {} \<and> s' = fold ins rs s)"
      unfolding list_all2_Cons1 by fastforce
    finally show ?thesis using True by simp
  qed
  finally show ?case .
qed

lemma fold_own_routes:
  "fold (\<lambda>r s. s\<lparr>own_routes := insert r (own_routes s)\<rparr>) rs s = s\<lparr>own_routes := set rs \<union> own_routes s\<rparr>"
  by (induction rs arbitrary: s) simp_all

lemma fold_own_rules:
  "fold (\<lambda>u s. s\<lparr>own_rules := insert u (own_rules s)\<rparr>) us s = s\<lparr>own_rules := set us \<union> own_rules s\<rparr>"
  by (induction us arbitrary: s) simp_all

text \<open>What a dump of routes, or of rules, stands for.\<close>

definition routes_read :: "json_reader \<Rightarrow> string \<Rightarrow> u8 \<Rightarrow> route_ownership list \<Rightarrow> bool" where
  "routes_read C bytes f rs \<longleftrightarrow> (\<exists>vs. read_values C bytes = Inr vs \<and>
     list_all2 (route_reads f) (filter reserved_route vs) rs \<and> distinct rs)"

definition rules_read :: "json_reader \<Rightarrow> string \<Rightarrow> u8 \<Rightarrow> rule_ownership list \<Rightarrow> bool" where
  "rules_read C bytes f us \<longleftrightarrow> (\<exists>vs. read_values C bytes = Inr vs \<and>
     list_all2 (rule_reads f) (filter reserved_rule vs) us \<and> distinct us)"

lemma collect_live_routes_Inr:
  "collect_live_routes C bytes f s = Inr s' \<longleftrightarrow>
     (\<exists>rs. routes_read C bytes f rs \<and> set rs \<inter> own_routes s = {} \<and>
        s' = s\<lparr>own_routes := set rs \<union> own_routes s\<rparr>)"
  unfolding collect_live_routes_def routes_read_def and_then_Inr_iff map_err_Inr_iff
    try_fold_collect [where f = "collect_route f" and res = reserved_route and
      reads = "route_reads f" and get = own_routes and
      ins = "\<lambda>r s. s\<lparr>own_routes := insert r (own_routes s)\<rparr>", OF collect_route_Inr, simplified]
    fold_own_routes
  by blast

lemma collect_live_rules_Inr:
  "collect_live_rules C bytes f s = Inr s' \<longleftrightarrow>
     (\<exists>us. rules_read C bytes f us \<and> set us \<inter> own_rules s = {} \<and>
        s' = s\<lparr>own_rules := set us \<union> own_rules s\<rparr>)"
  unfolding collect_live_rules_def rules_read_def and_then_Inr_iff map_err_Inr_iff
    try_fold_collect [where f = "collect_rule f" and res = reserved_rule and
      reads = "rule_reads f" and get = own_rules and
      ins = "\<lambda>u s. s\<lparr>own_rules := insert u (own_rules s)\<rparr>", OF collect_rule_Inr, simplified]
    fold_own_rules
  by blast

lemma routes_read_family: "routes_read C bytes f rs \<Longrightarrow> r \<in> set rs \<Longrightarrow> ro_family r = f \<and> in_tables (ro_table r)"
  unfolding routes_read_def by (metis list_all2_conv_all_nth in_set_conv_nth route_reads_bounds)

lemma rules_read_family: "rules_read C bytes f us \<Longrightarrow> u \<in> set us \<Longrightarrow> uo_family u = f \<and> in_priorities (uo_priority u)"
  unfolding rules_read_def by (metis list_all2_conv_all_nth in_set_conv_nth rule_reads_bounds)

lemma live_ownership_read:
  "live_routing_ownership C c = Inr s \<longleftrightarrow>
     (\<exists>r4 r6 u4 u6. routes_read C (cp_ipv4_routes c) 4 r4 \<and> routes_read C (cp_ipv6_routes c) 6 r6 \<and>
        rules_read C (cp_ipv4_rules c) 4 u4 \<and> rules_read C (cp_ipv6_rules c) 6 u6 \<and>
        s = \<lparr>own_routes = set r4 \<union> set r6, own_rules = set u4 \<union> set u6\<rparr>)"
proof -
  have disjoint: "set r6 \<inter> set r4 = {}" if "routes_read C b4 4 r4" "routes_read C b6 6 r6" for r4 r6 b4 b6
    using routes_read_family [OF that(1)] routes_read_family [OF that(2)] by fastforce
  have disjoint': "set u6 \<inter> set u4 = {}" if "rules_read C b4 4 u4" "rules_read C b6 6 u6" for u4 u6 b4 b6
    using rules_read_family [OF that(1)] rules_read_family [OF that(2)] by fastforce
  show ?thesis (is "?L = ?R")
  proof
    assume ?L
    then obtain r4 r6 u4 u6 where "routes_read C (cp_ipv4_routes c) 4 r4"
      "routes_read C (cp_ipv6_routes c) 6 r6" "rules_read C (cp_ipv4_rules c) 4 u4"
      "rules_read C (cp_ipv6_rules c) 6 u6"
      "s = \<lparr>own_routes = set r6 \<union> set r4, own_rules = set u6 \<union> set u4\<rparr>"
      by (auto simp: live_routing_ownership_def and_then_Inr_iff collect_live_routes_Inr
        collect_live_rules_Inr empty_ownership_def)
    then show ?R by (metis Un_commute)
  next
    assume ?R
    then obtain r4 r6 u4 u6 where r: "routes_read C (cp_ipv4_routes c) 4 r4"
      "routes_read C (cp_ipv6_routes c) 6 r6" and u: "rules_read C (cp_ipv4_rules c) 4 u4"
      "rules_read C (cp_ipv6_rules c) 6 u6"
      and s: "s = \<lparr>own_routes = set r4 \<union> set r6, own_rules = set u4 \<union> set u6\<rparr>"
      by blast
    let ?s1 = "\<lparr>own_routes = set r4, own_rules = {}\<rparr>"
    let ?s2 = "\<lparr>own_routes = set r6 \<union> set r4, own_rules = {}\<rparr>"
    let ?s3 = "\<lparr>own_routes = set r6 \<union> set r4, own_rules = set u4\<rparr>"
    have "collect_live_routes C (cp_ipv4_routes c) 4 empty_ownership = Inr ?s1"
      using r(1) by (auto simp: collect_live_routes_Inr empty_ownership_def)
    moreover have "collect_live_routes C (cp_ipv6_routes c) 6 ?s1 = Inr ?s2"
      using r disjoint by (fastforce simp: collect_live_routes_Inr)
    moreover have "collect_live_rules C (cp_ipv4_rules c) 4 ?s2 = Inr ?s3"
      using u(1) by (auto simp: collect_live_rules_Inr)
    moreover have "collect_live_rules C (cp_ipv6_rules c) 6 ?s3 = Inr s"
      using u disjoint' by (fastforce simp: collect_live_rules_Inr s Un_commute)
    ultimately show ?L by (simp add: live_routing_ownership_def)
  qed
qed

lemma live_ownership_bounds:
  assumes "live_routing_ownership C c = Inr s"
  shows "r \<in> own_routes s \<Longrightarrow> ro_family r \<in> {4, 6} \<and> in_tables (ro_table r)"
    "u \<in> own_rules s \<Longrightarrow> uo_family u \<in> {4, 6} \<and> in_priorities (uo_priority u)"
  using assms unfolding live_ownership_read
  by (auto dest: routes_read_family rules_read_family)

text \<open>
  C15. The ownership the helper reads from the live system is exact. It is accepted if and only if each
  of the four dumps decodes to distinct reserved entries of the shape RouteLane installs, with nothing
  else in the reserved ranges, and then it is the set of those entries.
\<close>

theorem live_ownership_exact:
  "live_routing_ownership C c = Inr s \<longleftrightarrow>
     (\<exists>r4 r6 u4 u6. routes_read C (cp_ipv4_routes c) 4 r4 \<and> routes_read C (cp_ipv6_routes c) 6 r6 \<and>
        rules_read C (cp_ipv4_rules c) 4 u4 \<and> rules_read C (cp_ipv6_rules c) 6 u6 \<and>
        s = \<lparr>own_routes = set r4 \<union> set r6, own_rules = set u4 \<union> set u6\<rparr>)"
  by (rule live_ownership_read)

end
