(* ===== verification/Write_Ahead.thy ===== *)
theory Write_Ahead
  imports Reading Live_Ownership
begin

text \<open>
  The journal goes first. A query only reads; every other command needs a record that announces an
  unfinished operation and names the resource. \<open>journal_covers\<close> says which commands a record allows;
  the locale \<open>write_ahead\<close> shows that every handler of the backend stays within it, whatever the kernel
  answers and whichever operation fails, for any invariant that queries and allowed commands keep.
\<close>

section \<open>What a record allows\<close>

fun lane_step :: "lane_plan \<Rightarrow> routing_step \<Rightarrow> bool" where
  "lane_step l (ReplaceRoute f T r) \<longleftrightarrow> T = lp_table l"
| "lane_step l (DeleteRoute f T r) \<longleftrightarrow> T = lp_table l"
| "lane_step l (FlushTable f T) \<longleftrightarrow> T = lp_table l"
| "lane_step l (AddRule f p T m) \<longleftrightarrow> p = lp_rule_priority l \<and> T = lp_table l \<and> m = lp_mark l"
| "lane_step l (DeleteRule f p T m) \<longleftrightarrow> p = lp_rule_priority l \<and> T = lp_table l \<and> m = lp_mark l"

definition plan_step :: "lane_plan list \<Rightarrow> routing_step \<Rightarrow> bool" where
  "plan_step K s \<longleftrightarrow> (\<exists>l \<in> set K. lane_step l s)"

definition rule_removals :: "routing_ownership \<Rightarrow> routing_step set" where
  "rule_removals s =
     (\<lambda>u. DeleteRule (family_of_number (uo_family u)) (uo_priority u) (uo_table u) (uo_mark u)) `
       own_rules s"

definition ownership_steps :: "routing_ownership \<Rightarrow> routing_step set" where
  "ownership_steps s = rule_removals s \<union>
     (\<lambda>r. FlushTable (family_of_number (ro_family r)) (ro_table r)) ` own_routes s"

text \<open>
  An orphan cleanup removes the rules its record names and flushes reserved tables; it may flush a table
  again whose entries its record no longer names.
\<close>

definition orphan_steps :: "orphaned_ownership \<Rightarrow> routing_step set" where
  "orphan_steps oo = rule_removals (oo_routing oo) \<union> {FlushTable f T | f T. in_tables T}"

text \<open>The plans a record names, and the routing steps it allows.\<close>

definition record_plans :: "('n, 'h) stored_state \<Rightarrow> 'n kernel_plan set" where
  "record_plans r = set_option (sa_active r) \<union> set_option (sa_pending r) \<union>
     (\<Union>j \<in> set_option (sa_legacy_v2 r). set (plans_of j))"

definition record_steps :: "('n, 'h) stored_state \<Rightarrow> routing_step set" where
  "record_steps r =
     {s. \<exists>k \<in> record_plans r. plan_step (kp_lanes k) s} \<union>
     (\<Union>oo \<in> set_option (sa_orphan_cleanup r). orphan_steps oo) \<union>
     (\<Union>j \<in> set_option (sa_legacy_v1 r). \<Union>p \<in> set_option (j1_active j).
        ownership_steps (legacy_ownership p))"

definition plan_batches :: "('w, 'n::linorder, 'h) system \<Rightarrow> 'n kernel_plan set \<Rightarrow> string set" where
  "plan_batches Y ks = {batch. \<exists>a p guard mode doc. set_option a \<subseteq> ks \<and> set_option p \<subseteq> ks \<and>
     expected_nft_document Y a p guard = Inr doc \<and> render_nft_command_document Y doc mode = Inr batch}"

definition record_batches :: "('w, 'n::linorder, 'h) system \<Rightarrow> ('n, 'h) stored_state \<Rightarrow> string set" where
  "record_batches Y r = {delete_guard_batch, delete_table_batch} \<union> plan_batches Y (record_plans r)"

text \<open>A record of an unfinished operation. A record of an earlier schema counts once it is marked.\<close>

definition announces :: "('n, 'h) stored_state \<Rightarrow> bool" where
  "announces r \<longleftrightarrow> sa_pending r \<noteq> None \<or> sa_cleanup_pending r \<or> sa_orphan_cleanup r \<noteq> None \<or>
     (\<exists>j. sa_legacy_v1 r = Some j \<and> j1_cleanup_pending j) \<or>
     (\<exists>j. sa_legacy_v2 r = Some j \<and> j2_cleanup_pending j)"

definition journal_covers ::
  "('w, 'n::linorder, 'h) system \<Rightarrow> ('n, 'h) stored_state option \<Rightarrow> command_spec \<Rightarrow> bool"
where
  "journal_covers Y j spec \<longleftrightarrow> (\<exists>r. j = Some r \<and> announces r \<and>
     (spec \<in> step_command ` record_steps r \<or> spec \<in> nft_command ` record_batches Y r))"

lemma announced_step: "announces r \<Longrightarrow> s \<in> record_steps r \<Longrightarrow> journal_covers Y (Some r) (step_command s)"
  unfolding journal_covers_def by blast

lemma announced_batch:
  "announces r \<Longrightarrow> b \<in> record_batches Y r \<Longrightarrow> journal_covers Y (Some r) (nft_command b)"
  unfolding journal_covers_def by blast

lemma orphan_journal_announces:
  "announces (orphan_journal oo)" "orphan_steps oo \<subseteq> record_steps (orphan_journal oo)"
  by (auto simp: announces_def record_steps_def orphan_journal_def)

section \<open>The steps of a plan\<close>

text \<open>Two lane lists with the same tables, priorities and marks allow the same steps.\<close>

definition slot_of :: "lane_plan \<Rightarrow> u32 \<times> u32 \<times> u32" where
  "slot_of l = (lp_table l, lp_rule_priority l, lp_mark l)"

lemma lane_step_slot: "slot_of l = slot_of l' \<Longrightarrow> lane_step l s = lane_step l' s"
  by (cases s) (auto simp: slot_of_def)

lemma plan_step_slots: "slot_of ` set K = slot_of ` set K' \<Longrightarrow> plan_step K s = plan_step K' s"
  unfolding plan_step_def by (metis (no_types, lifting) image_iff lane_step_slot)

lemma slots_routing_basis: "slot_of ` set (kp_lanes (routing_basis k lost)) = slot_of ` set (kp_lanes k)"
  by (simp add: routing_basis_def image_image slot_of_def lose_routes_def)

lemma plan_stepI: "l \<in> set K \<Longrightarrow> lane_step l s \<Longrightarrow> plan_step K s"
  by (auto simp: plan_step_def)

lemma install_rule_step: "s \<in> set (install_rules K) \<Longrightarrow> plan_step K s"
  by (auto simp: in_install_rules intro: plan_stepI)

lemma delete_of_step:
  "s \<in> set (delete_of r) \<Longrightarrow> plan_step K r \<Longrightarrow> plan_step K s"
  by (cases r) (auto simp: plan_step_def)

lemma family_step: "s \<in> set (family_steps prev l f) \<Longrightarrow> lane_step l s"
  by (auto simp: family_steps_def split: if_splits option.splits)

lemma transition_step: "s \<in> set (transition_steps prev K) \<Longrightarrow> plan_step K s"
  by (auto simp: transition_steps_def intro: plan_stepI family_step install_rule_step)

lemma install_step: "s \<in> set (install_steps K) \<Longrightarrow> plan_step K s"
  by (auto simp: install_steps_def intro: transition_step)

lemma retire_lane_step: "s \<in> set (retire_lane K l) \<Longrightarrow> lane_step l s"
  by (auto simp: retire_lane_def split: if_splits option.splits)

lemma retire_step: "s \<in> set (retire_steps P K) \<Longrightarrow> plan_step P s"
  by (auto simp: retire_steps_def intro: plan_stepI retire_lane_step delete_of_step install_rule_step)

lemma push_new_set: "set (push_new acc xs) = set acc \<union> set xs"
  by (induction xs arbitrary: acc) auto

lemma rollback_rule_step:
  "s \<in> set (rollback_rule_order plans) \<Longrightarrow> \<exists>K \<in> set plans. plan_step K s"
  by (simp add: rollback_rule_order_def push_new_set) (blast intro: delete_of_step install_step)

lemma rollback_table_step:
  "s \<in> set (rollback_table_order plans) \<Longrightarrow> \<exists>K \<in> set plans. plan_step K s"
  by (fastforce simp: rollback_table_order_def push_new_set intro: plan_stepI)

lemmas plan_step_rule = transition_step install_step retire_step
section \<open>The helper and its surroundings\<close>

text \<open>
  \<open>P\<close> is any invariant of the world that queries and covered commands keep, and that process queries,
  interface settings, the environment and the store keep too. The store is atomic here: a save or a
  clear that fails has changed nothing.
\<close>

locale write_ahead = reading H content P + applied_state_store "hp_store H" content
  for H :: "('w, 'n::linorder, 'h) helper" and content :: "'w \<Rightarrow> ('n, 'h) stored_state option"
    and P :: "'w \<Rightarrow> bool" +
  assumes covered: "journal_covers (hp_system H) (content w) spec \<Longrightarrow> P w \<Longrightarrow>
      sy_execute (hp_system H) spec w = (x, w') \<Longrightarrow> P w' \<and> content w' = content w"
    and rp_filter: "quiet P content (rpf_rp_filter (hp_settings H) name)"
    and valid_mark: "quiet P content (rpf_src_valid_mark (hp_settings H) name)"
    and set_mark: "quiet P content (rpf_set (hp_settings H) i v)"
    and token: "quiet P content (en_new_token (hp_environment H))"
    and save_inv: "P w \<Longrightarrow> js_save (hp_store H) r w = (z, w') \<Longrightarrow> P w'"
    and clear_inv: "P w \<Longrightarrow> js_clear (hp_store H) w = (z, w') \<Longrightarrow> P w'"
    and save_atomic: "js_save (hp_store H) r w = (Inl e, w') \<Longrightarrow> content w' = content w"
    and clear_atomic: "js_clear (hp_store H) w = (Inl e, w') \<Longrightarrow> content w' = content w"
begin

lemmas quiet_keeps_rule [keeps_rule] = quiet_keeps [OF rp_filter]
  quiet_keeps [OF valid_mark] quiet_keeps [OF set_mark] quiet_keeps [OF token]

lemmas world_keeps_rule = quiet_keeps_rule reading_keeps_rule

lemma execute_covered:
  assumes "\<And>j. G j \<Longrightarrow> journal_covers Y j spec"
  shows "keeps (at G) (sy_execute Y spec)"
proof (rule keepsI)
  fix w assume "at G w"
  with assms covered [of w spec] show "at G (snd (sy_execute Y spec w))"
    by (metis holds_def prod.collapse)
qed

lemma load_inv: "P w \<Longrightarrow> js_load (hp_store H) w = (y, w') \<Longrightarrow> P w'"
  using load by (auto simp: quiet_def)

lemma load_at: "hoare (at G) (js_load (hp_store H)) (\<lambda>j w. G j \<and> at ((=) j) w) P"
  by (rule hoareI) (unfold holds_def, metis load_inv load_keeps load_content, blast dest: load_inv)

lemma save_at: "hoare P (js_save (hp_store H) r) (\<lambda>_. at ((=) (Some r))) P"
  by (rule hoareI) (auto simp: holds_def dest: save_inv save_ok)

lemma save_at_keeps:
  assumes "G (Some r)"
  shows "keeps (at G) (js_save (hp_store H) r)"
proof (rule keepsI)
  fix w assume w: "at G w"
  obtain x w' where x: "js_save (hp_store H) r w = (x, w')" by fastforce
  show "at G (snd (js_save (hp_store H) r w))"
    using w x assms save_inv [OF _ x] save_ok [of r w w'] save_atomic [of r w _ w']
    by (cases x) (auto simp: holds_def)
qed

lemma save_commit:
  "hoare (at G) (js_save (hp_store H) r) (\<lambda>_. at ((=) (Some r))) (at G)"
  by (rule hoareI) (auto simp: holds_def dest: save_inv save_ok save_atomic)

lemma clear_commit:
  "hoare (at G) (js_clear (hp_store H)) (\<lambda>_. at ((=) None)) (at G)"
  by (rule hoareI) (auto simp: holds_def dest: clear_inv clear_ok clear_atomic)

section \<open>Interface settings and routing steps\<close>

lemma restore_setting_keeps [keeps_rule]:
  "keeps (at G) (restore_mark_aware_rpf (hp_settings H) x)"
  unfolding restore_mark_aware_rpf_def validate_identity_def Let_def by (intro keeps_rule)

lemma restore_settings_keep [keeps_rule]:
  "keeps (at G) (restore_setting_receipts (hp_settings H) xs)"
proof (induction xs)
  case Nil
  show ?case unfolding restore_setting_receipts.simps by (rule keeps_simps)
next
  case (Cons x xs)
  show ?case unfolding restore_setting_receipts.simps by (intro keeps_rule Cons.IH)
qed

lemma run_step_keeps:
  assumes "\<And>j. G j \<Longrightarrow> journal_covers Y j (step_command s)"
  shows "keeps (at G) (run_routing_step Y context s)"
  unfolding run_routing_step_def run_required_def
  by (intro keeps_rule execute_covered assms)

lemma run_batch_keeps:
  assumes "\<And>j. G j \<Longrightarrow> journal_covers Y j (nft_command batch)"
  shows "keeps (at G) (run_nft_batch (sy_execute Y) batch context)"
  unfolding run_nft_batch_def run_required_def
  by (intro keeps_rule execute_covered assms)

lemma remove_rule_keeps:
  assumes "\<And>j. G j \<Longrightarrow> journal_covers Y j (step_command s)"
  shows "keeps (at G) (remove_rule Y s)"
proof -
  have "keeps (at G) (remove_loop Y n s)" for n
  proof (induction n)
    case 0
    show ?case unfolding remove_loop.simps by (rule keeps_simps)
  next
    case (Suc n)
    show ?case unfolding remove_loop.simps run_required_def
      by (intro keeps_rule execute_covered assms Suc.IH)
  qed
  then show ?thesis unfolding remove_rule_def by (intro keeps_rule)
qed

end

definition covers_plans :: "'n kernel_plan set \<Rightarrow> ('n, 'h) stored_state option \<Rightarrow> bool" where
  "covers_plans ks j \<longleftrightarrow> (\<exists>r. j = Some r \<and> announces r \<and> ks \<subseteq> record_plans r)"

lemma covers_plan_step:
  "covers_plans ks j \<Longrightarrow> k \<in> ks \<Longrightarrow> plan_step (kp_lanes k) s \<Longrightarrow>
     journal_covers Y j (step_command s)"
  unfolding covers_plans_def journal_covers_def record_steps_def by blast

lemma plan_batches_mono: "ks \<subseteq> ks' \<Longrightarrow> plan_batches Y ks \<subseteq> plan_batches Y ks'"
  by (auto simp: plan_batches_def) blast

lemma covers_plan_batch:
  "covers_plans ks j \<Longrightarrow> batch \<in> plan_batches Y ks \<union> {delete_guard_batch, delete_table_batch} \<Longrightarrow>
     journal_covers Y j (nft_command batch)"
  unfolding covers_plans_def journal_covers_def record_batches_def
  using plan_batches_mono [of ks "record_plans r" Y for r] by blast

lemma plan_batchesI:
  "expected_nft_document Y a p guard = Inr doc \<Longrightarrow> render_nft_command_document Y doc mode = Inr batch \<Longrightarrow>
     set_option a \<subseteq> ks \<Longrightarrow> set_option p \<subseteq> ks \<Longrightarrow> batch \<in> plan_batches Y ks"
  unfolding plan_batches_def by blast

lemma rulesets_in_plan_batches:
  "render_transaction_ruleset Y active pending mode = Inr batch \<Longrightarrow>
     set_option active \<subseteq> ks \<Longrightarrow> pending \<in> ks \<Longrightarrow> batch \<in> plan_batches Y ks"
  "render_owned_ruleset Y k mode guard = Inr batch \<Longrightarrow> k \<in> ks \<Longrightarrow> batch \<in> plan_batches Y ks"
  "render_guarded_ruleset Y k = Inr batch \<Longrightarrow> k \<in> ks \<Longrightarrow> batch \<in> plan_batches Y ks"
  unfolding render_transaction_ruleset_def render_guarded_ruleset_def render_owned_ruleset_def
    and_then_Inr_iff
  by (elim exE conjE, erule plan_batchesI, assumption, simp_all)+

section \<open>The kernel runner\<close>

text \<open>The runner's plans are among the journaled ones; the routing basis has the slots of one.\<close>

definition runner_in :: "'n kernel_plan set \<Rightarrow> ('n, 'h) runner_state \<Rightarrow> bool" where
  "runner_in ks rs \<longleftrightarrow> ak_plan ` set_option (rs_previous rs) \<subseteq> ks \<and> set_option (rs_next rs) \<subseteq> ks \<and>
     (\<forall>k \<in> set_option (rs_previous_routing rs). \<exists>k0 \<in> ks.
        slot_of ` set (kp_lanes k) = slot_of ` set (kp_lanes k0))"

lemma runner_in_new:
  "ak_plan ` set_option previous \<subseteq> ks \<Longrightarrow> runner_in ks (with_lost_unicast lost (new_runner previous))"
  "ak_plan ` set_option previous \<subseteq> ks \<Longrightarrow> runner_in ks (new_runner previous)"
  by (cases previous; auto simp: runner_in_def new_runner_def with_lost_unicast_def slots_routing_basis)+

lemma runner_in_updates [simp]:
  "runner_in ks (rs\<lparr>rs_table_present := b\<rparr>) = runner_in ks rs"
  "runner_in ks (rs\<lparr>rs_guard_installed := b\<rparr>) = runner_in ks rs"
  "k \<in> ks \<Longrightarrow> runner_in ks rs \<Longrightarrow> runner_in ks (rs\<lparr>rs_next := Some k\<rparr>)"
  by (auto simp: runner_in_def)

lemma basis_step:
  assumes "runner_in ks rs" "rs_previous_routing rs = Some k" "plan_step (kp_lanes k) s"
  shows "\<exists>k0 \<in> ks. plan_step (kp_lanes k0) s"
  using assms plan_step_slots unfolding runner_in_def by (metis option.set_intros)

context write_ahead
begin

definition in_kernel :: "'n kernel_plan set \<Rightarrow> ('w, 'n, 'h) runner_world \<Rightarrow> bool" where
  "in_kernel ks x \<longleftrightarrow> runner_in ks (fst x) \<and> at (covers_plans ks) (snd x)"

lemma in_kernel_world [keeps_rule]:
  "keeps (at (covers_plans ks)) m \<Longrightarrow> keeps (in_kernel ks) (in_world m)"
  by (rule keepsI) (auto simp: in_kernel_def in_world_def split: prod.splits dest: keepsD)

lemma in_kernel_modify:
  "(\<And>rs. runner_in ks rs \<Longrightarrow> runner_in ks (f rs)) \<Longrightarrow> keeps (in_kernel ks) (io_modify f)"
  by (rule keepsI) (auto simp: in_kernel_def io_modify_def)

lemma step_of_plan: "k \<in> ks \<Longrightarrow> plan_step (kp_lanes k) s \<Longrightarrow>
    keeps (at (covers_plans ks)) (run_routing_step Y context s)"
  by (rule run_step_keeps) (rule covers_plan_step)

lemma batch_of_plans: "batch \<in> plan_batches Y ks \<union> {delete_guard_batch, delete_table_batch} \<Longrightarrow>
    keeps (at (covers_plans ks)) (run_nft_batch (sy_execute Y) batch context)"
  by (rule run_batch_keeps) (rule covers_plan_batch)

lemma runner_snapshot_keeps: "keeps (in_kernel ks) (runner_snapshot Y)"
  unfolding runner_snapshot_def by (intro keeps_rule in_kernel_modify) simp

lemma install_guard_keeps:
  assumes "k \<in> ks"
  shows "keeps (in_kernel ks) (runner_install_guard Y k)"
  unfolding runner_install_guard_def
proof (intro keeps_seq in_kernel_modify keeps_bind_gets keeps_bind_lift in_kernel_world
    batch_of_plans UnI1)
  fix rs w batch
  assume rs: "in_kernel ks (rs, w)"
    and batch: "render_transaction_ruleset Y (map_option ak_plan (rs_previous rs)) k
      (if rs_table_present rs then Replace else Create) = Inr batch"
  from rs have "set_option (map_option ak_plan (rs_previous rs)) \<subseteq> ks"
    by (auto simp: in_kernel_def runner_in_def)
  then show "batch \<in> plan_batches Y ks" by (rule rulesets_in_plan_batches(1) [OF batch _ assms])
qed (simp_all add: assms)

lemma prepare_routes_keeps:
  assumes "k \<in> ks"
  shows "keeps (in_kernel ks) (runner_prepare_routes Y k)"
  unfolding runner_prepare_routes_def
  by (intro keeps_bind_gets in_kernel_world keeps_each step_of_plan [OF assms] transition_step)

lemma activate_keeps:
  assumes "k \<in> ks"
  shows "keeps (in_kernel ks) (runner_activate_nft Y k)"
  unfolding runner_activate_nft_def
  by (intro keeps_seq keeps_bind_lift in_kernel_world batch_of_plans UnI1 in_kernel_modify
    rulesets_in_plan_batches(3) [OF _ assms]) simp_all

lemma remove_guard_keeps: "keeps (in_kernel ks) (runner_remove_guard Y)"
  unfolding runner_remove_guard_def
  by (intro keeps_rule in_kernel_modify keeps_bind_gets batch_of_plans) simp_all

lemma remove_generation_keeps: "keeps (in_kernel ks) (runner_remove_generation Y g)"
  unfolding runner_remove_generation_def Let_def
proof (intro keeps_bind_gets keeps_bind_lift in_kernel_world keeps_each)
  fix rs w previous nxt s
  assume rs: "in_kernel ks (rs, w)"
    and previous: "ok_or ''previous applied generation is unavailable''
        (case rs_previous rs of
           None \<Rightarrow> None
         | Some state \<Rightarrow> if ak_generation state = g then Some (ak_plan state) else None) = Inr previous"
    and s: "s \<in> set (retire_steps (kp_lanes (case rs_previous_routing rs of
           None \<Rightarrow> previous | Some basis \<Rightarrow> basis)) (kp_lanes nxt))"
  from rs have in_ks: "runner_in ks rs" by (simp add: in_kernel_def)
  have "previous \<in> ks"
    using in_ks previous by (auto simp: runner_in_def split: option.splits if_splits)
  with in_ks retire_step [OF s] obtain k0 where "k0 \<in> ks" "plan_step (kp_lanes k0) s"
    by (auto split: option.splits dest: basis_step)
  then show "keeps (at (covers_plans ks)) (run_routing_step Y
      ''remove previous RouteLane route, policy rule or table'' s)" by (rule step_of_plan)
qed

lemma runner_plans_in: "runner_in ks rs \<Longrightarrow> k \<in> set (runner_plans rs) \<Longrightarrow> k \<in> ks"
  by (auto simp: runner_plans_def runner_in_def split: option.splits)

lemma clear_routing_keeps:
  assumes "set plans \<subseteq> kp_lanes ` ks"
  shows "keeps (at (covers_plans ks)) (clear_routing Y plans)"
proof -
  have covered_step: "journal_covers Y j (step_command s)"
    if "covers_plans ks j" "K \<in> set plans" "plan_step K s" for j K s
    using that assms covers_plan_step by blast
  show ?thesis
    unfolding clear_routing_def remove_plan_policy_rules_def
    by (intro keeps_seq keeps_each remove_rule_keeps run_step_keeps;
      drule rollback_rule_step rollback_table_step; elim bexE; rule covered_step; assumption)
qed

lemma restored_routing_step:
  assumes "runner_in ks rs" "ak_plan state \<in> ks" "plan_step (kp_lanes (restored_routing rs state)) s"
  shows "\<exists>k \<in> ks. plan_step (kp_lanes k) s"
proof (cases "restored_routing rs state = ak_plan state")
  case True
  with assms show ?thesis by auto
next
  case False
  then obtain basis where "rs_previous_routing rs = Some basis" "restored_routing rs state = basis"
    by (auto simp: restored_routing_def split: option.splits if_splits)
  with assms show ?thesis by (auto dest: basis_step)
qed

lemma restore_state_keeps:
  assumes "ak_plan state \<in> ks"
  shows "keeps (in_kernel ks) (restore_state Y state)"
  unfolding restore_state_def
proof (intro keeps_bind_gets keeps_seq in_kernel_world keeps_each keeps_bind_lift in_kernel_modify)
  fix rs w s
  assume "in_kernel ks (rs, w)" and "s \<in> set (install_steps (kp_lanes (restored_routing rs state)))"
  then obtain k where "k \<in> ks" "plan_step (kp_lanes k) s"
    using restored_routing_step [OF _ assms install_step] by (auto simp: in_kernel_def)
  then show "keeps (at (covers_plans ks))
      (run_routing_step Y ''restore previous RouteLane route or policy rule'' s)" by (rule step_of_plan)
next
  fix batch assume "render_owned_ruleset Y (ak_plan state) Create False = Inr batch"
  then show "keeps (at (covers_plans ks)) (run_nft_batch (sy_execute Y) batch
      ''restore previous RouteLane nftables ruleset'')"
    by (intro batch_of_plans UnI1 rulesets_in_plan_batches(2) [OF _ assms])
qed (simp_all add: keeps_rule)

lemma runner_restore_keeps:
  assumes "ak_plan ` set_option state \<subseteq> ks"
  shows "keeps (in_kernel ks) (runner_restore Y state)"
  unfolding runner_restore_def clear_table_def
proof (intro keeps_bind_gets keeps_seq in_kernel_world clear_routing_keeps keeps_if keeps_option
    batch_of_plans in_kernel_modify restore_state_keeps)
  fix rs w assume "in_kernel ks (rs, w)"
  then show "set (map kp_lanes (runner_plans rs)) \<subseteq> kp_lanes ` ks"
    using runner_plans_in by (fastforce simp: in_kernel_def)
qed (use assms in \<open>auto intro: keeps_rule\<close>)

section \<open>The transaction\<close>

lemma run_stages_inv:
  assumes "\<And>st act. (st, act) \<in> set ss \<Longrightarrow> keeps I act" "keeps I (kr_restore R current)"
    "keeps I (kr_remove_guard R)" "I w"
  shows "I (snd (run_stages R current ss w))"
  using assms(1,4)
proof (induction ss arbitrary: w)
  case (Cons x ss)
  obtain st act where x: "x = (st, act)" by (cases x)
  obtain r w1 where act: "act w = (r, w1)" by fastforce
  have "keeps I act" using Cons.prems(1) x by auto
  from keepsD [OF this Cons.prems(2) act] have w1: "I w1" .
  obtain g w2 where g: "kr_restore R current w1 = (g, w2)" by fastforce
  obtain c w3 where c: "kr_remove_guard R w2 = (c, w3)" by fastforce
  have "I w3" by (rule keepsD [OF assms(3) keepsD [OF assms(2) w1 g] c])
  with w1 show ?case
    by (cases r) (auto simp: x run_mutating_stage_def act g c intro!: Cons.IH Cons.prems(1))
qed simp

lemma transition_plan_inv:
  assumes "keeps I (kr_snapshot R)" "\<And>st act. (st, act) \<in> set (stages R current k) \<Longrightarrow> keeps I act"
    "keeps I (kr_restore R current)" "keeps I (kr_remove_guard R)" "I w"
  shows "I (snd (transition_plan digest R current k w))"
proof -
  obtain r w1 where r: "kr_snapshot R w = (r, w1)" by fastforce
  have w1: "I w1" by (rule keepsD [OF assms(1,5) r])
  have "I (snd (run_stages R current (stages R current k) w1))"
    by (rule run_stages_inv [OF assms(2-4) w1])
  with w1 show ?thesis
    by (auto simp: transition_plan_def r split: prod.splits sum.splits)
qed

lemma kernel_transition_inv:
  assumes "k \<in> ks" "ak_plan ` set_option previous \<subseteq> ks" "in_kernel ks x"
  shows "in_kernel ks (snd (kernel_transition H previous restoring k x))"
proof -
  let ?R = "command_runner Y"
  have ops: "keeps (in_kernel ks) (kr_snapshot ?R)" "keeps (in_kernel ks) (kr_remove_guard ?R)"
    "keeps (in_kernel ks) (kr_restore ?R previous)"
    using runner_snapshot_keeps remove_guard_keeps runner_restore_keeps [OF assms(2)]
    by (simp_all add: command_runner_def)
  have stage: "keeps (in_kernel ks) act" if "(st, act) \<in> set (stages ?R previous k)" for st act
    using that install_guard_keeps [OF assms(1)] prepare_routes_keeps [OF assms(1)]
      activate_keeps [OF assms(1)] remove_generation_keeps remove_guard_keeps
      in_kernel_world [OF verify_more_keeps(1)]
    by (auto simp: stages_def command_runner_def split: option.splits)
  note run = transition_plan_inv [OF ops(1) stage ops(3,2) assms(3)]
  then show ?thesis
    using assms(3) by (auto simp: kernel_transition_def apply_plan_def restore_plan_def
      split: bool.splits option.splits)
qed

lemma hoare_kernel_transition:
  assumes "k \<in> ks" "ak_plan ` set_option previous \<subseteq> ks" "in_kernel ks x"
    "kernel_transition H previous restoring k x = (r, x')"
  shows "in_kernel ks x'"
  using kernel_transition_inv [OF assms(1-3), of restoring] assms(4) by simp

lemma in_kernel_inv: "in_kernel ks x \<Longrightarrow> inv_in x"
  by (simp add: in_kernel_def holds_def world_has_def)

text \<open>After the last command of a transition: only the journal and the settings are touched.\<close>

lemma persist_at:
  "hoare (at G) (persist_committed_with_receipt (hp_store H) state f receipt extras) (\<lambda>_. P) (at G)"
  unfolding persist_committed_with_receipt_def
  by (auto simp: at_P split: option.splits
      intro!: hoare_rule hoare_conseq [OF save_commit] hoare_conseq [OF clear_commit])

lemma persist_inv [keeps_rule]:
  "keeps P (persist_committed_with_receipt (hp_store H) state f receipt extras)"
  "keeps P (persist_committed (hp_store H) state f extras)"
  using persist_at [of "\<lambda>_. True" state f _ extras]
  by (auto simp: keeps_def at_True persist_committed_def)

lemmas inv_rules = verify_more_keeps(3) [of "\<lambda>_. True", unfolded at_True]
  restore_settings_keep [of "\<lambda>_. True", unfolded at_True]

lemma undo_inv: "keeps inv_in (undo H previous f lost extras settings ok)"
  unfolding undo_def repair_committed_journal_after_rollback_def
  by (rule inv_world) (intro keeps_if keeps_bind keeps_seq keeps_simps persist_inv inv_rules)

lemma roll_back_inv:
  assumes "ak_plan ` set_option previous \<subseteq> ks"
  shows "hoare (in_kernel ks) (roll_back H previous f lost extras settings reason) (\<lambda>_. inv_in) inv_in"
  unfolding roll_back_def
proof (rule hoare_bind)
  show "hoare (in_kernel ks) (io_result (runner_restore Y previous)) (\<lambda>_. inv_in) inv_in"
    by (intro hoare_result hoare_conseq [OF hoare_keeps [OF runner_restore_keeps [OF assms]]])
      (auto dest: in_kernel_inv)
  show "hoare inv_in (io_bind (io_result (undo H previous f lost extras settings (err_of r = None)))
      (\<lambda>repair. io_fail (reason @ ''; rollback: '' @ result_label r @ ''; state repair: '' @
         result_label repair))) (\<lambda>_. inv_in) inv_in" for r :: "(string, unit) result"
    by (intro hoare_bind [where R = "\<lambda>_. inv_in"] hoare_result hoare_fail
        hoare_conseq [OF hoare_keeps [OF undo_inv]]) auto
qed

lemma persist_in_kernel:
  "hoare (in_kernel ks) (in_world (persist_committed_with_receipt (hp_store H) state f receipt extras))
     (\<lambda>_. inv_in) (in_kernel ks)"
proof (rule hoare_in_world_state)
  fix rs
  show "hoare (\<lambda>w. in_kernel ks (rs, w)) (persist_committed_with_receipt (hp_store H) state f receipt extras)
      (\<lambda>a w. inv_in (rs, w)) (\<lambda>w. in_kernel ks (rs, w))"
  proof (cases "runner_in ks rs")
    case True
    then show ?thesis using persist_at [of "covers_plans ks"]
      by (simp add: in_kernel_def world_has_def)
  next
    case False
    then show ?thesis by (simp add: in_kernel_def hoare_def)
  qed
qed

lemma kernel_read:
  "keeps (at (covers_plans ks)) m \<Longrightarrow>
     hoare (in_kernel ks) (io_result (in_world m)) (\<lambda>_. in_kernel ks) inv_in"
  by (intro hoare_result hoare_conseq [OF hoare_keeps [OF in_kernel_world]]) (auto dest: in_kernel_inv)

lemma commit_applied_inv:
  assumes "ak_plan ` set_option previous \<subseteq> ks"
  shows "hoare (in_kernel ks) (commit_applied H previous f lost extras settings x receipt committed applied)
    (\<lambda>_. inv_in) inv_in"
  unfolding commit_applied_def
proof (rule hoare_bind [OF kernel_read [OF marker_keeps(2)]], rule hoare_sum)
  fix live
  show "hoare (in_kernel ks) (io_bind (io_result (in_world (live_routing_fingerprint Y))) (\<lambda>routing.
      if \<not> (routing = Inr (px_committed_routing x) \<and> live = px_committed x)
      then roll_back H previous f lost extras settings
        (case routing of Inl e \<Rightarrow> e
         | Inr _ \<Rightarrow> ''live kernel state differs from the exact journaled pending commit'')
      else io_bind (io_result (in_world (persist_committed_with_receipt (hp_store H) (Some applied)
            (Some live) receipt committed))) (\<lambda>persisted. case persisted of
          Inl e \<Rightarrow> roll_back H previous f lost extras settings
            (''kernel apply completed but state commit failed: '' @ e)
        | Inr _ \<Rightarrow> io_return live))) (\<lambda>_. inv_in) inv_in"
  proof (rule hoare_bind [OF kernel_read [OF ownership_keeps(5)]], rule hoare_if)
    show "hoare (in_kernel ks) (io_bind (io_result (in_world (persist_committed_with_receipt (hp_store H)
            (Some applied) (Some live) receipt committed))) (\<lambda>persisted. case persisted of
          Inl e \<Rightarrow> roll_back H previous f lost extras settings
            (''kernel apply completed but state commit failed: '' @ e)
        | Inr _ \<Rightarrow> io_return live)) (\<lambda>_. inv_in) inv_in"
    proof (rule hoare_bind)
      show "hoare (in_kernel ks) (io_result (in_world (persist_committed_with_receipt (hp_store H)
            (Some applied) (Some live) receipt committed)))
          (\<lambda>r. case r of Inl _ \<Rightarrow> in_kernel ks | Inr _ \<Rightarrow> inv_in) inv_in"
        by (intro hoare_result hoare_conseq [OF persist_in_kernel]) auto
      show "hoare (case r of Inl _ \<Rightarrow> in_kernel ks | Inr _ \<Rightarrow> inv_in) (case r of
          Inl e \<Rightarrow> roll_back H previous f lost extras settings
            (''kernel apply completed but state commit failed: '' @ e)
        | Inr _ \<Rightarrow> io_return live) (\<lambda>_. inv_in) inv_in" for r :: "(string, unit) result"
        by (cases r) (simp_all add: roll_back_inv [OF assms] hoare_return)
    qed
  qed (rule roll_back_inv [OF assms])
qed (rule roll_back_inv [OF assms])

lemma commit_transition_inv:
  assumes "k \<in> ks" "ak_plan ` set_option previous \<subseteq> ks"
  shows "hoare (in_kernel ks)
    (commit_transition H previous f lost extras settings x receipt committed k) (\<lambda>_. inv_in) inv_in"
proof -
  have commit: "hoare (in_kernel ks) (io_bind (commit_applied H previous f lost extras settings x receipt
      committed applied) (\<lambda>f. io_return (applied, f))) (\<lambda>_. inv_in) inv_in" for applied
    by (rule hoare_bind [OF commit_applied_inv [OF assms(2)]]) (rule hoare_return)
  have repair: "hoare inv_in (io_bind (io_result (undo H previous f lost extras settings b)) (\<lambda>repair.
      case repair of
        Inr _ \<Rightarrow> io_fail (error_display e)
      | Inl s \<Rightarrow> io_fail (error_display e @ ''; pending journal retained: '' @ s)))
    (\<lambda>_. inv_in) inv_in" for b and e :: "'h apply_error"
    by (intro hoare_bind [where R = "\<lambda>_. inv_in"] hoare_result hoare_sum hoare_fail
        hoare_conseq [OF hoare_keeps [OF undo_inv]]) auto
  have eq: "commit_transition H previous f lost extras settings x receipt committed k = (\<lambda>y.
      case kernel_transition H previous (receipt \<noteq> None) k y of
        (Inl e, y) \<Rightarrow> io_bind (io_result (undo H previous f lost extras settings
            (rollback_error e = None \<and> cleanup_error e = None))) (\<lambda>repair. case repair of
          Inr _ \<Rightarrow> io_fail (error_display e)
        | Inl s \<Rightarrow> io_fail (error_display e @ ''; pending journal retained: '' @ s)) y
      | (Inr applied, y) \<Rightarrow> io_bind (commit_applied H previous f lost extras settings x receipt
          committed applied) (\<lambda>f. io_return (applied, f)) y)"
    by (simp only: fun_eq_iff commit_transition_def) simp
  show ?thesis
    unfolding eq
  proof (rule hoare_case_result [where R = "in_kernel ks"])
    show "in_kernel ks z" if "in_kernel ks y" "kernel_transition H previous (receipt \<noteq> None) k y = (r, z)"
      for y r z
      by (rule hoare_kernel_transition [OF assms that])
  qed (rule hoare_conseq [OF repair], erule in_kernel_inv, assumption, assumption, rule commit)
qed

section \<open>Interface settings\<close>

definition announces_plans :: "'n kernel_plan set \<Rightarrow> ('n, 'h) stored_state \<Rightarrow> bool" where
  "announces_plans ks r \<longleftrightarrow> sa_pending r \<noteq> None \<and> ks \<subseteq> record_plans r"

lemma announces_covers: "announces_plans ks r \<Longrightarrow> covers_plans ks (Some r)"
  by (auto simp: announces_plans_def covers_plans_def announces_def)

definition journaling :: "'n kernel_plan set \<Rightarrow> ('n, 'h) stored_state \<times> 'w \<Rightarrow> bool" where
  "journaling ks x \<longleftrightarrow> announces_plans ks (fst x) \<and> at (covers_plans ks) (snd x)"

lemma journaling_world:
  "keeps (at (covers_plans ks)) m \<Longrightarrow> keeps (journaling ks) (in_world m)"
  by (rule keepsI) (auto simp: journaling_def in_world_def split: prod.splits dest: keepsD)

lemma journal_setting_keeps: "keeps (journaling ks) (journal_setting (hp_store H) receipt)"
  unfolding journal_setting_def
proof (intro keeps_seq keeps_bind_gets keeps_map_err journaling_world save_at_keeps announces_covers)
  show "keeps (journaling ks) (io_modify (\<lambda>r. r\<lparr>sa_pending_interface_settings :=
         sa_pending_interface_settings r @ [receipt]\<rparr>))"
    by (rule keeps_modify)
      (simp add: journaling_def announces_plans_def record_plans_def)
qed (simp add: journaling_def)

lemma ensure_rpf_keeps:
  "keeps (journaling ks) (ensure_mark_aware_rpf (settings_in_world (hp_settings H))
     (journal_setting (hp_store H)) i)"
  unfolding ensure_mark_aware_rpf_def write_journaled_def validate_identity_def Let_def
    settings_in_world_def rpf_backend.simps
  by (intro keeps_if keeps_bind keeps_seq keeps_simps journaling_world journal_setting_keeps
    world_keeps_rule)

lemma ensure_settings_keeps:
  "keeps (journaling ks) (ensure_settings_for (hp_settings H) (hp_store H) is applied)"
proof (induction "is" arbitrary: applied)
  case Nil
  show ?case unfolding ensure_settings_for.simps by (rule keeps_simps)
next
  case (Cons i xs)
  show ?case unfolding ensure_settings_for.simps
    by (intro keeps_bind_gets keeps_if keeps_bind ensure_rpf_keeps Cons.IH)
qed

lemma transition_settings_at:
  assumes "announces_plans ks r"
  shows "hoare (at ((=) (Some r))) (transition_settings H k previous f extras r)
    (\<lambda>_. at (covers_plans ks)) P"
proof -
  let ?ensure = "ensure_interface_settings (hp_settings H) (hp_store H) k"
  have ensure: "keeps (journaling ks) ?ensure"
    unfolding ensure_interface_settings_def by (rule ensure_settings_keeps)
  have undo: "keeps P (io_bind (restore_setting_receipts (hp_settings H) rs) (\<lambda>restored.
      io_bind (io_result (persist_committed (hp_store H) previous f extras)) (\<lambda>repair.
        io_fail (g restored repair))))" for rs g
    by (intro keeps_bind keeps_result keeps_simps persist_inv inv_rules)
  have start: "journaling ks (r, w)" if "at ((=) (Some r)) w" for w
    using that assms announces_covers [OF assms] by (auto simp: journaling_def holds_def)
  show ?thesis
  proof (rule hoareI)
    fix w a w' assume w: "at ((=) (Some r)) w"
      and run: "transition_settings H k previous f extras r w = (Inr a, w')"
    obtain x r' w1 where x: "?ensure (r, w) = (x, (r', w1))" by (metis surj_pair)
    from keepsD [OF ensure start [OF w] x] show "at (covers_plans ks) w'"
      using run by (cases x) (auto simp: transition_settings_def x journaling_def io_bind_def
        io_result_def split: prod.splits sum.splits)
  next
    fix w e w' assume w: "at ((=) (Some r)) w"
      and run: "transition_settings H k previous f extras r w = (Inl e, w')"
    obtain x r' w1 where x: "?ensure (r, w) = (x, (r', w1))" by (metis surj_pair)
    from keepsD [OF ensure start [OF w] x] have w1: "P w1" by (simp add: journaling_def holds_def)
    obtain e1 where e1: "x = Inl e1" using run by (cases x) (auto simp: transition_settings_def x)
    from keepsD [OF undo w1] run show "P w'"
      by (simp add: transition_settings_def x e1)
  qed
qed

section \<open>Transitions and replays\<close>

lemma in_kernel_start:
  "runner_in ks rs \<Longrightarrow> hoare (in_kernel ks) m (\<lambda>_. inv_in) inv_in \<Longrightarrow>
     hoare (at (covers_plans ks)) (with_state rs m) (\<lambda>_. P) P"
  by (rule hoare_with_state [where P' = "in_kernel ks"])
    (simp add: in_kernel_def, erule hoare_conseq, auto)

text \<open>In the backend, an operation of the world whose success is known to establish a fact.\<close>

lemma in_backend:
  "hoare Q m (\<lambda>_. R) P \<Longrightarrow> hoare (world_has Q) (in_world m) (\<lambda>_. world_has R) (world_has P)"
  by (rule hoare_conseq [OF hoare_in_world]) (auto simp: world_has_def)

lemma keeps_backend: "keeps P m \<Longrightarrow> hoare (world_has P) (in_world m) (\<lambda>_. world_has P) (world_has P)"
  by (rule in_backend) (simp add: keeps_def)

lemma kernel_of_transition:
  assumes "ks = insert k (ak_plan ` set_option previous)"
  shows "hoare (at (covers_plans ks))
    (with_state (with_lost_unicast lost (new_runner previous))
      (commit_transition H previous f lost extras settings x receipt committed k)) (\<lambda>_. P) P"
  by (rule in_kernel_start) (auto simp: assms intro: runner_in_new commit_transition_inv)

lemma pending_record_announces:
  "announces_plans (insert k (ak_plan ` set_option previous))
     (pending_record previous f extras k x receipt runtime)"
  by (cases previous)
    (auto simp: announces_plans_def pending_record_def record_plans_def default_stored_def)

lemma transition_with_keeps:
  "keeps (world_has P) (transition_with H k receipt lost runtime runtime_restore)"
  unfolding transition_with_def Let_def keeps_def
proof (rule hoare_bind_gets, rule hoare_seq, rule keeps_backend,
    rule ownership_keeps(4) [of "\<lambda>_. True", unfolded at_True], rule hoare_bind_lift)
  fix b x
  let ?r = "pending_record (be_current b) (be_fingerprint b) (backend_extras b) k x receipt runtime"
  let ?ks = "insert k (ak_plan ` set_option (be_current b))"
  let ?committed = "\<lambda>settings. \<lparr>ce_settings = ce_settings (backend_extras b) @ settings,
    ce_runtime = runtime, ce_runtime_restore = runtime_restore\<rparr>"
  show "hoare (world_has P) (io_seq (in_world (js_save (hp_store H) ?r))
      (io_seq (io_modify (be_restore_receipt_update (\<lambda>_. None)))
      (io_bind (in_world (transition_settings H k (be_current b) (be_fingerprint b) (backend_extras b) ?r))
        (\<lambda>settings. io_seq (io_guard (\<not> (receipt \<noteq> None \<and> be_current b = None))
            ''restore transition has a failed candidate'')
          (io_bind (in_world (with_state (with_lost_unicast lost (new_runner (be_current b)))
             (commit_transition H (be_current b) (be_fingerprint b) lost (backend_extras b) settings x
               receipt (?committed settings) k))) (\<lambda>(applied, f).
           io_seq (io_modify (\<lambda>b. b\<lparr>be_current := Some applied, be_fingerprint := Some f,
               be_interface_settings := ce_settings (?committed settings),
               be_runtime_restore := ce_runtime_restore (?committed settings),
               be_restore_receipt := receipt\<rparr>))
             (io_return (response_of (hp_content H) k []))))))))
     (\<lambda>_. world_has P) (world_has P)"
  proof (rule hoare_seq, rule in_backend, rule save_at,
      rule hoare_seq_modify [where P' = "world_has (at ((=) (Some ?r)))"])
    show "hoare (world_has (at ((=) (Some ?r))))
      (io_bind (in_world (transition_settings H k (be_current b) (be_fingerprint b) (backend_extras b) ?r))
        (\<lambda>settings. io_seq (io_guard (\<not> (receipt \<noteq> None \<and> be_current b = None))
            ''restore transition has a failed candidate'')
          (io_bind (in_world (with_state (with_lost_unicast lost (new_runner (be_current b)))
             (commit_transition H (be_current b) (be_fingerprint b) lost (backend_extras b) settings x
               receipt (?committed settings) k))) (\<lambda>(applied, f).
           io_seq (io_modify (\<lambda>b. b\<lparr>be_current := Some applied, be_fingerprint := Some f,
               be_interface_settings := ce_settings (?committed settings),
               be_runtime_restore := ce_runtime_restore (?committed settings),
               be_restore_receipt := receipt\<rparr>))
             (io_return (response_of (hp_content H) k []))))))
     (\<lambda>_. world_has P) (world_has P)"
      by (rule hoare_bind, rule in_backend, rule transition_settings_at, rule pending_record_announces,
          rule hoare_seq_guard, rule hoare_bind, rule in_backend, rule kernel_of_transition, rule refl,
          simp only: split_def, rule hoare_seq_modify [where P' = "world_has P"])
        (auto simp: holds_def intro!: hoare_return)
  qed simp
qed (simp add: at_True world_has_def)

lemma store_keeps [keeps_rule]:
  "keeps P (js_load (hp_store H))" "keeps P (js_save (hp_store H) r)" "keeps P (js_clear (hp_store H))"
  by (rule keepsI, metis load_inv save_inv clear_inv prod.collapse)+

lemma in_kernel_run_restore:
  assumes "runner_in ks rs" "ak_plan ` set_option state \<subseteq> ks"
  shows "hoare (at (covers_plans ks)) (run_restore Y rs state) (\<lambda>_. P) P"
  unfolding run_restore_def
  by (rule in_kernel_start [OF assms(1)], rule hoare_conseq, rule hoare_keeps, rule keeps_bind,
      rule runner_snapshot_keeps, rule runner_restore_keeps [OF assms(2)])
    (auto dest: in_kernel_inv)

section \<open>Orphan cleanup\<close>

lemma remove_orphan_rules_at:
  "distinct rs \<Longrightarrow> set rs \<subseteq> own_rules (oo_routing oo) \<Longrightarrow>
     hoare (at ((=) (Some (orphan_journal oo)))) (remove_orphan_rules H rs oo)
       (\<lambda>oo' w. at ((=) (Some (orphan_journal oo'))) w \<and>
          own_routes (oo_routing oo') = own_routes (oo_routing oo)) P"
proof (induction rs arbitrary: oo)
  case Nil
  show ?case unfolding remove_orphan_rules.simps by (rule hoare_return) simp
next
  case (Cons r rs)
  let ?oo = "oo\<lparr>oo_routing := (oo_routing oo)\<lparr>own_rules := own_rules (oo_routing oo) - {r}\<rparr>\<rparr>"
  let ?step = "DeleteRule (family_of_number (uo_family r)) (uo_priority r) (uo_table r) (uo_mark r)"
  have "?step \<in> orphan_steps oo" using Cons.prems(2) by (simp add: orphan_steps_def rule_removals_def)
  with orphan_journal_announces have "?step \<in> record_steps (orphan_journal oo)" by blast
  from announced_step [OF orphan_journal_announces(1) this]
  have "journal_covers Y (Some (orphan_journal oo)) (remove_orphan_rule_command r)"
    by (simp add: remove_orphan_rule_command_def)
  then have run: "keeps (at ((=) (Some (orphan_journal oo))))
      (run_required (sy_execute Y) (remove_orphan_rule_command r)
        ''remove verified orphan RouteLane policy rule'')"
    unfolding run_required_def by (intro keeps_rule execute_covered) auto
  have rest: "hoare (at ((=) (Some (orphan_journal ?oo)))) (remove_orphan_rules H rs ?oo)
      (\<lambda>oo' w. at ((=) (Some (orphan_journal oo'))) w \<and>
         own_routes (oo_routing oo') = own_routes (oo_routing oo)) P"
    by (rule hoare_conseq [OF Cons.IH]) (use Cons.prems in auto)
  show ?case
    unfolding remove_orphan_rules.simps Let_def
    by (rule hoare_bind, rule hoare_conseq [OF hoare_keeps [OF run]], assumption, assumption,
        erule at_P, rule hoare_seq [OF _ rest], rule hoare_conseq [OF save_at])
      (auto dest: at_P)
qed

definition orphan_content :: "('n, 'h) stored_state option \<Rightarrow> bool" where
  "orphan_content j \<longleftrightarrow> (\<exists>oo. j = Some (orphan_journal oo))"

lemma orphan_covers:
  "orphan_content j \<Longrightarrow> in_tables T \<Longrightarrow> journal_covers Y j (step_command (FlushTable f T))"
  "orphan_content j \<Longrightarrow> journal_covers Y j (nft_command delete_table_batch)"
proof -
  assume "orphan_content j"
  then obtain oo where j: "j = Some (orphan_journal oo)" by (auto simp: orphan_content_def)
  show "in_tables T \<Longrightarrow> journal_covers Y j (step_command (FlushTable f T))"
    unfolding j by (intro announced_step orphan_journal_announces(1)
        subsetD [OF orphan_journal_announces(2)]) (auto simp: orphan_steps_def)
  show "journal_covers Y j (nft_command delete_table_batch)"
    unfolding j by (intro announced_batch orphan_journal_announces(1)) (simp add: record_batches_def)
qed

lemma save_orphan: "keeps (at orphan_content) (js_save (hp_store H) (orphan_journal oo))"
  by (rule save_at_keeps) (auto simp: orphan_content_def)

lemma remove_orphan_routes_keeps:
  "\<forall>r \<in> set rs. in_tables (ro_table r) \<Longrightarrow> keeps (at orphan_content) (remove_orphan_routes H rs oo)"
proof (induction rs arbitrary: oo)
  case Nil
  show ?case unfolding remove_orphan_routes.simps by (rule keeps_simps)
next
  case (Cons r rs)
  have "step_command (FlushTable (family_of_number (ro_family r)) (ro_table r)) =
      flush_orphan_table_command r" by (simp add: flush_orphan_table_command_def)
  with Cons.prems have "keeps (at orphan_content) (run_required (sy_execute Y)
      (flush_orphan_table_command r) ''flush verified orphan RouteLane routing table'')"
    unfolding run_required_def
    by (intro keeps_rule execute_covered) (metis orphan_covers(1) list.set_intros(1))
  with Cons show ?case
    unfolding remove_orphan_routes.simps Let_def by (intro keeps_bind keeps_seq save_orphan) auto
qed

lemma remove_orphan_table_keeps: "keeps (at orphan_content) (remove_orphan_table H oo)"
  unfolding remove_orphan_table_def
  by (intro keeps_rule save_orphan run_batch_keeps orphan_covers(2))

lemma verified_orphans_reserved:
  "hoare P (verify_orphan_ownership Y oo)
     (\<lambda>oo' w. P w \<and> (\<forall>r \<in> own_routes (oo_routing oo'). in_tables (ro_table r))) P"
  unfolding verify_orphan_ownership_def
proof (rule hoare_bind, rule hoare_keeps, rule reads_P, rule capture_keeps, rule hoare_bind_lift)
  fix c live assume "live_routing_ownership (sy_json Y) c = Inr live"
  then have live: "\<forall>r \<in> own_routes live. in_tables (ro_table r)"
    using live_ownership_bounds(1) by blast
  show "hoare P (io_bind
       (if table_present c
        then io_bind (io_lift (ok_or ''orphan cleanup journal does not own the live nftables table''
            (oo_nft_fingerprint oo))) (\<lambda>expected.
          io_bind (live_nft_fingerprint Y) (\<lambda>f.
          io_seq (io_guard (f = expected)
            ''orphan cleanup journal does not exactly own the live inet/routelane table'')
            (io_return oo)))
        else if live \<noteq> empty_ownership
        then io_fail ''orphan cleanup table is missing while routing resources remain''
        else io_return (oo\<lparr>oo_nft_fingerprint := None\<rparr>)) (\<lambda>oo.
      io_seq (io_guard (routing_ownership_is_subset live (oo_routing oo))
        ''orphan cleanup journal conflicts with live routing resources'')
        (io_return (oo\<lparr>oo_routing := live\<rparr>))))
      (\<lambda>oo' w. P w \<and> (\<forall>r \<in> own_routes (oo_routing oo'). in_tables (ro_table r))) P"
    by (rule hoare_bind, rule hoare_keeps, intro keeps_rule reads_P marker_keeps,
        rule hoare_seq_guard, rule hoare_return) (simp_all add: live)
qed simp

lemma resume_orphan_cleanup_keeps [keeps_rule]: "keeps P (resume_orphan_cleanup H)"
proof -
  have tail: "hoare (at orphan_content) (io_bind (remove_orphan_routes H (ordered_routes (oo_routing oo)) oo)
      (\<lambda>oo. io_seq (remove_orphan_table H oo) (io_bind (capture_snapshot Y) (\<lambda>c.
         io_bind (io_lift (no_live_resources Y c)) (\<lambda>none.
         io_seq (io_guard none ''verified orphan RouteLane resources remain after cleanup'')
           (js_clear (hp_store H))))))) (\<lambda>_. P) P"
    if "\<forall>r \<in> own_routes (oo_routing oo). in_tables (ro_table r)" for oo
  proof -
    have "\<forall>r \<in> set (ordered_routes (oo_routing oo)). in_tables (ro_table r)"
      using that by (cases "finite (own_routes (oo_routing oo))") (simp_all add: ordered_routes_def)
    note routes = remove_orphan_routes_keeps [OF this]
    show ?thesis
      by (rule hoare_bind, rule hoare_conseq [OF hoare_keeps [OF routes]], assumption, assumption,
          erule at_P, rule hoare_seq, rule hoare_conseq [OF hoare_keeps [OF remove_orphan_table_keeps]],
          assumption, assumption, erule at_P, rule hoare_conseq [OF hoare_keeps, of P],
          intro keeps_rule reads_P capture_keeps)
        (auto dest: at_P)
  qed
  have clean: "hoare P (io_seq (js_save (hp_store H) (orphan_journal oo))
      (io_bind (remove_orphan_rules H (ordered_rules (oo_routing oo)) oo) (\<lambda>oo.
       io_bind (remove_orphan_routes H (ordered_routes (oo_routing oo)) oo) (\<lambda>oo.
       io_seq (remove_orphan_table H oo) (io_bind (capture_snapshot Y) (\<lambda>c.
         io_bind (io_lift (no_live_resources Y c)) (\<lambda>none.
         io_seq (io_guard none ''verified orphan RouteLane resources remain after cleanup'')
           (js_clear (hp_store H))))))))) (\<lambda>_. P) P"
    if reserved: "\<forall>r \<in> own_routes (oo_routing oo). in_tables (ro_table r)" for oo
  proof (rule hoare_seq [OF save_at], rule hoare_bind, rule remove_orphan_rules_at)
    show "distinct (ordered_rules (oo_routing oo))"
      "set (ordered_rules (oo_routing oo)) \<subseteq> own_rules (oo_routing oo)"
      by (cases "finite (own_rules (oo_routing oo))"; simp add: ordered_rules_def)+
    fix oo'
    show "hoare (\<lambda>w. at ((=) (Some (orphan_journal oo'))) w \<and>
          own_routes (oo_routing oo') = own_routes (oo_routing oo))
        (io_bind (remove_orphan_routes H (ordered_routes (oo_routing oo')) oo') (\<lambda>oo.
         io_seq (remove_orphan_table H oo) (io_bind (capture_snapshot Y) (\<lambda>c.
         io_bind (io_lift (no_live_resources Y c)) (\<lambda>none.
         io_seq (io_guard none ''verified orphan RouteLane resources remain after cleanup'')
           (js_clear (hp_store H))))))) (\<lambda>_. P) P"
      by (rule hoare_pure, rule hoare_conseq [OF tail])
        (use reserved in \<open>auto simp: holds_def orphan_content_def intro: sym\<close>)
  qed
  show ?thesis
    unfolding resume_orphan_cleanup_def keeps_def
  proof (rule hoare_bind, rule hoare_keeps, rule store_keeps, rule hoare_bind_lift, rule hoare_seq,
      rule hoare_keeps, rule keeps_simps, rule hoare_bind_lift, rule hoare_bind,
      rule verified_orphans_reserved, rule hoare_pure)
    fix oo :: orphaned_ownership
    assume "\<forall>r \<in> own_routes (oo_routing oo). in_tables (ro_table r)"
    then show "hoare P (io_seq (js_save (hp_store H) (orphan_journal oo))
      (io_bind (remove_orphan_rules H (ordered_rules (oo_routing oo)) oo) (\<lambda>oo.
       io_bind (remove_orphan_routes H (ordered_routes (oo_routing oo)) oo) (\<lambda>oo.
       io_seq (remove_orphan_table H oo) (io_bind (capture_snapshot Y) (\<lambda>c.
         io_bind (io_lift (no_live_resources Y c)) (\<lambda>none.
         io_seq (io_guard none ''verified orphan RouteLane resources remain after cleanup'')
           (js_clear (hp_store H))))))))) (\<lambda>_. P) P" by (rule clean)
  qed simp_all
qed

section \<open>Cleanup of earlier schemas\<close>

lemma v1_covers:
  assumes "j1_cleanup_pending r" "j1_active r = Some p"
  shows "s \<in> ownership_steps (legacy_ownership p) \<Longrightarrow>
      journal_covers Y (Some (legacy_v1_journal r)) (step_command s)"
    "journal_covers Y (Some (legacy_v1_journal r)) (nft_command delete_table_batch)"
  using assms
  by (auto intro!: announced_step announced_batch
    simp: announces_def legacy_v1_journal_def record_steps_def record_batches_def)

lemma clean_legacy_v1_keeps:
  assumes "j1_active r = Some active"
  shows "keeps P (clean_legacy_v1 H r active f)"
proof -
  let ?r = "r\<lparr>j1_cleanup_pending := True\<rparr>"
  have r: "j1_cleanup_pending ?r" "j1_active ?r = Some active" using assms by simp_all
  have rules: "keeps (at ((=) (Some (legacy_v1_journal ?r)))) (remove_legacy_rule Y u)"
    if "u \<in> set (ordered_rules (legacy_ownership active))" for u
    unfolding remove_legacy_rule_def
  proof (rule run_step_keeps, erule subst, rule v1_covers(1) [OF r])
    from that have "u \<in> own_rules (legacy_ownership active)"
      by (cases "finite (own_rules (legacy_ownership active))") (simp_all add: ordered_rules_def)
    then show "DeleteRule (family_of_number (uo_family u)) (uo_priority u) (uo_table u) (uo_mark u)
        \<in> ownership_steps (legacy_ownership active)" by (simp add: ownership_steps_def rule_removals_def)
  qed
  have routes: "keeps (at ((=) (Some (legacy_v1_journal ?r)))) (flush_legacy_route Y x)"
    if "x \<in> set (ordered_routes (legacy_ownership active))" for x
    unfolding flush_legacy_route_def
  proof (rule run_step_keeps, erule subst, rule v1_covers(1) [OF r])
    from that have "x \<in> own_routes (legacy_ownership active)"
      by (cases "finite (own_routes (legacy_ownership active))") (simp_all add: ordered_routes_def)
    then show "FlushTable (family_of_number (ro_family x)) (ro_table x)
        \<in> ownership_steps (legacy_ownership active)" by (simp add: ownership_steps_def)
  qed
  have table: "keeps (at ((=) (Some (legacy_v1_journal ?r)))) (delete_table Y message)" for message
    unfolding delete_table_def by (rule run_batch_keeps, erule subst, rule v1_covers(2) [OF r])
  show ?thesis
    unfolding clean_legacy_v1_def Let_def keeps_def
  proof (rule hoare_bind, rule hoare_keeps, rule reads_P, rule legacy_reads_keep, rule hoare_seq,
      rule save_at, rule hoare_seq, rule at_step, intro keeps_each, erule rules, rule hoare_seq,
      rule at_step, intro keeps_each, erule routes)
    show "hoare (at ((=) (Some (legacy_v1_journal ?r))))
      (io_bind (if present then verify_legacy_v1 H active f False else io_return False) (\<lambda>present.
       io_seq (if present then delete_table Y ''delete schema-1 RouteLane nftables table''
               else io_return ()) (io_seq (verify_exact_kernel_state Y None None) (js_clear (hp_store H)))))
      (\<lambda>_. P) P" for present
      by (rule hoare_bind, rule at_step, intro keeps_rule, rule hoare_seq, rule at_step,
          intro keeps_rule table, rule hoare_seq, rule at_step, rule verify_exact_keeps,
          rule hoare_conseq [OF clear_commit]) (auto dest: at_P)
  qed
qed

lemma cleanup_legacy_keeps [keeps_rule]: "keeps inv_in (cleanup_legacy H)"
  unfolding cleanup_legacy_def
  by (intro keeps_bind_gets keeps_bind_lift keeps_seq keeps_rule inv_world clean_legacy_v1_keeps
      keeps_modify) (auto simp: ok_or_Inr)

lemma v2_covers:
  assumes "j2_cleanup_pending r"
  shows "k \<in> set (plans_of r) \<Longrightarrow> plan_step (kp_lanes k) s \<Longrightarrow>
      journal_covers Y (Some (legacy_v2_journal r)) (step_command s)"
    "journal_covers Y (Some (legacy_v2_journal r)) (nft_command delete_table_batch)"
  using assms
  by (auto intro!: announced_step announced_batch
    simp: announces_def legacy_v2_journal_def record_steps_def record_batches_def record_plans_def)

lemma clean_legacy_v2_keeps:
  assumes "j2_cleanup_pending r"
  shows "hoare (at ((=) (Some (legacy_v2_journal r)))) (clean_legacy_v2 H r) (\<lambda>_. P) P"
proof -
  have step: "keeps (at ((=) (Some (legacy_v2_journal r)))) (remove_legacy_step Y r s)"
    if "\<exists>K \<in> set (map kp_lanes (plans_of r)). plan_step K s" for s
    unfolding remove_legacy_step_def
    using that by (intro keeps_rule run_step_keeps) (auto intro: v2_covers(1) [OF assms])
  have table: "keeps (at ((=) (Some (legacy_v2_journal r)))) (delete_table Y message)" for message
    unfolding delete_table_def by (rule run_batch_keeps, erule subst, rule v2_covers(2) [OF assms])
  have steps: "keeps (at ((=) (Some (legacy_v2_journal r)))) (remove_legacy_step Y r s)"
    if "s \<in> set (rollback_rule_order (map kp_lanes (plans_of r)) @
      rollback_table_order (map kp_lanes (plans_of r)))" for s
    using that unfolding set_append Un_iff
    by (elim disjE) (rule step, erule rollback_rule_step rollback_table_step)+
  show ?thesis
    unfolding clean_legacy_v2_def Let_def
    by (rule hoare_seq, rule at_step, rule keeps_each, erule steps, rule hoare_bind, rule at_step,
        rule legacy_reads_keep, rule hoare_seq, rule at_step, intro keeps_if keeps_simps table,
        rule hoare_seq, rule at_step, rule verify_exact_keeps, rule hoare_bind, rule at_step,
        rule restore_settings_keep, rule hoare_seq, rule hoare_conseq [OF clear_commit], assumption,
        assumption, erule at_P, rule hoare_return) (auto dest: at_P)
qed

lemma cleanup_legacy_v2_keeps [keeps_rule]: "keeps inv_in (cleanup_legacy_v2 H)"
proof -
  have clean: "keeps inv_in (io_seq (in_world (js_save (hp_store H) (legacy_v2_journal r)))
      (io_seq (io_modify (\<lambda>b. b\<lparr>be_legacy_v2 := Some r, be_runtime := None, be_runtime_restore := None\<rparr>))
      (io_bind (in_world (clean_legacy_v2 H r)) (\<lambda>diagnostics.
       io_seq (io_modify (be_legacy_v2_update (\<lambda>_. None)))
         (io_return \<lparr>cu_cleaned = True, cu_diagnostics = diagnostics\<rparr>)))))"
    if "j2_cleanup_pending r" for r
    unfolding keeps_def
    by (rule hoare_seq, rule in_backend, rule save_at,
        rule hoare_seq_modify [where P' = "world_has (at ((=) (Some (legacy_v2_journal r))))"], simp,
        rule hoare_bind, rule in_backend, rule clean_legacy_v2_keeps [OF that],
        rule hoare_seq_modify [where P' = inv_in], simp, rule hoare_return)
  show ?thesis
    unfolding cleanup_legacy_v2_def Let_def
    by (intro keeps_bind_gets keeps_bind_lift keeps_option keeps_seq keeps_rule
        read_world more_reads_keep clean) (auto intro: store_keeps)
qed

section \<open>Adopting and replaying the journal\<close>

lemma receipt_or_clear_keeps [keeps_rule]: "keeps P (journal_receipt_or_clear (hp_store H) receipt)"
  unfolding journal_receipt_or_clear_def by (intro keeps_rule)

lemma settings_keep_P [keeps_rule]: "keeps P (restore_setting_receipts (hp_settings H) xs)"
  by (rule reads_P) (rule restore_settings_keep)

lemma covers_cleanup:
  assumes "sa_cleanup_pending r" "ks \<subseteq> record_plans r"
  shows "covers_plans ks (Some r)"
  using assms by (auto simp: covers_plans_def announces_def)

lemma backend_step:
  "keeps (at G) m \<Longrightarrow> hoare (world_has (at G)) (in_world m) (\<lambda>_. world_has (at G)) inv_in"
  by (rule in_backend) (rule at_step)

lemma run_restore_at:
  assumes "covers_plans ks (Some r)" "runner_in ks rs" "ak_plan ` set_option state \<subseteq> ks"
  shows "hoare (world_has (at ((=) (Some r)))) (in_world (run_restore Y rs state)) (\<lambda>_. inv_in) inv_in"
  by (rule in_backend, rule hoare_conseq [OF in_kernel_run_restore [OF assms(2,3)]])
    (use assms(1) in \<open>auto simp: holds_def\<close>)

lemma replay_cleanup_at:
  assumes "sa_cleanup_pending r" "active = map_option (applied_from_plan D) (sa_active r)"
  shows "hoare (world_has (at ((=) (Some r)))) (replay_cleanup H r active) (\<lambda>_. inv_in) inv_in"
proof -
  let ?ks = "set_option (sa_active r)"
  have ks: "covers_plans ?ks (Some r)" "runner_in ?ks (new_runner active)"
    using assms by (auto intro!: covers_cleanup runner_in_new simp: record_plans_def applied_from_plan_def)
  have tail: "keeps inv_in (io_bind (in_world (restore_setting_receipts (hp_settings H)
        (sa_interface_settings r))) (\<lambda>_. io_seq (in_world (journal_receipt_or_clear (hp_store H)
        (sa_restore_receipt r))) (io_modify (\<lambda>b. b\<lparr>be_current := None, be_fingerprint := None,
          be_interface_settings := [], be_restore_receipt := sa_restore_receipt r,
          be_initialized := True\<rparr>))))"
    by (intro keeps_rule) simp
  show ?thesis
    unfolding replay_cleanup_def
    by (rule hoare_seq, rule backend_step, rule ownership_keeps, rule hoare_seq, rule hoare_map_err,
        rule run_restore_at [OF ks], simp, rule hoare_keeps, rule tail)
qed

lemma replay_pending_at:
  assumes "sa_pending r = Some pending" "active = map_option (applied_from_plan D) (sa_active r)"
  shows "hoare (world_has (at ((=) (Some r)))) (replay_pending H r active pending x) (\<lambda>_. inv_in) inv_in"
proof -
  let ?ks = "insert pending (set_option (sa_active r))"
  let ?rs = "(with_lost_unicast (px_lost_unicast x) (new_runner active))\<lparr>rs_next := Some pending\<rparr>"
  have "ak_plan ` set_option active \<subseteq> ?ks" using assms(2) by (auto simp: applied_from_plan_def)
  then have ks: "covers_plans ?ks (Some r)" "runner_in ?ks ?rs" "ak_plan ` set_option active \<subseteq> ?ks"
    using assms(1) by (auto simp: covers_plans_def announces_def record_plans_def
      intro!: runner_in_updates runner_in_new)
  have tail: "keeps inv_in (io_seq (io_map_err e (in_world (verify_exact_kernel_basis Y active f lost)))
      (io_bind (in_world (restore_setting_receipts (hp_settings H) (interrupted_settings r))) (\<lambda>_.
       io_seq (in_world (persist_committed_with_receipt (hp_store H) active f None (extras_of r)))
       (io_modify g))))" for e f lost and g :: "('n, 'h) backend_state \<Rightarrow> ('n, 'h) backend_state"
    by (intro keeps_seq keeps_bind keeps_map_err keeps_modify read_world verify_more_keeps
        inv_world keeps_rule) simp
  show ?thesis
    unfolding replay_pending_def Let_def
    by (rule hoare_seq, rule backend_step, rule ownership_keeps, rule hoare_seq, rule hoare_map_err,
        rule run_restore_at [OF ks], rule hoare_keeps, rule tail)
qed

lemma adopt_committed_keeps [keeps_rule]: "keeps inv_in (adopt_committed H r active)"
  unfolding adopt_committed_def
  by (intro keeps_rule read_world verify_more_keeps) simp_all

lemma replay_orphan_keeps [keeps_rule]: "keeps inv_in (replay_orphan_cleanup H r)"
  unfolding replay_orphan_cleanup_def
  by (intro keeps_rule) simp

lemma replay_record_at:
  "hoare (world_has (at ((=) (Some r)))) (replay_record H r) (\<lambda>_. inv_in) inv_in"
proof -
  have weak: "world_has (at G) x \<Longrightarrow> inv_in x" for G :: "('n, 'h) stored_state option \<Rightarrow> bool"
    and x :: "('n, 'h) backend_state \<times> 'w"
    by (simp add: world_has_def holds_def)
  show ?thesis
    unfolding replay_record_def Let_def
    by (rule hoare_seq, rule hoare_lift, assumption, erule weak, rule hoare_if,
        rule hoare_conseq [OF hoare_keeps [OF replay_orphan_keeps]], erule weak, assumption, assumption,
        rule hoare_if, erule replay_cleanup_at, rule refl, rule hoare_option,
        rule hoare_conseq [OF hoare_keeps [OF adopt_committed_keeps]], erule weak, assumption, assumption,
        rule hoare_bind_lift, rule replay_pending_at, assumption, rule refl, erule weak)
qed

lemma reconciled_keeps [keeps_rule]: "keeps inv_in (ensure_reconciled H)"
proof -
  have weak: "world_has (\<lambda>w. G j \<and> at ((=) j) w) x \<Longrightarrow> inv_in x" for G j
    and x :: "('n, 'h) backend_state \<times> 'w"
    by (simp add: world_has_def holds_def)
  have go: "hoare (world_has (\<lambda>w. True \<and> at ((=) j) w))
      (case j of
         None \<Rightarrow> io_modify (be_initialized_update (\<lambda>_. True))
       | Some r \<Rightarrow>
           if \<not> must_replay initialized r then io_return ()
           else if sa_legacy_v2 r \<noteq> None then adopt_legacy_v2 r
           else if sa_legacy_v1 r \<noteq> None then adopt_legacy_v1 r
           else replay_record H r) (\<lambda>_. inv_in) inv_in" for j initialized
    by (rule hoare_option, rule hoare_conseq [OF hoare_keeps, of inv_in], rule keeps_modify, simp,
        erule weak, assumption, assumption, intro hoare_if,
        rule hoare_return, erule weak,
        rule hoare_conseq [OF hoare_keeps [OF adopt_keeps(2)]], erule weak, assumption, assumption,
        rule hoare_conseq [OF hoare_keeps [OF adopt_keeps(1)]], erule weak, assumption, assumption,
        rule hoare_conseq [OF replay_record_at]) (auto simp: world_has_def)
  have load: "hoare inv_in (in_world (js_load (hp_store H)))
      (\<lambda>j. world_has (\<lambda>w. True \<and> at ((=) j) w)) inv_in"
    by (rule hoare_conseq [OF hoare_in_world [OF load_at [of "\<lambda>_. True"]]])
      (auto simp: world_has_def holds_def)
  show ?thesis
    unfolding ensure_reconciled_def keeps_def
    by (rule hoare_bind [OF load]) (rule hoare_bind_gets, rule go)
qed

section \<open>The handlers\<close>

lemma refusals_keep [keeps_rule]:
  "keeps inv_in (refuse_armed_runtime H)" "keeps inv_in refuse_legacy_activation"
  unfolding refuse_armed_runtime_def refuse_legacy_activation_def by (intro keeps_rule)+

lemma revalidate_keeps [keeps_rule]:
  "keeps inv_in (revalidate_current_ownership H)"
  "keeps inv_in (revalidate_current_ownership_for H k)"
  unfolding revalidate_current_ownership_def revalidate_current_ownership_for_def
  by (intro keeps_bind keeps_seq keeps_simps keeps_gets keeps_option keeps_prod read_world
      verify_more_keeps ownership_keeps)+

lemma settle_receipt_keeps [keeps_rule]: "keeps inv_in (settle_receipt H)"
  unfolding settle_receipt_def by (intro keeps_rule) simp

lemma transition_keeps [keeps_rule]:
  "keeps inv_in (transition_with H k receipt lost runtime runtime_restore)"
  by (rule transition_with_keeps)

lemma apply_keeps [keeps_rule]: "keeps inv_in (apply_handler H k)"
  unfolding apply_handler_def by (intro keeps_rule)

lemma clean_committed_keeps [keeps_rule]: "keeps inv_in (clean_committed H s receipt)"
proof -
  have covers: "covers_plans {ak_plan s} (Some (cleanup_record b s receipt))" for b
    by (intro covers_cleanup) (simp_all add: cleanup_record_def record_plans_def)
  have tail: "keeps inv_in (io_bind (in_world (restore_setting_receipts (hp_settings H) xs)) (\<lambda>diagnostics.
      io_seq (io_modify (be_interface_settings_update (\<lambda>_. [])))
      (io_seq (in_world (journal_receipt_or_clear (hp_store H) receipt))
      (io_seq (io_modify (\<lambda>b. b\<lparr>be_current := None, be_fingerprint := None,
         be_restore_receipt := receipt\<rparr>))
        (io_return \<lparr>cu_cleaned = True, cu_diagnostics = diagnostics\<rparr>)))))" for xs
    by (intro keeps_rule) simp_all
  show ?thesis
    unfolding clean_committed_def keeps_def
    by (rule hoare_bind_gets, rule hoare_seq, rule hoare_keeps, rule read_world,
        rule ownership_keeps, rule hoare_seq, rule in_backend, rule save_at, rule hoare_seq,
        rule run_restore_at [OF covers], auto intro!: runner_in_new hoare_keeps tail)
qed

lemma cleanup_keeps [keeps_rule]: "keeps inv_in (cleanup_with_receipt H receipt)"
  unfolding cleanup_with_receipt_def by (intro keeps_rule) simp_all

lemma restore_keeps [keeps_rule]: "keeps inv_in (restore_handler H failed previous)"
  unfolding restore_handler_def Let_def
  by (intro keeps_if keeps_bind keeps_seq keeps_simps keeps_gets keeps_option reconciled_keeps
      refusals_keep revalidate_keeps transition_keeps cleanup_keeps)

lemma recover_keeps [keeps_rule]: "keeps inv_in (recover_orphaned H)"
  unfolding recover_orphaned_def Let_def
  by (intro keeps_if keeps_bind keeps_seq keeps_simps keeps_gets reconciled_keeps inv_world
      store_keeps resume_orphan_cleanup_keeps reads_P orphan_reads_keep)

section \<open>The handlers of runtime authority\<close>

lemma hold_back_keeps [keeps_rule]: "keeps inv_in (hold_back_recovery now)"
  unfolding hold_back_recovery_def Let_def by (intro keeps_rule) simp

lemma interrupted_keeps [keeps_rule]: "keeps inv_in (journal_interrupted H)"
  unfolding journal_interrupted_def by (intro keeps_rule)

lemma prepare_keeps [keeps_rule]: "keeps inv_in (prepare_runtime_operation H)"
  unfolding prepare_runtime_operation_def by (intro keeps_rule) simp

lemma new_grant_keeps [keeps_rule]: "keeps inv_in (new_grant H a uid t)"
  unfolding new_grant_def
  by (intro keeps_bind keeps_simps read_world world_keeps_rule)

lemma activate_runtime_keeps [keeps_rule]: "keeps inv_in (activate_runtime H a uid t now)"
  unfolding activate_runtime_def Let_def
  by (intro keeps_bind keeps_seq keeps_simps keeps_gets keeps_prod prepare_keeps refusals_keep
      new_grant_keeps revalidate_keeps read_world world_keeps_rule transition_keeps keeps_modify) simp

text \<open>The same where the runtime taken out of the backend is a state of its own.\<close>

abbreviation inv_runtime :: "('w, 'n, 'h) runtime_world \<Rightarrow> bool" where
  "inv_runtime \<equiv> world_has inv_in"

lemma backend_in_runtime [keeps_rule]: "keeps inv_in m \<Longrightarrow> keeps inv_runtime (in_world m)"
  by (rule keeps_in_world) simp

lemma hold_candidate_keeps [keeps_rule]:
  "keeps inv_runtime (hold_back_candidate now held candidate_hash)"
  unfolding hold_back_candidate_def Let_def by (intro keeps_rule) simp

lemma switch_keeps [keeps_rule]:
  "keeps inv_runtime (switch_runtime H now candidate decision lost held)"
  unfolding switch_runtime_def by (intro keeps_rule) simp_all

lemma candidate_keeps [keeps_rule]:
  "keeps inv_runtime (try_candidate H now current candidate decision lost)"
  unfolding try_candidate_def Let_def by (intro keeps_rule) simp_all

lemma prove_keeps [keeps_rule]: "keeps inv_runtime (prove_current H unverified candidate)"
  unfolding prove_current_def by (intro keeps_rule) simp_all

lemma refresh_armed_keeps [keeps_rule]: "keeps inv_runtime (refresh_armed H t now unverified)"
  unfolding refresh_armed_def Let_def by (intro keeps_rule) simp_all

lemma update_runtime_keeps [keeps_rule]: "keeps inv_in (update_runtime f)"
  unfolding update_runtime_def by (intro keeps_rule) simp

lemma waiting_keeps [keeps_rule]:
  "keeps inv_in (wait_for_recovery H now)"
  "keeps inv_in (prepare_failed now e)"
  "keeps inv_in (settle_refresh H now outcome r)"
  unfolding wait_for_recovery_def prepare_failed_def settle_refresh_def by (intro keeps_rule)+

lemma refresh_taken_keeps [keeps_rule]: "keeps inv_in (refresh_taken H t now unverified r)"
proof -
  have "keeps (\<lambda>(_, x). inv_in x) (refresh_armed H t now unverified)"
    using refresh_armed_keeps [of t now unverified] by (simp add: world_has_fun case_prod_unfold)
  then show ?thesis unfolding refresh_taken_def by (intro keeps_rule) simp_all
qed

lemma refresh_runtime_keeps [keeps_rule]: "keeps inv_in (refresh_runtime H t now)"
  unfolding refresh_runtime_def by (intro keeps_rule)

lemma restore_runtime_keeps [keeps_rule]: "keeps inv_in (restore_runtime H token uid)"
  unfolding restore_runtime_def Let_def by (intro keeps_rule) simp

lemma status_keeps [keeps_rule]:
  "keeps inv_in (runtime_status_handler H)" "keeps inv_in (degrade_runtime H reason)"
  unfolding runtime_status_handler_def degrade_runtime_def by (intro keeps_rule)+

end

end
