(* ===== verification/Observed.thy ===== *)
theory Observed
  imports Write_Ahead
begin

text \<open>
  The write-ahead discipline of whole sessions. A helper is observed: the journal is a value beside
  the world, and every kernel command is recorded with the journal at the moment it is issued. The
  world decides what each command answers and which saves, clears and loads fail, so the theorems hold
  for every kernel, every failure and every point at which the helper is killed and started again.
\<close>

section \<open>An observed helper\<close>

type_synonym ('n, 'h) journal = "('n, 'h) stored_state option"
type_synonym ('n, 'h) command_log = "(command_spec \<times> ('n, 'h) journal) list"
type_synonym ('w, 'n, 'h) observed = "(('n, 'h) journal \<times> ('n, 'h) command_log) \<times> 'w"

definition observe_execute :: "'w executor \<Rightarrow> ('w, 'n, 'h) observed executor" where
  "observe_execute E spec x =
     (case x of ((j, log), w) \<Rightarrow> (case E spec w of (r, w') \<Rightarrow> (r, ((j, log @ [(spec, j)]), w'))))"

text \<open>
  The store of an observed helper is atomic. The base store only says whether an operation succeeds.
\<close>

definition observe_load ::
  "('w, 'n, 'h) store \<Rightarrow> (('w, 'n, 'h) observed, ('n, 'h) journal) io"
where
  "observe_load S x = (case in_world (js_load S) x of
     (Inl e, y) \<Rightarrow> (Inl e, y) | (Inr _, y) \<Rightarrow> (Inr (fst (fst y)), y))"

definition observe_change ::
  "('w, unit) io \<Rightarrow> ('n, 'h) journal \<Rightarrow> (('w, 'n, 'h) observed, unit) io"
where
  "observe_change m j' x = (case in_world m x of
     (Inl e, y) \<Rightarrow> (Inl e, y) | (Inr _, ((j, log), w)) \<Rightarrow> (Inr (), ((j', log), w)))"

definition observe_store :: "('w, 'n, 'h) store \<Rightarrow> (('w, 'n, 'h) observed, 'n, 'h) store" where
  "observe_store S = \<lparr>js_load = observe_load S,
     js_save = (\<lambda>r. observe_change (js_save S r) (Some r)),
     js_clear = observe_change (js_clear S) None\<rparr>"

definition observe_system ::
  "('w, 'n, 'h) system \<Rightarrow> (('w, 'n, 'h) observed, 'n, 'h) system"
where
  "observe_system Y = \<lparr>sy_execute = observe_execute (sy_execute Y),
     sy_process = (\<lambda>i. in_world (sy_process Y i)), sy_json = sy_json Y, sy_write = sy_write Y,
     sy_foreign = sy_foreign Y, sy_digests = sy_digests Y, sy_routing_digest = sy_routing_digest Y,
     sy_model_digest = sy_model_digest Y, sy_snapshot_text = sy_snapshot_text Y,
     sy_debug = sy_debug Y\<rparr>"

definition observe_settings :: "'w rpf_backend \<Rightarrow> ('w, 'n, 'h) observed rpf_backend" where
  "observe_settings B = \<lparr>rpf_identity = (\<lambda>n. in_world (rpf_identity B n)),
     rpf_rp_filter = (\<lambda>n. in_world (rpf_rp_filter B n)),
     rpf_src_valid_mark = (\<lambda>n. in_world (rpf_src_valid_mark B n)),
     rpf_set = (\<lambda>i v. in_world (rpf_set B i v))\<rparr>"

definition observe_environment ::
  "'w runtime_environment \<Rightarrow> ('w, 'n, 'h) observed runtime_environment"
where
  "observe_environment V = \<lparr>en_boot_id = in_world (en_boot_id V),
     en_network_namespace = in_world (en_network_namespace V),
     en_new_token = in_world (en_new_token V)\<rparr>"

definition observing :: "('w, 'n, 'h) helper \<Rightarrow> (('w, 'n, 'h) observed, 'n, 'h) helper" where
  "observing H = \<lparr>hp_system = observe_system (hp_system H), hp_store = observe_store (hp_store H),
     hp_settings = observe_settings (hp_settings H),
     hp_environment = observe_environment (hp_environment H),
     hp_policy_digest = hp_policy_digest H, hp_token_digest = hp_token_digest H,
     hp_legacy_digest = hp_legacy_digest H, hp_domain_debug = hp_domain_debug H,
     hp_plan_debug = hp_plan_debug H, hp_plan_size = hp_plan_size H,
     hp_activation_size = hp_activation_size H\<rparr>"

abbreviation observed_journal :: "('w, 'n, 'h) observed \<Rightarrow> ('n, 'h) journal" where
  "observed_journal x \<equiv> fst (fst x)"

abbreviation observed_log :: "('w, 'n, 'h) observed \<Rightarrow> ('n, 'h) command_log" where
  "observed_log x \<equiv> snd (fst x)"

lemma observe_parts [simp]:
  "hp_system (observing H) = observe_system (hp_system H)"
  "hp_store (observing H) = observe_store (hp_store H)"
  "hp_settings (observing H) = observe_settings (hp_settings H)"
  "hp_environment (observing H) = observe_environment (hp_environment H)"
  by (simp_all add: observing_def)

lemma observe_fields [simp]:
  "sy_execute (observe_system Y) = observe_execute (sy_execute Y)"
  "sy_process (observe_system Y) i = in_world (sy_process Y i)"
  "rpf_identity (observe_settings B) n = in_world (rpf_identity B n)"
  "rpf_rp_filter (observe_settings B) n = in_world (rpf_rp_filter B n)"
  "rpf_src_valid_mark (observe_settings B) n = in_world (rpf_src_valid_mark B n)"
  "rpf_set (observe_settings B) u v = in_world (rpf_set B u v)"
  "en_boot_id (observe_environment V) = in_world (en_boot_id V)"
  "en_network_namespace (observe_environment V) = in_world (en_network_namespace V)"
  "en_new_token (observe_environment V) = in_world (en_new_token V)"
  by (simp_all add: observe_system_def observe_settings_def observe_environment_def)

lemma observed_covers: "journal_covers (observe_system Y) j spec = journal_covers Y j spec"
  by (simp add: journal_covers_def record_batches_def plan_batches_def expected_nft_document_def
    render_nft_command_document_def observe_system_def)

section \<open>What the record of commands satisfies\<close>

definition log_ok :: "('w, 'n::linorder, 'h) helper \<Rightarrow> ('w, 'n, 'h) observed \<Rightarrow> bool" where
  "log_ok H x \<longleftrightarrow>
     list_all (\<lambda>(spec, j). is_query spec \<or> journal_covers (hp_system H) j spec) (observed_log x)"

definition only_reads :: "('n, 'h) journal \<Rightarrow> ('w, 'n, 'h) observed \<Rightarrow> bool" where
  "only_reads j x \<longleftrightarrow> observed_journal x = j \<and> list_all (\<lambda>(spec, _). is_query spec) (observed_log x)"

lemma quiet_in_world:
  "(\<And>s w w'. P (s, w) \<Longrightarrow> P (s, w')) \<Longrightarrow> quiet P observed_journal (in_world m)"
  by (auto simp: quiet_def in_world_def split: prod.splits)

lemma log_ok_beside: "log_ok H (s, w) \<Longrightarrow> log_ok H (s, w')"
  by (simp add: log_ok_def)

lemma only_reads_beside: "only_reads j (s, w) \<Longrightarrow> only_reads j (s, w')"
  by (simp add: only_reads_def)

lemma quiet_query:
  "(\<And>j log w w'. P ((j, log), w) \<Longrightarrow> P ((j, log @ [(spec, j)]), w')) \<Longrightarrow>
     quiet P observed_journal (observe_execute E spec)"
  by (auto simp: quiet_def observe_execute_def split: prod.splits)

lemma quiet_load:
  "(\<And>s w w'. P (s, w) \<Longrightarrow> P (s, w')) \<Longrightarrow> quiet P observed_journal (js_load (observe_store S))"
  by (auto simp: quiet_def observe_store_def observe_load_def in_world_def
    split: prod.splits sum.splits)

lemma observed_change:
  "observe_change m j' x = (r, y) \<Longrightarrow>
     observed_log y = observed_log x \<and> observed_journal y = (case r of Inl _ \<Rightarrow> observed_journal x | Inr _ \<Rightarrow> j')"
  by (auto simp: observe_change_def in_world_def split: prod.splits sum.splits)

interpretation inspections: reading "observing H" observed_journal "only_reads j" for H j
  by unfold_locales
    (auto intro!: quiet_query quiet_load quiet_in_world simp: only_reads_def)

interpretation sessions: write_ahead "observing H" observed_journal "log_ok H" for H
proof unfold_locales
  show "quiet (log_ok H) observed_journal (sy_execute (hp_system (observing H)) spec)"
    if "is_query spec" for spec
    using that by (auto intro!: quiet_query simp: log_ok_def)
  show "log_ok H w' \<and> observed_journal w' = observed_journal w"
    if "journal_covers (hp_system (observing H)) (observed_journal w) spec" "log_ok H w"
      "sy_execute (hp_system (observing H)) spec w = (x, w')" for w spec x w'
    using that by (auto simp: observed_covers observe_execute_def log_ok_def split: prod.splits)
  show "quiet (log_ok H) observed_journal (js_load (hp_store (observing H)))"
    unfolding observe_parts by (rule quiet_load) (rule log_ok_beside)
qed (auto intro!: quiet_in_world intro: log_ok_beside
  simp: observe_store_def observe_load_def log_ok_def in_world_def dest!: observed_change
  split: prod.splits sum.splits)

section \<open>Sessions\<close>

text \<open>
  The operations of the \<open>PrivilegedBackend\<close> trait, and the helper's restart, which keeps only the
  journal.
\<close>

datatype 'n request =
    Apply "'n kernel_plan"
  | Restore "'n kernel_plan" "'n kernel_plan option"
  | Inspect
  | Cleanup
  | RecoverOrphaned
  | ActivateRuntime "'n runtime_activation" u32 "'n topology" duration
  | RefreshRuntime "'n topology" duration
  | RestoreRuntime string u32
  | RuntimeStatus
  | DegradeRuntime string
  | HelperRestart

abbreviation io_done :: "('w, 'a) io \<Rightarrow> ('w, unit) io" where
  "io_done m \<equiv> io_bind m (\<lambda>_. io_return ())"

fun serve ::
  "('w, 'n::linorder, 'h) helper \<Rightarrow> 'n request \<Rightarrow> (('w, 'n, 'h) backend_world, unit) io"
where
  "serve H (Apply k) = io_done (apply_handler H k)"
| "serve H (Restore failed previous) = io_done (restore_handler H failed previous)"
| "serve H Inspect = io_done (inspect_handler H)"
| "serve H Cleanup = io_done (cleanup_handler H)"
| "serve H RecoverOrphaned = io_done (recover_orphaned H)"
| "serve H (ActivateRuntime a uid t now) = io_done (activate_runtime H a uid t now)"
| "serve H (RefreshRuntime t now) = io_done (refresh_runtime H t now)"
| "serve H (RestoreRuntime token uid) = io_done (restore_runtime H token uid)"
| "serve H RuntimeStatus = io_done (runtime_status_handler H)"
| "serve H (DegradeRuntime reason) = io_done (degrade_runtime H reason)"
| "serve H HelperRestart = io_modify (\<lambda>_. new_backend)"

definition run_session ::
  "('w, 'n::linorder, 'h) helper \<Rightarrow> 'n request list \<Rightarrow> ('w, 'n, 'h) backend_world \<Rightarrow>
     ('w, 'n, 'h) backend_world"
where
  "run_session H = fold (\<lambda>q x. snd (serve H q x))"

lemma serve_keeps: "keeps (world_has (log_ok H)) (serve (observing H) q)"
  by (cases q) (auto simp: cleanup_handler_def intro!: keeps_bind keeps_simps keeps_modify
    sessions.apply_keeps sessions.restore_keeps sessions.inspect_keeps sessions.cleanup_keeps
    sessions.recover_keeps sessions.activate_runtime_keeps sessions.refresh_runtime_keeps
    sessions.restore_runtime_keeps sessions.status_keeps)

lemma session_keeps:
  "world_has (log_ok H) x \<Longrightarrow> world_has (log_ok H) (run_session (observing H) qs x)"
  unfolding run_session_def
proof (induction qs arbitrary: x)
  case (Cons q qs)
  have "world_has (log_ok H) (snd (serve (observing H) q x))"
    using keepsD [OF serve_keeps Cons.prems] by (metis prod.collapse)
  with Cons.IH show ?case by simp
qed simp

definition session_log ::
  "('w, 'n::linorder, 'h) helper \<Rightarrow> 'n request list \<Rightarrow> ('n, 'h) backend_state \<Rightarrow> ('n, 'h) journal \<Rightarrow>
     'w \<Rightarrow> ('n, 'h) command_log"
where
  "session_log H qs b j w = observed_log (snd (run_session (observing H) qs (b, ((j, []), w))))"


text \<open>
  An inspection changes nothing: whatever it finds, it issues queries only and leaves the journal
  as it was.
\<close>

lemma inspection_only_reads:
  "only_reads j (snd (snd (inspect_handler (observing H) (b, ((j, []), w)))))"
proof -
  have "world_has (only_reads j) (b, ((j, []), w))" by (simp add: only_reads_def)
  from keepsD [OF inspections.inspect_keeps this] show ?thesis
    by (metis prod.collapse world_has_def)
qed

end
