(* ===== verification/Health.thy ===== *)
theory Health
  imports Inspect
begin

text \<open>
  Health reports (\<open>src/src/domain/health.rs\<close>, \<open>src/src/health/report.rs\<close> and \<open>probes.rs\<close>): the
  states a lane and the daemon report, diagnostics in their fixed order, and the comparison of a plan
  with a snapshot of the live kernel. The lemmas say exactly which snapshots pass as a match of the
  plan's resources and when a report is healthy.
\<close>

section \<open>States and diagnostics\<close>

datatype health_state = Inactive | Applying | Healthy | Degraded | Failed | NeedsAuthorization

datatype diagnostic_code =
    LaneInterfaceMissing
  | LaneGatewayUnreachable
  | NftablesFeatureMissing
  | PolicyApplyRolledBack
  | RoutingResourceConflict

datatype severity = Info | Warning | Error

fun severity_health :: "severity \<Rightarrow> health_state" where
  "severity_health Info = Healthy"
| "severity_health Warning = Degraded"
| "severity_health Error = Failed"

datatype diagnostic_subject = SubjectLane lane_id | NftablesTable | Policy | HealthInspection

text \<open>The derived \<open>Ord\<close>: by constructor, then by the name of the lane.\<close>

fun code_rank :: "diagnostic_code \<Rightarrow> nat" where
  "code_rank LaneInterfaceMissing = 0"
| "code_rank LaneGatewayUnreachable = 1"
| "code_rank NftablesFeatureMissing = 2"
| "code_rank PolicyApplyRolledBack = 3"
| "code_rank RoutingResourceConflict = 4"

lemma code_rank_inj: "code_rank a = code_rank b \<Longrightarrow> a = b"
  by (cases a; cases b) simp_all

instantiation diagnostic_code :: linorder
begin

definition less_eq_diagnostic_code :: "diagnostic_code \<Rightarrow> diagnostic_code \<Rightarrow> bool" where
  "less_eq_diagnostic_code a b = (code_rank a \<le> code_rank b)"

definition less_diagnostic_code :: "diagnostic_code \<Rightarrow> diagnostic_code \<Rightarrow> bool" where
  "less_diagnostic_code a b = (code_rank a < code_rank b)"

instance
  by intro_classes
    (auto simp: less_eq_diagnostic_code_def less_diagnostic_code_def intro: code_rank_inj)

end

fun subject_rank :: "diagnostic_subject \<Rightarrow> nat \<times> string" where
  "subject_rank (SubjectLane l) = (0, l)"
| "subject_rank NftablesTable = (1, [])"
| "subject_rank Policy = (2, [])"
| "subject_rank HealthInspection = (3, [])"

lemma subject_rank_inj: "subject_rank a = subject_rank b \<Longrightarrow> a = b"
  by (cases a; cases b) simp_all

instantiation diagnostic_subject :: linorder
begin

definition less_eq_diagnostic_subject :: "diagnostic_subject \<Rightarrow> diagnostic_subject \<Rightarrow> bool" where
  "less_eq_diagnostic_subject a b = (subject_rank a \<le> subject_rank b)"

definition less_diagnostic_subject :: "diagnostic_subject \<Rightarrow> diagnostic_subject \<Rightarrow> bool" where
  "less_diagnostic_subject a b = (subject_rank a < subject_rank b)"

instance
  by intro_classes
    (auto simp: less_eq_diagnostic_subject_def less_diagnostic_subject_def
      intro: subject_rank_inj antisym)

end

text \<open>A suggested action is its description.\<close>

record diagnostic =
  dx_code :: diagnostic_code
  dx_summary :: string
  dx_detail :: string
  dx_severity :: severity
  dx_subject :: diagnostic_subject
  dx_action :: "string option"

definition new_diagnostic ::
  "diagnostic_code \<Rightarrow> string \<Rightarrow> string \<Rightarrow> severity \<Rightarrow> diagnostic_subject \<Rightarrow> string option \<Rightarrow> diagnostic"
where
  "new_diagnostic code summary detail severity subject action = \<lparr>dx_code = code,
     dx_summary = summary, dx_detail = detail, dx_severity = severity, dx_subject = subject,
     dx_action = action\<rparr>"

section \<open>Reports\<close>

type_synonym lane_health = "(lane_id, health_state) btree"

record health_report =
  hr_state :: health_state
  hr_lanes :: lane_health
  hr_diagnostics :: "diagnostic list"

definition report_from_parts ::
  "health_state \<Rightarrow> lane_health \<Rightarrow> diagnostic list \<Rightarrow> health_report"
where
  "report_from_parts state lanes ds = \<lparr>hr_state = state, hr_lanes = lanes,
     hr_diagnostics = sort_key (\<lambda>d. (dx_code d, dx_subject d, dx_detail d)) ds\<rparr>"

definition report_inactive :: health_report where
  "report_inactive = report_from_parts Inactive [] []"

definition report_applying :: health_report where
  "report_applying = report_from_parts Applying [] []"

definition report_failure ::
  "health_state \<Rightarrow> diagnostic_code \<Rightarrow> diagnostic_subject \<Rightarrow> string \<Rightarrow> string \<Rightarrow> string option \<Rightarrow>
     health_report"
where
  "report_failure state code subject summary detail action =
     report_from_parts state [] [new_diagnostic code summary detail
       (if state = Failed \<or> state = NeedsAuthorization then Error else Warning) subject action]"

fun precedence :: "health_state \<Rightarrow> u8" where
  "precedence Inactive = 0"
| "precedence Healthy = 1"
| "precedence Applying = 2"
| "precedence Degraded = 3"
| "precedence NeedsAuthorization = 4"
| "precedence Failed = 5"

text \<open>\<open>max_by_key\<close> returns the last of several maximal elements.\<close>

definition worse :: "health_state \<Rightarrow> health_state \<Rightarrow> health_state" where
  "worse x y = (if precedence x \<le> precedence y then y else x)"

fun aggregate_health :: "health_state list \<Rightarrow> health_state" where
  "aggregate_health [] = Inactive"
| "aggregate_health (x # xs) = foldl worse x xs"

section \<open>Comparing a plan with the live kernel\<close>

type_synonym findings = "lane_health \<times> diagnostic list"

definition degrade_lane :: "lane_plan \<Rightarrow> lane_health \<Rightarrow> lane_health" where
  "degrade_lane l m = bt_insert (lp_id l) Degraded m"

definition lane_finding ::
  "lane_plan \<Rightarrow> diagnostic_code \<Rightarrow> string \<Rightarrow> string \<Rightarrow> string \<Rightarrow> findings \<Rightarrow> findings"
where
  "lane_finding l code summary detail action x =
     (degrade_lane l (fst x),
      snd x @ [new_diagnostic code summary detail Warning (SubjectLane (lp_id l)) (Some action)])"

definition family_name :: "ip_family \<Rightarrow> string" where
  "family_name f = (case f of V4 \<Rightarrow> ''IPv4'' | V6 \<Rightarrow> ''IPv6'')"

definition diagnose_resource ::
  "lane_plan \<Rightarrow> string \<Rightarrow> string \<Rightarrow> resource_state \<Rightarrow> findings \<Rightarrow> findings"
where
  "diagnose_resource l family resource state x =
     (let detail = (\<lambda>t. family @ '' '' @ resource @ t @ word_to_string (lp_table l) @
            '' and priority '' @ word_to_string (lp_rule_priority l));
          found = (\<lambda>t. lane_finding l RoutingResourceConflict
            (''Lane '' @ lp_id l @ '' routing state does not match'') (detail t)
            ''Remove the foreign resource or reapply the active profile.'' x)
      in case state of
           Exact \<Rightarrow> x
         | Missing \<Rightarrow> found '' is missing for table ''
         | Foreign \<Rightarrow> found '' conflicts with the exact RouteLane resource for table '')"

text \<open>\<open>debug\<close> is the \<open>{:?}\<close> text of a string.\<close>

definition inspect_family ::
  "(string \<Rightarrow> string) \<Rightarrow> lane_plan \<Rightarrow> ('n, 'h) kernel_snapshot \<Rightarrow> ip_family \<Rightarrow> ip_addr option \<Rightarrow>
     findings \<Rightarrow> findings"
where
  "inspect_family debug l s f gw x =
     (let x = (if route_reachable s (lp_interface l) f gw then x
            else lane_finding l LaneGatewayUnreachable
              (''Lane '' @ lp_id l @ '' '' @ family_name f @ '' default route is unavailable'')
              (''default route via '' @
                (case gw of Some g \<Rightarrow> ip_to_string g | None \<Rightarrow> ''device-only link'') @
                '' is not reachable through interface '' @ debug (lp_interface l))
              ''Restore the default route or select another lane.'' x);
          x = diagnose_resource l (family_name f) ''route''
            (route_state s f (lp_table l) gw (lp_interface l)) x
      in diagnose_resource l (family_name f) ''policy rule''
           (rule_state s f (lp_rule_priority l) (lp_table l) (lp_mark l)) x)"

definition inspect_lane ::
  "(string \<Rightarrow> string) \<Rightarrow> ('n, 'h) kernel_snapshot \<Rightarrow> lane_plan \<Rightarrow> findings \<Rightarrow> findings"
where
  "inspect_lane debug s l x =
     (let x = (if has_interface s (lp_interface l) then x
            else lane_finding l LaneInterfaceMissing
              (''Lane '' @ lp_id l @ '' interface is missing'')
              (''interface '' @ debug (lp_interface l) @ '' is not present'')
              ''Restore the interface, then reapply the active profile.'' x)
      in if lp_availability l = Unavailable
         then lane_finding l LaneGatewayUnreachable
           (''Lane '' @ lp_id l @ '' is unavailable in the active plan'')
           ''the compiled lane availability is Unavailable''
           ''Refresh topology and reapply the active profile.'' x
         else if lp_route_v4 l = None \<and> lp_route_v6 l = None
         then lane_finding l LaneGatewayUnreachable
           (''Lane '' @ lp_id l @ '' has no supported route'')
           ''the available lane has neither IPv4 nor IPv6 default-route evidence''
           ''Configure a supported default route and reapply the active profile.'' x
         else
           let x = (case lp_route_v4 l of
                 None \<Rightarrow> x
               | Some r \<Rightarrow> inspect_family debug l s V4 (map_option V4Addr (gateway r)) x)
           in (case lp_route_v6 l of
                 None \<Rightarrow> x
               | Some r \<Rightarrow> inspect_family debug l s V6 (map_option V6Addr (gateway r)) x))"

definition nft_findings ::
  "('n policy_content \<Rightarrow> 'h) \<Rightarrow> 'n kernel_plan \<Rightarrow> ('n, 'h) kernel_snapshot \<Rightarrow> findings"
where
  "nft_findings digest k s =
     (let lanes = fold (\<lambda>l m. bt_insert (lp_id l) Healthy m) (kp_lanes k) [] in
      if nft_is_owned_by digest s k then (lanes, [])
      else (map (\<lambda>(l, _). (l, Degraded)) lanes,
        [new_diagnostic NftablesFeatureMissing ''RouteLane nftables state is unavailable''
          (''inet/routelane does not exactly match generation '' @ decimal (uint (kp_generation k)) @
            '' and its plan hash'') Warning NftablesTable (Some ''Reapply the active profile.'')]))"

definition plan_findings ::
  "(string \<Rightarrow> string) \<Rightarrow> ('n policy_content \<Rightarrow> 'h) \<Rightarrow> 'n kernel_plan \<Rightarrow> ('n, 'h) kernel_snapshot \<Rightarrow>
     findings"
where
  "plan_findings debug digest k s = fold (inspect_lane debug s) (kp_lanes k) (nft_findings digest k s)"

definition evaluate_health ::
  "(string \<Rightarrow> string) \<Rightarrow> ('n policy_content \<Rightarrow> 'h) \<Rightarrow> 'n kernel_plan option \<Rightarrow>
     ('n, 'h) kernel_snapshot \<Rightarrow> health_report"
where
  "evaluate_health debug digest plan s =
     (case plan of
        None \<Rightarrow> report_inactive
      | Some k \<Rightarrow>
          let (lanes, ds) = plan_findings debug digest k s in
          report_from_parts (aggregate_health (map snd lanes @
              map (\<lambda>d. severity_health (dx_severity d)) ds @ [Healthy])) lanes ds)"

definition kernel_resources_match_plan :: "health_report \<Rightarrow> bool" where
  "kernel_resources_match_plan r =
     (\<not> list_ex (\<lambda>d. dx_code d = NftablesFeatureMissing \<or> dx_code d = RoutingResourceConflict)
       (hr_diagnostics r))"

section \<open>What a match means\<close>

text \<open>The families a lane routes, with the gateway of each.\<close>

definition planned_families :: "lane_plan \<Rightarrow> (ip_family \<times> ip_addr option) list" where
  "planned_families l =
     (case lp_route_v4 l of None \<Rightarrow> [] | Some r \<Rightarrow> [(V4, map_option V4Addr (gateway r))]) @
     (case lp_route_v6 l of None \<Rightarrow> [] | Some r \<Rightarrow> [(V6, map_option V6Addr (gateway r))])"

definition lane_resources_exact :: "('n, 'h) kernel_snapshot \<Rightarrow> lane_plan \<Rightarrow> bool" where
  "lane_resources_exact s l \<longleftrightarrow> lp_availability l = Unavailable \<or>
     list_all (\<lambda>(f, gw). route_state s f (lp_table l) gw (lp_interface l) = Exact \<and>
       rule_state s f (lp_rule_priority l) (lp_table l) (lp_mark l) = Exact) (planned_families l)"

definition conflicting :: "diagnostic list \<Rightarrow> bool" where
  "conflicting = list_ex (\<lambda>d. dx_code d = NftablesFeatureMissing \<or> dx_code d = RoutingResourceConflict)"

lemma conflicting_finding [simp]:
  "conflicting (snd (lane_finding l code a b c x)) \<longleftrightarrow>
     conflicting (snd x) \<or> code = NftablesFeatureMissing \<or> code = RoutingResourceConflict"
  by (auto simp: conflicting_def lane_finding_def new_diagnostic_def)

lemma conflicting_resource [simp]:
  "conflicting (snd (diagnose_resource l f r st x)) \<longleftrightarrow> conflicting (snd x) \<or> st \<noteq> Exact"
  by (cases st) (simp_all add: diagnose_resource_def)

lemma conflicting_family [simp]:
  "conflicting (snd (inspect_family debug l s f gw x)) \<longleftrightarrow> conflicting (snd x) \<or>
     \<not> (route_state s f (lp_table l) gw (lp_interface l) = Exact \<and>
        rule_state s f (lp_rule_priority l) (lp_table l) (lp_mark l) = Exact)"
  by (auto simp: inspect_family_def Let_def)

lemma conflicting_lane [simp]:
  "conflicting (snd (inspect_lane debug s l x)) \<longleftrightarrow> conflicting (snd x) \<or> \<not> lane_resources_exact s l"
  by (auto simp: inspect_lane_def lane_resources_exact_def planned_families_def Let_def
    split: option.splits)

lemma conflicting_lanes:
  "conflicting (snd (fold (inspect_lane debug s) ls x)) \<longleftrightarrow>
     conflicting (snd x) \<or> \<not> list_all (lane_resources_exact s) ls"
  by (induction ls arbitrary: x) auto

lemma conflicting_nft: "conflicting (snd (nft_findings digest k s)) \<longleftrightarrow> \<not> nft_is_owned_by digest s k"
  by (simp add: nft_findings_def conflicting_def new_diagnostic_def Let_def)

lemma match_not_conflicting:
  "kernel_resources_match_plan (report_from_parts state lanes ds) \<longleftrightarrow> \<not> conflicting ds"
  by (auto simp: kernel_resources_match_plan_def report_from_parts_def conflicting_def list_ex_iff)


section \<open>When a report is healthy\<close>

text \<open>A lane is degraded only with a diagnostic, and no diagnostic of a plan is more than a warning.\<close>

definition graded :: "findings \<Rightarrow> bool" where
  "graded x \<longleftrightarrow> snd ` set (fst x) \<subseteq> {Healthy, Degraded} \<and>
     (Degraded \<in> snd ` set (fst x) \<longrightarrow> snd x \<noteq> []) \<and>
     (\<forall>d \<in> set (snd x). dx_severity d = Warning)"

lemma bt_insert_values: "snd ` set (bt_insert k v m) \<subseteq> insert v (snd ` set m)"
  by (induction m rule: bt_insert.induct) auto

lemma graded_finding: "graded x \<Longrightarrow> graded (lane_finding l code a b c x)"
  using bt_insert_values [of "lp_id l" Degraded "fst x"]
  by (auto simp: graded_def lane_finding_def degrade_lane_def new_diagnostic_def)

lemma graded_resource: "graded x \<Longrightarrow> graded (diagnose_resource l f r st x)"
  by (cases st) (simp_all add: diagnose_resource_def graded_finding)

lemma graded_family: "graded x \<Longrightarrow> graded (inspect_family debug l s f gw x)"
  by (simp add: inspect_family_def Let_def graded_resource graded_finding)

lemma graded_lane: "graded x \<Longrightarrow> graded (inspect_lane debug s l x)"
  by (simp add: inspect_lane_def Let_def graded_family graded_finding split: option.split)

lemma graded_lanes: "graded x \<Longrightarrow> graded (fold (inspect_lane debug s) ls x)"
  by (induction ls arbitrary: x) (simp_all add: graded_lane)

lemma healthy_lanes:
  "snd ` set m \<subseteq> {Healthy} \<Longrightarrow> snd ` set (fold (\<lambda>l m. bt_insert (lp_id l) Healthy m) ls m) \<subseteq> {Healthy}"
proof (induction ls arbitrary: m)
  case (Cons l ls)
  have "snd ` set (bt_insert (lp_id l) Healthy m) \<subseteq> {Healthy}"
    using bt_insert_values [of "lp_id l" Healthy m] Cons.prems by auto
  with Cons.IH show ?case by simp
qed auto

lemma graded_nft: "graded (nft_findings digest k s)"
  using healthy_lanes [of "[]" "kp_lanes k"]
  by (auto simp: graded_def nft_findings_def new_diagnostic_def Let_def)

lemma worse_two:
  "worse Healthy Healthy = Healthy" "worse Healthy Degraded = Degraded"
  "worse Degraded Healthy = Degraded" "worse Degraded Degraded = Degraded"
  by (simp_all add: worse_def word_le_nat_alt)

lemma aggregate_two:
  assumes "x \<in> {Healthy, Degraded}" "set xs \<subseteq> {Healthy, Degraded}"
  shows "foldl worse x xs = (if x = Degraded \<or> Degraded \<in> set xs then Degraded else Healthy)"
  using assms
proof (induction xs arbitrary: x)
  case (Cons y ys)
  from Cons.prems consider "x = Healthy" "y = Healthy" | "x = Healthy" "y = Degraded"
    | "x = Degraded" "y = Healthy" | "x = Degraded" "y = Degraded" by auto
  then show ?case using Cons.IH Cons.prems by cases (simp_all add: worse_two)
qed auto

lemma aggregate_graded:
  assumes "xs \<noteq> []" "set xs \<subseteq> {Healthy, Degraded}"
  shows "aggregate_health xs = (if Degraded \<in> set xs then Degraded else Healthy)"
proof (cases xs)
  case (Cons y ys)
  with assms(2) show ?thesis by (auto simp: aggregate_two)
qed (use assms in simp)

lemma graded_states:
  assumes "graded (m, ds)"
  shows "aggregate_health (map snd m @ map (\<lambda>d. severity_health (dx_severity d)) ds @ [Healthy]) =
    (if ds = [] then Healthy else Degraded)"
proof -
  let ?warnings = "map (\<lambda>d. severity_health (dx_severity d)) ds"
  have "set ?warnings = (if ds = [] then {} else {Degraded})"
    using assms by (cases ds) (auto simp: graded_def)
  moreover have "set (map snd m) \<subseteq> {Healthy, Degraded}" "Degraded \<in> set (map snd m) \<Longrightarrow> ds \<noteq> []"
    using assms by (simp_all add: graded_def)
  ultimately show ?thesis
    by (subst aggregate_graded) (auto simp del: set_map)
qed

lemma healthy_without_diagnostics:
  "hr_state (evaluate_health debug digest (Some k) s) =
     (if hr_diagnostics (evaluate_health debug digest (Some k) s) = [] then Healthy else Degraded)"
proof -
  obtain m ds where x: "plan_findings debug digest k s = (m, ds)" by fastforce
  then have g: "graded (m, ds)"
    using graded_lanes [OF graded_nft] by (metis plan_findings_def)
  have "aggregate_health (map snd m @ map (\<lambda>d. severity_health (dx_severity d)) ds @ [Healthy]) =
    (if ds = [] then Healthy else Degraded)" by (rule graded_states [OF g])
  then have r: "evaluate_health debug digest (Some k) s =
      report_from_parts (if ds = [] then Healthy else Degraded) m ds"
    by (simp add: evaluate_health_def x)
  show ?thesis
    unfolding r by (cases ds) (simp_all add: report_from_parts_def insort_not_Nil)
qed

end
