(* ===== verification/Daemon_State.thy ===== *)
theory Daemon_State
  imports Health Backend
begin

text \<open>
  The state of the daemon (\<open>src/src/daemon/state.rs\<close>), its error type and the ways it records a
  failure (\<open>src/src/daemon/service.rs\<close>), and the messages of its protocol
  (\<open>src/src/ipc/protocol.rs\<close>).
\<close>

section \<open>Errors\<close>

text \<open>\<open>DaemonError\<close> and \<open>IpcError\<close> are the same pair; the conversion between them keeps both fields.\<close>

record coded_error =
  er_code :: string
  er_message :: string

definition coded :: "string \<Rightarrow> string \<Rightarrow> coded_error" where
  "coded code message = \<lparr>er_code = code, er_message = message\<rparr>"

definition error_text :: "coded_error \<Rightarrow> string" where
  "error_text e = er_code e @ '': '' @ er_message e"

definition needs_authorization :: string where
  "needs_authorization = ''DAEMON_NEEDS_AUTHORIZATION''"

definition helper_error :: "string \<Rightarrow> coded_error" where
  "helper_error = coded ''DAEMON_HELPER_FAILED''"

definition profile_invalid :: "string \<Rightarrow> coded_error" where
  "profile_invalid = coded ''DAEMON_PROFILE_INVALID''"

text \<open>A panic ends the request that reaches it; it is an error without a code here.\<close>

definition daemon_panic :: "string \<Rightarrow> coded_error" where
  "daemon_panic = coded []"

section \<open>Protocol\<close>

definition IPC_PROTOCOL_VERSION :: u32 where "IPC_PROTOCOL_VERSION = 2"

datatype 'n daemon_request =
    GetStatus
  | ListProfiles
  | ApplyProfile "'n profile"
  | SetRuleEnabled profile_id rule_id bool
  | LaunchApplication profile_id rule_id
  | AdoptApplicationProcesses profile_id rule_id
  | RecoverOrphanedResources
  | Deactivate
  | Subscribe

record 'n daemon_envelope =
  en_protocol_version :: u32
  en_request_id :: string
  en_request :: "'n daemon_request"

record 'h daemon_status =
  sd_generation :: u64
  sd_event_sequence :: u64
  sd_health :: health_report
  sd_desired_profile_id :: "profile_id option"
  sd_applied_profile_id :: "profile_id option"
  sd_last_error :: "coded_error option"
  sd_primary :: "'h runtime_status"

record 'h apply_profile_result =
  ap_generation :: u64
  ap_plan_hash :: 'h

datatype ('n, 'h) daemon_result =
    Status "'h daemon_status"
  | Profiles "'n profile list"
  | Applied "'h apply_profile_result"
  | ApplicationLaunched u32
  | ApplicationProcessesAdopted u32 u32
  | OrphanedResourcesRecovered bool
  | Deactivated
  | Subscribed

record ('n, 'h) daemon_response =
  dr_protocol_version :: u32
  dr_request_id :: string
  dr_result :: "('n, 'h) daemon_result option"
  dr_error :: "coded_error option"

definition response_success :: "string \<Rightarrow> ('n, 'h) daemon_result \<Rightarrow> ('n, 'h) daemon_response" where
  "response_success i r = \<lparr>dr_protocol_version = IPC_PROTOCOL_VERSION, dr_request_id = i,
     dr_result = Some r, dr_error = None\<rparr>"

definition response_failure :: "string \<Rightarrow> coded_error \<Rightarrow> ('n, 'h) daemon_response" where
  "response_failure i e = \<lparr>dr_protocol_version = IPC_PROTOCOL_VERSION, dr_request_id = i,
     dr_result = None, dr_error = Some e\<rparr>"

datatype 'h daemon_event =
    StateChanged u64 u64 health_report
  | OperationFailed u64 u64 health_report coded_error
  | PrimaryChanged u64 u64 "'h runtime_status"

fun event_sequence :: "'h daemon_event \<Rightarrow> u64" where
  "event_sequence (StateChanged n _ _) = n"
| "event_sequence (OperationFailed n _ _ _) = n"
| "event_sequence (PrimaryChanged n _ _) = n"

section \<open>State\<close>

record ('n, 'h) daemon_state =
  ds_desired :: "'n profile option"
  ds_applied :: "('n, 'h) applied_kernel_state option"
  ds_applied_profile :: "'n profile option"
  ds_generation :: u64
  ds_event_sequence :: u64
  ds_health :: health_report
  ds_last_error :: "coded_error option"
  ds_primary :: "'h runtime_status"

definition new_daemon_state :: "'n profile option \<Rightarrow> ('n, 'h) daemon_state" where
  "new_daemon_state desired = \<lparr>ds_desired = desired, ds_applied = None, ds_applied_profile = None,
     ds_generation = 0, ds_event_sequence = 0, ds_health = report_inactive, ds_last_error = None,
     ds_primary = inactive_status 0\<rparr>"

definition status_of :: "('n, 'h) daemon_state \<Rightarrow> 'h daemon_status" where
  "status_of s = \<lparr>sd_generation = ds_generation s, sd_event_sequence = ds_event_sequence s,
     sd_health = ds_health s, sd_desired_profile_id = map_option p_id (ds_desired s),
     sd_applied_profile_id = map_option (\<lambda>a. kp_profile_id (ak_plan a)) (ds_applied s),
     sd_last_error = ds_last_error s, sd_primary = ds_primary s\<rparr>"

record reconciliation_gate =
  rg_attempts :: u64
  rg_completed :: bool
  rg_last_result :: "(coded_error, unit) result option"

definition new_gate :: reconciliation_gate where
  "new_gate = \<lparr>rg_attempts = 0, rg_completed = False, rg_last_result = None\<rparr>"

text \<open>
  \<open>DaemonService\<close> without its providers: the locked state and gate, the attempt counter, and the
  events it has sent, oldest first. The mutexes order the operations, which appear one after another.
\<close>

record ('n, 'h) daemon =
  dm_state :: "('n, 'h) daemon_state"
  dm_gate :: reconciliation_gate
  dm_attempts :: u64
  dm_events :: "'h daemon_event list"

definition new_daemon :: "'n profile option \<Rightarrow> ('n, 'h) daemon" where
  "new_daemon desired = \<lparr>dm_state = new_daemon_state desired, dm_gate = new_gate, dm_attempts = 0,
     dm_events = []\<rparr>"

type_synonym ('w, 'n, 'h, 'a) daemon_io =
  "(('n, 'h) daemon \<times> 'w, coded_error, 'a) fallible"

definition get_state :: "(('n, 'h) daemon_state \<Rightarrow> 'a) \<Rightarrow> ('w, 'n, 'h, 'a) daemon_io" where
  "get_state f = io_gets (\<lambda>d. f (dm_state d))"

definition set_state ::
  "(('n, 'h) daemon_state \<Rightarrow> ('n, 'h) daemon_state) \<Rightarrow> ('w, 'n, 'h, unit) daemon_io"
where
  "set_state f = io_modify (dm_state_update f)"

definition advance_event_sequence :: "('w, 'n, 'h, u64) daemon_io" where
  "advance_event_sequence =
     io_bind (get_state ds_event_sequence) (\<lambda>n.
       if n = - 1 then io_fail (daemon_panic ''daemon event sequence exhausted'')
       else io_seq (set_state (ds_event_sequence_update (\<lambda>_. n + 1))) (io_return (n + 1)))"

definition send_event :: "'h daemon_event \<Rightarrow> ('w, 'n, 'h, unit) daemon_io" where
  "send_event e = io_modify (dm_events_update (\<lambda>es. es @ [e]))"

section \<open>Recording failures\<close>

text \<open>Every failure is announced with the health and the error it leaves in the state.\<close>

definition announce_failure :: "health_report \<Rightarrow> coded_error \<Rightarrow> ('w, 'n, 'h, unit) daemon_io" where
  "announce_failure health e =
     io_seq (set_state (\<lambda>s. s\<lparr>ds_health := health, ds_last_error := Some e\<rparr>))
     (io_bind (get_state ds_generation) (\<lambda>g.
      io_bind advance_event_sequence (\<lambda>n. send_event (OperationFailed n g health e))))"

definition failure_health :: "coded_error \<Rightarrow> ('n, 'h) daemon_state \<Rightarrow> health_state" where
  "failure_health e s =
     (if er_code e = needs_authorization then NeedsAuthorization
      else if ds_applied s \<noteq> None then health_state.Degraded else Failed)"

definition record_failure :: "coded_error \<Rightarrow> ('w, 'n, 'h, unit) daemon_io" where
  "record_failure e =
     io_bind (get_state (failure_health e)) (\<lambda>h. announce_failure (report_from_parts h [] []) e)"

definition record_rolled_back_failure :: "coded_error \<Rightarrow> ('w, 'n, 'h, unit) daemon_io" where
  "record_rolled_back_failure e =
     io_bind (get_state (failure_health e)) (\<lambda>h. announce_failure
       (report_failure h PolicyApplyRolledBack Policy ''RouteLane restored the previous policy''
         (error_text e) (Some ''Review the technical detail and retry the operation.'')) e)"

definition record_kernel_restore_failure :: "coded_error \<Rightarrow> ('w, 'n, 'h, unit) daemon_io" where
  "record_kernel_restore_failure e = announce_failure
     (report_failure Failed RoutingResourceConflict Policy
       ''RouteLane could not restore the previous kernel policy'' (er_message e)
       (Some ''Stop policy changes and inspect privileged helper state.'')) e"

definition record_verification_failure ::
  "coded_error \<Rightarrow> health_report \<Rightarrow> ('w, 'n, 'h, unit) daemon_io"
where
  "record_verification_failure e r =
     io_bind (get_state ds_applied) (\<lambda>applied.
     let h = (if applied \<noteq> None then health_state.Degraded else Failed) in
       announce_failure (report_from_parts h (hr_lanes r) (hr_diagnostics r @
         [new_diagnostic PolicyApplyRolledBack ''Applied policy failed live verification''
            (er_message e) (if h = Failed then Error else Warning) Policy
            (Some ''Reapply the profile after resolving the reported health diagnostics.'')])) e)"

text \<open>Recorded without an event: the daemon is reconciling before its first request.\<close>

definition record_reconciliation_drift ::
  "('n policy_content \<Rightarrow> 'h) \<Rightarrow> 'n kernel_plan option \<Rightarrow> string \<Rightarrow> string \<Rightarrow>
     ('w, 'n, 'h, unit) daemon_io"
where
  "record_reconciliation_drift digest plan code detail =
     (let e = coded code detail in
      io_seq (set_state (\<lambda>s. case plan of
          None \<Rightarrow> s
        | Some k \<Rightarrow> s\<lparr>ds_applied := Some (applied_from_plan digest k), ds_generation := kp_generation k\<rparr>))
      (io_seq (set_state (\<lambda>s. s\<lparr>ds_health := report_failure Failed RoutingResourceConflict
          HealthInspection ''Persisted routing state differs from the live kernel'' detail
          (Some (''Inspect RouteLane-owned routes and rules before applying another '' @ ''profile.'')),
          ds_last_error := Some e\<rparr>))
        (io_fail e)))"

end
