(* ===== verification/Paths.thy ===== *)
theory Paths
  imports Rust_Text
begin

text \<open>
  \<open>PathBuf\<close> beyond equality: joining, and what joining a plain name does to the components.
\<close>

definition same_path :: "path \<Rightarrow> path \<Rightarrow> bool" where
  "same_path p q \<longleftrightarrow> path_key p = path_key q"

text \<open>\<open>Path::join\<close>: an absolute second path replaces the first.\<close>

definition path_join :: "path \<Rightarrow> path \<Rightarrow> path" where
  "path_join p q =
     (if q \<noteq> [] \<and> hd q = CHR ''/'' then q
      else if p = [] \<or> last p = CHR ''/'' then p @ q
      else p @ CHR ''/'' # q)"

text \<open>A name that is one component.\<close>

definition plain_name :: "string \<Rightarrow> bool" where
  "plain_name s \<longleftrightarrow> s \<noteq> [] \<and> s \<noteq> ''.'' \<and> CHR ''/'' \<notin> set s"

lemma split_on_nonempty [simp]: "split_on c s \<noteq> []"
  by (induction s) (auto split: list.splits)

lemma split_on_free: "c \<notin> set s \<Longrightarrow> split_on c s = [s]"
  by (induction s) auto

lemma split_on_append: "split_on c (a @ c # b) = split_on c a @ split_on c b"
proof (induction a)
  case (Cons x a)
  then show ?case by (cases "split_on c a") (auto dest: arg_cong [where f = length])
qed simp

definition key_parts :: "string list \<Rightarrow> string list" where
  "key_parts xs =
     (if hd xs = [] then [] else [hd xs]) @ filter (\<lambda>x. x \<noteq> [] \<and> x \<noteq> ''.'') (tl xs)"

lemma path_key_eq:
  "path_key p = (p \<noteq> [] \<and> hd p = CHR ''/'', key_parts (split_on (CHR ''/'') p))"
  by (cases p) (simp_all add: path_key_def key_parts_def Let_def)

lemma key_parts_snoc:
  "xs \<noteq> [] \<Longrightarrow> key_parts (xs @ [x]) = key_parts xs @ (if x = [] \<or> x = ''.'' then [] else [x])"
  by (simp add: key_parts_def)

lemma path_key_parts:
  assumes "path_key p = (rooted, parts)" "plain_name i"
  shows "path_key (p @ CHR ''/'' # i) = (if p = [] then (True, [i]) else (rooted, parts @ [i]))"
proof -
  have "split_on (CHR ''/'') (p @ CHR ''/'' # i) = split_on (CHR ''/'') p @ [i]"
    using assms(2) by (simp add: split_on_append split_on_free plain_name_def)
  with assms show ?thesis
    by (cases "p = []") (auto simp: path_key_eq key_parts_snoc plain_name_def key_parts_def)
qed

lemma path_key_trailing:
  assumes "p \<noteq> []" shows "path_key (p @ ''/'') = path_key p"
proof -
  have "split_on (CHR ''/'') (p @ ''/'') = split_on (CHR ''/'') p @ [[]]"
    by (simp add: split_on_append)
  then have "key_parts (split_on (CHR ''/'') (p @ ''/'')) = key_parts (split_on (CHR ''/'') p)"
    by (simp add: key_parts_snoc [OF split_on_nonempty])
  with assms show ?thesis unfolding path_key_eq by simp
qed

lemma path_key_join:
  assumes "plain_name i"
  shows "path_key (path_join p i) = (fst (path_key p), snd (path_key p) @ [i])"
proof -
  obtain rooted parts where key: "path_key p = (rooted, parts)" by (cases "path_key p")
  have i: "i \<noteq> [] \<and> hd i \<noteq> CHR ''/''"
    using assms by (cases i) (auto simp: plain_name_def)
  consider "p = []" | "p = ''/''" | q where "q \<noteq> []" "p = q @ ''/''" | "p \<noteq> []" "last p \<noteq> CHR ''/''"
  proof (cases p rule: rev_cases)
    case (snoc q c)
    then show ?thesis using that by (cases "c = CHR ''/''"; cases "q = []") simp_all
  qed (use that in simp)
  then show ?thesis
  proof cases
    case 1
    with i assms show ?thesis
      by (auto simp: path_join_def path_key_eq key_parts_def plain_name_def split_on_free)
  next
    case 2
    with i assms show ?thesis
      by (auto simp: path_join_def path_key_eq key_parts_def plain_name_def split_on_free)
  next
    case (3 q)
    then have "path_key q = (rooted, parts)" using key path_key_trailing by metis
    from path_key_parts [OF this assms] 3 i key show ?thesis by (simp add: path_join_def)
  next
    case 4
    with path_key_parts [OF key assms] i key show ?thesis by (simp add: path_join_def)
  qed
qed

end
