(* ===== verification/Processes.thy ===== *)
theory Processes
  imports Domain Effects Policy_Route Json Paths
begin

text \<open>
  Running processes of an application (\<open>src/src/application/process.rs\<close>): what is read of a process
  in \<open>/proc\<close>, and the processes a selector matches, with their descendants. The proc file system is
  reached through the parameter record \<open>proc_files\<close>.
\<close>

section \<open>The stat line\<close>

text \<open>\<open>str::rsplit_once\<close>: the parts around the last occurrence of a text.\<close>

fun rsplit_once :: "string \<Rightarrow> string \<Rightarrow> (string \<times> string) option" where
  "rsplit_once p [] = (if p = [] then Some ([], []) else None)"
| "rsplit_once p (c # s) =
     (case rsplit_once p s of
        Some (a, b) \<Rightarrow> Some (c # a, b)
      | None \<Rightarrow> map_option (\<lambda>r. ([], r)) (strip_prefix p (c # s)))"

text \<open>\<open>str::split_whitespace\<close>; \<open>word\<close> is the word being read.\<close>

function split_white :: "string \<Rightarrow> string \<Rightarrow> string list" where
  "split_white word s =
     (let flush = (if word = [] then [] else [word]) in
      case s of
        [] \<Rightarrow> flush
      | c # cs \<Rightarrow> (case first_strip white_space_codes s of
            Some r \<Rightarrow> flush @ split_white [] r
          | None \<Rightarrow> split_white (word @ [c]) cs))"
  by pat_completeness auto

termination
  by (relation "measure (\<lambda>(word, s). length s)")
    (auto dest: first_strip_shorter [OF white_space_codes_nonempty])

declare split_white.simps [simp del]

definition split_whitespace :: "string \<Rightarrow> string list" where
  "split_whitespace s = split_white [] s"

definition parse_unsigned :: "string \<Rightarrow> 'a::len word option" where
  "parse_unsigned s = map_option of_int (parse_radix 10 (2 ^ LENGTH('a)) s)"

definition nth_field :: "nat \<Rightarrow> string list \<Rightarrow> string option" where
  "nth_field n xs = (if n < length xs then Some (xs ! n) else None)"

text \<open>The fields of a stat line after the program name, which is in parentheses and may hold anything.\<close>

definition stat_fields :: "string \<Rightarrow> string list option" where
  "stat_fields stat = map_option (\<lambda>(_, fields). split_whitespace fields) (rsplit_once '') '' stat)"

definition stat_start_time :: "string \<Rightarrow> u64 option" where
  "stat_start_time stat =
     option_bind (option_bind (stat_fields stat) (nth_field 19)) parse_unsigned"

definition stat_parent_pid :: "string \<Rightarrow> u32 option" where
  "stat_parent_pid stat =
     option_bind (option_bind (stat_fields stat) (nth_field 1)) parse_unsigned"

section \<open>Reading a process\<close>

record running_process =
  pc_pid :: u32
  pc_start_time :: u64
  pc_executable_path :: path
  pc_parent_pid :: "u32 option"

text \<open>
  Directory entries that cannot be read or named in UTF-8 are left out by the callers; the field gives
  the names of the others.
\<close>

record 'w proc_files =
  pf_names :: "path \<Rightarrow> ('w, string, string list) fallible"
  pf_read_link :: "path \<Rightarrow> ('w, string, path) fallible"
  pf_read_text :: "path \<Rightarrow> ('w, string, string) fallible"
  pf_canonicalize :: "path \<Rightarrow> ('w, string, path) fallible"

definition proc_path :: "path \<Rightarrow> u32 \<Rightarrow> path" where
  "proc_path root pid = path_join root (word_to_string pid)"

text \<open>\<open>.ok()?\<close>: an operation that fails gives no process.\<close>

definition io_ok :: "('w, 'e, 'a) fallible \<Rightarrow> ('a \<Rightarrow> ('w, 'f, 'b option) fallible) \<Rightarrow>
    ('w, 'f, 'b option) fallible"
where
  "io_ok m k = io_bind (io_result m) (\<lambda>r. case r of Inl _ \<Rightarrow> io_return None | Inr a \<Rightarrow> k a)"

definition process_of_stat :: "u32 \<Rightarrow> path \<Rightarrow> string \<Rightarrow> running_process option" where
  "process_of_stat pid exe stat =
     option_bind (stat_parent_pid stat) (\<lambda>parent.
     option_bind (stat_start_time stat) (\<lambda>start.
       Some \<lparr>pc_pid = pid, pc_start_time = start, pc_executable_path = exe,
         pc_parent_pid = Some parent\<rparr>))"

definition process_from_proc ::
  "'w proc_files \<Rightarrow> u32 \<Rightarrow> ('w, 'f, running_process option) fallible"
where
  "process_from_proc F pid =
     (let base = proc_path ''/proc'' pid in
      io_ok (pf_read_link F (path_join base ''exe'')) (\<lambda>exe.
      io_ok (pf_read_text F (path_join base ''stat'')) (\<lambda>stat.
        io_return (process_of_stat pid exe stat))))"

section \<open>Matching\<close>

definition spawned_by :: "running_process \<Rightarrow> running_process \<Rightarrow> bool" where
  "spawned_by p parent \<longleftrightarrow>
     pc_parent_pid p = Some (pc_pid parent) \<and> pc_start_time parent \<le> pc_start_time p"

definition new_children :: "running_process list \<Rightarrow> running_process list \<Rightarrow> running_process list" where
  "new_children ps selected =
     filter (\<lambda>p. \<not> list_ex (\<lambda>known. pc_pid known = pc_pid p) selected \<and>
       list_ex (spawned_by p) selected) ps"

function add_descendants ::
  "running_process list \<Rightarrow> running_process list \<Rightarrow> running_process list"
where
  "add_descendants ps selected =
     (let children = new_children ps selected in
      if children = [] then selected else add_descendants ps (selected @ children))"
  by pat_completeness auto

termination
proof (relation "measure (\<lambda>(ps, selected). card (pc_pid ` set ps - pc_pid ` set selected))", goal_cases)
  case (2 ps selected children)
  then obtain p where p: "p \<in> set (new_children ps selected)"
    by (metis list.set_intros(1) neq_Nil_conv)
  then have "p \<in> set ps" "pc_pid p \<notin> pc_pid ` set selected"
    by (auto simp: new_children_def list_ex_iff)
  with p 2 show ?case by (auto intro!: psubset_card_mono)
qed simp

declare add_descendants.simps [simp del]

text \<open>\<open>canonical\<close> is the selector's executable after \<open>fs::canonicalize\<close>, or as it is if that fails.\<close>

definition matching_canonical ::
  "path \<Rightarrow> bool \<Rightarrow> running_process list \<Rightarrow> running_process list"
where
  "matching_canonical canonical include_children ps =
     (let selected = filter (\<lambda>p. same_path (pc_executable_path p) canonical) ps in
      if include_children then add_descendants ps selected else selected)"

definition matching_from_snapshot ::
  "'w proc_files \<Rightarrow> application_selector \<Rightarrow> running_process list \<Rightarrow>
     ('w, 'f, running_process list) fallible"
where
  "matching_from_snapshot F s ps =
     io_bind (io_unwrap_or (as_executable_path s) (pf_canonicalize F (as_executable_path s)))
       (\<lambda>canonical. io_return (matching_canonical canonical (as_include_children s) ps))"

fun read_processes ::
  "'w proc_files \<Rightarrow> string list \<Rightarrow> ('w, 'f, running_process list) fallible"
where
  "read_processes F [] = io_return []"
| "read_processes F (name # names) =
     (case parse_unsigned name of
        None \<Rightarrow> read_processes F names
      | Some pid \<Rightarrow> io_bind (process_from_proc F pid) (\<lambda>p.
          io_bind (read_processes F names) (\<lambda>ps. io_return (case p of None \<Rightarrow> ps | Some p \<Rightarrow> p # ps))))"

definition matching_processes ::
  "'w proc_files \<Rightarrow> application_selector \<Rightarrow> ('w, 'f, running_process list) fallible"
where
  "matching_processes F s =
     io_bind (io_result (pf_names F ''/proc'')) (\<lambda>names.
       case names of
         Inl _ \<Rightarrow> io_return []
       | Inr names \<Rightarrow> io_bind (read_processes F names) (matching_from_snapshot F s))"


section \<open>The stat line cannot be forged\<close>

lemma rsplit_once_none: "rsplit_once p s = None \<longleftrightarrow> (\<forall>a b. s \<noteq> a @ p @ b)"
proof (induction s)
  case (Cons c s)
  show ?case
  proof (cases "rsplit_once p s")
    case None
    with Cons have rest: "\<forall>a b. s \<noteq> a @ p @ b" by simp
    show ?thesis
    proof (cases "strip_prefix p (c # s)")
      case None
      then have "\<forall>r. c # s \<noteq> p @ r" by (metis strip_prefix_append option.distinct(1))
      with rest \<open>rsplit_once p s = None\<close> None show ?thesis
        by (auto simp: append_eq_Cons_conv Cons_eq_append_conv)
    next
      case (Some r)
      then have "c # s = [] @ p @ r" by (simp add: strip_prefix_Some_iff)
      then have "\<not> (\<forall>a b. c # s \<noteq> a @ p @ b)" by blast
      moreover have "rsplit_once p (c # s) \<noteq> None"
        using Some \<open>rsplit_once p s = None\<close> by simp
      ultimately show ?thesis by blast
    qed
  next
    case (Some ab)
    with Cons show ?thesis by (auto split: prod.splits) (metis append_Cons)
  qed
qed auto

lemma rsplit_once_last:
  assumes "rsplit_once p b = None" "\<And>a b'. tl p @ b \<noteq> a @ p @ b'" "p \<noteq> []"
  shows "rsplit_once p (a @ p @ b) = Some (a, b)"
proof (induction a)
  case Nil
  have "rsplit_once p (tl p @ b) = None" using assms(2) by (simp add: rsplit_once_none)
  with assms(3) show ?case by (cases p) (simp_all del: strip_prefix.simps add: strip_prefix_Some_iff)
qed simp

text \<open>The fields after the name: no parenthesis occurs in them.\<close>

lemma no_parenthesis_split: "CHR '')'' \<notin> set rest \<Longrightarrow> rsplit_once '') '' (a @ '') '' @ rest) = Some (a, rest)"
proof (rule rsplit_once_last)
  assume none: "CHR '')'' \<notin> set rest"
  then show "rsplit_once '') '' rest = None"
    by (auto simp: rsplit_once_none)
  show "tl '') '' @ rest \<noteq> a @ '') '' @ b'" for a b'
  proof
    assume "tl '') '' @ rest = a @ '') '' @ b'"
    then have "CHR '')'' \<in> set (tl '') '' @ rest)" by simp
    with none show False by simp
  qed
qed simp


text \<open>
  A process cannot choose what RouteLane reads as its parent or its start time. Whatever name the
  program gives itself, the fields are those after the name the kernel writes, which hold no
  parenthesis.
\<close>

lemma program_name_cannot_forge_fields:
  "stat_fields (pid @ '' ('' @ name @ '') '' @ filter (\<lambda>c. c \<noteq> CHR '')'') line_rest) =
     Some (split_whitespace (filter (\<lambda>c. c \<noteq> CHR '')'') line_rest))"
proof -
  have "CHR '')'' \<notin> set (filter (\<lambda>c. c \<noteq> CHR '')'') line_rest)" by simp
  from no_parenthesis_split [OF this, of "pid @ '' ('' @ name"] show ?thesis
    by (simp add: stat_fields_def)
qed

section \<open>A match is the closure under spawning\<close>

inductive belongs :: "path \<Rightarrow> running_process list \<Rightarrow> running_process \<Rightarrow> bool"
  for canonical ps where
  program: "p \<in> set ps \<Longrightarrow> same_path (pc_executable_path p) canonical \<Longrightarrow> belongs canonical ps p"
| descendant: "belongs canonical ps q \<Longrightarrow> p \<in> set ps \<Longrightarrow> spawned_by p q \<Longrightarrow> belongs canonical ps p"

inductive_cases belongsE: "belongs canonical ps p"

lemma add_descendants_extends: "set selected \<subseteq> set (add_descendants ps selected)"
proof (induction ps selected rule: add_descendants.induct)
  case (1 ps selected)
  then show ?case by (subst add_descendants.simps) (auto simp: Let_def)
qed

lemma add_descendants_sound:
  "\<forall>p \<in> set selected. belongs canonical ps p \<Longrightarrow>
   p \<in> set (add_descendants ps selected) \<Longrightarrow> belongs canonical ps p"
proof (induction ps selected rule: add_descendants.induct)
  case (1 ps selected)
  have children: "\<forall>p \<in> set (new_children ps selected). belongs canonical ps p"
    using "1.prems"(1) by (auto simp: new_children_def list_ex_iff intro: descendant)
  from 1 children show ?case
    by (cases "new_children ps selected = []")
      (auto simp: add_descendants.simps [of ps selected] Let_def)
qed

lemma add_descendants_closed:
  "new_children ps (add_descendants ps selected) = []"
proof (induction ps selected rule: add_descendants.induct)
  case (1 ps selected)
  then show ?case
    by (cases "new_children ps selected = []")
      (simp_all add: add_descendants.simps [of ps selected] Let_def)
qed

lemma add_descendants_within: "set selected \<subseteq> set ps \<Longrightarrow> set (add_descendants ps selected) \<subseteq> set ps"
proof (induction ps selected rule: add_descendants.induct)
  case (1 ps selected)
  have "set (new_children ps selected) \<subseteq> set ps" by (auto simp: new_children_def)
  with 1 show ?case
    by (cases "new_children ps selected = []")
      (auto simp: add_descendants.simps [of ps selected] Let_def)
qed


definition demo_process :: "u32 \<Rightarrow> u64 \<Rightarrow> path \<Rightarrow> u32 option \<Rightarrow> running_process" where
  "demo_process pid start exe parent = \<lparr>pc_pid = pid, pc_start_time = start,
     pc_executable_path = exe, pc_parent_pid = parent\<rparr>"

definition demo_snapshot :: "running_process list" where
  "demo_snapshot = [demo_process 44 102 ''/usr/bin/network'' (Some 43),
     demo_process 43 101 ''/usr/bin/renderer'' (Some 42), demo_process 42 100 ''/usr/bin/browser'' None,
     demo_process 45 99 ''/usr/bin/older'' (Some 42)]"


end
