(* ===== verification/Daemon.thy ===== *)
theory Daemon
  imports Daemon_State Processes
begin

text \<open>
  The daemon's operations (\<open>DaemonService\<close> in \<open>src/src/daemon/service.rs\<close>): reconciliation with the
  helper, applying a profile with verification and rollback, following runtime changes, deactivation,
  orphan recovery, application launch and adoption, status, and the dispatch of a request. The
  topology, the resolver, the helper on the bus, the configuration file and processes are the
  providers the service is built with.
\<close>

record ('w, 'n, 'h) peers =
  pr_topology :: "'n profile \<Rightarrow> ('w, coded_error, 'n topology) fallible"
  pr_resolutions :: "'n profile \<Rightarrow> ('w, coded_error, 'n resolutions) fallible"
  pr_inspect :: "('w, coded_error, ('n, 'h) inspect_response) fallible"
  pr_cleanup :: "('w, coded_error, cleanup_response) fallible"
  pr_recover :: "('w, coded_error, cleanup_response) fallible"
  pr_prepare_cgroup :: "rule_id \<Rightarrow> ('w, coded_error, path) fallible"
  pr_adopt :: "rule_id \<Rightarrow> running_process \<Rightarrow> ('w, coded_error, unit) fallible"
  pr_activate :: "'n runtime_activation \<Rightarrow> ('w, coded_error, ('n, 'h) runtime_apply_response) fallible"
  pr_restore_runtime :: "string \<Rightarrow> ('w, coded_error, 'h runtime_status) fallible"
  pr_save :: "'n profile option \<Rightarrow> ('w, coded_error, unit) fallible"
  pr_canonicalize :: "path \<Rightarrow> ('w, string, path) fallible"
  pr_matching :: "application_selector \<Rightarrow> ('w, coded_error, running_process list) fallible"
  pr_spawn :: "path \<Rightarrow> string list \<Rightarrow> path \<Rightarrow> ('w, string, u32 option) fallible"
  pr_foreign :: "'n foreign"
  pr_content :: "'n policy_content \<Rightarrow> 'h"
  pr_policy :: "'n profile \<Rightarrow> 'n resolutions \<Rightarrow> 'h"
  pr_debug :: "string \<Rightarrow> string"
  pr_domain_debug :: "domain_error \<Rightarrow> string"

abbreviation peer :: "('w, coded_error, 'a) fallible \<Rightarrow> ('w, 'n, 'h, 'a) daemon_io" where
  "peer \<equiv> in_world"

abbreviation health_of ::
  "('w, 'n, 'h) peers \<Rightarrow> 'n kernel_plan \<Rightarrow> ('n, 'h) kernel_snapshot \<Rightarrow> health_report"
where
  "health_of P k s \<equiv> evaluate_health (pr_debug P) (pr_content P) (Some k) s"

section \<open>Pairing an inspection with a plan\<close>

text \<open>The applied plan, if the inspection agrees with itself about its generation and hash.\<close>

definition consistent_plan ::
  "('n policy_content \<Rightarrow> 'h) \<Rightarrow> ('n, 'h) inspect_response \<Rightarrow> 'n kernel_plan \<Rightarrow> bool"
where
  "consistent_plan digest i k \<longleftrightarrow> ir_generation i = Some (kp_generation k) \<and>
     ir_plan_hash i = Some (content_hash digest k) \<and>
     st_generation (ir_runtime i) = kp_generation k"

definition option_filter :: "('a \<Rightarrow> bool) \<Rightarrow> 'a option \<Rightarrow> 'a option" where
  "option_filter p x = (case x of None \<Rightarrow> None | Some a \<Rightarrow> if p a then Some a else None)"

lemma option_filter_Some [simp]: "option_filter p x = Some a \<longleftrightarrow> x = Some a \<and> p a"
  by (auto simp: option_filter_def split: option.splits)

definition policy_of :: "'h runtime_status \<Rightarrow> 'h option" where
  "policy_of s = map_option rg_policy_hash (st_grant s)"

text \<open>The snapshot with the topology the daemon observes for the profile in force.\<close>

definition observed_snapshot ::
  "('w, 'n, 'h) peers \<Rightarrow> 'n profile option \<Rightarrow> ('n, 'h) inspect_response \<Rightarrow>
     ('w, 'n, 'h, ('n, 'h) kernel_snapshot) daemon_io"
where
  "observed_snapshot P profile i =
     (case profile of
        Some p \<Rightarrow> io_bind (peer (pr_topology P p)) (\<lambda>t. io_return (with_topology t (ir_snapshot i)))
      | None \<Rightarrow> io_return (ir_snapshot i))"

record ('n, 'h) verified_runtime =
  vr_plan :: "'n kernel_plan"
  vr_health :: health_report
  vr_runtime :: "'h runtime_status"

definition reported_plan ::
  "('n policy_content \<Rightarrow> 'h) \<Rightarrow> 'n kernel_plan \<Rightarrow> 'h \<Rightarrow> ('n, 'h) inspect_response \<Rightarrow>
     'n kernel_plan option"
where
  "reported_plan digest k policy i =
     option_filter (\<lambda>live. consistent_plan digest i live \<and>
       (live = k \<or> policy_of (ir_runtime i) = Some policy \<and> kp_generation k < kp_generation live))
       (ir_applied_plan i)"

definition inspect_runtime ::
  "('w, 'n, 'h) peers \<Rightarrow> 'n profile option \<Rightarrow> 'n kernel_plan \<Rightarrow> 'h \<Rightarrow>
     ('w, 'n, 'h, ('n, 'h) verified_runtime) daemon_io"
where
  "inspect_runtime P profile k policy =
     io_bind (peer (pr_inspect P)) (\<lambda>i.
     io_bind (io_lift (ok_or (coded ''DAEMON_HELPER_RESPONSE_MISMATCH''
         ''helper inspection does not pair with the reported runtime generation'')
         (reported_plan (pr_content P) k policy i))) (\<lambda>live.
     io_bind (observed_snapshot P profile i) (\<lambda>s.
       io_return \<lparr>vr_plan = live, vr_health = health_of P live s, vr_runtime = ir_runtime i\<rparr>)))"

definition downgraded :: "health_report \<Rightarrow> health_report" where
  "downgraded r = report_from_parts health_state.Degraded (hr_lanes r) (hr_diagnostics r)"

section \<open>Reconciliation\<close>

definition reconciliation_error :: "coded_error \<Rightarrow> coded_error" where
  "reconciliation_error e =
     (if er_code e = needs_authorization then e
      else coded ''DAEMON_RECONCILIATION_FAILED''
        (''could not inspect persisted helper state: '' @ er_message e))"

definition reconciliation_refused :: "coded_error \<Rightarrow> ('w, 'n, 'h, unit) daemon_io" where
  "reconciliation_refused e =
     (let e = reconciliation_error e;
          h = (if er_code e = needs_authorization then NeedsAuthorization else Failed) in
      io_seq (set_state (\<lambda>s. s\<lparr>ds_health := report_failure h RoutingResourceConflict HealthInspection
          ''RouteLane could not reconcile persisted routing state'' (error_text e)
          (Some ''Authorize or repair the privileged helper before changing policy.''),
          ds_last_error := Some e\<rparr>))
        (io_fail e))"

definition adopt_inspected ::
  "('w, 'n, 'h) peers \<Rightarrow> ('n, 'h) inspect_response \<Rightarrow> 'n kernel_plan \<Rightarrow>
     ('w, 'n, 'h, unit) daemon_io"
where
  "adopt_inspected P i k =
     (let health = health_of P k (ir_snapshot i) in
      io_seq (set_state (\<lambda>s. s\<lparr>ds_applied := Some (applied_from_plan (pr_content P) k),
          ds_applied_profile := option_filter (\<lambda>p. p_id p = kp_profile_id k) (ds_desired s),
          ds_generation := kp_generation k, ds_health := health, ds_primary := ir_runtime i,
          ds_last_error := None\<rparr>))
        (if kernel_resources_match_plan health then io_return ()
         else record_reconciliation_drift (pr_content P) (Some k) ''DAEMON_RECONCILIATION_FAILED''
           ''persisted helper plan does not exactly match live kernel state''))"

definition reconcile_from_helper :: "('w, 'n, 'h) peers \<Rightarrow> ('w, 'n, 'h, unit) daemon_io" where
  "reconcile_from_helper P =
     io_bind (io_result (peer (pr_inspect P))) (\<lambda>inspected.
       case inspected of
         Inl e \<Rightarrow> reconciliation_refused e
       | Inr i \<Rightarrow>
           if list_ex (starts_with ''DAEMON_LEGACY_CLEANUP_REQUIRED:'') (ir_diagnostics i)
           then record_reconciliation_drift (pr_content P) None ''DAEMON_LEGACY_CLEANUP_REQUIRED''
             ''validated legacy RouteLane state requires authorized cleanup before activation''
           else (case ir_applied_plan i of
               None \<Rightarrow>
                 if ir_generation i \<noteq> None \<or> ir_plan_hash i \<noteq> None \<or> ir_table_present i
                 then record_reconciliation_drift (pr_content P) None ''DAEMON_ORPHANED_RESOURCES''
                   ''helper reported owned resources without a validated applied plan''
                 else set_state (\<lambda>s. s\<lparr>ds_applied := None, ds_applied_profile := None,
                   ds_generation := 0, ds_health := report_inactive, ds_primary := ir_runtime i,
                   ds_last_error := None\<rparr>)
             | Some k \<Rightarrow>
                 if ir_generation i \<noteq> Some (kp_generation k) \<or>
                    ir_plan_hash i \<noteq> Some (content_hash (pr_content P) k)
                 then record_reconciliation_drift (pr_content P) (Some k)
                   ''DAEMON_RECONCILIATION_FAILED''
                   ''helper applied-plan metadata does not match the validated plan''
                 else adopt_inspected P i k))"

text \<open>
  \<open>seen\<close> is the attempt counter read before the gate is locked: requests that waited for an attempt
  share its result.
\<close>

definition reconcile_once :: "('w, 'n, 'h) peers \<Rightarrow> ('w, 'n, 'h, (coded_error, unit) result) daemon_io"
where
  "reconcile_once P =
     io_bind (io_result (reconcile_from_helper P)) (\<lambda>r.
     io_bind (io_gets (\<lambda>d. rg_attempts (dm_gate d))) (\<lambda>n.
       if n = - 1 then io_fail (daemon_panic ''reconciliation attempt counter exhausted'')
       else io_seq (io_modify (\<lambda>d. d\<lparr>dm_gate := \<lparr>rg_attempts = n + 1, rg_completed = (r = Inr ()),
           rg_last_result = Some r\<rparr>, dm_attempts := n + 1\<rparr>))
         (io_return r)))"

definition ensure_reconciled_from ::
  "('w, 'n, 'h) peers \<Rightarrow> u64 \<Rightarrow> ('w, 'n, 'h, (coded_error, unit) result \<times> bool) daemon_io"
where
  "ensure_reconciled_from P seen =
     io_bind (io_gets dm_gate) (\<lambda>gate.
       if seen < rg_attempts gate
       then io_bind (io_lift (ok_or
           (daemon_panic ''a completed reconciliation attempt has a result'') (rg_last_result gate)))
         (\<lambda>r. io_return (r, True))
       else if rg_completed gate then io_return (Inr (), False)
       else io_bind (reconcile_once P) (\<lambda>r. io_return (r, True)))"

definition ensure_daemon_reconciled ::
  "('w, 'n, 'h) peers \<Rightarrow> ('w, 'n, 'h, (coded_error, unit) result \<times> bool) daemon_io"
where
  "ensure_daemon_reconciled P = io_bind (io_gets dm_attempts) (ensure_reconciled_from P)"

definition require_reconciled :: "('w, 'n, 'h) peers \<Rightarrow> ('w, 'n, 'h, unit) daemon_io" where
  "require_reconciled P = io_bind (ensure_daemon_reconciled P) (\<lambda>(r, _). io_lift r)"

section \<open>Applying a profile\<close>

text \<open>A step whose error is recorded before it is returned.\<close>

definition or_record ::
  "(coded_error \<Rightarrow> ('w, 'n, 'h, unit) daemon_io) \<Rightarrow> ('w, 'n, 'h, 'a) daemon_io \<Rightarrow>
     ('w, 'n, 'h, 'a) daemon_io"
where
  "or_record note m =
     io_bind (io_result m) (\<lambda>r.
       case r of Inr a \<Rightarrow> io_return a | Inl e \<Rightarrow> io_seq (note e) (io_fail e))"

definition restore_runtime_receipt ::
  "('w, 'n, 'h) peers \<Rightarrow> string \<Rightarrow> ('w, 'n, 'h, unit) daemon_io"
where
  "restore_runtime_receipt P token =
     io_bind (io_result (peer (pr_restore_runtime P token))) (\<lambda>r.
       case r of
         Inr _ \<Rightarrow> io_return ()
       | Inl e \<Rightarrow>
           let e = coded ''DAEMON_KERNEL_ROLLBACK_FAILED''
             (''failed to restore the previous runtime: '' @ error_text e) in
           io_seq (record_kernel_restore_failure e) (io_fail e))"

text \<open>The helper armed what was asked for: this policy, this profile, a newer generation.\<close>

definition matches_request ::
  "'n profile \<Rightarrow> 'h \<Rightarrow> u64 \<Rightarrow> ('n, 'h) runtime_apply_response \<Rightarrow> bool"
where
  "matches_request p policy expected_generation r \<longleftrightarrow> policy_of (rp_status r) = Some policy \<and>
     kp_profile_id (rp_plan r) = p_id p \<and> expected_generation < kp_generation (rp_plan r) \<and>
     st_generation (rp_status r) = kp_generation (rp_plan r)"

definition inspection_error :: "coded_error \<Rightarrow> coded_error" where
  "inspection_error e =
     (if er_code e = needs_authorization then e
      else coded ''DAEMON_HEALTH_INSPECTION_FAILED''
        (''could not inspect live kernel health: '' @ er_message e))"

text \<open>After activation: verify what the helper armed, or bring the previous runtime back.\<close>

definition verify_activation ::
  "('w, 'n, 'h) peers \<Rightarrow> 'n profile \<Rightarrow> 'h \<Rightarrow> u64 \<Rightarrow> ('n, 'h) runtime_apply_response \<Rightarrow>
     ('w, 'n, 'h, ('n, 'h) verified_runtime) daemon_io"
where
  "verify_activation P p policy expected_generation r =
     (let give_up = (\<lambda>e note. io_seq (restore_runtime_receipt P (rp_rollback_receipt r))
            (io_seq (note e) (io_fail e))) in
      if \<not> matches_request p policy expected_generation r
      then give_up (coded ''DAEMON_HELPER_RESPONSE_MISMATCH''
          ''privileged helper armed a runtime that does not match the requested profile'')
        record_rolled_back_failure
      else io_bind (io_result (inspect_runtime P (Some p) (rp_plan r) policy)) (\<lambda>verified.
        case verified of
          Inr v \<Rightarrow>
            if kernel_resources_match_plan (vr_health v) then io_return v
            else give_up (coded ''DAEMON_HEALTH_VERIFICATION_FAILED''
                ''live kernel state did not match the applied plan'')
              (\<lambda>e. record_verification_failure e (vr_health v))
        | Inl e \<Rightarrow> give_up (inspection_error e) record_rolled_back_failure))"

definition publish_applied ::
  "('w, 'n, 'h) peers \<Rightarrow> 'n profile \<Rightarrow> ('n, 'h) verified_runtime \<Rightarrow> ('w, 'n, 'h, unit) daemon_io"
where
  "publish_applied P p v =
     io_seq (set_state (\<lambda>s. s\<lparr>ds_applied := Some (applied_from_plan (pr_content P) (vr_plan v)),
         ds_applied_profile := Some p, ds_generation := kp_generation (vr_plan v),
         ds_health := vr_health v, ds_primary := vr_runtime v, ds_last_error := None\<rparr>))
     (io_bind advance_event_sequence (\<lambda>n.
       send_event (StateChanged n (kp_generation (vr_plan v)) (vr_health v))))"

definition apply_profile_locked ::
  "('w, 'n, 'h) peers \<Rightarrow> 'n profile \<Rightarrow> ('w, 'n, 'h, 'h apply_profile_result) daemon_io"
where
  "apply_profile_locked P p =
     io_seq (or_record record_failure (io_lift (map_err (\<lambda>e. profile_invalid (pr_domain_debug P e))
         (validate_profile (pr_foreign P) p))))
     (io_seq (or_record record_failure (peer (pr_save P (Some p))))
     (io_bind (get_state ds_generation) (\<lambda>expected.
      io_seq (set_state (\<lambda>s. s\<lparr>ds_desired := Some p, ds_health := report_applying\<rparr>))
      (io_bind (or_record record_failure (peer (pr_resolutions P p))) (\<lambda>resolutions.
       io_bind (or_record record_failure (peer (pr_activate P
           \<lparr>ra_protocol_version = RUNTIME_PROTOCOL_VERSION, ra_profile = p,
            ra_resolutions = resolutions, ra_expected_generation = expected\<rparr>))) (\<lambda>r.
       io_bind (verify_activation P p (pr_policy P p resolutions) expected r) (\<lambda>v.
       io_seq (publish_applied P p v)
         (io_return \<lparr>ap_generation = kp_generation (rp_plan r),
           ap_plan_hash = content_hash (pr_content P) (rp_plan r)\<rparr>))))))))"

definition apply_profile ::
  "('w, 'n, 'h) peers \<Rightarrow> 'n profile \<Rightarrow> ('w, 'n, 'h, 'h apply_profile_result) daemon_io"
where
  "apply_profile P p = io_seq (require_reconciled P) (apply_profile_locked P p)"

fun set_first_rule :: "rule_id \<Rightarrow> bool \<Rightarrow> 'n rule list \<Rightarrow> 'n rule list option" where
  "set_first_rule i enabled [] = None"
| "set_first_rule i enabled (r # rs) =
     (if r_id r = i then Some (r\<lparr>r_enabled := enabled\<rparr> # rs)
      else map_option ((#) r) (set_first_rule i enabled rs))"

definition set_rule_enabled ::
  "('w, 'n, 'h) peers \<Rightarrow> profile_id \<Rightarrow> rule_id \<Rightarrow> bool \<Rightarrow>
     ('w, 'n, 'h, 'h apply_profile_result) daemon_io"
where
  "set_rule_enabled P profile i enabled =
     io_seq (require_reconciled P)
     (io_bind (get_state ds_desired) (\<lambda>desired.
      io_bind (io_lift (ok_or (coded ''DAEMON_PROFILE_NOT_FOUND'' ''no profile is stored'') desired))
        (\<lambda>p.
      io_seq (io_guard (p_id p = profile)
        (coded ''DAEMON_PROFILE_NOT_FOUND'' ''requested profile is not stored''))
      (io_bind (io_lift (ok_or (coded ''DAEMON_RULE_NOT_FOUND'' ''requested rule is not stored'')
          (set_first_rule i enabled (p_rules p)))) (\<lambda>rules.
        apply_profile_locked P (p\<lparr>p_rules := rules\<rparr>))))))"

section \<open>Following the runtime\<close>

text \<open>
  \<open>announced\<close> is the helper's announcement; without one the daemon reads the helper again. An older
  generation is ignored.
\<close>

definition paired_plan ::
  "('n policy_content \<Rightarrow> 'h) \<Rightarrow> 'h runtime_status option \<Rightarrow> ('n, 'h) inspect_response \<Rightarrow>
     'n kernel_plan option"
where
  "paired_plan digest announced i =
     option_filter (\<lambda>live. consistent_plan digest i live \<and>
       (case announced of None \<Rightarrow> True | Some s \<Rightarrow> policy_of (ir_runtime i) = policy_of s))
       (ir_applied_plan i)"

definition topology_or_snapshot ::
  "('w, 'n, 'h) peers \<Rightarrow> 'n profile option \<Rightarrow> ('n, 'h) inspect_response \<Rightarrow>
     ('w, 'n, 'h, ('n, 'h) kernel_snapshot) daemon_io"
where
  "topology_or_snapshot P profile i =
     (case profile of
        Some p \<Rightarrow> io_bind (io_result (peer (pr_topology P p))) (\<lambda>t.
          io_return (case t of Inr t \<Rightarrow> with_topology t (ir_snapshot i) | Inl _ \<Rightarrow> ir_snapshot i))
      | None \<Rightarrow> io_return (ir_snapshot i))"

definition followed_health ::
  "('w, 'n, 'h) peers \<Rightarrow> 'n profile option \<Rightarrow> 'h runtime_status option \<Rightarrow> ('n, 'h) inspect_response \<Rightarrow>
     ('w, 'n, 'h, health_report) daemon_io"
where
  "followed_health P profile announced i =
     (case paired_plan (pr_content P) announced i of
        Some k \<Rightarrow>
          io_bind (topology_or_snapshot P profile i) (\<lambda>s.
          let health = health_of P k s in
          io_seq (set_state (\<lambda>s. s\<lparr>ds_applied := Some (applied_from_plan (pr_content P) k),
              ds_generation := kp_generation k\<rparr>))
            (io_return (if st_phase (ir_runtime i) \<noteq> Armed \<and> hr_state health = Healthy
              then downgraded health else health)))
      | None \<Rightarrow>
          if ir_applied_plan i = None \<and> st_grant (ir_runtime i) = None
          then io_seq (set_state (\<lambda>s. s\<lparr>ds_applied := None, ds_applied_profile := None\<rparr>))
            (io_return report_inactive)
          else io_return (report_from_parts health_state.Degraded [] []))"

definition follow_runtime ::
  "('w, 'n, 'h) peers \<Rightarrow> 'h runtime_status option \<Rightarrow> ('w, 'n, 'h, unit) daemon_io"
where
  "follow_runtime P announced =
     io_bind (get_state (\<lambda>s. (ds_applied_profile s, ds_generation s))) (\<lambda>(profile, current).
       if (case announced of None \<Rightarrow> False | Some s \<Rightarrow> st_generation s < current) then io_return ()
       else io_bind (io_result (peer (pr_inspect P))) (\<lambda>inspected.
         case inspected of
           Inl e \<Rightarrow> record_failure (coded ''DAEMON_HEALTH_INSPECTION_FAILED''
             (''could not inspect helper after a runtime change: '' @ error_text e))
         | Inr i \<Rightarrow>
             io_bind (get_state ds_generation) (\<lambda>generation.
               if st_generation (ir_runtime i) < generation then io_return ()
               else io_bind (followed_health P profile announced i) (\<lambda>health.
                 io_seq (set_state (\<lambda>s. s\<lparr>ds_health := health, ds_primary := ir_runtime i\<rparr>))
                 (io_bind advance_event_sequence (\<lambda>n.
                  io_bind (get_state (\<lambda>s. (ds_generation s, ds_primary s))) (\<lambda>(g, primary).
                    send_event (PrimaryChanged n g primary))))))))"

section \<open>Deactivation and orphan recovery\<close>

definition announce_state :: "health_report \<Rightarrow> ('w, 'n, 'h, unit) daemon_io" where
  "announce_state health =
     io_bind (get_state ds_generation) (\<lambda>g.
     io_bind advance_event_sequence (\<lambda>n. send_event (StateChanged n g health)))"

text \<open>A validated plan whose live resources are missing must remain removable.\<close>

definition may_deactivate :: "(coded_error, unit) result \<Rightarrow> ('n, 'h) daemon_state \<Rightarrow> bool" where
  "may_deactivate r s =
     (case r of
        Inr _ \<Rightarrow> True
      | Inl e \<Rightarrow> er_code e = ''DAEMON_LEGACY_CLEANUP_REQUIRED'' \<or>
          er_code e = ''DAEMON_RECONCILIATION_FAILED'' \<and> ds_applied s \<noteq> None)"

definition deactivate :: "('w, 'n, 'h) peers \<Rightarrow> ('w, 'n, 'h, unit) daemon_io" where
  "deactivate P =
     io_bind (ensure_daemon_reconciled P) (\<lambda>(r, _).
     io_bind (get_state (may_deactivate r)) (\<lambda>allowed.
     io_seq (if allowed then io_return () else io_lift r)
     (io_bind (or_record record_failure (peer (pr_cleanup P))) (\<lambda>_.
      io_seq (io_modify (\<lambda>d. d\<lparr>dm_gate := (dm_gate d)\<lparr>rg_completed := True,
          rg_last_result := Some (Inr ())\<rparr>\<rparr>))
      (io_seq (set_state (\<lambda>s. s\<lparr>ds_applied := None, ds_applied_profile := None, ds_generation := 0,
          ds_health := report_inactive, ds_primary := inactive_status 0, ds_last_error := None\<rparr>))
        (announce_state report_inactive))))))"

definition recover_orphaned_resources :: "('w, 'n, 'h) peers \<Rightarrow> ('w, 'n, 'h, bool) daemon_io" where
  "recover_orphaned_resources P =
     io_bind (get_state ds_last_error) (\<lambda>last.
     io_seq (io_guard (case last of None \<Rightarrow> False | Some e \<Rightarrow> er_code e = ''DAEMON_ORPHANED_RESOURCES'')
       (coded ''DAEMON_ORPHAN_RECOVERY_UNAVAILABLE''
         ''orphan recovery requires a detected orphaned-resource conflict''))
     (io_bind (peer (pr_recover P)) (\<lambda>recovered.
      io_seq (io_modify (\<lambda>d. d\<lparr>dm_gate := new_gate, dm_attempts := 0\<rparr>))
      (io_seq (set_state (\<lambda>s. s\<lparr>ds_applied := None, ds_applied_profile := None, ds_generation := 0,
          ds_last_error := None\<rparr>))
      (io_seq (require_reconciled P) (io_return (cu_cleaned recovered)))))))"

section \<open>Applications\<close>

text \<open>The last component of a canonical path, and \<open>Path::join\<close> with a relative name.\<close>

definition file_name :: "path \<Rightarrow> string" where
  "file_name p = rev (takeWhile (\<lambda>c. c \<noteq> CHR ''/'') (rev p))"

definition application_inactive :: coded_error where
  "application_inactive = coded ''DAEMON_APPLICATION_INACTIVE''
     (''Enable the application'' @ [CHR 0x27] @ ''s routing profile before launching or adopting its '' @ ''processes.'')"

definition selected_application ::
  "profile_id \<Rightarrow> rule_id \<Rightarrow> ('n, 'h) daemon_state \<Rightarrow> (coded_error, application_selector) result"
where
  "selected_application profile i s =
     and_then (case ds_applied s of
         Some a \<Rightarrow> if kp_profile_id (ak_plan a) = profile then Inr () else Inl application_inactive
       | None \<Rightarrow> Inl application_inactive) (\<lambda>_.
     and_then (ok_or (profile_invalid ''application profile is unavailable'')
       (option_filter (\<lambda>p. p_id p = profile) (ds_applied_profile s))) (\<lambda>p.
     and_then (ok_or (profile_invalid ''application rule is unavailable'')
       (find (\<lambda>r. r_id r = i \<and> r_enabled r) (p_rules p))) (\<lambda>r.
       case r_source r of
         SourceApplication selector \<Rightarrow> Inr selector
       | SourceAny \<Rightarrow> Inl (profile_invalid ''rule is not an application rule''))))"

definition launched_program :: "application_selector \<Rightarrow> path" where
  "launched_program s = (case as_launch s of Some l \<Rightarrow> al_executable l | None \<Rightarrow> as_executable_path s)"

definition check_program :: "('w, 'n, 'h) peers \<Rightarrow> path \<Rightarrow> ('w, 'n, 'h, unit) daemon_io" where
  "check_program P program =
     io_bind (io_map_err (\<lambda>e. profile_invalid (''application executable is unavailable: '' @ e))
       (in_world (pr_canonicalize P program))) (\<lambda>resolved.
       io_guard (file_name resolved \<notin> {''snap'', ''flatpak''})
         (coded ''DAEMON_APPLICATION_SANDBOX_UNSUPPORTED''
           (''Snap/Flatpak application routing is not supported. Select an application installed '' @
            ''directly on the host.'')))"

definition find_application ::
  "('w, 'n, 'h) peers \<Rightarrow> profile_id \<Rightarrow> rule_id \<Rightarrow> ('w, 'n, 'h, application_selector) daemon_io"
where
  "find_application P profile i =
     io_bind (get_state (selected_application profile i)) (\<lambda>r.
     io_bind (io_lift r) (\<lambda>selector.
     io_seq (io_each (check_program P) (as_executable_path selector #
         (case as_launch selector of None \<Rightarrow> [] | Some l \<Rightarrow> [al_executable l])))
       (io_return selector)))"

definition launch_application ::
  "('w, 'n, 'h) peers \<Rightarrow> profile_id \<Rightarrow> rule_id \<Rightarrow> ('w, 'n, 'h, u32) daemon_io"
where
  "launch_application P profile i =
     io_seq (require_reconciled P)
     (io_bind (find_application P profile i) (\<lambda>selector.
      io_bind (peer (pr_prepare_cgroup P i)) (\<lambda>cgroup.
      io_bind (io_map_err (\<lambda>e. helper_error (''start application: '' @ e))
        (in_world (pr_spawn P (launched_program selector)
          (case as_launch selector of None \<Rightarrow> [] | Some l \<Rightarrow> al_arguments l)
          (path_join cgroup ''cgroup.procs'')))) (\<lambda>pid.
        io_lift (ok_or (helper_error ''started application has no PID'') pid)))))"

fun adopt_each ::
  "('w, 'n, 'h) peers \<Rightarrow> rule_id \<Rightarrow> u32 \<times> u32 \<Rightarrow> running_process list \<Rightarrow>
     ('w, 'n, 'h, u32 \<times> u32) daemon_io"
where
  "adopt_each P i counts [] = io_return counts"
| "adopt_each P i (adopted, skipped) (q # qs) =
     io_bind (io_result (peer (pr_adopt P i q))) (\<lambda>r.
       case r of
         Inr _ \<Rightarrow> adopt_each P i (adopted + 1, skipped) qs
       | Inl e \<Rightarrow> if er_code e = needs_authorization then io_fail e
           else adopt_each P i (adopted, skipped + 1) qs)"

definition adopt_application_processes ::
  "('w, 'n, 'h) peers \<Rightarrow> profile_id \<Rightarrow> rule_id \<Rightarrow> ('w, 'n, 'h, u32 \<times> u32) daemon_io"
where
  "adopt_application_processes P profile i =
     io_seq (require_reconciled P)
     (io_bind (find_application P profile i) (\<lambda>selector.
      io_bind (peer (pr_matching P selector)) (adopt_each P i (0, 0))))"

section \<open>Status\<close>

text \<open>A runtime is reported as armed only for the exact plan the daemon verified.\<close>

definition inspect_plan_health ::
  "('w, 'n, 'h) peers \<Rightarrow> 'n profile option \<Rightarrow> 'n kernel_plan \<Rightarrow>
     ('w, 'n, 'h, health_report \<times> 'h runtime_status) daemon_io"
where
  "inspect_plan_health P profile k =
     io_bind (peer (pr_inspect P)) (\<lambda>i.
     let runtime = (if \<not> consistent_plan (pr_content P) i k \<and> st_phase (ir_runtime i) = Armed
           then (ir_runtime i)\<lparr>st_phase := runtime_phase.Degraded, st_last_error :=
             Some ''helper state does not pair with the verified applied plan''\<rparr>
           else ir_runtime i) in
     io_bind (observed_snapshot P profile i) (\<lambda>s. io_return (health_of P k s, runtime)))"

definition live_health ::
  "('w, 'n, 'h) peers \<Rightarrow> ('n, 'h) daemon_state \<Rightarrow>
     ('w, 'n, 'h, health_report \<times> 'h runtime_status) daemon_io"
where
  "live_health P s =
     (case ds_applied s of
        None \<Rightarrow> io_return (report_inactive, ds_primary s)
      | Some a \<Rightarrow>
          io_bind (io_result (inspect_plan_health P (ds_applied_profile s) (ak_plan a))) (\<lambda>r.
          io_return (case r of
              Inr (report, runtime) \<Rightarrow>
                (if st_phase runtime \<noteq> Armed \<and> st_grant runtime \<noteq> None \<and> hr_state report = Healthy
                 then downgraded report else report, runtime)
            | Inl e \<Rightarrow>
                (report_failure (if er_code e = needs_authorization then NeedsAuthorization
                   else health_state.Degraded) NftablesFeatureMissing HealthInspection
                   ''RouteLane could not inspect live policy health'' (error_text e)
                   (Some ''Authorize or restore the privileged helper, then retry.''),
                 ds_primary s))))"

definition current_status :: "('w, 'n, 'h) peers \<Rightarrow> ('w, 'n, 'h, 'h daemon_status) daemon_io" where
  "current_status P =
     io_bind (ensure_daemon_reconciled P) (\<lambda>(r, first_wave).
     io_bind (get_state (\<lambda>s. s)) (\<lambda>s.
       if first_wave \<or> r \<noteq> Inr () then io_return (status_of s)
       else io_bind (live_health P s) (\<lambda>(health, primary).
         io_return ((status_of s)\<lparr>sd_health := health, sd_primary := primary\<rparr>))))"

section \<open>Requests\<close>

fun answer ::
  "('w, 'n, 'h) peers \<Rightarrow> 'n daemon_request \<Rightarrow> ('w, 'n, 'h, ('n, 'h) daemon_result) daemon_io"
where
  "answer P GetStatus = io_bind (current_status P) (\<lambda>s. io_return (Status s))"
| "answer P ListProfiles =
     io_bind (ensure_daemon_reconciled P) (\<lambda>_.
     io_bind (get_state ds_desired) (\<lambda>desired.
       io_return (Profiles (case desired of None \<Rightarrow> [] | Some p \<Rightarrow> [p]))))"
| "answer P (ApplyProfile p) = io_bind (apply_profile P p) (\<lambda>r. io_return (Applied r))"
| "answer P (SetRuleEnabled profile i enabled) =
     io_bind (set_rule_enabled P profile i enabled) (\<lambda>r. io_return (Applied r))"
| "answer P (LaunchApplication profile i) =
     io_bind (launch_application P profile i) (\<lambda>pid. io_return (ApplicationLaunched pid))"
| "answer P (AdoptApplicationProcesses profile i) =
     io_bind (adopt_application_processes P profile i) (\<lambda>(adopted, skipped).
       io_return (ApplicationProcessesAdopted adopted skipped))"
| "answer P RecoverOrphanedResources =
     io_bind (recover_orphaned_resources P) (\<lambda>cleaned. io_return (OrphanedResourcesRecovered cleaned))"
| "answer P Deactivate = io_seq (deactivate P) (io_return Deactivated)"
| "answer P Subscribe = io_return Subscribed"

text \<open>A request that panics is not answered.\<close>

definition handle_envelope ::
  "('w, 'n, 'h) peers \<Rightarrow> 'n daemon_envelope \<Rightarrow> ('w, 'n, 'h, ('n, 'h) daemon_response) daemon_io"
where
  "handle_envelope P v =
     (if en_protocol_version v \<noteq> IPC_PROTOCOL_VERSION
      then io_return (response_failure (en_request_id v) (coded ''IPC_UNSUPPORTED_PROTOCOL_VERSION''
        (''protocol version '' @ word_to_string (en_protocol_version v) @ '' is unsupported; expected '' @
         word_to_string IPC_PROTOCOL_VERSION)))
      else if en_request_id v = []
      then io_return (response_failure (en_request_id v) (coded ''IPC_INVALID_REQUEST_ID''
        ''request_id must not be empty''))
      else io_bind (io_result (answer P (en_request v))) (\<lambda>r.
        case r of
          Inr a \<Rightarrow> io_return (response_success (en_request_id v) a)
        | Inl e \<Rightarrow> if er_code e = [] then io_fail e
            else io_return (response_failure (en_request_id v) e)))"

end
