(* ===== verification/Daemon_Session.thy ===== *)
theory Daemon_Session
  imports Daemon Effect_Rules
begin

text \<open>
  What the daemon guarantees over whole sessions: events are numbered without gaps, the published
  generation is that of the applied plan, and a runtime that was armed is verified and published or
  rolled back. The providers are arbitrary.
\<close>

section \<open>The invariant of the daemon's state\<close>

definition numbered :: "('n, 'h) daemon \<Rightarrow> bool" where
  "numbered d \<longleftrightarrow> length (dm_events d) < 2 ^ 64 \<and>
     ds_event_sequence (dm_state d) = of_nat (length (dm_events d)) \<and>
     map event_sequence (dm_events d) = map of_nat [1..<Suc (length (dm_events d))]"

definition agrees :: "('n policy_content \<Rightarrow> 'h) \<Rightarrow> ('n, 'h) daemon \<Rightarrow> bool" where
  "agrees digest d \<longleftrightarrow> (\<forall>a. ds_applied (dm_state d) = Some a \<longrightarrow>
     a = applied_from_plan digest (ak_plan a) \<and> ds_generation (dm_state d) = kp_generation (ak_plan a))"

definition daemon_ok :: "('n policy_content \<Rightarrow> 'h) \<Rightarrow> ('n, 'h) daemon \<times> 'w \<Rightarrow> bool" where
  "daemon_ok digest x \<longleftrightarrow> numbered (fst x) \<and> agrees digest (fst x)"

text \<open>With one number taken that no event has yet.\<close>

definition counting :: "('n policy_content \<Rightarrow> 'h) \<Rightarrow> u64 \<Rightarrow> ('n, 'h) daemon \<times> 'w \<Rightarrow> bool" where
  "counting digest n x \<longleftrightarrow> agrees digest (fst x) \<and> Suc (length (dm_events (fst x))) < 2 ^ 64 \<and>
     n = of_nat (Suc (length (dm_events (fst x)))) \<and> ds_event_sequence (dm_state (fst x)) = n \<and>
     map event_sequence (dm_events (fst x)) = map of_nat [1..<Suc (length (dm_events (fst x)))]"

lemma numbered_simps [simp]:
  "numbered (d\<lparr>dm_gate := g\<rparr>) = numbered d" "numbered (d\<lparr>dm_attempts := a\<rparr>) = numbered d"
  "ds_event_sequence (f (dm_state d)) = ds_event_sequence (dm_state d) \<Longrightarrow>
     numbered (dm_state_update f d) = numbered d"
  by (simp_all add: numbered_def)

lemma agrees_simps [simp]:
  "agrees digest (d\<lparr>dm_gate := g\<rparr>) = agrees digest d" "agrees digest (d\<lparr>dm_attempts := a\<rparr>) = agrees digest d"
  "agrees digest (dm_events_update h d) = agrees digest d"
  by (simp_all add: agrees_def)

lemma agrees_state:
  "ds_applied (f (dm_state d)) = None \<Longrightarrow> agrees digest (dm_state_update f d)"
  "ds_applied (f (dm_state d)) = Some (applied_from_plan digest k) \<Longrightarrow>
     ds_generation (f (dm_state d)) = kp_generation k \<Longrightarrow> agrees digest (dm_state_update f d)"
  "ds_applied (f (dm_state d)) = ds_applied (dm_state d) \<Longrightarrow>
     ds_generation (f (dm_state d)) = ds_generation (dm_state d) \<Longrightarrow>
     agrees digest (dm_state_update f d) = agrees digest d"
  by (auto simp: agrees_def applied_from_plan_def)

lemma peer_keeps [keeps_rule]: "keeps (daemon_ok digest) (in_world m)"
  by (rule keepsI) (auto simp: daemon_ok_def in_world_def split: prod.splits)

lemma get_state_keeps [keeps_rule]: "keeps P (get_state f)"
  unfolding get_state_def by (rule keeps_gets)

lemma set_state_keeps:
  assumes "\<And>s. ds_event_sequence (f s) = ds_event_sequence s"
    and "\<And>s. ds_applied (f s) = None \<or>
      ds_applied (f s) = Some (applied_from_plan digest k) \<and> ds_generation (f s) = kp_generation k \<or>
      ds_applied (f s) = ds_applied s \<and> ds_generation (f s) = ds_generation s"
  shows "keeps (daemon_ok digest) (set_state f)"
  unfolding set_state_def
proof (rule keeps_modify)
  fix d w assume "daemon_ok digest (d, w)"
  then show "daemon_ok digest (dm_state_update f d, w)"
    using assms(1) assms(2) [of "dm_state d"] agrees_state [of f d digest]
    by (auto simp: daemon_ok_def)
qed

lemma gate_keeps:
  "(\<And>d. dm_state (f d) = dm_state d) \<Longrightarrow> (\<And>d. dm_events (f d) = dm_events d) \<Longrightarrow>
     keeps (daemon_ok digest) (io_modify f)"
  by (rule keeps_modify) (simp add: daemon_ok_def numbered_def agrees_def)

lemma send_counted:
  "event_sequence e = n \<Longrightarrow> hoare (counting digest n) (send_event e) (\<lambda>_. daemon_ok digest) E"
  unfolding send_event_def
  by (rule hoare_modify) (auto simp: counting_def daemon_ok_def numbered_def)

lemma room_for_one:
  assumes "n < 18446744073709551616" "word_of_nat n \<noteq> (- 1 :: u64)"
  shows "n < 18446744073709551615"
proof (rule ccontr)
  assume "\<not> n < 18446744073709551615"
  with assms(1) have "n = 18446744073709551615" by simp
  with assms(2) show False by simp
qed

lemma advance_counted:
  "hoare (daemon_ok digest) advance_event_sequence (\<lambda>n. counting digest n) (daemon_ok digest)"
  unfolding advance_event_sequence_def get_state_def set_state_def
  by (rule hoareI)
    (auto simp: io_bind_def io_gets_def io_seq_def io_modify_def daemon_ok_def counting_def
      numbered_def [of d for d] agrees_state(3) room_for_one split: if_splits prod.splits)

lemma announce_keeps:
  "(\<And>n. hoare (counting digest n) (k n) (\<lambda>_. daemon_ok digest) (daemon_ok digest)) \<Longrightarrow>
     keeps (daemon_ok digest) (io_bind advance_event_sequence k)"
  unfolding keeps_def by (rule hoare_bind [OF advance_counted])

lemma send_primary:
  "hoare (counting digest n) (io_bind (get_state f) (\<lambda>(g, primary).
     send_event (PrimaryChanged n g primary))) (\<lambda>_. daemon_ok digest) (daemon_ok digest)"
  unfolding get_state_def
  by (rule hoare_bind_gets) (auto intro: send_counted split: prod.split)

section \<open>Every operation keeps it\<close>

lemma announce_failure_keeps [keeps_rule]: "keeps (daemon_ok digest) (announce_failure h e)"
  unfolding announce_failure_def
  by (intro keeps_rule set_state_keeps announce_keeps send_counted) simp_all

lemma record_keeps [keeps_rule]:
  "keeps (daemon_ok digest) (record_failure e)"
  "keeps (daemon_ok digest) (record_rolled_back_failure e)"
  "keeps (daemon_ok digest) (record_kernel_restore_failure e)"
  "keeps (daemon_ok digest) (record_verification_failure e r)"
  unfolding record_failure_def record_rolled_back_failure_def record_kernel_restore_failure_def
    record_verification_failure_def Let_def
  by (intro keeps_rule)+

lemma drift_keeps [keeps_rule]:
  "keeps (daemon_ok digest) (record_reconciliation_drift digest plan code detail)"
  unfolding record_reconciliation_drift_def Let_def
  by (intro keeps_rule set_state_keeps [where k = "the plan"]) (simp_all split: option.split)

lemma or_record_keeps [keeps_rule]:
  "(\<And>e. keeps (daemon_ok digest) (note e)) \<Longrightarrow> keeps (daemon_ok digest) m \<Longrightarrow>
     keeps (daemon_ok digest) (or_record note m)"
  unfolding or_record_def by (intro keeps_rule)

abbreviation peers_ok :: "('w, 'n, 'h) peers \<Rightarrow> ('n, 'h) daemon \<times> 'w \<Rightarrow> bool" where
  "peers_ok P \<equiv> daemon_ok (pr_content P)"

lemma reconcile_keeps [keeps_rule]: "keeps (peers_ok P) (reconcile_from_helper P)"
  unfolding reconcile_from_helper_def reconciliation_refused_def adopt_inspected_def Let_def
  by (intro keeps_rule set_state_keeps) auto

lemma reconcile_once_keeps [keeps_rule]: "keeps (peers_ok P) (reconcile_once P)"
  unfolding reconcile_once_def by (intro keeps_rule gate_keeps) simp_all

lemma reconciled_from_keeps [keeps_rule]: "keeps (peers_ok P) (ensure_reconciled_from P seen)"
  unfolding ensure_reconciled_from_def by (intro keeps_rule)

lemma daemon_reconciled_keeps [keeps_rule]:
  "keeps (peers_ok P) (ensure_daemon_reconciled P)" "keeps (peers_ok P) (require_reconciled P)"
  unfolding ensure_daemon_reconciled_def require_reconciled_def by (intro keeps_rule)+

lemma inspections_keep [keeps_rule]:
  "keeps (peers_ok P) (observed_snapshot P profile i)"
  "keeps (peers_ok P) (topology_or_snapshot P profile i)"
  unfolding observed_snapshot_def topology_or_snapshot_def by (intro keeps_rule)+

lemma inspect_runtime_keeps [keeps_rule]:
  "keeps (peers_ok P) (inspect_runtime P profile k policy)"
  "keeps (peers_ok P) (inspect_plan_health P profile k)"
  unfolding inspect_runtime_def inspect_plan_health_def Let_def by (intro keeps_rule)+

lemma restore_receipt_keeps [keeps_rule]: "keeps (peers_ok P) (restore_runtime_receipt P token)"
  unfolding restore_runtime_receipt_def Let_def by (intro keeps_rule)

lemma verify_activation_keeps [keeps_rule]:
  "keeps (peers_ok P) (verify_activation P p policy expected r)"
  unfolding verify_activation_def Let_def by (intro keeps_rule)

lemma publish_keeps [keeps_rule]: "keeps (peers_ok P) (publish_applied P p v)"
  unfolding publish_applied_def
  by (intro keeps_rule set_state_keeps announce_keeps send_counted) auto

lemma apply_locked_keeps [keeps_rule]: "keeps (peers_ok P) (apply_profile_locked P p)"
  unfolding apply_profile_locked_def by (intro keeps_rule set_state_keeps) simp_all

lemma apply_profile_keeps [keeps_rule]:
  "keeps (peers_ok P) (apply_profile P p)" "keeps (peers_ok P) (set_rule_enabled P profile i enabled)"
  unfolding apply_profile_def set_rule_enabled_def by (intro keeps_rule)+

lemma followed_keeps [keeps_rule]: "keeps (peers_ok P) (followed_health P profile announced i)"
  unfolding followed_health_def Let_def by (intro keeps_rule set_state_keeps) auto

lemma follow_keeps [keeps_rule]: "keeps (peers_ok P) (follow_runtime P announced)"
  unfolding follow_runtime_def
  by (intro keeps_rule set_state_keeps announce_keeps send_primary) simp_all

lemma announce_state_keeps [keeps_rule]: "keeps (daemon_ok digest) (announce_state h)"
  unfolding announce_state_def by (intro keeps_rule announce_keeps send_counted) simp

lemma deactivate_keeps [keeps_rule]: "keeps (peers_ok P) (deactivate P)"
  unfolding deactivate_def by (intro keeps_rule set_state_keeps gate_keeps) auto

lemma recover_orphans_keeps [keeps_rule]: "keeps (peers_ok P) (recover_orphaned_resources P)"
  unfolding recover_orphaned_resources_def
  by (intro keeps_rule set_state_keeps gate_keeps) auto

lemma find_application_keeps [keeps_rule]: "keeps (peers_ok P) (find_application P profile i)"
  unfolding find_application_def check_program_def by (intro keeps_rule)

lemma adopt_each_keeps [keeps_rule]: "keeps (peers_ok P) (adopt_each P i counts qs)"
  by (induction P i counts qs rule: adopt_each.induct; unfold adopt_each.simps; intro keeps_rule)

lemma application_keeps [keeps_rule]:
  "keeps (peers_ok P) (launch_application P profile i)"
  "keeps (peers_ok P) (adopt_application_processes P profile i)"
  unfolding launch_application_def adopt_application_processes_def by (intro keeps_rule)+

lemma daemon_status_keeps [keeps_rule]: "keeps (peers_ok P) (current_status P)"
  unfolding current_status_def live_health_def by (intro keeps_rule)

lemma answer_keeps [keeps_rule]: "keeps (peers_ok P) (answer P q)"
  by (cases q) (auto intro!: keeps_rule)

lemma handle_keeps [keeps_rule]: "keeps (peers_ok P) (handle_envelope P v)"
  unfolding handle_envelope_def by (intro keeps_rule)

section \<open>Sessions\<close>

text \<open>What reaches the daemon: requests of its clients and announcements of the helper.\<close>

datatype ('n, 'h) daemon_input =
    ClientRequest "'n daemon_envelope"
  | HelperAnnouncement "'h runtime_status option"

fun daemon_step ::
  "('w, 'n, 'h) peers \<Rightarrow> ('n, 'h) daemon_input \<Rightarrow> ('w, 'n, 'h, unit) daemon_io"
where
  "daemon_step P (ClientRequest v) = io_bind (handle_envelope P v) (\<lambda>_. io_return ())"
| "daemon_step P (HelperAnnouncement s) = follow_runtime P s"

definition run_daemon ::
  "('w, 'n, 'h) peers \<Rightarrow> ('n, 'h) daemon_input list \<Rightarrow> ('n, 'h) daemon \<times> 'w \<Rightarrow> ('n, 'h) daemon \<times> 'w"
where
  "run_daemon P = fold (\<lambda>q x. snd (daemon_step P q x))"

lemma run_daemon_ok: "peers_ok P x \<Longrightarrow> peers_ok P (run_daemon P inputs x)"
  unfolding run_daemon_def
proof (induction inputs arbitrary: x)
  case (Cons q qs)
  have "keeps (peers_ok P) (daemon_step P q)" by (cases q) (auto intro!: keeps_rule)
  from keepsD [OF this Cons.prems] have "peers_ok P (snd (daemon_step P q x))"
    by (metis prod.collapse)
  with Cons.IH show ?case by simp
qed simp

lemma new_daemon_ok: "daemon_ok digest (new_daemon desired, w)"
  by (simp add: daemon_ok_def numbered_def agrees_def new_daemon_def new_daemon_state_def)

text \<open>
  Events are numbered without gaps or repeats. In any session, from the start of the daemon, the
  event sequence of the events it has sent is 1, 2, 3 and so on, and the state holds the last number.
\<close>

lemma events_numbered: "numbered (fst (run_daemon P inputs (new_daemon desired, w)))"
proof -
  have "peers_ok P (run_daemon P inputs (new_daemon desired, w))"
    by (rule run_daemon_ok) (rule new_daemon_ok)
  then show ?thesis by (simp add: daemon_ok_def)
qed

text \<open>
  C25. The daemon never shows a generation that is not the applied plan's: in any session the published
  generation and hash are those of the plan in its state.
\<close>

theorem generation_of_applied_plan:
  "agrees (pr_content P) (fst (run_daemon P inputs (new_daemon desired, w)))"
proof -
  have "peers_ok P (run_daemon P inputs (new_daemon desired, w))"
    by (rule run_daemon_ok) (rule new_daemon_ok)
  then show ?thesis by (simp add: daemon_ok_def)
qed

section \<open>An armed runtime is published or rolled back\<close>

text \<open>The providers with a record of the runtimes armed and of the rollbacks asked for.\<close>

datatype runtime_call = ArmedWith string | RollbackAsked string

definition watched_activate ::
  "('w, coded_error, ('n, 'h) runtime_apply_response) fallible \<Rightarrow>
     (runtime_call list \<times> 'w, coded_error, ('n, 'h) runtime_apply_response) fallible"
where
  "watched_activate m x = (case in_world m x of
     (Inl e, y) \<Rightarrow> (Inl e, y)
   | (Inr r, (log, w)) \<Rightarrow> (Inr r, (log @ [ArmedWith (rp_rollback_receipt r)], w)))"

definition watched_restore ::
  "string \<Rightarrow> ('w, coded_error, 'a) fallible \<Rightarrow> (runtime_call list \<times> 'w, coded_error, 'a) fallible"
where
  "watched_restore token m x = in_world m (fst x @ [RollbackAsked token], snd x)"

definition watched :: "('w, 'n, 'h) peers \<Rightarrow> (runtime_call list \<times> 'w, 'n, 'h) peers" where
  "watched P = \<lparr>pr_topology = (\<lambda>p. in_world (pr_topology P p)),
     pr_resolutions = (\<lambda>p. in_world (pr_resolutions P p)), pr_inspect = in_world (pr_inspect P),
     pr_cleanup = in_world (pr_cleanup P), pr_recover = in_world (pr_recover P),
     pr_prepare_cgroup = (\<lambda>i. in_world (pr_prepare_cgroup P i)),
     pr_adopt = (\<lambda>i q. in_world (pr_adopt P i q)),
     pr_activate = (\<lambda>a. watched_activate (pr_activate P a)),
     pr_restore_runtime = (\<lambda>t. watched_restore t (pr_restore_runtime P t)),
     pr_save = (\<lambda>p. in_world (pr_save P p)), pr_canonicalize = (\<lambda>p. in_world (pr_canonicalize P p)),
     pr_matching = (\<lambda>s. in_world (pr_matching P s)),
     pr_spawn = (\<lambda>p a c. in_world (pr_spawn P p a c)), pr_foreign = pr_foreign P,
     pr_content = pr_content P, pr_policy = pr_policy P, pr_debug = pr_debug P,
     pr_domain_debug = pr_domain_debug P\<rparr>"

lemma watched_simps [simp]:
  "pr_topology (watched P) p = in_world (pr_topology P p)"
  "pr_resolutions (watched P) p = in_world (pr_resolutions P p)"
  "pr_inspect (watched P) = in_world (pr_inspect P)"
  "pr_activate (watched P) a = watched_activate (pr_activate P a)"
  "pr_restore_runtime (watched P) t = watched_restore t (pr_restore_runtime P t)"
  "pr_save (watched P) q = in_world (pr_save P q)"
  "pr_content (watched P) = pr_content P"
  by (simp_all add: watched_def)

type_synonym ('w, 'n, 'h) watched_world = "('n, 'h) daemon \<times> runtime_call list \<times> 'w"

text \<open>Nothing that says what is applied has changed, and these calls have been made.\<close>

definition unapplied ::
  "('n, 'h) daemon_state \<Rightarrow> runtime_call list \<Rightarrow> ('w, 'n, 'h) watched_world \<Rightarrow> bool"
where
  "unapplied s log x \<longleftrightarrow> ds_applied (dm_state (fst x)) = ds_applied s \<and>
     ds_applied_profile (dm_state (fst x)) = ds_applied_profile s \<and>
     ds_generation (dm_state (fst x)) = ds_generation s \<and> fst (snd x) = log"

definition published ::
  "('n policy_content \<Rightarrow> 'h) \<Rightarrow> 'n profile \<Rightarrow> string \<Rightarrow> ('w, 'n, 'h) watched_world \<Rightarrow> bool"
where
  "published digest p token x \<longleftrightarrow> fst (snd x) = [ArmedWith token] \<and>
     ds_applied_profile (dm_state (fst x)) = Some p \<and>
     (\<exists>k. ds_applied (dm_state (fst x)) = Some (applied_from_plan digest k) \<and>
        ds_generation (dm_state (fst x)) = kp_generation k) \<and>
     kernel_resources_match_plan (ds_health (dm_state (fst x)))"

definition settled ::
  "('n policy_content \<Rightarrow> 'h) \<Rightarrow> 'n profile \<Rightarrow> ('n, 'h) daemon_state \<Rightarrow>
     ('w, 'n, 'h) watched_world \<Rightarrow> bool"
where
  "settled digest p s x \<longleftrightarrow> unapplied s [] x \<or>
     (\<exists>token. unapplied s [ArmedWith token, RollbackAsked token] x) \<or>
     (\<exists>token. published digest p token x \<and> ds_event_sequence (dm_state (fst x)) = - 1)"

lemma unapplied_world [keeps_rule]: "keeps (unapplied s log) (in_world (in_world m))"
  by (rule keepsI) (auto simp: in_world_def unapplied_def split: prod.splits)

lemma unapplied_state [keeps_rule]:
  "(\<And>s. ds_applied (f s) = ds_applied s) \<Longrightarrow> (\<And>s. ds_applied_profile (f s) = ds_applied_profile s) \<Longrightarrow>
     (\<And>s. ds_generation (f s) = ds_generation s) \<Longrightarrow> keeps (unapplied s log) (set_state f)"
  unfolding set_state_def by (rule keeps_modify) (simp add: unapplied_def)

lemma unapplied_events [keeps_rule]:
  "keeps (unapplied s log) (send_event e)" "keeps (unapplied s log) advance_event_sequence"
proof -
  show "keeps (unapplied s log) (send_event e)"
    unfolding send_event_def by (rule keeps_modify) (simp add: unapplied_def)
  show "keeps (unapplied s log) advance_event_sequence"
    unfolding advance_event_sequence_def by (intro keeps_rule unapplied_state) simp_all
qed

lemma unapplied_announce [keeps_rule]: "keeps (unapplied s log) (announce_failure h e)"
  unfolding announce_failure_def by (intro keeps_rule unapplied_state) simp_all

lemma unapplied_record [keeps_rule]:
  "keeps (unapplied s log) (record_failure e)"
  "keeps (unapplied s log) (record_rolled_back_failure e)"
  "keeps (unapplied s log) (record_kernel_restore_failure e)"
  "keeps (unapplied s log) (record_verification_failure e r)"
  unfolding record_failure_def record_rolled_back_failure_def record_kernel_restore_failure_def
    record_verification_failure_def Let_def
  by (intro keeps_rule)+

lemma unapplied_or_record [keeps_rule]:
  "keeps (unapplied s log) m \<Longrightarrow> keeps (unapplied s log) (or_record record_failure m)"
  unfolding or_record_def by (intro keeps_rule)

lemma unapplied_inspect [keeps_rule]:
  "keeps (unapplied s log) (inspect_runtime (watched P) profile k policy)"
  unfolding inspect_runtime_def observed_snapshot_def watched_simps by (intro keeps_rule)

lemma watched_restore_logs:
  "hoare (unapplied s log) (peer (watched_restore token m))
     (\<lambda>_. unapplied s (log @ [RollbackAsked token])) (unapplied s (log @ [RollbackAsked token]))"
  by (rule hoareI) (auto simp: in_world_def watched_restore_def unapplied_def split: prod.splits)

lemma watched_activate_logs:
  "hoare (unapplied s log) (peer (watched_activate m))
     (\<lambda>r. unapplied s (log @ [ArmedWith (rp_rollback_receipt r)])) (unapplied s log)"
  by (rule hoareI)
    (auto simp: in_world_def watched_activate_def unapplied_def split: prod.splits sum.splits)

lemma restore_receipt_logs:
  fixes P :: "('w, 'n, 'h) peers"
  shows "hoare (unapplied s log) (restore_runtime_receipt (watched P) token)
     (\<lambda>_. unapplied s (log @ [RollbackAsked token])) (unapplied s (log @ [RollbackAsked token]))"
proof -
  have tail: "hoare (unapplied s log')
      (case r of
         Inl e \<Rightarrow> io_seq (record_kernel_restore_failure (g e)) (io_fail (g e))
       | Inr _ \<Rightarrow> io_return ()) (\<lambda>_. unapplied s log') (unapplied s log')"
    for r :: "(coded_error, 'h runtime_status) result" and g log'
    by (rule hoare_keeps) (intro keeps_rule)
  show ?thesis
    unfolding restore_runtime_receipt_def Let_def watched_simps
    by (rule hoare_bind [where R = "\<lambda>_. unapplied s (log @ [RollbackAsked token])"], rule hoare_result,
        rule hoare_conseq [OF watched_restore_logs]) (simp_all add: tail)
qed

lemma give_up_logs:
  "(\<And>log. keeps (unapplied s log) n) \<Longrightarrow>
   hoare (unapplied s [ArmedWith token]) (io_seq (restore_runtime_receipt (watched P) token)
     (io_seq n (io_fail e))) Q (unapplied s [ArmedWith token, RollbackAsked token])"
  by (rule hoare_seq [OF restore_receipt_logs [of s "[ArmedWith token]", simplified]])
    (rule hoare_seq [OF hoare_keeps], simp_all add: hoare_fail)

lemma verify_activation_logs:
  "hoare (unapplied s [ArmedWith (rp_rollback_receipt r)])
     (verify_activation (watched P) p policy expected r)
     (\<lambda>v x. unapplied s [ArmedWith (rp_rollback_receipt r)] x \<and> kernel_resources_match_plan (vr_health v))
     (unapplied s [ArmedWith (rp_rollback_receipt r), RollbackAsked (rp_rollback_receipt r)])"
proof -
  have inspected: "hoare (unapplied s log) (io_result (inspect_runtime (watched P) q k h))
      (\<lambda>_. unapplied s log) E" for log q k h E
    by (rule hoare_result) (rule hoare_conseq [OF hoare_keeps [OF unapplied_inspect]], simp_all)
  show ?thesis
    unfolding verify_activation_def Let_def
    by (intro hoare_if give_up_logs hoare_bind [OF inspected] hoare_sum hoare_return unapplied_record)
      simp
qed

lemma publish_logs:
  fixes P :: "('w, 'n, 'h) peers"
  assumes "kernel_resources_match_plan (vr_health v)"
  shows "hoare (unapplied s [ArmedWith token]) (publish_applied (watched P) p v)
    (\<lambda>_. published (pr_content P) p token)
    (\<lambda>x. published (pr_content P) p token x \<and> ds_event_sequence (dm_state (fst x)) = - 1)"
proof -
  have numbered: "hoare (published digest p token) advance_event_sequence
      (\<lambda>_. published digest p token)
      (\<lambda>x. published digest p token x \<and> ds_event_sequence (dm_state (fst x)) = - 1)"
    for digest :: "'n policy_content \<Rightarrow> 'h"
    unfolding advance_event_sequence_def get_state_def set_state_def
    by (rule hoareI) (auto simp: io_bind_def io_gets_def io_seq_def io_modify_def published_def
      split: if_splits prod.splits)
  show ?thesis
    unfolding publish_applied_def set_state_def send_event_def watched_simps
    by (rule hoare_seq_modify [where P' = "published (pr_content P) p token"],
        simp add: published_def unapplied_def assms, blast, rule hoare_bind [OF numbered],
        rule hoare_modify, simp add: published_def)
qed

lemma before_arming:
  "keeps (unapplied s []) m \<Longrightarrow> hoare (unapplied s []) m (\<lambda>_. unapplied s []) (settled digest p s)"
  by (erule hoare_conseq [OF hoare_keeps]) (simp_all add: settled_def)

lemma apply_profile_settles:
  fixes P :: "('w, 'n, 'h) peers"
  shows "hoare (unapplied s []) (apply_profile_locked (watched P) p)
    (\<lambda>_ x. \<exists>token. published (pr_content P) p token x) (settled (pr_content P) p s)"
proof -
  have publish: "hoare (\<lambda>x. unapplied s [ArmedWith token] x \<and> kernel_resources_match_plan (vr_health v))
      (io_seq (publish_applied (watched P) p v) (io_return a))
      (\<lambda>_ x. \<exists>token. published (pr_content P) p token x) (settled (pr_content P) p s)" for token v a
    by (rule hoare_pure, rule hoare_seq, rule hoare_conseq [OF publish_logs], assumption, assumption,
        assumption) (auto simp: settled_def intro!: hoare_return)
  have activate: "hoare (unapplied s []) (or_record record_failure (peer (pr_activate (watched P) a)))
      (\<lambda>r. unapplied s [ArmedWith (rp_rollback_receipt r)]) (settled (pr_content P) p s)" for a
    unfolding or_record_def watched_simps
  proof (rule hoare_bind [where R = "case_sum (\<lambda>_. unapplied s [])
      (\<lambda>r. unapplied s [ArmedWith (rp_rollback_receipt r)])"], rule hoare_result,
      rule hoare_conseq [OF watched_activate_logs])
    fix r :: "(coded_error, ('n, 'h) runtime_apply_response) result"
    show "hoare (case r of Inl _ \<Rightarrow> unapplied s []
          | Inr r \<Rightarrow> unapplied s [ArmedWith (rp_rollback_receipt r)])
        (case r of Inl e \<Rightarrow> io_seq (record_failure e) (io_fail e) | Inr a \<Rightarrow> io_return a)
        (\<lambda>r. unapplied s [ArmedWith (rp_rollback_receipt r)]) (settled (pr_content P) p s)"
    proof (cases r)
      case (Inl e)
      then show ?thesis
        by simp (rule hoare_seq, rule before_arming, rule unapplied_record, rule hoare_fail,
          simp add: settled_def)
    qed (simp add: hoare_return)
  qed simp_all
  have verify: "hoare (unapplied s [ArmedWith (rp_rollback_receipt r)])
      (verify_activation (watched P) p policy expected r)
      (\<lambda>v x. unapplied s [ArmedWith (rp_rollback_receipt r)] x \<and> kernel_resources_match_plan (vr_health v))
      (settled (pr_content P) p s)" for r policy expected
    by (rule hoare_conseq [OF verify_activation_logs]) (auto simp: settled_def)
  show ?thesis
    unfolding apply_profile_locked_def
    by (rule hoare_seq, rule before_arming [OF unapplied_or_record [OF keeps_simps(3)]],
        rule hoare_seq, rule before_arming [OF unapplied_or_record], simp only: watched_simps,
        rule unapplied_world, rule hoare_bind, rule before_arming [OF get_state_keeps],
        rule hoare_seq, rule before_arming [OF unapplied_state], simp, simp, simp,
        rule hoare_bind, rule before_arming [OF unapplied_or_record], simp only: watched_simps,
        rule unapplied_world, rule hoare_bind, rule activate, rule hoare_bind, rule verify, rule publish)
qed

text \<open>
  C26. A runtime the helper has armed for a profile never stays armed unverified. Applying a profile arms
  at most one runtime; on success its plan, verified against the live kernel, is published as applied;
  on failure nothing was armed and the applied state is as before, or the rollback of exactly that
  runtime has been asked for and the applied state is as before. The only other failure is the panic of
  the exhausted event counter, after the state was published.
\<close>

theorem armed_runtime_settled:
  "case apply_profile_locked (watched P) p (d, ([], w)) of
     (Inr _, x) \<Rightarrow> (\<exists>token. published (pr_content P) p token x)
   | (Inl _, x) \<Rightarrow> settled (pr_content P) p (dm_state d) x"
proof -
  have "unapplied (dm_state d) [] (d, ([], w))" by (simp add: unapplied_def)
  from hoareD [OF apply_profile_settles this] show ?thesis
    by (auto split: prod.split sum.split)
qed

section \<open>A deactivation by another client\<close>

text \<open>
  The helper reports generation 0 once nothing is applied, so a resynchronisation takes a deactivation
  the daemon did not ask for as stale, and keeps showing its plan as applied.
\<close>

lemma deactivation_taken_as_stale:
  assumes "pr_inspect P w = (Inr i, w')" "ir_applied_plan i = None" "ir_runtime i = inactive_status 0"
    and "0 < ds_generation (dm_state d)"
  shows "follow_runtime P None (d, w) = (Inr (), (d, w'))"
  using assms
  by (simp add: follow_runtime_def get_state_def io_gets_def io_bind_def io_result_def in_world_def
    inactive_status_def io_return_def)

end
