(* ===== verification/Service.thy ===== *)
theory Service
  imports Runtime_Control Effect_Rules
begin

text \<open>
  The privileged service (\<open>src/src/backend/privileged.rs\<close>: \<open>PrivilegedService\<close> and the Polkit
  authorizer): every call that can change the system is authorized before anything else, its texts are
  bounded, decoded and validated, and only then the backend runs under its lock. The service is generic
  in the authorizer and the backend; \<open>command_backend\<close> is the backend the helper uses. The message bus,
  Polkit and serde_json are parameters.
\<close>

section \<open>Authorization\<close>

datatype authorization_error =
    UidLookup string
  | PolicyCheck string
  | Denied
  | Challenge

fun authorization_text :: "authorization_error \<Rightarrow> string" where
  "authorization_text (UidLookup m) = ''caller UID lookup failed: '' @ m"
| "authorization_text (PolicyCheck m) = ''authorization check failed: '' @ m"
| "authorization_text Denied = ''caller is not authorized''"
| "authorization_text Challenge = ''authorization requires an unmet challenge''"

definition authorization_result :: "bool \<Rightarrow> bool \<Rightarrow> (authorization_error, unit) result" where
  "authorization_result authorized challenge =
     (if challenge then Inl Challenge else if authorized then Inr () else Inl Denied)"

text \<open>
  \<open>Authorizer\<close>. The bus answers who a name belongs to and Polkit whether it may perform an action with
  the given flags; both can fail.
\<close>

type_synonym 'w authorizer = "string \<Rightarrow> ('w, authorization_error, unit) fallible"

record 'w system_bus =
  sb_bus_name :: "string \<Rightarrow> (string, unit) result"
  sb_unix_user :: "string \<Rightarrow> ('w, string, u32) fallible"
  sb_check_authorization :: "string \<Rightarrow> string \<Rightarrow> u32 \<Rightarrow> ('w, string, bool \<times> bool) fallible"

definition caller_uid :: "'w system_bus \<Rightarrow> string \<Rightarrow> ('w, authorization_error, u32) fallible" where
  "caller_uid S sender =
     io_seq (io_lift (map_err UidLookup (sb_bus_name S sender)))
       (io_map_err UidLookup (sb_unix_user S sender))"

definition polkit_authorizer :: "'w system_bus \<Rightarrow> 'w authorizer" where
  "polkit_authorizer S sender =
     io_bind (caller_uid S sender) (\<lambda>_.
     io_bind (io_map_err PolicyCheck
         (sb_check_authorization S sender ''io.github.routelane.apply'' 1)) (\<lambda>(authorized, challenge).
       io_lift (authorization_result authorized challenge)))"

section \<open>Errors\<close>

datatype service_error =
    MissingSender
  | Authorization authorization_error
  | PlanTooLarge nat nat
  | InvalidPlanJson string
  | PlanValidation validation_error
  | Backend string
  | StatePoisoned

fun service_text :: "(string \<Rightarrow> string) \<Rightarrow> service_error \<Rightarrow> string" where
  "service_text debug MissingSender = ''D-Bus method call has no unique sender''"
| "service_text debug (Authorization e) = authorization_text e"
| "service_text debug (PlanTooLarge actual maximum) =
     ''plan JSON is '' @ decimal (int actual) @ '' bytes; maximum is '' @ decimal (int maximum) @
       '' bytes''"
| "service_text debug (InvalidPlanJson m) = ''invalid plan JSON: '' @ m"
| "service_text debug (PlanValidation e) = validation_text debug e"
| "service_text debug (Backend m) = ''privileged backend failed: '' @ m"
| "service_text debug StatePoisoned = ''privileged helper state is unavailable''"

section \<open>The backend behind its lock\<close>

text \<open>The operations of the \<open>PrivilegedBackend\<close> trait on a backend state \<open>'b\<close>.\<close>

record ('b, 'w, 'n, 'h) privileged_backend =
  pb_apply :: "'n kernel_plan \<Rightarrow> ('b \<times> 'w, 'h apply_response) io"
  pb_restore :: "'n kernel_plan \<Rightarrow> 'n kernel_plan option \<Rightarrow> ('b \<times> 'w, 'h restore_response) io"
  pb_inspect :: "('b \<times> 'w, ('n, 'h) inspect_response) io"
  pb_cleanup :: "('b \<times> 'w, cleanup_response) io"
  pb_recover :: "('b \<times> 'w, cleanup_response) io"
  pb_activate :: "'n runtime_activation \<Rightarrow> u32 \<Rightarrow> 'n topology \<Rightarrow> duration \<Rightarrow>
    ('b \<times> 'w, ('n, 'h) runtime_apply_response) io"
  pb_refresh :: "'n topology \<Rightarrow> duration \<Rightarrow> ('b \<times> 'w, 'h runtime_status) io"
  pb_restore_runtime :: "string \<Rightarrow> u32 \<Rightarrow> ('b \<times> 'w, 'h runtime_status) io"
  pb_status :: "('b \<times> 'w, 'h runtime_status) io"
  pb_degrade :: "string \<Rightarrow> ('b \<times> 'w, 'h runtime_status) io"

text \<open>The mutex around the backend: a panic while it is held poisons it for good.\<close>

record 'b guarded_backend =
  gb_poisoned :: bool
  gb_backend :: 'b

type_synonym ('b, 'w, 'a) service_io = "('b guarded_backend \<times> 'w, service_error, 'a) fallible"

definition run_backend :: "('b \<times> 'w, 'a) io \<Rightarrow> ('b, 'w, 'a) service_io" where
  "run_backend operation = (\<lambda>(g, w).
     if gb_poisoned g then (Inl StatePoisoned, (g, w))
     else (case operation (gb_backend g, w) of
         (Inr a, (b, w')) \<Rightarrow> (Inr a, (g\<lparr>gb_backend := b\<rparr>, w'))
       | (Inl e, (b, w')) \<Rightarrow>
           if e = panicked then (Inl StatePoisoned, (g\<lparr>gb_poisoned := True, gb_backend := b\<rparr>, w'))
           else (Inl (Backend e), (g\<lparr>gb_backend := b\<rparr>, w'))))"

definition command_backend ::
  "('w, 'n::linorder, 'h) helper \<Rightarrow> (('n, 'h) backend_state, 'w, 'n, 'h) privileged_backend"
where
  "command_backend H = \<lparr>pb_apply = apply_handler H, pb_restore = restore_handler H,
     pb_inspect = inspect_handler H, pb_cleanup = cleanup_handler H, pb_recover = recover_orphaned H,
     pb_activate = activate_runtime H, pb_refresh = refresh_runtime H,
     pb_restore_runtime = restore_runtime H, pb_status = runtime_status_handler H,
     pb_degrade = degrade_runtime H\<rparr>"

section \<open>The calls\<close>

text \<open>\<open>serde_json::from_str\<close> at the two types the calls carry, and the other parameters of a service.\<close>

record ('b, 'w, 'n, 'h) privileged_service =
  ps_authorizer :: "'w authorizer"
  ps_backend :: "('b, 'w, 'n, 'h) privileged_backend"
  ps_plan :: "string \<Rightarrow> (string, 'n kernel_plan) result"
  ps_activation :: "string \<Rightarrow> (string, 'n runtime_activation) result"
  ps_foreign :: "'n foreign"

definition authorize_sender ::
  "('b, 'w, 'n, 'h) privileged_service \<Rightarrow> string option \<Rightarrow> ('b, 'w, string) service_io"
where
  "authorize_sender V sender =
     io_bind (io_lift (ok_or MissingSender sender)) (\<lambda>name.
     io_seq (io_map_err Authorization (in_world (ps_authorizer V name))) (io_return name))"

definition bounded_text :: "nat \<Rightarrow> string \<Rightarrow> (service_error, unit) result" where
  "bounded_text maximum text =
     (if maximum < length text then Inl (PlanTooLarge (length text) maximum) else Inr ())"

definition decode_plan ::
  "('b, 'w, 'n, 'h) privileged_service \<Rightarrow> string \<Rightarrow> (service_error, 'n kernel_plan) result"
where
  "decode_plan V text =
     and_then (bounded_text MAX_PLAN_JSON_BYTES text) (\<lambda>_.
     and_then (map_err InvalidPlanJson (ps_plan V text)) (\<lambda>k.
     and_then (map_err PlanValidation (validate_privileged_plan k)) (\<lambda>_. Inr k)))"

definition apply_plan_call ::
  "('b, 'w, 'n, 'h) privileged_service \<Rightarrow> string option \<Rightarrow> string \<Rightarrow> ('b, 'w, 'h apply_response) service_io"
where
  "apply_plan_call V sender text =
     io_bind (authorize_sender V sender) (\<lambda>_.
     io_seq (io_lift (bounded_text MAX_PLAN_JSON_BYTES text))
     (io_bind (io_lift (map_err InvalidPlanJson (ps_plan V text))) (\<lambda>k.
     io_seq (io_lift (map_err PlanValidation (validate_privileged_plan k)))
     (io_seq (io_lift (map_err PlanValidation (validate_new_plan_rules (ps_foreign V) k)))
       (run_backend (pb_apply (ps_backend V) k))))))"

definition inspect_call ::
  "('b, 'w, 'n, 'h) privileged_service \<Rightarrow> ('b, 'w, ('n, 'h) inspect_response) service_io"
where
  "inspect_call V = run_backend (pb_inspect (ps_backend V))"

definition option_transpose :: "('e, 'a) result option \<Rightarrow> ('e, 'a option) result" where
  "option_transpose x = (case x of None \<Rightarrow> Inr None | Some (Inl e) \<Rightarrow> Inl e | Some (Inr a) \<Rightarrow> Inr (Some a))"

definition restore_plan_call ::
  "('b, 'w, 'n, 'h) privileged_service \<Rightarrow> string option \<Rightarrow> string \<Rightarrow> string option \<Rightarrow>
     ('b, 'w, 'h restore_response) service_io"
where
  "restore_plan_call V sender failed previous =
     io_bind (authorize_sender V sender) (\<lambda>_.
     io_bind (io_lift (decode_plan V failed)) (\<lambda>failed.
     io_bind (io_lift (option_transpose (map_option (decode_plan V) previous))) (\<lambda>previous.
       run_backend (pb_restore (ps_backend V) failed previous))))"

definition cleanup_call ::
  "('b, 'w, 'n, 'h) privileged_service \<Rightarrow> string option \<Rightarrow> ('b, 'w, cleanup_response) service_io"
where
  "cleanup_call V sender =
     io_bind (authorize_sender V sender) (\<lambda>_. run_backend (pb_cleanup (ps_backend V)))"

definition recover_call ::
  "('b, 'w, 'n, 'h) privileged_service \<Rightarrow> string option \<Rightarrow> ('b, 'w, cleanup_response) service_io"
where
  "recover_call V sender =
     io_bind (authorize_sender V sender) (\<lambda>_. run_backend (pb_recover (ps_backend V)))"

text \<open>\<open>prepare\<close> runs after authorization and before any change of the kernel.\<close>

definition activate_call ::
  "('b, 'w, 'n, 'h) privileged_service \<Rightarrow> string option \<Rightarrow> string \<Rightarrow> u32 \<Rightarrow> 'n topology \<Rightarrow> duration \<Rightarrow>
     ('n runtime_activation \<Rightarrow> ('w, service_error, unit) fallible) \<Rightarrow>
     ('b, 'w, ('n, 'h) runtime_apply_response) service_io"
where
  "activate_call V sender text uid t now prepare =
     io_bind (authorize_sender V sender) (\<lambda>_.
     io_seq (io_lift (bounded_text MAX_ACTIVATION_JSON_BYTES text))
     (io_bind (io_lift (map_err InvalidPlanJson (ps_activation V text))) (\<lambda>a.
     io_seq (in_world (prepare a))
       (run_backend (pb_activate (ps_backend V) a uid t now)))))"

definition refresh_call ::
  "('b, 'w, 'n, 'h) privileged_service \<Rightarrow> 'n topology \<Rightarrow> duration \<Rightarrow>
     ('b, 'w, 'h runtime_status) service_io"
where
  "refresh_call V t now = run_backend (pb_refresh (ps_backend V) t now)"

definition restore_runtime_call ::
  "('b, 'w, 'n, 'h) privileged_service \<Rightarrow> string option \<Rightarrow> string \<Rightarrow> u32 \<Rightarrow>
     ('b, 'w, 'h runtime_status) service_io"
where
  "restore_runtime_call V sender token uid =
     io_bind (authorize_sender V sender) (\<lambda>_.
       run_backend (pb_restore_runtime (ps_backend V) token uid))"

definition status_call ::
  "('b, 'w, 'n, 'h) privileged_service \<Rightarrow> ('b, 'w, 'h runtime_status) service_io"
where
  "status_call V = run_backend (pb_status (ps_backend V))"

definition degrade_call ::
  "('b, 'w, 'n, 'h) privileged_service \<Rightarrow> string \<Rightarrow> ('b, 'w, 'h runtime_status) service_io"
where
  "degrade_call V reason = run_backend (pb_degrade (ps_backend V) reason)"

definition authorize_mutation ::
  "('b, 'w, 'n, 'h) privileged_service \<Rightarrow> string option \<Rightarrow> ('b, 'w, unit) service_io"
where
  "authorize_mutation V sender = io_bind (authorize_sender V sender) (\<lambda>_. io_return ())"


section \<open>What reaches the backend\<close>

text \<open>The calls a client can make, as one dispatch that forgets the answer.\<close>

datatype 'n service_call =
    ApplyPlanCall string
  | InspectCall
  | RestorePlanCall string "string option"
  | CleanupCall
  | RecoverCall
  | ActivateCall string u32 "'n topology" duration
  | RestoreRuntimeCall string u32

fun client_call ::
  "('b, 'w, 'n, 'h) privileged_service \<Rightarrow> ('n runtime_activation \<Rightarrow> ('w, service_error, unit) fallible) \<Rightarrow>
     string option \<Rightarrow> 'n service_call \<Rightarrow> ('b, 'w, unit) service_io"
where
  "client_call V prepare sender (ApplyPlanCall text) =
     io_bind (apply_plan_call V sender text) (\<lambda>_. io_return ())"
| "client_call V prepare sender InspectCall = io_bind (inspect_call V) (\<lambda>_. io_return ())"
| "client_call V prepare sender (RestorePlanCall failed previous) =
     io_bind (restore_plan_call V sender failed previous) (\<lambda>_. io_return ())"
| "client_call V prepare sender CleanupCall = io_bind (cleanup_call V sender) (\<lambda>_. io_return ())"
| "client_call V prepare sender RecoverCall =
     io_bind (recover_call V sender) (\<lambda>_. io_return ())"
| "client_call V prepare sender (ActivateCall text uid t now) =
     io_bind (activate_call V sender text uid t now prepare) (\<lambda>_. io_return ())"
| "client_call V prepare sender (RestoreRuntimeCall token uid) =
     io_bind (restore_runtime_call V sender token uid) (\<lambda>_. io_return ())"

text \<open>
  A backend that refuses what it must never see: a plan to apply that breaks the helper's rules, a plan
  to restore that does, and texts that were too long.
\<close>

definition refuse_unless :: "bool \<Rightarrow> ('x, 'a) io \<Rightarrow> ('x, 'a) io" where
  "refuse_unless ok m = (if ok then m else io_fail ''unchecked input'')"

definition suspicious :: "'n foreign \<Rightarrow> ('b, 'w, 'n, 'h) privileged_backend \<Rightarrow>
    ('b, 'w, 'n, 'h) privileged_backend"
where
  "suspicious X B = B\<lparr>
     pb_apply := \<lambda>k. refuse_unless (plan_admissible k \<and> distinct (map (routing_key X) (kp_rules k)))
       (pb_apply B k),
     pb_restore := \<lambda>failed previous. refuse_unless
       (plan_admissible failed \<and> pred_option plan_admissible previous) (pb_restore B failed previous)\<rparr>"

lemma map_err_Inr [simp]: "map_err f r = Inr a \<longleftrightarrow> r = Inr a"
  by (cases r) (simp_all add: map_err_def)

lemma decoded_plan_admissible: "decode_plan V text = Inr k \<Longrightarrow> plan_admissible k"
  by (auto simp: decode_plan_def and_then_Inr_iff validate_privileged_plan_Inr)

lemma io_bind_lift_cong:
  "(\<And>a. r = Inr a \<Longrightarrow> k a = k' a) \<Longrightarrow> io_bind (io_lift r) k = io_bind (io_lift r) k'"
  by (cases r) simp_all

lemma io_seq_lift_cong:
  "(r = Inr () \<Longrightarrow> k = k') \<Longrightarrow> io_seq (io_lift r) k = io_seq (io_lift r) k'"
  unfolding io_seq_def by (rule io_bind_lift_cong) simp

lemma other_backend [simp]:
  "authorize_sender (V\<lparr>ps_backend := B\<rparr>) = authorize_sender V"
  "decode_plan (V\<lparr>ps_backend := B\<rparr>) = decode_plan V"
  "ps_plan (V\<lparr>ps_backend := B\<rparr>) = ps_plan V"
  "ps_foreign (V\<lparr>ps_backend := B\<rparr>) = ps_foreign V"
  "ps_backend (V\<lparr>ps_backend := B\<rparr>) = B"
  by (simp_all add: authorize_sender_def decode_plan_def fun_eq_iff)

lemma io_bind_cong: "(\<And>a. k a = k' a) \<Longrightarrow> io_bind m k = io_bind m k'"
  by presburger

lemma suspicious_apply:
  "apply_plan_call (V\<lparr>ps_backend := suspicious (ps_foreign V) (ps_backend V)\<rparr>) sender text =
     apply_plan_call V sender text"
  unfolding apply_plan_call_def other_backend
  by (rule io_bind_cong, rule io_seq_lift_cong, rule io_bind_lift_cong, rule io_seq_lift_cong,
      rule io_seq_lift_cong)
    (simp add: suspicious_def refuse_unless_def validate_privileged_plan_Inr validate_new_plan_rules_Inr)

lemma suspicious_restore:
  "restore_plan_call (V\<lparr>ps_backend := suspicious (ps_foreign V) (ps_backend V)\<rparr>) sender failed previous =
     restore_plan_call V sender failed previous"
proof -
  have previous: "option_transpose (map_option (decode_plan V) previous) = Inr p \<Longrightarrow>
      pred_option plan_admissible p" for p
    by (auto simp: option_transpose_def decoded_plan_admissible split: option.splits sum.splits)
  show ?thesis
    unfolding restore_plan_call_def other_backend
    by (rule io_bind_cong, rule io_bind_lift_cong, rule io_bind_lift_cong)
      (simp add: suspicious_def refuse_unless_def decoded_plan_admissible previous)
qed

text \<open>
  C27. The helper does not trust its clients' plans. Whatever the backend would do with a plan that
  breaks the checked rules is unobservable: a backend that refuses every such plan to apply or to
  restore behaves the same under every call, sender and authorizer.
\<close>

theorem only_checked_plans_reach_backend:
  "client_call (V\<lparr>ps_backend := suspicious (ps_foreign V) (ps_backend V)\<rparr>) prepare sender c =
     client_call V prepare sender c"
proof (cases c)
  case (ApplyPlanCall t)
  then show ?thesis by (simp add: suspicious_apply)
next
  case (RestorePlanCall failed previous)
  then show ?thesis by (simp add: suspicious_restore)
qed (simp_all add: suspicious_def inspect_call_def cleanup_call_def recover_call_def
  activate_call_def restore_runtime_call_def authorize_sender_def)

text \<open>
  A sender the authorizer refuses gets the refusal, and nothing else happens: the backend and what lies
  behind it are as they were, apart from what the authorizer did to answer.
\<close>

lemma refused_sender:
  assumes "ps_authorizer V name w = (Inl e, w')" "c \<noteq> InspectCall"
  shows "client_call V prepare (Some name) c (g, w) = (Inl (Authorization e), (g, w'))"
  using assms
  by (cases c) (simp_all add: apply_plan_call_def restore_plan_call_def cleanup_call_def
    recover_call_def activate_call_def restore_runtime_call_def authorize_sender_def
    io_bind_def io_seq_def io_map_err_def map_err_def in_world_def io_lift_def ok_or_def)

text \<open>A poisoned lock stays poisoned and every call that needs the backend fails.\<close>

lemma poisoned_for_good:
  "gb_poisoned g \<Longrightarrow> run_backend m (g, w) = (Inl StatePoisoned, (g, w))"
  by (simp add: run_backend_def)

end
