(* ===== verification/Cgroup.thy ===== *)
theory Cgroup
  imports Processes Plan Paths
begin

text \<open>
  Application cgroups (\<open>src/src/backend/cgroup.rs\<close>): the directory an application rule owns, its
  preparation and delegation to the caller, the adoption of a process whose identity was checked, and
  the removal of directories that a failed run left behind. The cgroup and proc file systems are the
  parameter record \<open>cgroup_files\<close>; the theorems bound what RouteLane asks of them.
\<close>

section \<open>Rule identifiers and paths\<close>

datatype cgroup_error =
    InvalidRuleId
  | ProcessIdentityMismatch u32
  | CgroupNotEmpty rule_id
  | CgroupIo string

fun cgroup_text :: "cgroup_error \<Rightarrow> string" where
  "cgroup_text InvalidRuleId = ''application rule ID is unsafe for cgroup use''"
| "cgroup_text (ProcessIdentityMismatch pid) =
     ''process '' @ word_to_string pid @ '' no longer matches the requested application''"
| "cgroup_text (CgroupNotEmpty i) = ''application cgroup for '' @ i @ '' is not empty''"
| "cgroup_text (CgroupIo m) = m"

fun application_rule_ids ::
  "rule_id list \<Rightarrow> 'n compiled_rule list \<Rightarrow> (cgroup_error, rule_id list) result"
where
  "application_rule_ids seen [] = Inr []"
| "application_rule_ids seen (c # cs) =
     (case cr_target c of
        Cgroup p \<Rightarrow>
          (case strip_prefix ''routelane.apps/'' p of
             None \<Rightarrow> Inl InvalidRuleId
           | Some i \<Rightarrow>
               if i \<noteq> cr_id c then Inl InvalidRuleId
               else if cr_id c \<in> set seen then application_rule_ids seen cs
               else and_then (application_rule_ids (cr_id c # seen) cs) (\<lambda>ids. Inr (cr_id c # ids)))
      | _ \<Rightarrow> application_rule_ids seen cs)"

definition application_cgroup_rule_ids ::
  "'n compiled_rule list \<Rightarrow> (cgroup_error, rule_id list) result"
where
  "application_cgroup_rule_ids cs = application_rule_ids [] cs"

record cgroup_manager =
  cm_root :: path
  cm_proc_root :: path
  cm_create_control_files :: bool
  cm_delegate_to_owner :: bool

definition system_cgroups :: cgroup_manager where
  "system_cgroups = \<lparr>cm_root = ''/sys/fs/cgroup/routelane.apps'', cm_proc_root = ''/proc'',
     cm_create_control_files = False, cm_delegate_to_owner = True\<rparr>"

definition safe_name :: "string \<Rightarrow> bool" where
  "safe_name s = (s \<noteq> [] \<and> s \<noteq> ''.'' \<and> s \<noteq> ''..'' \<and>
     list_all (\<lambda>b. is_ascii_alphanumeric b \<or> b \<in> {CHR ''-'', CHR ''_''}) s)"

definition rule_path :: "cgroup_manager \<Rightarrow> rule_id \<Rightarrow> (cgroup_error, path) result" where
  "rule_path M i = (if safe_name i then Inr (path_join (cm_root M) i) else Inl InvalidRuleId)"

section \<open>The file systems\<close>

datatype entry_kind = EntryDirectory | EntryFile | EntrySymlink | EntryOther

record dir_entry =
  de_path :: path
  de_name :: "string option"
  de_kind :: "(string, entry_kind) result"

record 'w cgroup_files =
  cf_exists :: "path \<Rightarrow> 'w \<Rightarrow> bool"
  cf_entries :: "path \<Rightarrow> ('w, string, (string, dir_entry) result list) fallible"
  cf_read_text :: "path \<Rightarrow> ('w, string, string) fallible"
  cf_read_link :: "path \<Rightarrow> ('w, string, path) fallible"
  cf_create_dir_all :: "path \<Rightarrow> ('w, string, unit) fallible"
  cf_write :: "path \<Rightarrow> string \<Rightarrow> ('w, string, unit) fallible"
  cf_open_write :: "path \<Rightarrow> ('w, string, unit) fallible"
  cf_write_open :: "path \<Rightarrow> string \<Rightarrow> ('w, string, unit) fallible"
  cf_chown :: "path \<Rightarrow> u32 \<Rightarrow> ('w, string, unit) fallible"
  cf_remove_dir :: "path \<Rightarrow> ('w, string, unit) fallible"
  cf_remove_file :: "path \<Rightarrow> ('w, string, unit) fallible"

type_synonym ('w, 'a) cgroup_io = "('w, cgroup_error, 'a) fallible"

abbreviation cg :: "('w, string, 'a) fallible \<Rightarrow> ('w, 'a) cgroup_io" where
  "cg \<equiv> io_map_err CgroupIo"

definition io_when :: "bool \<Rightarrow> ('w, 'e, unit) fallible \<Rightarrow> ('w, 'e, unit) fallible" where
  "io_when b m = (if b then m else io_return ())"

section \<open>Operations\<close>

definition control_file :: "path \<Rightarrow> path" where
  "control_file p = path_join p ''cgroup.procs''"

definition delegation_targets :: "path \<Rightarrow> path list" where
  "delegation_targets p = [p, control_file p]"

definition chown :: "'w cgroup_files \<Rightarrow> path \<Rightarrow> u32 \<Rightarrow> ('w, unit) cgroup_io" where
  "chown F p uid =
     (if byte 0 \<in> set p then io_fail (CgroupIo ''cgroup path contains an interior NUL byte'')
      else cg (cf_chown F p uid))"

definition prepare_cgroup ::
  "cgroup_manager \<Rightarrow> 'w cgroup_files \<Rightarrow> rule_id \<Rightarrow> u32 \<Rightarrow> ('w, path) cgroup_io"
where
  "prepare_cgroup M F i uid =
     io_bind (io_lift (rule_path M i)) (\<lambda>p.
     io_seq (cg (cf_create_dir_all F p))
     (io_seq (io_when (cm_create_control_files M) (cg (cf_write F (control_file p) [])))
     (io_seq (io_when (cm_delegate_to_owner M)
         (io_each (\<lambda>t. chown F t uid) (delegation_targets p)))
       (io_return p))))"

text \<open>\<open>let Ok(..) else { return false }\<close>.\<close>

definition matches_process ::
  "cgroup_manager \<Rightarrow> 'w cgroup_files \<Rightarrow> u32 \<Rightarrow> u64 \<Rightarrow> path \<Rightarrow> ('w, bool) cgroup_io"
where
  "matches_process M F pid start exe =
     (let p = proc_path (cm_proc_root M) pid in
      io_bind (io_result (cf_read_link F (path_join p ''exe''))) (\<lambda>link.
        case link of
          Inl _ \<Rightarrow> io_return False
        | Inr found \<Rightarrow>
            if \<not> same_path found exe then io_return False
            else io_bind (io_result (cf_read_text F (path_join p ''stat''))) (\<lambda>stat.
              io_return (case stat of Inl _ \<Rightarrow> False | Inr s \<Rightarrow> stat_start_time s = Some start))))"

definition adopt_process ::
  "cgroup_manager \<Rightarrow> 'w cgroup_files \<Rightarrow> rule_id \<Rightarrow> u32 \<Rightarrow> u64 \<Rightarrow> path \<Rightarrow> ('w, unit) cgroup_io"
where
  "adopt_process M F i pid start exe =
     io_bind (io_lift (rule_path M i)) (\<lambda>p.
     io_bind (matches_process M F pid start exe) (\<lambda>same.
     io_seq (io_guard same (ProcessIdentityMismatch pid))
     (io_seq (cg (cf_open_write F (control_file p)))
       (cg (cf_write_open F (control_file p) (word_to_string pid @ [byte 10]))))))"

definition require_empty :: "'w cgroup_files \<Rightarrow> path \<Rightarrow> rule_id \<Rightarrow> ('w, unit) cgroup_io" where
  "require_empty F p i =
     io_bind (cg (cf_read_text F (control_file p))) (\<lambda>members.
       io_guard (trim members = []) (CgroupNotEmpty i))"

definition io_reads :: "('w \<Rightarrow> 'a) \<Rightarrow> ('w, 'e, 'a) fallible" where
  "io_reads f w = (Inr (f w), w)"

definition cleanup_cgroup ::
  "cgroup_manager \<Rightarrow> 'w cgroup_files \<Rightarrow> rule_id \<Rightarrow> ('w, unit) cgroup_io"
where
  "cleanup_cgroup M F i =
     io_bind (io_lift (rule_path M i)) (\<lambda>p.
     io_bind (io_reads (cf_exists F p)) (\<lambda>exists.
       if \<not> exists then io_return ()
       else io_seq (require_empty F p i) (cg (cf_remove_dir F p))))"

definition verify_children ::
  "(string, dir_entry) result list \<Rightarrow> (cgroup_error, unit) result"
where
  "verify_children = try_each (\<lambda>child.
     and_then (map_err CgroupIo child) (\<lambda>child.
     and_then (map_err CgroupIo (de_kind child)) (\<lambda>kind.
       if kind = EntryDirectory
       then Inl (CgroupIo ''RouteLane application cgroup contains a nested directory'')
       else Inr ())))"

text \<open>One entry of the root: a directory whose cgroup is verified empty, or nothing to remove.\<close>

definition verify_entry ::
  "cgroup_manager \<Rightarrow> 'w cgroup_files \<Rightarrow> (string, dir_entry) result \<Rightarrow> ('w, path option) cgroup_io"
where
  "verify_entry M F entry =
     io_bind (io_lift (map_err CgroupIo entry)) (\<lambda>entry.
     io_bind (io_lift (map_err CgroupIo (de_kind entry))) (\<lambda>kind.
     io_seq (io_guard (kind \<noteq> EntrySymlink)
       (CgroupIo ''RouteLane application cgroup root contains a symbolic link''))
     (if kind = EntryFile then io_return None
      else io_seq (io_guard (kind = EntryDirectory)
          (CgroupIo ''RouteLane application cgroup root contains an unsupported entry''))
        (io_bind (io_lift (ok_or InvalidRuleId (de_name entry))) (\<lambda>name.
         io_bind (io_lift (rule_path M name)) (\<lambda>p.
         io_seq (io_guard (same_path p (de_path entry)) InvalidRuleId)
         (io_seq (require_empty F p name)
         (io_bind (cg (cf_entries F p)) (\<lambda>children.
         io_seq (io_lift (verify_children children)) (io_return (Some p)))))))))))"

fun verify_entries ::
  "cgroup_manager \<Rightarrow> 'w cgroup_files \<Rightarrow> (string, dir_entry) result list \<Rightarrow>
     ('w, path list) cgroup_io"
where
  "verify_entries M F [] = io_return []"
| "verify_entries M F (e # es) =
     io_bind (verify_entry M F e) (\<lambda>p.
     io_bind (verify_entries M F es) (\<lambda>ps.
       io_return (case p of None \<Rightarrow> ps | Some p \<Rightarrow> p # ps)))"

definition sort_paths :: "path list \<Rightarrow> path list" where
  "sort_paths = sort_key (\<lambda>p. snd (path_key p))"

definition verified_orphan_directories ::
  "cgroup_manager \<Rightarrow> 'w cgroup_files \<Rightarrow> ('w, path list) cgroup_io"
where
  "verified_orphan_directories M F =
     io_bind (io_reads (cf_exists F (cm_root M))) (\<lambda>exists.
       if \<not> exists then io_return []
       else io_bind (cg (cf_entries F (cm_root M))) (\<lambda>entries.
         io_bind (verify_entries M F entries) (\<lambda>ps. io_return (sort_paths ps))))"

definition remove_verified_orphan_directories ::
  "cgroup_manager \<Rightarrow> 'w cgroup_files \<Rightarrow> path list \<Rightarrow> ('w, unit) cgroup_io"
where
  "remove_verified_orphan_directories M F ps =
     io_bind (verified_orphan_directories M F) (\<lambda>verified.
     io_seq (io_guard (list_all (\<lambda>p. list_ex (same_path p) verified) ps)
       (CgroupIo ''application cgroup cleanup target was not verified''))
     (io_each (\<lambda>p.
       io_seq (io_when (cm_create_control_files M) (cg (cf_remove_file F (control_file p))))
         (cg (cf_remove_dir F p))) ps))"


section \<open>Everything RouteLane changes lies below its root\<close>

definition dir_key :: "cgroup_manager \<Rightarrow> path_key \<Rightarrow> bool" where
  "dir_key M k \<longleftrightarrow> fst k = fst (path_key (cm_root M)) \<and> snd k \<noteq> [] \<and>
     butlast (snd k) = snd (path_key (cm_root M)) \<and> safe_name (last (snd k))"

definition control_key :: "cgroup_manager \<Rightarrow> path_key \<Rightarrow> bool" where
  "control_key M k \<longleftrightarrow> snd k \<noteq> [] \<and> last (snd k) = ''cgroup.procs'' \<and>
     dir_key M (fst k, butlast (snd k))"

text \<open>The file systems, with every change outside the directories of safe rule identifiers refused.\<close>

definition only :: "bool \<Rightarrow> ('w, string, unit) fallible \<Rightarrow> ('w, string, unit) fallible" where
  "only ok m = (if ok then m else io_fail ''outside the application cgroups'')"

definition confined :: "cgroup_manager \<Rightarrow> 'w cgroup_files \<Rightarrow> 'w cgroup_files" where
  "confined M F = F\<lparr>
     cf_create_dir_all := \<lambda>p. only (dir_key M (path_key p)) (cf_create_dir_all F p),
     cf_write := \<lambda>p text. only (control_key M (path_key p)) (cf_write F p text),
     cf_open_write := \<lambda>p. only (control_key M (path_key p)) (cf_open_write F p),
     cf_write_open := \<lambda>p text. only (control_key M (path_key p)) (cf_write_open F p text),
     cf_chown := \<lambda>p uid. only (dir_key M (path_key p) \<or> control_key M (path_key p)) (cf_chown F p uid),
     cf_remove_dir := \<lambda>p. only (dir_key M (path_key p)) (cf_remove_dir F p),
     cf_remove_file := \<lambda>p. only (control_key M (path_key p)) (cf_remove_file F p)\<rparr>"

datatype cgroup_request =
    PrepareDirectory rule_id u32
  | AdoptProcess rule_id u32 u64 path
  | CleanupDirectory rule_id
  | RemoveOrphans "path list"

fun cgroup_run ::
  "cgroup_manager \<Rightarrow> 'w cgroup_files \<Rightarrow> cgroup_request \<Rightarrow> ('w, unit) cgroup_io"
where
  "cgroup_run M F (PrepareDirectory i uid) = io_bind (prepare_cgroup M F i uid) (\<lambda>_. io_return ())"
| "cgroup_run M F (AdoptProcess i pid start exe) = adopt_process M F i pid start exe"
| "cgroup_run M F (CleanupDirectory i) = cleanup_cgroup M F i"
| "cgroup_run M F (RemoveOrphans ps) = remove_verified_orphan_directories M F ps"

lemma safe_name_plain: "safe_name i \<Longrightarrow> plain_name i"
  by (auto simp: safe_name_def plain_name_def list_all_iff is_ascii_alphanumeric_def
    is_ascii_digit_def is_ascii_uppercase_def is_ascii_lowercase_def)

lemma rule_path_dir: "rule_path M i = Inr p \<Longrightarrow> dir_key M (path_key p)"
  by (auto simp: rule_path_def dir_key_def path_key_join safe_name_plain split: if_splits)

lemma control_file_key:
  "path_key (control_file p) = (fst (path_key p), snd (path_key p) @ [''cgroup.procs''])"
  by (simp add: control_file_def path_key_join plain_name_def)

lemma control_file_control: "dir_key M (path_key p) \<Longrightarrow> control_key M (path_key (control_file p))"
  by (simp add: control_key_def control_file_key)

lemma confined_reads [simp]:
  "cf_exists (confined M F) = cf_exists F" "cf_entries (confined M F) = cf_entries F"
  "cf_read_text (confined M F) = cf_read_text F" "cf_read_link (confined M F) = cf_read_link F"
  by (simp_all add: confined_def)

lemma confined_changes:
  assumes "dir_key M (path_key p)"
  shows "cf_create_dir_all (confined M F) p = cf_create_dir_all F p"
    "cf_write (confined M F) (control_file p) = cf_write F (control_file p)"
    "cf_open_write (confined M F) (control_file p) = cf_open_write F (control_file p)"
    "cf_write_open (confined M F) (control_file p) = cf_write_open F (control_file p)"
    "cf_chown (confined M F) p = cf_chown F p"
    "cf_chown (confined M F) (control_file p) = cf_chown F (control_file p)"
    "cf_remove_dir (confined M F) p = cf_remove_dir F p"
    "cf_remove_file (confined M F) (control_file p) = cf_remove_file F (control_file p)"
  using assms control_file_control [OF assms] by (simp_all add: confined_def only_def fun_eq_iff)

lemma io_bind_result_cong:
  assumes "\<And>w a w'. m w = (Inr a, w') \<Longrightarrow> k a = k' a"
  shows "io_bind m k = io_bind m k'"
proof
  show "io_bind m k w = io_bind m k' w" for w
    using assms by (cases "m w"; cases "fst (m w)") (auto simp: io_bind_def)
qed

lemma io_guard_cong: "(b \<Longrightarrow> k = k') \<Longrightarrow> io_seq (io_guard b e) k = io_seq (io_guard b e) k'"
  by (cases b) (simp_all add: io_seq_def)

lemma io_each_cong: "(\<And>x. x \<in> set xs \<Longrightarrow> f x = g x) \<Longrightarrow> io_each f xs = io_each g xs"
  by (induction xs) simp_all

lemma lifted_path: "io_lift (rule_path M i) w = (Inr p, w') \<Longrightarrow> dir_key M (path_key p)"
  by (auto simp: rule_path_dir)

lemma prepare_confined: "prepare_cgroup M (confined M F) i uid = prepare_cgroup M F i uid"
  unfolding prepare_cgroup_def
  by (rule io_bind_result_cong, drule lifted_path)
    (simp add: confined_changes delegation_targets_def chown_def)

lemma adopt_confined:
  "adopt_process M (confined M F) i pid start exe = adopt_process M F i pid start exe"
  unfolding adopt_process_def matches_process_def
  by (rule io_bind_result_cong, drule lifted_path)
    (simp add: confined_changes cong: if_cong sum.case_cong)

lemma cleanup_confined: "cleanup_cgroup M (confined M F) i = cleanup_cgroup M F i"
  unfolding cleanup_cgroup_def require_empty_def
  by (rule io_bind_result_cong, drule lifted_path) (simp add: confined_changes cong: if_cong)

lemma verify_confined:
  "verified_orphan_directories M (confined M F) = verified_orphan_directories M F"
proof -
  have "verify_entry M (confined M F) e = verify_entry M F e" for e
    by (simp add: verify_entry_def require_empty_def cong: if_cong)
  then have "verify_entries M (confined M F) es = verify_entries M F es" for es
    by (induction es) simp_all
  then show ?thesis by (simp add: verified_orphan_directories_def cong: if_cong)
qed

lemma verify_entry_dir:
  "verify_entry M F e w = (Inr (Some p), w') \<Longrightarrow> dir_key M (path_key p)"
  by (auto simp: verify_entry_def io_seq_def io_bind_Inr rule_path_dir io_guard_def split: if_splits)

lemma verify_entries_dir:
  "verify_entries M F es w = (Inr ps, w') \<Longrightarrow> p \<in> set ps \<Longrightarrow> dir_key M (path_key p)"
  by (induction es arbitrary: w ps w')
    (auto simp: io_bind_Inr dest: verify_entry_dir split: option.splits)

lemma verified_dir:
  "verified_orphan_directories M F w = (Inr ps, w') \<Longrightarrow> p \<in> set ps \<Longrightarrow> dir_key M (path_key p)"
  by (auto simp: verified_orphan_directories_def io_bind_Inr sort_paths_def dest: verify_entries_dir
    split: if_splits)

lemma remove_confined:
  "remove_verified_orphan_directories M (confined M F) ps = remove_verified_orphan_directories M F ps"
  unfolding remove_verified_orphan_directories_def verify_confined
proof (rule io_bind_result_cong, rule io_guard_cong, rule io_each_cong)
  fix w vs w' p
  assume "verified_orphan_directories M F w = (Inr vs, w')"
    and "list_all (\<lambda>p. list_ex (same_path p) vs) ps" "p \<in> set ps"
  then obtain v where "v \<in> set vs" "path_key p = path_key v" "dir_key M (path_key v)"
    using verified_dir by (fastforce simp: list_all_iff list_ex_iff same_path_def)
  then show "io_seq (io_when (cm_create_control_files M)
        (cg (cf_remove_file (confined M F) (control_file p)))) (cg (cf_remove_dir (confined M F) p)) =
      io_seq (io_when (cm_create_control_files M) (cg (cf_remove_file F (control_file p))))
        (cg (cf_remove_dir F p))"
    by (simp add: confined_changes)
qed

text \<open>
  C29. Whatever rule identifier, process or path a request carries, the helper creates, writes, hands
  over or removes nothing but a directory directly below the application cgroup root whose name is a safe
  rule identifier, and its control file: file systems that refuse every other change serve every
  request alike.
\<close>

theorem cgroup_changes_confined: "cgroup_run M (confined M F) q = cgroup_run M F q"
  by (cases q) (simp_all add: prepare_confined adopt_confined cleanup_confined remove_confined)

end
