(* ===== verification/Helper.thy ===== *)
theory Helper
  imports Service Cgroup
begin

text \<open>
  The helper program on the system bus (\<open>src/src/bin/routelane_helper.rs\<close>): the methods of both
  interfaces, in the order each one authorizes, prepares cgroups, runs the backend and announces, and the
  refresher the runtime monitor drives. The bus, the capture of the topology, the clock, the cgroup file
  system and the JSON encoding of answers are parameters.
\<close>

section \<open>Errors and answers\<close>

datatype fdo_error = AccessDenied string | InvalidArgs string | FdoFailed string

fun to_fdo_error :: "(string \<Rightarrow> string) \<Rightarrow> service_error \<Rightarrow> fdo_error" where
  "to_fdo_error debug MissingSender = AccessDenied (service_text debug MissingSender)"
| "to_fdo_error debug (Authorization e) = AccessDenied (service_text debug (Authorization e))"
| "to_fdo_error debug (PlanTooLarge a m) = InvalidArgs (service_text debug (PlanTooLarge a m))"
| "to_fdo_error debug (InvalidPlanJson t) = InvalidArgs (service_text debug (InvalidPlanJson t))"
| "to_fdo_error debug (PlanValidation e) = InvalidArgs (service_text debug (PlanValidation e))"
| "to_fdo_error debug (Backend t) = FdoFailed (service_text debug (Backend t))"
| "to_fdo_error debug StatePoisoned = FdoFailed (service_text debug StatePoisoned)"

datatype ('n, 'h) helper_answer =
    AnswerApplied "'h apply_response"
  | AnswerInspected "('n, 'h) inspect_response"
  | AnswerRestored "'h restore_response"
  | AnswerCleaned cleanup_response
  | AnswerActivated "('n, 'h) runtime_apply_response"
  | AnswerStatus "'h runtime_status"
  | AnswerPath path
  | AnswerAdopted

record ('b, 'w, 'n, 'h) dbus_helper =
  hx_bus :: "'w system_bus"
  hx_backend :: "('b, 'w, 'n, 'h) privileged_backend"
  hx_cgroups :: "'w cgroup_files"
  hx_capture :: "('w, string, 'n topology) fallible"
  hx_elapsed :: "'w \<Rightarrow> duration"
  hx_announce :: "'h runtime_status \<Rightarrow> ('w, string, unit) fallible"
  hx_plan :: "string \<Rightarrow> (string, 'n kernel_plan) result"
  hx_activation :: "string \<Rightarrow> (string, 'n runtime_activation) result"
  hx_serialize :: "('n, 'h) helper_answer \<Rightarrow> (string, string) result"
  hx_foreign :: "'n foreign"
  hx_debug :: "string \<Rightarrow> string"

definition core :: "('b, 'w, 'n, 'h) dbus_helper \<Rightarrow> ('b, 'w, 'n, 'h) privileged_service" where
  "core X = \<lparr>ps_authorizer = polkit_authorizer (hx_bus X), ps_backend = hx_backend X,
     ps_plan = hx_plan X, ps_activation = hx_activation X, ps_foreign = hx_foreign X\<rparr>"

type_synonym ('b, 'w, 'a) bus_io = "('b guarded_backend \<times> 'w, fdo_error, 'a) fallible"

definition to_fdo ::
  "('b, 'w, 'n, 'h) dbus_helper \<Rightarrow> ('b, 'w, 'a) service_io \<Rightarrow> ('b, 'w, 'a) bus_io"
where
  "to_fdo X m = io_map_err (to_fdo_error (hx_debug X)) m"

definition serialize_response ::
  "('b, 'w, 'n, 'h) dbus_helper \<Rightarrow> ('n, 'h) helper_answer \<Rightarrow> ('b, 'w, string) bus_io"
where
  "serialize_response X a = io_lift (map_err FdoFailed (hx_serialize X a))"

text \<open>An announcement that fails is only printed.\<close>

definition announce ::
  "('b, 'w, 'n, 'h) dbus_helper \<Rightarrow> 'h runtime_status \<Rightarrow> ('b guarded_backend \<times> 'w, 'e, unit) fallible"
where
  "announce X status = io_bind (io_result (in_world (hx_announce X status))) (\<lambda>_. io_return ())"

section \<open>The runtime interface\<close>

definition sender_uid ::
  "('b, 'w, 'n, 'h) dbus_helper \<Rightarrow> string option \<Rightarrow> ('b, 'w, u32) bus_io"
where
  "sender_uid X sender =
     io_bind (io_lift (ok_or (AccessDenied ''missing sender'') sender)) (\<lambda>name.
       io_map_err (\<lambda>e. AccessDenied (authorization_text e)) (in_world (caller_uid (hx_bus X) name)))"

definition application_rules :: "'n profile \<Rightarrow> rule_id list" where
  "application_rules p = map r_id (filter (\<lambda>r. case r_source r of
     SourceApplication _ \<Rightarrow> True | SourceAny \<Rightarrow> False) (p_rules p))"

text \<open>Application cgroups must exist before nftables can match them.\<close>

definition prepare_application_cgroups ::
  "('b, 'w, 'n, 'h) dbus_helper \<Rightarrow> u32 \<Rightarrow> 'n runtime_activation \<Rightarrow> ('w, service_error, unit) fallible"
where
  "prepare_application_cgroups X uid a =
     io_each (\<lambda>i. io_map_err (\<lambda>e. Backend (cgroup_text e))
         (io_bind (prepare_cgroup system_cgroups (hx_cgroups X) i uid) (\<lambda>_. io_return ())))
       (application_rules (ra_profile a))"

definition helper_activate_runtime ::
  "('b, 'w, 'n, 'h) dbus_helper \<Rightarrow> string option \<Rightarrow> string \<Rightarrow> ('b, 'w, string) bus_io"
where
  "helper_activate_runtime X sender text =
     io_bind (sender_uid X sender) (\<lambda>uid.
     io_bind (io_map_err FdoFailed (in_world (hx_capture X))) (\<lambda>t.
     io_bind (in_world (io_reads (hx_elapsed X))) (\<lambda>now.
     io_bind (to_fdo X (activate_call (core X) sender text uid t now
         (prepare_application_cgroups X uid))) (\<lambda>r.
     io_seq (announce X (rp_status r)) (serialize_response X (AnswerActivated r))))))"

definition helper_restore_runtime ::
  "('b, 'w, 'n, 'h) dbus_helper \<Rightarrow> string option \<Rightarrow> string \<Rightarrow> ('b, 'w, string) bus_io"
where
  "helper_restore_runtime X sender receipt =
     io_bind (sender_uid X sender) (\<lambda>uid.
     io_bind (to_fdo X (restore_runtime_call (core X) sender receipt uid)) (\<lambda>status.
     io_seq (announce X status) (serialize_response X (AnswerStatus status))))"

definition helper_inspect :: "('b, 'w, 'n, 'h) dbus_helper \<Rightarrow> ('b, 'w, string) bus_io" where
  "helper_inspect X =
     io_bind (to_fdo X (inspect_call (core X))) (\<lambda>r. serialize_response X (AnswerInspected r))"

definition helper2_cleanup ::
  "('b, 'w, 'n, 'h) dbus_helper \<Rightarrow> string option \<Rightarrow> ('b, 'w, string) bus_io"
where
  "helper2_cleanup X sender =
     io_bind (to_fdo X (cleanup_call (core X) sender)) (\<lambda>r.
     io_bind (io_result (status_call (core X))) (\<lambda>status.
     io_seq (case status of Inr s \<Rightarrow> announce X s | Inl _ \<Rightarrow> io_return ())
       (serialize_response X (AnswerCleaned r))))"

section \<open>The plan interface\<close>

text \<open>A method that holds the sender as an \<open>Option\<close> after it was authorized.\<close>

definition authorized_uid ::
  "('b, 'w, 'n, 'h) dbus_helper \<Rightarrow> string option \<Rightarrow> ('b, 'w, string \<times> u32) bus_io"
where
  "authorized_uid X sender =
     io_bind (io_lift (ok_or (AccessDenied ''missing sender'') sender)) (\<lambda>name.
     io_bind (io_map_err (\<lambda>e. AccessDenied (authorization_text e))
       (in_world (caller_uid (hx_bus X) name))) (\<lambda>uid. io_return (name, uid)))"

definition fdo_cgroup :: "(string \<Rightarrow> fdo_error) \<Rightarrow> ('w, 'a) cgroup_io \<Rightarrow> ('b, 'w, 'a) bus_io" where
  "fdo_cgroup kind m = io_map_err (\<lambda>e. kind (cgroup_text e)) (in_world m)"

definition helper_apply_plan ::
  "('b, 'w, 'n, 'h) dbus_helper \<Rightarrow> string option \<Rightarrow> string \<Rightarrow> ('b, 'w, string) bus_io"
where
  "helper_apply_plan X sender text =
     io_seq (to_fdo X (authorize_mutation (core X) sender))
     (io_seq (io_guard (length text \<le> MAX_PLAN_JSON_BYTES)
       (InvalidArgs ''kernel plan exceeds the maximum size''))
     (io_bind (io_lift (map_err InvalidArgs (hx_plan X text))) (\<lambda>k.
     io_seq (io_lift (map_err (\<lambda>e. InvalidArgs (validation_text (hx_debug X) e))
       (validate_privileged_plan k)))
     (io_bind (authorized_uid X sender) (\<lambda>(name, uid).
     io_bind (io_lift (map_err (\<lambda>e. InvalidArgs (cgroup_text e))
       (application_cgroup_rule_ids (kp_rules k)))) (\<lambda>ids.
     io_seq (io_each (\<lambda>i. io_bind (fdo_cgroup FdoFailed
         (prepare_cgroup system_cgroups (hx_cgroups X) i uid)) (\<lambda>_. io_return ())) ids)
     (io_bind (to_fdo X (apply_plan_call (core X) (Some name) text)) (\<lambda>r.
       serialize_response X (AnswerApplied r)))))))))"

definition helper_restore_plan ::
  "('b, 'w, 'n, 'h) dbus_helper \<Rightarrow> string option \<Rightarrow> string \<Rightarrow> string \<Rightarrow> ('b, 'w, string) bus_io"
where
  "helper_restore_plan X sender failed previous =
     io_bind (to_fdo X (restore_plan_call (core X) sender failed
         (if previous = [] then None else Some previous)))
       (\<lambda>r. serialize_response X (AnswerRestored r))"

definition helper_cleanup ::
  "('b, 'w, 'n, 'h) dbus_helper \<Rightarrow> string option \<Rightarrow> ('b, 'w, string) bus_io"
where
  "helper_cleanup X sender =
     io_bind (to_fdo X (cleanup_call (core X) sender)) (\<lambda>r. serialize_response X (AnswerCleaned r))"

definition helper_recover ::
  "('b, 'w, 'n, 'h) dbus_helper \<Rightarrow> string option \<Rightarrow> ('b, 'w, string) bus_io"
where
  "helper_recover X sender =
     io_seq (to_fdo X (authorize_mutation (core X) sender))
     (io_bind (fdo_cgroup FdoFailed (verified_orphan_directories system_cgroups (hx_cgroups X)))
       (\<lambda>cgroups.
     io_bind (to_fdo X (recover_call (core X) sender)) (\<lambda>r.
     io_seq (fdo_cgroup FdoFailed
         (remove_verified_orphan_directories system_cgroups (hx_cgroups X) cgroups))
       (serialize_response X (AnswerCleaned r)))))"

definition helper_prepare_cgroup ::
  "('b, 'w, 'n, 'h) dbus_helper \<Rightarrow> string option \<Rightarrow> rule_id \<Rightarrow> ('b, 'w, string) bus_io"
where
  "helper_prepare_cgroup X sender i =
     io_seq (to_fdo X (authorize_mutation (core X) sender))
     (io_bind (authorized_uid X sender) (\<lambda>(_, uid).
     io_bind (fdo_cgroup FdoFailed (prepare_cgroup system_cgroups (hx_cgroups X) i uid)) (\<lambda>p.
       serialize_response X (AnswerPath p))))"

definition helper_adopt ::
  "('b, 'w, 'n, 'h) dbus_helper \<Rightarrow> string option \<Rightarrow> rule_id \<Rightarrow> u32 \<Rightarrow> u64 \<Rightarrow> path \<Rightarrow>
     ('b, 'w, string) bus_io"
where
  "helper_adopt X sender i pid start exe =
     io_seq (to_fdo X (authorize_mutation (core X) sender))
     (io_seq (fdo_cgroup FdoFailed (adopt_process system_cgroups (hx_cgroups X) i pid start exe))
       (serialize_response X AnswerAdopted))"

datatype bus_call =
    Bus2Activate string
  | Bus2Restore string
  | Bus2Inspect
  | Bus2Cleanup
  | Bus1Apply string
  | Bus1Inspect
  | Bus1Restore string string
  | Bus1Cleanup
  | Bus1Recover
  | Bus1Prepare rule_id
  | Bus1Adopt rule_id u32 u64 path

fun bus_method ::
  "('b, 'w, 'n, 'h) dbus_helper \<Rightarrow> string option \<Rightarrow> bus_call \<Rightarrow> ('b, 'w, string) bus_io"
where
  "bus_method X sender (Bus2Activate text) = helper_activate_runtime X sender text"
| "bus_method X sender (Bus2Restore receipt) = helper_restore_runtime X sender receipt"
| "bus_method X sender Bus2Inspect = helper_inspect X"
| "bus_method X sender Bus2Cleanup = helper2_cleanup X sender"
| "bus_method X sender (Bus1Apply text) = helper_apply_plan X sender text"
| "bus_method X sender Bus1Inspect = helper_inspect X"
| "bus_method X sender (Bus1Restore failed previous) = helper_restore_plan X sender failed previous"
| "bus_method X sender Bus1Cleanup = helper_cleanup X sender"
| "bus_method X sender Bus1Recover = helper_recover X sender"
| "bus_method X sender (Bus1Prepare i) = helper_prepare_cgroup X sender i"
| "bus_method X sender (Bus1Adopt i pid start exe) = helper_adopt X sender i pid start exe"

section \<open>Without authorization nothing changes\<close>

text \<open>
  The helper with everything that changes the system disabled: the mutating backend operations, every
  change of the cgroup file system and the announcements.
\<close>

definition disabled :: "('w, string, 'a) fallible" where "disabled = io_fail ''disabled''"

definition inert_backend ::
  "('b, 'w, 'n, 'h) privileged_backend \<Rightarrow> ('b, 'w, 'n, 'h) privileged_backend"
where
  "inert_backend B = B\<lparr>pb_apply := \<lambda>_. disabled, pb_restore := \<lambda>_ _. disabled, pb_cleanup := disabled,
     pb_recover := disabled, pb_activate := \<lambda>_ _ _ _. disabled, pb_refresh := \<lambda>_ _. disabled,
     pb_restore_runtime := \<lambda>_ _. disabled, pb_status := disabled, pb_degrade := \<lambda>_. disabled\<rparr>"

definition inert_cgroups :: "'w cgroup_files \<Rightarrow> 'w cgroup_files" where
  "inert_cgroups F = F\<lparr>cf_create_dir_all := \<lambda>_. disabled, cf_write := \<lambda>_ _. disabled,
     cf_open_write := \<lambda>_. disabled, cf_write_open := \<lambda>_ _. disabled, cf_chown := \<lambda>_ _. disabled,
     cf_remove_dir := \<lambda>_. disabled, cf_remove_file := \<lambda>_. disabled\<rparr>"

definition inert :: "('b, 'w, 'n, 'h) dbus_helper \<Rightarrow> ('b, 'w, 'n, 'h) dbus_helper" where
  "inert X = X\<lparr>hx_backend := inert_backend (hx_backend X), hx_cgroups := inert_cgroups (hx_cgroups X),
     hx_announce := \<lambda>_. disabled\<rparr>"

lemma inert_fields [simp]:
  "hx_bus (inert X) = hx_bus X" "hx_capture (inert X) = hx_capture X"
  "hx_elapsed (inert X) = hx_elapsed X" "hx_plan (inert X) = hx_plan X"
  "hx_serialize (inert X) = hx_serialize X" "hx_debug (inert X) = hx_debug X"
  by (simp_all add: inert_def)

definition permits :: "('b, 'w, 'n, 'h) dbus_helper \<Rightarrow> string option \<Rightarrow> bool" where
  "permits X sender \<longleftrightarrow> (\<exists>name w w'. sender = Some name \<and>
     polkit_authorizer (hx_bus X) name w = (Inr (), w'))"

lemma inert_authorize: "authorize_sender (core (inert X)) sender = authorize_sender (core X) sender"
  by (simp add: authorize_sender_def core_def)

lemma unauthorized:
  "\<not> permits X sender \<Longrightarrow> authorize_sender (core X) sender s \<noteq> (Inr name, s')"
  by (cases sender; cases s)
    (auto simp: authorize_sender_def core_def permits_def io_bind_Inr io_seq_def ok_or_def
      io_map_err_def in_world_def map_err_def split: prod.splits sum.splits)

lemma never_authorized:
  assumes "\<not> permits X sender"
  shows "io_bind (authorize_sender (core X) sender) k = io_bind (authorize_sender (core X) sender) k'"
  by (rule io_bind_result_cong) (simp add: unauthorized [OF assms])

lemma inert_to_fdo: "to_fdo (inert X) m = to_fdo X m"
  by (simp add: to_fdo_def)

lemma call_stops:
  fixes X :: "('b, 'w, 'n, 'h) dbus_helper"
    and j j' :: "string \<Rightarrow> ('b, 'w, 'a) service_io" and k k' :: "'a \<Rightarrow> ('b, 'w, 'c) bus_io"
  assumes "\<not> permits X sender"
  shows "io_bind (to_fdo (inert X) (io_bind (authorize_sender (core (inert X)) sender) j')) k' =
    io_bind (to_fdo X (io_bind (authorize_sender (core X) sender) j)) k"
proof -
  have "to_fdo X (io_bind (authorize_sender (core X) sender) j) s \<noteq> (Inr a, s')" for s s' a
    by (auto simp: to_fdo_def io_map_err_def map_err_def io_bind_def unauthorized [OF assms]
      split: prod.splits sum.splits)
  then have "io_bind (to_fdo X (io_bind (authorize_sender (core X) sender) j)) k' =
      io_bind (to_fdo X (io_bind (authorize_sender (core X) sender) j)) k"
    by (intro io_bind_result_cong) simp
  moreover have "io_bind (authorize_sender (core (inert X)) sender) j' =
      io_bind (authorize_sender (core X) sender) j"
    unfolding inert_authorize by (rule never_authorized [OF assms])
  ultimately show ?thesis unfolding inert_to_fdo by simp
qed

lemma mutation_stops:
  assumes "\<not> permits X sender"
  shows "io_seq (to_fdo (inert X) (authorize_mutation (core (inert X)) sender)) k' =
    io_seq (to_fdo X (authorize_mutation (core X) sender)) k"
  unfolding io_seq_def authorize_mutation_def by (rule call_stops [OF assms])

lemma inert_inspect: "helper_inspect (inert X) = helper_inspect X"
  by (simp add: helper_inspect_def inert_to_fdo inspect_call_def core_def serialize_response_def)
    (simp add: inert_def inert_backend_def)

lemma inert_uid: "sender_uid (inert X) sender = sender_uid X sender"
  by (simp add: sender_uid_def)

text \<open>
  C31. A caller the system's authorization refuses changes nothing through the bus. For every method of
  both interfaces, with any arguments: the helper answers and behaves exactly as one whose backend
  mutations, cgroup changes and announcements are all disabled, unless the authority grants the sender
  the action at some moment.
\<close>

theorem unauthorized_callers_change_nothing:
  "permits X sender \<or> bus_method (inert X) sender c = bus_method X sender c"
proof (cases "permits X sender")
  case False
  note stops = call_stops [OF False] mutation_stops [OF False]
  have "bus_method (inert X) sender c = bus_method X sender c"
  proof (cases c)
    case (Bus2Activate t)
    show ?thesis
      unfolding Bus2Activate bus_method.simps helper_activate_runtime_def activate_call_def inert_uid
        inert_fields
      by (rule io_bind_cong)+ (rule stops)
  next
    case (Bus2Restore receipt)
    show ?thesis
      unfolding Bus2Restore bus_method.simps helper_restore_runtime_def restore_runtime_call_def inert_uid
      by (rule io_bind_cong, rule stops)
  next
    case Bus2Cleanup
    show ?thesis
      unfolding Bus2Cleanup bus_method.simps helper2_cleanup_def cleanup_call_def by (rule stops)
  next
    case (Bus1Apply t)
    show ?thesis
      unfolding Bus1Apply bus_method.simps helper_apply_plan_def by (rule stops)
  next
    case (Bus1Restore failed previous)
    show ?thesis
      unfolding Bus1Restore bus_method.simps helper_restore_plan_def restore_plan_call_def by (rule stops)
  next
    case Bus1Cleanup
    show ?thesis
      unfolding Bus1Cleanup bus_method.simps helper_cleanup_def cleanup_call_def by (rule stops)
  next
    case Bus1Recover
    show ?thesis unfolding Bus1Recover bus_method.simps helper_recover_def by (rule stops)
  next
    case (Bus1Prepare i)
    show ?thesis unfolding Bus1Prepare bus_method.simps helper_prepare_cgroup_def by (rule stops)
  next
    case (Bus1Adopt i pid start exe)
    show ?thesis unfolding Bus1Adopt bus_method.simps helper_adopt_def by (rule stops)
  qed (simp_all add: inert_inspect)
  then show ?thesis by simp
qed simp

section \<open>The refresher of the runtime monitor\<close>

text \<open>It holds the status it last announced and no authorizer.\<close>

type_synonym ('b, 'w, 'h, 'a) refresher_io =
  "('h runtime_status option \<times> ('b guarded_backend \<times> 'w), service_error, 'a) fallible"

definition publish_status ::
  "('b, 'w, 'n, 'h) dbus_helper \<Rightarrow> 'h runtime_status \<Rightarrow> ('b, 'w, 'h, unit) refresher_io"
where
  "publish_status X status =
     io_bind (io_gets (\<lambda>last. last \<noteq> Some status)) (\<lambda>changed.
     io_seq (io_modify (\<lambda>_. Some status))
       (io_when changed (in_world (announce X status))))"

text \<open>\<open>.ok()?\<close> on each call: a failing call leaves the monitor without a status.\<close>

definition publish_if_ok ::
  "('b, 'w, 'n, 'h) dbus_helper \<Rightarrow> ('b, 'w, 'h runtime_status) service_io \<Rightarrow>
     ('b, 'w, 'h, 'h runtime_status option) refresher_io"
where
  "publish_if_ok X m =
     io_ok (in_world m) (\<lambda>status. io_seq (publish_status X status) (io_return (Some status)))"

definition refresher_refresh ::
  "('b, 'w, 'n, 'h) dbus_helper \<Rightarrow> ('b, 'w, 'h, 'h runtime_status option) refresher_io"
where
  "refresher_refresh X =
     io_ok (in_world (status_call (core X))) (\<lambda>status.
       if st_phase status = Inactive
       then io_seq (publish_status X status) (io_return (Some status))
       else io_bind (io_result (in_world (in_world (hx_capture X)))) (\<lambda>t.
         io_bind (in_world (in_world (io_reads (hx_elapsed X)))) (\<lambda>now.
         publish_if_ok X (case t of
             Inr t \<Rightarrow> refresh_call (core X) t now
           | Inl e \<Rightarrow> degrade_call (core X) e))))"

definition refresher_degrade ::
  "('b, 'w, 'n, 'h) dbus_helper \<Rightarrow> string \<Rightarrow> ('b, 'w, 'h, unit) refresher_io"
where
  "refresher_degrade X reason =
     io_bind (publish_if_ok X (degrade_call (core X) reason)) (\<lambda>_. io_return ())"

end
