(* ===== verification/Monitor.thy ===== *)
theory Monitor
  imports Helper
begin

text \<open>
  The runtime monitor (\<open>src/src/backend/runtime_monitor.rs\<close>): \<open>drive_runtime\<close> turns kernel
  notifications and one failback timer into refreshes of the stored policy. Time and the senders of the
  channel are outside: a run is a list of moments, each saying which notifications arrive while the loop
  waits and which arrive during the sleep that follows a notification.
\<close>

section \<open>The loop\<close>

datatype monitor_event = Changed | Closed string

record ('s, 'h) runtime_refresher =
  rf_refresh :: "'s \<Rightarrow> 'h runtime_status option \<times> 's"
  rf_degrade :: "string \<Rightarrow> 's \<Rightarrow> 's"
  rf_restart :: "'s \<Rightarrow> 's"

record moment =
  mo_waiting :: "monitor_event list"
  mo_asleep :: "monitor_event list"

text \<open>The deadline in milliseconds, the notifications in the channel, and the refresher's state.\<close>

record 's driver =
  dv_deadline :: "u64 option"
  dv_queue :: "monitor_event list"
  dv_state :: 's

definition failback_wait :: "'h runtime_status option \<Rightarrow> u64 option" where
  "failback_wait status = option_bind status st_failback_in_ms"

text \<open>\<open>while let Ok(Changed) = events.try_recv() {}\<close>: the event that ends the loop has been received.\<close>

fun drain_changed :: "monitor_event list \<Rightarrow> monitor_event list" where
  "drain_changed [] = []"
| "drain_changed (Changed # es) = drain_changed es"
| "drain_changed (Closed _ # es) = es"

definition refresh_now ::
  "('s, 'h) runtime_refresher \<Rightarrow> monitor_event list \<Rightarrow> 's \<Rightarrow> 's driver"
where
  "refresh_now R queue s = (case rf_refresh R s of (status, s') \<Rightarrow>
     \<lparr>dv_deadline = failback_wait status, dv_queue = queue, dv_state = s'\<rparr>)"

text \<open>
  One turn of the loop. With no notification the timer expires if there is one; otherwise the loop goes
  on waiting.
\<close>

definition drive_turn :: "('s, 'h) runtime_refresher \<Rightarrow> moment \<Rightarrow> 's driver \<Rightarrow> 's driver" where
  "drive_turn R m d =
     (case dv_queue d @ mo_waiting m of
        [] \<Rightarrow> (case dv_deadline d of None \<Rightarrow> d | Some _ \<Rightarrow> refresh_now R [] (dv_state d))
      | Changed # queue \<Rightarrow> refresh_now R (drain_changed (queue @ mo_asleep m)) (dv_state d)
      | Closed reason # queue \<Rightarrow>
          refresh_now R (queue @ mo_asleep m) (rf_restart R (rf_degrade R reason (dv_state d))))"

definition drive_runtime :: "('s, 'h) runtime_refresher \<Rightarrow> moment list \<Rightarrow> 's \<Rightarrow> 's driver" where
  "drive_runtime R ms s = fold (drive_turn R) ms (refresh_now R [] s)"

text \<open>The helper's refresher; \<open>restart\<close> starts another \<open>ip monitor\<close>.\<close>

definition helper_refresher ::
  "('b, 'w, 'n, 'h) dbus_helper \<Rightarrow> ('w \<Rightarrow> 'w) \<Rightarrow>
     ('h runtime_status option \<times> ('b guarded_backend \<times> 'w), 'h) runtime_refresher"
where
  "helper_refresher X restart = \<lparr>
     rf_refresh = (\<lambda>s. case refresher_refresh X s of (Inr status, s') \<Rightarrow> (status, s') | (Inl _, s') \<Rightarrow> (None, s')),
     rf_degrade = (\<lambda>reason s. snd (refresher_degrade X reason s)),
     rf_restart = (\<lambda>(last, (g, w)). (last, (g, restart w)))\<rparr>"

section \<open>What the loop does\<close>

text \<open>A refresher that records what it is asked for.\<close>

datatype monitor_action = Refreshed | DegradedBy string | RestartedMonitor

definition recording :: "('s, 'h) runtime_refresher \<Rightarrow> (monitor_action list \<times> 's, 'h) runtime_refresher" where
  "recording R = \<lparr>
     rf_refresh = (\<lambda>(log, s). case rf_refresh R s of (status, s') \<Rightarrow> (status, (log @ [Refreshed], s'))),
     rf_degrade = (\<lambda>reason (log, s). (log @ [DegradedBy reason], rf_degrade R reason s)),
     rf_restart = (\<lambda>(log, s). (log @ [RestartedMonitor], rf_restart R s))\<rparr>"

definition actions :: "(monitor_action list \<times> 's) driver \<Rightarrow> monitor_action list" where
  "actions d = fst (dv_state d)"

lemma recording_refresh [simp]:
  "actions (refresh_now (recording R) queue (log, s)) = log @ [Refreshed]"
  by (simp add: actions_def refresh_now_def recording_def split: prod.splits)

lemma drive_turn_actions:
  assumes "dv_state d = (log, s)"
  shows "actions (drive_turn (recording R) m d) = log @
    (case dv_queue d @ mo_waiting m of
       [] \<Rightarrow> (case dv_deadline d of None \<Rightarrow> [] | Some _ \<Rightarrow> [Refreshed])
     | Changed # _ \<Rightarrow> [Refreshed]
     | Closed reason # _ \<Rightarrow> [DegradedBy reason, RestartedMonitor, Refreshed])"
  using assms
  by (auto simp: drive_turn_def actions_def recording_def refresh_now_def
    split: list.splits monitor_event.splits option.splits prod.splits)

text \<open>What a log of the loop looks like: refreshes, and degraded monitors restarted before one.\<close>

fun well_driven :: "monitor_action list \<Rightarrow> bool" where
  "well_driven [] = True"
| "well_driven (Refreshed # log) = well_driven log"
| "well_driven (DegradedBy _ # RestartedMonitor # Refreshed # log) = well_driven log"
| "well_driven _ = False"

lemma well_driven_append: "well_driven a \<Longrightarrow> well_driven b \<Longrightarrow> well_driven (a @ b)"
  by (induction a rule: well_driven.induct) auto

lemma drive_well_driven:
  "well_driven (actions d) \<Longrightarrow> well_driven (actions (fold (drive_turn (recording R)) ms d))"
proof (induction ms arbitrary: d)
  case (Cons m ms)
  obtain log s where s: "dv_state d = (log, s)" by fastforce
  then have "well_driven log" using Cons.prems by (simp add: actions_def)
  then have "well_driven (actions (drive_turn (recording R) m d))"
    unfolding drive_turn_actions [OF s]
    by (rule well_driven_append) (auto split: list.splits monitor_event.splits option.splits)
  with Cons.IH show ?case by simp
qed simp

text \<open>
  The monitor never acts on a notification itself. In any run the runtime is asked only to refresh
  from a fresh snapshot; it is degraded only when a monitor is seen to have ended, and then the monitor
  is restarted and the runtime refreshed at once, in that order.
\<close>

lemma monitor_only_refreshes:
  "well_driven (actions (drive_runtime (recording R) ms ([], s)))"
  unfolding drive_runtime_def by (rule drive_well_driven) simp

text \<open>A burst of changes costs one refresh.\<close>

lemma burst_is_one_refresh:
  "actions (drive_runtime (recording R)
     [\<lparr>mo_waiting = [Changed], mo_asleep = replicate n Changed\<rparr>] ([], s)) = [Refreshed, Refreshed]"
proof -
  have "drain_changed (replicate n Changed) = []" by (induction n) simp_all
  then show ?thesis
    by (simp add: drive_runtime_def drive_turn_def refresh_now_def recording_def actions_def
      split: prod.splits)
qed

text \<open>
  A monitor that ends during the coalescing window is lost: \<open>try_recv\<close> takes the notification out of the
  channel and the loop that drains it drops it. The run is the one in which the monitor did not end, so
  nothing is degraded and no monitor is started again.
\<close>

lemma ended_monitor_unnoticed:
  "drive_runtime R (\<lparr>mo_waiting = [Changed], mo_asleep = [Closed reason]\<rparr> # ms) s =
     drive_runtime R (\<lparr>mo_waiting = [Changed], mo_asleep = []\<rparr> # ms) s"
  by (simp add: drive_runtime_def drive_turn_def refresh_now_def split: prod.splits)

end
