(* ===== verification/Utf8.thy ===== *)
theory Utf8
  imports Rust_Text
begin

text \<open>\<open>str::from_utf8\<close>: which byte sequences are the text of a \<open>str\<close>.\<close>

definition continuation :: "char \<Rightarrow> bool" where
  "continuation c = (let n = of_char c :: int in 0x80 \<le> n \<and> n \<le> 0xBF)"

text \<open>The second byte of a sequence of three or four: no overlong forms, surrogates or values past the end.\<close>

definition second_ok :: "int \<Rightarrow> char \<Rightarrow> bool" where
  "second_ok lead c = (let n = of_char c :: int in
     (if lead = 0xE0 then 0xA0 else if lead = 0xF0 then 0x90 else 0x80) \<le> n \<and>
     n \<le> (if lead = 0xED then 0x9F else if lead = 0xF4 then 0x8F else 0xBF))"

fun utf8_valid :: "string \<Rightarrow> bool" where
  "utf8_valid [] = True"
| "utf8_valid [a] = ((of_char a :: int) < 0x80)"
| "utf8_valid [a, b] =
     (let n = of_char a :: int in
      if n < 0x80 then utf8_valid [b] else 0xC2 \<le> n \<and> n \<le> 0xDF \<and> continuation b)"
| "utf8_valid [a, b, c] =
     (let n = of_char a :: int in
      if n < 0x80 then utf8_valid [b, c]
      else if 0xC2 \<le> n \<and> n \<le> 0xDF then continuation b \<and> utf8_valid [c]
      else 0xE0 \<le> n \<and> n \<le> 0xEF \<and> second_ok n b \<and> continuation c)"
| "utf8_valid (a # b # c # d # s) =
     (let n = of_char a :: int in
      if n < 0x80 then utf8_valid (b # c # d # s)
      else if 0xC2 \<le> n \<and> n \<le> 0xDF then continuation b \<and> utf8_valid (c # d # s)
      else if 0xE0 \<le> n \<and> n \<le> 0xEF then second_ok n b \<and> continuation c \<and> utf8_valid (d # s)
      else 0xF0 \<le> n \<and> n \<le> 0xF4 \<and> second_ok n b \<and> continuation c \<and> continuation d \<and> utf8_valid s)"

end
