(* ===== verification/Ipc.thy ===== *)
theory Ipc
  imports Daemon Paths Utf8
begin

text \<open>
  The daemon's socket protocol: framing (\<open>src/src/ipc/framing.rs\<close>), the client
  (\<open>src/src/ipc/client.rs\<close>) and the server (\<open>src/src/ipc/server.rs\<close>). serde_json at the message types,
  the text of a UTF-8 error, the socket and the files around it are parameters; a stream in memory
  stands for a connected pair in the round trips.
\<close>

section \<open>Bytes\<close>

definition big_endian :: "u32 \<Rightarrow> string" where
  "big_endian n = map (\<lambda>i. byte (uint (drop_bit (8 * i) n) mod 256)) [3, 2, 1, 0]"

definition from_big_endian :: "string \<Rightarrow> nat" where
  "from_big_endian s = fold (\<lambda>c n. 256 * n + of_char c) s 0"

section \<open>Frames\<close>

definition MAX_FRAME_BYTES :: nat where "MAX_FRAME_BYTES = 1048576"

datatype read_failure = EndOfFile string | ReadFailure string

record 'w byte_stream =
  bs_read_exact :: "nat \<Rightarrow> ('w, read_failure, string) fallible"
  bs_write_all :: "string \<Rightarrow> ('w, string, unit) fallible"
  bs_flush :: "('w, string, unit) fallible"

fun read_error :: "read_failure \<Rightarrow> coded_error" where
  "read_error (EndOfFile e) =
     coded ''IPC_UNEXPECTED_EOF'' (''frame ended before its declared length: '' @ e)"
| "read_error (ReadFailure e) = coded ''IPC_READ_FAILED'' (''could not read IPC frame: '' @ e)"

definition write_error :: "string \<Rightarrow> coded_error" where
  "write_error e = coded ''IPC_WRITE_FAILED'' (''could not write IPC frame: '' @ e)"

definition frame_too_large :: "nat \<Rightarrow> coded_error" where
  "frame_too_large n = coded ''IPC_FRAME_TOO_LARGE''
     (''frame is '' @ decimal (int n) @ '' bytes; maximum is '' @ decimal (int MAX_FRAME_BYTES))"

text \<open>serde_json at a message type, with the text \<open>from_utf8\<close> reports.\<close>

record 'a codec =
  cd_encode :: "'a \<Rightarrow> (string, string) result"
  cd_decode :: "string \<Rightarrow> (string, 'a) result"
  cd_utf8_error :: "string \<Rightarrow> string"

definition read_frame :: "'w byte_stream \<Rightarrow> 'a codec \<Rightarrow> ('w, coded_error, 'a) fallible" where
  "read_frame S C =
     io_bind (io_map_err read_error (bs_read_exact S 4)) (\<lambda>header.
     let n = from_big_endian header in
     io_seq (io_guard (n \<le> MAX_FRAME_BYTES) (frame_too_large n))
     (io_bind (io_map_err read_error (bs_read_exact S n)) (\<lambda>body.
     io_seq (io_guard (utf8_valid body)
       (coded ''IPC_INVALID_UTF8'' (''frame is not UTF-8: '' @ cd_utf8_error C body)))
     (io_lift (map_err (\<lambda>e. coded ''IPC_INVALID_JSON'' (''frame JSON is invalid: '' @ e))
       (cd_decode C body))))))"

definition write_frame :: "'w byte_stream \<Rightarrow> 'a codec \<Rightarrow> 'a \<Rightarrow> ('w, coded_error, unit) fallible" where
  "write_frame S C v =
     io_bind (io_lift (map_err
       (\<lambda>e. coded ''IPC_JSON_ENCODE_FAILED'' (''could not encode JSON frame: '' @ e)) (cd_encode C v)))
       (\<lambda>body.
     io_seq (io_guard (length body \<le> MAX_FRAME_BYTES) (frame_too_large (length body)))
     (io_seq (io_map_err write_error (bs_write_all S (big_endian (of_nat (length body)))))
     (io_seq (io_map_err write_error (bs_write_all S body))
       (io_map_err write_error (bs_flush S)))))"

section \<open>The client\<close>

definition validate_response_identity ::
  "('n, 'h) daemon_response \<Rightarrow> string \<Rightarrow> (coded_error, unit) result"
where
  "validate_response_identity r expected =
     (if dr_protocol_version r \<noteq> IPC_PROTOCOL_VERSION
      then Inl (coded ''IPC_UNSUPPORTED_PROTOCOL_VERSION''
        (''response protocol version '' @ word_to_string (dr_protocol_version r) @
         '' is unsupported; expected '' @ word_to_string IPC_PROTOCOL_VERSION))
      else if dr_request_id r \<noteq> expected
      then Inl (coded ''IPC_RESPONSE_ID_MISMATCH''
        ''daemon response request_id did not match the request'')
      else Inr ())"

definition connect_error :: "string \<Rightarrow> coded_error" where
  "connect_error e = coded ''IPC_CONNECT_FAILED'' (''could not connect to daemon socket: '' @ e)"

record ('w, 'n, 'h) client_link =
  cl_connect :: "('w, string, unit) fallible"
  cl_stream :: "'w byte_stream"
  cl_envelopes :: "'n daemon_envelope codec"
  cl_responses :: "('n, 'h) daemon_response codec"
  cl_events :: "'h daemon_event codec"

definition exchange ::
  "('w, 'n, 'h) client_link \<Rightarrow> 'n daemon_envelope \<Rightarrow> ('w, coded_error, ('n, 'h) daemon_response) fallible"
where
  "exchange K v =
     io_seq (io_map_err connect_error (cl_connect K))
     (io_seq (write_frame (cl_stream K) (cl_envelopes K) v)
     (io_bind (read_frame (cl_stream K) (cl_responses K)) (\<lambda>r.
     io_seq (io_lift (validate_response_identity r (en_request_id v))) (io_return r))))"

definition client_send ::
  "('w, 'n, 'h) client_link \<Rightarrow> 'n daemon_envelope \<Rightarrow> ('w, coded_error, ('n, 'h) daemon_response) fallible"
where
  "client_send K v = exchange K v"

definition client_subscribe ::
  "('w, 'n, 'h) client_link \<Rightarrow> string \<Rightarrow> ('w, coded_error, unit) fallible"
where
  "client_subscribe K i =
     io_bind (exchange K \<lparr>en_protocol_version = IPC_PROTOCOL_VERSION, en_request_id = i,
         en_request = Subscribe\<rparr>) (\<lambda>r.
     case dr_error r of
       Some e \<Rightarrow> io_fail e
     | None \<Rightarrow> io_guard (dr_result r = Some Subscribed)
         (coded ''IPC_INVALID_RESPONSE''
           ''subscribe request did not receive a subscription acknowledgement''))"

text \<open>The task that forwards events until a read fails; \<open>fuel\<close> bounds how many are taken.\<close>

fun forward_events :: "nat \<Rightarrow> ('w, 'n, 'h) client_link \<Rightarrow> 'w \<Rightarrow> 'h daemon_event list" where
  "forward_events 0 K w = []"
| "forward_events (Suc fuel) K w =
     (case read_frame (cl_stream K) (cl_events K) w of
        (Inl _, _) \<Rightarrow> [] | (Inr e, w') \<Rightarrow> e # forward_events fuel K w')"

section \<open>Serving a connection\<close>

datatype 'h event_receipt = EventReceived "'h daemon_event" | EventsLagged

text \<open>
  The handler answers every envelope; \<open>receipts\<close> are what the event channel yields until it closes.
\<close>

fun send_events ::
  "('w, 'n, 'h) client_link \<Rightarrow> 'h event_receipt list \<Rightarrow> ('w, coded_error, unit) fallible"
where
  "send_events K [] = io_return ()"
| "send_events K (EventsLagged # es) = send_events K es"
| "send_events K (EventReceived e # es) =
     io_seq (write_frame (cl_stream K) (cl_events K) e) (send_events K es)"

definition serve_connection ::
  "('w, 'n, 'h) client_link \<Rightarrow> ('n daemon_envelope \<Rightarrow> 'w \<Rightarrow> ('n, 'h) daemon_response \<times> 'w) \<Rightarrow>
     'h event_receipt list \<Rightarrow> ('w, coded_error, unit) fallible"
where
  "serve_connection K handle receipts =
     io_bind (io_result (read_frame (cl_stream K) (cl_envelopes K))) (\<lambda>v.
     case v of
       Inl e \<Rightarrow> io_bind (io_result (write_frame (cl_stream K) (cl_responses K) (response_failure [] e)))
         (\<lambda>_. io_fail e)
     | Inr v \<Rightarrow>
         io_bind (\<lambda>w. case handle v w of (r, w') \<Rightarrow> (Inr r, w')) (\<lambda>r.
         io_seq (write_frame (cl_stream K) (cl_responses K) r)
           (if dr_error r = None \<and> en_request v = Subscribe then send_events K receipts
            else io_return ())))"

text \<open>Connections of other users are dropped before anything is read.\<close>

fun serve_peers ::
  "u32 \<Rightarrow> (u32 \<Rightarrow> 'w \<Rightarrow> 'w) \<Rightarrow> (string, u32) result list \<Rightarrow> ('w, coded_error, unit) fallible"
where
  "serve_peers uid serve [] = io_return ()"
| "serve_peers uid serve (Inl e # peers) =
     io_fail (coded ''IPC_PEER_CREDENTIALS_FAILED'' (''could not read SO_PEERCRED: '' @ e))"
| "serve_peers uid serve (Inr who # peers) =
     (if who \<noteq> uid then serve_peers uid serve peers
      else io_seq (\<lambda>w. (Inr (), serve who w)) (serve_peers uid serve peers))"


section \<open>Round trips\<close>

text \<open>A connected pair in memory: what was written and not yet read.\<close>

definition memory_stream :: "string byte_stream" where
  "memory_stream = \<lparr>
     bs_read_exact = (\<lambda>n s. if n \<le> length s then (Inr (take n s), drop n s)
       else (Inl (EndOfFile ''early eof''), [])),
     bs_write_all = (\<lambda>bytes s. (Inr (), s @ bytes)), bs_flush = io_return ()\<rparr>"

definition sendable :: "'a codec \<Rightarrow> 'a \<Rightarrow> bool" where
  "sendable C v = (case cd_encode C v of
     Inl _ \<Rightarrow> False
   | Inr body \<Rightarrow> cd_decode C body = Inr v \<and> utf8_valid body \<and>
       length body \<le> MAX_FRAME_BYTES)"

fun write_frames :: "'w byte_stream \<Rightarrow> 'a codec \<Rightarrow> 'a list \<Rightarrow> ('w, coded_error, unit) fallible" where
  "write_frames S C [] = io_return ()"
| "write_frames S C (v # vs) = io_seq (write_frame S C v) (write_frames S C vs)"

fun read_frames :: "'w byte_stream \<Rightarrow> 'a codec \<Rightarrow> nat \<Rightarrow> ('w, coded_error, 'a list) fallible" where
  "read_frames S C 0 = io_return []"
| "read_frames S C (Suc n) =
     io_bind (read_frame S C) (\<lambda>v. io_bind (read_frames S C n) (\<lambda>vs. io_return (v # vs)))"

lemma of_char_byte: "0 \<le> n \<Longrightarrow> n < 256 \<Longrightarrow> (of_char (byte n) :: nat) = nat n"
  unfolding byte_def by (cases n) (simp_all add: of_char_of)

lemma length_big_endian [simp]: "length (big_endian n) = 4"
  by (simp add: big_endian_def)

lemma base_256:
  assumes "0 \<le> (m::int)" "m < 2 ^ 32"
  shows "256 * (256 * (256 * (m div 2 ^ 24 mod 256) + m div 2 ^ 16 mod 256) + m div 2 ^ 8 mod 256)
    + m mod 256 = m"
proof -
  have parts: "m div 2 ^ 8 = m div 256" "m div 2 ^ 16 = m div 256 div 256"
    "m div 2 ^ 24 = m div 256 div 256 div 256"
    by (simp_all flip: zdiv_zmult2_eq)
  have "m div 2 ^ 24 < 256" using assms by (simp add: div_less_iff_less_mult)
  then have "m div 2 ^ 24 mod 256 = m div 2 ^ 24"
    using assms by (intro mod_pos_pos_trivial) (simp_all add: pos_imp_zdiv_nonneg_iff)
  then show ?thesis unfolding parts by (simp only: mult_div_mod_eq)
qed

lemma big_endian_back: "from_big_endian (big_endian n) = unat n"
proof -
  let ?m = "uint n"
  have m: "0 \<le> ?m" "?m < 2 ^ 32" using unsigned_less [where 'a = int, of n] by simp_all
  have digit: "(of_char (byte (uint (drop_bit k n) mod 256)) :: nat) = nat (?m div 2 ^ k mod 256)" for k
  proof -
    have "uint (drop_bit k n) = ?m div 2 ^ k"
      using m by (simp only: unsigned_drop_bit_eq drop_bit_eq_div [where 'a = int])
        (simp add: take_bit_int_eq_self)
    then show ?thesis by (simp only: of_char_byte pos_mod_bound pos_mod_sign zero_less_numeral)
  qed
  have "from_big_endian (big_endian n) = nat (256 * (256 * (256 * (?m div 2 ^ 24 mod 256) +
      ?m div 2 ^ 16 mod 256) + ?m div 2 ^ 8 mod 256) + ?m mod 256)"
    using m by (simp add: from_big_endian_def big_endian_def digit nat_add_distrib nat_mult_distrib
      digit [of 0, simplified])
  then show ?thesis unfolding base_256 [OF m] by simp
qed

lemma frame_back:
  assumes "sendable C v"
  shows "\<exists>frame. (\<forall>s. write_frame memory_stream C v s = (Inr (), s @ frame)) \<and>
    (\<forall>rest. read_frame memory_stream C (frame @ rest) = (Inr v, rest))"
proof -
  obtain body where body: "cd_encode C v = Inr body" "cd_decode C body = Inr v" "utf8_valid body"
    "length body \<le> MAX_FRAME_BYTES"
    using assms by (auto simp: sendable_def split: sum.splits)
  have "unat (of_nat (length body) :: u32) = length body"
    using body(4) by (simp add: MAX_FRAME_BYTES_def unsigned_of_nat take_bit_nat_eq_self)
  then have header: "from_big_endian (big_endian (of_nat (length body))) = length body"
    by (simp add: big_endian_back)
  show ?thesis
  proof (rule exI [of _ "big_endian (of_nat (length body)) @ body"], intro conjI allI)
    show "write_frame memory_stream C v s = (Inr (), s @ big_endian (of_nat (length body)) @ body)" for s
      using body by (simp add: write_frame_def memory_stream_def io_bind_def io_seq_def io_map_err_def
        map_err_def io_guard_def)
    show "read_frame memory_stream C ((big_endian (of_nat (length body)) @ body) @ rest) = (Inr v, rest)"
      for rest
      using body by (simp add: read_frame_def memory_stream_def io_bind_def io_seq_def io_map_err_def
        map_err_def io_guard_def header Let_def)
  qed
qed

text \<open>
  C35. Framing round trip: messages within the size limit, written one after another to a connection, are
  read back as the same messages in the same order, and nothing is left over. The codec decodes what it
  encodes.
\<close>

theorem frames_read_back:
  assumes "list_all (sendable C) vs"
  shows "io_seq (write_frames memory_stream C vs) (read_frames memory_stream C (length vs)) [] = (Inr vs, [])"
proof -
  have "\<exists>bytes. (\<forall>s. write_frames memory_stream C vs s = (Inr (), s @ bytes)) \<and>
      read_frames memory_stream C (length vs) bytes = (Inr vs, [])"
    using assms
  proof (induction vs)
    case (Cons v vs)
    then obtain bytes where bytes: "\<And>s. write_frames memory_stream C vs s = (Inr (), s @ bytes)"
      "read_frames memory_stream C (length vs) bytes = (Inr vs, [])" by auto
    have "sendable C v" using Cons.prems by simp
    from frame_back [OF this] obtain frame where frame:
      "\<forall>s. write_frame memory_stream C v s = (Inr (), s @ frame)"
      "\<forall>rest. read_frame memory_stream C (frame @ rest) = (Inr v, rest)"
      by blast
    show ?case
      by (rule exI [of _ "frame @ bytes"]) (simp add: io_seq_def io_bind_def frame bytes)
  qed (simp add: io_return_def)
  then show ?thesis by (auto simp: io_seq_def io_bind_def)
qed

definition text_codec :: "string codec" where
  "text_codec = \<lparr>cd_encode = Inr, cd_decode = Inr, cd_utf8_error = (\<lambda>_. [])\<rparr>"

theorem frames_read_back_witness:
  "io_seq (write_frames memory_stream text_codec [''ab'', []]) 
     (read_frames memory_stream text_codec (length [''ab'', []])) [] = (Inr [''ab'', []], [])"
  by (rule frames_read_back) (simp add: sendable_def text_codec_def MAX_FRAME_BYTES_def)

text \<open>A length above the limit is refused before the payload is read.\<close>

lemma oversized_refused:
  "MAX_FRAME_BYTES < unat n \<Longrightarrow>
   read_frame memory_stream C (big_endian n @ rest) = (Inl (frame_too_large (unat n)), rest)"
  by (simp add: read_frame_def memory_stream_def io_bind_def io_seq_def io_map_err_def map_err_def
    big_endian_back Let_def)

text \<open>
  The daemon and its clients agree on identities: every answer of the daemon to an envelope passes the
  check the client makes of it.
\<close>

lemma answers_accepted:
  assumes "handle_envelope P v s = (Inr r, s')"
  shows "validate_response_identity r (en_request_id v) = Inr ()"
proof -
  obtain x s1 where "answer P (en_request v) s = (x, s1)"
    by (cases "answer P (en_request v) s")
  with assms show ?thesis
    by (cases x) (auto simp: handle_envelope_def validate_response_identity_def response_failure_def
      response_success_def io_bind_def io_result_def split: if_splits)
qed

end
