(* ===== verification/Disk.thy ===== *)
theory Disk
  imports Effect_Rules Paths
begin

text \<open>
  The part of \<open>std::fs\<close> the stores use, on a disk: what each path names, who owns it and with which
  permissions, and a schedule of faults. Every operation may fail with the error scheduled for it, and a
  write that fails may leave any prefix behind. A schedule that fails every operation from some point on
  is a crash at that point.
\<close>

section \<open>Disks\<close>

text \<open>A symbolic link says whether it leads anywhere.\<close>

datatype io_kind = NotFound | AlreadyExists | SymlinkLoop | WouldBlock | ConnectionRefused | OtherKind

record io_error =
  ie_kind :: io_kind
  ie_text :: string

datatype node_kind = FileNode string | DirectoryNode | SymlinkNode bool | SocketNode

record node =
  nd_kind :: node_kind
  nd_uid :: u32
  nd_mode :: u32

record fault =
  ft_error :: io_error
  ft_written :: nat

record disk =
  dk_tree :: "path \<Rightarrow> node option"
  dk_faults :: "nat \<Rightarrow> fault option"
  dk_clock :: nat
  dk_user :: u32

type_synonym 'a disk_io = "(disk, io_error, 'a) fallible"

definition io_failure :: "io_kind \<Rightarrow> string \<Rightarrow> io_error" where
  "io_failure k t = \<lparr>ie_kind = k, ie_text = t\<rparr>"

text \<open>One operation: it fails as scheduled, without an effect, or runs.\<close>

definition attempt :: "'a disk_io \<Rightarrow> 'a disk_io" where
  "attempt m d =
     (let d' = d\<lparr>dk_clock := dk_clock d + 1\<rparr> in
      case dk_faults d (dk_clock d) of Some f \<Rightarrow> (Inl (ft_error f), d') | None \<Rightarrow> m d')"

definition node_is_file :: "node \<Rightarrow> bool" where
  "node_is_file n = (case nd_kind n of FileNode _ \<Rightarrow> True | _ \<Rightarrow> False)"

definition put :: "path \<Rightarrow> node option \<Rightarrow> disk \<Rightarrow> disk" where
  "put p n d = d\<lparr>dk_tree := (dk_tree d)(p := n)\<rparr>"

definition contents :: "disk \<Rightarrow> path \<Rightarrow> string option" where
  "contents d p = (case dk_tree d p of
     None \<Rightarrow> None
   | Some n \<Rightarrow> (case nd_kind n of FileNode bytes \<Rightarrow> Some bytes | _ \<Rightarrow> None))"

lemma put_simps [simp]:
  "dk_tree (put p n d) = (dk_tree d)(p := n)" "dk_faults (put p n d) = dk_faults d"
  "dk_clock (put p n d) = dk_clock d" "dk_user (put p n d) = dk_user d"
  by (simp_all add: put_def)

section \<open>Operations\<close>

text \<open>Permissions are octal in the source: \<open>0x1ED\<close> is \<open>0o755\<close>, \<open>0x1C0\<close> \<open>0o700\<close>, \<open>0x180\<close> \<open>0o600\<close>.\<close>

definition existing :: "path \<Rightarrow> disk \<Rightarrow> (io_error, node) result" where
  "existing p d = ok_or (io_failure NotFound ''No such file or directory'') (dk_tree d p)"

definition symlink_metadata :: "path \<Rightarrow> node disk_io" where
  "symlink_metadata p = attempt (\<lambda>d. (existing p d, d))"

definition create_dir_all :: "path \<Rightarrow> unit disk_io" where
  "create_dir_all p = attempt (\<lambda>d.
     case dk_tree d p of
       None \<Rightarrow> (Inr (), put p (Some \<lparr>nd_kind = DirectoryNode, nd_uid = dk_user d, nd_mode = 0x1ED\<rparr>) d)
     | Some n \<Rightarrow> (case nd_kind n of
         FileNode _ \<Rightarrow> (Inl (io_failure AlreadyExists ''File exists''), d)
       | SocketNode \<Rightarrow> (Inl (io_failure AlreadyExists ''File exists''), d)
       | _ \<Rightarrow> (Inr (), d)))"

definition set_permissions :: "path \<Rightarrow> u32 \<Rightarrow> unit disk_io" where
  "set_permissions p mode = attempt (\<lambda>d. case existing p d of
     Inl e \<Rightarrow> (Inl e, d) | Inr n \<Rightarrow> (Inr (), put p (Some (n\<lparr>nd_mode := mode\<rparr>)) d))"

text \<open>Opening with \<open>O_NOFOLLOW\<close>; the handle is the path.\<close>

definition open_nofollow :: "path \<Rightarrow> unit disk_io" where
  "open_nofollow p = attempt (\<lambda>d. case existing p d of
     Inl e \<Rightarrow> (Inl e, d)
   | Inr n \<Rightarrow> if nd_kind n \<in> {SymlinkNode True, SymlinkNode False}
       then (Inl (io_failure SymlinkLoop ''Too many levels of symbolic links''), d) else (Inr (), d))"

definition read_file :: "path \<Rightarrow> nat \<Rightarrow> string disk_io" where
  "read_file p limit = attempt (\<lambda>d. case contents d p of
     None \<Rightarrow> (Inl (io_failure OtherKind ''Is a directory''), d) | Some bytes \<Rightarrow> (Inr (take limit bytes), d))"

definition read_to_end :: "path \<Rightarrow> string disk_io" where
  "read_to_end p = attempt (\<lambda>d. case contents d p of
     None \<Rightarrow> (Inl (io_failure OtherKind ''Is a directory''), d) | Some bytes \<Rightarrow> (Inr bytes, d))"

definition effective_uid :: "disk \<Rightarrow> ('e, u32) result \<times> disk" where
  "effective_uid d = (Inr (dk_user d), d)"

definition create_new :: "path \<Rightarrow> u32 \<Rightarrow> unit disk_io" where
  "create_new p mode = attempt (\<lambda>d. case dk_tree d p of
     Some _ \<Rightarrow> (Inl (io_failure AlreadyExists ''File exists''), d)
   | None \<Rightarrow> (Inr (), put p (Some \<lparr>nd_kind = FileNode [], nd_uid = dk_user d, nd_mode = mode\<rparr>) d))"

definition append_bytes :: "path \<Rightarrow> string \<Rightarrow> disk \<Rightarrow> disk" where
  "append_bytes p bytes d = (case dk_tree d p of
     Some n \<Rightarrow> (case nd_kind n of
         FileNode old \<Rightarrow> put p (Some (n\<lparr>nd_kind := FileNode (old @ bytes)\<rparr>)) d
       | _ \<Rightarrow> d)
   | None \<Rightarrow> d)"

definition write_all :: "path \<Rightarrow> string \<Rightarrow> unit disk_io" where
  "write_all p bytes d =
     (let d' = d\<lparr>dk_clock := dk_clock d + 1\<rparr> in
      case dk_faults d (dk_clock d) of
        Some f \<Rightarrow> (Inl (ft_error f), append_bytes p (take (ft_written f) bytes) d')
      | None \<Rightarrow> (Inr (), append_bytes p bytes d'))"

definition sync_all :: "path \<Rightarrow> unit disk_io" where
  "sync_all p = attempt (\<lambda>d. (Inr (), d))"

definition rename :: "path \<Rightarrow> path \<Rightarrow> unit disk_io" where
  "rename p q = attempt (\<lambda>d. case existing p d of
     Inl e \<Rightarrow> (Inl e, d) | Inr n \<Rightarrow> (Inr (), put q (Some n) (put p None d)))"

definition remove_file :: "path \<Rightarrow> unit disk_io" where
  "remove_file p = attempt (\<lambda>d. case existing p d of
     Inl e \<Rightarrow> (Inl e, d)
   | Inr n \<Rightarrow> if nd_kind n = DirectoryNode then (Inl (io_failure OtherKind ''Is a directory''), d)
       else (Inr (), put p None d))"

text \<open>\<open>Path::exists\<close>: false when it cannot be told.\<close>

definition path_exists :: "path \<Rightarrow> disk \<Rightarrow> ('e, bool) result \<times> disk" where
  "path_exists p d = (case attempt (\<lambda>d. (existing p d, d)) d of
     (Inl _, d') \<Rightarrow> (Inr False, d') | (Inr n, d') \<Rightarrow> (Inr (nd_kind n \<noteq> SymlinkNode False), d'))"

text \<open>Opening a directory and \<open>sync_all\<close> on it.\<close>

definition sync_directory :: "path \<Rightarrow> unit disk_io" where
  "sync_directory p = io_seq (attempt (\<lambda>d. case existing p d of Inl e \<Rightarrow> (Inl e, d) | Inr _ \<Rightarrow> (Inr (), d)))
     (sync_all p)"

section \<open>Replacing a file\<close>

text \<open>
  The sequence every store uses: a new file beside the old one, written and synchronised, then renamed
  over it. \<open>texts\<close> turns the error of each step into the store's own.
\<close>

record 'e replace_texts =
  xt_create :: "string \<Rightarrow> 'e"
  xt_write :: "string \<Rightarrow> 'e"
  xt_sync :: "string \<Rightarrow> 'e"
  xt_rename :: "string \<Rightarrow> 'e"
  xt_directory :: "string \<Rightarrow> 'e"

definition told :: "(string \<Rightarrow> 'e) \<Rightarrow> 'a disk_io \<Rightarrow> (disk, 'e, 'a) fallible" where
  "told f m = io_map_err (\<lambda>e. f (ie_text e)) m"

definition replace_steps ::
  "'e replace_texts \<Rightarrow> path \<Rightarrow> path \<Rightarrow> path \<Rightarrow> string \<Rightarrow> (disk, 'e, unit) fallible"
where
  "replace_steps X directory temporary path bytes =
     io_seq (told (xt_create X) (create_new temporary 0x180))
     (io_seq (told (xt_write X) (write_all temporary bytes))
     (io_seq (told (xt_sync X) (sync_all temporary))
     (io_seq (told (xt_rename X) (rename temporary path))
       (told (xt_directory X) (sync_directory directory)))))"

text \<open>Cleaning up when a sequence fails; what the cleanup says is ignored.\<close>

definition on_failure ::
  "(disk, io_error, 'b) fallible \<Rightarrow> (disk, 'e, 'a) fallible \<Rightarrow> (disk, 'e, 'a) fallible"
where
  "on_failure cleanup m =
     io_bind (io_result m) (\<lambda>r.
       case r of
         Inr a \<Rightarrow> io_return a
       | Inl e \<Rightarrow> io_bind (io_result cleanup) (\<lambda>_. io_fail e))"

definition replace_file ::
  "'e replace_texts \<Rightarrow> path \<Rightarrow> path \<Rightarrow> path \<Rightarrow> string \<Rightarrow> (disk, 'e, unit) fallible"
where
  "replace_file X directory temporary path bytes =
     on_failure (remove_file temporary) (replace_steps X directory temporary path bytes)"

text \<open>A directory that is created if missing, checked, and made private.\<close>

record 'e directory_texts =
  xd_create :: "string \<Rightarrow> 'e"
  xd_inspect :: "string \<Rightarrow> 'e"
  xd_secure :: "string \<Rightarrow> 'e"
  xd_unsafe :: 'e

definition ensure_directory ::
  "'e directory_texts \<Rightarrow> (node \<Rightarrow> bool) \<Rightarrow> path \<Rightarrow> (disk, 'e, unit) fallible"
where
  "ensure_directory X safe p =
     io_seq (told (xd_create X) (create_dir_all p))
     (io_bind (told (xd_inspect X) (symlink_metadata p)) (\<lambda>m.
     io_seq (io_guard (nd_kind m = DirectoryNode \<and> safe m) (xd_unsafe X))
       (told (xd_secure X) (set_permissions p 0x1C0))))"

definition node_size :: "node \<Rightarrow> nat" where
  "node_size m = (case nd_kind m of FileNode bytes \<Rightarrow> length bytes | _ \<Rightarrow> 0)"

subsection \<open>What it leaves\<close>

definition node_at :: "path \<Rightarrow> node option \<Rightarrow> disk \<Rightarrow> bool" where
  "node_at p n d \<longleftrightarrow> dk_tree d p = n"

definition file_at :: "path \<Rightarrow> string \<Rightarrow> disk \<Rightarrow> bool" where
  "file_at p bytes d \<longleftrightarrow> contents d p = Some bytes"

lemma node_at_clock [simp]: "node_at p n (d\<lparr>dk_clock := c\<rparr>) = node_at p n d" "file_at p b (d\<lparr>dk_clock := c\<rparr>) = file_at p b d"
  by (simp_all add: node_at_def file_at_def contents_def)

lemma node_at_put [simp]:
  "p \<noteq> q \<Longrightarrow> node_at q n (put p m d) = node_at q n d" "p \<noteq> q \<Longrightarrow> file_at q b (put p m d) = file_at q b d"
  by (simp_all add: node_at_def file_at_def contents_def)

lemma node_at_append [simp]:
  "p \<noteq> q \<Longrightarrow> node_at q n (append_bytes p b d) = node_at q n d"
  by (simp add: append_bytes_def split: option.splits node_kind.splits)

lemma hoare_attempt:
  "(\<And>d. P d \<Longrightarrow> P (d\<lparr>dk_clock := dk_clock d + 1\<rparr>)) \<Longrightarrow>
   (\<And>d. P d \<Longrightarrow> E (d\<lparr>dk_clock := dk_clock d + 1\<rparr>)) \<Longrightarrow> hoare P m Q E \<Longrightarrow> hoare P (attempt m) Q E"
  by (rule hoareI) (auto simp: attempt_def Let_def dest: hoareD split: option.splits)


lemma file_at_new [simp]:
  "file_at p b (put p (Some n) d) \<longleftrightarrow> nd_kind n = FileNode b"
  by (auto simp: file_at_def contents_def split: node_kind.splits)

lemma append_new: "file_at p old d \<Longrightarrow> file_at p (old @ b) (append_bytes p b d)"
  by (auto simp: append_bytes_def file_at_def contents_def split: option.splits node_kind.splits)

lemma append_first: "file_at p [] d \<Longrightarrow> file_at p b (append_bytes p b d)"
  using append_new [of p "[]"] by simp

lemma create_leaves:
  "temporary \<noteq> path \<Longrightarrow> hoare (node_at path n) (create_new temporary mode)
     (\<lambda>_ d. node_at path n d \<and> file_at temporary [] d) (node_at path n)"
  unfolding create_new_def
  by (rule hoare_attempt) (auto intro!: hoareI split: option.splits)

lemma write_leaves:
  "temporary \<noteq> path \<Longrightarrow> hoare (\<lambda>d. node_at path n d \<and> file_at temporary [] d) (write_all temporary bytes)
     (\<lambda>_ d. node_at path n d \<and> file_at temporary bytes d) (node_at path n)"
  by (rule hoareI) (auto simp: write_all_def Let_def intro!: append_first split: option.splits)

lemma attempt_keeps:
  "(\<And>d. P d \<Longrightarrow> P (d\<lparr>dk_clock := dk_clock d + 1\<rparr>)) \<Longrightarrow> (\<And>d. P d \<Longrightarrow> P (snd (m d))) \<Longrightarrow>
   keeps P (attempt m)"
  by (rule keepsI) (auto simp: attempt_def Let_def split: option.splits)

definition clockless :: "(disk \<Rightarrow> bool) \<Rightarrow> bool" where
  "clockless P \<longleftrightarrow> (\<forall>d c. P (d\<lparr>dk_clock := c\<rparr>) = P d)"

lemma clockless_parts [simp]:
  "clockless (node_at p n)" "clockless (file_at p b)"
  "clockless P \<Longrightarrow> clockless Q \<Longrightarrow> clockless (\<lambda>d. P d \<and> Q d)"
  "clockless P \<Longrightarrow> clockless Q \<Longrightarrow> clockless (\<lambda>d. P d \<or> Q d)"
  by (simp_all add: clockless_def)

lemma reads_keep:
  assumes "clockless P"
  shows "keeps P (sync_all p)" "keeps P (symlink_metadata p)" "keeps P (open_nofollow p)"
    "keeps P (read_file p limit)" "keeps P (read_to_end p)"
  using assms unfolding sync_all_def symlink_metadata_def open_nofollow_def read_file_def read_to_end_def
    clockless_def
  by (auto intro!: attempt_keeps split: sum.split option.split)

lemma sync_directory_keeps: "clockless P \<Longrightarrow> keeps P (sync_directory p)"
  unfolding sync_directory_def clockless_def
  by (auto intro!: keeps_seq attempt_keeps reads_keep split: sum.split simp: clockless_def)

lemma told_hoare: "hoare P m Q E \<Longrightarrow> hoare P (told f m) Q E"
  unfolding told_def by (rule hoare_map_err)

lemma told_keeps: "keeps P m \<Longrightarrow> keeps P (told f m)"
  unfolding told_def by (rule keeps_map_err)

lemma rename_leaves:
  "temporary \<noteq> path \<Longrightarrow> hoare (\<lambda>d. node_at path n d \<and> file_at temporary bytes d) (rename temporary path)
     (\<lambda>_. file_at path bytes) (node_at path n)"
  unfolding rename_def
  by (rule hoare_attempt)
    (auto intro!: hoareI simp: existing_def file_at_def contents_def node_at_def ok_or_def
      split: option.splits sum.splits node_kind.splits)

lemma remove_keeps:
  assumes "temporary \<noteq> path"
  shows "keeps (\<lambda>d. node_at path n d \<or> file_at path bytes d) (remove_file temporary)"
  unfolding remove_file_def using assms
  by (auto intro!: attempt_keeps split: sum.splits if_splits)

text \<open>The old node or the new content, at every point where a fault or a crash can end the sequence.\<close>

definition old_or_new :: "path \<Rightarrow> node option \<Rightarrow> string \<Rightarrow> disk \<Rightarrow> bool" where
  "old_or_new p n bytes d \<longleftrightarrow> node_at p n d \<or> file_at p bytes d"

lemma replace_steps_leave:
  assumes "temporary \<noteq> path"
  shows "hoare (node_at path n) (replace_steps X directory temporary path bytes)
    (\<lambda>_. file_at path bytes) (old_or_new path n bytes)"
proof -
  have old: "hoare P m Q (node_at path n) \<Longrightarrow> hoare P m Q (old_or_new path n bytes)" for P Q
    and m :: "(disk, 'x, unit) fallible"
    by (erule hoare_conseq) (simp_all add: old_or_new_def)
  have sync: "hoare (\<lambda>d. node_at path n d \<and> file_at temporary bytes d) (sync_all temporary)
      (\<lambda>_ d. node_at path n d \<and> file_at temporary bytes d) (node_at path n)"
    by (rule hoare_conseq [OF hoare_keeps [OF reads_keep(1)
      [of "\<lambda>d. node_at path n d \<and> file_at temporary bytes d"]]]) simp_all
  have directory: "hoare (file_at path bytes) (sync_directory directory) (\<lambda>_. file_at path bytes)
      (old_or_new path n bytes)"
    by (rule hoare_conseq [OF hoare_keeps [OF sync_directory_keeps [of "file_at path bytes"]]])
      (simp_all add: old_or_new_def)
  show ?thesis
    unfolding replace_steps_def
    by (rule hoare_seq, rule told_hoare, rule old, rule create_leaves [OF assms],
        rule hoare_seq, rule told_hoare, rule old, rule write_leaves [OF assms],
        rule hoare_seq, rule told_hoare, rule old, rule sync,
        rule hoare_seq, rule told_hoare, rule old, rule rename_leaves [OF assms],
        rule told_hoare, rule directory)
qed

lemma on_failure_leaves:
  assumes "hoare P m Q E" "keeps E cleanup"
  shows "hoare P (on_failure cleanup m) Q E"
  unfolding on_failure_def
proof (rule hoare_bind [where R = "case_sum (\<lambda>_. E) Q"])
  show "hoare P (io_result m) (case_sum (\<lambda>_. E) Q) E"
    by (rule hoare_result, rule hoare_conseq [OF assms(1)]) simp_all
  show "hoare (case_sum (\<lambda>_. E) Q r)
      (case r of Inr a \<Rightarrow> io_return a | Inl e \<Rightarrow> io_bind (io_result cleanup) (\<lambda>_. io_fail e)) Q E" for r
  proof (cases r)
    case (Inl e)
    have "hoare E (io_bind (io_result cleanup) (\<lambda>_. io_fail e)) Q E"
      by (intro hoare_bind [OF hoare_keeps [OF keeps_result [OF assms(2)]]] hoare_fail)
    with Inl show ?thesis by simp
  qed (simp add: hoare_return)
qed

lemma remove_keeps_old_or_new:
  "temporary \<noteq> path \<Longrightarrow> keeps (old_or_new path n bytes) (remove_file temporary)"
  using remove_keeps by (simp add: old_or_new_def [abs_def])

lemma replace_file_leaves:
  assumes "temporary \<noteq> path"
  shows "hoare (node_at path n) (replace_file X directory temporary path bytes)
    (\<lambda>_. file_at path bytes) (old_or_new path n bytes)"
  unfolding replace_file_def
  by (rule on_failure_leaves [OF replace_steps_leave [OF assms] remove_keeps_old_or_new [OF assms]])

lemma ensure_directory_keeps:
  assumes "directory \<noteq> path"
  shows "keeps (node_at path n) (ensure_directory X safe directory)"
proof -
  have "keeps (node_at path n) (create_dir_all directory)" "keeps (node_at path n) (set_permissions directory m)" for m
    unfolding create_dir_all_def set_permissions_def using assms
    by (auto intro!: attempt_keeps split: option.splits sum.splits node_kind.splits)
  then show ?thesis
    unfolding ensure_directory_def
    by (intro keeps_seq keeps_bind told_keeps reads_keep keeps_simps keeps_if) simp_all
qed

lemma keeps_old:
  "keeps (node_at p n) m \<Longrightarrow> hoare (node_at p n) m (\<lambda>_. node_at p n) (old_or_new p n bytes)"
  by (rule hoare_conseq [OF hoare_keeps [of "node_at p n"]]) (simp_all add: old_or_new_def)

lemma effective_uid_keeps: "keeps P effective_uid"
  by (rule keepsI) (simp add: effective_uid_def)

lemma path_exists_keeps: "clockless P \<Longrightarrow> keeps P (path_exists p)"
  by (rule keepsI) (auto simp: path_exists_def attempt_def clockless_def Let_def
    split: option.splits sum.splits prod.splits)

end
