(* ===== verification/Journal_File.thy ===== *)
theory Journal_File
  imports Disk Journal
begin

text \<open>
  The journal on disk (\<open>FileAppliedStateStore\<close> and \<open>decode_journal\<close> in
  \<open>src/src/backend/privileged.rs\<close>): the checks before a file is trusted, the decoding by schema
  version, and the atomic replacement. serde_json at the journal types, the process identifier and the
  clock are parameters.
\<close>

unbundle bit_operations_syntax

section \<open>Decoding\<close>

record ('n, 'h) journal_codec =
  jc_value :: "string \<Rightarrow> (string, json) result"
  jc_legacy_v1 :: "json \<Rightarrow> (string, 'n legacy_journal_v1) result"
  jc_legacy_v2 :: "string \<Rightarrow> (string, ('n, 'h) legacy_journal_v2) result"
  jc_current :: "json \<Rightarrow> (string, ('n, 'h) stored_state) result"
  jc_encode :: "('n, 'h) stored_state \<Rightarrow> (string, string) result"
  jc_show :: "json \<Rightarrow> string"

definition state_error :: "string \<Rightarrow> string" where
  "state_error m = ''applied-state persistence failed: '' @ m"

definition decode_journal ::
  "('n, 'h) journal_codec \<Rightarrow> string \<Rightarrow> (string, ('n, 'h) stored_state) result"
where
  "decode_journal J bytes =
     and_then (map_err (\<lambda>e. state_error (''decode persisted applied state: '' @ e)) (jc_value J bytes))
       (\<lambda>value.
     case jget ''journal_version'' value of
       None \<Rightarrow>
         and_then (map_err (\<lambda>e. state_error (''decode unversioned schema-1 applied state: '' @ e))
             (jc_legacy_v1 J value))
           (\<lambda>legacy. Inr (default_stored\<lparr>sa_legacy_v1 := Some legacy\<rparr>))
     | Some version \<Rightarrow>
         if as_u64 version = Some 2
         then and_then (jc_legacy_v2 J bytes) (\<lambda>legacy. Inr (default_stored\<lparr>sa_legacy_v2 := Some legacy\<rparr>))
         else if as_u64 version \<noteq> Some (uint JOURNAL_VERSION)
         then Inl (state_error (''unsupported applied-state journal version '' @ jc_show J version))
         else map_err (\<lambda>e. state_error (''decode persisted applied state: '' @ e)) (jc_current J value))"

section \<open>The file\<close>

definition MAX_RUNTIME_RECORD_BYTES :: nat where
  "MAX_RUNTIME_RECORD_BYTES = 1024 * 1024 + 64 * 1024"

definition MAX_STATE_BYTES :: nat where
  "MAX_STATE_BYTES = 1024 * 1024 * 3 + MAX_RUNTIME_RECORD_BYTES * 3 + 256 * 1024"

record journal_site =
  js_directory :: path
  js_path :: path
  js_process :: u32
  js_nonce :: "(string, nat) result"

text \<open>\<open>STATE_DIRECTORY\<close> and \<open>STATE_FILE\<close>; the clock reading names the temporary file.\<close>

definition default_site :: "u32 \<Rightarrow> (string, nat) result \<Rightarrow> journal_site" where
  "default_site process nonce = \<lparr>js_directory = ''/run/routelane'',
     js_path = ''/run/routelane/applied-plan.json'', js_process = process, js_nonce = nonce\<rparr>"

definition temporary_path :: "journal_site \<Rightarrow> nat \<Rightarrow> path" where
  "temporary_path S nonce = path_join (js_directory S)
     (''.applied-plan.'' @ word_to_string (js_process S) @ ''.'' @ decimal (int nonce) @ ''.tmp'')"

type_synonym 'a state_io = "(disk, string, 'a) fallible"

definition ensure_root_owned_directory :: "path \<Rightarrow> unit state_io" where
  "ensure_root_owned_directory = ensure_directory
     \<lparr>xd_create = (\<lambda>e. state_error (''create state directory: '' @ e)),
      xd_inspect = (\<lambda>e. state_error (''inspect state directory: '' @ e)),
      xd_secure = (\<lambda>e. state_error (''secure state directory permissions: '' @ e)),
      xd_unsafe = state_error ''state directory must be a root-owned real directory''\<rparr>
     (\<lambda>m. nd_uid m = 0)"

definition validate_root_owned_file :: "node \<Rightarrow> (string, unit) result" where
  "validate_root_owned_file m =
     (if node_is_file m \<and> nd_uid m = 0 \<and> nd_mode m AND 0x1FF = 0x180
      then Inr () else Inl (state_error ''persisted state must be a root-owned, non-symlink 0600 file''))"

definition state_too_large :: string where
  "state_too_large = state_error ''persisted applied state exceeds the size limit''"

text \<open>A missing file is no journal; any other failure to open it is an error.\<close>

definition file_load ::
  "('n, 'h) journal_codec \<Rightarrow> journal_site \<Rightarrow> ('n, 'h) stored_state option state_io"
where
  "file_load J S =
     io_seq (ensure_root_owned_directory (js_directory S))
     (io_bind (io_result (open_nofollow (js_path S))) (\<lambda>opened.
     case opened of
       Inl e \<Rightarrow>
         if ie_kind e = NotFound then io_return None
         else io_fail (state_error (''open persisted applied state: '' @ ie_text e))
     | Inr _ \<Rightarrow>
         io_bind (told (\<lambda>e. state_error (''read state metadata: '' @ e)) (symlink_metadata (js_path S)))
           (\<lambda>m.
         io_seq (io_lift (validate_root_owned_file m))
         (io_seq (io_guard (node_size m \<le> MAX_STATE_BYTES) state_too_large)
         (io_bind (told (\<lambda>e. state_error (''read persisted applied state: '' @ e))
             (read_file (js_path S) (MAX_STATE_BYTES + 1))) (\<lambda>bytes.
         io_seq (io_guard (length bytes \<le> MAX_STATE_BYTES) state_too_large)
           (io_bind (io_lift (decode_journal J bytes)) (\<lambda>r. io_return (Some r)))))))))"

definition state_texts :: "string replace_texts" where
  "state_texts = \<lparr>xt_create = (\<lambda>e. state_error (''create temporary state file: '' @ e)),
     xt_write = (\<lambda>e. state_error (''write temporary state file: '' @ e)),
     xt_sync = (\<lambda>e. state_error (''sync temporary state file: '' @ e)),
     xt_rename = (\<lambda>e. state_error (''atomically replace applied state: '' @ e)),
     xt_directory = (\<lambda>e. state_error (''sync state directory: '' @ e))\<rparr>"

definition file_save ::
  "('n, 'h) journal_codec \<Rightarrow> journal_site \<Rightarrow> ('n, 'h) stored_state \<Rightarrow> unit state_io"
where
  "file_save J S r =
     io_seq (ensure_root_owned_directory (js_directory S))
     (io_bind (io_lift (map_err (\<lambda>e. state_error (''encode applied state: '' @ e)) (jc_encode J r)))
       (\<lambda>bytes.
     io_seq (io_guard (length bytes \<le> MAX_STATE_BYTES)
       (state_error ''applied state exceeds the persistence size limit''))
     (io_bind (io_lift (map_err (\<lambda>e. state_error (''read system clock: '' @ e)) (js_nonce S))) (\<lambda>nonce.
       replace_file state_texts (js_directory S) (temporary_path S nonce) (js_path S) bytes))))"

definition file_clear :: "journal_site \<Rightarrow> unit state_io" where
  "file_clear S =
     io_seq (ensure_root_owned_directory (js_directory S))
     (io_bind (io_result (remove_file (js_path S))) (\<lambda>removed.
       case removed of
         Inr _ \<Rightarrow> told (\<lambda>e. state_error (''sync state directory: '' @ e)) (sync_directory (js_directory S))
       | Inl e \<Rightarrow> if ie_kind e = NotFound then io_return ()
           else io_fail (state_error (''remove persisted applied state: '' @ ie_text e))))"

definition file_store ::
  "('n, 'h) journal_codec \<Rightarrow> journal_site \<Rightarrow> (disk, 'n, 'h) store"
where
  "file_store J S = \<lparr>js_load = file_load J S, js_save = file_save J S, js_clear = file_clear S\<rparr>"

section \<open>Atomicity\<close>

lemma directory_keeps: "directory \<noteq> path \<Longrightarrow> keeps (node_at path n) (ensure_root_owned_directory directory)"
  unfolding ensure_root_owned_directory_def by (rule ensure_directory_keeps)

lemma save_leaves:
  assumes "js_directory S \<noteq> js_path S" "\<And>nonce. temporary_path S nonce \<noteq> js_path S"
    and "jc_encode J r = Inr bytes"
  shows "hoare (node_at (js_path S) n) (file_save J S r) (\<lambda>_. file_at (js_path S) bytes)
    (old_or_new (js_path S) n bytes)"
  unfolding file_save_def assms(3) map_err_simps io_lift_simps io_simps(4)
  by (rule hoare_seq, rule keeps_old, rule directory_keeps [OF assms(1)], rule hoare_seq, rule keeps_old,
      rule keeps_simps, rule hoare_bind, rule keeps_old, rule keeps_simps,
      rule replace_file_leaves [OF assms(2)])

lemma temporary_differs: "temporary_path (default_site process nonce) n \<noteq> js_path (default_site process nonce)"
  by (simp add: temporary_path_def default_site_def path_join_def)

text \<open>
  C30. The journal file is replaced atomically. Whichever operations of a save fail, and wherever the
  helper is killed in it, the journal's path afterwards holds what it held before or exactly the text of
  the new record, never a part of it; when the save reports success it holds the new text.
\<close>

theorem journal_save_atomic:
  "case jc_encode J r of
     Inl _ \<Rightarrow> True
   | Inr bytes \<Rightarrow>
       (case file_save J (default_site process nonce) r d of
          (Inr _, d') \<Rightarrow> contents d' ''/run/routelane/applied-plan.json'' = Some bytes
        | (Inl _, d') \<Rightarrow>
            dk_tree d' ''/run/routelane/applied-plan.json'' = dk_tree d ''/run/routelane/applied-plan.json'' \<or>
            contents d' ''/run/routelane/applied-plan.json'' = Some bytes)"
proof (cases "jc_encode J r")
  case (Inr bytes)
  let ?S = "default_site process nonce"
  have path: "js_path ?S = ''/run/routelane/applied-plan.json''" by (simp add: default_site_def)
  have "hoare (node_at (js_path ?S) (dk_tree d (js_path ?S))) (file_save J ?S r)
      (\<lambda>_. file_at (js_path ?S) bytes) (old_or_new (js_path ?S) (dk_tree d (js_path ?S)) bytes)"
    by (rule save_leaves [OF _ temporary_differs Inr]) (simp add: default_site_def)
  then have "hoare (node_at (js_path ?S) (dk_tree d (js_path ?S))) (file_save J ?S r)
      (\<lambda>_ d'. contents d' (js_path ?S) = Some bytes)
      (\<lambda>d'. dk_tree d' (js_path ?S) = dk_tree d (js_path ?S) \<or> contents d' (js_path ?S) = Some bytes)"
    by (rule hoare_conseq) (simp_all add: old_or_new_def node_at_def file_at_def)
  from hoareD [OF this] show ?thesis
    unfolding path by (auto simp: Inr node_at_def split: prod.split sum.split)
qed simp

section \<open>A load reads what was saved\<close>

lemma load_reads:
  assumes "js_directory S \<noteq> js_path S" "file_load J S d = (Inr (Some r), d')"
  shows "\<exists>bytes. contents d (js_path S) = Some bytes \<and> decode_journal J bytes = Inr r"
proof -
  have kept: "keeps (node_at (js_path S) n) (ensure_root_owned_directory (js_directory S))" for n
    by (rule directory_keeps [OF assms(1)])
  from assms(2) obtain u d1 where first: "ensure_root_owned_directory (js_directory S) d = (Inr u, d1)"
    by (auto simp: file_load_def io_seq_def io_bind_Inr)
  have same: "dk_tree d1 (js_path S) = dk_tree d (js_path S)"
    using keepsD [OF kept _ first, of "dk_tree d (js_path S)"] by (simp add: node_at_def)
  from assms(2) first show ?thesis
    by (auto simp: file_load_def io_seq_def io_bind_def io_result_def told_def io_map_err_def map_err_def
      open_nofollow_def symlink_metadata_def read_file_def attempt_def Let_def io_guard_def contents_def
      node_size_def existing_def same MAX_STATE_BYTES_def
      split: option.splits sum.splits prod.splits if_splits node_kind.splits)
qed

text \<open>
  A save can report an error after the record took effect: the directory is synchronised after the
  rename. The caller then rolls the kernel back while the journal says committed.
\<close>

definition fresh_disk :: "(nat \<Rightarrow> fault option) \<Rightarrow> disk" where
  "fresh_disk faults = \<lparr>dk_tree = \<lambda>_. None, dk_faults = faults, dk_clock = 0, dk_user = 0\<rparr>"

lemma save_error_after_commit:
  assumes "jc_encode J r = Inr bytes" "length bytes \<le> MAX_STATE_BYTES"
  shows "\<exists>e d'. file_save J (default_site process (Inr nonce)) r
      (fresh_disk (\<lambda>k. if k = 8 then Some f else None)) = (Inl e, d') \<and>
    contents d' ''/run/routelane/applied-plan.json'' = Some bytes"
proof -
  let ?t = "temporary_path (default_site process (Inr nonce)) nonce"
  have t: "?t \<noteq> ''/run/routelane'' \<and> ?t \<noteq> ''/run/routelane/applied-plan.json''"
    by (simp add: temporary_path_def default_site_def path_join_def)
  show ?thesis
    using t assms
    by (simp add: file_save_def ensure_root_owned_directory_def ensure_directory_def on_failure_def replace_file_def replace_steps_def
      told_def io_map_err_def map_err_def io_seq_def io_bind_def io_result_def attempt_def fresh_disk_def
      create_dir_all_def symlink_metadata_def set_permissions_def existing_def create_new_def write_all_def
      append_bytes_def sync_all_def rename_def sync_directory_def remove_file_def io_guard_def contents_def
      Let_def put_def default_site_def)
qed

end
