(* ===== verification/Config.thy ===== *)
theory Config
  imports Legacy_Journal Json_Value
begin

text \<open>
  The configuration documents (\<open>src/src/config.rs\<close>, \<open>config/v2.rs\<close>, \<open>config/v3.rs\<close>): dispatch on the
  schema version, the migration of every older schema to the current one, and the checks a configuration
  passes before it is used or saved. serde_json at the document types is a parameter; an error is the
  text that is displayed.
\<close>

section \<open>Documents\<close>

datatype language = En | Tr

definition language_from_index :: "u32 \<Rightarrow> language" where
  "language_from_index i = (if i = 1 then En else Tr)"

definition language_index :: "language \<Rightarrow> u32" where
  "language_index l = (case l of Tr \<Rightarrow> 0 | En \<Rightarrow> 1)"

record persisted_rule =
  lr_target_str :: string
  lr_is_domain :: bool
  lr_interface :: string

record persisted_state =
  ls_language :: language
  ls_alt_interface :: "string option"
  ls_rules :: "persisted_rule list"

definition CURRENT_SCHEMA_VERSION :: u32 where "CURRENT_SCHEMA_VERSION = 4"

record 'n config_v4 =
  cv_schema_version :: u32
  cv_routing_notice_pending :: bool
  cv_language :: language
  cv_profiles :: "'n profile list"

record 'n profile_v2 =
  p2_id :: profile_id
  p2_name :: string
  p2_enabled :: bool
  p2_lanes :: "lane list"
  p2_rules :: "'n rule list"

record 'n config_v3 =
  c3_routing_notice_pending :: bool
  c3_language :: language
  c3_profiles :: "'n profile_v3 list"

record 'n config_v2 =
  cw_language :: language
  cw_profiles :: "'n profile_v2 list"

definition profile_of_v2 :: "'n profile_v2 \<Rightarrow> 'n profile" where
  "profile_of_v2 old = \<lparr>p_id = p2_id old, p_name = p2_name old, p_enabled = False,
     p_lanes = p2_lanes old, p_rules = p2_rules old, p_routing = default_routing_policy\<rparr>"

definition profile_of_v3 :: "'n profile_v3 \<Rightarrow> 'n profile" where
  "profile_of_v3 old = \<lparr>p_id = p3_id old, p_name = p3_name old, p_enabled = False,
     p_lanes = p3_lanes old, p_rules = p3_rules old,
     p_routing = \<lparr>rp_unmatched_traffic = PreserveSystem, rp_primary = rp3_primary (p3_routing old),
       rp_backups = rp3_backups (p3_routing old),
       rp_automatic_failover = rp3_automatic_failover (p3_routing old)\<rparr>\<rparr>"

datatype 'n config_document =
    DocV4 "'n config_v4"
  | DocV3 "'n config_v3"
  | DocV2 "'n config_v2"
  | DocLegacy persisted_state

text \<open>\<open>from_slice\<close>, \<open>from_value\<close> and \<open>to_vec\<close> at the types of the documents.\<close>

record 'n config_codec =
  cc_value :: "string \<Rightarrow> (string, json) result"
  cc_v4 :: "json \<Rightarrow> (string, 'n config_v4) result"
  cc_v3 :: "json \<Rightarrow> (string, 'n config_v3) result"
  cc_v2 :: "json \<Rightarrow> (string, 'n config_v2) result"
  cc_legacy :: "json \<Rightarrow> (string, persisted_state) result"
  cc_desired_v4 :: "json \<Rightarrow> (string, 'n profile option) result"
  cc_desired_v3 :: "json \<Rightarrow> (string, 'n profile_v3 option) result"
  cc_desired_v2 :: "json \<Rightarrow> (string, 'n profile_v2) result"
  cc_encode_config :: "'n config_v4 \<Rightarrow> (string, string) result"
  cc_encode_desired :: "'n profile option \<Rightarrow> (string, string) result"
  cc_show :: "json \<Rightarrow> string"

section \<open>Reading a document\<close>

text \<open>\<open>.context(..)\<close>: the text displayed is the context.\<close>

definition with_context :: "string \<Rightarrow> ('e, 'a) result \<Rightarrow> (string, 'a) result" where
  "with_context t r = map_err (\<lambda>_. t) r"

definition legacy_key :: "string \<Rightarrow> bool" where
  "legacy_key k \<longleftrightarrow> k = ''language'' \<or> k = ''alt_interface'' \<or> k = ''rules''"

definition document_from_json ::
  "'n config_codec \<Rightarrow> string \<Rightarrow> (string, 'n config_document) result"
where
  "document_from_json C text =
     and_then (with_context ''configuration is not valid JSON'' (cc_value C text)) (\<lambda>v.
     and_then (ok_or ''configuration root must be an object'' (as_object v)) (\<lambda>m.
     case bt_get m ''schema_version'' of
       Some raw \<Rightarrow>
         (case as_u64 raw of
            None \<Rightarrow> Inl ''schema_version must be the integer 4''
          | Some n \<Rightarrow>
              if n = uint CURRENT_SCHEMA_VERSION
              then and_then (with_context ''version 4 configuration is invalid'' (cc_v4 C v)) (\<lambda>c. Inr (DocV4 c))
              else if n = 3
              then and_then (with_context ''version 3 configuration is invalid'' (cc_v3 C v)) (\<lambda>c. Inr (DocV3 c))
              else if n = 2
              then and_then (with_context ''version 2 configuration is invalid'' (cc_v2 C v)) (\<lambda>c. Inr (DocV2 c))
              else Inl (''unsupported configuration schema version '' @ decimal n))
     | None \<Rightarrow>
         if list_all (\<lambda>(k, _). legacy_key k) m \<and>
            (bt_get m ''alt_interface'' \<noteq> None \<or> bt_get m ''rules'' \<noteq> None)
         then and_then (with_context ''legacy configuration is invalid'' (cc_legacy C v))
           (\<lambda>c. Inr (DocLegacy c))
         else Inl ''configuration does not match the legacy schema''))"

text \<open>The desired profile the daemon keeps; \<open>null\<close> is none.\<close>

definition decode_desired_profile ::
  "'n config_codec \<Rightarrow> string \<Rightarrow> (string, 'n profile option) result"
where
  "decode_desired_profile C text =
     and_then (cc_value C text) (\<lambda>v.
     if v = JNull then Inr None
     else (case jget ''schema_version'' v of
         None \<Rightarrow> and_then (cc_desired_v2 C v) (\<lambda>p. Inr (Some (profile_of_v2 p)))
       | Some raw \<Rightarrow>
           if as_u64 raw = Some 4 then cc_desired_v4 C v
           else if as_u64 raw = Some 3
           then and_then (cc_desired_v3 C v) (\<lambda>p. Inr (map_option profile_of_v3 p))
           else Inl (''unsupported desired profile schema version '' @ cc_show C raw)))"

section \<open>The legacy schema\<close>

definition blank :: "string \<Rightarrow> bool" where
  "blank s \<longleftrightarrow> trim s = []"

fun add_interfaces :: "string list \<Rightarrow> persisted_rule list \<Rightarrow> string list" where
  "add_interfaces seen [] = seen"
| "add_interfaces seen (r # rs) =
     add_interfaces (if \<not> blank (lr_interface r) \<and> lr_interface r \<notin> set seen
       then seen @ [lr_interface r] else seen) rs"

definition legacy_interfaces :: "persisted_state \<Rightarrow> string list" where
  "legacy_interfaces s =
     add_interfaces (case ls_alt_interface s of
         None \<Rightarrow> [] | Some i \<Rightarrow> if blank i then [] else [i]) (ls_rules s)"

definition legacy_name :: "string \<Rightarrow> nat \<Rightarrow> string" where
  "legacy_name prefix index = prefix @ decimal (int (index + 1))"

definition legacy_lane :: "nat \<Rightarrow> string \<Rightarrow> lane" where
  "legacy_lane index interface = \<lparr>
     l_id = (if index = 0 then ''default'' else legacy_name ''legacy-'' index),
     l_name = (if index = 0 then ''Default'' else legacy_name ''Legacy '' index),
     l_interface = interface, l_fallback_lane = None, l_failure_policy = FailInactive\<rparr>"

definition legacy_lanes :: "persisted_state \<Rightarrow> lane list" where
  "legacy_lanes s = map (\<lambda>(i, interface). legacy_lane i interface)
     (List.enumerate 0 (legacy_interfaces s))"

definition legacy_rule_target ::
  "'n foreign \<Rightarrow> persisted_rule \<Rightarrow> (string, 'n rule_target) result"
where
  "legacy_rule_target X r =
     (if lr_is_domain r then Inr (TargetDomain (lr_target_str r))
      else case net_parse X (lr_target_str r) of
        Some n \<Rightarrow> Inr (TargetCidr n)
      | None \<Rightarrow> (case parse_ip (lr_target_str r) of
            Some a \<Rightarrow> Inr (TargetIp a)
          | None \<Rightarrow> Inl (''invalid legacy target '' @ [byte 39] @ lr_target_str r @ [byte 39])))"

text \<open>The lane that was made for an interface.\<close>

definition lane_by_interface :: "lane list \<Rightarrow> string \<Rightarrow> lane_id option" where
  "lane_by_interface lanes interface = map_of (rev (map (\<lambda>l. (l_interface l, l_id l)) lanes)) interface"

definition legacy_rule ::
  "'n foreign \<Rightarrow> lane list \<Rightarrow> nat \<Rightarrow> persisted_rule \<Rightarrow> (string, 'n rule) result"
where
  "legacy_rule X lanes index r =
     and_then (ok_or (''legacy rule '' @ [byte 39] @ lr_target_str r @ [byte 39] @
         '' has no usable interface'') (lane_by_interface lanes (lr_interface r))) (\<lambda>i.
     and_then (legacy_rule_target X r) (\<lambda>target.
       Inr \<lparr>r_id = legacy_name ''legacy-'' index, r_enabled = True,
         r_priority = (if index + 1 < 2 ^ 32 then of_nat (index + 1) else - 1),
         r_source = SourceAny, r_target = target, r_action = ActionRoute i\<rparr>))"

fun legacy_rules ::
  "'n foreign \<Rightarrow> lane list \<Rightarrow> nat \<Rightarrow> persisted_rule list \<Rightarrow> (string, 'n rule list) result"
where
  "legacy_rules X lanes index [] = Inr []"
| "legacy_rules X lanes index (r # rs) =
     and_then (legacy_rule X lanes index r) (\<lambda>x.
     and_then (legacy_rules X lanes (index + 1) rs) (\<lambda>xs. Inr (x # xs)))"

definition migrate_legacy :: "'n foreign \<Rightarrow> persisted_state \<Rightarrow> (string, 'n config_v4) result" where
  "migrate_legacy X s =
     (let lanes = legacy_lanes s in
      and_then (legacy_rules X lanes 0 (ls_rules s)) (\<lambda>rules.
        Inr \<lparr>cv_schema_version = CURRENT_SCHEMA_VERSION, cv_routing_notice_pending = True,
          cv_language = ls_language s,
          cv_profiles = (if lanes = [] \<and> rules = [] then []
            else [\<lparr>p_id = ''default'', p_name = ''Default'', p_enabled = False, p_lanes = lanes,
              p_rules = rules, p_routing = default_routing_policy\<rparr>])\<rparr>))"

section \<open>The current schema\<close>

definition check_config_profile ::
  "'n foreign \<Rightarrow> profile_id set \<times> string set \<Rightarrow> 'n profile \<Rightarrow>
     (string, profile_id set \<times> string set) result"
where
  "check_config_profile X = (\<lambda>(ids, names) p.
     if p_id p \<in> ids then Inl (''duplicate profile id '' @ [byte 39] @ p_id p @ [byte 39])
     else if to_lowercase X (trim (p_name p)) \<in> names
     then Inl (''duplicate profile name '' @ [byte 39] @ p_name p @ [byte 39])
     else Inr (insert (p_id p) ids, insert (to_lowercase X (trim (p_name p))) names))"

definition validate_config_profiles :: "'n foreign \<Rightarrow> 'n profile list \<Rightarrow> (string, unit) result" where
  "validate_config_profiles X ps =
     and_then (try_fold (check_config_profile X) ({}, {}) ps) (\<lambda>_. Inr ())"

text \<open>The two loops over the profiles: of a load, which normalizes lane names, and of a save.\<close>

fun check_profiles ::
  "(domain_error \<Rightarrow> string) \<Rightarrow> ('n profile \<Rightarrow> 'n profile) \<Rightarrow> string \<Rightarrow> 'n foreign \<Rightarrow> 'n profile list \<Rightarrow>
     (string, 'n profile list) result"
where
  "check_profiles debug prepare message X [] = Inr []"
| "check_profiles debug prepare message X (p # ps) =
     (let p' = prepare (p\<lparr>p_enabled := False\<rparr>) in
      and_then (map_err (\<lambda>e. message @ debug e) (validate_profile X p')) (\<lambda>_.
      and_then (check_profiles debug prepare message X ps) (\<lambda>ps'. Inr (p' # ps'))))"

definition migrated :: "'n foreign \<Rightarrow> 'n config_document \<Rightarrow> (string, 'n config_v4) result" where
  "migrated X d =
     (case d of
        DocV4 c \<Rightarrow> Inr c
      | DocV3 old \<Rightarrow> Inr \<lparr>cv_schema_version = CURRENT_SCHEMA_VERSION, cv_routing_notice_pending = True,
          cv_language = c3_language old, cv_profiles = map profile_of_v3 (c3_profiles old)\<rparr>
      | DocV2 old \<Rightarrow> Inr \<lparr>cv_schema_version = CURRENT_SCHEMA_VERSION, cv_routing_notice_pending = True,
          cv_language = cw_language old, cv_profiles = map profile_of_v2 (cw_profiles old)\<rparr>
      | DocLegacy s \<Rightarrow> migrate_legacy X s)"

definition into_current ::
  "(domain_error \<Rightarrow> string) \<Rightarrow> 'n foreign \<Rightarrow> 'n config_document \<Rightarrow> (string, 'n config_v4) result"
where
  "into_current debug X d =
     and_then (migrated X d) (\<lambda>c.
     and_then (check_profiles debug normalize_lane_names ''invalid profile after migration: '' X
       (cv_profiles c)) (\<lambda>ps.
     and_then (validate_config_profiles X ps) (\<lambda>_.
       Inr (c\<lparr>cv_schema_version := CURRENT_SCHEMA_VERSION, cv_profiles := ps\<rparr>))))"

definition default_config :: "'n config_v4" where
  "default_config = \<lparr>cv_schema_version = CURRENT_SCHEMA_VERSION, cv_routing_notice_pending = False,
     cv_language = Tr, cv_profiles = []\<rparr>"

text \<open>What a save writes.\<close>

definition config_to_save ::
  "(domain_error \<Rightarrow> string) \<Rightarrow> 'n foreign \<Rightarrow> 'n config_v4 \<Rightarrow> (string, 'n config_v4) result"
where
  "config_to_save debug X c =
     and_then (check_profiles debug (\<lambda>p. p) ''refusing to save invalid profile: '' X (cv_profiles c)) (\<lambda>ps.
     and_then (validate_config_profiles X ps) (\<lambda>_.
       Inr (c\<lparr>cv_schema_version := CURRENT_SCHEMA_VERSION, cv_profiles := ps\<rparr>)))"

section \<open>What is loaded or saved is valid\<close>

definition config_ok :: "'n foreign \<Rightarrow> 'n config_v4 \<Rightarrow> bool" where
  "config_ok X c \<longleftrightarrow> cv_schema_version c = CURRENT_SCHEMA_VERSION \<and>
     (\<forall>p \<in> set (cv_profiles c). \<not> p_enabled p \<and> profile_ok X p) \<and>
     distinct (map p_id (cv_profiles c)) \<and>
     distinct (map (\<lambda>p. to_lowercase X (trim (p_name p))) (cv_profiles c))"

lemma check_profiles_ok:
  assumes "check_profiles debug prepare message X ps = Inr qs"
    and "\<And>p. p_enabled (prepare p) = p_enabled p"
  shows "\<forall>q \<in> set qs. \<not> p_enabled q \<and> profile_ok X q"
  using assms(1)
  by (induction ps arbitrary: qs)
    (auto simp: and_then_Inr_iff Let_def validate_profile_Inr_iff assms(2))

lemma config_fold_ok:
  "try_fold (check_config_profile X) (ids, names) ps = Inr s \<Longrightarrow>
   distinct (map p_id ps) \<and> p_id ` set ps \<inter> ids = {} \<and>
   distinct (map (\<lambda>p. to_lowercase X (trim (p_name p))) ps) \<and>
   (\<lambda>p. to_lowercase X (trim (p_name p))) ` set ps \<inter> names = {}"
proof (induction ps arbitrary: ids names)
  case (Cons p ps)
  then have "p_id p \<notin> ids" "to_lowercase X (trim (p_name p)) \<notin> names"
    and "try_fold (check_config_profile X)
      (insert (p_id p) ids, insert (to_lowercase X (trim (p_name p))) names) ps = Inr s"
    by (auto simp: check_config_profile_def and_then_Inr_iff split: if_splits)
  with Cons.IH [OF this(3)] show ?case by auto
qed simp

lemma validated_config:
  "validate_config_profiles X ps = Inr u \<Longrightarrow>
   distinct (map p_id ps) \<and> distinct (map (\<lambda>p. to_lowercase X (trim (p_name p))) ps)"
  using config_fold_ok by (fastforce simp: validate_config_profiles_def and_then_Inr_iff)

lemma into_current_ok: "into_current debug X d = Inr c \<Longrightarrow> config_ok X c"
  by (auto simp: into_current_def and_then_Inr_iff config_ok_def normalize_lane_names_def
    dest: check_profiles_ok validated_config)

lemma config_to_save_ok: "config_to_save debug X c = Inr c' \<Longrightarrow> config_ok X c'"
  by (auto simp: config_to_save_def and_then_Inr_iff config_ok_def
    dest: check_profiles_ok validated_config)


text \<open>
  C33. A configuration of any schema that loads is a valid one of the current schema: no profile is
  enabled, every profile is valid, and identifiers and trimmed lower-case names are unique.
\<close>

theorem loaded_configuration_valid:
  "case and_then (document_from_json C text) (into_current debug X) of
     Inl _ \<Rightarrow> True | Inr c \<Rightarrow> config_ok X c"
  by (auto split: sum.split simp: and_then_Inr_iff dest: into_current_ok)

section \<open>A legacy configuration keeps its rules\<close>

definition keeps_rule :: "'n foreign \<Rightarrow> lane list \<Rightarrow> persisted_rule \<Rightarrow> 'n rule \<Rightarrow> bool" where
  "keeps_rule X lanes r q \<longleftrightarrow> r_enabled q \<and> r_source q = SourceAny \<and>
     legacy_rule_target X r = Inr (r_target q) \<and>
     list_ex (\<lambda>l. l_interface l = lr_interface r \<and> r_action q = ActionRoute (l_id l)) lanes"

lemma legacy_rule_kept: "legacy_rule X lanes index r = Inr q \<Longrightarrow> keeps_rule X lanes r q"
  by (fastforce simp: legacy_rule_def and_then_Inr_iff keeps_rule_def lane_by_interface_def list_ex_iff
    ok_or_def dest!: map_of_SomeD split: option.splits)

lemma legacy_rules_kept:
  "legacy_rules X lanes index rs = Inr qs \<Longrightarrow> list_all2 (keeps_rule X lanes) rs qs"
  by (induction rs arbitrary: index qs) (auto simp: and_then_Inr_iff dest: legacy_rule_kept)

lemma keeps_rule_renamed:
  "keeps_rule X (map f lanes) = keeps_rule X lanes" if "\<And>l. l_interface (f l) = l_interface l \<and> l_id (f l) = l_id l"
  by (simp add: fun_eq_iff keeps_rule_def list_ex_iff that)

text \<open>
  C34. Migrating a configuration without a schema version loses no rule. If it loads, its profiles hold one
  enabled rule for each old rule, in the old order, with the target the old text denotes, routed to a
  lane of that configuration bound to the old rule's interface.
\<close>

theorem legacy_migration_keeps_rules:
  "case into_current debug X (DocLegacy s) of
     Inl _ \<Rightarrow> True
   | Inr c \<Rightarrow> list_all2 (keeps_rule X (concat (map p_lanes (cv_profiles c)))) (ls_rules s)
       (concat (map p_rules (cv_profiles c)))"
proof (cases "into_current debug X (DocLegacy s)")
  case (Inr c)
  then obtain rules where rules: "legacy_rules X (legacy_lanes s) 0 (ls_rules s) = Inr rules"
    by (auto simp: into_current_def migrated_def migrate_legacy_def Let_def and_then_Inr_iff)
  note kept = legacy_rules_kept [OF rules]
  show ?thesis
  proof (cases "legacy_lanes s = [] \<and> rules = []")
    case True
    with Inr rules have "cv_profiles c = []"
      by (auto simp: into_current_def migrated_def migrate_legacy_def Let_def and_then_Inr_iff)
    with Inr kept True show ?thesis by simp
  next
    case False
    with Inr rules have "map p_lanes (cv_profiles c) = [map normalize_lane_name (legacy_lanes s)]"
      "map p_rules (cv_profiles c) = [rules]"
      by (auto simp: into_current_def migrated_def migrate_legacy_def Let_def and_then_Inr_iff
        normalize_lane_names_def)
    moreover have "keeps_rule X (map normalize_lane_name (legacy_lanes s)) = keeps_rule X (legacy_lanes s)"
      by (rule keeps_rule_renamed) (simp add: normalize_lane_name_def Let_def)
    ultimately show ?thesis using Inr kept by simp
  qed
qed simp

end
