(* ===== verification/Config_File.thy ===== *)
theory Config_File
  imports Disk Config Daemon_State Utf8
begin

text \<open>
  The configuration on disk: the desired profile of the daemon (\<open>AtomicJsonConfigRepository\<close> in
  \<open>src/src/daemon/service.rs\<close>), the configuration of the interface and the thread that saves it
  (\<open>ConfigRepository\<close> and \<open>PersistenceWorker\<close> in \<open>src/src/config.rs\<close>). The environment, the clock and
  the random identifiers are parameters.
\<close>

unbundle bit_operations_syntax

section \<open>The desired profile\<close>

definition config_error :: "string \<Rightarrow> coded_error" where
  "config_error = coded ''DAEMON_CONFIG_FAILED''"

definition MAX_CONFIG_BYTES :: nat where "MAX_CONFIG_BYTES = 1048576"

type_synonym 'a config_io = "(disk, coded_error, 'a) fallible"

record desired_site =
  ps_directory :: path
  ps_process :: u32
  ps_nonce :: "(string, nat) result"

definition desired_path :: "desired_site \<Rightarrow> path" where
  "desired_path S = path_join (ps_directory S) ''desired-profile.json''"

definition desired_directory :: "path option \<Rightarrow> path option \<Rightarrow> (coded_error, path) result" where
  "desired_directory xdg home =
     and_then (case xdg of
         Some p \<Rightarrow> Inr p
       | None \<Rightarrow> (case home of
           None \<Rightarrow> Inl (config_error ''neither XDG_CONFIG_HOME nor HOME is set'')
         | Some h \<Rightarrow> Inr (path_join h ''.config'')))
       (\<lambda>base. Inr (path_join base ''routelane''))"

definition desired_temporary :: "desired_site \<Rightarrow> nat \<Rightarrow> path" where
  "desired_temporary S nonce = path_join (ps_directory S)
     (''.desired-profile.'' @ word_to_string (ps_process S) @ ''.'' @ decimal (int nonce) @ ''.tmp'')"

text \<open>\<open>0x3F\<close> is \<open>0o077\<close>.\<close>

definition validate_owned_private_file :: "node \<Rightarrow> unit config_io" where
  "validate_owned_private_file m = io_bind effective_uid (\<lambda>uid.
     io_guard (node_is_file m \<and> nd_uid m = uid \<and> nd_mode m AND 0x3F = 0)
       (config_error ''desired profile must be a user-owned, non-symlink 0600 file''))"

definition ensure_owned_private_directory :: "path \<Rightarrow> unit config_io" where
  "ensure_owned_private_directory p = io_bind effective_uid (\<lambda>uid. ensure_directory
     \<lparr>xd_create = (\<lambda>e. config_error (''create config directory: '' @ e)),
      xd_inspect = (\<lambda>e. config_error (''inspect config directory: '' @ e)),
      xd_secure = (\<lambda>e. config_error (''secure config directory: '' @ e)),
      xd_unsafe = config_error ''config directory must be a real directory owned by the daemon user''\<rparr>
     (\<lambda>m. nd_uid m = uid) p)"

definition validate_existing_destination :: "path \<Rightarrow> unit config_io" where
  "validate_existing_destination p =
     io_bind (io_result (symlink_metadata p)) (\<lambda>found.
     case found of
       Inr m \<Rightarrow> validate_owned_private_file m
     | Inl e \<Rightarrow> if ie_kind e = NotFound then io_return ()
         else io_fail (config_error (''inspect existing desired profile: '' @ ie_text e)))"

text \<open>What a decoded profile passes before the daemon uses it.\<close>

definition accept_desired ::
  "(domain_error \<Rightarrow> string) \<Rightarrow> 'n foreign \<Rightarrow> 'n profile option \<Rightarrow> (coded_error, 'n profile option) result"
where
  "accept_desired debug X desired =
     (case desired of
        None \<Rightarrow> Inr None
      | Some p \<Rightarrow>
          (let p' = normalize_lane_names p in
           and_then (map_err (\<lambda>e. config_error (''validate desired profile: '' @ debug e))
             (validate_profile X p')) (\<lambda>_. Inr (Some p'))))"

definition desired_too_large :: coded_error where
  "desired_too_large = config_error ''desired profile file is too large''"

definition desired_load ::
  "(domain_error \<Rightarrow> string) \<Rightarrow> 'n foreign \<Rightarrow> 'n config_codec \<Rightarrow> desired_site \<Rightarrow>
     'n profile option config_io"
where
  "desired_load debug X C S =
     io_bind (io_result (open_nofollow (desired_path S))) (\<lambda>opened.
     case opened of
       Inl e \<Rightarrow>
         if ie_kind e = NotFound then io_return None
         else io_fail (config_error (''open '' @ desired_path S @ '': '' @ ie_text e))
     | Inr _ \<Rightarrow>
         io_bind (told (\<lambda>e. config_error (''inspect config file: '' @ e)) (symlink_metadata (desired_path S)))
           (\<lambda>m.
         io_seq (validate_owned_private_file m)
         (io_seq (io_guard (node_size m \<le> MAX_CONFIG_BYTES) desired_too_large)
         (io_bind (told (\<lambda>e. config_error (''read desired profile: '' @ e))
             (read_file (desired_path S) (MAX_CONFIG_BYTES + 1))) (\<lambda>bytes.
         io_seq (io_guard (length bytes \<le> MAX_CONFIG_BYTES) desired_too_large)
         (io_bind (io_lift (map_err (\<lambda>e. config_error (''decode desired profile: '' @ e))
             (decode_desired_profile C bytes))) (\<lambda>desired.
           io_lift (accept_desired debug X desired))))))))"

definition desired_texts :: "coded_error replace_texts" where
  "desired_texts = \<lparr>xt_create = (\<lambda>e. config_error (''create temp config: '' @ e)),
     xt_write = (\<lambda>e. config_error (''write temp config: '' @ e)),
     xt_sync = (\<lambda>e. config_error (''sync temp config: '' @ e)),
     xt_rename = (\<lambda>e. config_error (''replace desired profile: '' @ e)),
     xt_directory = (\<lambda>e. config_error (''sync config directory: '' @ e))\<rparr>"

definition desired_save ::
  "'n config_codec \<Rightarrow> desired_site \<Rightarrow> 'n profile option \<Rightarrow> unit config_io"
where
  "desired_save C S desired =
     io_seq (ensure_owned_private_directory (ps_directory S))
     (io_seq (validate_existing_destination (desired_path S))
     (io_bind (io_lift (map_err (\<lambda>e. config_error (''encode desired profile: '' @ e))
         (cc_encode_desired C desired))) (\<lambda>bytes.
     io_seq (io_guard (length bytes \<le> MAX_CONFIG_BYTES) (config_error ''desired profile is too large''))
     (io_bind (io_lift (map_err (\<lambda>e. config_error (''read system clock: '' @ e)) (ps_nonce S))) (\<lambda>nonce.
       replace_file desired_texts (ps_directory S) (desired_temporary S nonce) (desired_path S) bytes)))))"

section \<open>The configuration of the interface\<close>

type_synonym 'a text_io = "(disk, string, 'a) fallible"

text \<open>The text of a random identifier: 128 bits in hexadecimal, in groups of 8, 4, 4, 4 and 12 digits.\<close>

definition nibbles :: "nat \<Rightarrow> nat \<Rightarrow> 128 word \<Rightarrow> string" where
  "nibbles i n w = map (\<lambda>k. ''0123456789abcdef'' ! (unat (drop_bit (4 * k) w) mod 16)) (rev [i..<i + n])"

definition uuid_text :: "128 word \<Rightarrow> string" where
  "uuid_text w = nibbles 24 8 w @ ''-'' @ nibbles 20 4 w @ ''-'' @ nibbles 16 4 w @ ''-'' @
     nibbles 12 4 w @ ''-'' @ nibbles 0 12 w"

record config_site =
  cs_directory :: path
  cs_temporary :: "128 word"
  cs_backup :: "128 word"

definition config_directory :: "path option \<Rightarrow> path option \<Rightarrow> path" where
  "config_directory xdg home = path_join (case xdg of
       Some p \<Rightarrow> p
     | None \<Rightarrow> path_join (case home of Some h \<Rightarrow> h | None \<Rightarrow> ''.'') ''.config'') ''routelane''"

definition config_path :: "config_site \<Rightarrow> path" where
  "config_path S = path_join (cs_directory S) ''config.json''"

definition backup_path :: "config_site \<Rightarrow> path" where
  "backup_path S = path_join (cs_directory S) ''config.json.bak''"

definition config_temporary :: "config_site \<Rightarrow> path" where
  "config_temporary S = path_join (cs_directory S) (''.config.json.'' @ uuid_text (cs_temporary S) @ ''.tmp'')"

definition backup_temporary :: "config_site \<Rightarrow> path" where
  "backup_temporary S = path_join (cs_directory S) (''.config.json.'' @ uuid_text (cs_backup S) @ ''.bak.tmp'')"

definition ensure_private_directory :: "path \<Rightarrow> unit text_io" where
  "ensure_private_directory p = ensure_directory
     \<lparr>xd_create = (\<lambda>_. ''could not create '' @ p), xd_inspect = (\<lambda>e. e), xd_secure = (\<lambda>e. e),
      xd_unsafe = ''configuration directory is not a real directory''\<rparr> (\<lambda>_. True) p"

definition not_regular :: string where
  "not_regular = ''configuration path is not a regular file''"

text \<open>\<open>0x12\<close> is \<open>0o022\<close>.\<close>

definition validate_metadata :: "node \<Rightarrow> unit text_io" where
  "validate_metadata m =
     io_seq (io_guard (node_is_file m) not_regular)
     (io_bind effective_uid (\<lambda>uid.
     io_seq (io_guard (nd_uid m = uid) ''configuration is not owned by the current user'')
       (io_guard (nd_mode m AND 0x12 = 0)
         ''configuration permissions must not grant group or other write access'')))"

definition validate_existing_file :: "path \<Rightarrow> unit text_io" where
  "validate_existing_file p = io_bind (told (\<lambda>e. e) (symlink_metadata p)) (\<lambda>m.
     io_seq (io_guard (node_is_file m) not_regular) (validate_metadata m))"

definition open_existing_file :: "path \<Rightarrow> unit text_io" where
  "open_existing_file p =
     io_seq (told (\<lambda>_. ''could not safely open '' @ p) (open_nofollow p))
     (io_bind (told (\<lambda>e. e) (symlink_metadata p)) validate_metadata)"

definition write_private_file :: "path \<Rightarrow> string \<Rightarrow> unit text_io" where
  "write_private_file p bytes =
     io_seq (told (\<lambda>_. ''could not safely create '' @ p) (create_new p 0x180))
     (io_seq (told (\<lambda>e. e) (write_all p bytes)) (told (\<lambda>e. e) (sync_all p)))"

definition copy_private_file :: "path \<Rightarrow> path \<Rightarrow> unit text_io" where
  "copy_private_file p q =
     io_seq (open_existing_file p)
     (io_bind (told (\<lambda>e. e) (read_to_end p)) (\<lambda>bytes. write_private_file q bytes))"

text \<open>\<open>TemporaryPath\<close>: the file is removed unless the block that follows commits it.\<close>

definition guarded_by :: "path \<Rightarrow> 'a text_io \<Rightarrow> 'a text_io" where
  "guarded_by temporary m = on_failure (remove_file temporary) m"

definition back_up :: "config_site \<Rightarrow> unit text_io" where
  "back_up S = guarded_by (backup_temporary S)
     (io_seq (copy_private_file (config_path S) (backup_temporary S))
       (told (\<lambda>_. ''could not atomically replace configuration backup '' @ backup_path S)
         (rename (backup_temporary S) (backup_path S))))"

definition replace_config :: "config_site \<Rightarrow> string \<Rightarrow> unit text_io" where
  "replace_config S bytes = guarded_by (config_temporary S)
     (io_seq (write_private_file (config_temporary S) bytes)
     (io_seq (io_bind (path_exists (config_path S)) (\<lambda>e. if e then back_up S else io_return ()))
       (told (\<lambda>_. ''could not atomically replace configuration '' @ config_path S)
         (rename (config_temporary S) (config_path S)))))"

definition config_save ::
  "(domain_error \<Rightarrow> string) \<Rightarrow> 'n foreign \<Rightarrow> 'n config_codec \<Rightarrow> config_site \<Rightarrow> 'n config_v4 \<Rightarrow> unit text_io"
where
  "config_save debug X C S c =
     io_bind (io_lift (config_to_save debug X c)) (\<lambda>current.
     io_bind (io_lift (cc_encode_config C current)) (\<lambda>bytes.
     io_seq (ensure_private_directory (cs_directory S))
     (io_seq (io_bind (path_exists (config_path S)) (\<lambda>e.
         if e then validate_existing_file (config_path S) else io_return ()))
     (io_seq (replace_config S bytes) (told (\<lambda>e. e) (sync_directory (cs_directory S)))))))"

definition load_config_file ::
  "(domain_error \<Rightarrow> string) \<Rightarrow> 'n foreign \<Rightarrow> 'n config_codec \<Rightarrow> path \<Rightarrow> 'n config_v4 text_io"
where
  "load_config_file debug X C p =
     io_seq (validate_existing_file p)
     (io_seq (told (\<lambda>_. ''could not safely open '' @ p) (open_nofollow p))
     (io_bind (told (\<lambda>e. e) (symlink_metadata p)) (\<lambda>m.
     io_seq (validate_metadata m)
     (io_seq (io_guard (node_size m \<le> MAX_CONFIG_BYTES)
       (''configuration is '' @ decimal (int (node_size m)) @ '' bytes; maximum is '' @
         decimal (int MAX_CONFIG_BYTES)))
     (io_bind (told (\<lambda>_. ''could not read '' @ p) (read_file p (MAX_CONFIG_BYTES + 1))) (\<lambda>bytes.
     io_seq (io_guard (length bytes \<le> MAX_CONFIG_BYTES)
       (''configuration is larger than the maximum of '' @ decimal (int MAX_CONFIG_BYTES) @ '' bytes''))
     (io_seq (io_guard (utf8_valid bytes) ''configuration is not valid UTF-8'')
       (io_lift (and_then (document_from_json C bytes) (into_current debug X))))))))))"

definition config_load ::
  "(domain_error \<Rightarrow> string) \<Rightarrow> 'n foreign \<Rightarrow> 'n config_codec \<Rightarrow> config_site \<Rightarrow> 'n config_v4 text_io"
where
  "config_load debug X C S = io_bind (path_exists (config_path S)) (\<lambda>e.
     if e then load_config_file debug X C (config_path S) else io_return default_config)"

subsection \<open>The writer thread\<close>

text \<open>
  Requests in the order they were sent; each comes with the identifiers it draws and whether the window
  still takes its result. A result that cannot be sent ends the thread.
\<close>

record 'n persistence_request =
  pq_generation :: u64
  pq_config :: "'n config_v4"

record persistence_result =
  po_generation :: u64
  po_result :: "(string, unit) result"

fun persistence_worker ::
  "('n config_v4 \<Rightarrow> 's \<Rightarrow> unit text_io) \<Rightarrow> ('n persistence_request \<times> 's \<times> bool) list \<Rightarrow> disk \<Rightarrow>
     persistence_result list \<times> disk"
where
  "persistence_worker save [] d = ([], d)"
| "persistence_worker save ((q, s, taken) # qs) d =
     (let (r, d') = save (pq_config q) s d in
      if taken then
        (let (rs, d'') = persistence_worker save qs d' in
         (\<lparr>po_generation = pq_generation q, po_result = r\<rparr> # rs, d''))
      else ([], d'))"

section \<open>Replaced atomically\<close>

lemma path_join_same [simp]:
  "a \<noteq> CHR ''/'' \<Longrightarrow> b \<noteq> CHR ''/'' \<Longrightarrow> path_join p (a # s) = path_join p (b # t) \<longleftrightarrow> a # s = b # t"
  by (simp add: path_join_def)

lemma path_join_longer [simp]: "a \<noteq> CHR ''/'' \<Longrightarrow> path_join p (a # s) \<noteq> p" "a \<noteq> CHR ''/'' \<Longrightarrow> p \<noteq> path_join p (a # s)"
  by (auto simp: path_join_def dest: arg_cong [where f = length])

lemma uuid_length [simp]: "length (uuid_text w) = 36"
  by (simp add: uuid_text_def nibbles_def)

lemma uuid_eq_lengths: "uuid_text v @ s = uuid_text w @ t \<Longrightarrow> length s = length t"
  by (drule arg_cong [where f = length]) simp

lemma config_names [simp]:
  "desired_temporary D n \<noteq> desired_path D" "ps_directory D \<noteq> desired_path D"
  "config_temporary S \<noteq> config_path S" "backup_temporary S \<noteq> config_path S" "backup_path S \<noteq> config_path S"
  "cs_directory S \<noteq> config_path S" "config_temporary S \<noteq> backup_temporary S"
  "backup_temporary S \<noteq> config_temporary S"
  "config_temporary S \<noteq> backup_path S" "backup_path S \<noteq> config_temporary S"
  "backup_path S \<noteq> backup_temporary S"
  by (auto simp: desired_temporary_def desired_path_def config_temporary_def config_path_def
    backup_temporary_def backup_path_def dest!: uuid_eq_lengths)

lemma desired_save_leaves:
  assumes "cc_encode_desired C desired = Inr bytes"
  shows "hoare (node_at (desired_path S) n) (desired_save C S desired) (\<lambda>_. file_at (desired_path S) bytes)
    (old_or_new (desired_path S) n bytes)"
proof -
  have checked: "keeps P (validate_owned_private_file m)" for P m
    unfolding validate_owned_private_file_def by (intro keeps_bind effective_uid_keeps keeps_simps)
  have directory: "keeps (node_at (desired_path S) n) (ensure_owned_private_directory (ps_directory S))"
    unfolding ensure_owned_private_directory_def
    by (intro keeps_bind effective_uid_keeps ensure_directory_keeps) simp
  have destination: "keeps (node_at (desired_path S) n) (validate_existing_destination (desired_path S))"
    unfolding validate_existing_destination_def
    by (intro keeps_bind keeps_result keeps_sum keeps_if checked reads_keep keeps_simps) simp_all
  show ?thesis
    unfolding desired_save_def assms map_err_simps io_lift_simps io_simps(4)
    by (rule hoare_seq, rule keeps_old, rule directory, rule hoare_seq, rule keeps_old, rule destination,
        rule hoare_seq, rule keeps_old, rule keeps_simps, rule hoare_bind, rule keeps_old,
        rule keeps_simps, rule replace_file_leaves, simp)
qed

subsection \<open>The configuration file\<close>

text \<open>A predicate that does not look at a path is kept by what changes only that path.\<close>

definition ignores :: "path \<Rightarrow> (disk \<Rightarrow> bool) \<Rightarrow> bool" where
  "ignores p Q \<longleftrightarrow> (\<forall>d x. Q (put p x d) = Q d)"

lemma ignores_parts [simp]:
  "p \<noteq> q \<Longrightarrow> ignores p (node_at q n)" "p \<noteq> q \<Longrightarrow> ignores p (file_at q b)"
  "ignores p Q \<Longrightarrow> ignores p R \<Longrightarrow> ignores p (\<lambda>d. Q d \<and> R d)"
  by (simp_all add: ignores_def)

lemma ignored_append: "ignores p Q \<Longrightarrow> Q (append_bytes p b d) = Q d"
  by (simp add: append_bytes_def ignores_def split: option.splits node_kind.splits)

lemma changes_keep:
  assumes "ignores p Q" "clockless Q"
  shows "keeps Q (create_new p m)" "keeps Q (write_all p bytes)" "keeps Q (remove_file p)"
    and "ignores q Q \<Longrightarrow> keeps Q (rename p q)"
proof -
  show "keeps Q (create_new p m)" "keeps Q (remove_file p)" "ignores q Q \<Longrightarrow> keeps Q (rename p q)"
    unfolding create_new_def remove_file_def rename_def
    using assms by (auto simp: ignores_def clockless_def intro!: attempt_keeps split: option.splits sum.splits)
  show "keeps Q (write_all p bytes)"
    by (rule keepsI) (use assms in \<open>auto simp: write_all_def Let_def ignored_append clockless_def
      split: option.splits\<close>)
qed

lemma write_private_keeps:
  "ignores p Q \<Longrightarrow> clockless Q \<Longrightarrow> keeps Q (write_private_file p bytes)"
  unfolding write_private_file_def by (intro keeps_seq told_keeps changes_keep reads_keep)

lemma validate_metadata_keeps: "keeps Q (validate_metadata m)"
  unfolding validate_metadata_def by (intro keeps_seq keeps_bind effective_uid_keeps keeps_simps)

lemma validate_existing_keeps: "clockless Q \<Longrightarrow> keeps Q (validate_existing_file p)"
  unfolding validate_existing_file_def
  by (intro keeps_seq keeps_bind told_keeps reads_keep validate_metadata_keeps keeps_simps)

lemma copy_keeps: "ignores q Q \<Longrightarrow> clockless Q \<Longrightarrow> keeps Q (copy_private_file p q)"
  unfolding copy_private_file_def open_existing_file_def
  by (intro keeps_seq keeps_bind told_keeps reads_keep write_private_keeps validate_metadata_keeps)

lemma on_failure_keeps: "keeps Q m \<Longrightarrow> keeps Q cleanup \<Longrightarrow> keeps Q (on_failure cleanup m)"
  unfolding on_failure_def by (intro keeps_bind keeps_result keeps_sum keeps_simps)

lemma back_up_keeps:
  "ignores (backup_temporary S) Q \<Longrightarrow> ignores (backup_path S) Q \<Longrightarrow> clockless Q \<Longrightarrow> keeps Q (back_up S)"
  unfolding back_up_def guarded_by_def
  by (intro on_failure_keeps keeps_seq copy_keeps told_keeps changes_keep)

lemma write_private_leaves:
  assumes "temporary \<noteq> path"
  shows "hoare (node_at path n) (write_private_file temporary bytes)
    (\<lambda>_ d. node_at path n d \<and> file_at temporary bytes d) (node_at path n)"
proof -
  have sync: "hoare (\<lambda>d. node_at path n d \<and> file_at temporary bytes d) (sync_all temporary)
      (\<lambda>_ d. node_at path n d \<and> file_at temporary bytes d) (node_at path n)"
    by (rule hoare_conseq [OF hoare_keeps [OF reads_keep(1)
      [of "\<lambda>d. node_at path n d \<and> file_at temporary bytes d"]]]) simp_all
  show ?thesis
    unfolding write_private_file_def
    by (rule hoare_seq, rule told_hoare, rule create_leaves [OF assms],
        rule hoare_seq, rule told_hoare, rule write_leaves [OF assms], rule told_hoare, rule sync)
qed

lemma replace_config_leaves:
  "hoare (node_at (config_path S) n) (replace_config S bytes) (\<lambda>_. file_at (config_path S) bytes) (node_at (config_path S) n)"
proof -
  let ?Q = "\<lambda>d. node_at (config_path S) n d \<and> file_at (config_temporary S) bytes d"
  have "keeps ?Q (io_bind (path_exists (config_path S)) (\<lambda>e. if e then back_up S else io_return ()))"
    by (intro keeps_bind path_exists_keeps keeps_if back_up_keeps keeps_simps) simp_all
  then have backed: "hoare ?Q (io_bind (path_exists (config_path S)) (\<lambda>e. if e then back_up S else io_return ()))
      (\<lambda>_. ?Q) (node_at (config_path S) n)"
    by (rule keeps_hoare) simp_all
  show ?thesis
    unfolding replace_config_def guarded_by_def
    by (rule on_failure_leaves, rule hoare_seq, rule write_private_leaves, simp, rule hoare_seq, rule backed,
        rule told_hoare, rule rename_leaves, simp, rule changes_keep, simp_all)
qed

lemma config_save_leaves:
  assumes "config_to_save debug X c = Inr current" "cc_encode_config C current = Inr bytes"
  shows "hoare (node_at (config_path S) n) (config_save debug X C S c) (\<lambda>_. file_at (config_path S) bytes)
    (old_or_new (config_path S) n bytes)"
proof -
  have directory: "keeps (node_at (config_path S) n) (ensure_private_directory (cs_directory S))"
    unfolding ensure_private_directory_def by (rule ensure_directory_keeps) simp
  have existing: "keeps (node_at (config_path S) n) (io_bind (path_exists (config_path S)) (\<lambda>e.
      if e then validate_existing_file (config_path S) else io_return ()))"
    by (intro keeps_bind path_exists_keeps keeps_if validate_existing_keeps keeps_simps) simp_all
  have sync: "hoare (file_at (config_path S) bytes) (sync_directory (cs_directory S))
      (\<lambda>_. file_at (config_path S) bytes) (old_or_new (config_path S) n bytes)"
    by (rule hoare_conseq [OF hoare_keeps [OF sync_directory_keeps [of "file_at (config_path S) bytes"]]])
      (simp_all add: old_or_new_def)
  have replaced: "hoare (node_at (config_path S) n) (replace_config S bytes)
      (\<lambda>_. file_at (config_path S) bytes) (old_or_new (config_path S) n bytes)"
    by (rule hoare_conseq [OF replace_config_leaves [of S n]]) (auto simp: old_or_new_def)
  show ?thesis
    unfolding config_save_def assms io_lift_simps io_simps(4)
    by (rule hoare_seq, rule keeps_old, rule directory, rule hoare_seq, rule keeps_old, rule existing,
        rule hoare_seq, rule replaced, rule told_hoare, rule sync)
qed

definition replaced :: "path \<Rightarrow> string \<Rightarrow> disk \<Rightarrow> ('e, unit) result \<times> disk \<Rightarrow> bool" where
  "replaced p bytes d outcome = (case outcome of
     (Inr _, d') \<Rightarrow> contents d' p = Some bytes
   | (Inl _, d') \<Rightarrow> dk_tree d' p = dk_tree d p \<or> contents d' p = Some bytes)"

lemma replacedI:
  assumes "hoare (node_at p (dk_tree d p)) m (\<lambda>_. file_at p bytes) (old_or_new p (dk_tree d p) bytes)"
  shows "replaced p bytes d (m d)"
  using hoareD [OF assms, of d]
  by (auto simp: replaced_def node_at_def file_at_def old_or_new_def split: prod.split sum.split)

text \<open>
  C32. Neither configuration file is ever torn. Whichever operations of a save fail, and wherever the
  process is killed in it, the path holds afterwards what it held before or exactly the new text; when
  the save reports success it holds the new text. This holds of the desired profile of the daemon and of
  the configuration of the interface, whose save also replaces a backup.
\<close>

theorem configuration_saves_atomic:
  "(case cc_encode_desired C desired of
      Inl _ \<Rightarrow> True
    | Inr bytes \<Rightarrow> replaced (desired_path D) bytes d (desired_save C D desired d)) \<and>
   (case and_then (config_to_save debug X c) (cc_encode_config C) of
      Inl _ \<Rightarrow> True
    | Inr bytes \<Rightarrow> replaced (config_path S) bytes d (config_save debug X C S c d))"
  by (auto split: sum.split simp: and_then_Inr_iff intro!: replacedI desired_save_leaves config_save_leaves)

section \<open>What is loaded was checked\<close>

lemma accept_desired_ok:
  "accept_desired debug X desired = Inr (Some p) \<Longrightarrow> profile_ok X p"
  by (auto simp: accept_desired_def Let_def and_then_Inr_iff validate_profile_Inr_iff split: option.splits)

lemma io_bind_result: "io_bind m k d = (Inr b, d') \<longleftrightarrow> (\<exists>a d1. m d = (Inr a, d1) \<and> k a d1 = (Inr b, d'))"
  by (auto simp: io_bind_def split: prod.splits sum.splits)

lemma not_Inr_unit: "x \<noteq> Inr () \<longleftrightarrow> (\<exists>e. x = Inl e)"
  by (cases x) simp_all

lemma desired_load_ok: "desired_load debug X C S d = (Inr (Some p), d') \<Longrightarrow> profile_ok X p"
  by (auto simp: desired_load_def io_bind_result io_seq_def io_lift_def io_return_def io_fail_def not_Inr_unit
    split: sum.splits if_splits dest: accept_desired_ok)

end
