(* ===== verification/Session.thy ===== *)
theory Session
  imports Config_File Daemon "HOL-Library.Sublist"
begin

text \<open>
  The session of the interface (\<open>src/src/ui/session.rs\<close>, with the messages of \<open>src/src/models.rs\<close>):
  what the window knows of the daemon, the one operation it may have in flight, and the effects each
  input asks the controller for. Every operation is a function of the session; the random identifier of
  a request is an argument. A panic is a value.
\<close>

section \<open>Messages\<close>

record 'n ui_request =
  uq_request_id :: string
  uq_request :: "'n daemon_request"

datatype ('n, 'h) daemon_to_ui =
    ConnectionEstablished u64
  | Snapshot u64 "'h daemon_status" "'n profile list"
  | Response u64 "('n, 'h) daemon_response"
  | DaemonEvent u64 "'h daemon_event"
  | DaemonUnavailable u64 "string option" coded_error

section \<open>State\<close>

datatype operation_kind =
    OpApply | OpSetRuleEnabled | OpDeactivate | OpLaunch | OpAdopt | OpRecover | OpSaveOnly | OpChangeLanguage

datatype operation_stage = StageSaving | AwaitingReply | AwaitingSnapshot

datatype save_state =
    SaveClean | Saving | SavedInactive | SaveApplying | SaveApplied | SavedUnapplied | SaveFailed

datatype ui_gate_error = GateBusy | StateUnknown | ReadOnlyConfig | UnappliedProfile | DisabledRule

datatype 'n after_save = AfterNone | AfterRequest "'n daemon_request" | AfterQuit

datatype 'n ui_effect =
    Persist "'n persistence_request"
  | Send "'n ui_request"
  | RefreshSnapshot
  | QuitApplication

record 'n pending =
  pn_kind :: operation_kind
  pn_stage :: operation_stage
  pn_request_id :: "string option"
  pn_save_generation :: "u64 option"
  pn_candidate :: "'n profile option"
  pn_follow_up :: "'n after_save"
  pn_expected :: "u64 option"

record ('n, 'h) ui_session =
  us_epoch :: u64
  us_known :: bool
  us_status :: "'h daemon_status option"
  us_accepted :: "(u64 \<times> u64) option"
  us_saved :: "'n profile"
  us_applied :: "(u64 \<times> 'n profile) option"
  us_writable :: bool
  us_persistence :: u64
  us_pending :: "'n pending option"
  us_error :: "coded_error option"
  us_config_error :: "coded_error option"
  us_save_state :: save_state
  us_profiles :: "'n profile list"
  us_result :: "('n, 'h) daemon_result option"

definition new_session :: "'n profile \<Rightarrow> bool \<Rightarrow> ('n, 'h) ui_session" where
  "new_session p writable = \<lparr>us_epoch = 0, us_known = False, us_status = None, us_accepted = None,
     us_saved = p, us_applied = None, us_writable = writable, us_persistence = 0, us_pending = None,
     us_error = None, us_config_error = None, us_save_state = SaveClean, us_profiles = [], us_result = None\<rparr>"

section \<open>Questions\<close>

definition last_error :: "('n, 'h) ui_session \<Rightarrow> coded_error option" where
  "last_error s = (case us_error s of Some e \<Rightarrow> Some e | None \<Rightarrow> us_config_error s)"

definition pending_is :: "('n pending \<Rightarrow> bool) \<Rightarrow> ('n, 'h) ui_session \<Rightarrow> bool" where
  "pending_is P s = (case us_pending s of None \<Rightarrow> False | Some p \<Rightarrow> P p)"

definition accepts_reply :: "('n, 'h) ui_session \<Rightarrow> u64 \<Rightarrow> string \<Rightarrow> bool" where
  "accepts_reply s epoch i \<longleftrightarrow> epoch = us_epoch s \<and>
     pending_is (\<lambda>p. pn_stage p = AwaitingReply \<and> pn_request_id p = Some i) s"

definition pending_candidate :: "('n, 'h) ui_session \<Rightarrow> 'n profile option" where
  "pending_candidate s = option_bind (us_pending s) pn_candidate"

definition configuration_failed :: "string \<Rightarrow> ('n, 'h) ui_session \<Rightarrow> ('n, 'h) ui_session" where
  "configuration_failed e s = s\<lparr>us_writable := False, us_save_state := SaveFailed,
     us_config_error := Some (coded ''UI_CONFIG_FAILED'' e)\<rparr>"

definition operation :: "('n, 'h) ui_session \<Rightarrow> (operation_kind \<times> operation_stage) option" where
  "operation s = map_option (\<lambda>p. (pn_kind p, pn_stage p)) (us_pending s)"

definition status_is :: "('h daemon_status \<Rightarrow> bool) \<Rightarrow> ('n, 'h) ui_session \<Rightarrow> bool" where
  "status_is P s = (case us_status s of None \<Rightarrow> False | Some x \<Rightarrow> P x)"

definition is_busy :: "('n, 'h) ui_session \<Rightarrow> bool" where
  "is_busy s \<longleftrightarrow> us_pending s \<noteq> None \<or> us_known s \<and> status_is (\<lambda>x. hr_state (sd_health x) = Applying) s"

definition same_profile :: "'n profile \<Rightarrow> 'n profile \<Rightarrow> bool" where
  "same_profile p q \<longleftrightarrow> p\<lparr>p_enabled := False\<rparr> = q\<lparr>p_enabled := False\<rparr>"

definition needs_reapply :: "('n, 'h) ui_session \<Rightarrow> 'n profile \<Rightarrow> bool" where
  "needs_reapply s p \<longleftrightarrow> \<not> us_known s \<or>
     \<not> (case us_applied s of
          None \<Rightarrow> False
        | Some (generation, applied) \<Rightarrow>
            status_is (\<lambda>x. sd_generation x = generation \<and> sd_applied_profile_id x = Some (p_id p)) s \<and>
            same_profile applied p \<and> same_profile (us_saved s) p)"

definition application_actions_enabled ::
  "('n, 'h) ui_session \<Rightarrow> 'n profile \<Rightarrow> 'n rule \<Rightarrow> bool"
where
  "application_actions_enabled s p r \<longleftrightarrow> \<not> is_busy s \<and> \<not> needs_reapply s p \<and> r_enabled r \<and>
     (case r_source r of SourceApplication _ \<Rightarrow> True | SourceAny \<Rightarrow> False) \<and> r \<in> set (p_rules p)"

section \<open>Inputs of the user\<close>

datatype ui_failure = Gate ui_gate_error | GenerationExhausted

definition begin_save ::
  "'n config_v4 \<Rightarrow> 'n profile \<Rightarrow> 'n after_save \<Rightarrow> ('n, 'h) ui_session \<Rightarrow>
     (ui_failure, ('n, 'h) ui_session \<times> 'n ui_effect list) result"
where
  "begin_save config p follow s =
     (if is_busy s then Inl (Gate GateBusy)
      else if \<not> us_writable s then Inl (Gate ReadOnlyConfig)
      else if (case follow of AfterRequest _ \<Rightarrow> True | _ \<Rightarrow> False) \<and> \<not> us_known s then Inl (Gate StateUnknown)
      else if us_persistence s = - 1 then Inl GenerationExhausted
      else
        (let n = us_persistence s + 1 in
         Inr (s\<lparr>us_persistence := n,
            us_pending := Some \<lparr>
              pn_kind = (case follow of AfterQuit \<Rightarrow> OpChangeLanguage | _ \<Rightarrow> OpSaveOnly),
              pn_stage = StageSaving, pn_request_id = None, pn_save_generation = Some n,
              pn_candidate = Some p, pn_follow_up = follow, pn_expected = None\<rparr>,
            us_save_state := Saving, us_error := None\<rparr>,
          [Persist \<lparr>pq_generation = n, pq_config = config\<rparr>])))"

definition reads_only :: "'n daemon_request \<Rightarrow> bool" where
  "reads_only r = (case r of GetStatus \<Rightarrow> True | ListProfiles \<Rightarrow> True | Subscribe \<Rightarrow> True | _ \<Rightarrow> False)"

definition recovery_request :: "('n, 'h) ui_session \<Rightarrow> 'n daemon_request \<Rightarrow> bool" where
  "recovery_request s r \<longleftrightarrow> (case r of RecoverOrphanedResources \<Rightarrow> True | _ \<Rightarrow> False) \<and>
     (case us_error s of None \<Rightarrow> False | Some e \<Rightarrow> er_code e = ''DAEMON_ORPHANED_RESOURCES'')"

text \<open>The guard of a launch or an adoption: the rule, in the profile the caller shows, may be acted on.\<close>

definition application_gate ::
  "('n, 'h) ui_session \<Rightarrow> 'n profile option \<Rightarrow> profile_id \<Rightarrow> rule_id \<Rightarrow> (ui_gate_error, unit) result"
where
  "application_gate s submitted i j =
     (let p = (case submitted of Some q \<Rightarrow> q | None \<Rightarrow> us_saved s) in
      case find (\<lambda>r. r_id r = j) (p_rules p) of
        None \<Rightarrow> Inl DisabledRule
      | Some r \<Rightarrow>
          if p_id p \<noteq> i \<or> \<not> application_actions_enabled s p r then Inl UnappliedProfile else Inr ())"

text \<open>The kind of a request that changes something; the requests that only read never get here.\<close>

definition request_kind ::
  "('n, 'h) ui_session \<Rightarrow> 'n profile option \<Rightarrow> 'n daemon_request \<Rightarrow> (ui_gate_error, operation_kind) result"
where
  "request_kind s submitted r =
     (case r of
        ApplyProfile _ \<Rightarrow> Inr OpApply
      | SetRuleEnabled _ _ _ \<Rightarrow> Inr OpSetRuleEnabled
      | Deactivate \<Rightarrow>
          if status_is (\<lambda>x. sd_applied_profile_id x \<noteq> None) s then Inr OpDeactivate else Inl UnappliedProfile
      | LaunchApplication i j \<Rightarrow> and_then (application_gate s submitted i j) (\<lambda>_. Inr OpLaunch)
      | AdoptApplicationProcesses i j \<Rightarrow> and_then (application_gate s submitted i j) (\<lambda>_. Inr OpAdopt)
      | RecoverOrphanedResources \<Rightarrow> if recovery_request s r then Inr OpRecover else Inl UnappliedProfile
      | _ \<Rightarrow> Inl GateBusy)"

definition changes_policy :: "operation_kind \<Rightarrow> bool" where
  "changes_policy k \<longleftrightarrow> k = OpApply \<or> k = OpSetRuleEnabled"

definition begin_request ::
  "string \<Rightarrow> 'n daemon_request \<Rightarrow> 'n profile option \<Rightarrow> ('n, 'h) ui_session \<Rightarrow>
     (ui_gate_error, ('n, 'h) ui_session \<times> 'n ui_effect list) result"
where
  "begin_request i r submitted s =
     (if reads_only r then Inr (s, [Send \<lparr>uq_request_id = i, uq_request = r\<rparr>])
      else if is_busy s then Inl GateBusy
      else if \<not> us_known s \<and> \<not> recovery_request s r then Inl StateUnknown
      else and_then (request_kind s submitted r) (\<lambda>kind.
        if changes_policy kind \<and> \<not> us_writable s then Inl ReadOnlyConfig
        else Inr (s\<lparr>
            us_pending := Some \<lparr>pn_kind = kind, pn_stage = AwaitingReply, pn_request_id = Some i,
              pn_save_generation = None,
              pn_candidate = (case r of ApplyProfile p \<Rightarrow> Some p | _ \<Rightarrow> submitted),
              pn_follow_up = AfterNone, pn_expected = None\<rparr>,
            us_error := None, us_result := None,
            us_save_state := (if changes_policy kind then SaveApplying else us_save_state s)\<rparr>,
          [Send \<lparr>uq_request_id = i, uq_request = r\<rparr>])))"

section \<open>Outcomes of a save\<close>

definition handle_persistence ::
  "string \<Rightarrow> u64 \<Rightarrow> (string, unit) result \<Rightarrow> ('n, 'h) ui_session \<Rightarrow> ('n, 'h) ui_session \<times> 'n ui_effect list"
where
  "handle_persistence i generation outcome s =
     (case us_pending s of
        None \<Rightarrow> (s, [])
      | Some p \<Rightarrow>
          if \<not> (pn_stage p = StageSaving \<and> pn_save_generation p = Some generation) then (s, [])
          else (case outcome of
              Inl e \<Rightarrow> (configuration_failed e (s\<lparr>us_pending := None\<rparr>), [])
            | Inr _ \<Rightarrow>
                (let s1 = s\<lparr>us_pending := None,
                   us_saved := (case pn_candidate p of Some q \<Rightarrow> q | None \<Rightarrow> us_saved s),
                   us_save_state := (if status_is (\<lambda>x. sd_applied_profile_id x \<noteq> None) s
                     then SavedUnapplied else SavedInactive)\<rparr> in
                 case pn_follow_up p of
                   AfterNone \<Rightarrow> (s1, [])
                 | AfterQuit \<Rightarrow> (s1, [QuitApplication])
                 | AfterRequest r \<Rightarrow>
                     (case begin_request i r (Some (us_saved s1)) s1 of
                        Inr out \<Rightarrow> out
                      | Inl _ \<Rightarrow> (s1\<lparr>us_save_state := SavedUnapplied\<rparr>, [RefreshSnapshot])))))"

section \<open>Messages of the daemon\<close>

text \<open>Helper generations restart after a cleanup; the event sequence does not, within a connection.\<close>

definition accept_status :: "'h daemon_status \<Rightarrow> ('n, 'h) ui_session \<Rightarrow> bool \<times> ('n, 'h) ui_session" where
  "accept_status x s =
     (if (case us_accepted s of
            None \<Rightarrow> False
          | Some (generation, sequence) \<Rightarrow> sd_event_sequence x < sequence \<or>
              sd_event_sequence x = sequence \<and> sd_generation x < generation)
      then (False, s)
      else (True, s\<lparr>us_accepted := Some (sd_generation x, sd_event_sequence x), us_status := Some x\<rparr>))"

text \<open>An operation that was sent is given up; one that is being saved goes on.\<close>

definition abandon :: "('n, 'h) ui_session \<Rightarrow> ('n, 'h) ui_session" where
  "abandon s = (if pending_is (\<lambda>p. pn_stage p \<noteq> StageSaving) s
     then s\<lparr>us_pending := None, us_save_state := SavedUnapplied\<rparr> else s)"

definition invalid_response :: "string \<Rightarrow> coded_error" where
  "invalid_response = coded ''IPC_INVALID_RESPONSE''"

definition unexpected ::
  "('n, 'h) ui_session \<Rightarrow> ('n, 'h) ui_session \<times> 'n ui_effect list"
where
  "unexpected s = (s\<lparr>us_error := Some (invalid_response ''request returned an unexpected response''),
     us_known := False, us_applied := None\<rparr>, [RefreshSnapshot])"

text \<open>The result of the operation in flight, by the kind of the operation.\<close>

definition handle_result ::
  "('n, 'h) daemon_result option \<Rightarrow> 'n pending \<Rightarrow> ('n, 'h) ui_session \<Rightarrow>
     ('n, 'h) ui_session \<times> 'n ui_effect list"
where
  "handle_result outcome p s =
     (case outcome of
        Some (Applied a) \<Rightarrow>
          if changes_policy (pn_kind p)
          then (s\<lparr>us_applied := (case pn_candidate p of
                  Some q \<Rightarrow> Some (ap_generation a, q) | None \<Rightarrow> us_applied s),
                us_pending := Some (p\<lparr>pn_stage := AwaitingSnapshot, pn_expected := Some (ap_generation a)\<rparr>),
                us_save_state := SaveApplying\<rparr>, [RefreshSnapshot])
          else unexpected s
      | Some Deactivated \<Rightarrow>
          if pn_kind p = OpDeactivate
          then (s\<lparr>us_status := map_option (\<lambda>x. x\<lparr>sd_applied_profile_id := None,
                  sd_health := report_inactive, sd_last_error := None\<rparr>) (us_status s),
                us_applied := None, us_save_state := SavedInactive, us_result := outcome\<rparr>, [RefreshSnapshot])
          else unexpected s
      | Some (ApplicationLaunched _) \<Rightarrow>
          if pn_kind p = OpLaunch then (s\<lparr>us_result := outcome\<rparr>, []) else unexpected s
      | Some (ApplicationProcessesAdopted _ _) \<Rightarrow>
          if pn_kind p = OpAdopt then (s\<lparr>us_result := outcome\<rparr>, []) else unexpected s
      | Some (OrphanedResourcesRecovered _) \<Rightarrow>
          if pn_kind p = OpRecover
          then (s\<lparr>us_result := outcome, us_known := False, us_applied := None\<rparr>, [RefreshSnapshot])
          else unexpected s
      | _ \<Rightarrow> unexpected s)"

definition handle_response ::
  "('n, 'h) daemon_response \<Rightarrow> ('n, 'h) ui_session \<Rightarrow> ('n, 'h) ui_session \<times> 'n ui_effect list"
where
  "handle_response r s =
     (case option_filter (\<lambda>p. pn_stage p = AwaitingReply \<and> pn_request_id p = Some (dr_request_id r))
         (us_pending s) of
        None \<Rightarrow> (case dr_result r of Some (Status x) \<Rightarrow> (snd (accept_status x s), []) | _ \<Rightarrow> (s, []))
      | Some p \<Rightarrow>
          (let s1 = s\<lparr>us_pending := None\<rparr> in
           if dr_protocol_version r \<noteq> IPC_PROTOCOL_VERSION
           then (s1\<lparr>us_error := Some (invalid_response ''unsupported response version''), us_known := False\<rparr>,
                 [RefreshSnapshot])
           else (case dr_error r of
               Some e \<Rightarrow> (s1\<lparr>us_error := Some e, us_applied := None, us_save_state := SavedUnapplied,
                   us_known := False\<rparr>, [RefreshSnapshot])
             | None \<Rightarrow> handle_result (dr_result r) p s1)))"

definition confirm_snapshot ::
  "'h daemon_status \<Rightarrow> 'n profile list \<Rightarrow> ('n, 'h) ui_session \<Rightarrow> ('n, 'h) ui_session"
where
  "confirm_snapshot x profiles s =
     (let s1 = s\<lparr>us_profiles := profiles, us_known := True,
          us_applied := option_filter (\<lambda>(generation, p).
            generation = sd_generation x \<and> sd_applied_profile_id x = Some (p_id p)) (us_applied s)\<rparr> in
      case us_pending s of
        None \<Rightarrow> s1
      | Some p \<Rightarrow>
          if pn_stage p \<noteq> AwaitingSnapshot then s1
          else if pn_expected p = Some (sd_generation x) \<and>
            sd_applied_profile_id x = map_option p_id (pn_candidate p)
          then s1\<lparr>us_pending := None, us_save_state := SaveApplied\<rparr>
          else s1\<lparr>us_pending := None, us_applied := None, us_save_state := SavedUnapplied\<rparr>)"

definition handle_snapshot ::
  "'h daemon_status \<Rightarrow> 'n profile list \<Rightarrow> ('n, 'h) ui_session \<Rightarrow> ('n, 'h) ui_session"
where
  "handle_snapshot x profiles s =
     (if pending_is (\<lambda>p. pn_stage p = AwaitingSnapshot \<and>
          (case pn_expected p of None \<Rightarrow> False | Some g \<Rightarrow> sd_generation x < g)) s then s
      else (case accept_status x s of
          (False, s1) \<Rightarrow> s1
        | (True, s1) \<Rightarrow> confirm_snapshot x profiles s1))"

text \<open>The status after an event: the parts the event carries replace those of the last status.\<close>

fun event_status :: "'h daemon_event \<Rightarrow> 'h daemon_status \<Rightarrow> 'h daemon_status" where
  "event_status (PrimaryChanged g n primary) x =
     x\<lparr>sd_generation := g, sd_event_sequence := n, sd_primary := primary\<rparr>"
| "event_status (StateChanged g n h) x = x\<lparr>sd_generation := g, sd_event_sequence := n, sd_health := h\<rparr>"
| "event_status (OperationFailed g n h _) x = x\<lparr>sd_generation := g, sd_event_sequence := n, sd_health := h\<rparr>"

definition handle_event :: "'h daemon_event \<Rightarrow> ('n, 'h) ui_session \<Rightarrow> ('n, 'h) ui_session" where
  "handle_event e s = (case us_status s of
     None \<Rightarrow> s | Some x \<Rightarrow> snd (accept_status (event_status e x) s))"

fun handle_daemon ::
  "('n, 'h) daemon_to_ui \<Rightarrow> ('n, 'h) ui_session \<Rightarrow> ('n, 'h) ui_session \<times> 'n ui_effect list"
where
  "handle_daemon (ConnectionEstablished epoch) s =
     (if epoch \<le> us_epoch s then (s, [])
      else (abandon (s\<lparr>us_epoch := epoch, us_known := False, us_accepted := None, us_applied := None\<rparr>), []))"
| "handle_daemon (Snapshot epoch x profiles) s =
     (if epoch \<noteq> us_epoch s then (s, []) else (handle_snapshot x profiles s, []))"
| "handle_daemon (Response epoch r) s = (if epoch \<noteq> us_epoch s then (s, []) else handle_response r s)"
| "handle_daemon (DaemonEvent epoch e) s =
     (if epoch \<noteq> us_epoch s then (s, []) else (handle_event e s, [RefreshSnapshot]))"
| "handle_daemon (DaemonUnavailable epoch i e) s =
     (if epoch \<noteq> us_epoch s then (s, [])
      else if (case i of None \<Rightarrow> False | Some j \<Rightarrow> pending_is (\<lambda>p. pn_request_id p \<noteq> Some j) s) then (s, [])
      else (abandon (s\<lparr>us_known := False, us_applied := None, us_error := Some e\<rparr>), [RefreshSnapshot]))"


section \<open>Runs\<close>

text \<open>
  What can happen to a session. A rejected input changes nothing; the identifier of a request is drawn
  whether or not it is used.
\<close>

datatype ('n, 'h) ui_input =
    UserSave "'n config_v4" "'n profile" "'n after_save"
  | UserRequest string "'n daemon_request" "'n profile option"
  | SaveDone string u64 "(string, unit) result"
  | FromDaemon "('n, 'h) daemon_to_ui"
  | SaveImpossible string

definition unless_rejected ::
  "('n, 'h) ui_session \<Rightarrow> ('e, ('n, 'h) ui_session \<times> 'n ui_effect list) result \<Rightarrow>
     ('n, 'h) ui_session \<times> 'n ui_effect list"
where
  "unless_rejected s outcome = (case outcome of Inl _ \<Rightarrow> (s, []) | Inr out \<Rightarrow> out)"

fun ui_step ::
  "('n, 'h) ui_input \<Rightarrow> ('n, 'h) ui_session \<Rightarrow> ('n, 'h) ui_session \<times> 'n ui_effect list"
where
  "ui_step (UserSave c p follow) s = unless_rejected s (begin_save c p follow s)"
| "ui_step (UserRequest i r submitted) s = unless_rejected s (begin_request i r submitted s)"
| "ui_step (SaveDone i generation outcome) s = handle_persistence i generation outcome s"
| "ui_step (FromDaemon m) s = handle_daemon m s"
| "ui_step (SaveImpossible e) s = (configuration_failed e s, [])"

fun ui_run ::
  "('n, 'h) ui_input list \<Rightarrow> ('n, 'h) ui_session \<Rightarrow> ('n, 'h) ui_session \<times> 'n ui_effect list"
where
  "ui_run [] s = (s, [])"
| "ui_run (x # xs) s = (case ui_step x s of (s1, es) \<Rightarrow> (case ui_run xs s1 of (s2, fs) \<Rightarrow> (s2, es @ fs)))"

subsection \<open>Requests are sent once, in order\<close>

definition mutations :: "'n daemon_request list \<Rightarrow> 'n daemon_request list" where
  "mutations rs = filter (\<lambda>r. \<not> reads_only r) rs"

fun sent_by :: "'n ui_effect \<Rightarrow> 'n daemon_request list" where
  "sent_by (Send q) = [uq_request q]"
| "sent_by _ = []"

fun submitted_by :: "('n, 'h) ui_input \<Rightarrow> 'n daemon_request list" where
  "submitted_by (UserSave _ _ (AfterRequest r)) = [r]"
| "submitted_by (UserRequest _ r _) = [r]"
| "submitted_by _ = []"

text \<open>The request that waits for a save.\<close>

definition waiting :: "('n, 'h) ui_session \<Rightarrow> 'n daemon_request list" where
  "waiting s = (case us_pending s of
     None \<Rightarrow> []
   | Some p \<Rightarrow> if pn_stage p = StageSaving then (case pn_follow_up p of AfterRequest r \<Rightarrow> [r] | _ \<Rightarrow> []) else [])"

definition sends :: "'n ui_effect list \<Rightarrow> 'n daemon_request list" where
  "sends es = mutations (concat (map sent_by es))"

lemma mutations_simps [simp]:
  "mutations [] = []" "mutations (r # rs) = (if reads_only r then mutations rs else r # mutations rs)"
  "mutations (rs @ qs) = mutations rs @ mutations qs" "sends [] = []" "sends (es @ fs) = sends es @ sends fs"
  "sends (e # es) = mutations (sent_by e) @ sends es"
  by (simp_all add: mutations_def sends_def)

lemma subseq_mutations: "subseq rs qs \<Longrightarrow> subseq (mutations rs) (mutations qs)"
  unfolding mutations_def by (rule subseq_filter)

text \<open>What is in flight afterwards is what was, one step further, or nothing.\<close>

definition acknowledged :: "'n pending \<Rightarrow> 'n pending \<Rightarrow> bool" where
  "acknowledged p q \<longleftrightarrow> pn_stage p = AwaitingReply \<and> changes_policy (pn_kind p) \<and>
     pn_stage q = AwaitingSnapshot \<and> pn_kind q = pn_kind p"

definition only_moves_on :: "('n, 'h) ui_session \<Rightarrow> ('n, 'h) ui_session \<Rightarrow> bool" where
  "only_moves_on s s' \<longleftrightarrow> us_pending s' = us_pending s \<or> us_pending s' = None \<or>
     (\<exists>p q. us_pending s = Some p \<and> us_pending s' = Some q \<and> acknowledged p q)"

lemma waiting_moves_on: "only_moves_on s s' \<Longrightarrow> subseq (waiting s') (waiting s)"
  unfolding only_moves_on_def by (elim disjE exE conjE) (simp_all add: waiting_def acknowledged_def)

lemma accept_status_keeps [simp]:
  "us_pending (snd (accept_status x s)) = us_pending s" "us_epoch (snd (accept_status x s)) = us_epoch s"
  "us_known (snd (accept_status x s)) = us_known s" "us_save_state (snd (accept_status x s)) = us_save_state s"
  by (simp_all add: accept_status_def)

lemma abandon_moves_on: "us_pending s' = us_pending s \<Longrightarrow> only_moves_on s (abandon s')"
  by (simp add: abandon_def only_moves_on_def)

lemma unexpected_simps [simp]:
  "us_pending (fst (unexpected s)) = us_pending s" "us_epoch (fst (unexpected s)) = us_epoch s"
  "us_accepted (fst (unexpected s)) = us_accepted s" "sends (snd (unexpected s)) = []"
  by (simp_all add: unexpected_def sends_def)

lemma result_moves_on:
  assumes "us_pending s = Some p" "pn_stage p = AwaitingReply" "us_pending s1 = None"
  shows "only_moves_on s (fst (handle_result outcome p s1))"
  using assms
  by (auto simp: handle_result_def only_moves_on_def acknowledged_def split: option.split daemon_result.split)

lemma result_sends: "sends (snd (handle_result outcome p s)) = []"
  by (simp add: handle_result_def split: option.split daemon_result.split)

lemma response_moves_on: "only_moves_on s (fst (handle_response r s))"
proof (cases "option_filter (\<lambda>p. pn_stage p = AwaitingReply \<and> pn_request_id p = Some (dr_request_id r)) (us_pending s)")
  case None
  then show ?thesis
    by (simp add: handle_response_def only_moves_on_def split: option.split daemon_result.split)
next
  case (Some p)
  then have p: "us_pending s = Some p" "pn_stage p = AwaitingReply" "pn_request_id p = Some (dr_request_id r)"
    by (auto simp: option_filter_def split: option.splits if_splits)
  have "only_moves_on s s'" if "us_pending s' = None" for s' :: "('a, 'b) ui_session"
    using that by (simp add: only_moves_on_def)
  with p result_moves_on [OF p(1,2), of "s\<lparr>us_pending := None\<rparr>"] show ?thesis
    by (simp add: handle_response_def Let_def option_filter_def split: option.split)
qed

lemma snapshot_moves_on: "only_moves_on s (handle_snapshot x profiles s)"
  by (simp add: handle_snapshot_def accept_status_def confirm_snapshot_def only_moves_on_def Let_def
    split: option.split)

lemma daemon_moves_on: "only_moves_on s (fst (handle_daemon m s))"
proof (cases m)
  case (DaemonEvent epoch e)
  then show ?thesis by (simp add: handle_event_def only_moves_on_def split: option.split)
qed (simp_all add: abandon_moves_on snapshot_moves_on response_moves_on only_moves_on_def [of s s])

lemma daemon_sends: "sends (snd (handle_daemon m s)) = []"
  by (cases m) (simp_all add: handle_response_def Let_def result_sends
    split: option.split daemon_result.split)

lemma request_waits:
  "begin_request i r submitted s = Inr (s', es) \<Longrightarrow>
   subseq (sends es @ mutations (waiting s')) (mutations (waiting s) @ mutations [r])"
  by (auto simp: begin_request_def waiting_def is_busy_def and_then_Inr_iff split: if_splits)

lemma step_waits:
  assumes "ui_step x s = (s', es)"
  shows "subseq (sends es @ mutations (waiting s')) (mutations (waiting s) @ mutations (submitted_by x))"
proof (cases x)
  case (UserSave c p follow)
  with assms show ?thesis
    by (cases follow) (auto simp: unless_rejected_def begin_save_def Let_def waiting_def is_busy_def
      split: sum.splits if_splits)
next
  case (UserRequest i r submitted)
  with assms request_waits [of i r submitted s] show ?thesis
    by (cases "begin_request i r submitted s") (auto simp: unless_rejected_def)
next
  case (SaveDone i generation outcome)
  show ?thesis
  proof (cases "us_pending s")
    case None
    with assms SaveDone show ?thesis by (simp add: handle_persistence_def)
  next
    case (Some p)
    with assms SaveDone show ?thesis
      by (auto simp: handle_persistence_def configuration_failed_def waiting_def Let_def dest!: request_waits
        split: if_splits sum.splits after_save.splits)
  qed
next
  case (FromDaemon m)
  with assms have "s' = fst (handle_daemon m s)" "es = snd (handle_daemon m s)" by simp_all
  with FromDaemon show ?thesis
    using subseq_mutations [OF waiting_moves_on [OF daemon_moves_on [of s m]]] by (simp add: daemon_sends)
next
  case (SaveImpossible e)
  with assms show ?thesis by (auto simp: configuration_failed_def waiting_def)
qed

lemma run_waits:
  "subseq (sends (snd (ui_run xs s)) @ mutations (waiting (fst (ui_run xs s))))
     (mutations (waiting s) @ mutations (concat (map submitted_by xs)))"
proof (induction xs arbitrary: s)
  case (Cons x xs)
  obtain s1 es where step: "ui_step x s = (s1, es)" by fastforce
  let ?rest = "sends (snd (ui_run xs s1)) @ mutations (waiting (fst (ui_run xs s1)))"
  let ?later = "mutations (concat (map submitted_by xs))"
  have "subseq (sends es @ ?rest) (sends es @ mutations (waiting s1) @ ?later)"
    using Cons.IH [of s1] by (simp add: subseq_append')
  also have "subseq \<dots> ((mutations (waiting s) @ mutations (submitted_by x)) @ ?later)"
    using list_emb_append_mono [OF step_waits [OF step] subseq_order.refl [of ?later]] by simp
  finally show ?case by (simp add: step case_prod_beta)
qed simp


subsection \<open>An operation ends by its own answer\<close>

text \<open>The messages that may change the operation in flight.\<close>

fun concerns :: "('n, 'h) ui_session \<Rightarrow> ('n, 'h) daemon_to_ui \<Rightarrow> bool" where
  "concerns s (ConnectionEstablished epoch) = (us_epoch s < epoch)"
| "concerns s (Snapshot epoch x _) = (epoch = us_epoch s \<and>
     pending_is (\<lambda>p. pn_stage p = AwaitingSnapshot \<and>
       (case pn_expected p of None \<Rightarrow> True | Some g \<Rightarrow> g \<le> sd_generation x)) s)"
| "concerns s (Response epoch r) = accepts_reply s epoch (dr_request_id r)"
| "concerns s (DaemonEvent _ _) = False"
| "concerns s (DaemonUnavailable epoch i _) = (epoch = us_epoch s \<and>
     pending_is (\<lambda>p. pn_stage p \<noteq> StageSaving \<and> (i = None \<or> pn_request_id p = i)) s)"

lemma response_foreign:
  "\<not> accepts_reply s (us_epoch s) (dr_request_id r) \<Longrightarrow> us_pending (fst (handle_response r s)) = us_pending s"
  by (auto simp: handle_response_def accepts_reply_def pending_is_def option_filter_def
    split: option.splits if_splits daemon_result.splits)

lemma snapshot_foreign:
  "\<not> pending_is (\<lambda>p. pn_stage p = AwaitingSnapshot \<and>
     (case pn_expected p of None \<Rightarrow> True | Some g \<Rightarrow> g \<le> sd_generation x)) s \<Longrightarrow>
   us_pending (handle_snapshot x profiles s) = us_pending s"
  by (auto simp: handle_snapshot_def accept_status_def confirm_snapshot_def pending_is_def Let_def not_le
    split: option.splits if_splits)

lemma abandon_foreign:
  "pending_is (\<lambda>p. pn_stage p \<noteq> StageSaving) s \<or> us_pending (abandon s) = us_pending s"
  by (simp add: abandon_def)

text \<open>
  No message of the daemon ends or moves an operation that it is not about: the operation in flight
  stays as it was unless the message is the reply to its own request on this connection, a snapshot no
  older than the generation it was promised, the failure of its delivery or of the connection, or a new
  connection.
\<close>

lemma operation_ends_by_its_answer:
  "us_pending (fst (handle_daemon m s)) = us_pending s \<or> concerns s m"
proof (cases m)
  case (Snapshot epoch x profiles)
  then show ?thesis using snapshot_foreign [of x s profiles] by auto
next
  case (Response epoch r)
  then show ?thesis using response_foreign [of s r] by auto
next
  case (DaemonEvent epoch e)
  then show ?thesis by (simp add: handle_event_def split: option.split)
next
  case (DaemonUnavailable epoch i e)
  then show ?thesis
    by (auto simp: abandon_def pending_is_def split: option.splits)
qed auto

subsection \<open>What is claimed as applied\<close>

text \<open>The message that confirms the operation in flight.\<close>

fun confirms :: "('n, 'h) ui_session \<Rightarrow> ('n, 'h) daemon_to_ui \<Rightarrow> bool" where
  "confirms s (Snapshot epoch x _) = (epoch = us_epoch s \<and>
     pending_is (\<lambda>p. pn_stage p = AwaitingSnapshot \<and> pn_expected p = Some (sd_generation x) \<and>
       sd_applied_profile_id x = map_option p_id (pn_candidate p)) s)"
| "confirms s _ = False"

lemma result_not_applied:
  "us_save_state s \<noteq> SaveApplied \<Longrightarrow> us_save_state (fst (handle_result outcome p s)) \<noteq> SaveApplied"
  by (auto simp: handle_result_def unexpected_def split: option.splits daemon_result.splits)

lemma applied_was_confirmed:
  "us_save_state (fst (handle_daemon m s)) = SaveApplied \<Longrightarrow> us_save_state s \<noteq> SaveApplied \<Longrightarrow> confirms s m"
proof (cases m)
  case (Snapshot epoch x profiles)
  assume "us_save_state (fst (handle_daemon m s)) = SaveApplied" "us_save_state s \<noteq> SaveApplied"
  with Snapshot show ?thesis
    by (auto simp: handle_snapshot_def accept_status_def confirm_snapshot_def pending_is_def Let_def
      split: option.splits if_splits)
next
  case (Response epoch r)
  assume "us_save_state (fst (handle_daemon m s)) = SaveApplied" "us_save_state s \<noteq> SaveApplied"
  with Response show ?thesis
    by (auto simp: handle_response_def Let_def result_not_applied
      split: option.splits if_splits daemon_result.splits)
qed (auto simp: abandon_def handle_event_def split: option.splits if_splits)

text \<open>
  Two labels outlive what they describe. A snapshot without an operation in flight leaves the save state
  alone, so a session stays \<open>SaveApplied\<close> after another client deactivated the plan; an answer that cannot
  be used ends the operation but leaves \<open>SaveApplying\<close>.
\<close>

lemma applied_label_outlives_plan:
  "us_pending s = None \<Longrightarrow> us_save_state (handle_snapshot x profiles s) = us_save_state s"
  by (simp add: handle_snapshot_def confirm_snapshot_def pending_is_def Let_def accept_status_def)

lemma applying_label_outlives_operation:
  assumes "us_pending s = Some p" "pn_stage p = AwaitingReply" "pn_request_id p = Some (dr_request_id r)"
    "dr_protocol_version r \<noteq> IPC_PROTOCOL_VERSION"
  shows "us_pending (fst (handle_response r s)) = None"
    "us_save_state (fst (handle_response r s)) = us_save_state s"
  using assms by (simp_all add: handle_response_def option_filter_def Let_def)

subsection \<open>Old revisions\<close>

definition not_older :: "(u64 \<times> u64) option \<Rightarrow> (u64 \<times> u64) option \<Rightarrow> bool" where
  "not_older new old = (case old of
     None \<Rightarrow> True
   | Some (g, n) \<Rightarrow> (case new of None \<Rightarrow> False | Some (h, m) \<Rightarrow> n < m \<or> n = m \<and> g \<le> h))"

definition forward_in_time :: "('n, 'h) ui_session \<Rightarrow> ('n, 'h) ui_session \<Rightarrow> bool" where
  "forward_in_time s s' \<longleftrightarrow> us_epoch s < us_epoch s' \<or>
     us_epoch s = us_epoch s' \<and> not_older (us_accepted s') (us_accepted s)"

lemma not_older_refl [simp]: "not_older x x"
  by (cases x) (auto simp: not_older_def)

lemma forward_same: "us_epoch s' = us_epoch s \<Longrightarrow> us_accepted s' = us_accepted s \<Longrightarrow> forward_in_time s s'"
  by (simp add: forward_in_time_def)

lemma forward_trans: "forward_in_time a b \<Longrightarrow> forward_in_time b c \<Longrightarrow> forward_in_time a c"
  by (auto simp: forward_in_time_def not_older_def split: option.splits)

lemma accept_forward: "forward_in_time s (snd (accept_status x s))"
  by (auto simp: accept_status_def forward_in_time_def not_older_def not_less split: option.splits)

lemma request_forward: "begin_request i r submitted s = Inr (s', es) \<Longrightarrow> forward_in_time s s'"
  by (auto simp: begin_request_def and_then_Inr_iff intro!: forward_same split: if_splits)

lemma result_same:
  "us_epoch (fst (handle_result outcome p s)) = us_epoch s \<and> us_accepted (fst (handle_result outcome p s)) = us_accepted s"
  by (simp add: handle_result_def split: option.split daemon_result.split)

lemma response_forward: "forward_in_time s (fst (handle_response r s))"
  by (auto simp: handle_response_def Let_def result_same intro!: forward_same accept_forward
    split: option.splits daemon_result.splits)

lemma snapshot_forward: "forward_in_time s (handle_snapshot x profiles s)"
proof -
  have "forward_in_time (snd (accept_status x s)) (confirm_snapshot x profiles (snd (accept_status x s)))"
    by (rule forward_same) (simp_all add: confirm_snapshot_def Let_def split: option.split)
  from forward_trans [OF accept_forward this] show ?thesis
    using accept_forward [of s x] by (auto simp: handle_snapshot_def forward_same split: prod.split bool.split)
qed

lemma abandon_same [simp]: "us_epoch (abandon s) = us_epoch s" "us_accepted (abandon s) = us_accepted s"
  by (simp_all add: abandon_def)

lemma daemon_forward: "forward_in_time s (fst (handle_daemon m s))"
proof (cases m)
  case (ConnectionEstablished epoch)
  then show ?thesis by (auto simp: forward_in_time_def not_le)
next
  case (DaemonEvent epoch e)
  then show ?thesis by (auto simp: handle_event_def intro!: forward_same accept_forward split: option.split)
qed (auto simp: forward_same snapshot_forward response_forward)

lemma step_forward: "forward_in_time s (fst (ui_step x s))"
proof (cases x)
  case (UserSave c p follow)
  then show ?thesis
    by (auto simp: unless_rejected_def begin_save_def Let_def intro!: forward_same split: sum.splits if_splits)
next
  case (UserRequest i r submitted)
  then show ?thesis
    by (auto simp: unless_rejected_def forward_same dest: request_forward split: sum.split)
next
  case (SaveDone i generation outcome)
  have "forward_in_time s s'" if "begin_request i r submitted s1 = Inr (s', es)" "us_epoch s1 = us_epoch s"
    "us_accepted s1 = us_accepted s" for r submitted s1 s' es
    using forward_trans [OF forward_same [of s1 s] request_forward [OF that(1)]] that by simp
  then show ?thesis
    using SaveDone
    by (auto simp: handle_persistence_def configuration_failed_def Let_def forward_same
      split: option.split sum.split after_save.split)
qed (simp_all add: daemon_forward configuration_failed_def forward_same)

text \<open>
  The window never goes back in time. Over any run, the connection only moves to newer ones, and
  within one the revision it shows, the event sequence first and the generation at equal sequences, never
  decreases, in whatever order answers, snapshots and events arrive.
\<close>

lemma revisions_never_go_back: "forward_in_time s (fst (ui_run xs s))"
proof (induction xs arbitrary: s)
  case (Cons x xs)
  from forward_trans [OF step_forward Cons.IH] show ?case by (simp add: case_prod_beta)
qed (simp add: forward_same)

end
