(* ===== verification/Controller.thy ===== *)
theory Controller
  imports Session
begin

text \<open>
  The controller of the interface (\<open>src/src/ui/controller.rs\<close>): it runs the session's effects, and
  retries an apply once after the user let it recover orphaned resources. Sending is asynchronous, so an
  operation returns what it hands to the writer and to the bridge; a failure to hand it over is a later
  input. Random identifiers are arguments.
\<close>

section \<open>State\<close>

record ('n, 'h) ui_controller =
  uc_session :: "('n, 'h) ui_session"
  uc_persistence :: bool
  uc_recovery :: "'n profile option"
  uc_retry_used :: bool
  uc_recovery_started :: bool
  uc_retry_after_refresh :: bool
  uc_completed :: "string option"
  uc_quit :: bool

definition new_controller :: "('n, 'h) ui_session \<Rightarrow> bool \<Rightarrow> ('n, 'h) ui_controller" where
  "new_controller s persistence = \<lparr>uc_session = s, uc_persistence = persistence, uc_recovery = None,
     uc_retry_used = False, uc_recovery_started = False, uc_retry_after_refresh = False,
     uc_completed = None, uc_quit = False\<rparr>"

type_synonym ('n, 'h) handled = "('n, 'h) ui_controller \<times> 'n ui_effect list"

text \<open>Without a quit callback or a writer the effect for it is dropped.\<close>

definition execute :: "'n ui_effect list \<Rightarrow> ('n, 'h) ui_controller \<Rightarrow> ('n, 'h) handled" where
  "execute es c = (c, filter (\<lambda>e. case e of
     QuitApplication \<Rightarrow> uc_quit c | Persist _ \<Rightarrow> uc_persistence c | _ \<Rightarrow> True) es)"

definition new_cycle :: "('n, 'h) ui_controller \<Rightarrow> ('n, 'h) ui_controller" where
  "new_cycle c = c\<lparr>uc_retry_used := False, uc_recovery_started := False, uc_recovery := None\<rparr>"

definition applies :: "'n daemon_request \<Rightarrow> bool" where
  "applies r = (case r of ApplyProfile _ \<Rightarrow> True | _ \<Rightarrow> False)"

definition follows_with_apply :: "'n after_save \<Rightarrow> bool" where
  "follows_with_apply f = (case f of AfterRequest r \<Rightarrow> applies r | _ \<Rightarrow> False)"

definition writer_unavailable :: string where
  "writer_unavailable = ''configuration writer is unavailable''"

section \<open>What the window asks for\<close>

definition controller_save ::
  "'n config_v4 \<Rightarrow> 'n profile \<Rightarrow> 'n after_save \<Rightarrow> ('n, 'h) ui_controller \<Rightarrow> bool \<times> ('n, 'h) handled"
where
  "controller_save config p follow c =
     (if \<not> uc_persistence c
      then (False, (c\<lparr>uc_session := configuration_failed writer_unavailable (uc_session c)\<rparr>, []))
      else (case begin_save config p follow (uc_session c) of
          Inl _ \<Rightarrow> (False, (c, []))
        | Inr (s, es) \<Rightarrow>
            (let c1 = c\<lparr>uc_session := s\<rparr> in
             (True, execute es (if follows_with_apply follow then new_cycle c1 else c1)))))"

definition submit_request ::
  "string \<Rightarrow> 'n daemon_request \<Rightarrow> 'n profile option \<Rightarrow> bool \<Rightarrow> ('n, 'h) ui_controller \<Rightarrow>
     bool \<times> ('n, 'h) handled"
where
  "submit_request i r submitted cycle c =
     (case begin_request i r submitted (uc_session c) of
        Inl _ \<Rightarrow> (False, (c, []))
      | Inr (s, es) \<Rightarrow>
          (let c1 = c\<lparr>uc_session := s\<rparr> in
           (True, execute es (if applies r \<and> cycle then new_cycle c1 else c1))))"

definition controller_request ::
  "string \<Rightarrow> 'n daemon_request \<Rightarrow> 'n profile option \<Rightarrow> ('n, 'h) ui_controller \<Rightarrow> bool \<times> ('n, 'h) handled"
where
  "controller_request i r submitted c = submit_request i r submitted True c"

definition controller_refresh :: "('n, 'h) ui_controller \<Rightarrow> ('n, 'h) handled" where
  "controller_refresh c = execute [RefreshSnapshot] c"

definition recovery_available :: "('n, 'h) ui_controller \<Rightarrow> bool" where
  "recovery_available c \<longleftrightarrow> uc_recovery c \<noteq> None \<and> \<not> uc_recovery_started c \<and> \<not> uc_retry_used c \<and>
     \<not> uc_retry_after_refresh c"

definition cancel_recovery :: "('n, 'h) ui_controller \<Rightarrow> ('n, 'h) ui_controller" where
  "cancel_recovery c = c\<lparr>uc_recovery := None, uc_recovery_started := False, uc_retry_after_refresh := False\<rparr>"

definition confirm_recovery ::
  "string \<Rightarrow> ('n, 'h) ui_controller \<Rightarrow> bool \<times> ('n, 'h) handled"
where
  "confirm_recovery i c =
     (if \<not> recovery_available c then (False, (c, []))
      else (case controller_request i RecoverOrphanedResources None (c\<lparr>uc_recovery_started := True\<rparr>) of
          (True, out) \<Rightarrow> (True, out)
        | (False, (c1, es)) \<Rightarrow> (False, (c1\<lparr>uc_recovery_started := False\<rparr>, es))))"

section \<open>What the daemon and the writer answer\<close>

definition controller_persisted ::
  "string \<Rightarrow> u64 \<Rightarrow> (string, unit) result \<Rightarrow> ('n, 'h) ui_controller \<Rightarrow> ('n, 'h) handled"
where
  "controller_persisted i generation outcome c =
     (case handle_persistence i generation outcome (uc_session c) of
        (s, es) \<Rightarrow> execute es (c\<lparr>uc_session := s\<rparr>))"

text \<open>The answer of the operation in flight, before the session takes it.\<close>

definition note_response :: "u64 \<Rightarrow> ('n, 'h) daemon_response \<Rightarrow> ('n, 'h) ui_controller \<Rightarrow> ('n, 'h) ui_controller" where
  "note_response epoch r c =
     (let s = uc_session c; kind = map_option fst (operation s) in
      if \<not> accepts_reply s epoch (dr_request_id r) then c
      else
        (let c1 = (if (case dr_error r of None \<Rightarrow> False | Some e \<Rightarrow> er_code e = ''DAEMON_ORPHANED_RESOURCES'') \<and>
             kind = Some OpApply \<and> \<not> uc_retry_used c
             then c\<lparr>uc_recovery := pending_candidate s\<rparr> else c);
           c2 = (if (case dr_result r of Some (OrphanedResourcesRecovered _) \<Rightarrow> True | _ \<Rightarrow> False) \<and>
             kind = Some OpRecover
             then c1\<lparr>uc_retry_after_refresh := True\<rparr> else c1) in
         c2\<lparr>uc_completed := Some (dr_request_id r)\<rparr>))"

fun note_message :: "('n, 'h) daemon_to_ui \<Rightarrow> ('n, 'h) ui_controller \<Rightarrow> ('n, 'h) ui_controller" where
  "note_message (Response epoch r) c = note_response epoch r c"
| "note_message _ c = c"

fun is_disconnect :: "('n, 'h) daemon_to_ui \<Rightarrow> bool" where
  "is_disconnect (DaemonUnavailable _ _ _) = True"
| "is_disconnect _ = False"

fun is_snapshot :: "('n, 'h) daemon_to_ui \<Rightarrow> bool" where
  "is_snapshot (Snapshot _ _ _) = True"
| "is_snapshot _ = False"

text \<open>The bridge retries a failed connection itself, so a disconnection asks for nothing.\<close>

definition take_message :: "('n, 'h) daemon_to_ui \<Rightarrow> ('n, 'h) ui_controller \<Rightarrow> ('n, 'h) handled" where
  "take_message m c =
     (let c1 = note_message m c in
      case handle_daemon m (uc_session c1) of
        (s, es) \<Rightarrow> execute (if is_disconnect m then [] else es) (c1\<lparr>uc_session := s\<rparr>))"

definition retry_due :: "('n, 'h) daemon_to_ui \<Rightarrow> ('n, 'h) ui_controller \<Rightarrow> bool" where
  "retry_due m c \<longleftrightarrow> is_snapshot m \<and> uc_retry_after_refresh c \<and> us_known (uc_session c) \<and>
     \<not> is_busy (uc_session c)"

definition retry_after_recovery :: "string \<Rightarrow> ('n, 'h) ui_controller \<Rightarrow> ('n, 'h) handled" where
  "retry_after_recovery i c =
     (let c1 = c\<lparr>uc_retry_after_refresh := False, uc_retry_used := True, uc_recovery := None\<rparr> in
      case uc_recovery c of
        None \<Rightarrow> (c1, [])
      | Some p \<Rightarrow> snd (submit_request i (ApplyProfile p) (Some p) False c1))"

definition controller_receive ::
  "string \<Rightarrow> ('n, 'h) daemon_to_ui \<Rightarrow> ('n, 'h) ui_controller \<Rightarrow> ('n, 'h) handled"
where
  "controller_receive i m c =
     (case take_message m c of (c1, es) \<Rightarrow>
        if retry_due m c1
        then (case retry_after_recovery i c1 of (c2, fs) \<Rightarrow> (c2, es @ fs))
        else (c1, es))"

section \<open>Runs\<close>

datatype ('n, 'h) controller_input =
    AskSave "'n config_v4" "'n profile" "'n after_save"
  | AskRequest string "'n daemon_request" "'n profile option"
  | AskRefresh
  | ConfirmRecovery string
  | CancelRecovery
  | Persisted string u64 "(string, unit) result"
  | Received string "('n, 'h) daemon_to_ui"

fun controller_step :: "('n, 'h) controller_input \<Rightarrow> ('n, 'h) ui_controller \<Rightarrow> ('n, 'h) handled" where
  "controller_step (AskSave config p follow) c = snd (controller_save config p follow c)"
| "controller_step (AskRequest i r submitted) c = snd (controller_request i r submitted c)"
| "controller_step AskRefresh c = controller_refresh c"
| "controller_step (ConfirmRecovery i) c = snd (confirm_recovery i c)"
| "controller_step CancelRecovery c = (cancel_recovery c, [])"
| "controller_step (Persisted i generation outcome) c = controller_persisted i generation outcome c"
| "controller_step (Received i m) c = controller_receive i m c"

text \<open>The profile an input makes the controller submit again by itself.\<close>

fun retried :: "('n, 'h) controller_input \<Rightarrow> ('n, 'h) ui_controller \<Rightarrow> 'n profile list" where
  "retried (Received i m) c =
     (let c1 = fst (take_message m c) in
      if retry_due m c1 then (case uc_recovery c1 of None \<Rightarrow> [] | Some p \<Rightarrow> [p]) else [])"
| "retried _ _ = []"

fun retries :: "('n, 'h) controller_input list \<Rightarrow> ('n, 'h) ui_controller \<Rightarrow> 'n profile list" where
  "retries [] c = []"
| "retries (x # xs) c = retried x c @ retries xs (fst (controller_step x c))"

definition recovers :: "'n daemon_request \<Rightarrow> bool" where
  "recovers r = (case r of RecoverOrphanedResources \<Rightarrow> True | _ \<Rightarrow> False)"

fun asks :: "('n daemon_request \<Rightarrow> bool) \<Rightarrow> ('n, 'h) controller_input \<Rightarrow> bool" where
  "asks P (AskSave _ _ (AfterRequest r)) = P r"
| "asks P (AskRequest _ r _) = P r"
| "asks P (ConfirmRecovery _) = P RecoverOrphanedResources"
| "asks _ _ = False"

section \<open>At most one retry for each recovery and each apply\<close>

text \<open>The operation in flight, or the one that follows the save in flight, is of this kind.\<close>

definition in_flight :: "operation_kind \<Rightarrow> ('n daemon_request \<Rightarrow> bool) \<Rightarrow> ('n, 'h) ui_session \<Rightarrow> bool" where
  "in_flight k P s = pending_is (\<lambda>p. pn_kind p = k \<or>
     pn_stage p = StageSaving \<and> (case pn_follow_up p of AfterRequest r \<Rightarrow> P r | _ \<Rightarrow> False)) s"

definition owed :: "bool \<Rightarrow> nat" where "owed b = (if b then 1 else 0)"

definition recovery_credit :: "('n, 'h) ui_controller \<Rightarrow> nat" where
  "recovery_credit c = owed (uc_retry_after_refresh c) + owed (in_flight OpRecover recovers (uc_session c))"

definition apply_credit :: "('n, 'h) ui_controller \<Rightarrow> nat" where
  "apply_credit c = owed (\<not> uc_retry_used c \<and>
     (uc_recovery c \<noteq> None \<or> in_flight OpApply applies (uc_session c)))"

definition retry_spent :: "('n, 'h) ui_controller \<Rightarrow> bool" where
  "retry_spent c \<longleftrightarrow> (uc_retry_used c \<longrightarrow> uc_recovery c = None)"

lemma flight_after_request:
  fixes s :: "('n, 'h) ui_session"
  assumes "begin_request i r submitted s = Inr (s', es)"
    and "\<And>(t :: ('n, 'h) ui_session) k. request_kind t submitted r = Inr k \<Longrightarrow> k = kind \<longleftrightarrow> P r"
  shows "in_flight kind P s' \<Longrightarrow> P r \<or> in_flight kind P s"
  using assms by (auto simp: begin_request_def and_then_Inr_iff in_flight_def pending_is_def split: if_splits)

lemma kind_recovers: "request_kind s submitted r = Inr k \<Longrightarrow> k = OpRecover \<longleftrightarrow> recovers r"
  by (auto simp: request_kind_def recovers_def and_then_Inr_iff split: daemon_request.splits if_splits)

lemma kind_applies: "request_kind s submitted r = Inr k \<Longrightarrow> k = OpApply \<longleftrightarrow> applies r"
  by (auto simp: request_kind_def applies_def and_then_Inr_iff split: daemon_request.splits if_splits)

lemmas flight_requests = flight_after_request [where kind = OpRecover and P = recovers, OF _ kind_recovers]
  flight_after_request [where kind = OpApply and P = applies, OF _ kind_applies]

lemma flight_after_save:
  assumes "begin_save config p follow s = Inr (s', es)" "kind \<noteq> OpSaveOnly" "kind \<noteq> OpChangeLanguage"
  shows "in_flight kind P s' \<Longrightarrow> (case follow of AfterRequest r \<Rightarrow> P r | _ \<Rightarrow> False)"
  using assms
  by (auto simp: begin_save_def in_flight_def pending_is_def Let_def split: if_splits after_save.splits)

lemma flight_after_daemon: "in_flight k P (fst (handle_daemon m s)) \<Longrightarrow> in_flight k P s"
  using daemon_moves_on [of s m] unfolding only_moves_on_def
  by (elim disjE exE conjE) (simp_all add: in_flight_def pending_is_def acknowledged_def)

lemma flight_after_persistence:
  fixes s :: "('n, 'h) ui_session"
  assumes "\<And>(t :: ('n, 'h) ui_session) submitted r j. request_kind t submitted r = Inr j \<Longrightarrow> j = k \<longleftrightarrow> P r"
  shows "in_flight k P (fst (handle_persistence i generation outcome s)) \<Longrightarrow> in_flight k P s"
proof -
  have "P r" if "begin_request i r submitted s1 = Inr (s', es)" "us_pending s1 = None" "in_flight k P s'"
    for s1 :: "('n, 'h) ui_session" and r submitted s' es
    using flight_after_request [OF that(1), of k P] that assms by (auto simp: in_flight_def pending_is_def)
  then show "in_flight k P (fst (handle_persistence i generation outcome s)) \<Longrightarrow> in_flight k P s"
    by (cases "us_pending s")
      (fastforce simp: handle_persistence_def configuration_failed_def in_flight_def pending_is_def Let_def
        split: if_splits sum.splits after_save.splits)+
qed

lemma execute_fst [simp]: "fst (execute es c) = c"
  by (simp add: execute_def)

lemma new_cycle_simps [simp]:
  "uc_session (new_cycle c) = uc_session c" "uc_recovery (new_cycle c) = None"
  "uc_retry_used (new_cycle c) = False" "uc_retry_after_refresh (new_cycle c) = uc_retry_after_refresh c"
  by (simp_all add: new_cycle_def)

lemma owed_simps [simp]: "owed True = 1" "owed False = 0"
  by (simp_all add: owed_def)

lemma owed_mono: "(a \<Longrightarrow> b) \<Longrightarrow> owed a \<le> owed b"
  by (simp add: owed_def)

lemma owed_sum: "(a \<Longrightarrow> b \<or> d) \<Longrightarrow> owed a \<le> owed b + owed d"
  by (auto simp: owed_def)

lemma flight_failed [simp]: "in_flight k P (configuration_failed e s) = in_flight k P s"
  by (simp add: in_flight_def pending_is_def configuration_failed_def)

text \<open>What each operation of the controller leaves of the fields the credits look at.\<close>

definition credit_fields :: "('n, 'h) ui_controller \<Rightarrow> bool \<times> bool \<times> 'n profile option" where
  "credit_fields c = (uc_retry_after_refresh c, uc_retry_used c, uc_recovery c)"

lemma submit_leaves:
  assumes "submit_request i r submitted cycle c = (ok, (c', es))"
  shows "credit_fields c' = credit_fields c \<or>
      applies r \<and> cycle \<and> credit_fields c' = (uc_retry_after_refresh c, False, None)"
    and "in_flight OpRecover recovers (uc_session c') \<Longrightarrow> recovers r \<or> in_flight OpRecover recovers (uc_session c)"
    and "in_flight OpApply applies (uc_session c') \<Longrightarrow> applies r \<or> in_flight OpApply applies (uc_session c)"
  using assms
  by (auto simp: submit_request_def credit_fields_def Let_def execute_def dest: flight_requests
    split: sum.splits if_splits)

lemma save_leaves_credit:
  assumes "controller_save config p follow c = (ok, (c', es))"
  shows "credit_fields c' = credit_fields c \<or>
      follows_with_apply follow \<and> credit_fields c' = (uc_retry_after_refresh c, False, None)"
    and "in_flight OpRecover recovers (uc_session c') \<Longrightarrow>
      asks recovers (AskSave config p follow) \<or> in_flight OpRecover recovers (uc_session c)"
    and "in_flight OpApply applies (uc_session c') \<Longrightarrow>
      asks applies (AskSave config p follow) \<or> in_flight OpApply applies (uc_session c)"
proof -
  have flight: "in_flight k P s' \<Longrightarrow> asks P (AskSave config p follow)"
    if "begin_save config p follow (uc_session c) = Inr (s', fs)" "k = OpRecover \<or> k = OpApply" for k P s' fs
    using flight_after_save [OF that(1), of k P] that(2) by (auto split: after_save.splits)
  show "credit_fields c' = credit_fields c \<or>
      follows_with_apply follow \<and> credit_fields c' = (uc_retry_after_refresh c, False, None)"
    using assms by (auto simp: controller_save_def credit_fields_def Let_def execute_def
      split: sum.splits if_splits)
  show "in_flight OpRecover recovers (uc_session c') \<Longrightarrow>
      asks recovers (AskSave config p follow) \<or> in_flight OpRecover recovers (uc_session c)"
    "in_flight OpApply applies (uc_session c') \<Longrightarrow>
      asks applies (AskSave config p follow) \<or> in_flight OpApply applies (uc_session c)"
    using assms by (auto simp: controller_save_def Let_def execute_def dest: flight
      split: sum.splits if_splits)
qed

lemma persisted_leaves:
  "credit_fields (fst (controller_persisted i generation outcome c)) = credit_fields c"
  "in_flight OpRecover recovers (uc_session (fst (controller_persisted i generation outcome c))) \<Longrightarrow>
    in_flight OpRecover recovers (uc_session c)"
  "in_flight OpApply applies (uc_session (fst (controller_persisted i generation outcome c))) \<Longrightarrow>
    in_flight OpApply applies (uc_session c)"
  using flight_after_persistence [where k = OpRecover and P = recovers, OF kind_recovers]
    flight_after_persistence [where k = OpApply and P = applies, OF kind_applies]
  by (auto simp: controller_persisted_def credit_fields_def case_prod_beta)

lemma note_session [simp]: "uc_session (note_message m c) = uc_session c"
  by (cases m) (simp_all add: note_response_def Let_def)

lemma recovery_answer_ends:
  assumes "accepts_reply s epoch (dr_request_id r)" "map_option fst (operation s) = Some OpRecover"
  shows "us_pending (fst (handle_response r s)) = None"
  using assms
  by (auto simp: accepts_reply_def pending_is_def operation_def handle_response_def option_filter_def Let_def
    handle_result_def changes_policy_def unexpected_def split: option.splits daemon_result.splits)

lemma take_message_session:
  "uc_session (fst (take_message m c)) = fst (handle_daemon m (uc_session c))"
  "credit_fields (fst (take_message m c)) = credit_fields (note_message m c)"
  by (simp_all add: take_message_def Let_def case_prod_beta credit_fields_def)

lemma note_flag:
  "uc_retry_after_refresh (note_message m c) \<Longrightarrow> uc_retry_after_refresh c \<or>
     (\<exists>epoch r. m = Response epoch r \<and> accepts_reply (uc_session c) epoch (dr_request_id r) \<and>
        map_option fst (operation (uc_session c)) = Some OpRecover)"
  by (cases m) (auto simp: note_response_def Let_def split: if_splits)

lemma note_recovery:
  "uc_retry_used (note_message m c) = uc_retry_used c"
  "uc_recovery (note_message m c) = uc_recovery c \<or>
     \<not> uc_retry_used c \<and> map_option fst (operation (uc_session c)) = Some OpApply"
  by (cases m; auto simp: note_response_def Let_def)+

text \<open>A message costs no credit, and a retry spends one.\<close>

lemma message_credits:
  "recovery_credit (fst (take_message m c)) \<le> recovery_credit c"
  "apply_credit (fst (take_message m c)) \<le> apply_credit c"
proof -
  let ?c = "fst (take_message m c)" and ?n = "note_message m c"
  have fields: "uc_retry_after_refresh ?c = uc_retry_after_refresh ?n" "uc_retry_used ?c = uc_retry_used ?n"
    "uc_recovery ?c = uc_recovery ?n"
    using take_message_session(2) [of m c] by (simp_all add: credit_fields_def)
  have flight: "in_flight k P (uc_session ?c) \<Longrightarrow> in_flight k P (uc_session c)" for k P
    by (simp add: take_message_session(1) flight_after_daemon)
  show "recovery_credit ?c \<le> recovery_credit c"
  proof (cases "uc_retry_after_refresh ?n \<and> \<not> uc_retry_after_refresh c")
    case True
    then obtain epoch r where r: "m = Response epoch r" "accepts_reply (uc_session c) epoch (dr_request_id r)"
      "map_option fst (operation (uc_session c)) = Some OpRecover"
      using note_flag by blast
    have "epoch = us_epoch (uc_session c)" using r(2) by (simp add: accepts_reply_def)
    then have "\<not> in_flight OpRecover recovers (uc_session ?c)"
      using recovery_answer_ends [OF r(2,3)] r(1)
      by (simp add: take_message_session(1) in_flight_def pending_is_def)
    moreover have "in_flight OpRecover recovers (uc_session c)"
      using r(3) by (auto simp: operation_def in_flight_def pending_is_def split: option.splits)
    ultimately show ?thesis using True fields by (simp add: recovery_credit_def)
  next
    case False
    then show ?thesis
      using flight [of OpRecover recovers] fields
      by (auto simp: recovery_credit_def intro!: add_mono owed_mono)
  qed
  have "in_flight OpApply applies (uc_session c)" if "map_option fst (operation (uc_session c)) = Some OpApply"
    using that by (auto simp: operation_def in_flight_def pending_is_def split: option.splits)
  then show "apply_credit ?c \<le> apply_credit c"
    unfolding apply_credit_def fields
    using note_recovery [of m c] flight [of OpApply applies] by (intro owed_mono) metis
qed

lemma retry_credits:
  assumes "retry_due m c"
  shows "owed (uc_recovery c \<noteq> None) + recovery_credit (fst (retry_after_recovery i c)) \<le> recovery_credit c"
    and "retry_spent c \<Longrightarrow>
      owed (uc_recovery c \<noteq> None) + apply_credit (fst (retry_after_recovery i c)) \<le> apply_credit c"
    and "retry_spent (fst (retry_after_recovery i c))"
proof -
  let ?c1 = "c\<lparr>uc_retry_after_refresh := False, uc_retry_used := True, uc_recovery := None\<rparr>"
  let ?c2 = "fst (retry_after_recovery i c)"
  have "uc_retry_after_refresh ?c2 = False \<and> uc_retry_used ?c2 \<and> uc_recovery ?c2 = None \<and>
      (in_flight OpRecover recovers (uc_session ?c2) \<longrightarrow> in_flight OpRecover recovers (uc_session c))"
  proof (cases "uc_recovery c")
    case None
    then show ?thesis by (simp add: retry_after_recovery_def)
  next
    case (Some p)
    obtain ok c' es where submitted: "submit_request i (ApplyProfile p) (Some p) False ?c1 = (ok, (c', es))"
      by (metis prod.collapse)
    from submit_leaves(1,2) [OF submitted] submitted Some show ?thesis
      by (auto simp: retry_after_recovery_def credit_fields_def recovers_def)
  qed
  moreover have "uc_retry_after_refresh c" using assms by (simp add: retry_due_def)
  ultimately show "owed (uc_recovery c \<noteq> None) + recovery_credit ?c2 \<le> recovery_credit c"
    "retry_spent c \<Longrightarrow> owed (uc_recovery c \<noteq> None) + apply_credit ?c2 \<le> apply_credit c"
    "retry_spent ?c2"
    by (auto simp: recovery_credit_def apply_credit_def retry_spent_def owed_def)
qed

lemma spent_kept:
  "retry_spent c \<Longrightarrow> credit_fields c' = credit_fields c \<or> credit_fields c' = (f, False, None) \<Longrightarrow> retry_spent c'"
  by (auto simp: retry_spent_def credit_fields_def)

lemma message_spent: "retry_spent c \<Longrightarrow> retry_spent (fst (take_message m c))"
  using note_recovery [of m c] take_message_session(2) [of m c]
  by (auto simp: retry_spent_def credit_fields_def)

lemma asked_credits:
  assumes "credit_fields c' = credit_fields c \<or> a \<and> credit_fields c' = (uc_retry_after_refresh c, False, None)"
    and "in_flight OpRecover recovers (uc_session c') \<longrightarrow> b \<or> in_flight OpRecover recovers (uc_session c)"
    and "in_flight OpApply applies (uc_session c') \<longrightarrow> a \<or> in_flight OpApply applies (uc_session c)"
    and "retry_spent c"
  shows "recovery_credit c' \<le> recovery_credit c + owed b" "apply_credit c' \<le> apply_credit c + owed a"
    "retry_spent c'"
  using assms by (auto simp: credit_fields_def recovery_credit_def apply_credit_def retry_spent_def owed_def)

lemma follow_asks: "asks applies (AskSave config p follow) = follows_with_apply follow"
  by (cases follow) (simp_all add: follows_with_apply_def)

lemma received_credits:
  assumes "retry_spent c"
  shows "length (retried (Received i m) c) + recovery_credit (fst (controller_receive i m c)) \<le> recovery_credit c"
    "length (retried (Received i m) c) + apply_credit (fst (controller_receive i m c)) \<le> apply_credit c"
    "retry_spent (fst (controller_receive i m c))"
proof -
  let ?c = "fst (take_message m c)"
  let ?n = "length (retried (Received i m) c)" and ?d = "fst (controller_receive i m c)"
  note message = message_credits [of m c] message_spent [OF assms, of m]
  have "?n + recovery_credit ?d \<le> recovery_credit c \<and> ?n + apply_credit ?d \<le> apply_credit c \<and> retry_spent ?d"
  proof (cases "retry_due m ?c")
    case True
    have len: "?n = owed (uc_recovery ?c \<noteq> None)"
      using True by (simp add: Let_def owed_def split: option.split)
    have step: "?d = fst (retry_after_recovery i ?c)"
      using True by (simp add: controller_receive_def case_prod_beta)
    show ?thesis
      unfolding len step
      using retry_credits(1,3) [OF True, of i] retry_credits(2) [OF True message(3), of i] message(1,2)
      by (intro conjI) simp_all
  next
    case False
    with message show ?thesis by (simp add: controller_receive_def case_prod_beta Let_def)
  qed
  then show "?n + recovery_credit ?d \<le> recovery_credit c" "?n + apply_credit ?d \<le> apply_credit c" "retry_spent ?d"
    by simp_all
qed

lemma step_credits:
  assumes "retry_spent c"
  shows "length (retried x c) + recovery_credit (fst (controller_step x c)) \<le> recovery_credit c + owed (asks recovers x)"
    "length (retried x c) + apply_credit (fst (controller_step x c)) \<le> apply_credit c + owed (asks applies x)"
    "retry_spent (fst (controller_step x c))"
proof -
  let ?ok = "\<lambda>c'. recovery_credit c' \<le> recovery_credit c + owed (asks recovers x) \<and>
    apply_credit c' \<le> apply_credit c + owed (asks applies x) \<and> retry_spent c'"
  have "length (retried x c) + recovery_credit (fst (controller_step x c)) \<le> recovery_credit c + owed (asks recovers x) \<and>
    length (retried x c) + apply_credit (fst (controller_step x c)) \<le> apply_credit c + owed (asks applies x) \<and>
    retry_spent (fst (controller_step x c))"
  proof (cases x)
    case (AskSave config p follow)
    obtain ok c' es where saved: "controller_save config p follow c = (ok, (c', es))" by (metis prod.collapse)
    have "?ok c'"
      using asked_credits [of c' c "asks applies x" "asks recovers x"] save_leaves_credit [OF saved] assms
        follow_asks [of config p follow] AskSave by blast
    with saved AskSave show ?thesis by simp
  next
    case (AskRequest i r submitted)
    obtain ok c' es where asked: "submit_request i r submitted True c = (ok, (c', es))" by (metis prod.collapse)
    have "?ok c'"
      using asked_credits [of c' c "asks applies x" "asks recovers x"] submit_leaves [OF asked] assms AskRequest
      by auto
    with asked AskRequest show ?thesis by (simp add: controller_request_def)
  next
    case (ConfirmRecovery i)
    let ?c = "c\<lparr>uc_recovery_started := True\<rparr>"
    obtain ok c' es where asked: "submit_request i RecoverOrphanedResources None True ?c = (ok, (c', es))"
      by (metis prod.collapse)
    have same: "recovery_credit ?c = recovery_credit c" "apply_credit ?c = apply_credit c"
      "retry_spent ?c = retry_spent c" "recovery_credit (c'\<lparr>uc_recovery_started := b\<rparr>) = recovery_credit c'"
      "apply_credit (c'\<lparr>uc_recovery_started := b\<rparr>) = apply_credit c'"
      "retry_spent (c'\<lparr>uc_recovery_started := b\<rparr>) = retry_spent c'" for b
      by (simp_all add: recovery_credit_def apply_credit_def retry_spent_def)
    have "?ok c'"
      using asked_credits [of c' ?c "asks applies x" "asks recovers x"] submit_leaves [OF asked] assms ConfirmRecovery
      by (simp add: same)
    with assms asked ConfirmRecovery show ?thesis
      by (auto simp: confirm_recovery_def controller_request_def same owed_def split: prod.splits bool.splits)
  next
    case (Persisted i generation outcome)
    let ?c = "fst (controller_persisted i generation outcome c)"
    have "?ok ?c"
      using asked_credits [of ?c c False False] persisted_leaves [of i generation outcome c] assms Persisted
      by simp
    with Persisted show ?thesis by simp
  next
    case (Received i m)
    with received_credits [OF assms, of i m] show ?thesis by simp
  qed (use assms in \<open>auto simp: controller_refresh_def cancel_recovery_def recovery_credit_def apply_credit_def
    retry_spent_def owed_def\<close>)
  then show "length (retried x c) + recovery_credit (fst (controller_step x c)) \<le> recovery_credit c + owed (asks recovers x)"
    "length (retried x c) + apply_credit (fst (controller_step x c)) \<le> apply_credit c + owed (asks applies x)"
    "retry_spent (fst (controller_step x c))" by simp_all
qed

lemma run_credits:
  "retry_spent c \<Longrightarrow> length (retries xs c) \<le> recovery_credit c + length (filter (asks recovers) xs) \<and>
     length (retries xs c) \<le> apply_credit c + length (filter (asks applies) xs)"
proof (induction xs arbitrary: c)
  case (Cons x xs)
  note step = step_credits [OF Cons.prems, of x]
  from Cons.IH [OF step(3)] step(1,2) show ?case by (auto simp: owed_def split: if_splits)
qed simp

text \<open>
  C37. The interface retries on its own at most once for each recovery and for each apply the user asked
  for. In any run of a new session and controller, the applies the controller submits by itself are no
  more than the recoveries the user confirmed or requested, and no more than the applies the user asked
  for, whatever the daemon answers.
\<close>

theorem retries_are_bounded:
  "length (retries xs (new_controller (new_session p writable) persistence)) \<le>
     min (length (filter (asks recovers) xs)) (length (filter (asks applies) xs))"
  using run_credits [of "new_controller (new_session p writable) persistence" xs]
  by (simp add: new_controller_def new_session_def retry_spent_def recovery_credit_def apply_credit_def
    in_flight_def pending_is_def)

end
