(* ===== verification/Bridge.thy ===== *)
theory Bridge
  imports Session Ipc
begin

text \<open>
  The bridge between the interface and the daemon (\<open>src/src/main.rs\<close>): it keeps a subscription, answers
  the window's requests and snapshots over the socket, and reconnects with a bounded delay. Time, the
  socket with its timeouts, systemd and random identifiers are parameters; what the bridge tells the
  window is recorded in its state.
\<close>

section \<open>Timing\<close>

text \<open>Durations in milliseconds.\<close>

record connection_policy =
  cp_request_timeout :: nat
  cp_mutation_timeout :: nat
  cp_activation_timeout :: nat
  cp_initial_reconnect_delay :: nat
  cp_maximum_reconnect_delay :: nat

definition default_policy :: connection_policy where
  "default_policy = \<lparr>cp_request_timeout = 3000, cp_mutation_timeout = 180000, cp_activation_timeout = 8000,
     cp_initial_reconnect_delay = 250, cp_maximum_reconnect_delay = 8000\<rparr>"

definition reconnect_delay :: "connection_policy \<Rightarrow> u32 \<Rightarrow> nat" where
  "reconnect_delay P n =
     min (cp_initial_reconnect_delay P * 2 ^ unat (min n 16)) (cp_maximum_reconnect_delay P)"

lemma reconnect_delay_bounds:
  "250 \<le> reconnect_delay default_policy n" "reconnect_delay default_policy n \<le> 8000"
proof -
  have "(250::nat) * 1 \<le> 250 * 2 ^ unat (min n 16)" by (intro mult_left_mono) simp_all
  then show "250 \<le> reconnect_delay default_policy n"
    by (simp add: reconnect_delay_def default_policy_def)
  show "reconnect_delay default_policy n \<le> 8000"
    by (simp add: reconnect_delay_def default_policy_def)
qed

section \<open>The daemon's side\<close>

text \<open>An operation with a timeout gives no outcome when it takes too long.\<close>

type_synonym ('w, 'a) timed = "nat \<Rightarrow> 'w \<Rightarrow> (coded_error, 'a) result option \<times> 'w"

record ('w, 'n, 'h) bridge_client =
  bl_send :: "'n daemon_envelope \<Rightarrow> ('w, ('n, 'h) daemon_response) timed"
  bl_subscribe :: "string \<Rightarrow> ('w, unit) timed"
  bl_activate :: "nat \<Rightarrow> ('w, string, unit) fallible"
  bl_uuid :: "'w \<Rightarrow> string \<times> 'w"
  bl_sleep :: "nat \<Rightarrow> 'w \<Rightarrow> 'w"

text \<open>
  The bridge: the number of the connection, the last event sequence of the subscription if there is
  one, the reconnections tried, the delay before the next, and what the window was told.
\<close>

record ('n, 'h) bridge =
  br_epoch :: u64
  br_subscription :: "u64 option"
  br_attempt :: u32
  br_delay :: nat
  br_told :: "('n, 'h) daemon_to_ui list"

definition new_bridge :: "('n, 'h) bridge" where
  "new_bridge = \<lparr>br_epoch = 0, br_subscription = None, br_attempt = 0, br_delay = 0, br_told = []\<rparr>"

text \<open>A panic is a failure of its own.\<close>

datatype bridge_failure = Failed coded_error | EpochExhausted

type_synonym ('w, 'n, 'h, 'a) bridge_io = "(('n, 'h) bridge \<times> 'w, bridge_failure, 'a) fallible"

definition tell :: "('n, 'h) daemon_to_ui \<Rightarrow> ('n, 'h) bridge \<Rightarrow> ('n, 'h) bridge" where
  "tell m b = b\<lparr>br_told := br_told b @ [m]\<rparr>"

definition within_timeout :: "string \<Rightarrow> nat \<Rightarrow> ('w, 'a) timed \<Rightarrow> ('w, 'n, 'h, 'a) bridge_io" where
  "within_timeout message t m = in_world (\<lambda>w. case m t w of
     (None, w') \<Rightarrow> (Inl (Failed (coded ''IPC_TIMEOUT'' message)), w')
   | (Some r, w') \<Rightarrow> (map_err Failed r, w'))"

definition drawn :: "('w, 'n, 'h) bridge_client \<Rightarrow> ('w, 'n, 'h, string) bridge_io" where
  "drawn X = in_world (\<lambda>w. case bl_uuid X w of (i, w') \<Rightarrow> (Inr i, w'))"

definition envelope :: "string \<Rightarrow> 'n daemon_request \<Rightarrow> 'n daemon_envelope" where
  "envelope i r = \<lparr>en_protocol_version = IPC_PROTOCOL_VERSION, en_request_id = i, en_request = r\<rparr>"

definition send_with_timeout ::
  "('w, 'n, 'h) bridge_client \<Rightarrow> connection_policy \<Rightarrow> 'n ui_request \<Rightarrow>
     ('w, 'n, 'h, ('n, 'h) daemon_response) bridge_io"
where
  "send_with_timeout X P q = within_timeout ''daemon request timed out''
     (if reads_only (uq_request q) then cp_request_timeout P else cp_mutation_timeout P)
     (bl_send X (envelope (uq_request_id q) (uq_request q)))"

definition ask ::
  "('w, 'n, 'h) bridge_client \<Rightarrow> connection_policy \<Rightarrow> 'n daemon_request \<Rightarrow>
     (('n, 'h) daemon_result option \<Rightarrow> 'a option) \<Rightarrow> string \<Rightarrow> ('w, 'n, 'h, 'a) bridge_io"
where
  "ask X P r pick message =
     io_bind (drawn X) (\<lambda>i.
     io_bind (send_with_timeout X P \<lparr>uq_request_id = i, uq_request = r\<rparr>) (\<lambda>answer.
     case dr_error answer of
       Some e \<Rightarrow> io_fail (Failed e)
     | None \<Rightarrow> io_lift (ok_or (Failed (invalid_response message)) (pick (dr_result answer)))))"

definition request_status ::
  "('w, 'n, 'h) bridge_client \<Rightarrow> connection_policy \<Rightarrow> ('w, 'n, 'h, 'h daemon_status) bridge_io"
where
  "request_status X P = ask X P GetStatus (\<lambda>r. case r of Some (Status x) \<Rightarrow> Some x | _ \<Rightarrow> None)
     ''status request returned an unexpected response''"

definition request_profiles ::
  "('w, 'n, 'h) bridge_client \<Rightarrow> connection_policy \<Rightarrow> ('w, 'n, 'h, 'n profile list) bridge_io"
where
  "request_profiles X P = ask X P ListProfiles (\<lambda>r. case r of Some (Profiles ps) \<Rightarrow> Some ps | _ \<Rightarrow> None)
     ''profile request returned an unexpected response''"

text \<open>The snapshot is sent only after both answers; its event sequence is the result.\<close>

definition refresh_daemon_state ::
  "('w, 'n, 'h) bridge_client \<Rightarrow> connection_policy \<Rightarrow> u64 \<Rightarrow> ('w, 'n, 'h, u64) bridge_io"
where
  "refresh_daemon_state X P epoch =
     io_bind (request_status X P) (\<lambda>x.
     io_bind (request_profiles X P) (\<lambda>ps.
     io_seq (io_modify (tell (Snapshot epoch x ps))) (io_return (sd_event_sequence x))))"

definition advance_connection_epoch :: "('w, 'n, 'h, u64) bridge_io" where
  "advance_connection_epoch =
     io_bind (io_gets br_epoch) (\<lambda>e.
     if e = - 1 then io_fail EpochExhausted
     else io_seq (io_modify (\<lambda>b. b\<lparr>br_epoch := e + 1\<rparr>)) (io_return (e + 1)))"

definition establish ::
  "('w, 'n, 'h) bridge_client \<Rightarrow> connection_policy \<Rightarrow> ('w, 'n, 'h, unit) bridge_io"
where
  "establish X P =
     io_bind (drawn X) (\<lambda>i.
     io_seq (within_timeout ''daemon subscription timed out'' (cp_request_timeout P) (bl_subscribe X i))
     (io_bind advance_connection_epoch (\<lambda>e.
     io_seq (io_modify (tell (ConnectionEstablished e)))
     (io_bind (refresh_daemon_state X P e) (\<lambda>n.
       io_modify (\<lambda>b. b\<lparr>br_subscription := Some n\<rparr>))))))"

fun wait_for_daemon ::
  "('w, 'n, 'h) bridge_client \<Rightarrow> connection_policy \<Rightarrow> u32 list \<Rightarrow> bridge_failure \<Rightarrow> ('w, 'n, 'h, unit) bridge_io"
where
  "wait_for_daemon X P [] e = io_fail e"
| "wait_for_daemon X P (n # ns) _ =
     io_bind (io_result (establish X P)) (\<lambda>r.
       case r of
         Inr _ \<Rightarrow> io_return ()
       | Inl EpochExhausted \<Rightarrow> io_fail EpochExhausted
       | Inl e \<Rightarrow>
           io_seq (in_world (\<lambda>w. (Inr (), bl_sleep X (reconnect_delay P n) w))) (wait_for_daemon X P ns e))"

section \<open>The loop\<close>

definition unavailable :: "string option \<Rightarrow> coded_error \<Rightarrow> ('w, 'n, 'h, unit) bridge_io" where
  "unavailable i e = io_modify (\<lambda>b. tell (DaemonUnavailable (br_epoch b) i e) b)"

text \<open>An error becomes a message to the window and a plan for what to do; a panic goes on.\<close>

definition or_report ::
  "(coded_error \<Rightarrow> ('w, 'n, 'h, unit) bridge_io) \<Rightarrow> ('w, 'n, 'h, unit) bridge_io \<Rightarrow> ('w, 'n, 'h, unit) bridge_io"
where
  "or_report handler m = io_bind (io_result m) (\<lambda>r.
     case r of Inr _ \<Rightarrow> io_return () | Inl (Failed e) \<Rightarrow> handler e | Inl EpochExhausted \<Rightarrow> io_fail EpochExhausted)"

definition retry_later :: "connection_policy \<Rightarrow> ('n, 'h) bridge \<Rightarrow> ('n, 'h) bridge" where
  "retry_later P b = b\<lparr>br_delay := reconnect_delay P (br_attempt b),
     br_attempt := (if br_attempt b = - 1 then - 1 else br_attempt b + 1)\<rparr>"

definition disconnect :: "connection_policy \<Rightarrow> ('w, 'n, 'h, unit) bridge_io" where
  "disconnect P = io_modify (\<lambda>b. retry_later P (b\<lparr>br_subscription := None\<rparr>))"

definition bridge_start ::
  "('w, 'n, 'h) bridge_client \<Rightarrow> connection_policy \<Rightarrow> ('w, 'n, 'h, unit) bridge_io"
where
  "bridge_start X P =
     or_report (\<lambda>first.
       io_bind (io_result (in_world (bl_activate X (cp_activation_timeout P)))) (\<lambda>activated.
       case activated of
         Inl e \<Rightarrow> unavailable None (coded ''DAEMON_ACTIVATION_FAILED''
           (error_text first @ ''; systemd user activation failed: '' @ e))
       | Inr _ \<Rightarrow> or_report (unavailable None)
           (wait_for_daemon X P [0, 1, 2, 3, 4, 5]
             (Failed (coded ''IPC_CONNECT_FAILED'' ''daemon did not create its socket'')))))
       (establish X P)"

definition deliver_request ::
  "('w, 'n, 'h) bridge_client \<Rightarrow> connection_policy \<Rightarrow> 'n ui_request \<Rightarrow> ('w, 'n, 'h, unit) bridge_io"
where
  "deliver_request X P q =
     io_bind (io_gets br_epoch) (\<lambda>epoch.
     io_bind (io_result (send_with_timeout X P q)) (\<lambda>answer.
     case answer of
       Inr r \<Rightarrow> io_modify (tell (Response epoch r))
     | Inl (Failed e) \<Rightarrow>
         io_seq (io_modify (tell (DaemonUnavailable epoch (Some (uq_request_id q)) e))) (io_fail (Failed e))
     | Inl EpochExhausted \<Rightarrow> io_fail EpochExhausted))"

text \<open>\<open>EventSubscription::recv\<close>: an event that is not newer than the last is skipped.\<close>

definition forward_event :: "'h daemon_event \<Rightarrow> ('n, 'h) bridge \<Rightarrow> ('n, 'h) bridge" where
  "forward_event e b = (case br_subscription b of
     None \<Rightarrow> b
   | Some n \<Rightarrow>
       if n < event_sequence e
       then tell (DaemonEvent (br_epoch b) e) (b\<lparr>br_subscription := Some (event_sequence e)\<rparr>)
       else b)"

datatype ('n, 'h) bridge_input =
    CommandRequest "'n ui_request"
  | CommandRefresh
  | SubscriptionEvent "'h daemon_event"
  | SubscriptionEnded
  | ReconnectTimer

definition disconnected :: coded_error where
  "disconnected = coded ''IPC_DISCONNECTED'' ''daemon event subscription disconnected''"

text \<open>One branch of the loop; the branches of a missing or a present subscription never fire otherwise.\<close>

fun bridge_turn ::
  "('w, 'n, 'h) bridge_client \<Rightarrow> connection_policy \<Rightarrow> ('n, 'h) bridge_input \<Rightarrow> ('w, 'n, 'h, unit) bridge_io"
where
  "bridge_turn X P (CommandRequest q) = or_report (\<lambda>_. disconnect P) (deliver_request X P q)"
| "bridge_turn X P CommandRefresh =
     or_report (\<lambda>e. io_seq (unavailable None e) (disconnect P))
       (io_bind (io_gets br_epoch) (\<lambda>epoch.
         io_bind (refresh_daemon_state X P epoch) (\<lambda>_. io_return ())))"
| "bridge_turn X P (SubscriptionEvent e) = io_modify (forward_event e)"
| "bridge_turn X P SubscriptionEnded =
     io_bind (io_gets br_subscription) (\<lambda>s.
       if s = None then io_return () else io_seq (disconnect P) (unavailable None disconnected))"
| "bridge_turn X P ReconnectTimer =
     io_bind (io_gets br_subscription) (\<lambda>s.
       if s \<noteq> None then io_return ()
       else or_report (\<lambda>e. io_seq (unavailable None e) (io_modify (retry_later P)))
         (io_seq (establish X P) (io_modify (\<lambda>b. b\<lparr>br_attempt := 0\<rparr>))))"

text \<open>A run up to the shutdown command, or to the panic; without a socket path there is none.\<close>

definition daemon_bridge ::
  "('w, 'n, 'h) bridge_client \<Rightarrow> connection_policy \<Rightarrow> (coded_error, path) result \<Rightarrow>
     ('n, 'h) bridge_input list \<Rightarrow> ('w, 'n, 'h, unit) bridge_io"
where
  "daemon_bridge X P located xs = (case located of
     Inl e \<Rightarrow> unavailable None e
   | Inr _ \<Rightarrow> io_seq (bridge_start X P) (io_each (bridge_turn X P) xs))"

section \<open>What the window is told\<close>

text \<open>
  A watcher of the messages: the connection, and the event sequence below which no event of it may come.
  It gives up on a message of another connection, a connection that is not newer, an event before the
  first snapshot of its connection, or one that is not newer than that snapshot and every event before.
\<close>

fun watch :: "('n, 'h) daemon_to_ui \<Rightarrow> (u64 \<times> u64 option) option \<Rightarrow> (u64 \<times> u64 option) option" where
  "watch _ None = None"
| "watch (ConnectionEstablished epoch) (Some (e, _)) = (if e < epoch then Some (epoch, None) else None)"
| "watch (Snapshot epoch x _) (Some (e, n)) =
     (if epoch = e then Some (e, Some (case n of None \<Rightarrow> sd_event_sequence x | Some k \<Rightarrow> k)) else None)"
| "watch (Response epoch _) (Some (e, n)) = (if epoch = e then Some (e, n) else None)"
| "watch (DaemonEvent epoch ev) (Some (e, n)) =
     (case n of
        None \<Rightarrow> None
      | Some k \<Rightarrow> if epoch = e \<and> k < event_sequence ev then Some (e, Some (event_sequence ev)) else None)"
| "watch (DaemonUnavailable epoch _ _) (Some (e, n)) = (if epoch = e then Some (e, n) else None)"

definition watched :: "('n, 'h) daemon_to_ui list \<Rightarrow> (u64 \<times> u64 option) option" where
  "watched ms = fold watch ms (Some (0, None))"

text \<open>What holds between the operations of the bridge.\<close>

definition told_ok :: "('n, 'h) bridge \<Rightarrow> bool" where
  "told_ok b \<longleftrightarrow> (case watched (br_told b) of
     None \<Rightarrow> False
   | Some (e, n) \<Rightarrow> e = br_epoch b \<and> (br_subscription b = None \<or> br_subscription b = n))"

text \<open>While a connection is being established.\<close>

definition connecting :: "u64 \<Rightarrow> u64 option \<Rightarrow> ('n, 'h) bridge \<Rightarrow> bool" where
  "connecting e n b \<longleftrightarrow> br_epoch b = e \<and> br_subscription b = None \<and> watched (br_told b) = Some (e, n)"

definition idle :: "('n, 'h) bridge \<Rightarrow> bool" where
  "idle b \<longleftrightarrow> told_ok b \<and> br_subscription b = None"

definition behind :: "u64 \<Rightarrow> ('n, 'h) bridge \<Rightarrow> bool" where
  "behind e b \<longleftrightarrow> br_epoch b = e \<and> br_subscription b = None \<and>
     (case watched (br_told b) of None \<Rightarrow> False | Some (e', _) \<Rightarrow> e' < e)"

definition in_bridge :: "(('n, 'h) bridge \<Rightarrow> bool) \<Rightarrow> ('n, 'h) bridge \<times> 'w \<Rightarrow> bool" where
  "in_bridge Q x = Q (fst x)"

lemma in_bridge_simp [simp]: "in_bridge Q (b, w) = Q b"
  by (simp add: in_bridge_def)

lemma watched_told [simp]: "watched (ms @ [m]) = watch m (watched ms)"
  by (simp add: watched_def)

lemma tell_simps [simp]:
  "br_told (tell m b) = br_told b @ [m]" "br_epoch (tell m b) = br_epoch b"
  "br_subscription (tell m b) = br_subscription b"
  by (simp_all add: tell_def)

lemma told_ok_other [simp]:
  "told_ok (b\<lparr>br_delay := d\<rparr>) = told_ok b" "told_ok (b\<lparr>br_attempt := n\<rparr>) = told_ok b"
  "told_ok (retry_later P b) = told_ok b" "told_ok b \<Longrightarrow> told_ok (b\<lparr>br_subscription := None\<rparr>)"
  by (auto simp: told_ok_def retry_later_def split: option.splits)

lemma told_ok_tell:
  "told_ok b \<Longrightarrow> told_ok (tell (DaemonUnavailable (br_epoch b) i e) b)"
  "told_ok b \<Longrightarrow> br_epoch b = epoch \<Longrightarrow> told_ok (tell (Response epoch r) b)"
  "told_ok b \<Longrightarrow> br_epoch b = epoch \<Longrightarrow> told_ok (tell (DaemonUnavailable epoch i e) b)"
  "told_ok b \<Longrightarrow> br_epoch b = epoch \<Longrightarrow> told_ok (tell (Snapshot epoch x ps) b)"
  by (auto simp: told_ok_def split: option.splits)

lemma told_ok_event: "told_ok b \<Longrightarrow> told_ok (forward_event e b)"
  by (auto simp: told_ok_def forward_event_def split: option.splits)

lemma outside_keeps:
  "keeps (in_bridge Q) (in_world m)"
  by (rule keepsI) (auto simp: in_world_def split: prod.splits)

lemma send_keeps: "keeps (in_bridge Q) (send_with_timeout X P q)"
  unfolding send_with_timeout_def within_timeout_def by (rule outside_keeps)

lemma ask_keeps: "keeps (in_bridge Q) (ask X P r pick message)"
  unfolding ask_def drawn_def by (intro keeps_bind keeps_option keeps_simps send_keeps outside_keeps)

lemma modify_keeps: "(\<And>b. Q b \<Longrightarrow> Q (f b)) \<Longrightarrow> keeps (in_bridge Q) (io_modify f)"
  by (rule keepsI) (auto simp: io_modify_def in_bridge_def)

lemma hoare_modify_bridge:
  "(\<And>b. P b \<Longrightarrow> Q (f b)) \<Longrightarrow> hoare (in_bridge P) (io_modify f) (\<lambda>_. in_bridge Q) E"
  by (rule hoare_modify) simp

lemma hoare_ask: "(\<And>b. P b \<Longrightarrow> E b) \<Longrightarrow> hoare (in_bridge P) (ask X Q r pick message) (\<lambda>_. in_bridge P) (in_bridge E)"
  by (rule keeps_hoare [OF ask_keeps [of P]]) (simp_all add: in_bridge_def)

lemma refresh_tells:
  assumes "\<And>b x ps. Q b \<Longrightarrow> R (sd_event_sequence x) (tell (Snapshot epoch x ps) b)" "\<And>b. Q b \<Longrightarrow> E b"
  shows "hoare (in_bridge Q) (refresh_daemon_state X P epoch) (\<lambda>n. in_bridge (R n)) (in_bridge E)"
  unfolding refresh_daemon_state_def request_status_def request_profiles_def
  by (rule hoare_bind, rule hoare_ask, rule assms(2), assumption, rule hoare_bind, rule hoare_ask,
      rule assms(2), assumption, rule hoare_seq, rule hoare_modify_bridge, rule assms(1), assumption,
      rule hoare_return, assumption)

lemma next_epoch: "e < e + 1" if "e \<noteq> - 1" for e :: u64
proof -
  have "1 + e \<noteq> 0" using that by (simp add: eq_neg_iff_add_eq_0 add.commute)
  from unatSuc [OF this] show ?thesis by (simp only: word_less_nat_alt add.commute [of e 1] lessI)
qed

lemma advance_tells: "hoare (in_bridge idle) advance_connection_epoch (\<lambda>e. in_bridge (behind e)) (in_bridge idle)"
  unfolding advance_connection_epoch_def
proof (rule hoare_bind [where R = "\<lambda>e. in_bridge (\<lambda>b. idle b \<and> br_epoch b = e)"])
  show "hoare (in_bridge idle) (io_gets br_epoch) (\<lambda>e. in_bridge (\<lambda>b. idle b \<and> br_epoch b = e)) (in_bridge idle)"
    by (rule hoare_gets) simp
  have later: "behind (e + 1) (b\<lparr>br_epoch := e + 1\<rparr>)" if "idle b" "br_epoch b = e" "e \<noteq> - 1" for b e
    using that(1,2) next_epoch [OF that(3)] by (auto simp: idle_def told_ok_def behind_def split: option.splits)
  show "hoare (in_bridge (\<lambda>b. idle b \<and> br_epoch b = e))
      (if e = - 1 then io_fail EpochExhausted
       else io_seq (io_modify (\<lambda>b. b\<lparr>br_epoch := e + 1\<rparr>)) (io_return (e + 1)))
      (\<lambda>e. in_bridge (behind e)) (in_bridge idle)" for e
  proof (cases "e = - 1")
    case True
    then show ?thesis by (auto simp: in_bridge_def intro!: hoare_fail)
  next
    case False
    have "hoare (in_bridge (\<lambda>b. idle b \<and> br_epoch b = e)) (io_modify (\<lambda>b. b\<lparr>br_epoch := e + 1\<rparr>))
        (\<lambda>_. in_bridge (behind (e + 1))) (in_bridge idle)"
      by (rule hoare_modify_bridge) (use later False in blast)
    from hoare_seq [OF this hoare_return [of _ "\<lambda>e. in_bridge (behind e)"]] False show ?thesis by simp
  qed
qed

lemma connected_tells:
  "hoare (in_bridge (behind e))
     (io_seq (io_modify (tell (ConnectionEstablished e)))
       (io_bind (refresh_daemon_state X P e) (\<lambda>n. io_modify (\<lambda>b. b\<lparr>br_subscription := Some n\<rparr>))))
     (\<lambda>_. in_bridge told_ok) (in_bridge idle)"
proof (rule hoare_seq)
  show "hoare (in_bridge (behind e)) (io_modify (tell (ConnectionEstablished e)))
      (\<lambda>_. in_bridge (connecting e None)) (in_bridge idle)"
    by (rule hoare_modify_bridge) (auto simp: behind_def connecting_def split: option.splits)
  show "hoare (in_bridge (connecting e None))
      (io_bind (refresh_daemon_state X P e) (\<lambda>n. io_modify (\<lambda>b. b\<lparr>br_subscription := Some n\<rparr>)))
      (\<lambda>_. in_bridge told_ok) (in_bridge idle)"
  proof (rule hoare_bind)
    show "hoare (in_bridge (connecting e None)) (refresh_daemon_state X P e)
        (\<lambda>n. in_bridge (connecting e (Some n))) (in_bridge idle)"
      by (rule refresh_tells) (simp_all add: connecting_def idle_def told_ok_def)
    show "hoare (in_bridge (connecting e (Some n))) (io_modify (\<lambda>b. b\<lparr>br_subscription := Some n\<rparr>))
        (\<lambda>_. in_bridge told_ok) (in_bridge idle)" for n
      by (rule hoare_modify_bridge) (simp add: connecting_def told_ok_def)
  qed
qed

lemma establish_tells: "hoare (in_bridge idle) (establish X P) (\<lambda>_. in_bridge told_ok) (in_bridge idle)"
proof -
  have outside: "hoare (in_bridge idle) (in_world m) (\<lambda>_. in_bridge idle) (in_bridge idle)" for m
    by (rule keeps_hoare [OF outside_keeps [of idle]]) simp_all
  show ?thesis
    unfolding establish_def drawn_def within_timeout_def
    by (rule hoare_bind, rule outside, rule hoare_seq, rule outside, rule hoare_bind, rule advance_tells,
        rule connected_tells)
qed

lemma idle_told: "idle b \<Longrightarrow> told_ok b"
  by (simp add: idle_def)

lemma wait_tells:
  "hoare (in_bridge idle) (wait_for_daemon X P ns e) (\<lambda>_. in_bridge told_ok) (in_bridge told_ok)"
proof (induction ns arbitrary: e)
  case (Cons n ns)
  show ?case
    unfolding wait_for_daemon.simps
  proof (rule hoare_bind [where R = "\<lambda>r. in_bridge (case r of Inl _ \<Rightarrow> idle | Inr _ \<Rightarrow> told_ok)"])
    show "hoare (in_bridge idle) (io_result (establish X P))
        (\<lambda>r. in_bridge (case r of Inl _ \<Rightarrow> idle | Inr _ \<Rightarrow> told_ok)) (in_bridge told_ok)"
      by (rule hoare_result, rule hoare_conseq [OF establish_tells]) simp_all
    have slept: "hoare (in_bridge idle) (io_seq (in_world m) (wait_for_daemon X P ns f))
        (\<lambda>_. in_bridge told_ok) (in_bridge told_ok)" for m f
      by (rule hoare_seq [OF _ Cons.IH], rule keeps_hoare [OF outside_keeps [of idle]])
        (auto simp: in_bridge_def idle_told)
    show "hoare (in_bridge (case r of Inl _ \<Rightarrow> idle | Inr _ \<Rightarrow> told_ok))
        (case r of Inr _ \<Rightarrow> io_return () | Inl EpochExhausted \<Rightarrow> io_fail EpochExhausted
         | Inl e \<Rightarrow> io_seq (in_world (\<lambda>w. (Inr (), bl_sleep X (reconnect_delay P n) w)))
             (wait_for_daemon X P ns e))
        (\<lambda>_. in_bridge told_ok) (in_bridge told_ok)" for r
      using slept
      by (auto simp: in_bridge_def idle_told intro!: hoare_fail hoare_return split: sum.split bridge_failure.split)
  qed
qed (auto simp: in_bridge_def idle_told intro!: hoare_fail)

text \<open>The handler of an error runs where the operation failed.\<close>

lemma or_report_tells:
  assumes "hoare P m (\<lambda>_. in_bridge told_ok) F" "\<And>e. hoare F (handler e) (\<lambda>_. in_bridge told_ok) (in_bridge told_ok)"
    and "\<And>x. F x \<Longrightarrow> in_bridge told_ok x"
  shows "hoare P (or_report handler m) (\<lambda>_. in_bridge told_ok) (in_bridge told_ok)"
  unfolding or_report_def
proof (rule hoare_bind [where R = "\<lambda>r. case r of Inl _ \<Rightarrow> F | Inr _ \<Rightarrow> in_bridge told_ok"])
  show "hoare P (io_result m) (\<lambda>r. case r of Inl _ \<Rightarrow> F | Inr _ \<Rightarrow> in_bridge told_ok) (in_bridge told_ok)"
    by (rule hoare_result, rule hoare_conseq [OF assms(1)]) simp_all
  show "hoare (case r of Inl _ \<Rightarrow> F | Inr _ \<Rightarrow> in_bridge told_ok)
      (case r of Inr _ \<Rightarrow> io_return () | Inl (Failed e) \<Rightarrow> handler e | Inl EpochExhausted \<Rightarrow> io_fail EpochExhausted)
      (\<lambda>_. in_bridge told_ok) (in_bridge told_ok)" for r
    using assms(2,3) by (auto intro!: hoare_fail hoare_return split: sum.split bridge_failure.split)
qed

lemma unavailable_keeps: "keeps (in_bridge told_ok) (unavailable i e)"
  unfolding unavailable_def by (rule modify_keeps) (rule told_ok_tell)

lemma disconnect_keeps: "keeps (in_bridge told_ok) (disconnect P)"
  unfolding disconnect_def by (rule modify_keeps) simp

lemma start_tells: "hoare (in_bridge idle) (bridge_start X P) (\<lambda>_. in_bridge told_ok) (in_bridge told_ok)"
  unfolding bridge_start_def
proof (rule or_report_tells [OF establish_tells])
  have reported: "hoare (in_bridge told_ok) (unavailable i e) (\<lambda>_. in_bridge told_ok) (in_bridge told_ok)" for i e
    by (rule hoare_keeps [OF unavailable_keeps])
  show "hoare (in_bridge idle)
      (io_bind (io_result (in_world (bl_activate X (cp_activation_timeout P)))) (\<lambda>activated.
       case activated of
         Inl e \<Rightarrow> unavailable None (coded ''DAEMON_ACTIVATION_FAILED''
           (error_text first @ ''; systemd user activation failed: '' @ e))
       | Inr _ \<Rightarrow> or_report (unavailable None)
           (wait_for_daemon X P [0, 1, 2, 3, 4, 5]
             (Failed (coded ''IPC_CONNECT_FAILED'' ''daemon did not create its socket'')))))
      (\<lambda>_. in_bridge told_ok) (in_bridge told_ok)" for first
  proof (rule hoare_bind)
    show "hoare (in_bridge idle) (io_result (in_world (bl_activate X (cp_activation_timeout P))))
        (\<lambda>_. in_bridge idle) (in_bridge told_ok)"
      by (rule keeps_hoare [OF keeps_result [OF outside_keeps [of idle]]]) (auto simp: in_bridge_def idle_told)
    have waited: "hoare (in_bridge idle) (or_report (unavailable None) (wait_for_daemon X P ns e))
        (\<lambda>_. in_bridge told_ok) (in_bridge told_ok)" for ns e
      by (rule or_report_tells [OF wait_tells reported])
    have "hoare (in_bridge idle) (unavailable i e) (\<lambda>_. in_bridge told_ok) (in_bridge told_ok)" for i e
      by (rule hoare_conseq [OF reported]) (auto simp: in_bridge_def idle_told)
    with waited show "hoare (in_bridge idle)
        (case activated of
           Inl e \<Rightarrow> unavailable None (coded ''DAEMON_ACTIVATION_FAILED''
             (error_text first @ ''; systemd user activation failed: '' @ e))
         | Inr _ \<Rightarrow> or_report (unavailable None)
             (wait_for_daemon X P [0, 1, 2, 3, 4, 5]
               (Failed (coded ''IPC_CONNECT_FAILED'' ''daemon did not create its socket''))))
        (\<lambda>_. in_bridge told_ok) (in_bridge told_ok)" for activated
      by (cases activated) (simp_all del: wait_for_daemon.simps)
  qed
qed (auto simp: in_bridge_def idle_told)

text \<open>A refresh or a delivery tells of the connection it started with.\<close>

lemma refresh_reported:
  "hoare (in_bridge told_ok)
     (io_bind (io_gets br_epoch) (\<lambda>epoch. io_bind (refresh_daemon_state X P epoch) (\<lambda>_. io_return ())))
     (\<lambda>_. in_bridge told_ok) (in_bridge told_ok)"
proof (rule hoare_bind [where R = "\<lambda>e. in_bridge (\<lambda>b. told_ok b \<and> br_epoch b = e)"])
  show "hoare (in_bridge told_ok) (io_gets br_epoch) (\<lambda>e. in_bridge (\<lambda>b. told_ok b \<and> br_epoch b = e))
      (in_bridge told_ok)" by (rule hoare_gets) simp
  show "hoare (in_bridge (\<lambda>b. told_ok b \<and> br_epoch b = e))
      (io_bind (refresh_daemon_state X P e) (\<lambda>_. io_return ())) (\<lambda>_. in_bridge told_ok) (in_bridge told_ok)" for e
    by (rule hoare_bind [OF refresh_tells [where R = "\<lambda>_. told_ok"]])
      (auto simp: in_bridge_def intro: told_ok_tell intro!: hoare_return)
qed

lemma delivery_told: "hoare (in_bridge told_ok) (deliver_request X P q) (\<lambda>_. in_bridge told_ok) (in_bridge told_ok)"
  unfolding deliver_request_def
proof (rule hoare_bind [where R = "\<lambda>e. in_bridge (\<lambda>b. told_ok b \<and> br_epoch b = e)"])
  show "hoare (in_bridge told_ok) (io_gets br_epoch) (\<lambda>e. in_bridge (\<lambda>b. told_ok b \<and> br_epoch b = e))
      (in_bridge told_ok)" by (rule hoare_gets) simp
  let ?at = "\<lambda>e. in_bridge (\<lambda>b. told_ok b \<and> br_epoch b = e)"
  have telling: "hoare (?at e) (io_modify (tell m)) (\<lambda>_. in_bridge told_ok) (in_bridge told_ok)"
    if "\<And>b. told_ok b \<Longrightarrow> br_epoch b = e \<Longrightarrow> told_ok (tell m b)" for e m
    by (rule hoare_modify_bridge) (use that in auto)
  show "hoare (?at e) (io_bind (io_result (send_with_timeout X P q)) (\<lambda>answer.
      case answer of
        Inr r \<Rightarrow> io_modify (tell (Response e r))
      | Inl (Failed f) \<Rightarrow>
          io_seq (io_modify (tell (DaemonUnavailable e (Some (uq_request_id q)) f))) (io_fail (Failed f))
      | Inl EpochExhausted \<Rightarrow> io_fail EpochExhausted)) (\<lambda>_. in_bridge told_ok) (in_bridge told_ok)" for e
  proof (rule hoare_bind)
    show "hoare (?at e) (io_result (send_with_timeout X P q)) (\<lambda>_. ?at e) (in_bridge told_ok)"
      by (rule keeps_hoare [OF keeps_result [OF send_keeps]]) (auto simp: in_bridge_def)
    show "hoare (?at e) (case answer of
        Inr r \<Rightarrow> io_modify (tell (Response e r))
      | Inl (Failed f) \<Rightarrow>
          io_seq (io_modify (tell (DaemonUnavailable e (Some (uq_request_id q)) f))) (io_fail (Failed f))
      | Inl EpochExhausted \<Rightarrow> io_fail EpochExhausted) (\<lambda>_. in_bridge told_ok) (in_bridge told_ok)" for answer
      by (auto simp: in_bridge_def told_ok_tell intro!: telling hoare_seq [OF telling] hoare_fail
        split: sum.split bridge_failure.split)
  qed
qed

lemma reported_keeps: "hoare (in_bridge told_ok) m (\<lambda>_. in_bridge told_ok) (in_bridge told_ok) \<Longrightarrow>
    (\<And>e. keeps (in_bridge told_ok) (handler e)) \<Longrightarrow> keeps (in_bridge told_ok) (or_report handler m)"
  unfolding keeps_def by (rule or_report_tells) simp_all

lemma reconnect_told:
  "hoare (in_bridge idle)
     (or_report (\<lambda>e. io_seq (unavailable None e) (io_modify (retry_later P)))
       (io_seq (establish X P) (io_modify (\<lambda>b. b\<lparr>br_attempt := 0\<rparr>))))
     (\<lambda>_. in_bridge told_ok) (in_bridge told_ok)"
proof (rule or_report_tells [where F = "in_bridge told_ok"])
  have "hoare (in_bridge idle) (establish X P) (\<lambda>_. in_bridge told_ok) (in_bridge told_ok)"
    by (rule hoare_conseq [OF establish_tells]) (auto simp: in_bridge_def idle_told)
  then show "hoare (in_bridge idle) (io_seq (establish X P) (io_modify (\<lambda>b. b\<lparr>br_attempt := 0\<rparr>)))
      (\<lambda>_. in_bridge told_ok) (in_bridge told_ok)"
    by (rule hoare_seq) (rule hoare_modify_bridge, simp)
  show "hoare (in_bridge told_ok) (io_seq (unavailable None e) (io_modify (retry_later P)))
      (\<lambda>_. in_bridge told_ok) (in_bridge told_ok)" for e
    by (rule hoare_keeps) (intro keeps_seq unavailable_keeps modify_keeps, simp)
qed

lemma turn_keeps: "keeps (in_bridge told_ok) (bridge_turn X P x)"
proof (cases x)
  case (CommandRequest q)
  then show ?thesis by (simp add: reported_keeps [OF delivery_told disconnect_keeps])
next
  case CommandRefresh
  have "keeps (in_bridge told_ok) (io_seq (unavailable None e) (disconnect P))" for e
    by (intro keeps_seq unavailable_keeps disconnect_keeps)
  from reported_keeps [OF refresh_reported this] show ?thesis unfolding CommandRefresh bridge_turn.simps .
next
  case (SubscriptionEvent e)
  then show ?thesis by (simp add: modify_keeps told_ok_event)
next
  case SubscriptionEnded
  then show ?thesis by (simp add: keeps_bind keeps_gets keeps_seq keeps_simps unavailable_keeps disconnect_keeps)
next
  case ReconnectTimer
  have "hoare (in_bridge told_ok) (bridge_turn X P ReconnectTimer) (\<lambda>_. in_bridge told_ok) (in_bridge told_ok)"
    unfolding bridge_turn.simps
  proof (rule hoare_bind [where R = "\<lambda>s. in_bridge (\<lambda>b. told_ok b \<and> br_subscription b = s)"])
    show "hoare (in_bridge told_ok) (io_gets br_subscription)
        (\<lambda>s. in_bridge (\<lambda>b. told_ok b \<and> br_subscription b = s)) (in_bridge told_ok)" by (rule hoare_gets) simp
    show "hoare (in_bridge (\<lambda>b. told_ok b \<and> br_subscription b = s))
        (if s \<noteq> None then io_return ()
         else or_report (\<lambda>e. io_seq (unavailable None e) (io_modify (retry_later P)))
           (io_seq (establish X P) (io_modify (\<lambda>b. b\<lparr>br_attempt := 0\<rparr>))))
        (\<lambda>_. in_bridge told_ok) (in_bridge told_ok)" for s
      using reconnect_told [of P X]
      by (cases "s = None") (auto simp: idle_def [abs_def] in_bridge_def intro!: hoare_return)
  qed
  with ReconnectTimer show ?thesis by (simp add: keeps_def)
qed

text \<open>
  C38. The window is told of one connection at a time, and of its events in order. Whatever the daemon, the
  socket and the timers do, every message the bridge sends is of the connection announced last, each
  connection has a higher number than the one before, and an event comes only after the first snapshot of
  its connection, with a sequence above that snapshot's and above every event before it.
\<close>

theorem window_told_in_order:
  "watched (br_told (fst (snd (daemon_bridge X P located xs (new_bridge, w))))) \<noteq> None"
proof -
  have start: "idle new_bridge"
    by (simp add: idle_def told_ok_def new_bridge_def watched_def)
  have "hoare (in_bridge idle) (daemon_bridge X P located xs) (\<lambda>_. in_bridge told_ok) (in_bridge told_ok)"
  proof (cases located)
    case (Inl e)
    have "hoare (in_bridge told_ok) (unavailable None e) (\<lambda>_. in_bridge told_ok) (in_bridge told_ok)"
      by (rule hoare_keeps [OF unavailable_keeps])
    then show ?thesis
      unfolding daemon_bridge_def Inl sum.case by (rule hoare_conseq) (auto simp: in_bridge_def idle_told)
  next
    case (Inr p)
    show ?thesis
      unfolding daemon_bridge_def Inr sum.case
      by (rule hoare_seq [OF start_tells], rule hoare_keeps, rule keeps_each, rule turn_keeps)
  qed
  from hoareD [OF this, of "(new_bridge, w)"] start
  have "in_bridge told_ok (snd (daemon_bridge X P located xs (new_bridge, w)))"
    by (cases "daemon_bridge X P located xs (new_bridge, w)"; cases "fst (daemon_bridge X P located xs (new_bridge, w))")
      auto
  then show ?thesis by (auto simp: in_bridge_def told_ok_def split: option.splits)
qed

end
