(* ===== verification/Desktop.thy ===== *)
theory Desktop
  imports Daemon Utf8
begin

text \<open>
  Applications of the desktop (\<open>src/src/application/desktop.rs\<close>): where their entries lie, what an entry
  says, and the list the interface offers, with the mark it puts on launchers it cannot confine
  (\<open>src/src/ui/desktop_catalog.rs\<close>). The files, GLib's shell parser and its names for an entry are parameters.
\<close>

section \<open>Files and names\<close>

record desktop_files =
  df_exists :: "path \<Rightarrow> bool"
  df_read_dir :: "path \<Rightarrow> (string, (string, path) result list) result"
  df_read :: "path \<Rightarrow> (string, string) result"
  df_is_file :: "path \<Rightarrow> bool"
  df_canonicalize :: "path \<Rightarrow> path option"
  df_shell :: "string \<Rightarrow> string list option"
  df_lossy :: "path \<Rightarrow> string"

text \<open>\<open>to_str\<close>, and \<open>to_string_lossy\<close> of a path.\<close>

definition to_str :: "string \<Rightarrow> string option" where
  "to_str s = (if utf8_valid s then Some s else None)"

text \<open>The stem and the extension of a file name: a leading dot begins no extension.\<close>

definition file_parts :: "string \<Rightarrow> string \<times> string option" where
  "file_parts name =
     (let after = rev (takeWhile (\<lambda>c. c \<noteq> CHR ''.'') (rev name));
          before = take (length name - length after - 1) name in
      if CHR ''.'' \<notin> set name \<or> before = [] \<or> name = ''..'' then (name, None) else (before, Some after))"

definition path_stem :: "path \<Rightarrow> string" where
  "path_stem p = fst (file_parts (file_name p))"

definition path_extension :: "path \<Rightarrow> string option" where
  "path_extension p = snd (file_parts (file_name p))"

text \<open>\<open>str::lines\<close>.\<close>

definition text_lines :: "string \<Rightarrow> string list" where
  "text_lines s =
     (let parts = split_on (CHR 0x0A) s; ended = (if last parts = [] then butlast parts else parts) in
      map (\<lambda>l. if l \<noteq> [] \<and> last l = CHR 0x0D then butlast l else l) ended)"

text \<open>\<open>replace("%%", "%")\<close>.\<close>

fun unescape_percent :: "string \<Rightarrow> string" where
  "unescape_percent [] = []"
| "unescape_percent [c] = [c]"
| "unescape_percent (c # d # s) =
     (if c = CHR ''%'' \<and> d = CHR ''%'' then CHR ''%'' # unescape_percent s else c # unescape_percent (d # s))"

section \<open>One entry\<close>

record desktop_app =
  da_desktop_id :: string
  da_display_name :: string
  da_executable_path :: path
  da_launch :: application_launch

definition new_app :: "string \<Rightarrow> string \<Rightarrow> path \<Rightarrow> desktop_app" where
  "new_app i name executable = \<lparr>da_desktop_id = i, da_display_name = name, da_executable_path = executable,
     da_launch = \<lparr>al_executable = executable, al_arguments = []\<rparr>\<rparr>"

fun entry_values :: "bool \<Rightarrow> string list \<Rightarrow> (string, string) btree \<Rightarrow> (string, string) btree" where
  "entry_values inside [] values = values"
| "entry_values inside (l # ls) values =
     (let line = trim l in
      if line \<noteq> [] \<and> hd line = CHR ''['' \<and> last line = CHR '']''
      then entry_values (line = ''[Desktop Entry]'') ls values
      else if \<not> inside \<or> line = [] \<or> hd line = CHR ''#'' then entry_values inside ls values
      else (case split_once (CHR ''='') line of
          None \<Rightarrow> entry_values inside ls values
        | Some (k, v) \<Rightarrow> entry_values inside ls (bt_insert (trim k) (trim v) values)))"

definition desktop_entry_values :: "string \<Rightarrow> (string, string) btree" where
  "desktop_entry_values content = entry_values False (text_lines content) []"

definition resolve_executable :: "desktop_files \<Rightarrow> path \<Rightarrow> path list \<Rightarrow> path option" where
  "resolve_executable D executable search =
     (if executable \<noteq> [] \<and> hd executable = CHR ''/''
      then (if df_is_file D executable then Some executable else None)
      else if length (snd (path_key executable)) \<noteq> 1 then None
      else find (df_is_file D) (map (\<lambda>d. path_join d executable) search))"

text \<open>Field codes: files and icons are left out, the name and the entry are filled in.\<close>

definition launch_argument :: "desktop_files \<Rightarrow> string \<Rightarrow> path \<Rightarrow> string \<Rightarrow> string option" where
  "launch_argument D name path argument =
     (if \<not> utf8_valid argument then None
      else if argument \<in> {''%u'', ''%U'', ''%f'', ''%F'', ''%i''} then None
      else if argument = ''%c'' then Some name
      else if argument = ''%k'' then Some (df_lossy D path)
      else Some (unescape_percent argument))"

definition parse_desktop_entry :: "desktop_files \<Rightarrow> path \<Rightarrow> string \<Rightarrow> path list \<Rightarrow> desktop_app option" where
  "parse_desktop_entry D path content search =
     (let values = desktop_entry_values content in
      if bt_get values ''Type'' \<noteq> Some ''Application'' \<or> bt_get values ''Hidden'' = Some ''true'' \<or>
        bt_get values ''NoDisplay'' = Some ''true''
      then None
      else
        option_bind (map_option trim (bt_get values ''Name'')) (\<lambda>name.
        option_bind (option_bind (bt_get values ''Exec'') (df_shell D)) (\<lambda>command.
        option_bind (case command of [] \<Rightarrow> None | first # _ \<Rightarrow> to_str first) (\<lambda>program.
        option_bind (resolve_executable D program search) (\<lambda>launcher.
        option_bind (df_canonicalize D launcher) (\<lambda>executable.
        option_bind (to_str (path_stem path)) (\<lambda>i.
          if name = [] then None
          else Some \<lparr>da_desktop_id = i, da_display_name = name, da_executable_path = executable,
            da_launch = \<lparr>al_executable = launcher,
              al_arguments = List.map_filter (launch_argument D name path) (tl command)\<rparr>\<rparr>)))))))"

section \<open>Discovery\<close>

datatype desktop_error = ReadDirectory path string | ReadEntry path string

fun desktop_error_text :: "desktop_error \<Rightarrow> string" where
  "desktop_error_text (ReadDirectory p e) = ''could not read desktop entry directory '' @ p @ '': '' @ e"
| "desktop_error_text (ReadEntry p e) = ''could not read desktop entry '' @ p @ '': '' @ e"

type_synonym app_table = "(string, desktop_app) btree"

text \<open>\<open>entry(id).or_insert(application)\<close>: an identifier that is there stays.\<close>

definition add_app :: "desktop_app \<Rightarrow> app_table \<Rightarrow> app_table" where
  "add_app a apps = (if bt_get apps (da_desktop_id a) = None then bt_insert (da_desktop_id a) a apps else apps)"

definition discover_entry ::
  "desktop_files \<Rightarrow> path list \<Rightarrow> path \<Rightarrow> app_table \<Rightarrow> (string, path) result \<Rightarrow> (desktop_error, app_table) result"
where
  "discover_entry D search directory apps entry = (case entry of
     Inl e \<Rightarrow> Inl (ReadDirectory directory e)
   | Inr path \<Rightarrow>
       if path_extension path \<noteq> Some ''desktop'' then Inr apps
       else (case df_read D path of
           Inl e \<Rightarrow> Inl (ReadEntry path e)
         | Inr content \<Rightarrow>
             Inr (case parse_desktop_entry D path content search of None \<Rightarrow> apps | Some a \<Rightarrow> add_app a apps)))"

definition discover_directory ::
  "desktop_files \<Rightarrow> path list \<Rightarrow> app_table \<Rightarrow> path \<Rightarrow> (desktop_error, app_table) result"
where
  "discover_directory D search apps directory =
     (if \<not> df_exists D directory then Inr apps
      else (case df_read_dir D directory of
          Inl e \<Rightarrow> Inl (ReadDirectory directory e)
        | Inr entries \<Rightarrow> try_fold (discover_entry D search directory) apps entries))"

definition discover_from_paths ::
  "'n foreign \<Rightarrow> desktop_files \<Rightarrow> path list \<Rightarrow> path list \<Rightarrow> (desktop_error, desktop_app list) result"
where
  "discover_from_paths X D paths search =
     and_then (try_fold (discover_directory D search) [] paths) (\<lambda>apps.
       Inr (sort_key (\<lambda>a. (to_lowercase X (da_display_name a), da_desktop_id a)) (map snd apps)))"

definition desktop_application_paths :: "path option \<Rightarrow> string option \<Rightarrow> path list" where
  "desktop_application_paths data_home data_dirs =
     map (\<lambda>p. path_join p ''applications'')
       ((case data_home of None \<Rightarrow> [] | Some p \<Rightarrow> [p]) @
        split_on (CHR '':'') (case option_filter (\<lambda>s. s \<noteq> []) data_dirs of
          Some s \<Rightarrow> s | None \<Rightarrow> ''/usr/local/share:/usr/share''))"

text \<open>The environment: \<open>XDG_DATA_HOME\<close>, \<open>HOME\<close>, \<open>XDG_DATA_DIRS\<close> and \<open>PATH\<close>.\<close>

definition discover_desktop_apps ::
  "'n foreign \<Rightarrow> desktop_files \<Rightarrow> path option \<Rightarrow> path option \<Rightarrow> string option \<Rightarrow> string option \<Rightarrow>
     (desktop_error, desktop_app list) result"
where
  "discover_desktop_apps X D data_home home data_dirs search =
     discover_from_paths X D
       (desktop_application_paths (case data_home of
           Some p \<Rightarrow> Some p | None \<Rightarrow> map_option (\<lambda>p. path_join p ''.local/share'') home) data_dirs)
       (case search of None \<Rightarrow> [] | Some s \<Rightarrow> split_on (CHR '':'') s)"

text \<open>A catalog entry: its identifier, its program, and whether it cannot be confined.\<close>

record catalog_choice =
  cc_desktop_id :: string
  cc_executable :: path
  cc_unsupported :: bool

definition catalog_find :: "catalog_choice list \<Rightarrow> application_selector \<Rightarrow> catalog_choice option" where
  "catalog_find choices s = find (\<lambda>c. cc_executable c = as_executable_path s \<and>
     (case as_desktop_id s of None \<Rightarrow> True | Some i \<Rightarrow> i = cc_desktop_id c)) choices"

text \<open>The catalog: GLib's name of an entry if it has one, and whether a sandbox launches the program.\<close>

definition sandboxed :: "desktop_files \<Rightarrow> desktop_app \<Rightarrow> bool" where
  "sandboxed D a = list_ex (\<lambda>p. file_name (case df_canonicalize D p of Some q \<Rightarrow> q | None \<Rightarrow> p) \<in> {''snap'', ''flatpak''})
     [da_executable_path a, al_executable (da_launch a)]"

definition catalog_choice_of :: "desktop_files \<Rightarrow> desktop_app \<Rightarrow> catalog_choice" where
  "catalog_choice_of D a = \<lparr>cc_desktop_id = da_desktop_id a, cc_executable = da_executable_path a,
     cc_unsupported = sandboxed D a\<rparr>"

section \<open>What is offered\<close>

text \<open>An application that can be launched as it says.\<close>

definition launchable :: "desktop_files \<Rightarrow> desktop_app \<Rightarrow> bool" where
  "launchable D a \<longleftrightarrow> da_display_name a \<noteq> [] \<and> df_is_file D (al_executable (da_launch a)) \<and>
     df_canonicalize D (al_executable (da_launch a)) = Some (da_executable_path a)"

definition table_ok :: "desktop_files \<Rightarrow> app_table \<Rightarrow> bool" where
  "table_ok D apps \<longleftrightarrow> bt_wf apps \<and> (\<forall>(i, a) \<in> set apps. da_desktop_id a = i \<and> launchable D a)"

lemma resolve_executable_file: "resolve_executable D e search = Some p \<Longrightarrow> df_is_file D p"
  by (auto simp: resolve_executable_def find_Some_iff split: if_splits)

lemma option_bind_eq_Some: "option_bind m f = Some b \<longleftrightarrow> (\<exists>a. m = Some a \<and> f a = Some b)"
  by (cases m) simp_all

lemma parsed_app_launchable: "parse_desktop_entry D path content search = Some a \<Longrightarrow> launchable D a"
  by (auto simp: parse_desktop_entry_def launchable_def Let_def resolve_executable_file option_bind_eq_Some
      split: if_splits)

lemma add_app_ok: "table_ok D apps \<Longrightarrow> launchable D a \<Longrightarrow> table_ok D (add_app a apps)"
  by (auto simp: table_ok_def add_app_def bt_wf_insert dest!: set_bt_insert)

lemma discover_entry_ok: "table_ok D apps \<Longrightarrow> discover_entry D search dir apps e = Inr apps' \<Longrightarrow> table_ok D apps'"
  by (auto simp: discover_entry_def dest: parsed_app_launchable intro: add_app_ok
      split: sum.splits if_splits option.splits)

lemma discover_entries_ok:
  "try_fold (discover_entry D search dir) apps entries = Inr apps' \<Longrightarrow> table_ok D apps \<Longrightarrow> table_ok D apps'"
  by (rule try_fold_inv [where I = "table_ok D"], assumption, assumption, rule discover_entry_ok)

lemma discover_directory_ok:
  "table_ok D apps \<Longrightarrow> discover_directory D search apps dir = Inr apps' \<Longrightarrow> table_ok D apps'"
  by (simp add: discover_directory_def split: if_splits sum.splits) (rule discover_entries_ok)

lemma discover_directories_ok:
  "try_fold (discover_directory D search) apps paths = Inr apps' \<Longrightarrow> table_ok D apps \<Longrightarrow> table_ok D apps'"
  by (rule try_fold_inv [where I = "table_ok D"], assumption, assumption, rule discover_directory_ok)

text \<open>
  What discovery offers: identifiers are distinct, every application has a name, its launcher is a file and
  its program is what the launcher leads to; and the list is in order of the names in lower case.
\<close>

lemma discovery_offers_launchable:
  "case discover_from_paths X D paths search of Inl _ \<Rightarrow> True
   | Inr apps \<Rightarrow> distinct (map da_desktop_id apps) \<and> list_all (launchable D) apps \<and>
       sorted (map (\<lambda>a. (to_lowercase X (da_display_name a), da_desktop_id a)) apps)"
proof (cases "try_fold (discover_directory D search) [] paths")
  case (Inr apps)
  have "table_ok D []" by (simp add: table_ok_def bt_wf_def)
  from discover_directories_ok [OF Inr this] have "table_ok D apps" .
  then have ids: "map da_desktop_id (map snd apps) = map fst apps" and ok: "\<forall>a \<in> set (map snd apps). launchable D a"
    and keys: "distinct (map fst apps)"
    by (auto simp: table_ok_def bt_wf_def strict_sorted_iff)
  have "distinct (map da_desktop_id (sort_key f (map snd apps)))" for f :: "desktop_app \<Rightarrow> string \<times> string"
    using keys unfolding ids [symmetric] by (simp add: distinct_map del: map_map)
  with Inr ok show ?thesis
    by (auto simp: discover_from_paths_def and_then_def list_all_iff)
qed (simp add: discover_from_paths_def and_then_def)

text \<open>
  An entry of an earlier directory that hides an application gives no application, so it does not keep
  the entry of the same name in a later directory from being offered.
\<close>

lemma hidden_entry_does_not_mask:
  assumes "bt_get (desktop_entry_values content) ''Hidden'' = Some ''true''" "df_read D p = Inr content"
  shows "discover_entry D search directory apps (Inr p) = Inr apps"
  using assms by (simp add: discover_entry_def parse_desktop_entry_def Let_def)

end
