(* ===== verification/Editing.thy ===== *)
theory Editing
  imports Session Desktop
begin

text \<open>
  What the interface does to a profile before it saves it: the rules' targets and their order
  (\<open>src/src/ui/rule_editor.rs\<close>), lanes (\<open>src/src/ui/settings.rs\<close>, \<open>connections.rs\<close>), the primary
  connection (\<open>primary.rs\<close>), applications (\<open>application_editor.rs\<close>, \<open>application_row.rs\<close>), and the
  main action offered (\<open>experience.rs\<close>). The widgets around them are not modelled.
\<close>

section \<open>Rules\<close>

datatype target_input_error = TargetEmpty | TargetInvalid | TargetUnsupported

definition domain_label_ok :: "string \<Rightarrow> bool" where
  "domain_label_ok s \<longleftrightarrow> s \<noteq> [] \<and> length s \<le> 63 \<and> hd s \<noteq> CHR ''-'' \<and> last s \<noteq> CHR ''-'' \<and>
     list_all (\<lambda>c. is_ascii_alphanumeric c \<or> c = CHR ''-'') s"

definition strip_dot :: "string \<Rightarrow> string" where
  "strip_dot s = (if s \<noteq> [] \<and> last s = CHR ''.'' then butlast s else s)"

definition parse_rule_target :: "'n foreign \<Rightarrow> string \<Rightarrow> (target_input_error, 'n rule_target) result" where
  "parse_rule_target X input =
     (let s = trim input in
      if s = [] then Inl TargetEmpty
      else if s = ''*'' then Inr TargetAny
      else if CHR ''*'' \<in> set s then Inl TargetUnsupported
      else (case parse_ip s of
          Some a \<Rightarrow> Inr (TargetIp a)
        | None \<Rightarrow>
            (case net_parse X s of
               Some n \<Rightarrow> Inr (TargetCidr (net_trunc X n))
             | None \<Rightarrow>
                 (let domain = strip_dot s in
                  if 253 < length domain \<or> domain = [] \<or>
                    list_all (\<lambda>c. is_ascii_digit c \<or> c = CHR ''.'') domain \<or>
                    \<not> list_all domain_label_ok (split_on (CHR ''.'') domain)
                  then Inl TargetInvalid else Inr (TargetDomain (to_ascii_lowercase domain))))))"

record rule_draft =
  rd_target :: string
  rd_action :: rule_action

datatype rule_draft_error = DraftTarget target_input_error | DraftMissingLane | DraftDuplicateRule

definition validate_rule_draft_for_edit ::
  "'n foreign \<Rightarrow> 'n profile \<Rightarrow> rule_draft \<Rightarrow> rule_id option \<Rightarrow>
     (rule_draft_error, 'n rule_target \<times> rule_action) result"
where
  "validate_rule_draft_for_edit X p d editing =
     and_then (map_err DraftTarget (parse_rule_target X (rd_target d))) (\<lambda>target.
     if (case rd_action d of ActionRoute i \<Rightarrow> \<not> lane_exists (p_lanes p) i | _ \<Rightarrow> False)
     then Inl DraftMissingLane
     else
       (let candidate = \<lparr>r_id = (case editing of Some i \<Rightarrow> i | None \<Rightarrow> []), r_enabled = True, r_priority = 0,
            r_source = (case option_bind editing (\<lambda>i. find (\<lambda>r. r_id r = i) (p_rules p)) of
              Some r \<Rightarrow> r_source r | None \<Rightarrow> SourceAny),
            r_target = target, r_action = rd_action d\<rparr> in
        if find_duplicate_rule X p candidate editing \<noteq> None then Inl DraftDuplicateRule
        else Inr (target, rd_action d)))"

definition validate_rule_draft ::
  "'n foreign \<Rightarrow> 'n profile \<Rightarrow> rule_draft \<Rightarrow> (rule_draft_error, 'n rule_target \<times> rule_action) result"
where
  "validate_rule_draft X p d = validate_rule_draft_for_edit X p d None"

datatype reorder_direction = MoveUp | MoveDown

text \<open>The order the rules are shown in: the rules' keys, sorted.\<close>

definition shown_keys :: "'n rule list \<Rightarrow> (u32 \<times> rule_id) list" where
  "shown_keys rs = sort (map execution_key rs)"

definition position :: "('a \<Rightarrow> bool) \<Rightarrow> 'a list \<Rightarrow> nat option" where
  "position P xs = (let k = length (takeWhile (\<lambda>x. \<not> P x) xs) in if k < length xs then Some k else None)"

definition neighbour :: "reorder_direction \<Rightarrow> nat \<Rightarrow> nat \<Rightarrow> nat option" where
  "neighbour direction k n = (case direction of
     MoveUp \<Rightarrow> if k = 0 then None else Some (k - 1)
   | MoveDown \<Rightarrow> if k + 1 < n then Some (k + 1) else None)"

definition swapped :: "nat \<Rightarrow> nat \<Rightarrow> 'a list \<Rightarrow> 'a list" where
  "swapped i j xs = xs[i := xs ! j, j := xs ! i]"

text \<open>\<open>iter_mut().find(..)\<close>: the first rule with the identifier.\<close>

fun set_priority :: "rule_id \<Rightarrow> u32 \<Rightarrow> 'n rule list \<Rightarrow> 'n rule list" where
  "set_priority i n [] = []"
| "set_priority i n (r # rs) = (if r_id r = i then r\<lparr>r_priority := n\<rparr> # rs else r # set_priority i n rs)"

text \<open>The priority of the rule at an index; the conversion and the product panic when they overflow.\<close>

definition index_priority :: "nat \<Rightarrow> u32 option" where
  "index_priority k = (if (k + 1) * 10 < 2 ^ 32 then Some (of_nat ((k + 1) * 10)) else None)"

fun number_rules :: "nat \<Rightarrow> rule_id list \<Rightarrow> 'n rule list \<Rightarrow> 'n rule list option" where
  "number_rules k [] rs = Some rs"
| "number_rules k (i # ids) rs =
     (if i \<in> r_id ` set rs
      then option_bind (index_priority k) (\<lambda>n. number_rules (k + 1) ids (set_priority i n rs))
      else number_rules (k + 1) ids rs)"

text \<open>None is a panic.\<close>

definition move_rule :: "'n profile \<Rightarrow> rule_id \<Rightarrow> reorder_direction \<Rightarrow> (bool \<times> 'n profile) option" where
  "move_rule p i direction =
     (let ordered = map snd (shown_keys (p_rules p)) in
      case position (\<lambda>j. j = i) ordered of
        None \<Rightarrow> Some (False, p)
      | Some k \<Rightarrow>
          (case neighbour direction k (length ordered) of
             None \<Rightarrow> Some (False, p)
           | Some m \<Rightarrow> map_option (\<lambda>rs. (True, p\<lparr>p_rules := rs\<rparr>))
               (number_rules 0 (swapped k m ordered) (p_rules p))))"

section \<open>Lanes\<close>

datatype lane_edit_error = EditEmptyName | EditDuplicateName | EditEmptyInterface | EditNotFound

definition lane_edit_error_of :: "domain_error \<Rightarrow> lane_edit_error" where
  "lane_edit_error_of e = (case e of
     EmptyLaneName _ \<Rightarrow> EditEmptyName | DuplicateLaneName _ \<Rightarrow> EditDuplicateName | _ \<Rightarrow> EditNotFound)"

text \<open>The random identifier of the new lane is an argument.\<close>

definition add_lane ::
  "'n foreign \<Rightarrow> 128 word \<Rightarrow> string \<Rightarrow> string \<Rightarrow> lane_failure_policy \<Rightarrow> 'n profile \<Rightarrow>
     (lane_edit_error, lane_id \<times> 'n profile) result"
where
  "add_lane X uuid name interface policy p =
     and_then (map_err lane_edit_error_of (canonical_lane_name X p None name)) (\<lambda>canonical.
     if trim interface = [] then Inl EditEmptyInterface
     else
       (let i = ''lane-'' @ uuid_text uuid in
        Inr (i, p\<lparr>p_lanes := p_lanes p @ [\<lparr>l_id = i, l_name = canonical, l_interface = trim interface,
          l_fallback_lane = None, l_failure_policy = policy\<rparr>]\<rparr>)))"

fun rename_first :: "lane_id \<Rightarrow> string \<Rightarrow> lane list \<Rightarrow> lane list option" where
  "rename_first i name [] = None"
| "rename_first i name (l # ls) =
     (if l_id l = i then Some (l\<lparr>l_name := name\<rparr> # ls) else map_option ((#) l) (rename_first i name ls))"

definition rename_lane ::
  "'n foreign \<Rightarrow> lane_id \<Rightarrow> string \<Rightarrow> 'n profile \<Rightarrow> (lane_edit_error, 'n profile) result"
where
  "rename_lane X i name p =
     and_then (map_err lane_edit_error_of (canonical_lane_name X p (Some i) name)) (\<lambda>canonical.
     and_then (ok_or EditNotFound (rename_first i canonical (p_lanes p))) (\<lambda>lanes.
       Inr (p\<lparr>p_lanes := lanes\<rparr>)))"

definition routes_to :: "lane_id \<Rightarrow> 'n rule \<Rightarrow> bool" where
  "routes_to i r \<longleftrightarrow> r_action r = ActionRoute i"

definition is_application :: "'n rule \<Rightarrow> bool" where
  "is_application r = (case r_source r of SourceApplication _ \<Rightarrow> True | SourceAny \<Rightarrow> False)"

definition routed_rule_count :: "'n profile \<Rightarrow> lane_id \<Rightarrow> nat" where
  "routed_rule_count p i = length (filter (routes_to i) (p_rules p))"

definition delete_lane :: "lane_id \<Rightarrow> 'n profile \<Rightarrow> 'n profile" where
  "delete_lane i p = p\<lparr>p_lanes := filter (\<lambda>l. l_id l \<noteq> i) (p_lanes p),
     p_rules := filter (\<lambda>r. \<not> routes_to i r) (p_rules p)\<rparr>"

record lane_draft =
  ld_name :: string
  ld_interface :: string
  ld_failure_policy :: lane_failure_policy

datatype connection_error =
    ConnEmptyName | ConnInvalidName | ConnMissingInterface | ConnNotFound | ConnFallbackInUse | ConnRoutingInUse

definition validate_lane_draft ::
  "'n foreign \<Rightarrow> 'n profile \<Rightarrow> lane_id option \<Rightarrow> lane_draft \<Rightarrow> string list \<Rightarrow> (connection_error, lane_draft) result"
where
  "validate_lane_draft X p edited d interfaces =
     (if (case edited of None \<Rightarrow> False | Some i \<Rightarrow> \<not> lane_exists (p_lanes p) i) then Inl ConnNotFound
      else if trim (ld_name d) = [] then Inl ConnEmptyName
      else and_then (map_err (\<lambda>_. ConnInvalidName) (canonical_lane_name X p edited (ld_name d))) (\<lambda>name.
        if ld_interface d \<notin> set interfaces then Inl ConnMissingInterface else Inr (d\<lparr>ld_name := name\<rparr>)))"

definition lane_delete_impact :: "'n profile \<Rightarrow> lane_id \<Rightarrow> nat \<times> nat" where
  "lane_delete_impact p i =
     (let apps = length (filter is_application (filter (routes_to i) (p_rules p))) in
      (routed_rule_count p i - apps, apps))"

definition routing_references :: "'n profile \<Rightarrow> lane_id \<Rightarrow> bool" where
  "routing_references p i \<longleftrightarrow> rp_primary (p_routing p) = PrimaryLane i \<or> i \<in> set (rp_backups (p_routing p))"

definition delete_candidate ::
  "'n foreign \<Rightarrow> 'n profile \<Rightarrow> lane_id \<Rightarrow> (connection_error, 'n profile) result"
where
  "delete_candidate X p i =
     (if \<not> lane_exists (p_lanes p) i then Inl ConnNotFound
      else if list_ex (\<lambda>l. l_fallback_lane l = Some i) (p_lanes p) then Inl ConnFallbackInUse
      else if routing_references p i then Inl ConnRoutingInUse
      else and_then (map_err (\<lambda>_. ConnFallbackInUse) (validate_profile X (delete_lane i p)))
        (\<lambda>_. Inr (delete_lane i p)))"

section \<open>The primary connection\<close>

record primary_draft =
  dp_profile :: profile_id
  dp_primary :: primary_selection
  dp_backups :: "lane_id list"
  dp_automatic_failover :: bool

definition draft_of :: "'n profile \<Rightarrow> primary_draft" where
  "draft_of p = \<lparr>dp_profile = p_id p, dp_primary = rp_primary (p_routing p),
     dp_backups = rp_backups (p_routing p), dp_automatic_failover = rp_automatic_failover (p_routing p)\<rparr>"

datatype primary_edit_error = StaleProfile | DraftUnknownLane lane_id | DraftInvalid string

definition drafted :: "'n profile \<Rightarrow> primary_draft \<Rightarrow> 'n profile" where
  "drafted p d = p\<lparr>p_routing := \<lparr>rp_unmatched_traffic = rp_unmatched_traffic (p_routing p),
     rp_primary = dp_primary d, rp_backups = dp_backups d,
     rp_automatic_failover = dp_automatic_failover d\<rparr>\<rparr>"

definition validate_primary_draft ::
  "(domain_error \<Rightarrow> string) \<Rightarrow> 'n foreign \<Rightarrow> 'n profile \<Rightarrow> primary_draft \<Rightarrow> (primary_edit_error, 'n profile) result"
where
  "validate_primary_draft debug X p d =
     (if dp_profile d \<noteq> p_id p then Inl StaleProfile
      else (case find (\<lambda>i. \<not> lane_exists (p_lanes p) i)
          ((case dp_primary d of PrimaryLane i \<Rightarrow> [i] | FollowSystemDefault \<Rightarrow> []) @ dp_backups d) of
          Some i \<Rightarrow> Inl (DraftUnknownLane i)
        | None \<Rightarrow> and_then (map_err (\<lambda>e. DraftInvalid (debug e)) (validate_profile X (drafted p d)))
            (\<lambda>_. Inr (drafted p d))))"

definition proposed_backups :: "'n profile \<Rightarrow> lane_id option \<Rightarrow> lane_id list" where
  "proposed_backups p primary = (case (primary, p_lanes p) of
     (Some i, [a, b]) \<Rightarrow> if l_id a = i then [l_id b] else if l_id b = i then [l_id a] else []
   | _ \<Rightarrow> [])"

text \<open>A change waits until it is confirmed; confirming takes it.\<close>

type_synonym primary_change = "primary_draft option"

definition request_change :: "primary_draft \<Rightarrow> primary_change \<Rightarrow> primary_change" where
  "request_change d c = Some d"

definition cancel_change :: "primary_change \<Rightarrow> primary_change" where
  "cancel_change c = None"

definition confirm_change ::
  "(domain_error \<Rightarrow> string) \<Rightarrow> 'n foreign \<Rightarrow> 'n profile \<Rightarrow> primary_change \<Rightarrow>
     (primary_edit_error, 'n profile list) result \<times> primary_change"
where
  "confirm_change debug X current c = (case c of
     None \<Rightarrow> (Inr [], None)
   | Some d \<Rightarrow> (and_then (validate_primary_draft debug X current d) (\<lambda>p. Inr [p]), None))"

record primary_overview =
  po_preferred :: primary_selection
  po_effective :: "(family_exit \<times> family_exit) option"
  po_backup_in_use :: bool
  po_phase :: runtime_phase

definition primary_overview_of :: "'n profile \<Rightarrow> 'h daemon_status option \<Rightarrow> primary_overview" where
  "primary_overview_of p x =
     (let runtime = option_filter (\<lambda>r. st_grant r \<noteq> None \<or> st_decision r \<noteq> None) (map_option sd_primary x);
          decision = option_bind runtime st_decision in
      \<lparr>po_preferred = rp_primary (p_routing p),
       po_effective = map_option (\<lambda>d. (v4 (pd_effective d), v6 (pd_effective d))) decision,
       po_backup_in_use = (case decision of
           None \<Rightarrow> False
         | Some d \<Rightarrow> (case v4 (pd_effective d) of
             ExitLane i \<Rightarrow> v4 (pd_preferred d) \<noteq> Some i | ExitBlocked \<Rightarrow> False)),
       po_phase = (case runtime of None \<Rightarrow> runtime_phase.Inactive | Some r \<Rightarrow> st_phase r)\<rparr>)"

section \<open>Applications\<close>

definition with_application_lane :: "'n rule \<Rightarrow> lane_id \<Rightarrow> 'n rule" where
  "with_application_lane r i = r\<lparr>r_action := ActionRoute i\<rparr>"

definition validate_application_choice ::
  "'n profile \<Rightarrow> rule_id option \<Rightarrow> application_selector \<Rightarrow> lane_id \<Rightarrow> catalog_choice list \<Rightarrow> bool"
where
  "validate_application_choice p editing s i choices \<longleftrightarrow>
     lane_exists (p_lanes p) i \<and>
     (case editing of None \<Rightarrow> True | Some j \<Rightarrow> list_ex (\<lambda>r. r_id r = j) (p_rules p)) \<and>
     (case catalog_find choices s of None \<Rightarrow> False | Some c \<Rightarrow> \<not> cc_unsupported c) \<and>
     \<not> list_ex (\<lambda>r. Some (r_id r) \<noteq> editing \<and> (case r_source r of
         SourceAny \<Rightarrow> False
       | SourceApplication t \<Rightarrow> as_desktop_id s \<noteq> None \<and> as_desktop_id t = as_desktop_id s)) (p_rules p)"

datatype application_action = ActionLaunch | ActionAdopt

definition application_action_request ::
  "profile_id \<Rightarrow> rule_id \<Rightarrow> application_action \<Rightarrow> 'n daemon_request"
where
  "application_action_request i j a = (case a of
     ActionLaunch \<Rightarrow> LaunchApplication i j | ActionAdopt \<Rightarrow> AdoptApplicationProcesses i j)"

section \<open>The main action\<close>

datatype setup_step = AddLane | AddRule

datatype main_action =
    OpenConnections | RefreshStatus | OpenRuleDialog | ReviewDefinitions | EnableRouting | DisableRouting

record dashboard =
  db_setup_step :: "setup_step option"
  db_primary_action :: main_action
  db_enabled :: bool

definition usable_rule :: "'n profile \<Rightarrow> 'n rule \<Rightarrow> bool" where
  "usable_rule p r \<longleftrightarrow> r_enabled r \<and>
     (case r_target r of TargetWildcardDomain _ \<Rightarrow> False | TargetServicePack _ \<Rightarrow> False | _ \<Rightarrow> True) \<and>
     (case r_action r of ActionRoute i \<Rightarrow> lane_exists (p_lanes p) i | _ \<Rightarrow> True)"

definition dashboard_state :: "'n profile \<Rightarrow> ('n, 'h) ui_session \<Rightarrow> dashboard" where
  "dashboard_state p s =
     (let active = status_is (\<lambda>x. sd_applied_profile_id x \<noteq> None) s;
          setup = (if active \<or> list_ex (usable_rule p) (p_rules p) then None
            else if p_lanes p = [] \<and> p_rules p = [] then Some AddLane else Some AddRule);
          act = (if \<not> us_known s then RefreshStatus
            else if active then DisableRouting
            else (case setup of
                Some AddLane \<Rightarrow> OpenConnections
              | Some AddRule \<Rightarrow> if p_rules p \<noteq> [] then ReviewDefinitions else OpenRuleDialog
              | None \<Rightarrow> EnableRouting)) in
      \<lparr>db_setup_step = setup, db_primary_action = act,
       db_enabled = (\<not> is_busy s \<and> (act = DisableRouting \<or> act = RefreshStatus \<or> us_writable s))\<rparr>)"

section \<open>Deleting a lane\<close>

lemma find_filter: "find P (filter Q xs) = find (\<lambda>x. P x \<and> Q x) xs"
  by (induction xs) auto

lemma fallback_of_filter:
  "fallback_of (filter (\<lambda>l. l_id l \<noteq> i) lanes) a = (if a = i then None else fallback_of lanes a)"
proof (cases "a = i")
  case True
  have "find (\<lambda>l. l_id l = a \<and> l_id l \<noteq> i) lanes = None" using True by (auto simp: find_None_iff)
  with True show ?thesis by (simp add: fallback_of_def find_filter)
next
  case False
  then have "find (\<lambda>l. l_id l = a \<and> l_id l \<noteq> i) lanes = find (\<lambda>l. l_id l = a) lanes"
    by (induction lanes) auto
  with False show ?thesis by (simp add: fallback_of_def find_filter)
qed

lemma map_filter_filter: "List.map_filter f (filter P xs) = List.map_filter (\<lambda>x. if P x then f x else None) xs"
  by (induction xs) (simp_all add: List.map_filter_simps split: option.split)

lemma set_map_filter: "set (List.map_filter f xs) = {y. \<exists>x \<in> set xs. f x = Some y}"
  by (induction xs) (auto simp: List.map_filter_simps split: option.splits)

lemma distinct_map_filter_filter:
  "distinct (List.map_filter f xs) \<Longrightarrow> distinct (List.map_filter f (filter P xs))"
  by (induction xs) (auto simp: List.map_filter_simps set_map_filter split: option.splits)

lemma lane_exists_filter: "lane_exists (filter (\<lambda>l. l_id l \<noteq> i) lanes) j \<longleftrightarrow> j \<noteq> i \<and> lane_exists lanes j"
  by (auto simp: lane_exists_def)

lemma delete_lane_ok:
  assumes "profile_ok X p" "\<not> list_ex (\<lambda>l. l_fallback_lane l = Some i) (p_lanes p)" "\<not> routing_references p i"
  shows "profile_ok X (delete_lane i p)"
proof -
  have "fallback_edges (p_lanes (delete_lane i p)) \<subseteq> fallback_edges (p_lanes p)"
    by (auto simp: fallback_edges_def delete_lane_def fallback_of_filter split: if_splits)
  then have "acyclic (fallback_edges (p_lanes (delete_lane i p)))"
    using assms(1) acyclic_subset by (auto simp: profile_ok_def)
  moreover have "length (filter (\<lambda>l. l_id l \<noteq> i) (p_lanes p)) \<le> 100" "length (filter (\<lambda>r. \<not> routes_to i r) (p_rules p)) \<le> 10000"
    using assms(1) by (auto simp: profile_ok_def intro: order_trans [OF length_filter_le])
  moreover have "routing_ok (p_routing p) (filter (\<lambda>l. l_id l \<noteq> i) (p_lanes p))"
    using assms(1,3) by (auto simp: profile_ok_def routing_ok_def routing_references_def lane_exists_filter)
  ultimately show ?thesis
    using assms(1,2)
    by (auto simp: profile_ok_def delete_lane_def distinct_map_filter distinct_map_filter_filter
      lane_exists_filter routes_to_def list_ex_iff)
qed

lemma delete_candidate_valid:
  assumes "profile_ok X p"
  shows "delete_candidate X p i =
    (if \<not> lane_exists (p_lanes p) i then Inl ConnNotFound
     else if list_ex (\<lambda>l. l_fallback_lane l = Some i) (p_lanes p) then Inl ConnFallbackInUse
     else if routing_references p i then Inl ConnRoutingInUse
     else Inr (delete_lane i p))"
  using delete_lane_ok [OF assms, of i]
  by (auto simp: delete_candidate_def simp flip: validate_profile_Inr_iff)

text \<open>
  C39. Deleting a connection from a valid profile is refused exactly when the connection is unknown, is
  another's fallback, or is named as primary or backup; otherwise it removes that lane and the rules
  routed to it, nothing else, and the profile stays valid.
\<close>

theorem lane_deletion_exact:
  "case validate_profile X p of
     Inl _ \<Rightarrow> True
   | Inr _ \<Rightarrow>
       (case delete_candidate X p i of
          Inl e \<Rightarrow> e = ConnNotFound \<and> \<not> lane_exists (p_lanes p) i \<or>
            e = ConnFallbackInUse \<and> list_ex (\<lambda>l. l_fallback_lane l = Some i) (p_lanes p) \<or>
            e = ConnRoutingInUse \<and> routing_references p i
        | Inr q \<Rightarrow> lane_exists (p_lanes p) i \<and> \<not> list_ex (\<lambda>l. l_fallback_lane l = Some i) (p_lanes p) \<and>
            \<not> routing_references p i \<and> profile_ok X q \<and> q = p\<lparr>p_lanes := filter (\<lambda>l. l_id l \<noteq> i) (p_lanes p),
            p_rules := filter (\<lambda>r. r_action r \<noteq> ActionRoute i) (p_rules p)\<rparr>)"
proof (cases "validate_profile X p")
  case (Inr u)
  then have "profile_ok X p" by (simp flip: validate_profile_Inr_iff)
  with Inr delete_lane_ok [OF this, of i] show ?thesis
    by (auto simp: delete_candidate_valid delete_lane_def routes_to_def)
qed simp

section \<open>Moving a rule\<close>

lemma set_priority_map:
  "distinct (map r_id rs) \<Longrightarrow>
     set_priority i n rs = map (\<lambda>r. if r_id r = i then r\<lparr>r_priority := n\<rparr> else r) rs"
proof (induction rs)
  case (Cons r rs)
  show ?case
  proof (cases "r_id r = i")
    case True
    have "r_id x \<noteq> i" if "x \<in> set rs" for x
      using True Cons.prems that by (metis distinct.simps(2) image_eqI list.set_map list.simps(9))
    then have "map (\<lambda>r. if r_id r = i then r\<lparr>r_priority := n\<rparr> else r) rs = rs"
      by (intro map_idI) simp
    with True show ?thesis by simp
  next
    case False
    with Cons show ?thesis by simp
  qed
qed simp

text \<open>What numbering leaves: every rule but for its priority, by the place of its identifier.\<close>

definition numbered :: "nat \<Rightarrow> rule_id list \<Rightarrow> 'n rule \<Rightarrow> 'n rule" where
  "numbered k ids r = (case position (\<lambda>j. j = r_id r) ids of
     None \<Rightarrow> r | Some j \<Rightarrow> r\<lparr>r_priority := of_nat ((k + j + 1) * 10)\<rparr>)"

lemma position_Cons:
  "position P (x # xs) = (if P x then Some 0 else map_option Suc (position P xs))"
  by (simp add: position_def Let_def)

lemma position_None: "position P xs = None \<longleftrightarrow> (\<forall>x \<in> set xs. \<not> P x)"
  by (induction xs) (auto simp: position_def [of P "[]"] position_Cons)

lemma position_nth: "distinct xs \<Longrightarrow> k < length xs \<Longrightarrow> position (\<lambda>x. x = xs ! k) xs = Some k"
proof (induction xs arbitrary: k)
  case (Cons x xs)
  then show ?case by (cases k) (auto simp: position_Cons)
qed simp

lemma number_rules_map:
  assumes "distinct (map r_id rs)" "distinct ids" "set ids \<subseteq> r_id ` set rs" "(k + length ids) * 10 < 2 ^ 32"
  shows "number_rules k ids rs = Some (map (numbered k ids) rs)"
  using assms
proof (induction ids arbitrary: k rs)
  case Nil
  have "map (numbered k []) rs = rs" by (rule map_idI) (simp add: numbered_def position_def)
  then show ?case by simp
next
  case (Cons i ids)
  define n :: u32 where "n = of_nat ((k + 1) * 10)"
  let ?rs = "map (\<lambda>r. if r_id r = i then r\<lparr>r_priority := n\<rparr> else r) rs"
  have ids: "map r_id ?rs = map r_id rs" by (auto intro: map_cong)
  have "r_id ` set ?rs = r_id ` set rs" using arg_cong [OF ids, of set] by (simp only: list.set_map)
  then have "distinct (map r_id ?rs)" "set ids \<subseteq> r_id ` set ?rs"
    using Cons.prems(1,3) by (simp_all only: ids list.set insert_subset)
  from Cons.IH [OF this(1) _ this(2), of "k + 1"] Cons.prems(2,4)
  have rest: "number_rules (k + 1) ids ?rs = Some (map (numbered (k + 1) ids) ?rs)" by simp
  have step: "numbered (k + 1) ids (if r_id r = i then r\<lparr>r_priority := n\<rparr> else r) = numbered k (i # ids) r" for r
  proof (cases "r_id r = i")
    case True
    then have "position (\<lambda>j. j = r_id r) ids = None" using Cons.prems(2) by (auto simp: position_None)
    with True show ?thesis by (simp add: numbered_def position_Cons n_def)
  next
    case False
    then show ?thesis
      by (cases "position (\<lambda>j. j = r_id r) ids") (auto simp: numbered_def position_Cons)
  qed
  have same: "map (numbered (k + 1) ids) ?rs = map (numbered k (i # ids)) rs"
    by (simp only: list.map_comp) (rule map_cong [OF refl], simp only: comp_apply step)
  have "index_priority k = Some n"
    using Cons.prems(4) by (simp add: index_priority_def n_def)
  moreover have "i \<in> r_id ` set rs" using Cons.prems(3) by simp
  ultimately show ?case
    by (simp only: number_rules.simps if_True option_bind_simps set_priority_map [OF Cons.prems(1)] rest same)
qed

lemma numbered_fields [simp]:
  "r_id (numbered k ids r) = r_id r" "(numbered k ids r)\<lparr>r_priority := n\<rparr> = r\<lparr>r_priority := n\<rparr>"
  by (simp_all add: numbered_def split: option.split)

lemma sorted_numbers:
  assumes "length ids * 10 < 2 ^ 32"
  shows "sorted_wrt (<) (map (\<lambda>j. (of_nat ((j + 1) * 10) :: u32, ids ! j)) [0..<length ids])"
proof -
  have "(of_nat ((i + 1) * 10) :: u32) < of_nat ((j + 1) * 10)" if "i < j" "j < length ids" for i j
    using that assms by (simp only: word_less_nat_alt unsigned_of_nat) (simp add: take_bit_nat_eq_self)
  then show ?thesis by (auto simp: sorted_wrt_iff_nth_less less_prod_def)
qed

lemma shown_numbered:
  assumes "distinct (map r_id rs)" "distinct ids" "set ids = r_id ` set rs" "length ids * 10 < 2 ^ 32"
  shows "map snd (shown_keys (map (numbered 0 ids) rs)) = ids"
proof -
  let ?keys = "map (\<lambda>j. (of_nat ((j + 1) * 10) :: u32, ids ! j)) [0..<length ids]"
  have key: "execution_key (numbered 0 ids r) = (of_nat ((j + 1) * 10), ids ! j)"
    if "j < length ids" "ids ! j = r_id r" for r :: "'a rule" and j
    using position_nth [OF assms(2) that(1)] that(2) by (simp add: execution_key_def numbered_def)
  have "set (map execution_key (map (numbered 0 ids) rs)) = set ?keys"
  proof (rule set_eqI, rule iffI)
    fix x assume "x \<in> set (map execution_key (map (numbered 0 ids) rs))"
    then obtain r where r: "r \<in> set rs" "x = execution_key (numbered 0 ids r)" by auto
    then obtain j where "j < length ids" "ids ! j = r_id r"
      using assms(3) by (metis image_eqI in_set_conv_nth)
    with key r show "x \<in> set ?keys" by auto
  next
    fix x assume "x \<in> set ?keys"
    then obtain j where j: "j < length ids" "x = (of_nat ((j + 1) * 10), ids ! j)" by auto
    then obtain r where "r \<in> set rs" "r_id r = ids ! j"
      using assms(3) by (metis imageE nth_mem)
    with key [of j r] j show "x \<in> set (map execution_key (map (numbered 0 ids) rs))" by force
  qed
  moreover have "distinct (map execution_key (map (numbered 0 ids) rs))"
    using assms(1) by (auto simp: distinct_map inj_on_def execution_key_def)
  moreover have "sorted ?keys" "distinct ?keys"
    using sorted_numbers [OF assms(4)] by (simp_all only: strict_sorted_iff)
  ultimately have "sort (map execution_key (map (numbered 0 ids) rs)) = ?keys"
    by (intro sorted_distinct_set_unique) (simp_all only: sorted_sort distinct_sort set_sort)
  then show ?thesis by (simp add: shown_keys_def comp_def map_nth)
qed

lemma shown_ids:
  assumes "distinct (map r_id rs)"
  shows "distinct (map snd (shown_keys rs))" "set (map snd (shown_keys rs)) = r_id ` set rs"
    "length (shown_keys rs) = length rs"
proof -
  have "mset (map snd (shown_keys rs)) = mset (map r_id rs)"
    by (simp add: shown_keys_def execution_key_def multiset.map_comp comp_def)
  with assms show "distinct (map snd (shown_keys rs))" "set (map snd (shown_keys rs)) = r_id ` set rs"
    by (metis mset_eq_imp_distinct_iff, metis mset_eq_setD set_map)
  show "length (shown_keys rs) = length rs" by (simp add: shown_keys_def)
qed

lemma swapped_same:
  assumes "i < length xs" "j < length xs"
  shows "distinct (swapped i j xs) = distinct xs" "set (swapped i j xs) = set xs"
    "length (swapped i j xs) = length xs"
proof -
  have perm: "mset (swapped i j xs) = mset xs" unfolding swapped_def by (rule mset_swap [OF assms(2,1)])
  show "distinct (swapped i j xs) = distinct xs" "set (swapped i j xs) = set xs"
    "length (swapped i j xs) = length xs"
    by (rule mset_eq_imp_distinct_iff [OF perm], rule mset_eq_setD [OF perm], rule mset_eq_length [OF perm])
qed

lemma position_less: "position P xs = Some k \<Longrightarrow> k < length xs"
  by (simp add: position_def Let_def split: if_splits)

lemma both_some:
  "option_bind x (\<lambda>k. map_option (Pair k) (f k)) = Some (k, m) \<Longrightarrow> x = Some k"
  "option_bind x (\<lambda>k. map_option (Pair k) (f k)) = Some (k, m) \<Longrightarrow> f k = Some m"
  by (cases x; auto)+

lemma neighbour_less: "neighbour d k n = Some m \<Longrightarrow> k < n \<Longrightarrow> m < n"
  by (auto simp: neighbour_def split: reorder_direction.splits if_splits)

text \<open>
  Moving a rule of a valid profile never panics and moves it one place. The order in which the rules
  are shown and executed is the old one with the rule and its neighbour exchanged, or the profile is
  unchanged when there is no such neighbour; nothing but priorities changes.
\<close>

lemma rule_moves_one_place:
  "case validate_profile X p of
     Inl _ \<Rightarrow> True
   | Inr _ \<Rightarrow>
       (case move_rule p i direction of
          None \<Rightarrow> False
        | Some (moved, q) \<Rightarrow>
            map (\<lambda>r. r\<lparr>r_priority := 0\<rparr>) (p_rules q) = map (\<lambda>r. r\<lparr>r_priority := 0\<rparr>) (p_rules p) \<and>
            (let shown = \<lambda>p. map snd (shown_keys (p_rules p)) in
             case option_bind (position (\<lambda>j. j = i) (shown p))
                 (\<lambda>k. map_option (Pair k) (neighbour direction k (length (shown p)))) of
               None \<Rightarrow> \<not> moved \<and> q = p
             | Some (k, m) \<Rightarrow> moved \<and> shown q = swapped k m (shown p)))"
proof (cases "validate_profile X p")
  case (Inr u)
  then have ok: "distinct (map r_id (p_rules p))" "length (p_rules p) \<le> 10000"
    by (simp_all add: validate_profile_Inr_iff profile_ok_def)
  let ?shown = "map snd (shown_keys (p_rules p))"
  note shown = shown_ids [OF ok(1)]
  show ?thesis
  proof (cases "option_bind (position (\<lambda>j. j = i) ?shown) (\<lambda>k. map_option (Pair k) (neighbour direction k (length ?shown)))")
    case None
    then have "move_rule p i direction = Some (False, p)"
      by (auto simp: move_rule_def Let_def split: option.splits)
    with Inr None show ?thesis by (simp add: Let_def)
  next
    case (Some km)
    obtain k m where km: "km = (k, m)" by (cases km)
    note k = both_some [OF Some [unfolded km]] km
    note less = position_less [OF k(1)] neighbour_less [OF k(2) position_less [OF k(1)]]
    have ids: "distinct (swapped k m ?shown)" "set (swapped k m ?shown) = r_id ` set (p_rules p)"
      by (simp_all only: swapped_same [OF less] shown(1,2))
    have count: "length (swapped k m ?shown) = length (p_rules p)"
      by (simp only: swapped_same(3) [OF less] length_map shown(3))
    have small: "length (swapped k m ?shown) * 10 < 2 ^ 32" unfolding count using ok(2) by simp
    have "number_rules 0 (swapped k m ?shown) (p_rules p) =
        Some (map (numbered 0 (swapped k m ?shown)) (p_rules p))"
      by (rule number_rules_map [OF ok(1) ids(1)]) (simp_all only: ids(2) order_refl add_0 small)
    then have "move_rule p i direction =
        Some (True, p\<lparr>p_rules := map (numbered 0 (swapped k m ?shown)) (p_rules p)\<rparr>)"
      using k(1,2) by (simp add: move_rule_def Let_def)
    with Inr Some k(3) shown_numbered [OF ok(1) ids small] show ?thesis by (simp add: Let_def comp_def)
  qed
qed simp

end
