(* ===== verification/Socket.thy ===== *)
theory Socket
  imports Disk Daemon
begin

text \<open>
  The socket the daemon listens on (\<open>UnixSocketServer::bind_at\<close> and its helpers in
  \<open>src/src/ipc/server.rs\<close>): a private directory, a lock that only one daemon holds, and a socket of a
  daemon that no longer runs, which is removed only when it belongs to the user and refuses connections.
  Locks and listeners are kept beside the disk; every operation may fail as the disk's faults say.
\<close>

section \<open>Locks and listeners\<close>

record sockets =
  sk_locked :: "path \<Rightarrow> bool"
  sk_listening :: "path \<Rightarrow> bool"

type_synonym socket_host = "sockets \<times> disk"

type_synonym 'a socket_io = "(socket_host, coded_error, 'a) fallible"

definition on_disk :: "string \<Rightarrow> (string \<Rightarrow> string) \<Rightarrow> 'a disk_io \<Rightarrow> 'a socket_io" where
  "on_disk code message m = in_world (told (\<lambda>e. coded code (message e)) m)"

text \<open>Opening a lock file: it is created if it is missing, and a symbolic link is refused.\<close>

definition open_or_create :: "path \<Rightarrow> u32 \<Rightarrow> unit disk_io" where
  "open_or_create p mode = attempt (\<lambda>d. case dk_tree d p of
     None \<Rightarrow> (Inr (), put p (Some \<lparr>nd_kind = FileNode [], nd_uid = dk_user d, nd_mode = mode\<rparr>) d)
   | Some n \<Rightarrow> (case nd_kind n of
       FileNode _ \<Rightarrow> (Inr (), d)
     | SymlinkNode _ \<Rightarrow> (Inl (io_failure SymlinkLoop ''Too many levels of symbolic links''), d)
     | SocketNode \<Rightarrow> (Inl (io_failure OtherKind ''No such device or address''), d)
     | DirectoryNode \<Rightarrow> (Inl (io_failure OtherKind ''Is a directory''), d)))"

text \<open>\<open>flock\<close> with \<open>LOCK_EX | LOCK_NB\<close>; the lock is released when the file is dropped.\<close>

definition try_lock :: "path \<Rightarrow> (socket_host, io_error, unit) fallible" where
  "try_lock p h = (case h of (s, d) \<Rightarrow>
     (case attempt (\<lambda>d. (Inr (), d)) d of
        (Inl e, d') \<Rightarrow> (Inl e, (s, d'))
      | (Inr _, d') \<Rightarrow>
          if sk_locked s p then (Inl (io_failure WouldBlock ''Resource temporarily unavailable''), (s, d'))
          else (Inr (), (s\<lparr>sk_locked := (sk_locked s)(p := True)\<rparr>, d'))))"

definition unlock :: "path \<Rightarrow> sockets \<Rightarrow> sockets" where
  "unlock p s = s\<lparr>sk_locked := (sk_locked s)(p := False)\<rparr>"

text \<open>A connection; a socket something listens on does not refuse, whatever else may go wrong.\<close>

definition connect_to :: "path \<Rightarrow> (socket_host, io_error, unit) fallible" where
  "connect_to p h = (case h of (s, d) \<Rightarrow>
     (case attempt (\<lambda>d. (existing p d, d)) d of
        (Inl e, d') \<Rightarrow>
          (Inl (if sk_listening s p \<and> ie_kind e = ConnectionRefused then e\<lparr>ie_kind := OtherKind\<rparr> else e), (s, d'))
      | (Inr n, d') \<Rightarrow>
          if nd_kind n = SocketNode \<and> sk_listening s p then (Inr (), (s, d'))
          else (Inl (io_failure ConnectionRefused ''Connection refused''), (s, d'))))"

definition bind_socket :: "path \<Rightarrow> (socket_host, io_error, unit) fallible" where
  "bind_socket p h = (case h of (s, d) \<Rightarrow>
     (case attempt (\<lambda>d. case dk_tree d p of
         Some _ \<Rightarrow> (Inl (io_failure OtherKind ''Address already in use''), d)
       | None \<Rightarrow> (Inr (), put p (Some \<lparr>nd_kind = SocketNode, nd_uid = dk_user d, nd_mode = 0x1ED\<rparr>) d)) d of
        (Inl e, d') \<Rightarrow> (Inl e, (s, d'))
      | (Inr _, d') \<Rightarrow> (Inr (), (s\<lparr>sk_listening := (sk_listening s)(p := True)\<rparr>, d'))))"

definition stop_listening :: "path \<Rightarrow> sockets \<Rightarrow> sockets" where
  "stop_listening p s = s\<lparr>sk_listening := (sk_listening s)(p := False)\<rparr>"

text \<open>What a value does when it is dropped on the way out of a failure.\<close>

definition dropping :: "(sockets \<Rightarrow> sockets) \<Rightarrow> 'a socket_io \<Rightarrow> 'a socket_io" where
  "dropping f m = io_bind (io_result m) (\<lambda>r. case r of
     Inr a \<Rightarrow> io_return a | Inl e \<Rightarrow> io_seq (io_modify f) (io_fail e))"

section \<open>The daemon's socket\<close>

definition socket_path :: "path option \<Rightarrow> (coded_error, path) result" where
  "socket_path runtime = and_then
     (ok_or (coded ''IPC_MISSING_RUNTIME_DIRECTORY'' ''XDG_RUNTIME_DIR is not set'') runtime)
     (\<lambda>r. Inr (path_join r ''routelane/routelane.sock''))"

text \<open>\<open>Path::parent\<close>, up to equality of paths.\<close>

definition path_parent :: "path \<Rightarrow> path option" where
  "path_parent p = (case path_key p of (rooted, parts) \<Rightarrow>
     if parts = [] then None
     else Some ((if rooted then ''/'' else []) @ join ''/'' (butlast parts)))"

definition parent_of :: "path \<Rightarrow> path socket_io" where
  "parent_of p = io_lift (ok_or (coded ''IPC_INVALID_SOCKET_PATH'' ''socket path has no parent'') (path_parent p))"

definition runtime_directory_failed :: "string \<Rightarrow> path \<Rightarrow> string \<Rightarrow> string" where
  "runtime_directory_failed what p e = ''could not '' @ what @ '' '' @ p @ '': '' @ e"

definition prepare_parent :: "path \<Rightarrow> u32 \<Rightarrow> unit socket_io" where
  "prepare_parent p uid = io_bind (parent_of p) (\<lambda>parent.
     let failed = (\<lambda>what e. coded ''IPC_RUNTIME_DIRECTORY_FAILED'' (runtime_directory_failed what parent e)) in
     in_world (ensure_directory
       \<lparr>xd_create = failed ''create'', xd_inspect = failed ''inspect'', xd_secure = failed ''secure'',
        xd_unsafe = coded ''IPC_UNSAFE_RUNTIME_DIRECTORY''
          ''socket parent must be a real directory owned by the daemon user''\<rparr>
       (\<lambda>m. nd_uid m = uid) parent))"

definition already_running_error :: coded_error where
  "already_running_error = coded ''IPC_ALREADY_RUNNING'' ''another RouteLane daemon instance is already running''"

definition lock_path :: "path \<Rightarrow> path" where
  "lock_path parent = path_join parent ''routelane.lock''"

definition lock_open_failed :: "path \<Rightarrow> io_error \<Rightarrow> coded_error" where
  "lock_open_failed p e = coded
     (if ie_kind e = SymlinkLoop then ''IPC_UNSAFE_LOCK_FILE'' else ''IPC_LOCK_OPEN_FAILED'')
     (''could not securely open '' @ p @ '': '' @ ie_text e)"

text \<open>The lock that is held is the result.\<close>

definition acquire_instance_lock :: "path \<Rightarrow> u32 \<Rightarrow> path socket_io" where
  "acquire_instance_lock path uid =
     io_bind (parent_of path) (\<lambda>parent.
     let lock = lock_path parent in
     io_seq (in_world (io_map_err (lock_open_failed lock) (open_or_create lock 0x180)))
     (io_bind (on_disk ''IPC_LOCK_INSPECTION_FAILED'' (\<lambda>e. ''could not inspect '' @ lock @ '': '' @ e)
       (symlink_metadata lock)) (\<lambda>m.
     io_seq (io_guard (node_is_file m \<and> nd_uid m = uid)
       (coded ''IPC_UNSAFE_LOCK_FILE'' ''daemon lock must be a regular file owned by the daemon user''))
     (io_seq (on_disk ''IPC_LOCK_PERMISSION_FAILED'' (\<lambda>e. ''could not secure '' @ lock @ '': '' @ e)
       (set_permissions lock 0x180))
     (io_seq (io_map_err (\<lambda>e. if ie_kind e = WouldBlock then already_running_error
         else coded ''IPC_LOCK_FAILED'' (''could not acquire '' @ lock @ '': '' @ ie_text e)) (try_lock lock))
       (io_return lock))))))"

definition remove_verified_stale_socket :: "path \<Rightarrow> u32 \<Rightarrow> unit socket_io" where
  "remove_verified_stale_socket path uid =
     io_bind (io_result (in_world (symlink_metadata path))) (\<lambda>found.
     case found of
       Inl e \<Rightarrow> if ie_kind e = NotFound then io_return ()
         else io_fail (coded ''IPC_SOCKET_INSPECTION_FAILED'' (''could not inspect '' @ path @ '': '' @ ie_text e))
     | Inr m \<Rightarrow>
         io_seq (io_guard (nd_kind m = SocketNode \<and> nd_uid m = uid)
           (coded ''IPC_UNSAFE_SOCKET_PATH'' ''existing socket path is not an owned Unix socket''))
         (io_bind (io_result (connect_to path)) (\<lambda>answer.
         case answer of
           Inr _ \<Rightarrow> io_fail already_running_error
         | Inl e \<Rightarrow>
             if ie_kind e = ConnectionRefused
             then on_disk ''IPC_STALE_SOCKET_REMOVAL_FAILED''
               (\<lambda>t. ''could not remove owned stale socket '' @ path @ '': '' @ t) (remove_file path)
             else io_fail (coded ''IPC_SOCKET_LIVENESS_UNCERTAIN''
               (''could not prove that owned socket '' @ path @ '' is stale: '' @ ie_text e)))))"

definition bind_listener :: "path \<Rightarrow> unit socket_io" where
  "bind_listener path =
     io_seq (io_map_err (\<lambda>e. coded ''IPC_SOCKET_BIND_FAILED'' (''could not bind '' @ path @ '': '' @ ie_text e))
       (bind_socket path))
     (dropping (stop_listening path)
       (on_disk ''IPC_SOCKET_PERMISSION_FAILED'' (\<lambda>e. ''could not secure '' @ path @ '': '' @ e)
         (set_permissions path 0x180)))"

definition bind_at :: "path \<Rightarrow> path socket_io" where
  "bind_at path =
     io_bind (in_world effective_uid) (\<lambda>uid.
     io_seq (prepare_parent path uid)
     (io_bind (acquire_instance_lock path uid) (\<lambda>lock.
     dropping (unlock lock)
       (io_seq (remove_verified_stale_socket path uid)
       (io_seq (bind_listener path) (io_return lock))))))"

section \<open>One daemon\<close>

definition socket_at :: "path \<Rightarrow> disk \<Rightarrow> bool" where
  "socket_at p d \<longleftrightarrow> (case dk_tree d p of None \<Rightarrow> False | Some n \<Rightarrow> nd_kind n = SocketNode)"

text \<open>Something listens on the socket; the lock beside it is held; it is the user's and nobody else's.\<close>

definition served :: "path \<Rightarrow> socket_host \<Rightarrow> bool" where
  "served p h \<longleftrightarrow> sk_listening (fst h) p \<and> socket_at p (snd h)"

definition locked :: "path \<Rightarrow> socket_host \<Rightarrow> bool" where
  "locked p h \<longleftrightarrow> (case path_parent p of None \<Rightarrow> False | Some parent \<Rightarrow> sk_locked (fst h) (lock_path parent))"

definition private_socket :: "path \<Rightarrow> socket_host \<Rightarrow> bool" where
  "private_socket p h \<longleftrightarrow>
     dk_tree (snd h) p = Some \<lparr>nd_kind = SocketNode, nd_uid = dk_user (snd h), nd_mode = 0x180\<rparr>"

lemma socket_at_clock [simp]: "socket_at p (d\<lparr>dk_clock := c\<rparr>) = socket_at p d"
  by (simp add: socket_at_def)

lemma clockless_socket [simp]: "clockless (socket_at p)"
  by (simp add: clockless_def)

lemma disk_keeps_socket:
  "keeps (socket_at p) (create_dir_all q)" "keeps (socket_at p) (set_permissions q m)"
  "keeps (socket_at p) (open_or_create q m)"
  unfolding create_dir_all_def set_permissions_def open_or_create_def
  by (auto intro!: attempt_keeps simp: socket_at_def existing_def ok_or_def
      split: option.splits sum.splits node_kind.splits)

lemma served_state: "(\<lambda>d. served p (s, d)) = (\<lambda>d. sk_listening s p \<and> socket_at p d)"
  by (simp add: served_def)

lemma keeps_served: "keeps (socket_at p) m \<Longrightarrow> keeps (served p) (in_world m)"
  by (rule keeps_in_world) (auto simp: served_state keeps_def hoare_def)

lemma keeps_locked: "keeps (locked p) (in_world m)"
  by (rule keeps_in_world) (auto simp: locked_def intro!: keepsI split: option.splits)

lemma on_disk_keeps:
  "keeps (socket_at p) m \<Longrightarrow> keeps (served p) (on_disk c f m)" "keeps (locked p) (on_disk c f m)"
  unfolding on_disk_def by (simp_all add: keeps_served keeps_locked told_keeps)

lemma parent_keeps: "keeps P (parent_of p)"
  unfolding parent_of_def by (rule keeps_simps)

lemma parent_prepared_keeps: "keeps (served p) (prepare_parent p uid)" "keeps (locked p) (prepare_parent p uid)"
proof -
  have "keeps (socket_at p) (ensure_directory X safe q)" for X :: "coded_error directory_texts" and safe q
    unfolding ensure_directory_def
    by (intro keeps_seq keeps_bind told_keeps keeps_simps disk_keeps_socket reads_keep) simp
  then show "keeps (served p) (prepare_parent p uid)"
    unfolding prepare_parent_def Let_def by (intro keeps_bind parent_keeps keeps_served)
  show "keeps (locked p) (prepare_parent p uid)"
    unfolding prepare_parent_def Let_def by (intro keeps_bind parent_keeps keeps_locked)
qed

lemma lock_keeps_served: "keeps (served p) (try_lock q)"
  by (rule keepsI) (auto simp: try_lock_def attempt_def served_def Let_def split: option.splits prod.splits)

lemma acquire_keeps_served: "keeps (served p) (acquire_instance_lock p uid)"
  unfolding acquire_instance_lock_def Let_def
  by (intro keeps_bind keeps_seq parent_keeps keeps_simps keeps_served keeps_map_err on_disk_keeps
      disk_keeps_socket reads_keep lock_keeps_served) simp

lemma hoare_dropping:
  assumes "hoare P m Q E" "\<And>s d. E (s, d) \<Longrightarrow> E' (f s, d)"
  shows "hoare P (dropping f m) Q E'"
proof (rule hoareI)
  fix h a h' assume "P h" "dropping f m h = (Inr a, h')"
  then show "Q a h'"
    by (cases "m h") (auto simp: dropping_def io_bind_def io_result_def io_seq_def io_modify_def
      dest: hoareD(1) [OF assms(1)] split: prod.splits sum.splits)
next
  fix h e h' assume h: "P h" "dropping f m h = (Inl e, h')"
  obtain r s d where m: "m h = (r, (s, d))" by (metis prod.exhaust)
  with h(2) obtain e' where r: "r = Inl e'" "h' = (f s, d)"
    by (cases r) (auto simp: dropping_def io_bind_def io_result_def io_seq_def io_modify_def)
  from hoareD(2) [OF assms(1) h(1)] m r assms(2) show "E' h'" by simp
qed

lemma connect_served:
  "hoare (served p) (io_result (connect_to p))
     (\<lambda>answer h. served p h \<and> (case answer of Inl e \<Rightarrow> ie_kind e \<noteq> ConnectionRefused | Inr _ \<Rightarrow> True)) (\<lambda>_. False)"
  by (rule hoareI)
    (auto simp: io_result_eq connect_to_def attempt_def served_def socket_at_def existing_def ok_or_def Let_def
      split: option.splits prod.splits sum.splits if_splits)

lemma remove_keeps_served: "keeps (served p) (remove_verified_stale_socket p uid)"
proof -
  have answered: "hoare (served p) (io_bind (io_result (connect_to p)) (\<lambda>answer. case answer of
        Inr _ \<Rightarrow> io_fail already_running_error
      | Inl e \<Rightarrow> if ie_kind e = ConnectionRefused then on_disk c f (remove_file p) else io_fail (g e)))
      (\<lambda>_. served p) (served p)" for c f g
  proof (rule hoare_bind [where R = "\<lambda>answer h. served p h \<and>
      (case answer of Inl e \<Rightarrow> ie_kind e \<noteq> ConnectionRefused | Inr _ \<Rightarrow> True)"])
    fix answer :: "(io_error, unit) result"
    show "hoare (\<lambda>h. served p h \<and> (case answer of Inl e \<Rightarrow> ie_kind e \<noteq> ConnectionRefused | Inr _ \<Rightarrow> True))
      (case answer of Inr _ \<Rightarrow> io_fail already_running_error
       | Inl e \<Rightarrow> if ie_kind e = ConnectionRefused then on_disk c f (remove_file p) else io_fail (g e))
      (\<lambda>_. served p) (served p)"
      by (cases answer) (simp_all add: hoare_def)
  qed (rule hoare_conseq [OF connect_served]; simp)
  show ?thesis
    unfolding remove_verified_stale_socket_def
    by (rule keeps_bind [OF keeps_result [OF keeps_served [OF reads_keep(2)]]], simp, rule keeps_sum,
        intro keeps_if keeps_simps, rule keeps_seq [OF keeps_simps(4)])
      (simp only: keeps_def, rule answered)
qed

lemma bind_served: "hoare (served p) (bind_listener p) (\<lambda>_ _. False) (served p)"
proof -
  have "hoare (served p) (bind_socket p) (\<lambda>_ _. False) (served p)"
    by (rule hoareI) (auto simp: bind_socket_def attempt_def served_def socket_at_def Let_def
      split: option.splits prod.splits)
  then show ?thesis
    unfolding bind_listener_def
    by (intro hoare_seq [where R = "\<lambda>_. False"] hoare_map_err) (simp_all add: hoare_def)
qed

lemma locked_twice: "hoare (locked p) (acquire_instance_lock p uid) (\<lambda>_ _. False) (locked p)"
proof (cases "path_parent p")
  case None
  then show ?thesis by (auto simp: locked_def hoare_def)
next
  case (Some parent)
  have "hoare (locked p) (try_lock (lock_path parent)) (\<lambda>_ _. False) (locked p)"
    by (rule hoareI) (auto simp: try_lock_def attempt_def locked_def Some Let_def split: option.splits prod.splits)
  then show ?thesis
    unfolding acquire_instance_lock_def parent_of_def Let_def Some ok_or_def
    by simp (rule hoare_seq [OF hoare_keeps [OF keeps_locked]], rule hoare_bind [OF hoare_keeps [OF on_disk_keeps(2)]],
        rule hoare_seq [OF hoare_keeps [OF keeps_simps(4)]], rule hoare_seq [OF hoare_keeps [OF on_disk_keeps(2)]],
        rule hoare_seq [OF hoare_map_err], assumption, simp add: hoare_def)
qed

lemma hoare_trivial: "hoare P m (\<lambda>_ _. True) (\<lambda>_. True)"
  by (simp add: hoare_def split: prod.split sum.split)

lemma lock_taken:
  "hoare (\<lambda>_. True) (acquire_instance_lock p uid) (\<lambda>_. locked p) (\<lambda>_. True)"
proof (cases "path_parent p")
  case None
  then show ?thesis by (simp add: acquire_instance_lock_def parent_of_def hoare_def)
next
  case (Some parent)
  have "hoare (\<lambda>_. True) (try_lock (lock_path parent)) (\<lambda>_. locked p) (\<lambda>_. True)"
    by (rule hoareI) (auto simp: try_lock_def attempt_def locked_def Some Let_def
      split: option.splits prod.splits if_splits)
  then show ?thesis
    unfolding acquire_instance_lock_def parent_of_def Let_def Some ok_or_def
    by simp (rule hoare_seq [OF hoare_trivial], rule hoare_bind [OF hoare_trivial],
        rule hoare_seq [OF hoare_trivial], rule hoare_seq [OF hoare_trivial],
        rule hoare_seq [OF hoare_map_err], assumption, rule hoare_return)
qed

lemma connect_keeps_locked: "keeps (locked p) (connect_to q)"
  by (rule keepsI) (auto simp: connect_to_def attempt_def locked_def Let_def
    split: option.splits prod.splits sum.splits)

lemma remove_keeps_locked: "keeps (locked p) (remove_verified_stale_socket p uid)"
  unfolding remove_verified_stale_socket_def
  by (intro keeps_bind keeps_sum keeps_if keeps_seq keeps_simps keeps_result keeps_locked on_disk_keeps
      connect_keeps_locked)

definition settled_socket :: "path \<Rightarrow> socket_host \<Rightarrow> bool" where
  "settled_socket p h \<longleftrightarrow> served p h \<and> locked p h \<and> private_socket p h"

lemma bind_settles: "hoare (locked p) (bind_listener p) (\<lambda>_. settled_socket p) (\<lambda>_. True)"
proof -
  define fresh where "fresh h \<longleftrightarrow> served p h \<and> locked p h \<and>
    (\<exists>mode. dk_tree (snd h) p = Some \<lparr>nd_kind = SocketNode, nd_uid = dk_user (snd h), nd_mode = mode\<rparr>)" for h
  have "hoare (locked p) (bind_socket p) (\<lambda>_. fresh) (\<lambda>_. True)"
    by (rule hoareI) (auto simp: bind_socket_def attempt_def fresh_def served_def socket_at_def locked_def Let_def
      split: option.splits prod.splits)
  moreover have "hoare fresh (on_disk c f (set_permissions p 0x180)) (\<lambda>_. settled_socket p) (\<lambda>_. True)" for c f
    by (rule hoareI) (auto simp: on_disk_def in_world_def told_def io_map_err_def set_permissions_def attempt_def
      existing_def ok_or_def fresh_def settled_socket_def served_def socket_at_def locked_def private_socket_def Let_def
      split: option.splits prod.splits sum.splits)
  ultimately show ?thesis
    unfolding bind_listener_def
    by (intro hoare_seq [where R = fresh] hoare_map_err hoare_dropping) simp_all
qed

text \<open>
  C40. One daemon for a socket: whatever fails on the way, \<open>bind_at\<close> never binds where something listens
  and never takes that socket away; it never binds while another process holds the lock beside the socket;
  and when it binds, the socket is listened on, locked, and open to the user alone. So a second daemon on
  the same path always fails and leaves the first one's socket alone.
\<close>
theorem one_daemon_for_a_socket:
  "hoare (served p) (bind_at p) (\<lambda>_ _. False) (served p) \<and>
   hoare (locked p) (bind_at p) (\<lambda>_ _. False) (locked p) \<and>
   hoare (\<lambda>_. True) (bind_at p) (\<lambda>_ h. served p h \<and> locked p h \<and> private_socket p h) (\<lambda>_. True)"
proof (intro conjI)
  have uid: "keeps P (in_world effective_uid)" for P :: "socket_host \<Rightarrow> bool"
    by (intro keeps_in_world effective_uid_keeps)
  have unlock: "served p (unlock lock s, d)" if "served p (s, d)" for lock s d
    using that by (simp add: served_def unlock_def)
  have finish: "hoare (served p) (io_seq (remove_verified_stale_socket p u)
      (io_seq (bind_listener p) (io_return lock))) (\<lambda>_ _. False) (served p)" for u lock
    by (rule hoare_seq [OF hoare_keeps [OF remove_keeps_served]], rule hoare_seq [OF bind_served])
      (simp add: hoare_def)
  show "hoare (served p) (bind_at p) (\<lambda>_ _. False) (served p)"
    unfolding bind_at_def
    by (rule hoare_bind [OF hoare_keeps [OF uid]], rule hoare_seq [OF hoare_keeps [OF parent_prepared_keeps(1)]],
        rule hoare_bind [OF hoare_keeps [OF acquire_keeps_served]], rule hoare_dropping [OF finish])
      (rule unlock)
  show "hoare (locked p) (bind_at p) (\<lambda>_ _. False) (locked p)"
    unfolding bind_at_def
    by (rule hoare_bind [OF hoare_keeps [OF uid]], rule hoare_seq [OF hoare_keeps [OF parent_prepared_keeps(2)]],
        rule hoare_bind [OF locked_twice]) (simp add: hoare_def)
  have settle: "hoare (locked p) (io_seq (remove_verified_stale_socket p u)
      (io_seq (bind_listener p) (io_return lock))) (\<lambda>_. settled_socket p) (\<lambda>_. True)" for u lock
    by (rule hoare_seq [where R = "locked p"],
        rule hoare_conseq [OF hoare_keeps [OF remove_keeps_locked]], simp, simp, simp,
        rule hoare_seq [OF bind_settles], rule hoare_return)
  show "hoare (\<lambda>_. True) (bind_at p) (\<lambda>_ h. served p h \<and> locked p h \<and> private_socket p h) (\<lambda>_. True)"
    unfolding bind_at_def settled_socket_def [symmetric]
    by (rule hoare_bind [OF hoare_trivial], rule hoare_seq [OF hoare_trivial],
        rule hoare_bind [OF lock_taken], rule hoare_dropping [OF settle]) simp
qed

end
