(* ===== verification/Providers.thy ===== *)
theory Providers
  imports Daemon
begin

text \<open>
  The providers the daemon is built with: the resolution of the profile's domain names
  (\<open>SystemResolutionProvider\<close> in \<open>src/src/daemon/service.rs\<close> over \<open>src/src/dns/periodic.rs\<close>), the capture of the
  topology (\<open>SystemTopologyProvider\<close>), and the client of the helper (\<open>SystemPrivilegedHelperClient\<close>). The
  resolver of the host, the bus, serde_json, and whether a worker thread panics, are parameters.
\<close>

section \<open>Names\<close>

text \<open>A look-up by the host: no outcome when the task panics.\<close>

type_synonym 'w lookup = "string \<Rightarrow> 'w \<Rightarrow> (string, ip_addr list) result option \<times> 'w"

definition resolve_domain :: "'w lookup \<Rightarrow> string \<Rightarrow> ('w, string, ip_addr list) fallible" where
  "resolve_domain L domain w = (case L (domain @ '':80'') w of
     (None, w') \<Rightarrow> (Inl ''DNS resolution task panicked'', w')
   | (Some (Inl _), w') \<Rightarrow> (Inl (''DNS resolution failed for '' @ [CHR 0x27] @ domain @ [CHR 0x27]), w')
   | (Some (Inr addresses), w') \<Rightarrow>
       (if addresses = []
        then Inl (''DNS resolution returned no addresses for '' @ [CHR 0x27] @ domain @ [CHR 0x27])
        else Inr addresses, w'))"

definition to_host_cidr :: "ip_addr \<Rightarrow> string" where
  "to_host_cidr a = ip_to_string a @ (if is_ipv4 a then ''/32'' else ''/128'')"

definition resolution_error :: "string \<Rightarrow> coded_error" where
  "resolution_error = coded ''DAEMON_RESOLUTION_FAILED''"

definition topology_failed :: "string \<Rightarrow> coded_error" where
  "topology_failed = coded ''DAEMON_TOPOLOGY_FAILED''"

text \<open>The domain of an enabled rule; other rules need no resolution.\<close>

definition rule_domain :: "'n rule \<Rightarrow> string option" where
  "rule_domain r = (if \<not> r_enabled r then None
     else (case r_target r of TargetDomain d \<Rightarrow> Some d | _ \<Rightarrow> None))"

fun resolve_rules ::
  "'n foreign \<Rightarrow> 'w lookup \<Rightarrow> 'n rule list \<Rightarrow> 'n resolutions \<Rightarrow> ('w, coded_error, 'n resolutions) fallible"
where
  "resolve_rules X L [] found = io_return found"
| "resolve_rules X L (r # rs) found =
     (case rule_domain r of
        None \<Rightarrow> resolve_rules X L rs found
      | Some d \<Rightarrow>
          io_bind (io_map_err resolution_error (resolve_domain L d)) (\<lambda>addresses.
            resolve_rules X L rs (resolutions_insert (r_id r) (map (net_of_addr X) addresses) found)))"

definition system_resolutions ::
  "'n foreign \<Rightarrow> 'w lookup \<Rightarrow> 'n profile \<Rightarrow> ('w, coded_error, 'n resolutions) fallible"
where
  "system_resolutions X L p = resolve_rules X L (p_rules p) []"

section \<open>The network\<close>

text \<open>The capture runs on a worker thread; its panic is an error of the provider.\<close>

definition system_topology ::
  "('w \<Rightarrow> (topology_failure, 'n topology) result \<times> 'w) \<Rightarrow> string \<Rightarrow> 'n profile \<Rightarrow>
     ('w, coded_error, 'n topology) fallible"
where
  "system_topology capture panic p w = (case capture w of
     (Inl (TopologyError e), w') \<Rightarrow> (Inl (topology_failed e), w')
   | (Inl TopologyPanic, w') \<Rightarrow> (Inl (topology_failed (''kernel topology worker failed: '' @ panic)), w')
   | (Inr t, w') \<Rightarrow> (Inr t, w'))"

section \<open>The helper on the bus\<close>

text \<open>An error of the bus: the name it has on the bus, if it is an answer of the peer, and its text.\<close>

datatype bus_value = BusText string | BusU32 u32 | BusU64 u64

record bus_error =
  be_name :: "string option"
  be_text :: string

record ('w, 'n, 'h) helper_bus =
  hb_proxy :: "string \<Rightarrow> ('w, string, unit) fallible"
  hb_call :: "string \<Rightarrow> string \<Rightarrow> bus_value list \<Rightarrow> ('w, bus_error, string) fallible"
  hb_encode_activation :: "'n runtime_activation \<Rightarrow> (string, string) result"
  hb_encode_plan :: "'n kernel_plan \<Rightarrow> (string, string) result"
  hb_lossy :: "path \<Rightarrow> string"

definition HELPER_INTERFACE :: string where "HELPER_INTERFACE = ''io.github.routelane.Helper1''"

definition HELPER2_INTERFACE :: string where "HELPER2_INTERFACE = ''io.github.routelane.Helper2''"

definition authorization_refused :: "string \<Rightarrow> coded_error" where
  "authorization_refused = coded ''DAEMON_NEEDS_AUTHORIZATION''"

definition protocol_mismatch :: coded_error where
  "protocol_mismatch = coded ''DAEMON_HELPER_PROTOCOL_MISMATCH''
     ''the installed routelane-helper does not provide runtime protocol 2; install matching RouteLane daemon and helper versions''"

definition helper_call_error :: "string \<Rightarrow> bus_error \<Rightarrow> coded_error" where
  "helper_call_error operation e =
     (if be_name e = Some ''org.freedesktop.DBus.Error.AccessDenied'' then authorization_refused else helper_error)
       (''helper '' @ operation @ '' call: '' @ be_text e)"

definition runtime_call_error :: "string \<Rightarrow> bus_error \<Rightarrow> coded_error" where
  "runtime_call_error operation e =
     (if be_name e \<in> {Some ''org.freedesktop.DBus.Error.UnknownMethod'',
         Some ''org.freedesktop.DBus.Error.UnknownInterface'', Some ''org.freedesktop.DBus.Error.UnknownObject''}
      then protocol_mismatch else helper_call_error operation e)"

definition bus_answer :: "string \<Rightarrow> (string \<Rightarrow> (string, 'a) result) \<Rightarrow> string \<Rightarrow> (coded_error, 'a) result" where
  "bus_answer operation reader text =
     map_err (\<lambda>e. helper_error (''decode '' @ operation @ '' response: '' @ e)) (reader text)"

text \<open>One call of a method of the first interface, and of the second, which only newer helpers have.\<close>

definition helper_call ::
  "('w, 'n, 'h) helper_bus \<Rightarrow> string \<Rightarrow> bus_value list \<Rightarrow> ('w, coded_error, string) fallible"
where
  "helper_call B operation arguments =
     io_seq (io_map_err (\<lambda>e. helper_error (''create helper proxy: '' @ e)) (hb_proxy B HELPER_INTERFACE))
       (io_map_err (helper_call_error operation) (hb_call B HELPER_INTERFACE operation arguments))"

definition runtime_helper_call ::
  "('w, 'n, 'h) helper_bus \<Rightarrow> string \<Rightarrow> bus_value list \<Rightarrow> ('w, coded_error, string) fallible"
where
  "runtime_helper_call B operation arguments =
     io_seq (io_map_err (\<lambda>e. helper_error (''create runtime helper proxy: '' @ e)) (hb_proxy B HELPER2_INTERFACE))
       (io_map_err (runtime_call_error operation) (hb_call B HELPER2_INTERFACE operation arguments))"

text \<open>The methods; \<open>reader\<close> is serde_json at the type of the answer.\<close>

definition client_activate_runtime ::
  "('w, 'n, 'h) helper_bus \<Rightarrow> (string \<Rightarrow> (string, 'a) result) \<Rightarrow> 'n runtime_activation \<Rightarrow>
     ('w, coded_error, 'a) fallible"
where
  "client_activate_runtime B reader activation =
     io_bind (io_lift (map_err (\<lambda>e. helper_error (''encode activation: '' @ e)) (hb_encode_activation B activation)))
       (\<lambda>text. io_bind (runtime_helper_call B ''ActivateRuntime'' [BusText text])
         (\<lambda>answer. io_lift (bus_answer ''ActivateRuntime'' reader answer)))"

definition client_restore_runtime ::
  "('w, 'n, 'h) helper_bus \<Rightarrow> (string \<Rightarrow> (string, 'a) result) \<Rightarrow> string \<Rightarrow> ('w, coded_error, 'a) fallible"
where
  "client_restore_runtime B reader receipt = io_bind (runtime_helper_call B ''RestoreRuntime'' [BusText receipt])
     (\<lambda>answer. io_lift (bus_answer ''RestoreRuntime'' reader answer))"

definition client_apply ::
  "('w, 'n, 'h) helper_bus \<Rightarrow> (string \<Rightarrow> (string, 'a) result) \<Rightarrow> 'n kernel_plan \<Rightarrow> ('w, coded_error, 'a) fallible"
where
  "client_apply B reader k =
     io_bind (io_lift (map_err (\<lambda>e. helper_error (''encode kernel plan: '' @ e)) (hb_encode_plan B k)))
       (\<lambda>text. io_bind (helper_call B ''ApplyPlan'' [BusText text])
         (\<lambda>answer. io_lift (bus_answer ''ApplyPlan'' reader answer)))"

definition client_restore ::
  "('w, 'n, 'h) helper_bus \<Rightarrow> (string \<Rightarrow> (string, 'a) result) \<Rightarrow> 'n kernel_plan \<Rightarrow> 'n kernel_plan option \<Rightarrow>
     ('w, coded_error, 'a) fallible"
where
  "client_restore B reader failed previous =
     io_bind (io_lift (map_err (\<lambda>e. helper_error (''encode failed candidate: '' @ e)) (hb_encode_plan B failed)))
       (\<lambda>candidate.
     io_bind (io_lift (map_err (\<lambda>e. helper_error (''encode previous plan: '' @ e))
         (case previous of None \<Rightarrow> Inr [] | Some k \<Rightarrow> hb_encode_plan B k))) (\<lambda>earlier.
     io_bind (helper_call B ''RestorePlan'' [BusText candidate, BusText earlier])
       (\<lambda>answer. io_lift (bus_answer ''RestorePlan'' reader answer))))"

text \<open>\<open>Inspect\<close>, \<open>Cleanup\<close> and \<open>RecoverOrphanedResources\<close> take no argument.\<close>

definition client_plain ::
  "('w, 'n, 'h) helper_bus \<Rightarrow> string \<Rightarrow> (string \<Rightarrow> (string, 'a) result) \<Rightarrow> ('w, coded_error, 'a) fallible"
where
  "client_plain B operation reader =
     io_bind (helper_call B operation []) (\<lambda>answer. io_lift (bus_answer operation reader answer))"

definition client_inspect where "client_inspect B reader = client_plain B ''Inspect'' reader"

definition client_cleanup where "client_cleanup B reader = client_plain B ''Cleanup'' reader"

definition client_recover where "client_recover B reader = client_plain B ''RecoverOrphanedResources'' reader"

definition client_prepare_cgroup ::
  "('w, 'n, 'h) helper_bus \<Rightarrow> (string \<Rightarrow> (string, path) result) \<Rightarrow> rule_id \<Rightarrow> ('w, coded_error, path) fallible"
where
  "client_prepare_cgroup B reader i = io_bind (helper_call B ''PrepareApplicationCgroup'' [BusText i])
     (\<lambda>answer. io_lift (bus_answer ''PrepareApplicationCgroup'' reader answer))"

definition client_adopt ::
  "('w, 'n, 'h) helper_bus \<Rightarrow> rule_id \<Rightarrow> running_process \<Rightarrow> ('w, coded_error, unit) fallible"
where
  "client_adopt B i process =
     io_bind (helper_call B ''AdoptApplicationProcess'' [BusText i, BusU32 (pc_pid process),
       BusU64 (pc_start_time process), BusText (hb_lossy B (pc_executable_path process))]) (\<lambda>_. io_return ())"

text \<open>
  The announcements of the helper as they reach the daemon: None asks for a new inspection, because the
  helper appeared or left; a text that cannot be read is skipped; the end of either stream ends it.
\<close>

datatype helper_signal = RuntimeChangedSignal string | OwnerChanged | SignalsEnded

fun runtime_changes :: "(string \<Rightarrow> 'h runtime_status option) \<Rightarrow> helper_signal list \<Rightarrow> 'h runtime_status option list" where
  "runtime_changes reader [] = []"
| "runtime_changes reader (RuntimeChangedSignal text # signals) =
     (case reader text of
        None \<Rightarrow> runtime_changes reader signals
      | Some x \<Rightarrow> Some x # runtime_changes reader signals)"
| "runtime_changes reader (OwnerChanged # signals) = None # runtime_changes reader signals"
| "runtime_changes reader (SignalsEnded # signals) = []"

text \<open>
  What the daemon is told of a refused call: only a denial asks the user for authorization, and only a
  missing method or interface of the second protocol asks for matching versions.
\<close>

lemma call_errors:
  "er_code (helper_call_error operation e) = ''DAEMON_NEEDS_AUTHORIZATION'' \<longleftrightarrow>
     be_name e = Some ''org.freedesktop.DBus.Error.AccessDenied''"
  "er_code (runtime_call_error operation e) = ''DAEMON_HELPER_PROTOCOL_MISMATCH'' \<longleftrightarrow>
     be_name e \<in> {Some ''org.freedesktop.DBus.Error.UnknownMethod'',
       Some ''org.freedesktop.DBus.Error.UnknownInterface'', Some ''org.freedesktop.DBus.Error.UnknownObject''}"
  by (auto simp: helper_call_error_def runtime_call_error_def authorization_refused_def helper_error_def
    protocol_mismatch_def coded_def)

section \<open>What is resolved\<close>

text \<open>The rules resolved so far have addresses, and nothing else is in the snapshot.\<close>

definition resolved_for :: "'n rule list \<Rightarrow> 'n resolutions \<Rightarrow> bool" where
  "resolved_for rs found \<longleftrightarrow> (\<forall>i. case resolved_addresses found i of
     None \<Rightarrow> \<forall>r \<in> set rs. r_id r = i \<longrightarrow> rule_domain r = None
   | Some ns \<Rightarrow> ns \<noteq> [] \<and> (\<exists>r \<in> set rs. r_id r = i \<and> rule_domain r \<noteq> None))"

lemma resolved_for_insert:
  assumes "resolved_for past found" "rule_domain r = Some d" "ns \<noteq> []"
  shows "resolved_for (past @ [r]) (resolutions_insert (r_id r) ns found)"
proof -
  have "case resolved_addresses (resolutions_insert (r_id r) ns found) i of
      None \<Rightarrow> \<forall>x \<in> set (past @ [r]). r_id x = i \<longrightarrow> rule_domain x = None
    | Some ms \<Rightarrow> ms \<noteq> [] \<and> (\<exists>x \<in> set (past @ [r]). r_id x = i \<and> rule_domain x \<noteq> None)" for i
  proof (cases "i = r_id r")
    case False
    with assms(1) [unfolded resolved_for_def, rule_format, of i] show ?thesis
      by (auto simp: resolved_addresses_insert split: option.splits)
  qed (use assms in \<open>auto simp: resolved_addresses_insert\<close>)
  then show ?thesis by (simp add: resolved_for_def)
qed

lemma resolved_for_skip:
  assumes "resolved_for past found" "rule_domain r = None"
  shows "resolved_for (past @ [r]) found"
  unfolding resolved_for_def
proof
  fix i
  show "case resolved_addresses found i of
      None \<Rightarrow> \<forall>x \<in> set (past @ [r]). r_id x = i \<longrightarrow> rule_domain x = None
    | Some ns \<Rightarrow> ns \<noteq> [] \<and> (\<exists>x \<in> set (past @ [r]). r_id x = i \<and> rule_domain x \<noteq> None)"
    using assms(1) [unfolded resolved_for_def, rule_format, of i] assms(2) by (auto split: option.splits)
qed

lemma resolve_domain_ok: "resolve_domain L d w = (Inr ns, w') \<Longrightarrow> ns \<noteq> []"
  by (auto simp: resolve_domain_def split: prod.splits option.splits sum.splits if_splits)

lemma resolve_rules_ok:
  "resolve_rules X L rs found w = (Inr result, w') \<Longrightarrow> resolved_for past found \<Longrightarrow>
     resolved_for (past @ rs) result"
proof (induction rs arbitrary: past found w)
  case (Cons r rs)
  show ?case
  proof (cases "rule_domain r")
    case None
    with Cons.prems Cons.IH [OF _ resolved_for_skip [OF Cons.prems(2) None]] show ?thesis by simp
  next
    case (Some d)
    with Cons.prems(1) obtain ns w1 where ns: "resolve_domain L d w = (Inr ns, w1)"
      and rest: "resolve_rules X L rs (resolutions_insert (r_id r) (map (net_of_addr X) ns) found) w1 = (Inr result, w')"
      by (auto simp: io_bind_Inr io_map_err_def map_err_def split: prod.splits sum.splits)
    from resolve_domain_ok [OF ns] have "map (net_of_addr X) ns \<noteq> []" by simp
    from Cons.IH [OF rest resolved_for_insert [OF Cons.prems(2) Some this]] show ?thesis by simp
  qed
qed simp

text \<open>
  A snapshot of the resolver resolves exactly the enabled domain rules, each to at least one address: the
  planner finds what it needs, and no other rule is given addresses.
\<close>

lemma resolution_exact:
  "case system_resolutions X L p w of (Inl _, _) \<Rightarrow> True | (Inr found, _) \<Rightarrow> resolved_for (p_rules p) found"
proof -
  have "resolved_for [] []" by (simp add: resolved_for_def resolved_addresses_def)
  from resolve_rules_ok [OF _ this, of X L "p_rules p" w] show ?thesis
    by (auto simp: system_resolutions_def split: prod.splits sum.splits)
qed

text \<open>With such a snapshot the planner never misses a resolution.\<close>

lemma resolved_rules_supported:
  assumes "resolved_for rs found" "r \<in> set rs" "r_enabled r"
    and "case r_target r of TargetWildcardDomain _ \<Rightarrow> False | TargetServicePack _ \<Rightarrow> False | _ \<Rightarrow> True"
  shows "rule_supported found r"
proof (cases "r_target r")
  case (TargetDomain d)
  with assms(1) [unfolded resolved_for_def, rule_format, of "r_id r"] assms(2,3)
  have "resolved_addresses found (r_id r) \<noteq> None" by (auto simp: rule_domain_def split: option.splits)
  with TargetDomain show ?thesis by (auto simp: rule_supported_def split: rule_source.split)
qed (use assms(4) in \<open>auto simp: rule_supported_def split: rule_source.split rule_target.split\<close>)

end
