(* ===== verification/Ctl.thy ===== *)
theory Ctl
  imports Config Daemon_State Utf8
begin

text \<open>
  The command line client (\<open>src/src/bin/routelanectl.rs\<close>): its commands, the choice of a profile of a
  configuration file, and what it prints of an answer. Reading the file, the daemon and serde_json, each
  under the one deadline of the run, are parameters; printing and the exit of the process are not modelled.
\<close>

section \<open>Failures\<close>

text \<open>The exit codes: usage, configuration, daemon.\<close>

record cli_error =
  cl_code :: int
  cl_message :: string

definition usage_text :: string where
  "usage_text = ''Usage:'' @ [CHR 0x0A] @ ''  routelanectl status [--json]'' @ [CHR 0x0A] @
     ''  routelanectl apply-profile <config.json> [--profile <id-or-name>]'' @ [CHR 0x0A] @
     ''  routelanectl deactivate''"

definition cli_usage :: cli_error where "cli_usage = \<lparr>cl_code = 2, cl_message = usage_text\<rparr>"

definition cli_config :: "string \<Rightarrow> cli_error" where "cli_config m = \<lparr>cl_code = 3, cl_message = m\<rparr>"

definition cli_daemon :: "string \<Rightarrow> cli_error" where "cli_daemon m = \<lparr>cl_code = 4, cl_message = m\<rparr>"

text \<open>\<open>chars().take(n)\<close>: a byte that continues no character begins one.\<close>

fun take_chars :: "nat \<Rightarrow> string \<Rightarrow> string" where
  "take_chars n [] = []"
| "take_chars n (c # s) =
     (if continuation c then c # take_chars n s
      else (case n of 0 \<Rightarrow> [] | Suc m \<Rightarrow> c # take_chars m s))"

text \<open>A message is cut after 768 characters, and the cut marked by an ellipsis.\<close>

definition bounded :: "string \<Rightarrow> string" where
  "bounded message = (let prefix = take_chars 768 message in
     if prefix = message then message else prefix @ [CHR 0xE2, CHR 0x80, CHR 0xA6])"

section \<open>Choosing a profile\<close>

fun check_identities ::
  "string set \<Rightarrow> string set \<Rightarrow> 'n profile list \<Rightarrow> (cli_error, unit) result"
where
  "check_identities ids names [] = Inr ()"
| "check_identities ids names (p # ps) =
     (if p_id p \<in> ids
      then Inl (cli_config (''duplicate profile id '' @ [CHR 0x27] @ p_id p @ [CHR 0x27]))
      else if p_name p \<in> names
      then Inl (cli_config (''duplicate profile name '' @ [CHR 0x27] @ p_name p @ [CHR 0x27]))
      else check_identities (insert (p_id p) ids) (insert (p_name p) names) ps)"

definition validate_profile_identities :: "'n config_v4 \<Rightarrow> (cli_error, unit) result" where
  "validate_profile_identities document = check_identities {} {} (cv_profiles document)"

definition selected_by :: "string \<Rightarrow> 'n profile \<Rightarrow> bool" where
  "selected_by selector p \<longleftrightarrow> p_id p = selector \<or> p_name p = selector"

definition selector_error :: "string \<Rightarrow> string \<Rightarrow> cli_error" where
  "selector_error selector what =
     cli_config (''profile selector '' @ [CHR 0x27] @ selector @ [CHR 0x27] @ '' '' @ what)"

definition choose_profile :: "'n profile list \<Rightarrow> string option \<Rightarrow> (cli_error, 'n profile) result" where
  "choose_profile ps selector = (case selector of
     Some s \<Rightarrow> (case filter (selected_by s) ps of
         [p] \<Rightarrow> Inr p
       | [] \<Rightarrow> Inl (selector_error s ''was not found'')
       | _ \<Rightarrow> Inl (selector_error s ''is ambiguous''))
   | None \<Rightarrow> (case ps of
         [p] \<Rightarrow> Inr p
       | [] \<Rightarrow> Inl (cli_config ''configuration contains no profiles'')
       | _ \<Rightarrow> Inl (cli_config ''configuration contains multiple profiles; use --profile <id-or-name>'')))"

definition select_profile ::
  "(domain_error \<Rightarrow> string) \<Rightarrow> 'n foreign \<Rightarrow> 'n config_v4 \<Rightarrow> string option \<Rightarrow> (cli_error, 'n profile) result"
where
  "select_profile debug X document selector =
     and_then (validate_profile_identities document) (\<lambda>_.
     and_then (choose_profile (cv_profiles document) selector) (\<lambda>p.
       let q = p\<lparr>p_enabled := True\<rparr> in
       and_then (map_err (\<lambda>e. cli_config (''invalid profile: '' @ debug e)) (validate_profile X q)) (\<lambda>_. Inr q)))"

section \<open>Commands\<close>

datatype output_format = StatusText | StatusJson | AppliedOutput | DeactivatedOutput

text \<open>The outcome of the worker that reads the file: late, panicked, or what \<open>load_config_file\<close> gave.\<close>

datatype 'n file_read = ReadTimedOut | ReaderFailed string | FileRead "(string, 'n config_v4) result"

record ('w, 'n, 'h) ctl_world =
  cw_load :: "path \<Rightarrow> 'w \<Rightarrow> 'n file_read \<times> 'w"
  cw_socket :: "(coded_error, path) result"
  cw_uuid :: "'w \<Rightarrow> string \<times> 'w"
  cw_send :: "'n daemon_envelope \<Rightarrow> 'w \<Rightarrow> (coded_error, ('n, 'h) daemon_response) result option \<times> 'w"
  cw_json :: "'h daemon_status \<Rightarrow> (string, string) result"

definition load_selected_profile ::
  "(domain_error \<Rightarrow> string) \<Rightarrow> 'n foreign \<Rightarrow> ('w, 'n, 'h) ctl_world \<Rightarrow> path \<Rightarrow> string option \<Rightarrow>
     ('w, cli_error, 'n profile) fallible"
where
  "load_selected_profile debug X W path selector w = (case cw_load W path w of
     (ReadTimedOut, w') \<Rightarrow> (Inl (cli_config ''configuration read timed out''), w')
   | (ReaderFailed e, w') \<Rightarrow> (Inl (cli_config (''configuration reader failed: '' @ e)), w')
   | (FileRead (Inl e), w') \<Rightarrow> (Inl (cli_config e), w')
   | (FileRead (Inr document), w') \<Rightarrow> (select_profile debug X document selector, w'))"

definition parse_command ::
  "(domain_error \<Rightarrow> string) \<Rightarrow> 'n foreign \<Rightarrow> ('w, 'n, 'h) ctl_world \<Rightarrow> string list \<Rightarrow>
     ('w, cli_error, 'n daemon_request \<times> output_format) fallible"
where
  "parse_command debug X W arguments =
     (let applied = (\<lambda>path selector. io_bind (load_selected_profile debug X W path selector)
        (\<lambda>p. io_return (ApplyProfile p, AppliedOutput))) in
      case arguments of
        [command] \<Rightarrow>
          if command = ''status'' then io_return (GetStatus, StatusText)
          else if command = ''deactivate'' then io_return (Deactivate, DeactivatedOutput)
          else io_fail cli_usage
      | [command, argument] \<Rightarrow>
          if command = ''status'' \<and> argument = ''--json'' then io_return (GetStatus, StatusJson)
          else if command = ''apply-profile'' then applied argument None
          else io_fail cli_usage
      | [command, path, flag, selector] \<Rightarrow>
          if command = ''apply-profile'' \<and> flag = ''--profile'' then applied path (Some selector)
          else io_fail cli_usage
      | _ \<Rightarrow> io_fail cli_usage)"

section \<open>Answers\<close>

fun health_state_debug :: "health_state \<Rightarrow> string" where
  "health_state_debug health_state.Inactive = ''Inactive''"
| "health_state_debug Applying = ''Applying''"
| "health_state_debug Healthy = ''Healthy''"
| "health_state_debug health_state.Degraded = ''Degraded''"
| "health_state_debug health_state.Failed = ''Failed''"
| "health_state_debug NeedsAuthorization = ''NeedsAuthorization''"

fun runtime_phase_debug :: "runtime_phase \<Rightarrow> string" where
  "runtime_phase_debug runtime_phase.Inactive = ''Inactive''"
| "runtime_phase_debug Armed = ''Armed''"
| "runtime_phase_debug Switching = ''Switching''"
| "runtime_phase_debug runtime_phase.Degraded = ''Degraded''"
| "runtime_phase_debug NeedsReauthorization = ''NeedsReauthorization''"

definition family_summary :: "lane_id option \<Rightarrow> family_exit \<Rightarrow> string" where
  "family_summary preferred effective = (case preferred of None \<Rightarrow> ''-'' | Some i \<Rightarrow> i) @ ''->'' @
     (case effective of ExitLane i \<Rightarrow> i | ExitBlocked \<Rightarrow> ''blocked'')"

definition primary_summary :: "'h runtime_status \<Rightarrow> string" where
  "primary_summary x = (case st_decision x of
     None \<Rightarrow> ''primary phase='' @ runtime_phase_debug (st_phase x)
   | Some d \<Rightarrow> ''primary phase='' @ runtime_phase_debug (st_phase x) @
       '' ipv4='' @ family_summary (v4 (pd_preferred d)) (v4 (pd_effective d)) @
       '' ipv6='' @ family_summary (v6 (pd_preferred d)) (v6 (pd_effective d)) @ [CHR 0x0A] @
       ''note=effective exits follow local link evidence; internet reachability is not verified'')"

definition format_response ::
  "('w, 'n, 'h) ctl_world \<Rightarrow> ('n, 'h) daemon_response \<Rightarrow> output_format \<Rightarrow> (cli_error, string) result"
where
  "format_response W r output = (case dr_error r of
     Some e \<Rightarrow> Inl (cli_daemon (error_text e))
   | None \<Rightarrow> (case (output, dr_result r) of
       (StatusText, Some (Status x)) \<Rightarrow> Inr (''state='' @ health_state_debug (hr_state (sd_health x)) @
         '' generation='' @ decimal (uint (sd_generation x)) @ '' applied_profile='' @
         (case sd_applied_profile_id x of None \<Rightarrow> ''-'' | Some i \<Rightarrow> i) @ [CHR 0x0A] @ primary_summary (sd_primary x))
     | (StatusJson, Some (Status x)) \<Rightarrow>
         map_err (\<lambda>e. cli_daemon (''IPC_JSON_ENCODE_FAILED: '' @ e)) (cw_json W x)
     | (AppliedOutput, Some (Applied a)) \<Rightarrow> Inr (''applied generation='' @ decimal (uint (ap_generation a)))
     | (DeactivatedOutput, Some Deactivated) \<Rightarrow> Inr ''deactivated''
     | _ \<Rightarrow> Inl (cli_daemon ''IPC_INVALID_RESPONSE: daemon returned an unexpected result'')))"

definition ctl_run ::
  "(domain_error \<Rightarrow> string) \<Rightarrow> 'n foreign \<Rightarrow> ('w, 'n, 'h) ctl_world \<Rightarrow> string list \<Rightarrow> ('w, cli_error, string) fallible"
where
  "ctl_run debug X W arguments =
     io_bind (parse_command debug X W arguments) (\<lambda>(request, output).
     io_bind (io_lift (map_err (\<lambda>e. cli_daemon (error_text e)) (cw_socket W))) (\<lambda>_.
     io_bind (\<lambda>w. case cw_uuid W w of (i, w') \<Rightarrow> (Inr i, w')) (\<lambda>i.
     io_bind (\<lambda>w. case cw_send W \<lparr>en_protocol_version = IPC_PROTOCOL_VERSION, en_request_id = i, en_request = request\<rparr> w of
         (None, w') \<Rightarrow> (Inl (cli_daemon ''IPC_TIMEOUT: daemon request timed out''), w')
       | (Some r, w') \<Rightarrow> (map_err (\<lambda>e. cli_daemon (error_text e)) r, w')) (\<lambda>answer.
       io_lift (format_response W answer output)))))"

section \<open>The profile that is applied\<close>

lemma check_identities_iff:
  "check_identities ids names ps = Inr () \<longleftrightarrow>
     distinct (map p_id ps) \<and> distinct (map p_name ps) \<and>
     set (map p_id ps) \<inter> ids = {} \<and> set (map p_name ps) \<inter> names = {}"
  by (induction ps arbitrary: ids names) auto

lemma choose_profile_iff:
  "choose_profile ps selector = Inr p \<longleftrightarrow>
     (case selector of Some s \<Rightarrow> filter (selected_by s) ps = [p] | None \<Rightarrow> ps = [p])"
  by (auto simp: choose_profile_def split: option.splits list.splits)

text \<open>
  A profile is sent only if the whole file names its profiles apart, if it is the only one the selector
  means (or the only one), and if it is valid once enabled; and every such profile is sent.
\<close>

lemma selected_profile_exact:
  "select_profile debug X document selector = Inr q \<longleftrightarrow>
     distinct (map p_id (cv_profiles document)) \<and> distinct (map p_name (cv_profiles document)) \<and>
     (\<exists>p. (case selector of Some s \<Rightarrow> filter (selected_by s) (cv_profiles document) = [p]
         | None \<Rightarrow> cv_profiles document = [p]) \<and>
       q = p\<lparr>p_enabled := True\<rparr> \<and> profile_ok X q)"
proof -
  have "validate_profile_identities document = Inr () \<longleftrightarrow>
      distinct (map p_id (cv_profiles document)) \<and> distinct (map p_name (cv_profiles document))"
    by (simp add: validate_profile_identities_def check_identities_iff)
  then show ?thesis
    by (auto simp: select_profile_def and_then_def Let_def map_err_def choose_profile_iff [symmetric]
      validate_profile_Inr_iff [symmetric] split: sum.splits)
qed

end
