(* ===== verification/Spec2Isabelle.thy ===== *)
theory Spec2Isabelle
  imports Domain Topology Primary Plan Planner Policy_Route Crash_Model Text_Numbers Json Inspect Transaction Validation Topology_Parse
    Interface_Settings Nft_Policy Nft_Text Observed Health Daemon_Session Service Cgroup
    Monitor Ipc Journal_File Config_File Controller Bridge Editing Socket Desktop Providers Ctl
begin

text \<open>
  RouteLane: a verification development.

  RouteLane sends the traffic of chosen destinations and applications through chosen network
  interfaces. Three programs share the work. The \<^bold>\<open>interface\<close> (\<open>src/src/main.rs\<close>, \<open>src/src/ui\<close>) edits a
  profile and asks for it to be applied. The \<^bold>\<open>daemon\<close> (\<open>src/src/daemon\<close>, \<open>src/src/ipc\<close>) runs as the
  user: it validates the profile, observes the network, plans, and publishes health and events. The
  \<^bold>\<open>helper\<close> (\<open>src/src/bin/routelane_helper.rs\<close>, \<open>src/src/backend\<close>) runs as root: it authorizes every
  call, validates the plan again, writes a journal, and only then changes routes, rules, the nftables
  table and cgroups, rolling back what fails. Every definition is translated from the Rust source it names
  in the manifest; the theories follow the parts of the program.

  \<^bold>\<open>Shared vocabulary.\<close> \<open>Prelude\<close> (integers, results, \<open>?\<close>-loops, \<open>BTreeMap\<close> as the locale \<open>ordered_map\<close>, machines
  with invariants), \<open>Rust_Text\<close>, \<open>Paths\<close>, \<open>Text_Numbers\<close>, \<open>Utf8\<close> (\<open>str\<close>, \<open>PathBuf\<close>, \<open>IpAddr\<close>, \<open>Duration\<close>),
  \<open>Json\<close> and \<open>Json_Value\<close> (serde), \<open>Effects\<close> and \<open>Effect_Rules\<close> (fallible operations on a world, with \<open>hoare\<close>
  and \<open>keeps\<close>), \<open>Disk\<close> (\<open>std::fs\<close> with a schedule of faults).

  \<^bold>\<open>Configuration.\<close> \<open>Domain\<close> (\<open>src/src/domain\<close>): rules, lanes, profiles; validation accepts exactly the
  declarative \<open>profile_ok\<close>. \<open>Config\<close> (\<open>config.rs\<close>, \<open>config/v2.rs\<close>, \<open>config/v3.rs\<close>): documents, migration,
  what is loaded is valid, migrations keep the rules. \<open>Config_File\<close>: saving and loading on a disk, by the
  interface and by the daemon; at every fault the old or the new file is there.

  \<^bold>\<open>Planning.\<close> \<open>Topology\<close> and \<open>Topology_Parse\<close> (\<open>backend/topology.rs\<close>): the observed network and its reader,
  which never panics and yields well-formed snapshots. \<open>Primary\<close> (\<open>backend/primary.rs\<close>): the selector of the
  primary exit, with consent, steady readiness and failback. \<open>Plan\<close> and \<open>Planner\<close> (\<open>backend/plan.rs\<close>,
  \<open>planner.rs\<close>): the planner is total, accepts exactly the plannable profiles, and its rules mean what the
  profile says. \<open>Validation\<close>: the helper's checks of a plan, and that the planner's plans pass them.

  \<^bold>\<open>Kernel state.\<close> \<open>Policy_Route\<close>, \<open>Transaction\<close>, \<open>Inspect\<close>, \<open>Interface_Settings\<close>, \<open>Nft_Document\<close>, \<open>Nft_Text\<close>
  (the files of these names under \<open>src/src/backend\<close>, and \<open>nftables.rs\<close>): routing steps, the apply transaction over
  any runner, conflict detection, the reverse-path setting, the packet-filter document. \<open>Nft_Policy\<close> says what
  a packet meets in a rendered table. \<open>Health\<close> (\<open>src/src/health\<close>): reports and the comparison of a plan with
  the kernel.

  \<^bold>\<open>The helper\<close> (\<open>backend/privileged.rs\<close>, \<open>runtime.rs\<close>, \<open>runtime_monitor.rs\<close>, \<open>cgroup.rs\<close>, the legacy files,
  \<open>bin/routelane_helper.rs\<close>). \<open>Crash_Model\<close>: which kernel states an interrupted transition, rollback or restore
  can leave, and the test for them. \<open>Journal\<close>, \<open>Journal_File\<close>, \<open>Legacy_Journal\<close>: the journal, its contract as the
  locale \<open>applied_state_store\<close>, and its file. \<open>Command\<close>, \<open>Kernel_Runner\<close>, \<open>Live_State\<close>, \<open>Live_Ownership\<close>,
  \<open>Ownership\<close>: the \<open>ip\<close> and \<open>nft\<close> commands and what is read back before anything is trusted. \<open>Transition\<close>,
  \<open>Backend\<close>, \<open>Orphan\<close>, \<open>Legacy_Cleanup\<close>, \<open>Runtime\<close>, \<open>Runtime_Control\<close>: the handlers. \<open>Reading\<close> and \<open>Write_Ahead\<close>
  are locales over any invariant that queries and allowed commands keep; \<open>Observed\<close> interprets them on the
  handlers, for every kernel, every fault and every restart: the journal goes first. \<open>Service\<close>, \<open>Cgroup\<close>,
  \<open>Helper\<close>, \<open>Monitor\<close>: authorization, cgroups, the bus methods, the monitor.

  \<^bold>\<open>The daemon.\<close> \<open>Daemon_State\<close>, \<open>Daemon\<close> (\<open>daemon/state.rs\<close>, \<open>daemon/service.rs\<close>): its state, operations and
  requests over arbitrary providers; \<open>Daemon_Session\<close>: what holds over whole sessions. \<open>Providers\<close>
  (\<open>daemon/service.rs\<close>, \<open>src/src/dns\<close>): the providers it is built with, and the client of the helper on the bus.
  \<open>Processes\<close> and \<open>Desktop\<close> (\<open>src/src/application\<close>): the processes of an application, and the entries of the
  desktop. \<open>Ipc\<close> and \<open>Socket\<close> (\<open>src/src/ipc\<close>): frames, client, server, and the socket only one daemon may bind.
  \<open>Ctl\<close> (\<open>bin/routelanectl.rs\<close>): the command line client.

  \<^bold>\<open>The interface.\<close> \<open>Bridge\<close> (\<open>main.rs\<close>): the connection to the daemon. \<open>Session\<close> and \<open>Controller\<close>
  (\<open>ui/session.rs\<close>, \<open>ui/controller.rs\<close>): the operation in flight, saving, applying, recovery. \<open>Editing\<close>: what
  the dialogs do to a profile.

  \<^bold>\<open>How the code is read.\<close> A Rust error is \<open>Inl\<close> of the code's own error, a success \<open>Inr\<close>; integers keep their
  width; a panic (\<open>expect\<close>, a poisoned lock, an exhausted counter) is a value of its own, never left out.
  Strings are byte strings. What is not in the repository is a parameter: ipnet and Unicode case tables
  (\<open>foreign\<close>), blake3, serde_json at the document types, the \<open>ip\<close>, \<open>nft\<close> and \<open>systemctl\<close> processes, the
  packet filter's answers to single matches (\<open>facts\<close>), Polkit and the bus, the proc and cgroup file systems,
  the clock, random identifiers, sockets and their timeouts, and the daemon's providers. Properties hold for all of
  them unless a law is named in the statement. The file stores assume that one rename replaces a file
  atomically. The daemon's mutexes are read sequentially, one request after another; the controller's
  asynchronous sends are later inputs of its run.

  \<^bold>\<open>Bounds.\<close> The planner's fallback loop is a partial function, proved total. The fallback walk of validation
  terminates by the lanes not yet visited. \<open>walk\<close> follows at most the number of \<open>goto\<close>s it is given; the
  theorems give the number that the rendered chains use. \<open>remove_loop\<close> takes the source's number of attempts,
  \<open>wait_for_daemon\<close> its six. \<open>forward_events\<close> takes the number of events to be forwarded as an argument.
  Loops that serve forever (\<open>drive_runtime\<close>, \<open>serve_peers\<close>, \<open>daemon_bridge\<close>, the runs of session and
  controller) are runs over an arbitrary list of inputs.

  \<^bold>\<open>Not modelled.\<close> GTK: the windows, dialogs, lists, tray and texts of \<open>src/src/ui\<close> (\<open>window.rs\<close>, \<open>overview.rs\<close>,
  \<open>shell.rs\<close>, \<open>form.rs\<close>, \<open>confirm.rs\<close>, \<open>list_page.rs\<close>, \<open>tray.rs\<close>, \<open>i18n.rs\<close> and the widgets of the other files),
  which call the modelled operations. Process start-up and printing (the \<open>main\<close> of each program,
  \<open>routelane_daemon.rs\<close>, which connects the modelled parts and serves, and the start of the helper).
  \<open>forward_kernel_notifications\<close>, which turns each line of \<open>ip monitor\<close> into a notification.
  The \<open>root-integration\<close> entry points, built for tests only.
\<close>

end
